(* ===== verification/Prelude.thy ===== *)
theory Prelude
  imports Main "HOL-Library.Char_ord" "HOL-Library.List_Lexorder" "HOL-Library.Product_Lexorder"
    "HOL-Library.AList" "HOL-Library.Multiset"
begin

text \<open>
  What the components share: the Go strings and the functions of package \<open>strings\<close> the source
  calls, 64-bit integers, instants of time, results and state-changing operations with errors as
  values, the comparator sort of package \<open>slices\<close>, and Go maps as association lists.

  A Go string is a sequence of bytes, here a \<open>char list\<close>; a character outside ASCII is its
  UTF-8 bytes.
\<close>

named_theorems go_defs \<open>definitions of the small helpers, unfolded on demand\<close>

section \<open>Strings\<close>

subsection \<open>strings.TrimSpace\<close>

text \<open>
  The white space of \<open>unicode.IsSpace\<close>, by its UTF-8 bytes: six ASCII characters, U+0085 and
  U+00A0 in two bytes, and U+1680, U+2000 to U+200A, U+2028, U+2029, U+202F, U+205F and U+3000 in
  three.
\<close>

definition ascii_space :: "char \<Rightarrow> bool" where
  "ascii_space c \<longleftrightarrow> c \<in> {CHR 0x09, CHR 0x0A, CHR 0x0B, CHR 0x0C, CHR 0x0D, CHR 0x20}"

definition space2 :: "char \<Rightarrow> char \<Rightarrow> bool" where
  "space2 a b \<longleftrightarrow> a = CHR 0xC2 \<and> b \<in> {CHR 0x85, CHR 0xA0}"

definition space3 :: "char \<Rightarrow> char \<Rightarrow> char \<Rightarrow> bool" where
  "space3 a b c \<longleftrightarrow>
     a = CHR 0xE1 \<and> b = CHR 0x9A \<and> c = CHR 0x80 \<or>
     a = CHR 0xE2 \<and> b = CHR 0x80 \<and>
       c \<in> {CHR 0x80, CHR 0x81, CHR 0x82, CHR 0x83, CHR 0x84, CHR 0x85, CHR 0x86, CHR 0x87,
             CHR 0x88, CHR 0x89, CHR 0x8A, CHR 0xA8, CHR 0xA9, CHR 0xAF} \<or>
     a = CHR 0xE2 \<and> b = CHR 0x81 \<and> c = CHR 0x9F \<or>
     a = CHR 0xE3 \<and> b = CHR 0x80 \<and> c = CHR 0x80"

text \<open>The number of bytes of the white-space character a string starts with, 0 if none.\<close>

definition space_len :: "string \<Rightarrow> nat" where
  "space_len s = (case s of [] \<Rightarrow> 0 | a # r \<Rightarrow>
     if ascii_space a then 1
     else (case r of [] \<Rightarrow> 0 | b # r' \<Rightarrow>
       if space2 a b then 2
       else (case r' of [] \<Rightarrow> 0 | c # _ \<Rightarrow> if space3 a b c then 3 else 0)))"

text \<open>The same for the last character, on the reversed string.\<close>

definition space_len_rev :: "string \<Rightarrow> nat" where
  "space_len_rev s = (case s of [] \<Rightarrow> 0 | a # r \<Rightarrow>
     if ascii_space a then 1
     else (case r of [] \<Rightarrow> 0 | b # r' \<Rightarrow>
       if space2 b a then 2
       else (case r' of [] \<Rightarrow> 0 | c # _ \<Rightarrow> if space3 c b a then 3 else 0)))"

lemma space_len_le: "space_len s \<le> length s"
  by (auto simp: space_len_def split: list.splits)

lemma space_len_rev_le: "space_len_rev s \<le> length s"
  by (auto simp: space_len_rev_def split: list.splits)

function trim_left :: "string \<Rightarrow> string" where
  "trim_left s = (if space_len s = 0 then s else trim_left (drop (space_len s) s))"
  by pat_completeness auto
termination
  by (relation "measure length") (auto simp: space_len_def split: list.splits if_splits)

declare trim_left.simps [simp del]

function trim_left_rev :: "string \<Rightarrow> string" where
  "trim_left_rev s = (if space_len_rev s = 0 then s else trim_left_rev (drop (space_len_rev s) s))"
  by pat_completeness auto
termination
  by (relation "measure length") (auto simp: space_len_rev_def split: list.splits if_splits)

declare trim_left_rev.simps [simp del]

definition trim_right :: "string \<Rightarrow> string" where
  "trim_right s = rev (trim_left_rev (rev s))"

definition trim_space :: "string \<Rightarrow> string" where
  "trim_space s = trim_right (trim_left s)"

lemma space_len_trim_left [simp]: "space_len (trim_left s) = 0"
proof (induction s rule: trim_left.induct)
  case (1 s)
  then show ?case by (cases "space_len s = 0") (simp_all add: trim_left.simps [of s])
qed

lemma space_len_rev_trim [simp]: "space_len_rev (trim_left_rev s) = 0"
proof (induction s rule: trim_left_rev.induct)
  case (1 s)
  then show ?case by (cases "space_len_rev s = 0") (simp_all add: trim_left_rev.simps [of s])
qed

lemma trim_left_id: "space_len s = 0 \<Longrightarrow> trim_left s = s"
  by (simp add: trim_left.simps)

lemma trim_left_rev_id: "space_len_rev s = 0 \<Longrightarrow> trim_left_rev s = s"
  by (simp add: trim_left_rev.simps)

lemma trim_left_rev_suffix: "\<exists>p. s = p @ trim_left_rev s"
proof (induction s rule: trim_left_rev.induct)
  case (1 s)
  show ?case
  proof (cases "space_len_rev s = 0")
    case False
    with "1.IH" obtain p where "drop (space_len_rev s) s = p @ trim_left_rev (drop (space_len_rev s) s)"
      by blast
    with False have "s = (take (space_len_rev s) s @ p) @ trim_left_rev s"
      by (metis append.assoc append_take_drop_id trim_left_rev.simps)
    then show ?thesis by blast
  qed (simp add: trim_left_rev_id)
qed

lemma trim_right_prefix: "\<exists>q. s = trim_right s @ q"
  using trim_left_rev_suffix [of "rev s"] by (metis rev_append rev_rev_ident trim_right_def)

lemma space_len_prefix: "space_len (p @ q) = 0 \<Longrightarrow> space_len p = 0"
  by (auto simp: space_len_def split: list.splits if_splits)

text \<open>Trimming is idempotent: what the code stores trimmed is a fixed point of later trims.\<close>

lemma trim_space_idem [simp]: "trim_space (trim_space s) = trim_space s"
proof -
  obtain q where "trim_left s = trim_right (trim_left s) @ q" using trim_right_prefix by blast
  then have "space_len (trim_right (trim_left s)) = 0"
    by (metis space_len_prefix space_len_trim_left)
  then show ?thesis
    by (simp add: trim_space_def trim_left_id trim_right_def trim_left_rev_id)
qed

lemma trim_space_Nil [simp]: "trim_space [] = []"
  by (simp add: trim_space_def trim_right_def trim_left_id trim_left_rev_id space_len_def
      space_len_rev_def)

text \<open>A string that neither starts nor ends with white space is a fixed point.\<close>

lemma trim_space_id: "space_len s = 0 \<Longrightarrow> space_len_rev (rev s) = 0 \<Longrightarrow> trim_space s = s"
  by (simp add: trim_space_def trim_right_def trim_left_id trim_left_rev_id)

subsection \<open>strings.ToUpper and strings.ToLower\<close>

text \<open>
  The ASCII letters, and the four characters outside ASCII that Unicode maps to an ASCII letter:
  U+0131 and U+017F (upper case I and S), U+0130 and U+212A (lower case i and k). The other
  characters outside ASCII are kept as they are. The ledger compares the result with ASCII constants
  only, for which that is exact: no other character is mapped to an ASCII one. In the audit log the
  letters outside ASCII of an address or a subject keep their case here; no theorem depends on them.
  Where the case of such letters matters, \<open>to_lower_with\<close> leaves it to a parameter.
\<close>

definition upper_byte :: "char \<Rightarrow> char" where
  "upper_byte c = (let n = (of_char c :: nat) in
     if 97 \<le> n \<and> n \<le> 122 then char_of (n - 32) else c)"

definition lower_byte :: "char \<Rightarrow> char" where
  "lower_byte c = (let n = (of_char c :: nat) in
     if 65 \<le> n \<and> n \<le> 90 then char_of (n + 32) else c)"

fun to_upper :: "string \<Rightarrow> string" where
  "to_upper [] = []"
| "to_upper [a] = [upper_byte a]"
| "to_upper (a # b # r) =
     (if a = CHR 0xC4 \<and> b = CHR 0xB1 then CHR ''I'' # to_upper r
      else if a = CHR 0xC5 \<and> b = CHR 0xBF then CHR ''S'' # to_upper r
      else upper_byte a # to_upper (b # r))"

fun to_lower :: "string \<Rightarrow> string" where
  "to_lower [] = []"
| "to_lower [a] = [lower_byte a]"
| "to_lower (a # b # r) =
     (if a = CHR 0xC4 \<and> b = CHR 0xB0 then CHR ''i'' # to_lower r
      else if a = CHR 0xE2 \<and> b = CHR 0x84 \<and> take 1 r = [CHR 0xAA] then CHR ''k'' # to_lower (drop 1 r)
      else lower_byte a # to_lower (b # r))"

definition is_upper :: "char \<Rightarrow> bool" where
  "is_upper c \<longleftrightarrow> 65 \<le> (of_char c :: nat) \<and> (of_char c :: nat) \<le> 90"

definition is_digit :: "char \<Rightarrow> bool" where
  "is_digit c \<longleftrightarrow> 48 \<le> (of_char c :: nat) \<and> (of_char c :: nat) \<le> 57"

text \<open>Facts about \<open>to_upper\<close>: it is idempotent and makes no white space.\<close>

definition is_lower :: "char \<Rightarrow> bool" where
  "is_lower c \<longleftrightarrow> 97 \<le> (of_char c :: nat) \<and> (of_char c :: nat) \<le> 122"

lemma is_upper_upper_byte [simp]: "is_upper (upper_byte c) \<longleftrightarrow> is_upper c \<or> is_lower c"
  by (auto simp: upper_byte_def is_upper_def is_lower_def Let_def)

lemma upper_byte_id [simp]: "\<not> is_lower c \<Longrightarrow> upper_byte c = c"
  by (auto simp add: upper_byte_def is_lower_def Let_def)

lemma not_lower_upper_byte [simp]: "\<not> is_lower (upper_byte c)"
  by (auto simp: upper_byte_def is_lower_def Let_def)

lemma is_lower_consts [simp]: "\<not> is_lower (CHR ''I'')" "\<not> is_lower (CHR ''S'')"
  "is_upper (CHR ''I'')" "is_upper (CHR ''S'')"
  by (simp_all add: is_upper_def is_lower_def)

lemma to_upper_other:
  "\<not> (a = CHR 0xC4 \<and> b = CHR 0xB1) \<Longrightarrow> \<not> (a = CHR 0xC5 \<and> b = CHR 0xBF) \<Longrightarrow>
   to_upper (a # b # r) = upper_byte a # to_upper (b # r)"
  by auto

lemma to_upper_plain: "list_all (\<lambda>b. \<not> is_upper b) (to_upper s) \<Longrightarrow> to_upper s = s"
  by (induction s rule: to_upper.induct) (auto split: if_splits)

lemma to_upper_suffix:
  "to_upper s = p @ t \<Longrightarrow> list_all (\<lambda>b. \<not> is_upper b) t \<Longrightarrow> \<exists>q. s = q @ t"
proof (induction s arbitrary: p rule: to_upper.induct)
  case 1
  then show ?case by simp
next
  case (2 a)
  then show ?case by (cases p) auto
next
  case (3 a b r)
  show ?case
  proof (cases p)
    case Nil
    then show ?thesis using to_upper_plain [of "a # b # r"] "3.prems" by simp
  next
    case (Cons c p')
    consider "a = CHR 0xC4 \<and> b = CHR 0xB1" | "a = CHR 0xC5 \<and> b = CHR 0xBF"
      | "\<not> (a = CHR 0xC4 \<and> b = CHR 0xB1)" "\<not> (a = CHR 0xC5 \<and> b = CHR 0xBF)" by blast
    then show ?thesis
    proof cases
      case 1
      then obtain q where "r = q @ t" using "3.IH"(1) [OF 1, of p'] "3.prems" Cons by auto
      then show ?thesis by (intro exI [of _ "a # b # q"]) simp
    next
      case 2
      then have "\<not> (a = CHR 0xC4 \<and> b = CHR 0xB1)" by auto
      then obtain q where "r = q @ t" using "3.IH"(2) [OF _ 2, of p'] "3.prems" Cons 2 by auto
      then show ?thesis by (intro exI [of _ "a # b # q"]) simp
    next
      case 3
      then have "to_upper (b # r) = p' @ t" using "3.prems"(1) Cons to_upper_other [OF 3] by simp
      then obtain q where "b # r = q @ t" using "3.IH"(3) [OF 3, of p'] "3.prems"(2) by auto
      then show ?thesis by (intro exI [of _ "a # q"]) simp
    qed
  qed
qed

lemma to_upper_prefix:
  "to_upper s = t @ p \<Longrightarrow> list_all (\<lambda>b. \<not> is_upper b) t \<Longrightarrow> \<exists>q. s = t @ q"
proof (induction s arbitrary: t rule: to_upper.induct)
  case (3 a b r)
  show ?case
  proof (cases t)
    case (Cons c t')
    have "\<not> (a = CHR 0xC4 \<and> b = CHR 0xB1)" "\<not> (a = CHR 0xC5 \<and> b = CHR 0xBF)"
      using "3.prems" Cons by (auto split: if_splits)
    note no = this
    have "upper_byte a # to_upper (b # r) = c # t' @ p"
      using "3.prems"(1) Cons to_upper_other [OF no, of r] by simp
    then have u: "to_upper (b # r) = t' @ p" and c: "upper_byte a = c" by blast+
    have "\<not> is_upper c" using "3.prems"(2) Cons by simp
    then have "c = a" unfolding c [symmetric] by simp
    with u show ?thesis using "3.IH"(3) [OF no, of t'] "3.prems"(2) Cons by simp
  qed simp
next
  case (2 a)
  then show ?case by (cases t) auto
qed simp

lemma to_upper_hd: "to_upper (b # r) = c # r' \<Longrightarrow> \<not> is_upper c \<Longrightarrow> c = b"
  by (cases r) (auto split: if_splits)

lemma to_upper_idem [simp]: "to_upper (to_upper s) = to_upper s"
proof (induction s rule: to_upper.induct)
  case (3 a b r)
  have high: "\<not> is_upper (CHR 0xB1)" "\<not> is_upper (CHR 0xBF)" "\<not> is_upper (CHR 0xC4)" "\<not> is_upper (CHR 0xC5)"
    by (simp_all add: is_upper_def)
  have letters: "to_upper (CHR ''I'' # u) = CHR ''I'' # to_upper u"
    "to_upper (CHR ''S'' # u) = CHR ''S'' # to_upper u" for u
    by (cases u; simp)+
  consider "a = CHR 0xC4 \<and> b = CHR 0xB1" | "a = CHR 0xC5 \<and> b = CHR 0xBF"
    | "\<not> (a = CHR 0xC4 \<and> b = CHR 0xB1)" "\<not> (a = CHR 0xC5 \<and> b = CHR 0xBF)" by blast
  then show ?case
  proof cases
    case 1
    then show ?thesis using "3.IH"(1) by (simp add: letters)
  next
    case 2
    then show ?thesis using "3.IH"(2) by (simp add: letters)
  next
    case 3
    have "to_upper (b # r) \<noteq> []" by (cases r) simp_all
    then obtain c u where u: "to_upper (b # r) = c # u" unfolding neq_Nil_conv by blast
    have a: "upper_byte a = x \<Longrightarrow> \<not> is_upper x \<Longrightarrow> a = x" for x
      by (metis is_upper_upper_byte upper_byte_id)
    have "\<not> (upper_byte a = CHR 0xC4 \<and> c = CHR 0xB1)" "\<not> (upper_byte a = CHR 0xC5 \<and> c = CHR 0xBF)"
      using 3 to_upper_hd [OF u] high a by metis+
    then have "to_upper (upper_byte a # c # u) = upper_byte a # to_upper (c # u)"
      by (simp add: to_upper_other)
    then show ?thesis using "3.IH"(3) [OF 3] to_upper_other [OF 3, of r] u by simp
  qed
qed simp_all

lemma space_bytes:
  "ascii_space c \<Longrightarrow> \<not> is_upper c"
  "space2 a b \<Longrightarrow> \<not> is_upper a \<and> \<not> is_upper b"
  "space3 a b c \<Longrightarrow> \<not> is_upper a \<and> \<not> is_upper b \<and> \<not> is_upper c"
  by (auto simp: ascii_space_def space2_def space3_def is_upper_def)

lemma space_len_cases:
  "space_len s \<noteq> 0 \<longleftrightarrow>
    (\<exists>a r. s = [a] @ r \<and> ascii_space a) \<or> (\<exists>a b r. s = [a, b] @ r \<and> space2 a b) \<or>
    (\<exists>a b c r. s = [a, b, c] @ r \<and> space3 a b c)"
  by (auto simp: space_len_def split: list.splits)

lemma space_len_rev_cases:
  "space_len_rev t \<noteq> 0 \<longleftrightarrow>
    (\<exists>a r. t = [a] @ r \<and> ascii_space a) \<or> (\<exists>a b r. t = [b, a] @ r \<and> space2 a b) \<or>
    (\<exists>a b c r. t = [c, b, a] @ r \<and> space3 a b c)"
  by (auto simp: space_len_rev_def split: list.splits)

text \<open>Mapping to upper case makes no white space at either end.\<close>

lemma space_len_to_upper: "space_len (to_upper s) \<noteq> 0 \<Longrightarrow> space_len s \<noteq> 0"
  unfolding space_len_cases
  by (elim disjE exE conjE; drule to_upper_prefix; use space_bytes in fastforce)

lemma space_len_rev_to_upper:
  assumes "space_len_rev (rev (to_upper s)) \<noteq> 0"
  shows "space_len_rev (rev s) \<noteq> 0"
proof -
  have suffix: "\<exists>q. rev s = t @ q" if "rev (to_upper s) = t @ r" "list_all (\<lambda>b. \<not> is_upper b) t" for t r
  proof -
    have "to_upper s = rev r @ rev t" using that(1) by (metis rev_append rev_rev_ident)
    moreover have "list_all (\<lambda>b. \<not> is_upper b) (rev t)" using that(2) by simp
    ultimately obtain q where "s = q @ rev t" using to_upper_suffix by blast
    then show ?thesis by simp
  qed
  show ?thesis using assms unfolding space_len_rev_cases
    by - (elim disjE exE conjE; drule suffix; use space_bytes in fastforce)
qed

lemma trim_space_to_upper:
  "space_len s = 0 \<Longrightarrow> space_len_rev (rev s) = 0 \<Longrightarrow> trim_space (to_upper s) = to_upper s"
  using space_len_to_upper [of s] space_len_rev_to_upper [of s] by (intro trim_space_id) auto

lemma trim_space_ends: "space_len (trim_space s) = 0 \<and> space_len_rev (rev (trim_space s)) = 0"
proof -
  obtain q where "trim_left s = trim_right (trim_left s) @ q" using trim_right_prefix by blast
  then have "space_len (trim_right (trim_left s)) = 0"
    by (metis space_len_prefix space_len_trim_left)
  then show ?thesis by (simp add: trim_space_def trim_right_def)
qed

text \<open>So upper-casing a trimmed string is idempotent.\<close>

lemma upper_trim_twice [simp]:
  "to_upper (trim_space (to_upper (trim_space s))) = to_upper (trim_space s)"
  using trim_space_to_upper trim_space_ends by simp
subsection \<open>Counting characters: len([]rune(s))\<close>

text \<open>
  The width of the first UTF-8 encoding of a string as Go decodes it: a byte that starts no valid
  encoding is one character (U+FFFD) of one byte.
\<close>

definition cont_byte :: "nat \<Rightarrow> nat \<Rightarrow> char \<Rightarrow> bool" where
  "cont_byte lo hi c \<longleftrightarrow> lo \<le> (of_char c :: nat) \<and> (of_char c :: nat) \<le> hi"

definition rune_width :: "string \<Rightarrow> nat" where
  "rune_width s = (case s of [] \<Rightarrow> 0 | a # r \<Rightarrow>
     let n = (of_char a :: nat);
         lo = (if n = 0xE0 then 0xA0 else if n = 0xF0 then 0x90 else 0x80);
         hi = (if n = 0xED then 0x9F else if n = 0xF4 then 0x8F else 0xBF);
         need = (if 0xC2 \<le> n \<and> n \<le> 0xDF then 1 else if 0xE0 \<le> n \<and> n \<le> 0xEF then 2
                 else if 0xF0 \<le> n \<and> n \<le> 0xF4 then 3 else (0::nat))
     in if need \<le> length r \<and> 0 < need \<and> cont_byte lo hi (hd r)
           \<and> list_all (cont_byte 0x80 0xBF) (take (need - 1) (tl r))
        then Suc need else 1)"

lemma rune_width_pos: "0 < rune_width (a # r)"
  by (simp add: rune_width_def Let_def)

function rune_count :: "string \<Rightarrow> nat" where
  "rune_count s = (if s = [] then 0 else Suc (rune_count (drop (rune_width s) s)))"
  by pat_completeness auto
termination
proof (relation "measure length", goal_cases)
  case (2 s)
  then obtain a r where "s = a # r" by (cases s) auto
  then show ?case using rune_width_pos [of a r] by simp
qed simp

declare rune_count.simps [simp del]

lemma rune_count_le_length: "rune_count s \<le> length s"
proof (induction s rule: rune_count.induct)
  case (1 s)
  show ?case
  proof (cases s)
    case (Cons a r)
    then have "rune_count (drop (rune_width s) s) \<le> length s - rune_width s"
      using "1.IH" by simp
    moreover have "length s - rune_width s < length s"
      using Cons rune_width_pos [of a r] by simp
    ultimately have "rune_count (drop (rune_width s) s) < length s" by (rule le_less_trans)
    moreover have "s \<noteq> []" using Cons by simp
    ultimately show ?thesis by (subst rune_count.simps) simp
  qed (simp add: rune_count.simps)
qed

subsection \<open>Trimmed unique values\<close>

text \<open>
  The loop of \<open>normalizeTags\<close>, \<open>normalizeIDs\<close>, \<open>normalizeAppliedEntryIDs\<close>: each value is trimmed,
  blanks and values already seen are skipped, the order of the input is kept. \<open>seen\<close> is the list
  built so far.
\<close>

fun trimmed_unique_from :: "string list \<Rightarrow> string list \<Rightarrow> string list" where
  "trimmed_unique_from seen [] = seen"
| "trimmed_unique_from seen (x # xs) =
     (let t = trim_space x in
      if t = [] \<or> t \<in> set seen then trimmed_unique_from seen xs
      else trimmed_unique_from (seen @ [t]) xs)"

definition trimmed_unique :: "string list \<Rightarrow> string list" where
  "trimmed_unique xs = trimmed_unique_from [] xs"

lemma set_trimmed_unique_from:
  "set (trimmed_unique_from seen xs) = set seen \<union> (trim_space ` set xs - {[]})"
  by (induction seen xs rule: trimmed_unique_from.induct) (auto simp: Let_def)

lemma distinct_trimmed_unique_from: "distinct seen \<Longrightarrow> distinct (trimmed_unique_from seen xs)"
  by (induction seen xs rule: trimmed_unique_from.induct) (auto simp: Let_def)

lemma trimmed_unique_from_id:
  "distinct (seen @ xs) \<Longrightarrow> list_all (\<lambda>x. trim_space x = x \<and> x \<noteq> []) xs \<Longrightarrow>
   trimmed_unique_from seen xs = seen @ xs"
  by (induction seen xs rule: trimmed_unique_from.induct) (auto simp: Let_def)

lemma set_trimmed_unique: "set (trimmed_unique xs) = trim_space ` set xs - {[]}"
  by (simp add: trimmed_unique_def set_trimmed_unique_from)

lemma distinct_trimmed_unique: "distinct (trimmed_unique xs)"
  by (simp add: trimmed_unique_def distinct_trimmed_unique_from)

lemma trimmed_unique_idem [simp]: "trimmed_unique (trimmed_unique xs) = trimmed_unique xs"
proof -
  have "list_all (\<lambda>x. trim_space x = x \<and> x \<noteq> []) (trimmed_unique xs)"
    by (auto simp: list_all_iff set_trimmed_unique)
  then show ?thesis
    using trimmed_unique_from_id [of "[]" "trimmed_unique xs"] distinct_trimmed_unique [of xs]
    by (simp add: trimmed_unique_def)
qed

section \<open>64-bit integers\<close>

text \<open>Go's \<open>int\<close> and \<open>int64\<close>: two's complement arithmetic on 64 bits.\<close>

definition int64 :: "int \<Rightarrow> int" where
  "int64 x = (x + 2 ^ 63) mod 2 ^ 64 - 2 ^ 63"

definition in_int64 :: "int \<Rightarrow> bool" where
  "in_int64 x \<longleftrightarrow> - (2 ^ 63) \<le> x \<and> x < 2 ^ 63"

lemma int64_id: "in_int64 x \<Longrightarrow> int64 x = x"
  by (simp add: int64_def in_int64_def)

lemma in_int64_int64 [simp]: "in_int64 (int64 x)"
proof -
  have "0 \<le> (x + 2 ^ 63) mod 2 ^ 64" "(x + 2 ^ 63) mod 2 ^ 64 < (2 ^ 64 :: int)" by simp_all
  then show ?thesis by (simp add: int64_def in_int64_def)
qed

lemma int64_cong: "x mod 2 ^ 64 = y mod 2 ^ 64 \<Longrightarrow> int64 x = int64 y"
  unfolding int64_def by (metis mod_add_left_eq)

lemma int64_mod: "int64 x mod 2 ^ 64 = x mod 2 ^ 64"
  unfolding int64_def by (simp add: mod_diff_left_eq)

text \<open>Wrapping at every step of a sum is wrapping once at the end.\<close>

lemma int64_add_left [simp]: "int64 (int64 x + y) = int64 (x + y)"
  by (rule int64_cong) (metis int64_mod mod_add_left_eq)

lemma int64_add_right [simp]: "int64 (x + int64 y) = int64 (x + y)"
  by (metis add.commute int64_add_left)

lemma int64_diff_left [simp]: "int64 (int64 x - y) = int64 (x - y)"
  by (rule int64_cong) (metis int64_mod mod_diff_left_eq)

lemma int64_diff_right [simp]: "int64 (x - int64 y) = int64 (x - y)"
  by (rule int64_cong) (metis int64_mod mod_diff_right_eq)

lemma int64_idem [simp]: "int64 (int64 x) = int64 x"
  by (simp add: int64_id)

section \<open>Time\<close>

text \<open>
  An instant is its distance in nanoseconds from Go's zero \<open>time.Time\<close> (1 January of year 1, 0:00
  UTC). \<open>UTC()\<close> changes the location only, not the instant. The day of an instant and the next
  day are those of UTC, where every day has 86400 seconds.
\<close>

type_synonym time = int

definition zero_time :: time where
  "zero_time = 0"

definition second :: int where
  "second = 1000000000"

definition minute :: int where
  "minute = 60 * second"

definition hour :: int where
  "hour = 60 * minute"

definition day :: int where
  "day = 24 * hour"

definition day_start :: "time \<Rightarrow> time" where
  "day_start t = t - t mod day"

lemma day_pos: "0 < day"
  by (simp add: day_def hour_def minute_def second_def)

lemma day_start_le: "day_start t \<le> t"
  using day_pos by (simp add: day_start_def)

lemma day_start_next: "t < day_start t + day"
  using pos_mod_bound [OF day_pos, of t] by (simp add: day_start_def)
end
