(* ===== verification/Effects.thy ===== *)
theory Effects
  imports Prelude
begin

text \<open>
  Errors, state-changing operations, the sort of package \<open>slices\<close> and Go maps.

  A Go function that returns \<open>(T, error)\<close> is a function into \<open>'e + 'a\<close>: \<open>Inl e\<close> for a non-nil
  error, \<open>Inr x\<close> for a result. A method that also changes the state behind its receiver is an
  \<open>act\<close>: it takes the state and returns the result together with the new state. The state is
  returned with an error too, because Go does not undo the writes made before a later call fails.
\<close>

section \<open>Results\<close>

primrec rbind :: "'e + 'a \<Rightarrow> ('a \<Rightarrow> 'e + 'b) \<Rightarrow> 'e + 'b" where
  "rbind (Inl e) f = Inl e"
| "rbind (Inr x) f = f x"

definition rguard :: "bool \<Rightarrow> 'e \<Rightarrow> 'e + unit" where
  "rguard b e = (if b then Inr () else Inl e)"

lemma rbind_Inr_iff: "rbind m f = Inr y \<longleftrightarrow> (\<exists>x. m = Inr x \<and> f x = Inr y)"
  by (cases m) auto

lemma rbind_Inl_iff: "rbind m f = Inl e \<longleftrightarrow> m = Inl e \<or> (\<exists>x. m = Inr x \<and> f x = Inl e)"
  by (cases m) auto

lemma rguard_Inr_iff [simp]: "rguard b e = Inr u \<longleftrightarrow> b"
  by (simp add: rguard_def)

lemma rguard_Inl_iff [simp]: "rguard b e = Inl e' \<longleftrightarrow> \<not> b \<and> e' = e"
  by (auto simp: rguard_def)

lemma rguard_True [simp]: "rguard True e = Inr ()"
  by (simp add: rguard_def)

lemma rguard_False [simp]: "rguard False e = Inl e"
  by (simp add: rguard_def)

definition is_ok :: "'e + 'a \<Rightarrow> bool" where
  "is_ok r = (case r of Inl _ \<Rightarrow> False | Inr _ \<Rightarrow> True)"

lemma is_ok_simps [simp]: "is_ok (Inr x)" "\<not> is_ok (Inl e)"
  by (simp_all add: is_ok_def)

lemma is_ok_iff: "is_ok r \<longleftrightarrow> (\<exists>x. r = Inr x)"
  by (cases r) auto

section \<open>State-changing operations\<close>

type_synonym ('s, 'e, 'a) act = "'s \<Rightarrow> ('e + 'a) \<times> 's"

definition aret :: "'a \<Rightarrow> ('s, 'e, 'a) act" where
  "aret x s = (Inr x, s)"

definition afail :: "'e \<Rightarrow> ('s, 'e, 'a) act" where
  "afail e s = (Inl e, s)"

definition aread :: "('s \<Rightarrow> 'e + 'a) \<Rightarrow> ('s, 'e, 'a) act" where
  "aread f s = (f s, s)"

definition aguard :: "bool \<Rightarrow> 'e \<Rightarrow> ('s, 'e, unit) act" where
  "aguard b e s = (if b then Inr () else Inl e, s)"

definition abind :: "('s, 'e, 'a) act \<Rightarrow> ('a \<Rightarrow> ('s, 'e, 'b) act) \<Rightarrow> ('s, 'e, 'b) act" where
  "abind m f s = (case m s of (Inl e, t) \<Rightarrow> (Inl e, t) | (Inr x, t) \<Rightarrow> f x t)"

text \<open>One call after another, with the first error returned as it is.\<close>

lemma abind_Inr_iff:
  "abind m f s = (Inr y, u) \<longleftrightarrow> (\<exists>x t. m s = (Inr x, t) \<and> f x t = (Inr y, u))"
  by (auto simp: abind_def split: prod.splits sum.splits)

lemma abind_Inl_iff:
  "abind m f s = (Inl e, u) \<longleftrightarrow>
   m s = (Inl e, u) \<or> (\<exists>x t. m s = (Inr x, t) \<and> f x t = (Inl e, u))"
  by (auto simp: abind_def split: prod.splits sum.splits)

lemma aret_iff [simp]: "aret x s = (r, t) \<longleftrightarrow> r = Inr x \<and> t = s"
  by (auto simp: aret_def)

lemma afail_iff [simp]: "afail e s = (r, t) \<longleftrightarrow> r = Inl e \<and> t = s"
  by (auto simp: afail_def)

lemma aread_iff [simp]: "aread f s = (r, t) \<longleftrightarrow> f s = r \<and> t = s"
  by (auto simp: aread_def)

lemma aguard_iff [simp]: "aguard b e s = (r, t) \<longleftrightarrow> r = (if b then Inr () else Inl e) \<and> t = s"
  by (auto simp: aguard_def)

lemma abind_aread: "abind (aread f) g s = (case f s of Inl e \<Rightarrow> (Inl e, s) | Inr x \<Rightarrow> g x s)"
  by (simp add: abind_def aread_def)

lemma abind_aguard: "abind (aguard b e) g s = (if b then g () s else (Inl e, s))"
  by (simp add: abind_def aguard_def)

lemma abind_aret [simp]: "abind (aret x) g s = g x s"
  by (simp add: abind_def aret_def)

lemma abind_afail [simp]: "abind (afail e) g s = (Inl e, s)"
  by (simp add: abind_def afail_def)

lemmas act_simps = abind_aread abind_aguard
lemmas act_iffs = abind_Inr_iff abind_Inl_iff
lemmas act_defs = abind_def aread_def aguard_def aret_def afail_def

text \<open>
  An operation whose writes all come last leaves the state alone when it fails. The rules follow
  the shape of the operation: reads and guards first, one writing call at the end.
\<close>

definition fails_clean :: "('s, 'e, 'a) act \<Rightarrow> bool" where
  "fails_clean m \<longleftrightarrow> (\<forall>s e t. m s = (Inl e, t) \<longrightarrow> t = s)"

definition never_writes :: "('s, 'e, 'a) act \<Rightarrow> bool" where
  "never_writes m \<longleftrightarrow> (\<forall>s r t. m s = (r, t) \<longrightarrow> t = s)"

lemma fails_cleanD: "fails_clean m \<Longrightarrow> m s = (Inl e, t) \<Longrightarrow> t = s"
  by (auto simp: fails_clean_def)

lemma never_writesD: "never_writes m \<Longrightarrow> m s = (r, t) \<Longrightarrow> t = s"
  by (auto simp: never_writes_def)

lemma never_writes_basic:
  "never_writes (aret x)" "never_writes (afail e)" "never_writes (aread f)" "never_writes (aguard b e)"
  by (auto simp: never_writes_def)

lemma never_writes_bind:
  "never_writes m \<Longrightarrow> (\<And>x. never_writes (f x)) \<Longrightarrow> never_writes (abind m f)"
  unfolding never_writes_def abind_def by (fastforce split: prod.splits sum.splits)

lemma fails_clean_read: "never_writes m \<Longrightarrow> fails_clean m"
  by (auto simp: never_writes_def fails_clean_def)

lemma fails_clean_bind:
  "never_writes m \<Longrightarrow> (\<And>x. fails_clean (f x)) \<Longrightarrow> fails_clean (abind m f)"
  unfolding never_writes_def fails_clean_def abind_def by (fastforce split: prod.splits sum.splits)

lemma fails_clean_map:
  "fails_clean m \<Longrightarrow> fails_clean (abind m (\<lambda>x. aret (f x)))"
  unfolding fails_clean_def abind_def by (auto split: prod.splits sum.splits)

lemma fails_clean_if:
  "fails_clean m \<Longrightarrow> fails_clean n \<Longrightarrow> fails_clean (if b then m else n)"
  by simp

lemma never_writes_if:
  "never_writes m \<Longrightarrow> never_writes n \<Longrightarrow> never_writes (if b then m else n)"
  by simp

lemma fails_clean_let: "fails_clean (f x) \<Longrightarrow> fails_clean (let y = x in f y)"
  by simp

lemma fails_clean_prod: "(\<And>a b. fails_clean (f a b)) \<Longrightarrow> fails_clean (case p of (a, b) \<Rightarrow> f a b)"
  by (cases p) simp

lemma fails_clean_map2:
  "fails_clean m \<Longrightarrow> fails_clean (abind m (\<lambda>(x, y). aret (f x y)))"
  using fails_clean_map [of m "\<lambda>(x, y). f x y"] by (simp add: case_prod_unfold)

lemma fails_clean_cases:
  "(\<And>x. fails_clean (f x)) \<Longrightarrow> (\<And>y. fails_clean (g y)) \<Longrightarrow> fails_clean (case r of Inl x \<Rightarrow> f x | Inr y \<Rightarrow> g y)"
  "fails_clean h \<Longrightarrow> (\<And>z. fails_clean (k z)) \<Longrightarrow> fails_clean (case q of None \<Rightarrow> h | Some z \<Rightarrow> k z)"
  by (simp_all split: sum.split option.split)

text \<open>The rules in the order in which they are tried: a last write first.\<close>

lemmas clean_rules = fails_clean_map fails_clean_map2 fails_clean_bind fails_clean_prod
  fails_clean_cases fails_clean_if never_writes_basic never_writes_bind
  never_writes_basic [THEN fails_clean_read]

section \<open>slices.SortFunc\<close>

text \<open>
  \<open>slices.SortFunc\<close> with a comparator: the insertion sort it runs on up to 12 elements, where the
  next element moves left past the elements it compares less than (the sorted part is kept
  reversed here, nearest neighbour first). For a comparator that orders by a key the result is
  the list sorted by that key, whatever the length; on longer lists the library may leave elements
  with equal keys in another order, which no statement here depends on.
\<close>

fun insert_back :: "('a \<Rightarrow> 'a \<Rightarrow> int) \<Rightarrow> 'a \<Rightarrow> 'a list \<Rightarrow> 'a list" where
  "insert_back cmp x [] = [x]"
| "insert_back cmp x (y # ys) = (if cmp x y < 0 then y # insert_back cmp x ys else x # y # ys)"

definition sort_func :: "('a \<Rightarrow> 'a \<Rightarrow> int) \<Rightarrow> 'a list \<Rightarrow> 'a list" where
  "sort_func cmp xs = rev (fold (insert_back cmp) xs [])"

lemma mset_insert_back [simp]: "mset (insert_back cmp x ys) = {#x#} + mset ys"
  by (induction ys) auto

lemma set_insert_back [simp]: "set (insert_back cmp x ys) = insert x (set ys)"
  by (induction ys) auto

lemma sort_func_snoc: "sort_func cmp (xs @ [x]) = rev (insert_back cmp x (rev (sort_func cmp xs)))"
  by (simp add: sort_func_def)

lemma mset_sort_func [simp]: "mset (sort_func cmp xs) = mset xs"
  by (induction xs rule: rev_induct) (simp_all add: sort_func_snoc, simp add: sort_func_def)

lemma set_sort_func [simp]: "set (sort_func cmp xs) = set xs"
  using mset_sort_func by (rule mset_eq_setD)

lemma length_sort_func [simp]: "length (sort_func cmp xs) = length xs"
  using mset_sort_func by (rule mset_eq_length)

lemma distinct_sort_func [simp]: "distinct (sort_func cmp xs) = distinct xs"
  by (rule mset_eq_imp_distinct_iff) simp

lemma distinct_map_sort_func [simp]:
  "distinct (map f (sort_func cmp xs)) = distinct (map f xs)"
  by (rule mset_eq_imp_distinct_iff) (metis mset_map mset_sort_func)

lemma sorted_insert_back:
  assumes "\<And>x y. cmp x y < 0 \<longleftrightarrow> key x < (key y :: 'k :: linorder)"
  shows "sorted_wrt (\<lambda>a b. key b \<le> key a) ys \<Longrightarrow>
    sorted_wrt (\<lambda>a b. key b \<le> key a) (insert_back cmp x ys)"
  by (induction ys) (auto simp: assms)

lemma filter_insert_back:
  assumes "\<And>x y. cmp x y < 0 \<longleftrightarrow> key x < (key y :: 'k :: linorder)"
  shows "filter (\<lambda>z. k = key z) (insert_back cmp x ys) =
    (if k = key x then x # filter (\<lambda>z. k = key z) ys else filter (\<lambda>z. k = key z) ys)"
  by (induction ys) (auto simp: assms)

lemma sort_func_key:
  assumes cmp: "\<And>x y. cmp x y < 0 \<longleftrightarrow> key x < (key y :: 'k :: linorder)"
  shows "sort_func cmp xs = sort_key key xs"
proof -
  have "sorted_wrt (\<lambda>a b. key b \<le> key a) (rev (sort_func cmp xs))"
    by (induction xs rule: rev_induct)
      (simp_all add: sort_func_snoc sorted_insert_back [OF cmp], simp add: sort_func_def)
  then have sorted: "sorted (map key (sort_func cmp xs))"
    by (simp add: sorted_wrt_rev sorted_wrt_map)
  have stable: "filter (\<lambda>z. k = key z) (sort_func cmp xs) = filter (\<lambda>z. k = key z) xs" for k
    by (induction xs rule: rev_induct)
      (auto simp add: sort_func_snoc filter_insert_back [OF cmp] simp flip: rev_filter,
        simp_all add: sort_func_def)
  show ?thesis
    by (rule sym, rule properties_for_sort_key) (simp_all add: stable sorted)
qed

lemma insert_back_cong:
  "(\<And>y. y \<in> set ys \<Longrightarrow> cmp x y < 0 \<longleftrightarrow> cmp' x y < 0) \<Longrightarrow>
   insert_back cmp x ys = insert_back cmp' x ys"
  by (induction ys) auto

lemma sort_func_cong:
  "(\<And>x y. x \<in> set xs \<Longrightarrow> y \<in> set xs \<Longrightarrow> cmp x y < 0 \<longleftrightarrow> cmp' x y < 0) \<Longrightarrow>
   sort_func cmp xs = sort_func cmp' xs"
proof (induction xs rule: rev_induct)
  case (snoc x xs)
  then have "sort_func cmp xs = sort_func cmp' xs" by simp
  moreover have "insert_back cmp x (rev (sort_func cmp' xs)) = insert_back cmp' x (rev (sort_func cmp' xs))"
    by (rule insert_back_cong) (simp add: snoc.prems)
  ultimately show ?case by (simp add: sort_func_snoc)
qed (simp add: sort_func_def)

text \<open>The same for a comparator that orders the elements of the list at hand by a key.\<close>

lemma sort_func_key_on:
  assumes "\<And>x y. x \<in> set xs \<Longrightarrow> y \<in> set xs \<Longrightarrow> cmp x y < 0 \<longleftrightarrow> key x < (key y :: 'k :: linorder)"
  shows "sort_func cmp xs = sort_key key xs"
proof -
  let ?cmp = "\<lambda>x y. if key x < key y then -1 else (0::int)"
  have "sort_func cmp xs = sort_func ?cmp xs"
    by (rule sort_func_cong) (simp add: assms)
  also have "\<dots> = sort_key key xs" by (rule sort_func_key) simp
  finally show ?thesis .
qed

text \<open>\<open>cmpString\<close>, the comparator of the stores, orders strings by their bytes.\<close>

definition cmp_string :: "string \<Rightarrow> string \<Rightarrow> int" where
  "cmp_string left right = (if left < right then -1 else if right < left then 1 else 0)"

lemma cmp_string_neg [simp]: "cmp_string a b < 0 \<longleftrightarrow> a < b"
  by (simp add: cmp_string_def)

lemma cmp_string_zero [simp]: "cmp_string a b = 0 \<longleftrightarrow> a = b"
  by (auto simp: cmp_string_def)

text \<open>A filtered list by a key that is unique in it has at most one element.\<close>

lemma distinct_map_filter: "distinct (map f xs) \<Longrightarrow> distinct (map f (filter P xs))"
  by (induction xs) auto

lemma find_distinct:
  "distinct (map f xs) \<Longrightarrow> x \<in> set xs \<Longrightarrow> find (\<lambda>y. f y = f x) xs = Some x"
  by (induction xs) (auto simp: rev_image_eqI)

lemma find_append: "find P (xs @ ys) = (case find P xs of None \<Rightarrow> find P ys | Some x \<Rightarrow> Some x)"
  by (induction xs) auto

lemma find_key_Some_iff:
  "distinct (map f xs) \<Longrightarrow> find (\<lambda>x. f x = k) xs = Some x \<longleftrightarrow> x \<in> set xs \<and> f x = k"
  using find_distinct [of f xs] by (auto simp: find_Some_iff)

lemma find_mset:
  assumes "mset xs = mset ys" and "distinct (map f xs)"
  shows "find (\<lambda>x. f x = k) xs = find (\<lambda>x. f x = k) ys"
proof -
  have ys: "distinct (map f ys)" using assms by (metis mset_eq_imp_distinct_iff mset_map)
  have set: "set xs = set ys" using assms(1) by (rule mset_eq_setD)
  show ?thesis
  proof (cases "\<exists>x \<in> set xs. f x = k")
    case True
    then obtain x where x: "x \<in> set xs" "f x = k" by blast
    then have k: "k = f x" by simp
    have "find (\<lambda>y. f y = k) xs = Some x"
      unfolding k using assms(2) x(1) by (rule find_distinct)
    moreover have "find (\<lambda>y. f y = k) ys = Some x"
      unfolding k using ys x(1) [unfolded set] by (rule find_distinct)
    ultimately show ?thesis by simp
  next
    case False
    then have "find (\<lambda>x. f x = k) xs = None" by (auto simp: find_None_iff)
    moreover from False set have "find (\<lambda>x. f x = k) ys = None" by (auto simp: find_None_iff)
    ultimately show ?thesis by simp
  qed
qed

lemma find_sort_func:
  "distinct (map f xs) \<Longrightarrow> find (\<lambda>x. f x = k) (sort_func cmp xs) = find (\<lambda>x. f x = k) xs"
  by (rule find_mset) simp_all

section \<open>Go maps\<close>

text \<open>
  A Go map is an association list with one pair per key: \<open>map_of m k\<close> is \<open>m[k]\<close>,
  \<open>AList.update k v m\<close> is \<open>m[k] = v\<close> and \<open>AList.delete k m\<close> is \<open>delete(m, k)\<close>. Go iterates in no
  fixed order; every iteration modelled here is followed by a sort by a key that is unique.
\<close>

definition keys_ok :: "('v \<Rightarrow> 'k) \<Rightarrow> ('k \<times> 'v) list \<Rightarrow> bool" where
  "keys_ok key m \<longleftrightarrow> distinct (map fst m) \<and> list_all (\<lambda>(k, v). key v = k) m"

lemma keys_ok_Nil [simp]: "keys_ok key []"
  by (simp add: keys_ok_def)

lemma keys_ok_iff:
  "keys_ok key m \<longleftrightarrow> distinct (map fst m) \<and> (\<forall>k v. map_of m k = Some v \<longrightarrow> key v = k)"
  by (auto simp: keys_ok_def list_all_iff map_of_eq_Some_iff)

lemma keys_ok_update: "keys_ok key m \<Longrightarrow> key v = k \<Longrightarrow> keys_ok key (AList.update k v m)"
  by (auto simp: keys_ok_iff update_conv' distinct_update split: if_splits)

lemma keys_ok_delete: "keys_ok key m \<Longrightarrow> keys_ok key (AList.delete k m)"
  by (auto simp: keys_ok_def list_all_iff AList.delete_eq distinct_map_filter)

lemma keys_ok_lookup: "keys_ok key m \<Longrightarrow> map_of m k = Some v \<Longrightarrow> key v = k"
  by (auto simp: keys_ok_def list_all_iff dest!: map_of_SomeD)

lemma keys_ok_values: "keys_ok key m \<Longrightarrow> v \<in> snd ` set m \<longleftrightarrow> map_of m (key v) = Some v"
proof -
  assume ok: "keys_ok key m"
  then have "map_of m (key v) = Some v \<longleftrightarrow> (key v, v) \<in> set m"
    by (simp add: keys_ok_def map_of_eq_Some_iff)
  also have "\<dots> \<longleftrightarrow> v \<in> snd ` set m" using ok by (force simp: keys_ok_def list_all_iff)
  finally show ?thesis by simp
qed

lemma keys_ok_distinct: "keys_ok key m \<Longrightarrow> distinct (map (key \<circ> snd) m)"
proof -
  assume ok: "keys_ok key m"
  then have eq: "map (key \<circ> snd) m = map fst m"
    unfolding map_eq_conv by (auto simp: keys_ok_def list_all_iff)
  show ?thesis unfolding eq using ok by (simp add: keys_ok_def)
qed

section \<open>slices.IndexFunc, slices.Delete\<close>

fun index_func :: "('a \<Rightarrow> bool) \<Rightarrow> 'a list \<Rightarrow> nat option" where
  "index_func P [] = None"
| "index_func P (x # xs) = (if P x then Some 0 else map_option Suc (index_func P xs))"

definition delete_at :: "nat \<Rightarrow> 'a list \<Rightarrow> 'a list" where
  "delete_at i xs = take i xs @ drop (Suc i) xs"

lemma index_func_None_iff: "index_func P xs = None \<longleftrightarrow> (\<forall>x \<in> set xs. \<not> P x)"
  by (induction xs) auto

lemma index_func_Some:
  "index_func P xs = Some i \<Longrightarrow> i < length xs \<and> P (xs ! i) \<and> find P xs = Some (xs ! i)"
  by (induction xs arbitrary: i) (auto split: if_splits)

lemma index_func_find: "index_func P xs = None \<longleftrightarrow> find P xs = None"
  by (auto simp add: index_func_None_iff find_None_iff)

text \<open>Where a key is unique, replacing or deleting at the first match is by the key.\<close>

lemma index_func_update:
  assumes "index_func P xs = Some i" and "distinct (map key xs)" and "key (xs ! i) = key y"
  shows "xs[i := y] = map (\<lambda>x. if key x = key y then y else x) xs"
proof (rule nth_equalityI)
  show "length (xs[i := y]) = length (map (\<lambda>x. if key x = key y then y else x) xs)" by simp
next
  fix j assume "j < length (xs[i := y])"
  then show "xs[i := y] ! j = map (\<lambda>x. if key x = key y then y else x) xs ! j"
    using assms index_func_Some [OF assms(1)]
    by (cases "i = j") (simp_all, metis distinct_conv_nth length_map nth_map)
qed

lemma delete_at_filter:
  assumes "index_func P xs = Some i" and "distinct (map key xs)"
  shows "delete_at i xs = filter (\<lambda>x. key x \<noteq> key (xs ! i)) xs"
  using assms
proof (induction xs arbitrary: i)
  case (Cons x xs)
  show ?case
  proof (cases "P x")
    case True
    then have "i = 0" using Cons.prems by simp
    moreover have "filter (\<lambda>y. key y \<noteq> key x) xs = xs"
      using Cons.prems(2) by (auto simp: filter_id_conv image_iff)
    ultimately show ?thesis by (simp add: delete_at_def)
  next
    case False
    then obtain j where j: "i = Suc j" "index_func P xs = Some j" using Cons.prems by auto
    then have "key (xs ! j) \<noteq> key x"
      using Cons.prems(2) index_func_Some [OF j(2)]
      by (metis distinct.simps(2) image_eqI list.map(2) list.set_map nth_mem)
    then show ?thesis using Cons.IH [OF j(2)] Cons.prems j by (simp add: delete_at_def)
  qed
qed simp

end
