(* ===== verification/Pagination.thy ===== *)
theory Pagination
  imports Effects
begin

text \<open>
  Bounded pages (\<open>ledger/pagination.go\<close>) and the loop that reads a listing page after page
  (\<open>listAllImport...\<close> of \<open>httpserver/import_routes.go\<close>), with the page arithmetic on 64-bit
  integers as the source does it.
\<close>

section \<open>Slices and pages\<close>

text \<open>
  \<open>items[start:end]\<close>. The capacity of every list sliced here is at least its length and the code
  never asks for more than that, so the expression panics (\<open>None\<close>) for a negative or reversed
  range, or one beyond the length.
\<close>

definition go_slice :: "'a list \<Rightarrow> int \<Rightarrow> int \<Rightarrow> 'a list option" where
  "go_slice xs start end =
     (if 0 \<le> start \<and> start \<le> end \<and> end \<le> int (length xs)
      then Some (take (nat (end - start)) (drop (nat start) xs)) else None)"

record 'a page =
  pg_items :: "'a list"
  pg_page :: int
  pg_page_size :: int
  pg_total :: int

definition default_page_size :: int where
  "default_page_size = 50"

definition max_page_size :: int where
  "max_page_size = 100"

definition normalize_page :: "int \<Rightarrow> int \<Rightarrow> int \<times> int" where
  "normalize_page page page_size =
     (let page = (if page < 1 then 1 else page);
          page_size = (if page_size < 1 then default_page_size else page_size);
          page_size = (if page_size > max_page_size then max_page_size else page_size)
      in (page, page_size))"

text \<open>\<open>None\<close> is the run-time panic of the slice expression.\<close>

definition paginate :: "'a list \<Rightarrow> int \<Rightarrow> int \<Rightarrow> 'a page option" where
  "paginate items page page_size =
     (case normalize_page page page_size of (page, page_size) \<Rightarrow>
        let total = int (length items);
            start = int64 (int64 (page - 1) * page_size)
        in if start \<ge> total
           then Some \<lparr>pg_items = [], pg_page = page, pg_page_size = page_size, pg_total = total\<rparr>
           else let end = min (int64 (start + page_size)) total
                in map_option (\<lambda>xs. \<lparr>pg_items = xs, pg_page = page, pg_page_size = page_size,
                                     pg_total = total\<rparr>)
                     (go_slice items start end))"

text \<open>Lists whose length is far from the end of the integers: every list that fits in memory.\<close>

definition fits :: "'a list \<Rightarrow> bool" where
  "fits xs \<longleftrightarrow> int (length xs) < 2 ^ 62"

text \<open>The page a request asks for, counted without wrap-around.\<close>

definition page_offset :: "int \<Rightarrow> int \<Rightarrow> int" where
  "page_offset page page_size =
     (case normalize_page page page_size of (p, s) \<Rightarrow> (p - 1) * s)"

lemma normalize_page_bounds:
  assumes "normalize_page page page_size = (p, s)"
  shows "1 \<le> p" and "1 \<le> s" and "s \<le> 100" and "p = max 1 page"
  using assms
  by (auto simp: normalize_page_def default_page_size_def max_page_size_def Let_def
      split: if_splits)

lemma normalize_page_id: "1 \<le> p \<Longrightarrow> 1 \<le> s \<Longrightarrow> s \<le> 100 \<Longrightarrow> normalize_page p s = (p, s)"
  by (simp add: normalize_page_def max_page_size_def)

lemma page_offset_nonneg: "0 \<le> page_offset page page_size"
  using normalize_page_bounds [of page page_size]
  by (cases "normalize_page page page_size") (simp add: page_offset_def)

text \<open>Below the wrap-around a page is the expected piece of the list, empty past its end.\<close>

lemma paginate_slice:
  assumes "fits items" and "page_offset page page_size < 2 ^ 63"
  shows "paginate items page page_size = Some
    \<lparr>pg_items = take (nat (snd (normalize_page page page_size)))
                  (drop (nat (page_offset page page_size)) items),
     pg_page = fst (normalize_page page page_size),
     pg_page_size = snd (normalize_page page page_size), pg_total = int (length items)\<rparr>"
proof -
  obtain p s where ps: "normalize_page page page_size = (p, s)" by force
  have b: "1 \<le> p" "1 \<le> s" "s \<le> 100" using normalize_page_bounds [OF ps] by simp_all
  have off: "page_offset page page_size = (p - 1) * s" by (simp add: page_offset_def ps)
  have nonneg: "0 \<le> (p - 1) * s" using b by simp
  have "p - 1 \<le> (p - 1) * s" using b mult_left_mono [of 1 s "p - 1"] by simp
  then have wrap1: "int64 (p - 1) = p - 1"
    using assms(2) b off by (intro int64_id) (simp add: in_int64_def)
  have wrap2: "int64 ((p - 1) * s) = (p - 1) * s"
    using assms(2) nonneg off by (intro int64_id) (simp add: in_int64_def)
  show ?thesis
  proof (cases "(p - 1) * s \<ge> int (length items)")
    case True
    then have "length items \<le> nat ((p - 1) * s)" by linarith
    then show ?thesis using True by (simp add: paginate_def ps wrap1 wrap2 off)
  next
    case False
    define k where "k = (p - 1) * s"
    have k: "0 \<le> k" "k < int (length items)" using False nonneg by (simp_all add: k_def)
    have "in_int64 (k + s)" using assms(1) k b by (simp add: in_int64_def fits_def)
    then have wrap3: "int64 (k + s) = k + s" by (rule int64_id)
    have "take (nat (min (k + s) (int (length items)) - k)) (drop (nat k) items) =
        take (nat s) (drop (nat k) items)"
    proof (cases "k + s \<le> int (length items)")
      case False
      then show ?thesis using k b by (simp add: nat_diff_distrib)
    qed simp
    then show ?thesis using k b
      by (simp add: paginate_def ps wrap1 wrap2 [folded k_def] off go_slice_def wrap3 Let_def
          flip: k_def)
  qed
qed

text \<open>The panic, exactly: the product of page and size wraps to a negative number.\<close>

lemma paginate_None_iff:
  assumes "fits items" and "in_int64 page"
  shows "paginate items page page_size = None \<longleftrightarrow> int64 (page_offset page page_size) < 0"
proof -
  obtain p s where ps: "normalize_page page page_size = (p, s)" by force
  have b: "1 \<le> p" "1 \<le> s" "s \<le> 100" "p = max 1 page" using normalize_page_bounds [OF ps] by simp_all
  have off: "page_offset page page_size = (p - 1) * s" by (simp add: page_offset_def ps)
  have wrap1: "int64 (p - 1) = p - 1"
    using assms(2) b by (intro int64_id) (auto simp: in_int64_def)
  let ?k = "int64 ((p - 1) * s)"
  have k: "in_int64 ?k" by simp
  show ?thesis
  proof (cases "?k < 0")
    case True
    then show ?thesis by (simp add: paginate_def ps wrap1 off go_slice_def)
  next
    case False
    have "int64 (?k + s) = ?k + s" if "?k < int (length items)"
      using that False assms(1) b by (intro int64_id) (simp add: in_int64_def fits_def)
    then show ?thesis using False b(2)
      by (simp add: paginate_def ps wrap1 off go_slice_def Let_def del: int64_add_left)
  qed
qed

section \<open>Reading a listing page after page\<close>

text \<open>
  \<open>for page := 1; ; page++\<close> with a page size of 100: append the page, stop when
  \<open>page*result.PageSize >= result.Total\<close>. A listing that never reports its end would loop for
  ever: that is the value \<open>None\<close>.
\<close>

partial_function (option) collect_pages ::
    "(int \<Rightarrow> 'e + 'a page) \<Rightarrow> int \<Rightarrow> 'a list \<Rightarrow> ('e + 'a list) option" where
  "collect_pages fetch page acc =
     (case fetch page of
        Inl e \<Rightarrow> Some (Inl e)
      | Inr result \<Rightarrow>
          (if int64 (page * pg_page_size result) \<ge> pg_total result
           then Some (Inr (acc @ pg_items result))
           else collect_pages fetch (int64 (page + 1)) (acc @ pg_items result)))"

declare collect_pages.simps [code]

text \<open>
  What the loop needs of a listing, for the states \<open>ready\<close> in which it answers: page \<open>n\<close> is the
  \<open>n\<close>-th piece of 100 of one list, which does not change between the calls.
\<close>

locale paged_listing =
  fixes fetch :: "'s \<Rightarrow> int \<Rightarrow> 'e + 'a page"
    and items :: "'s \<Rightarrow> 'a list"
    and ready :: "'s \<Rightarrow> bool"
  assumes fetch_page: "ready s \<Longrightarrow> fits (items s) \<Longrightarrow> 1 \<le> n \<Longrightarrow>
    (n - 1) * 100 \<le> int (length (items s)) \<Longrightarrow> \<exists>m. fetch s n =
      Inr \<lparr>pg_items = take 100 (drop (nat ((n - 1) * 100)) (items s)), pg_page = m,
           pg_page_size = 100, pg_total = int (length (items s))\<rparr>"
begin

lemma collect_from:
  assumes "ready s" and "fits (items s)"
  shows "int k * 100 \<le> int (length (items s)) \<Longrightarrow>
    collect_pages (fetch s) (int k + 1) (take (k * 100) (items s)) = Some (Inr (items s))"
proof (induction "length (items s) - k * 100" arbitrary: k rule: less_induct)
  case less
  have k: "k * 100 \<le> length (items s)" using less.prems by linarith
  define n where "n = int k + 1"
  from less.prems fetch_page [OF assms, of n] obtain m where fetch:
    "fetch s n = Inr \<lparr>pg_items = take 100 (drop (k * 100) (items s)), pg_page = m,
       pg_page_size = 100, pg_total = int (length (items s))\<rparr>"
    by (auto simp: nat_mult_distrib n_def)
  have wrap: "int64 (n * 100) = n * 100" "int64 (n + 1) = n + 1"
    using assms(2) less.prems by (auto intro!: int64_id simp: in_int64_def fits_def n_def)
  have acc: "take (k * 100) (items s) @ take 100 (drop (k * 100) (items s)) =
      take (Suc k * 100) (items s)"
    by (simp only: take_add [symmetric] mult_Suc add.commute)
  have step: "collect_pages (fetch s) n (take (k * 100) (items s)) =
      (if n * 100 \<ge> int (length (items s)) then Some (Inr (take (Suc k * 100) (items s)))
       else collect_pages (fetch s) (n + 1) (take (Suc k * 100) (items s)))"
    by (subst collect_pages.simps) (simp add: fetch wrap acc del: mult_Suc)
  show ?case
  proof (cases "n * 100 \<ge> int (length (items s))")
    case True
    then have "length (items s) \<le> Suc k * 100" by (simp add: n_def)
    then show ?thesis using True step by (simp flip: n_def)
  next
    case False
    then have *: "int (Suc k) * 100 \<le> int (length (items s))"
      "length (items s) - Suc k * 100 < length (items s) - k * 100"
      by (simp_all add: n_def)
    have "n + 1 = int (Suc k) + 1" by (simp add: n_def)
    then show ?thesis using False less.hyps [OF *(2) *(1)] step
      by (simp flip: n_def del: mult_Suc)
  qed
qed

lemma collect_all:
  "ready s \<Longrightarrow> fits (items s) \<Longrightarrow> collect_pages (fetch s) 1 [] = Some (Inr (items s))"
  using collect_from [of s 0] by simp

lemma collect_returns:
  "ready s \<Longrightarrow> fits (items s) \<Longrightarrow> collect_pages (fetch s) 1 [] \<noteq> None"
  by (simp add: collect_all)

end

text \<open>A page, with the panic as an error of the caller's kind.\<close>

definition page_or :: "'e \<Rightarrow> 'a page option \<Rightarrow> 'e + 'a page" where
  "page_or e p = (case p of None \<Rightarrow> Inl e | Some x \<Rightarrow> Inr x)"

lemma page_or_iff [simp]:
  "page_or e p = Inr x \<longleftrightarrow> p = Some x" "page_or e p = Inl e' \<longleftrightarrow> p = None \<and> e' = e"
  by (auto simp: page_or_def split: option.splits)

lemma paginate_page:
  assumes "fits xs" and "1 \<le> n" and "(n - 1) * 100 \<le> int (length xs)"
  shows "paginate xs n 100 = Some \<lparr>pg_items = take 100 (drop (nat ((n - 1) * 100)) xs),
    pg_page = n, pg_page_size = 100, pg_total = int (length xs)\<rparr>"
proof -
  have n: "normalize_page n 100 = (n, 100)" using assms(2) by (simp add: normalize_page_id)
  have "page_offset n 100 < 2 ^ 63" using assms by (simp add: page_offset_def n fits_def)
  then show ?thesis using paginate_slice [OF assms(1), of n 100] by (simp add: n page_offset_def)
qed

text \<open>Every listing that is \<open>paginate\<close> of one list keeps the contract.\<close>

interpretation whole_list: paged_listing
  "\<lambda>xs n. page_or e (paginate xs n 100)" "\<lambda>xs. xs" "\<lambda>_. True" for e :: 'e
  by unfold_locales (simp add: paginate_page page_or_def)

end
