(* ===== verification/Ledger_Model.thy ===== *)
theory Ledger_Model
  imports Pagination
begin

text \<open>
  The data of the ledger (\<open>ledger/model.go\<close>): roles, entry types, directions and account types,
  the stored structs, the requests of the service and its errors.

  The named string types of the source are datatypes with one constructor per declared constant and
  one for every other string a request can carry. An optional field (a Go pointer) is an
  \<open>option\<close>. Field names carry a prefix of their struct.
\<close>

section \<open>Errors\<close>

text \<open>
  The three sentinel errors of \<open>model.go\<close>, any other error, and a run-time panic, each with the
  message at its origin (formatted arguments left out). \<open>errors.Wrap\<close> keeps the sentinel, which
  is all a caller asks of an error (\<open>errors.Is\<close>); it is the identity here.
\<close>

datatype ledger_error =
    ErrAccessDenied string
  | ErrInvalidInput string
  | ErrNotFound string
  | ErrOther string
  | Panic string

fun denied :: "ledger_error \<Rightarrow> bool" where
  "denied (ErrAccessDenied _) = True"
| "denied _ = False"

section \<open>Named string types\<close>

datatype role = RoleOwner | RoleAdministrator | RoleMember | RoleViewer | RoleOther string

datatype entry_type =
    EntryTypeExpense
  | EntryTypeIncome
  | EntryTypeTransfer
  | EntryTypeRefund
  | EntryTypeReimbursement
  | EntryTypeBorrow
  | EntryTypeLend
  | EntryTypeRepayment
  | EntryTypeOther string

datatype category_direction =
    CategoryDirectionExpense
  | CategoryDirectionIncome
  | CategoryDirectionOther string

datatype account_type =
    AccountTypeCash
  | AccountTypeSavings
  | AccountTypeCreditCard
  | AccountTypeLoan
  | AccountTypeInvestment
  | AccountTypePaymentPlatform
  | AccountTypeOther string

section \<open>Stored structs\<close>

record actor =
  at_user_id :: string

record book =
  bk_id :: string
  bk_owner_user_id :: string
  bk_name :: string
  bk_reporting_currency :: string
  bk_created_at :: time
  bk_updated_at :: time

record book_member =
  bm_book_id :: string
  bm_user_id :: string
  bm_role :: role
  bm_display_name :: string
  bm_created_at :: time
  bm_updated_at :: time

record book_list_item =
  bl_id :: string
  bl_owner_user_id :: string
  bl_name :: string
  bl_reporting_currency :: string
  bl_role :: role
  bl_created_at :: time
  bl_updated_at :: time

record category =
  ct_id :: string
  ct_book_id :: string
  ct_parent_id :: string
  ct_name :: string
  ct_direction :: category_direction
  ct_sort_order :: int
  ct_archived :: bool
  ct_raw_source_name :: string
  ct_created_at :: time
  ct_updated_at :: time

record account_group =
  ag_id :: string
  ag_user_id :: string
  ag_name :: string
  ag_sort_order :: int
  ag_created_at :: time
  ag_updated_at :: time

record account =
  ac_id :: string
  ac_user_id :: string
  ac_group_id :: string
  ac_name :: string
  ac_type :: account_type
  ac_currency :: string
  ac_shared_book_ids :: "string list"
  ac_opening_balance :: int
  ac_created_at :: time
  ac_updated_at :: time

record exchange_rate =
  er_currency :: string
  er_units_per_usd :: string
  er_source :: string
  er_updated_at :: time

record entry =
  en_id :: string
  en_book_id :: string
  en_creator_user_id :: string
  en_type :: entry_type
  en_account_id :: string
  en_destination_account_id :: string
  en_category_id :: string
  en_amount_cents :: int
  en_transaction_currency :: string
  en_account_currency :: string
  en_book_reporting_currency :: string
  en_exchange_rate :: string
  en_occurred_at :: time
  en_note :: string
  en_merchant :: string
  en_tags :: "string list"
  en_raw_source :: string
  en_created_at :: time
  en_updated_at :: time

section \<open>Requests and answers\<close>

record create_account_group_request =
  cg_actor :: actor
  cg_name :: string
  cg_sort_order :: int

record update_account_group_request =
  ug_actor :: actor
  ug_group_id :: string
  ug_name :: "string option"
  ug_sort_order :: "int option"

record create_book_request =
  cb_actor :: actor
  cb_name :: string
  cb_reporting_currency :: string

record update_book_request =
  ub_actor :: actor
  ub_book_id :: string
  ub_name :: "string option"
  ub_reporting_currency :: "string option"

record add_book_member_request =
  am_actor :: actor
  am_book_id :: string
  am_user_id :: string
  am_role :: role
  am_display_name :: string

record update_book_member_role_request =
  um_actor :: actor
  um_book_id :: string
  um_user_id :: string
  um_role :: role

record remove_book_member_request =
  rm_actor :: actor
  rm_book_id :: string
  rm_user_id :: string

record create_account_request =
  ca_actor :: actor
  ca_group_id :: string
  ca_name :: string
  ca_type :: account_type
  ca_currency :: string
  ca_shared_book_ids :: "string list"
  ca_opening_balance :: int

record unshare_account_request =
  ua_actor :: actor
  ua_account_id :: string
  ua_book_id :: string

record create_entry_request =
  ce_actor :: actor
  ce_book_id :: string
  ce_creator_user_id :: string
  ce_type :: entry_type
  ce_account_id :: string
  ce_destination_account_id :: string
  ce_category_id :: string
  ce_amount_cents :: int
  ce_transaction_currency :: string
  ce_book_reporting_currency :: string
  ce_exchange_rate :: string
  ce_occurred_at :: time
  ce_note :: string
  ce_merchant :: string
  ce_tags :: "string list"

record update_entry_request =
  ue_actor :: actor
  ue_book_id :: string
  ue_entry_id :: string
  ue_type :: "entry_type option"
  ue_account_id :: "string option"
  ue_destination_account_id :: "string option"
  ue_category_id :: "string option"
  ue_amount_cents :: "int option"
  ue_transaction_currency :: "string option"
  ue_exchange_rate :: "string option"
  ue_occurred_at :: "time option"
  ue_note :: "string option"
  ue_merchant :: "string option"
  ue_tags :: "string list option"

record entry_list =
  el_entries :: "entry list"
  el_page :: int
  el_page_size :: int
  el_total :: int

record create_category_request =
  cc_actor :: actor
  cc_book_id :: string
  cc_parent_id :: string
  cc_name :: string
  cc_direction :: category_direction
  cc_sort_order :: int
  cc_raw_source_name :: string

record update_category_request =
  uc_actor :: actor
  uc_book_id :: string
  uc_category_id :: string
  uc_parent_id :: "string option"
  uc_name :: "string option"
  uc_direction :: "category_direction option"
  uc_sort_order :: "int option"
  uc_archived :: "bool option"
  uc_raw_source_name :: "string option"

record summary_request =
  sq_actor :: actor
  sq_book_id :: string
  sq_start_date :: time
  sq_end_date :: time

record account_summary =
  as_id :: string
  as_name :: string
  as_type :: account_type
  as_currency :: string

record summary =
  sm_book_id :: string
  sm_book_name :: string
  sm_balance_cents :: int
  sm_currency :: string
  sm_entry_count :: int
  sm_income_cents :: int
  sm_expense_cents :: int
  sm_refund_cents :: int
  sm_transfer_count :: int
  sm_accounts :: "account_summary list"
  sm_categories :: "category list"

record mutation_policy =
  mp_can_update :: bool
  mp_can_delete :: bool

section \<open>The order of categories and account groups\<close>

text \<open>
  Categories and account groups are listed by their sort order, then by id. The order is an
  instance of the library's linear orders, so that its sorting lemmas apply.
\<close>

datatype listing_key = Listing_Key (lk_order: int) (lk_id: string)

instantiation listing_key :: linorder
begin

definition less_eq_listing_key :: "listing_key \<Rightarrow> listing_key \<Rightarrow> bool" where
  "less_eq_listing_key a b \<longleftrightarrow> lk_order a < lk_order b \<or> lk_order a = lk_order b \<and> lk_id a \<le> lk_id b"

definition less_listing_key :: "listing_key \<Rightarrow> listing_key \<Rightarrow> bool" where
  "less_listing_key a b \<longleftrightarrow> lk_order a < lk_order b \<or> lk_order a = lk_order b \<and> lk_id a < lk_id b"

instance
  by standard
    (auto simp: less_eq_listing_key_def less_listing_key_def listing_key.expand)

end

lemma listing_key_less [simp]:
  "Listing_Key i s < Listing_Key j t \<longleftrightarrow> i < j \<or> i = j \<and> s < t"
  by (simp add: less_listing_key_def)

text \<open>
  The comparator of the source subtracts the sort orders in 64 bits. It orders by the key when no
  difference wraps.
\<close>

definition cmp_listing :: "('a \<Rightarrow> int) \<Rightarrow> ('a \<Rightarrow> string) \<Rightarrow> 'a \<Rightarrow> 'a \<Rightarrow> int" where
  "cmp_listing order ident left right =
     (if order left \<noteq> order right then int64 (order left - order right)
      else cmp_string (ident left) (ident right))"

definition order_ok :: "int \<Rightarrow> bool" where
  "order_ok n \<longleftrightarrow> - (2 ^ 62) \<le> n \<and> n < 2 ^ 62"

lemma cmp_listing_neg:
  assumes "order_ok (order a)" and "order_ok (order b)"
  shows "cmp_listing order ident a b < 0 \<longleftrightarrow>
    Listing_Key (order a) (ident a) < Listing_Key (order b) (ident b)"
proof -
  have "in_int64 (order a - order b)" using assms by (simp add: in_int64_def order_ok_def)
  then show ?thesis by (auto simp: cmp_listing_def int64_id)
qed

end
