(* ===== verification/Ledger_Store.thy ===== *)
theory Ledger_Store
  imports Ledger_Model
begin

text \<open>
  The in-memory store of the ledger (\<open>ledger/store.go\<close>, and the identifiers of entries of
  \<open>ledger/ids.go\<close>): its state, one definition per method of the \<open>Store\<close> interface, the
  well-formedness of the state, and the contract of its tables as a locale.

  The methods hold the store's lock from their first to their last statement, so each is one atomic
  step. \<open>clone...\<close> copies a value that could otherwise be shared; values are not shared here, and
  the copies are left out.
\<close>

section \<open>Identifiers of entries\<close>

definition nil_uuid :: string where
  "nil_uuid = ''00000000-0000-0000-0000-000000000000''"

text \<open>
  \<open>parse\<close> is \<open>uuid.Parse\<close> of \<open>google/uuid\<close> followed by \<open>String()\<close>: the canonical form of what it
  accepts.
\<close>

definition normalize_entry_id ::
    "(string \<Rightarrow> string option) \<Rightarrow> string \<Rightarrow> ledger_error + string" where
  "normalize_entry_id parse entry_id =
     (let entry_id = trim_space entry_id in
      if entry_id = [] then Inl (ErrInvalidInput ''entry id is required'')
      else (case parse entry_id of
          None \<Rightarrow> Inl (ErrInvalidInput ''entry id must be a uuid'')
        | Some parsed \<Rightarrow>
            if parsed = nil_uuid then Inl (ErrInvalidInput ''entry id must not be nil uuid'')
            else Inr parsed))"

section \<open>The state\<close>

record memory_store =
  ms_books :: "(string \<times> book) list"
  ms_members :: "(string \<times> (string \<times> book_member) list) list"
  ms_entries :: "entry list"
  ms_categories :: "category list"
  ms_groups :: "account_group list"
  ms_accounts :: "account list"
  ms_rates :: "exchange_rate list"

record seed_data =
  sd_books :: "book list"
  sd_members :: "book_member list"
  sd_categories :: "category list"
  sd_groups :: "account_group list"
  sd_accounts :: "account list"
  sd_entries :: "entry list"
  sd_rates :: "exchange_rate list"

text \<open>\<open>cloneExchangeRates\<close> also sorts by currency.\<close>

definition clone_exchange_rates :: "exchange_rate list \<Rightarrow> exchange_rate list" where
  "clone_exchange_rates rates =
     sort_func (\<lambda>left right. cmp_string (er_currency left) (er_currency right)) rates"

definition new_memory_store :: "seed_data \<Rightarrow> memory_store" where
  "new_memory_store data =
     (let books = fold (\<lambda>b m. AList.update (bk_id b) b m) (sd_books data) [];
          members = fold (\<lambda>mb m.
            let inner = (case map_of m (bm_book_id mb) of None \<Rightarrow> [] | Some inner \<Rightarrow> inner)
            in AList.update (bm_book_id mb) (AList.update (bm_user_id mb) mb inner) m)
            (sd_members data) []
      in \<lparr>ms_books = books, ms_members = members, ms_entries = sd_entries data,
          ms_categories = sd_categories data, ms_groups = sd_groups data,
          ms_accounts = sd_accounts data, ms_rates = clone_exchange_rates (sd_rates data)\<rparr>)"

definition cmp_member :: "book_member \<Rightarrow> book_member \<Rightarrow> int" where
  "cmp_member left right =
     (let cmp = cmp_string (bm_book_id left) (bm_book_id right)
      in if cmp \<noteq> 0 then cmp else cmp_string (bm_user_id left) (bm_user_id right))"

definition snapshot :: "memory_store \<Rightarrow> seed_data" where
  "snapshot s =
     \<lparr>sd_books = sort_func (\<lambda>l r. cmp_string (bk_id l) (bk_id r)) (map snd (ms_books s)),
      sd_members = sort_func cmp_member (concat (map (\<lambda>(_, inner). map snd inner) (ms_members s))),
      sd_categories = ms_categories s, sd_groups = ms_groups s, sd_accounts = ms_accounts s,
      sd_entries = ms_entries s, sd_rates = clone_exchange_rates (ms_rates s)\<rparr>"

section \<open>Books and members\<close>

definition st_book :: "string \<Rightarrow> memory_store \<Rightarrow> ledger_error + book" where
  "st_book book_id s =
     (case map_of (ms_books s) book_id of
        None \<Rightarrow> Inl (ErrOther ''book not found'') | Some b \<Rightarrow> Inr b)"

definition st_books :: "memory_store \<Rightarrow> ledger_error + book list" where
  "st_books s = Inr (sort_func (\<lambda>l r. cmp_string (bk_id l) (bk_id r)) (map snd (ms_books s)))"

definition st_book_memberships :: "string \<Rightarrow> memory_store \<Rightarrow> ledger_error + book_member list" where
  "st_book_memberships user_id s =
     Inr (sort_func (\<lambda>l r. cmp_string (bm_book_id l) (bm_book_id r))
       (List.map_filter (\<lambda>(_, inner). map_of inner user_id) (ms_members s)))"

definition st_book_members :: "string \<Rightarrow> memory_store \<Rightarrow> ledger_error + book_member list" where
  "st_book_members book_id s =
     (case map_of (ms_members s) book_id of
        None \<Rightarrow> Inl (ErrOther ''book has no members'')
      | Some inner \<Rightarrow>
          Inr (sort_func (\<lambda>l r. cmp_string (bm_user_id l) (bm_user_id r)) (map snd inner)))"

definition st_member :: "string \<Rightarrow> string \<Rightarrow> memory_store \<Rightarrow> ledger_error + book_member" where
  "st_member book_id user_id s =
     (case map_of (ms_members s) book_id of
        None \<Rightarrow> Inl (ErrOther ''book has no members'')
      | Some inner \<Rightarrow>
          (case map_of inner user_id of
             None \<Rightarrow> Inl (ErrOther ''user is not a member of book'')
           | Some m \<Rightarrow> Inr m))"

text \<open>The checks of the default categories in \<open>CreateBook\<close>; \<open>seen\<close> are the ids before.\<close>

fun check_default_categories ::
    "string \<Rightarrow> category list \<Rightarrow> string list \<Rightarrow> category list \<Rightarrow> ledger_error + unit" where
  "check_default_categories book_id existing seen [] = Inr ()"
| "check_default_categories book_id existing seen (c # cs) =
     (if ct_book_id c \<noteq> book_id then Inl (ErrOther ''default category book id differs'')
      else if ct_id c \<in> set seen then Inl (ErrOther ''default category id duplicated'')
      else if list_ex (\<lambda>e. ct_id e = ct_id c) existing then Inl (ErrOther ''category id already exists'')
      else check_default_categories book_id existing (ct_id c # seen) cs)"

definition st_create_book ::
    "book \<Rightarrow> book_member \<Rightarrow> category list \<Rightarrow> (memory_store, ledger_error, book \<times> book_member) act" where
  "st_create_book b owner categories s =
     (if map_of (ms_books s) (bk_id b) \<noteq> None then (Inl (ErrOther ''book id already exists''), s)
      else if bk_id b \<noteq> bm_book_id owner
      then (Inl (ErrOther ''book id and owner membership book id differ''), s)
      else if (case map_of (ms_members s) (bk_id b) of None \<Rightarrow> False
                 | Some inner \<Rightarrow> map_of inner (bm_user_id owner) \<noteq> None)
      then (Inl (ErrOther ''book owner membership already exists''), s)
      else (case check_default_categories (bk_id b) (ms_categories s) [] categories of
          Inl e \<Rightarrow> (Inl e, s)
        | Inr _ \<Rightarrow>
            let inner = (case map_of (ms_members s) (bk_id b) of None \<Rightarrow> [] | Some inner \<Rightarrow> inner)
            in (Inr (b, owner),
                s\<lparr>ms_books := AList.update (bk_id b) b (ms_books s),
                  ms_members := AList.update (bk_id b)
                    (AList.update (bm_user_id owner) owner inner) (ms_members s),
                  ms_categories := ms_categories s @ categories\<rparr>)))"

definition st_create_book_member ::
    "book_member \<Rightarrow> (memory_store, ledger_error, book_member) act" where
  "st_create_book_member m s =
     (if map_of (ms_books s) (bm_book_id m) = None then (Inl (ErrNotFound ''book not found''), s)
      else let inner = (case map_of (ms_members s) (bm_book_id m) of None \<Rightarrow> [] | Some inner \<Rightarrow> inner)
        in if map_of inner (bm_user_id m) \<noteq> None
           then (Inl (ErrOther ''book member already exists''), s)
           else (Inr m, s\<lparr>ms_members := AList.update (bm_book_id m)
                  (AList.update (bm_user_id m) m inner) (ms_members s)\<rparr>))"

definition st_update_book_member ::
    "book_member \<Rightarrow> (memory_store, ledger_error, book_member) act" where
  "st_update_book_member m s =
     (if map_of (ms_books s) (bm_book_id m) = None then (Inl (ErrNotFound ''book not found''), s)
      else (case map_of (ms_members s) (bm_book_id m) of
          None \<Rightarrow> (Inl (ErrNotFound ''book has no members''), s)
        | Some inner \<Rightarrow>
            if map_of inner (bm_user_id m) = None
            then (Inl (ErrNotFound ''user is not a member of book''), s)
            else (Inr m, s\<lparr>ms_members := AList.update (bm_book_id m)
                   (AList.update (bm_user_id m) m inner) (ms_members s)\<rparr>)))"

definition st_delete_book_member ::
    "string \<Rightarrow> string \<Rightarrow> (memory_store, ledger_error, unit) act" where
  "st_delete_book_member book_id user_id s =
     (case map_of (ms_members s) book_id of
        None \<Rightarrow> (Inl (ErrNotFound ''book has no members''), s)
      | Some inner \<Rightarrow>
          if map_of inner user_id = None then (Inl (ErrNotFound ''user is not a member of book''), s)
          else (Inr (), s\<lparr>ms_members :=
                 AList.update book_id (AList.delete user_id inner) (ms_members s)\<rparr>))"

definition st_update_book :: "book \<Rightarrow> (memory_store, ledger_error, book) act" where
  "st_update_book b s =
     (if map_of (ms_books s) (bk_id b) = None then (Inl (ErrNotFound ''book not found''), s)
      else (Inr b, s\<lparr>ms_books := AList.update (bk_id b) b (ms_books s)\<rparr>))"

section \<open>Entries, categories, account groups, accounts and rates\<close>

definition st_entry :: "string \<Rightarrow> string \<Rightarrow> memory_store \<Rightarrow> ledger_error + entry" where
  "st_entry book_id entry_id s =
     (case find (\<lambda>e. en_book_id e = book_id \<and> en_id e = entry_id) (ms_entries s) of
        None \<Rightarrow> Inl (ErrNotFound ''entry not found'') | Some e \<Rightarrow> Inr e)"

text \<open>\<open>time.Compare\<close>.\<close>

definition cmp_occurred :: "entry \<Rightarrow> entry \<Rightarrow> int" where
  "cmp_occurred left right = sgn (en_occurred_at left - en_occurred_at right)"

definition st_entries :: "string \<Rightarrow> memory_store \<Rightarrow> ledger_error + entry list" where
  "st_entries book_id s =
     Inr (sort_func cmp_occurred (filter (\<lambda>e. en_book_id e = book_id) (ms_entries s)))"

definition st_create_entry ::
    "(string \<Rightarrow> string option) \<Rightarrow> entry \<Rightarrow> (memory_store, ledger_error, entry) act" where
  "st_create_entry parse e s =
     (case normalize_entry_id parse (en_id e) of
        Inl err \<Rightarrow> (Inl err, s)
      | Inr entry_id \<Rightarrow>
          let e = e\<lparr>en_id := entry_id\<rparr> in
          if list_ex (\<lambda>x. en_id x = en_id e) (ms_entries s)
          then (Inl (ErrOther ''entry id already exists''), s)
          else (Inr e, s\<lparr>ms_entries := ms_entries s @ [e]\<rparr>))"

definition st_update_entry :: "entry \<Rightarrow> (memory_store, ledger_error, entry) act" where
  "st_update_entry e s =
     (case index_func (\<lambda>x. en_book_id x = en_book_id e \<and> en_id x = en_id e) (ms_entries s) of
        None \<Rightarrow> (Inl (ErrNotFound ''entry not found''), s)
      | Some i \<Rightarrow> (Inr e, s\<lparr>ms_entries := (ms_entries s)[i := e]\<rparr>))"

definition st_delete_entry ::
    "string \<Rightarrow> string \<Rightarrow> (memory_store, ledger_error, unit) act" where
  "st_delete_entry book_id entry_id s =
     (case index_func (\<lambda>x. en_book_id x = book_id \<and> en_id x = entry_id) (ms_entries s) of
        None \<Rightarrow> (Inl (ErrNotFound ''entry not found''), s)
      | Some i \<Rightarrow> (Inr (), s\<lparr>ms_entries := delete_at i (ms_entries s)\<rparr>))"

definition st_categories :: "string \<Rightarrow> memory_store \<Rightarrow> ledger_error + category list" where
  "st_categories book_id s =
     Inr (sort_func (cmp_listing ct_sort_order ct_id)
       (filter (\<lambda>c. ct_book_id c = book_id) (ms_categories s)))"

definition st_create_category :: "category \<Rightarrow> (memory_store, ledger_error, category) act" where
  "st_create_category c s =
     (if list_ex (\<lambda>x. ct_id x = ct_id c) (ms_categories s)
      then (Inl (ErrOther ''category id already exists''), s)
      else (Inr c, s\<lparr>ms_categories := ms_categories s @ [c]\<rparr>))"

definition st_update_category :: "category \<Rightarrow> (memory_store, ledger_error, category) act" where
  "st_update_category c s =
     (case index_func (\<lambda>x. ct_book_id x = ct_book_id c \<and> ct_id x = ct_id c) (ms_categories s) of
        None \<Rightarrow> (Inl (ErrNotFound ''category not found''), s)
      | Some i \<Rightarrow> (Inr c, s\<lparr>ms_categories := (ms_categories s)[i := c]\<rparr>))"

definition st_account_groups :: "memory_store \<Rightarrow> ledger_error + account_group list" where
  "st_account_groups s = Inr (sort_func (cmp_listing ag_sort_order ag_id) (ms_groups s))"

definition st_create_account_group ::
    "account_group \<Rightarrow> (memory_store, ledger_error, account_group) act" where
  "st_create_account_group g s =
     (if list_ex (\<lambda>x. ag_id x = ag_id g) (ms_groups s)
      then (Inl (ErrOther ''account group id already exists''), s)
      else (Inr g, s\<lparr>ms_groups := ms_groups s @ [g]\<rparr>))"

definition st_update_account_group ::
    "account_group \<Rightarrow> (memory_store, ledger_error, account_group) act" where
  "st_update_account_group g s =
     (case index_func (\<lambda>x. ag_id x = ag_id g) (ms_groups s) of
        None \<Rightarrow> (Inl (ErrNotFound ''account group not found''), s)
      | Some i \<Rightarrow> (Inr g, s\<lparr>ms_groups := (ms_groups s)[i := g]\<rparr>))"

definition st_accounts :: "memory_store \<Rightarrow> ledger_error + account list" where
  "st_accounts s = Inr (sort_func (\<lambda>l r. cmp_string (ac_id l) (ac_id r)) (ms_accounts s))"

definition st_create_account :: "account \<Rightarrow> (memory_store, ledger_error, account) act" where
  "st_create_account a s =
     (if list_ex (\<lambda>x. ac_id x = ac_id a) (ms_accounts s)
      then (Inl (ErrOther ''account id already exists''), s)
      else (Inr a, s\<lparr>ms_accounts := ms_accounts s @ [a]\<rparr>))"

definition st_update_account :: "account \<Rightarrow> (memory_store, ledger_error, account) act" where
  "st_update_account a s =
     (case index_func (\<lambda>x. ac_id x = ac_id a) (ms_accounts s) of
        None \<Rightarrow> (Inl (ErrNotFound ''account not found''), s)
      | Some i \<Rightarrow> (Inr a, s\<lparr>ms_accounts := (ms_accounts s)[i := a]\<rparr>))"

definition st_exchange_rates :: "memory_store \<Rightarrow> ledger_error + exchange_rate list" where
  "st_exchange_rates s = Inr (clone_exchange_rates (ms_rates s))"

definition st_replace_exchange_rates ::
    "exchange_rate list \<Rightarrow> (memory_store, ledger_error, unit) act" where
  "st_replace_exchange_rates rates s = (Inr (), s\<lparr>ms_rates := clone_exchange_rates rates\<rparr>)"

lemmas store_writes =
  st_create_book_def st_create_book_member_def st_update_book_member_def st_delete_book_member_def
  st_update_book_def st_create_entry_def st_update_entry_def st_delete_entry_def
  st_create_category_def st_update_category_def st_create_account_group_def
  st_update_account_group_def st_create_account_def st_update_account_def
  st_replace_exchange_rates_def

text \<open>A failing store operation leaves the store as it was.\<close>

lemma store_fails_clean:
  "fails_clean (st_create_book b owner cs)" "fails_clean (st_create_book_member m)"
  "fails_clean (st_update_book_member m)" "fails_clean (st_delete_book_member bi ui)"
  "fails_clean (st_update_book b)" "fails_clean (st_create_entry parse e)"
  "fails_clean (st_update_entry e)" "fails_clean (st_delete_entry bi ei)"
  "fails_clean (st_create_category c)" "fails_clean (st_update_category c)"
  "fails_clean (st_create_account_group g)" "fails_clean (st_update_account_group g)"
  "fails_clean (st_create_account a)" "fails_clean (st_update_account a)"
  "fails_clean (st_replace_exchange_rates rs)"
  unfolding fails_clean_def
  by (auto simp: store_writes Let_def split: if_splits option.splits sum.splits)

section \<open>The contract of a table\<close>

text \<open>
  What the four list tables promise: rows have a key that stays unique, \<open>create\<close> appends a row with a
  new key and refuses a key in use, \<open>update\<close> replaces the row with the key and scope (the book, for
  entries and categories) of its argument and refuses one that is not there. \<open>ready\<close> is what
  \<open>create\<close> asks of a row before it looks at the key.
\<close>

locale keyed_table =
  fixes key :: "'a \<Rightarrow> string"
    and scope :: "'a \<Rightarrow> 'b"
    and ready :: "'a \<Rightarrow> bool"
    and rows :: "'s \<Rightarrow> 'a list"
    and create :: "'a \<Rightarrow> ('s, 'e, 'a) act"
    and update :: "'a \<Rightarrow> ('s, 'e, 'a) act"
  assumes create_new: "ready x \<Longrightarrow> key x \<notin> key ` set (rows s) \<Longrightarrow>
      \<exists>t. create x s = (Inr x, t) \<and> rows t = rows s @ [x]"
    and create_dup: "ready x \<Longrightarrow> key x \<in> key ` set (rows s) \<Longrightarrow> \<exists>e. create x s = (Inl e, s)"
    and update_hit: "distinct (map key (rows s)) \<Longrightarrow> y \<in> set (rows s) \<Longrightarrow> key y = key x \<Longrightarrow>
      scope y = scope x \<Longrightarrow>
      \<exists>t. update x s = (Inr x, t) \<and> rows t = map (\<lambda>y. if key y = key x then x else y) (rows s)"
    and update_miss: "\<forall>y \<in> set (rows s). key y = key x \<longrightarrow> scope y \<noteq> scope x \<Longrightarrow>
      \<exists>e. update x s = (Inl e, s)"
begin

definition row :: "string \<Rightarrow> 's \<Rightarrow> 'a option" where
  "row k s = find (\<lambda>x. key x = k) (rows s)"

lemma row_Some_iff: "distinct (map key (rows s)) \<Longrightarrow> row k s = Some x \<longleftrightarrow> x \<in> set (rows s) \<and> key x = k"
  unfolding row_def by (rule find_key_Some_iff)

lemma create_ok_iff: "ready x \<Longrightarrow> is_ok (fst (create x s)) \<longleftrightarrow> key x \<notin> key ` set (rows s)"
  using create_new [of x s] create_dup [of x s] by fastforce

lemma create_rows:
  "ready x \<Longrightarrow> create x s = (Inr y, t) \<Longrightarrow>
   y = x \<and> key x \<notin> key ` set (rows s) \<and> rows t = rows s @ [x]"
  using create_new [of x s] create_dup [of x s] by fastforce

lemma create_keeps:
  assumes "ready x" and "create x s = (r, t)" and "distinct (map key (rows s))"
  shows "distinct (map key (rows t))"
proof (cases "key x \<in> key ` set (rows s)")
  case True
  then show ?thesis using create_dup [OF assms(1) True] assms by auto
next
  case False
  then show ?thesis using create_new [OF assms(1) False] assms by auto
qed

lemma create_row:
  "ready x \<Longrightarrow> create x s = (Inr y, t) \<Longrightarrow> row k t = (if k = key x then Some x else row k s)"
proof -
  assume "ready x" "create x s = (Inr y, t)"
  from create_rows [OF this] have t: "rows t = rows s @ [x]" and new: "key x \<notin> key ` set (rows s)"
    by simp_all
  from new have "find (\<lambda>z. key z = key x) (rows s) = None" by (auto simp: find_None_iff image_iff)
  then show ?thesis by (auto simp: row_def t find_append split: option.splits)
qed

lemma update_rows:
  assumes "distinct (map key (rows s))" and "update x s = (Inr y, t)"
  shows "y = x \<and> (\<exists>z \<in> set (rows s). key z = key x \<and> scope z = scope x) \<and>
    rows t = map (\<lambda>y. if key y = key x then x else y) (rows s)"
proof (cases "\<exists>z \<in> set (rows s). key z = key x \<and> scope z = scope x")
  case True
  then obtain z where "z \<in> set (rows s)" "key z = key x" "scope z = scope x" by blast
  then show ?thesis using update_hit [OF assms(1), of z x] assms(2) by auto
next
  case False
  then show ?thesis using update_miss [of s x] assms(2) by auto
qed

lemma update_keys:
  "distinct (map key (rows s)) \<Longrightarrow> update x s = (r, t) \<Longrightarrow> map key (rows t) = map key (rows s)"
proof -
  assume ok: "distinct (map key (rows s))" and u: "update x s = (r, t)"
  show ?thesis
  proof (cases "\<exists>z \<in> set (rows s). key z = key x \<and> scope z = scope x")
    case True
    then obtain z where "z \<in> set (rows s)" "key z = key x" "scope z = scope x" by blast
    then show ?thesis using update_hit [OF ok, of z x] u by auto
  next
    case False
    then show ?thesis using update_miss [of s x] u by auto
  qed
qed

lemma update_row:
  assumes "distinct (map key (rows s))" and "update x s = (Inr y, t)"
  shows "row k t = (if k = key x then Some x else row k s)"
proof -
  have rows: "rows t = map (\<lambda>y. if key y = key x then x else y) (rows s)"
    and hit: "key x \<in> key ` set (rows s)"
    using update_rows [OF assms] by (simp_all, metis image_eqI)
  have "find (\<lambda>z. key z = k) (map (\<lambda>y. if key y = key x then x else y) ys) =
      (if k = key x \<and> key x \<in> key ` set ys then Some x else find (\<lambda>z. key z = k) ys)" for ys
    by (induction ys) auto
  then show ?thesis using hit by (simp add: row_def rows)
qed

lemma update_ok_iff:
  assumes "distinct (map key (rows s))"
  shows "is_ok (fst (update x s)) \<longleftrightarrow> (\<exists>z \<in> set (rows s). key z = key x \<and> scope z = scope x)"
  using update_hit [OF assms, of _ x] update_miss [of s x] by fastforce

end

text \<open>The four tables of the store keep it.\<close>

lemma update_at_laws:
  assumes "distinct (map key xs)" and "y \<in> set xs" and "key y = key x" and "P y"
    and "\<And>z. z \<in> set xs \<Longrightarrow> P z \<Longrightarrow> key z = key x"
  shows "\<exists>i. index_func P xs = Some i \<and> xs[i := x] = map (\<lambda>z. if key z = key x then x else z) xs"
proof -
  obtain i where i: "index_func P xs = Some i"
    using assms(2,4) index_func_None_iff [of P xs] by (cases "index_func P xs") auto
  then have "key (xs ! i) = key x" using index_func_Some [OF i] assms(5) by simp
  then show ?thesis using index_func_update [OF i assms(1)] i by blast
qed

interpretation entry_table: keyed_table en_id en_book_id
  "\<lambda>e. normalize_entry_id parse (en_id e) = Inr (en_id e)" ms_entries
  "st_create_entry parse" st_update_entry for parse
proof unfold_locales
  fix x y :: entry and s :: memory_store
  assume "distinct (map en_id (ms_entries s))" "y \<in> set (ms_entries s)" "en_id y = en_id x"
    "en_book_id y = en_book_id x"
  then show "\<exists>t. st_update_entry x s = (Inr x, t) \<and>
      ms_entries t = map (\<lambda>y. if en_id y = en_id x then x else y) (ms_entries s)"
    using update_at_laws [of en_id "ms_entries s" y x
        "\<lambda>z. en_book_id z = en_book_id x \<and> en_id z = en_id x"]
    by (auto simp: st_update_entry_def)
qed (auto simp: st_create_entry_def st_update_entry_def list_ex_iff index_func_None_iff image_iff
    split: option.splits)

interpretation category_table: keyed_table ct_id ct_book_id "\<lambda>_. True" ms_categories
  st_create_category st_update_category
proof unfold_locales
  fix x y :: category and s :: memory_store
  assume "distinct (map ct_id (ms_categories s))" "y \<in> set (ms_categories s)" "ct_id y = ct_id x"
    "ct_book_id y = ct_book_id x"
  then show "\<exists>t. st_update_category x s = (Inr x, t) \<and>
      ms_categories t = map (\<lambda>y. if ct_id y = ct_id x then x else y) (ms_categories s)"
    using update_at_laws [of ct_id "ms_categories s" y x
        "\<lambda>z. ct_book_id z = ct_book_id x \<and> ct_id z = ct_id x"]
    by (auto simp: st_update_category_def)
qed (auto simp: st_create_category_def st_update_category_def list_ex_iff index_func_None_iff image_iff
    split: option.splits)

interpretation group_table: keyed_table ag_id "\<lambda>_. ()" "\<lambda>_. True" ms_groups
  st_create_account_group st_update_account_group
proof unfold_locales
  fix x y :: account_group and s :: memory_store
  assume "distinct (map ag_id (ms_groups s))" "y \<in> set (ms_groups s)" "ag_id y = ag_id x"
  then show "\<exists>t. st_update_account_group x s = (Inr x, t) \<and>
      ms_groups t = map (\<lambda>y. if ag_id y = ag_id x then x else y) (ms_groups s)"
    using update_at_laws [of ag_id "ms_groups s" y x "\<lambda>z. ag_id z = ag_id x"]
    by (auto simp: st_update_account_group_def)
qed (auto simp: st_create_account_group_def st_update_account_group_def list_ex_iff
    index_func_None_iff image_iff split: option.splits)

interpretation account_table: keyed_table ac_id "\<lambda>_. ()" "\<lambda>_. True" ms_accounts
  st_create_account st_update_account
proof unfold_locales
  fix x y :: account and s :: memory_store
  assume "distinct (map ac_id (ms_accounts s))" "y \<in> set (ms_accounts s)" "ac_id y = ac_id x"
  then show "\<exists>t. st_update_account x s = (Inr x, t) \<and>
      ms_accounts t = map (\<lambda>y. if ac_id y = ac_id x then x else y) (ms_accounts s)"
    using update_at_laws [of ac_id "ms_accounts s" y x "\<lambda>z. ac_id z = ac_id x"]
    by (auto simp: st_update_account_def)
qed (auto simp: st_create_account_def st_update_account_def list_ex_iff
    index_func_None_iff image_iff split: option.splits)

section \<open>Well-formed stores\<close>

definition members_ok :: "(string \<times> (string \<times> book_member) list) list \<Rightarrow> bool" where
  "members_ok ms \<longleftrightarrow> distinct (map fst ms) \<and>
     list_all (\<lambda>(b, inner). keys_ok bm_user_id inner \<and> list_all (\<lambda>(_, m). bm_book_id m = b) inner) ms"

definition store_ok :: "memory_store \<Rightarrow> bool" where
  "store_ok s \<longleftrightarrow> keys_ok bk_id (ms_books s) \<and> members_ok (ms_members s) \<and>
     distinct (map en_id (ms_entries s)) \<and> distinct (map ct_id (ms_categories s)) \<and>
     distinct (map ag_id (ms_groups s)) \<and> distinct (map ac_id (ms_accounts s))"

text \<open>The store as two maps: books by id, members by book and user.\<close>

definition book_at :: "memory_store \<Rightarrow> string \<Rightarrow> book option" where
  "book_at s b = map_of (ms_books s) b"

definition member_at :: "memory_store \<Rightarrow> string \<Rightarrow> string \<Rightarrow> book_member option" where
  "member_at s b u = Option.bind (map_of (ms_members s) b) (\<lambda>inner. map_of inner u)"

lemma st_book_iff [simp]: "st_book b s = Inr x \<longleftrightarrow> book_at s b = Some x"
  by (auto simp: st_book_def book_at_def split: option.splits)

lemma st_member_iff [simp]: "st_member b u s = Inr m \<longleftrightarrow> member_at s b u = Some m"
  by (auto simp: st_member_def member_at_def split: option.splits)

lemma lookup_frame [simp]:
  "member_at (s\<lparr>ms_books := x1\<rparr>) = member_at s" "book_at (s\<lparr>ms_members := x2\<rparr>) = book_at s"
  "member_at (s\<lparr>ms_entries := x3\<rparr>) = member_at s" "book_at (s\<lparr>ms_entries := x3\<rparr>) = book_at s"
  "member_at (s\<lparr>ms_categories := x4\<rparr>) = member_at s" "book_at (s\<lparr>ms_categories := x4\<rparr>) = book_at s"
  "member_at (s\<lparr>ms_groups := x5\<rparr>) = member_at s" "book_at (s\<lparr>ms_groups := x5\<rparr>) = book_at s"
  "member_at (s\<lparr>ms_accounts := x6\<rparr>) = member_at s" "book_at (s\<lparr>ms_accounts := x6\<rparr>) = book_at s"
  "member_at (s\<lparr>ms_rates := x7\<rparr>) = member_at s" "book_at (s\<lparr>ms_rates := x7\<rparr>) = book_at s"
  by (simp_all add: member_at_def book_at_def fun_eq_iff)

text \<open>The same as conditional rewrites, for a lookup whose outcome is known.\<close>

lemma st_lookup_Some:
  "book_at s b = Some x \<Longrightarrow> st_book b s = Inr x"
  "member_at s b u = Some m \<Longrightarrow> st_member b u s = Inr m"
  by simp_all

lemma st_lookup_None:
  "book_at s b = None \<Longrightarrow> st_book b s = Inl (ErrOther ''book not found'')"
  "member_at s b u = None \<Longrightarrow> \<exists>e. st_member b u s = Inl (ErrOther e)"
  by (auto simp: st_book_def book_at_def st_member_def member_at_def split: option.splits bind_splits)

lemma members_ok_lookup:
  "members_ok ms \<Longrightarrow> map_of ms b = Some inner \<Longrightarrow>
   keys_ok bm_user_id inner \<and> (\<forall>(u, m) \<in> set inner. bm_book_id m = b)"
  by (auto simp: members_ok_def list_all_iff dest!: map_of_SomeD)

lemma members_ok_update:
  assumes ok: "members_ok ms" and inner: "keys_ok bm_user_id inner"
    and book: "\<forall>(u, m) \<in> set inner. bm_book_id m = b"
  shows "members_ok (AList.update b inner ms)"
proof -
  have "distinct (map fst (AList.update b inner ms))" using ok by (simp add: members_ok_def distinct_update)
  moreover have "keys_ok bm_user_id i \<and> (\<forall>(u, m) \<in> set i. bm_book_id m = c)"
    if "(c, i) \<in> set (AList.update b inner ms)" for c i
  proof -
    from that calculation have "map_of (AList.update b inner ms) c = Some i" by simp
    then show ?thesis using inner book members_ok_lookup [OF ok, of c i]
      by (auto simp: update_conv' split: if_splits)
  qed
  ultimately show ?thesis unfolding members_ok_def list_all_iff by blast
qed

lemma set_AList_update: "(a, x) \<in> set (AList.update k v m) \<Longrightarrow> x = v \<or> (a, x) \<in> set m"
  by (induction m) (auto split: if_splits)

lemma set_AList_delete: "p \<in> set (AList.delete k m) \<Longrightarrow> p \<in> set m"
  by (auto simp: AList.delete_eq)

lemma member_at_ok:
  assumes "store_ok s" and "member_at s b u = Some m"
  shows "bm_book_id m = b" and "bm_user_id m = u"
proof -
  from assms(2) obtain inner where i: "map_of (ms_members s) b = Some inner" "map_of inner u = Some m"
    by (auto simp: member_at_def split: bind_splits)
  then show "bm_book_id m = b" "bm_user_id m = u"
    using members_ok_lookup [of "ms_members s" b inner] assms(1) keys_ok_lookup [of bm_user_id inner u m]
      map_of_SomeD [OF i(2)]
    by (auto simp: store_ok_def)
qed

lemma book_at_ok: "store_ok s \<Longrightarrow> book_at s b = Some x \<Longrightarrow> bk_id x = b"
  unfolding store_ok_def book_at_def by (metis keys_ok_lookup)

section \<open>The effect of each write\<close>

text \<open>On the two maps, and on the other parts of the state.\<close>

lemma inner_lookup:
  "(case map_of ms b of None \<Rightarrow> None | Some inner \<Rightarrow> map_of inner u) =
   map_of (case map_of ms b of None \<Rightarrow> [] | Some inner \<Rightarrow> inner) u"
  by (simp split: option.splits)

lemma create_book_effect:
  assumes "st_create_book b owner cs s = (Inr r, t)"
  shows "r = (b, owner)" and "book_at s (bk_id b) = None" and "bm_book_id owner = bk_id b"
    and "book_at t = (book_at s)(bk_id b \<mapsto> b)"
    and "member_at s (bk_id b) (bm_user_id owner) = None"
    and "member_at t = (\<lambda>c u. if c = bk_id b \<and> u = bm_user_id owner then Some owner else member_at s c u)"
    and "ms_categories t = ms_categories s @ cs"
    and "ms_entries t = ms_entries s" and "ms_groups t = ms_groups s"
    and "ms_accounts t = ms_accounts s" and "ms_rates t = ms_rates s"
  using assms
  by (auto simp: st_create_book_def book_at_def member_at_def update_conv' Let_def fun_eq_iff
      split: if_splits sum.splits option.splits bind_splits)

lemma create_book_member_effect:
  assumes "st_create_book_member m s = (Inr r, t)"
  shows "r = m" and "book_at s (bm_book_id m) \<noteq> None"
    and "member_at s (bm_book_id m) (bm_user_id m) = None"
    and "member_at t = (\<lambda>c u. if c = bm_book_id m \<and> u = bm_user_id m then Some m else member_at s c u)"
    and "t = s\<lparr>ms_members := ms_members t\<rparr>"
    and "book_at t = book_at s"
  using assms
  by (auto simp: st_create_book_member_def book_at_def member_at_def update_conv' Let_def fun_eq_iff
      split: if_splits option.splits bind_splits)

lemma update_book_member_effect:
  assumes "st_update_book_member m s = (Inr r, t)"
  shows "r = m" and "member_at s (bm_book_id m) (bm_user_id m) \<noteq> None"
    and "member_at t = (\<lambda>c u. if c = bm_book_id m \<and> u = bm_user_id m then Some m else member_at s c u)"
    and "t = s\<lparr>ms_members := ms_members t\<rparr>"
    and "book_at t = book_at s"
  using assms
  by (auto simp: st_update_book_member_def member_at_def update_conv' fun_eq_iff
      split: if_splits option.splits bind_splits)

lemma delete_book_member_effect:
  assumes "st_delete_book_member b u s = (Inr r, t)"
  shows "member_at s b u \<noteq> None"
    and "member_at t = (\<lambda>c v. if c = b \<and> v = u then None else member_at s c v)"
    and "t = s\<lparr>ms_members := ms_members t\<rparr>"
    and "book_at t = book_at s"
  using assms
  by (auto simp: st_delete_book_member_def member_at_def update_conv' delete_conv' fun_eq_iff
      split: if_splits option.splits bind_splits)

lemma update_book_effect:
  assumes "st_update_book b s = (Inr r, t)"
  shows "r = b" and "book_at s (bk_id b) \<noteq> None" and "book_at t = (book_at s)(bk_id b \<mapsto> b)"
    and "t = s\<lparr>ms_books := ms_books t\<rparr>"
    and "member_at t = member_at s"
  using assms
  by (auto simp: st_update_book_def book_at_def update_conv' fun_eq_iff split: if_splits)

section \<open>Every write keeps the store well-formed\<close>

lemma inner_update_ok:
  assumes ok: "members_ok ms" and m: "bm_book_id m = b" "bm_user_id m = u"
  shows "members_ok (AList.update b (AList.update u m
    (case map_of ms b of None \<Rightarrow> [] | Some inner \<Rightarrow> inner)) ms)"
proof (rule members_ok_update [OF ok])
  let ?i = "case map_of ms b of None \<Rightarrow> [] | Some inner \<Rightarrow> inner"
  have i: "keys_ok bm_user_id ?i" "\<forall>(u, m) \<in> set ?i. bm_book_id m = b"
    using members_ok_lookup [OF ok, of b] by (cases "map_of ms b"; simp)+
  show "keys_ok bm_user_id (AList.update u m ?i)" by (rule keys_ok_update [OF i(1) m(2)])
  show "\<forall>(u, m) \<in> set (AList.update u m ?i). bm_book_id m = b"
    using i(2) m(1) by (auto dest!: set_AList_update)
qed

lemma inner_delete_ok:
  assumes ok: "members_ok ms" and i: "map_of ms b = Some inner"
  shows "members_ok (AList.update b (AList.delete u inner) ms)"
proof (rule members_ok_update [OF ok])
  have "keys_ok bm_user_id inner" "\<forall>(u, m) \<in> set inner. bm_book_id m = b"
    using members_ok_lookup [OF ok i] by simp_all
  then show "keys_ok bm_user_id (AList.delete u inner)"
    "\<forall>(u, m) \<in> set (AList.delete u inner). bm_book_id m = b"
    by (simp_all add: keys_ok_delete, auto dest!: set_AList_delete)
qed

lemma check_default_categories_ok:
  "check_default_categories b existing seen cs = Inr u \<Longrightarrow>
   (\<forall>c \<in> set cs. ct_book_id c = b) \<and> distinct (map ct_id cs) \<and>
   ct_id ` set cs \<inter> (set seen \<union> ct_id ` set existing) = {}"
proof (induction cs arbitrary: seen)
  case (Cons c cs)
  from Cons.prems have "check_default_categories b existing (ct_id c # seen) cs = Inr u"
    and c: "ct_book_id c = b" "ct_id c \<notin> set seen" "ct_id c \<notin> ct_id ` set existing"
    by (simp_all add: list_ex_iff image_iff split: if_splits) metis
  with Cons.IH [of "ct_id c # seen"] show ?case by auto
qed simp

named_theorems store_keeps \<open>writes keep \<open>store_ok\<close>\<close>

lemma create_book_keeps [store_keeps]:
  assumes ok: "store_ok s" and "st_create_book b owner cs s = (r, t)"
  shows "store_ok t"
proof (cases r)
  case Inl
  then show ?thesis using assms store_fails_clean(1) [of b owner cs]
    by (auto dest: fails_cleanD)
next
  case (Inr x)
  with assms(2) have w: "st_create_book b owner cs s = (Inr x, t)" by simp
  have cs: "check_default_categories (bk_id b) (ms_categories s) [] cs = Inr ()"
    and t: "t = s\<lparr>ms_books := AList.update (bk_id b) b (ms_books s),
      ms_members := AList.update (bk_id b) (AList.update (bm_user_id owner) owner
        (case map_of (ms_members s) (bk_id b) of None \<Rightarrow> [] | Some inner \<Rightarrow> inner)) (ms_members s),
      ms_categories := ms_categories s @ cs\<rparr>"
    and o: "bm_book_id owner = bk_id b"
    using w by (auto simp: st_create_book_def Let_def split: if_splits sum.splits)
  have parts: "keys_ok bk_id (ms_books s)" "members_ok (ms_members s)"
    "distinct (map ct_id (ms_categories s))"
    using ok by (simp_all add: store_ok_def)
  have "members_ok (ms_members t)" using inner_update_ok [OF parts(2) o refl] by (simp add: t)
  moreover have "keys_ok bk_id (ms_books t)" using keys_ok_update [OF parts(1) refl] by (simp add: t)
  moreover have "distinct (map ct_id (ms_categories t))"
    using parts(3) check_default_categories_ok [OF cs] by (auto simp: t)
  ultimately show ?thesis using ok by (simp add: store_ok_def t)
qed

lemma create_book_member_keeps [store_keeps]:
  assumes "store_ok s" and "st_create_book_member m s = (r, t)"
  shows "store_ok t"
  using assms inner_update_ok [of "ms_members s" m, OF _ refl refl]
  by (auto simp: st_create_book_member_def store_ok_def Let_def split: if_splits)

lemma update_book_member_keeps [store_keeps]:
  assumes "store_ok s" and "st_update_book_member m s = (r, t)"
  shows "store_ok t"
  using assms inner_update_ok [of "ms_members s" m, OF _ refl refl]
  by (auto simp: st_update_book_member_def store_ok_def split: if_splits option.splits)

lemma delete_book_member_keeps [store_keeps]:
  assumes "store_ok s" and "st_delete_book_member b u s = (r, t)"
  shows "store_ok t"
  using assms
  by (auto simp: st_delete_book_member_def store_ok_def inner_delete_ok split: if_splits option.splits)

lemma update_book_keeps [store_keeps]:
  assumes "store_ok s" and "st_update_book b s = (r, t)"
  shows "store_ok t"
  using assms by (auto simp: st_update_book_def store_ok_def keys_ok_update split: if_splits)

lemma create_entry_keeps [store_keeps]:
  assumes "store_ok s" and "st_create_entry parse e s = (r, t)"
  shows "store_ok t"
  using assms
  by (auto simp: st_create_entry_def store_ok_def Let_def list_ex_iff split: if_splits sum.splits)

lemma update_entry_keeps [store_keeps]:
  assumes "store_ok s" and "st_update_entry e s = (r, t)"
  shows "store_ok t"
proof -
  have "distinct (map en_id (ms_entries t))"
    using assms entry_table.update_keys [OF _ assms(2)] by (simp add: store_ok_def)
  then show ?thesis using assms by (auto simp: st_update_entry_def store_ok_def split: option.splits)
qed

lemma delete_entry_keeps [store_keeps]:
  assumes "store_ok s" and "st_delete_entry b e s = (r, t)"
  shows "store_ok t"
  using assms delete_at_filter [of _ "ms_entries s" _ en_id]
  by (auto simp: st_delete_entry_def store_ok_def distinct_map_filter split: option.splits)

lemma category_writes_keep [store_keeps]:
  assumes "store_ok s"
  shows "st_create_category c s = (r, t) \<Longrightarrow> store_ok t"
    and "st_update_category c s = (r, t) \<Longrightarrow> store_ok t"
proof -
  have d: "distinct (map ct_id (ms_categories s))" using assms by (simp add: store_ok_def)
  show "st_create_category c s = (r, t) \<Longrightarrow> store_ok t"
    using assms category_table.create_keeps [OF TrueI _ d, of c r t]
    by (auto simp: st_create_category_def store_ok_def split: if_splits)
  show "st_update_category c s = (r, t) \<Longrightarrow> store_ok t"
    using assms category_table.update_keys [OF d, of c r t] d
    by (auto simp: st_update_category_def store_ok_def split: option.splits)
qed

lemma group_writes_keep [store_keeps]:
  assumes "store_ok s"
  shows "st_create_account_group g s = (r, t) \<Longrightarrow> store_ok t"
    and "st_update_account_group g s = (r, t) \<Longrightarrow> store_ok t"
proof -
  have d: "distinct (map ag_id (ms_groups s))" using assms by (simp add: store_ok_def)
  show "st_create_account_group g s = (r, t) \<Longrightarrow> store_ok t"
    using assms group_table.create_keeps [OF TrueI _ d, of g r t]
    by (auto simp: st_create_account_group_def store_ok_def split: if_splits)
  show "st_update_account_group g s = (r, t) \<Longrightarrow> store_ok t"
    using assms group_table.update_keys [OF d, of g r t] d
    by (auto simp: st_update_account_group_def store_ok_def split: option.splits)
qed

lemma account_writes_keep [store_keeps]:
  assumes "store_ok s"
  shows "st_create_account a s = (r, t) \<Longrightarrow> store_ok t"
    and "st_update_account a s = (r, t) \<Longrightarrow> store_ok t"
proof -
  have d: "distinct (map ac_id (ms_accounts s))" using assms by (simp add: store_ok_def)
  show "st_create_account a s = (r, t) \<Longrightarrow> store_ok t"
    using assms account_table.create_keeps [OF TrueI _ d, of a r t]
    by (auto simp: st_create_account_def store_ok_def split: if_splits)
  show "st_update_account a s = (r, t) \<Longrightarrow> store_ok t"
    using assms account_table.update_keys [OF d, of a r t] d
    by (auto simp: st_update_account_def store_ok_def split: option.splits)
qed

lemma replace_rates_keeps [store_keeps]:
  "store_ok s \<Longrightarrow> st_replace_exchange_rates rs s = (r, t) \<Longrightarrow> store_ok t"
  by (auto simp: st_replace_exchange_rates_def store_ok_def)

section \<open>What the listings contain\<close>

lemma keys_ok_map_snd: "keys_ok key m \<Longrightarrow> distinct (map key (map snd m))"
  using keys_ok_distinct [of key m] by (simp add: comp_def)

lemma keys_ok_find: "keys_ok key m \<Longrightarrow> find (\<lambda>v. key v = k) (map snd m) = map_of m k"
proof -
  assume ok: "keys_ok key m"
  show ?thesis
  proof (cases "map_of m k")
    case None
    then have "\<forall>v \<in> snd ` set m. key v \<noteq> k"
      using keys_ok_values [OF ok] by (metis option.distinct(1))
    then have "find (\<lambda>v. key v = k) (map snd m) = None" by (auto simp: find_None_iff)
    then show ?thesis using None by simp
  next
    case (Some v)
    then have "v \<in> set (map snd m)" "key v = k"
      using ok keys_ok_lookup [OF ok Some] by (auto dest!: map_of_SomeD simp: rev_image_eqI)
    then show ?thesis using Some find_key_Some_iff [OF keys_ok_map_snd [OF ok]] by simp
  qed
qed

lemma book_members_lookup:
  assumes "store_ok s" and "st_book_members b s = Inr ms"
  shows "distinct (map bm_user_id ms)"
    and "find (\<lambda>m. bm_user_id m = u) ms = member_at s b u"
    and "m \<in> set ms \<longleftrightarrow> member_at s b (bm_user_id m) = Some m"
proof -
  from assms(2) obtain inner where i: "map_of (ms_members s) b = Some inner"
    and ms: "ms = sort_func (\<lambda>l r. cmp_string (bm_user_id l) (bm_user_id r)) (map snd inner)"
    by (auto simp: st_book_members_def split: option.splits)
  have ok: "keys_ok bm_user_id inner"
    using members_ok_lookup [OF _ i] assms(1) by (simp add: store_ok_def)
  have d: "distinct (map bm_user_id (map snd inner))" by (rule keys_ok_map_snd [OF ok])
  show ds: "distinct (map bm_user_id ms)" using d by (simp add: ms del: map_map)
  have at: "member_at s b v = map_of inner v" for v by (simp add: member_at_def i)
  show f: "find (\<lambda>m. bm_user_id m = v) ms = member_at s b v" for v
    unfolding ms at using find_sort_func [OF d] keys_ok_find [OF ok] by simp
  show "m \<in> set ms \<longleftrightarrow> member_at s b (bm_user_id m) = Some m"
    using find_key_Some_iff [OF ds, of "bm_user_id m" m] f by simp
qed

lemma book_members_exist: "member_at s b u = Some m \<Longrightarrow> \<exists>ms. st_book_members b s = Inr ms"
  by (auto simp: member_at_def st_book_members_def split: bind_splits)

text \<open>A lookup in a listing filtered by the book and sorted.\<close>

lemma find_listed:
  assumes "distinct (map key xs)"
  shows "find (\<lambda>x. key x = k) (sort_func cmp (filter P xs)) = Some x \<longleftrightarrow> x \<in> set xs \<and> P x \<and> key x = k"
  using find_key_Some_iff [of key "sort_func cmp (filter P xs)" k x] distinct_map_filter [OF assms, of P]
  by auto

lemma find_sorted:
  assumes "distinct (map key xs)"
  shows "find (\<lambda>x. key x = k) (sort_func cmp xs) = Some x \<longleftrightarrow> x \<in> set xs \<and> key x = k"
  using find_listed [OF assms, of k cmp "\<lambda>_. True"] by simp

lemma store_ok_distinct:
  assumes "store_ok s"
  shows "distinct (map en_id (ms_entries s))" and "distinct (map ct_id (ms_categories s))"
    and "distinct (map ag_id (ms_groups s))" and "distinct (map ac_id (ms_accounts s))"
  using assms by (simp_all add: store_ok_def)

text \<open>Sort orders within the range in which the comparator does not wrap: the listing order.\<close>

lemma categories_sorted:
  assumes "list_all (order_ok \<circ> ct_sort_order) (ms_categories s)"
  shows "st_categories b s = Inr (sort_key (\<lambda>c. Listing_Key (ct_sort_order c) (ct_id c))
    (filter (\<lambda>c. ct_book_id c = b) (ms_categories s)))"
proof -
  have "sort_func (cmp_listing ct_sort_order ct_id) (filter (\<lambda>c. ct_book_id c = b) (ms_categories s)) =
      sort_key (\<lambda>c. Listing_Key (ct_sort_order c) (ct_id c))
        (filter (\<lambda>c. ct_book_id c = b) (ms_categories s))"
    using assms by (intro sort_func_key_on cmp_listing_neg) (auto simp: list_all_iff)
  then show ?thesis by (simp add: st_categories_def)
qed

lemma entries_sorted:
  "st_entries b s = Inr (sort_key en_occurred_at (filter (\<lambda>e. en_book_id e = b) (ms_entries s)))"
  unfolding st_entries_def
  by (subst sort_func_key [where key = en_occurred_at]) (auto simp: cmp_occurred_def sgn_if)

section \<open>Snapshots\<close>

text \<open>Two stores that answer every query alike.\<close>

definition same_data :: "memory_store \<Rightarrow> memory_store \<Rightarrow> bool" where
  "same_data s t \<longleftrightarrow> book_at s = book_at t \<and> member_at s = member_at t \<and>
     ms_entries s = ms_entries t \<and> ms_categories s = ms_categories t \<and>
     ms_groups s = ms_groups t \<and> ms_accounts s = ms_accounts t \<and>
     clone_exchange_rates (ms_rates s) = clone_exchange_rates (ms_rates t)"

lemma clone_exchange_rates_key: "clone_exchange_rates rates = sort_key er_currency rates"
  unfolding clone_exchange_rates_def by (rule sort_func_key) simp

lemma clone_exchange_rates_idem [simp]:
  "clone_exchange_rates (clone_exchange_rates rates) = clone_exchange_rates rates"
  by (simp add: clone_exchange_rates_key sort_key_id_if_sorted)

lemma fold_update_lookup:
  assumes "distinct (map key xs)"
  shows "map_of (fold (\<lambda>x m. AList.update (key x) x m) xs m) k =
    (case find (\<lambda>x. key x = k) xs of Some x \<Rightarrow> Some x | None \<Rightarrow> map_of m k)"
  using assms
proof (induction xs arbitrary: m)
  case (Cons x xs)
  have "find (\<lambda>y. key y = key x) xs = None" using Cons.prems by (auto simp: find_None_iff image_iff)
  then show ?case using Cons by (auto simp: update_conv' split: option.splits)
qed simp

definition member_key :: "book_member \<Rightarrow> string \<times> string" where
  "member_key m = (bm_book_id m, bm_user_id m)"

definition inner_at :: "(string \<times> (string \<times> book_member) list) list \<Rightarrow> string \<Rightarrow> string \<Rightarrow> book_member option" where
  "inner_at ms b u = Option.bind (map_of ms b) (\<lambda>inner. map_of inner u)"

lemma member_at_inner: "member_at s b u = inner_at (ms_members s) b u"
  by (simp add: member_at_def inner_at_def)

lemma inner_at_put:
  "inner_at (AList.update (bm_book_id x) (AList.update (bm_user_id x) x
     (case map_of m (bm_book_id x) of None \<Rightarrow> [] | Some inner \<Rightarrow> inner)) m) b u =
   (if (b, u) = member_key x then Some x else inner_at m b u)"
  by (auto simp: inner_at_def member_key_def update_conv' split: option.splits)

lemma fold_members_lookup:
  assumes "distinct (map member_key xs)"
  shows "inner_at (fold (\<lambda>x m. AList.update (bm_book_id x) (AList.update (bm_user_id x) x
      (case map_of m (bm_book_id x) of None \<Rightarrow> [] | Some inner \<Rightarrow> inner)) m) xs m) b u =
    (case find (\<lambda>x. member_key x = (b, u)) xs of Some x \<Rightarrow> Some x | None \<Rightarrow> inner_at m b u)"
  using assms
proof (induction xs arbitrary: m)
  case (Cons x xs)
  have "find (\<lambda>y. member_key y = member_key x) xs = None"
    using Cons.prems by (auto simp: find_None_iff image_iff)
  then show ?case using Cons by (auto simp: inner_at_put split: option.splits)
qed simp

lemma flat_members:
  assumes "members_ok ms"
  shows "x \<in> set (concat (map (\<lambda>(_, inner). map snd inner) ms)) \<longleftrightarrow>
      inner_at ms (bm_book_id x) (bm_user_id x) = Some x"
    and "distinct (map member_key (concat (map (\<lambda>(_, inner). map snd inner) ms)))"
proof -
  show "x \<in> set (concat (map (\<lambda>(_, inner). map snd inner) ms)) \<longleftrightarrow>
      inner_at ms (bm_book_id x) (bm_user_id x) = Some x" for x
  proof
    assume "x \<in> set (concat (map (\<lambda>(_, inner). map snd inner) ms))"
    then obtain b inner u where i: "(b, inner) \<in> set ms" "(u, x) \<in> set inner" by auto
    then have "map_of ms b = Some inner" using assms by (simp add: members_ok_def)
    moreover from this have "keys_ok bm_user_id inner" "bm_book_id x = b"
      using members_ok_lookup [OF assms, of b inner] i(2) by auto
    moreover from this have "map_of inner (bm_user_id x) = Some x"
      using keys_ok_values [of bm_user_id inner x] i(2) by (metis image_eqI snd_conv)
    ultimately show "inner_at ms (bm_book_id x) (bm_user_id x) = Some x" by (simp add: inner_at_def)
  next
    assume "inner_at ms (bm_book_id x) (bm_user_id x) = Some x"
    then obtain inner where "map_of ms (bm_book_id x) = Some inner"
      "map_of inner (bm_user_id x) = Some x"
      by (auto simp: inner_at_def split: bind_splits)
    then have "(bm_book_id x, inner) \<in> set ms" "x \<in> snd ` set inner"
      by (auto dest!: map_of_SomeD simp: rev_image_eqI)
    then show "x \<in> set (concat (map (\<lambda>(_, inner). map snd inner) ms))" by force
  qed
  show "distinct (map member_key (concat (map (\<lambda>(_, inner). map snd inner) ms)))"
    using assms
  proof (induction ms)
    case (Cons p ms)
    obtain b inner where p: "p = (b, inner)" by force
    have inner: "keys_ok bm_user_id inner" "\<forall>(u, m) \<in> set inner. bm_book_id m = b"
      and rest: "members_ok ms" "b \<notin> fst ` set ms"
      using Cons.prems by (auto simp: members_ok_def p list_all_iff)
    have "distinct (map snd (map member_key (map snd inner)))"
      using keys_ok_map_snd [OF inner(1)] by (simp add: member_key_def comp_def)
    then have "distinct (map member_key (map snd inner))"
      using distinct_map [of snd "map member_key (map snd inner)"] by blast
    moreover have "fst k = b" if "k \<in> set (map member_key (map snd inner))" for k
      using inner(2) that by (auto simp: member_key_def)
    moreover have "fst k \<noteq> b"
      if "k \<in> set (map member_key (concat (map (\<lambda>(_, inner). map snd inner) ms)))" for k
    proof -
      from that obtain c i u m where "(c, i) \<in> set ms" "(u, m) \<in> set i" "k = member_key m" by auto
      moreover from this have "bm_book_id m = c"
        using rest(1) by (auto simp: members_ok_def list_all_iff)
      ultimately show ?thesis using rest(2) by (auto simp: member_key_def rev_image_eqI)
    qed
    ultimately have "distinct (map member_key (map snd inner) @
        map member_key (concat (map (\<lambda>(_, inner). map snd inner) ms)))"
      using Cons.IH [OF rest(1)] unfolding distinct_append by blast
    then show ?case by (simp add: p)
  qed simp
qed

text \<open>A store rebuilt from its snapshot answers every query like the store itself.\<close>

lemma snapshot_members_lookup:
  assumes "store_ok s"
  shows "member_at (new_memory_store (snapshot s)) b u = member_at s b u"
proof -
  let ?flat = "concat (map (\<lambda>(_, inner). map snd inner) (ms_members s))"
  have ok: "members_ok (ms_members s)" using assms by (simp add: store_ok_def)
  note flat = flat_members [OF ok]
  have "find (\<lambda>x. member_key x = (b, u)) ?flat = inner_at (ms_members s) b u"
  proof (cases "inner_at (ms_members s) b u")
    case None
    have "find (\<lambda>x. member_key x = (b, u)) ?flat = None"
      using None flat(1) unfolding find_None_iff by (auto simp: member_key_def simp del: set_concat)
    then show ?thesis using None by simp
  next
    case (Some x)
    then have "member_key x = (b, u)"
      using member_at_ok [OF assms, of b u x] by (simp add: member_key_def member_at_inner)
    then show ?thesis using Some flat(1) [of x] find_key_Some_iff [OF flat(2), of "(b, u)" x]
      by (simp add: member_key_def del: set_concat)
  qed
  then have "find (\<lambda>x. member_key x = (b, u)) (sort_func cmp_member ?flat) = member_at s b u"
    using find_sort_func [OF flat(2)] by (simp add: member_at_inner)
  moreover have "distinct (map member_key (sort_func cmp_member ?flat))" using flat(2) by simp
  ultimately show ?thesis
    by (simp add: member_at_inner new_memory_store_def snapshot_def Let_def fold_members_lookup
        inner_at_def [of "[]"] split: option.splits)
qed

lemma snapshot_books_lookup:
  assumes "store_ok s"
  shows "book_at (new_memory_store (snapshot s)) b = book_at s b"
proof -
  have ok: "keys_ok bk_id (ms_books s)" using assms by (simp add: store_ok_def)
  have d: "distinct (map bk_id (map snd (ms_books s)))" by (rule keys_ok_map_snd [OF ok])
  then show ?thesis
    using fold_update_lookup [of bk_id "sort_func (\<lambda>l r. cmp_string (bk_id l) (bk_id r)) (map snd (ms_books s))" "[]" b]
      find_sort_func [OF d, of b] keys_ok_find [OF ok, of b]
    by (simp add: book_at_def new_memory_store_def snapshot_def Let_def split: option.splits del: map_map)
qed

lemma snapshot_same_data: "store_ok s \<Longrightarrow> same_data (new_memory_store (snapshot s)) s"
  unfolding same_data_def
  by (simp add: fun_eq_iff snapshot_members_lookup snapshot_books_lookup)
    (simp add: new_memory_store_def snapshot_def Let_def)

end
