(* ===== verification/Money.thy ===== *)
theory Money
  imports Complex_Main Ledger_Model "HOL-Library.Signed_Division"
begin

text \<open>
  Currencies, exchange rates and the conversion of amounts (\<open>ledger/money.go\<close>). A \<open>big.Rat\<close> is a
  rational number, a \<open>big.Int\<close> an integer; \<open>QuoRem\<close> truncates towards zero and \<open>Int64\<close> keeps the
  low 64 bits.
\<close>

section \<open>Rounding\<close>

definition round_rat_to_int64 :: "rat \<Rightarrow> int" where
  "round_rat_to_int64 value =
     (case quotient_of value of (numerator, denominator) \<Rightarrow>
        let quotient = numerator sdiv denominator;
            remainder = numerator smod denominator
        in if remainder = 0 then int64 quotient
           else if 2 * \<bar>remainder\<bar> \<ge> denominator
           then (if value \<ge> 0 then int64 (quotient + 1) else int64 (quotient - 1))
           else int64 quotient)"

text \<open>The nearest integer, a tie going away from zero.\<close>

definition round_away :: "rat \<Rightarrow> int" where
  "round_away v = (if v \<ge> 0 then \<lfloor>v + 1 / 2\<rfloor> else - \<lfloor>- v + 1 / 2\<rfloor>)"

lemma floor_half:
  fixes n d :: int
  assumes "0 \<le> n" and "0 < d"
  shows "\<lfloor>(of_int n / of_int d + 1 / 2 :: rat)\<rfloor> =
    (if 2 * (n mod d) \<ge> d then n div d + 1 else n div d)"
proof -
  have "(of_int n / of_int d + 1 / 2 :: rat) = of_int (2 * n + d) / of_int (2 * d)"
    using assms by (simp add: field_simps)
  then have "\<lfloor>(of_int n / of_int d + 1 / 2 :: rat)\<rfloor> = (2 * n + d) div (2 * d)"
    by (simp only: floor_divide_of_int_eq)
  also have "2 * n + d = 2 * (n mod d) + d + n div d * (2 * d)"
  proof -
    have "2 * n = 2 * (d * (n div d) + n mod d)" by simp
    then show ?thesis by (simp only: algebra_simps)
  qed
  also have "(2 * (n mod d) + d + n div d * (2 * d)) div (2 * d) =
      n div d + (2 * (n mod d) + d) div (2 * d)"
    using assms by simp
  also have "(2 * (n mod d) + d) div (2 * d) = (if 2 * (n mod d) \<ge> d then 1 else 0)"
  proof -
    have r: "0 \<le> n mod d" "n mod d < d" using assms by simp_all
    then have "2 * (n mod d) < 3 * d" by linarith
    with r show ?thesis using assms by (auto simp: div_pos_pos_trivial div_add_self2
        intro!: div_pos_pos_trivial int_div_pos_eq [of _ _ 1 "2 * (n mod d) - d"])
  qed
  finally show ?thesis by simp
qed

lemma round_rat_to_int64_eq: "round_rat_to_int64 v = int64 (round_away v)"
proof -
  obtain n d where q: "quotient_of v = (n, d)" by force
  then have d: "0 < d" by (rule quotient_of_denom_pos)
  from q have v: "v = of_int n / of_int d" by (rule quotient_of_div)
  have sign: "v \<ge> 0 \<longleftrightarrow> n \<ge> 0" using d by (simp add: v zero_le_divide_iff)
  show ?thesis
  proof (cases "n \<ge> 0")
    case True
    have "n sdiv d = n div d" "n smod d = n mod d"
      using True d by (cases "n = 0"; simp add: signed_divide_int_def signed_modulo_int_def
          minus_div_mult_eq_mod)+
    moreover have "\<lfloor>v + 1 / 2\<rfloor> = (if 2 * (n mod d) \<ge> d then n div d + 1 else n div d)"
      using floor_half [OF True d] by (simp add: v)
    moreover have "0 \<le> n mod d" using d by simp
    ultimately show ?thesis using True d sign
      by (auto simp: round_rat_to_int64_def q round_away_def Let_def)
  next
    case False
    then have n: "0 \<le> - n" by simp
    have qr: "n sdiv d = - (- n div d)" "n smod d = - (- n mod d)"
      using False d by (simp_all add: signed_divide_int_def signed_modulo_int_def
          minus_div_mult_eq_mod [symmetric])
    have "- v + 1 / 2 = of_int (- n) / of_int d + 1 / 2" by (simp add: v)
    then have "\<lfloor>- v + 1 / 2\<rfloor> = (if 2 * (- n mod d) \<ge> d then - n div d + 1 else - n div d)"
      using floor_half [OF n d] by simp
    moreover have "0 \<le> - n mod d" using d by simp
    ultimately show ?thesis using False d sign qr
      by (auto simp: round_rat_to_int64_def q round_away_def Let_def)
  qed
qed

lemma floor_half_near: "\<bar>of_int \<lfloor>w + 1 / 2\<rfloor> - w\<bar> \<le> (1 / 2 :: rat)"
  unfolding abs_le_iff using floor_correct [of "w + 1 / 2"] by linarith

lemma round_away_near: "\<bar>of_int (round_away v) - v\<bar> \<le> 1 / 2"
proof (cases "v \<ge> 0")
  case False
  have "\<bar>of_int (round_away v) - v\<bar> = \<bar>of_int \<lfloor>- v + 1 / 2\<rfloor> - (- v)\<bar>"
    using False by (simp add: round_away_def)
  also have "\<dots> \<le> 1 / 2" by (rule floor_half_near)
  finally show ?thesis .
next
  case True
  then have "round_away v = \<lfloor>v + 1 / 2\<rfloor>" by (simp add: round_away_def)
  then show ?thesis by (simp only: floor_half_near)
qed

lemma round_away_of_int [simp]: "round_away (of_int n) = n"
proof -
  have "\<lfloor>of_int m + 1 / 2 :: rat\<rfloor> = m" for m :: int by linarith
  from this [of n] this [of "- n"] show ?thesis by (simp add: round_away_def)
qed
lemma floor_half_mono: "a \<le> b \<Longrightarrow> \<lfloor>a + 1 / 2 :: rat\<rfloor> \<le> \<lfloor>b + 1 / 2\<rfloor>"
  by (rule floor_mono) simp

lemma round_away_sign:
  "0 \<le> v \<Longrightarrow> 0 \<le> round_away v" "v \<le> 0 \<Longrightarrow> round_away v \<le> 0"
proof -
  have "0 \<le> \<lfloor>a + 1 / 2\<rfloor>" if "0 \<le> a" for a :: rat using that by simp
  from this [of v] this [of "- v"]
  show "0 \<le> v \<Longrightarrow> 0 \<le> round_away v" "v \<le> 0 \<Longrightarrow> round_away v \<le> 0"
    by (auto simp: round_away_def)
qed

lemma round_away_mono:
  assumes "a \<le> b"
  shows "round_away a \<le> round_away b"
proof (cases "0 \<le> a \<longleftrightarrow> 0 \<le> b")
  case True
  then show ?thesis
    using floor_half_mono [of a b] floor_half_mono [of "- b" "- a"] assms
    by (auto simp: round_away_def)
next
  case False
  then have "a \<le> 0" "0 \<le> b" using assms by auto
  then show ?thesis using round_away_sign(1) [of b] round_away_sign(2) [of a] by linarith
qed

section \<open>Decimal numbers\<close>

definition digit_value :: "char \<Rightarrow> nat" where
  "digit_value c = of_char c - 48"

definition digits_value :: "string \<Rightarrow> nat" where
  "digits_value ds = foldl (\<lambda>n c. 10 * n + digit_value c) 0 ds"

text \<open>The pattern \<open>[0-9]+(?:\.[0-9]+)?\<close>, and \<open>SetString\<close> of \<open>big.Rat\<close> on the strings it matches.\<close>

definition is_decimal :: "string \<Rightarrow> bool" where
  "is_decimal s \<longleftrightarrow> takeWhile is_digit s \<noteq> [] \<and>
     (case dropWhile is_digit s of [] \<Rightarrow> True
      | c # fs \<Rightarrow> c = CHR ''.'' \<and> fs \<noteq> [] \<and> list_all is_digit fs)"

definition decimal_value :: "string \<Rightarrow> rat" where
  "decimal_value s =
     (let fs = drop 1 (dropWhile is_digit s)
      in of_nat (digits_value (takeWhile is_digit s @ fs)) / 10 ^ length fs)"

text \<open>
  \<open>SetString\<close> on an arbitrary string also reads signs, fractions, exponents and other bases. Those
  forms are left to the parameter \<open>other\<close>; on a plain decimal number the value is fixed.
\<close>

definition rat_set_string :: "(string \<Rightarrow> rat option) \<Rightarrow> string \<Rightarrow> rat option" where
  "rat_set_string other s = (if is_decimal s then Some (decimal_value s) else other s)"

lemma decimal_value_nonneg: "0 \<le> decimal_value s"
  by (simp add: decimal_value_def Let_def)

lemma list_all_takeWhile: "list_all P xs \<Longrightarrow> takeWhile P xs = xs"
  by (simp add: list_all_iff)

lemma list_all_dropWhile: "list_all P xs \<Longrightarrow> dropWhile P xs = []"
  by (simp add: list_all_iff)

lemma takeWhile_digits:
  "list_all is_digit ds \<Longrightarrow> takeWhile is_digit (ds @ CHR ''.'' # fs) = ds"
  "list_all is_digit ds \<Longrightarrow> dropWhile is_digit (ds @ CHR ''.'' # fs) = CHR ''.'' # fs"
  by (simp_all add: list_all_iff takeWhile_append dropWhile_append is_digit_def)

text \<open>What the pattern accepts, and the value of what it accepts.\<close>

lemma is_decimal_iff:
  "is_decimal s \<longleftrightarrow>
     (\<exists>ds. s = ds \<and> ds \<noteq> [] \<and> list_all is_digit ds) \<or>
     (\<exists>ds fs. s = ds @ CHR ''.'' # fs \<and> ds \<noteq> [] \<and> fs \<noteq> [] \<and>
        list_all is_digit ds \<and> list_all is_digit fs)"  (is "?l = ?r")
proof
  assume l: ?l
  have s: "s = takeWhile is_digit s @ dropWhile is_digit s" by simp
  have ds: "list_all is_digit (takeWhile is_digit s)"
    by (auto simp: list_all_iff dest: set_takeWhileD)
  show ?r
  proof (cases "dropWhile is_digit s")
    case Nil
    then show ?thesis using l s ds by (metis append_Nil2 is_decimal_def)
  next
    case (Cons c fs)
    then have "c = CHR ''.''" "fs \<noteq> []" "list_all is_digit fs" "takeWhile is_digit s \<noteq> []"
      using l by (simp_all add: is_decimal_def)
    then show ?thesis using s ds Cons by metis
  qed
next
  assume ?r
  then show ?l
    by (auto simp: is_decimal_def takeWhile_digits list_all_takeWhile list_all_dropWhile)
qed

lemma decimal_value_digits:
  "list_all is_digit ds \<Longrightarrow> decimal_value ds = of_nat (digits_value ds)"
  by (simp add: decimal_value_def list_all_takeWhile list_all_dropWhile)

lemma decimal_value_point:
  "list_all is_digit ds \<Longrightarrow>
   decimal_value (ds @ CHR ''.'' # fs) = of_nat (digits_value (ds @ fs)) / 10 ^ length fs"
  by (simp add: decimal_value_def takeWhile_digits)

section \<open>Currencies\<close>

definition supported_currencies :: "string list" where
  "supported_currencies = [''USD'', ''EUR'', ''CNY'', ''CAD'']"

text \<open>\<open>strings.ToUpper(strings.TrimSpace(currency))\<close>, the form in which a currency is stored.\<close>

definition upper_trim :: "string \<Rightarrow> string" where
  "upper_trim s = to_upper (trim_space s)"

definition is_supported_currency :: "string \<Rightarrow> bool" where
  "is_supported_currency currency \<longleftrightarrow> upper_trim currency \<in> set supported_currencies"

lemma upper_trim_supported: "c \<in> set supported_currencies \<Longrightarrow> upper_trim c = c"
proof -
  have "list_all (\<lambda>c. upper_trim c = c) supported_currencies" by code_simp
  then show "c \<in> set supported_currencies \<Longrightarrow> upper_trim c = c" by (simp add: list_all_iff)
qed

lemma is_supported_stored [simp]: "c \<in> set supported_currencies \<Longrightarrow> is_supported_currency c"
  by (simp add: is_supported_currency_def upper_trim_supported)

lemma upper_trim_idem [simp]: "upper_trim (upper_trim c) = upper_trim c"
  by (simp add: upper_trim_def)

lemma is_supported_upper_trim [simp]:
  "is_supported_currency (upper_trim c) = is_supported_currency c"
  by (simp add: is_supported_currency_def)

lemma upper_trim_Nil [simp]: "upper_trim [] = []"
  by (simp add: upper_trim_def)

lemma not_supported_Nil [simp]: "\<not> is_supported_currency []"
  by (simp add: is_supported_currency_def supported_currencies_def)

section \<open>Exchange rates of entries\<close>

record conversion =
  xr_from :: string
  xr_to :: string
  xr_rate :: rat

text \<open>The match of \<open>^([A-Z]{3})/([A-Z]{3})=([0-9]+(?:\.[0-9]+)?)$\<close>: its three groups.\<close>

fun match_exchange_rate :: "string \<Rightarrow> (string \<times> string \<times> string) option" where
  "match_exchange_rate (a # b # c # slash # d # e # f # eq # rest) =
     (if list_all is_upper [a, b, c, d, e, f] \<and> slash = CHR ''/'' \<and> eq = CHR ''='' \<and> is_decimal rest
      then Some ([a, b, c], [d, e, f], rest) else None)"
| "match_exchange_rate _ = None"

definition parse_exchange_rate :: "string \<Rightarrow> ledger_error + conversion" where
  "parse_exchange_rate text =
     (case match_exchange_rate (upper_trim text) of
        None \<Rightarrow> Inl (ErrInvalidInput ''exchange rate must use FROM/TO=rate'')
      | Some (from, target, digits) \<Rightarrow>
          if decimal_value digits \<le> 0
          then Inl (ErrInvalidInput ''exchange rate must be positive'')
          else Inr \<lparr>xr_from = from, xr_to = target, xr_rate = decimal_value digits\<rparr>)"

definition currency_code :: "string \<Rightarrow> bool" where
  "currency_code s \<longleftrightarrow> length s = 3 \<and> list_all is_upper s"

lemma match_exchange_rate_iff:
  "match_exchange_rate s = Some (from, target, digits) \<longleftrightarrow>
     s = from @ ''/'' @ target @ ''='' @ digits \<and> currency_code from \<and> currency_code target \<and>
     is_decimal digits"
proof (cases s rule: match_exchange_rate.cases)
  case (1 a b c sl d e f eq rest)
  then show ?thesis
    by (auto simp: currency_code_def length_Suc_conv numeral_3_eq_3)
qed (auto simp: currency_code_def length_Suc_conv numeral_3_eq_3 is_decimal_def)

text \<open>Exactly the texts that are accepted, and what they mean.\<close>

lemma parse_exchange_rate_iff:
  "parse_exchange_rate text = Inr x \<longleftrightarrow>
     (\<exists>digits. upper_trim text = xr_from x @ ''/'' @ xr_to x @ ''='' @ digits \<and>
        currency_code (xr_from x) \<and> currency_code (xr_to x) \<and> is_decimal digits \<and>
        xr_rate x = decimal_value digits \<and> 0 < decimal_value digits)"
proof -
  have "parse_exchange_rate text = Inr x \<longleftrightarrow>
      (\<exists>digits. match_exchange_rate (upper_trim text) = Some (xr_from x, xr_to x, digits) \<and>
        xr_rate x = decimal_value digits \<and> 0 < decimal_value digits)"
    by (cases x) (auto simp: parse_exchange_rate_def split: option.splits)
  then show ?thesis by (simp only: match_exchange_rate_iff) blast
qed

lemma parse_exchange_rate_pos: "parse_exchange_rate text = Inr x \<Longrightarrow> 0 < xr_rate x"
  by (auto simp: parse_exchange_rate_iff)

lemma parse_exchange_rate_error:
  "parse_exchange_rate text = Inl e \<Longrightarrow> \<exists>m. e = ErrInvalidInput m"
  by (auto simp: parse_exchange_rate_def split: option.splits if_splits)

section \<open>Converting amounts\<close>

text \<open>\<open>rates\<close> maps a currency to its units per US dollar.\<close>

definition convert_amount_cents ::
    "int \<Rightarrow> string \<Rightarrow> string \<Rightarrow> string \<Rightarrow> (string \<rightharpoonup> rat) \<Rightarrow> ledger_error + int" where
  "convert_amount_cents amount source_currency target_currency rate_text rates =
     (let source = upper_trim source_currency; target = upper_trim target_currency in
      if \<not> is_supported_currency source then Inl (ErrInvalidInput ''source currency is invalid'')
      else if \<not> is_supported_currency target then Inl (ErrInvalidInput ''target currency is invalid'')
      else if source = target then Inr amount
      else if trim_space rate_text \<noteq> [] then
        rbind (parse_exchange_rate rate_text) (\<lambda>rate.
          if xr_from rate = source \<and> xr_to rate = target
          then Inr (round_rat_to_int64 (of_int amount * xr_rate rate))
          else if xr_from rate = target \<and> xr_to rate = source
          then Inr (round_rat_to_int64 (of_int amount / xr_rate rate))
          else Inl (ErrInvalidInput ''exchange rate does not convert''))
      else (case rates source of
          None \<Rightarrow> Inl (ErrInvalidInput ''exchange rate is missing'')
        | Some source_rate \<Rightarrow>
            if source_rate \<le> 0 then Inl (ErrInvalidInput ''exchange rate is missing'')
            else (case rates target of
                None \<Rightarrow> Inl (ErrInvalidInput ''exchange rate is missing'')
              | Some target_rate \<Rightarrow>
                  if target_rate \<le> 0 then Inl (ErrInvalidInput ''exchange rate is missing'')
                  else Inr (round_rat_to_int64 (of_int amount * target_rate / source_rate)))))"

definition entry_amount_in_currency_cents ::
    "entry \<Rightarrow> string \<Rightarrow> (string \<rightharpoonup> rat) \<Rightarrow> ledger_error + int" where
  "entry_amount_in_currency_cents e target_currency rates =
     convert_amount_cents (en_amount_cents e) (en_transaction_currency e) target_currency
       (en_exchange_rate e) rates"

text \<open>A rate table as \<open>exchangeRateIndex\<close> returns it: a positive rate for every currency.\<close>

definition rates_total :: "(string \<rightharpoonup> rat) \<Rightarrow> bool" where
  "rates_total rates \<longleftrightarrow>
     list_all (\<lambda>c. case rates c of None \<Rightarrow> False | Some r \<Rightarrow> 0 < r) supported_currencies"

lemma rates_totalE:
  assumes "rates_total rates" and "c \<in> set supported_currencies"
  obtains r where "rates c = Some r" and "0 < r"
  using assms by (auto simp: rates_total_def list_all_iff split: option.splits)

text \<open>The factor an amount is multiplied by, as one number on every branch that converts.\<close>

definition conversion_factor ::
    "string \<Rightarrow> string \<Rightarrow> string \<Rightarrow> (string \<rightharpoonup> rat) \<Rightarrow> rat option" where
  "conversion_factor source target rate_text rates =
     (if upper_trim source = upper_trim target then Some 1
      else if trim_space rate_text \<noteq> [] then
        (case parse_exchange_rate rate_text of
           Inl _ \<Rightarrow> None
         | Inr x \<Rightarrow>
             if xr_from x = upper_trim source \<and> xr_to x = upper_trim target then Some (xr_rate x)
             else if xr_from x = upper_trim target \<and> xr_to x = upper_trim source
             then Some (1 / xr_rate x) else None)
      else (case (rates (upper_trim source), rates (upper_trim target)) of
          (Some s, Some t) \<Rightarrow> if 0 < s \<and> 0 < t then Some (t / s) else None
        | _ \<Rightarrow> None))"

lemma convert_by_factor:
  assumes "is_supported_currency source" and "is_supported_currency target" and "in_int64 amount"
    and f: "conversion_factor source target text rates = Some f"
  shows "convert_amount_cents amount source target text rates =
    Inr (int64 (round_away (of_int amount * f)))"
proof -
  note supported = assms(1,2)
  consider (same) "upper_trim source = upper_trim target"
    | (own) x where "upper_trim source \<noteq> upper_trim target" "trim_space text \<noteq> []"
        "parse_exchange_rate text = Inr x"
    | (table) a b where "upper_trim source \<noteq> upper_trim target" "trim_space text = []"
        "rates (upper_trim source) = Some a" "rates (upper_trim target) = Some b" "0 < a" "0 < b"
    using f by (auto simp: conversion_factor_def split: if_splits sum.splits option.splits)
  then show ?thesis
  proof cases
    case same
    then show ?thesis using f supported assms(3)
      by (simp add: convert_amount_cents_def conversion_factor_def int64_id)
  next
    case own
    then show ?thesis using f supported
      by (auto simp add: convert_amount_cents_def conversion_factor_def round_rat_to_int64_eq
          Let_def split: if_splits)
  next
    case table
    then show ?thesis using f supported
      by (auto simp add: convert_amount_cents_def conversion_factor_def round_rat_to_int64_eq)
  qed
qed

lemma convert_no_factor:
  assumes "conversion_factor source target text rates = None"
  shows "\<exists>e. convert_amount_cents amount source target text rates = Inl e"
  using assms
  by (auto simp: convert_amount_cents_def conversion_factor_def Let_def
      split: if_splits sum.splits option.splits)

lemma conversion_factor_pos: "conversion_factor s t text rates = Some f \<Longrightarrow> 0 < f"
  by (auto simp: conversion_factor_def parse_exchange_rate_pos
      split: if_splits sum.splits option.splits)

lemma conversion_factor_total:
  assumes "rates_total rates" and "is_supported_currency s" and "is_supported_currency t"
    and "trim_space text = []"
  shows "\<exists>f. conversion_factor s t text rates = Some f"
proof -
  obtain a b where "rates (upper_trim s) = Some a" "0 < a" "rates (upper_trim t) = Some b" "0 < b"
    using assms rates_totalE [OF assms(1)] unfolding is_supported_currency_def by metis
  then show ?thesis using assms(4) by (simp add: conversion_factor_def)
qed

lemma convert_ok_supported:
  "convert_amount_cents a s t text rates = Inr y \<Longrightarrow>
   is_supported_currency s \<and> is_supported_currency t"
  by (auto simp: convert_amount_cents_def Let_def split: if_splits)

text \<open>With a total rate table and no rate of its own an amount always converts.\<close>

lemma convert_amount_cents_total:
  assumes "rates_total rates" and "is_supported_currency s" and "is_supported_currency t"
    and "trim_space text = []" and "in_int64 amount"
  shows "\<exists>y. convert_amount_cents amount s t text rates = Inr y"
  using conversion_factor_total [OF assms(1-4)] convert_by_factor [OF assms(2,3,5)] by blast

text \<open>A failure is always \<open>ErrInvalidInput\<close>.\<close>

lemma convert_amount_cents_error:
  "convert_amount_cents a s t text rates = Inl e \<Longrightarrow> \<exists>m. e = ErrInvalidInput m"
  by (auto simp: convert_amount_cents_def Let_def rbind_Inl_iff dest: parse_exchange_rate_error
      split: if_splits option.splits)

end
