(* ===== verification/Ledger_Books.thy ===== *)
theory Ledger_Books
  imports Ledger_Store Money
begin

text \<open>
  Books and their members (\<open>ledger/books.go\<close>): the handlers of the service, the ownership invariant
  they maintain, and the all-or-nothing behaviour of the handlers that write more than once.

  \<open>now\<close> is the value of \<open>time.Now().UTC()\<close>, \<open>fresh\<close> the value of \<open>uuid.NewString()\<close>. A handler
  reads the store through its methods one by one; the state does not change between its calls here,
  which is the behaviour of requests that do not overlap.
\<close>

section \<open>Policy and validation\<close>

definition max_book_name_length :: nat where
  "max_book_name_length = 120"

definition is_manager :: "role \<Rightarrow> bool" where
  "is_manager r \<longleftrightarrow> r = RoleOwner \<or> r = RoleAdministrator"

definition is_supported_member_role :: "role \<Rightarrow> bool" where
  "is_supported_member_role r =
     (case r of RoleOwner \<Rightarrow> True | RoleAdministrator \<Rightarrow> True | RoleMember \<Rightarrow> True
      | RoleViewer \<Rightarrow> True | RoleOther _ \<Rightarrow> False)"

definition is_assignable_new_member_role :: "role \<Rightarrow> bool" where
  "is_assignable_new_member_role r =
     (case r of RoleAdministrator \<Rightarrow> True | RoleMember \<Rightarrow> True | RoleViewer \<Rightarrow> True | _ \<Rightarrow> False)"

definition validate_book_name :: "string \<Rightarrow> ledger_error + unit" where
  "validate_book_name name =
     (if trim_space name = [] then Inl (ErrInvalidInput ''book name is required'')
      else if rune_count (trim_space name) > max_book_name_length
      then Inl (ErrInvalidInput ''book name is too long'') else Inr ())"

definition validate_create_book_request :: "create_book_request \<Rightarrow> ledger_error + unit" where
  "validate_create_book_request request =
     rbind (validate_book_name (cb_name request)) (\<lambda>_.
       rguard (is_supported_currency (cb_reporting_currency request))
         (ErrInvalidInput ''book reporting currency is invalid''))"

definition validate_update_book_request :: "update_book_request \<Rightarrow> ledger_error + unit" where
  "validate_update_book_request request =
     (if ub_name request = None \<and> ub_reporting_currency request = None
      then Inl (ErrInvalidInput ''book update must include at least one field'')
      else rbind (case ub_name request of None \<Rightarrow> Inr () | Some name \<Rightarrow> validate_book_name name) (\<lambda>_.
        case ub_reporting_currency request of
          None \<Rightarrow> Inr ()
        | Some currency \<Rightarrow>
            rguard (is_supported_currency currency) (ErrInvalidInput ''book reporting currency is invalid'')))"

fun find_book_member :: "book_member list \<Rightarrow> string \<Rightarrow> book_member option" where
  "find_book_member [] user_id = None"
| "find_book_member (m # ms) user_id =
     (if bm_user_id m = user_id then Some m else find_book_member ms user_id)"

fun owner_count :: "book_member list \<Rightarrow> int" where
  "owner_count [] = 0"
| "owner_count (m # ms) = (if bm_role m = RoleOwner then owner_count ms + 1 else owner_count ms)"

fun first_other_owner :: "book_member list \<Rightarrow> string \<Rightarrow> book_member option" where
  "first_other_owner [] excluded = None"
| "first_other_owner (m # ms) excluded =
     (if bm_user_id m \<noteq> excluded \<and> bm_role m = RoleOwner then Some m else first_other_owner ms excluded)"

definition authorize_book_member ::
    "actor \<Rightarrow> string \<Rightarrow> memory_store \<Rightarrow> ledger_error + (book_member \<times> book)" where
  "authorize_book_member a book_id s =
     (if at_user_id a = [] then Inl (ErrInvalidInput ''actor user id is required'')
      else if book_id = [] then Inl (ErrInvalidInput ''book id is required'')
      else (case st_member book_id (at_user_id a) s of
          Inl _ \<Rightarrow> Inl (ErrAccessDenied ''authorize book access for user'')
        | Inr member \<Rightarrow> rbind (st_book book_id s) (\<lambda>b. Inr (member, b))))"

definition book_list_item_of :: "book \<Rightarrow> role \<Rightarrow> book_list_item" where
  "book_list_item_of b r =
     \<lparr>bl_id = bk_id b, bl_owner_user_id = bk_owner_user_id b, bl_name = bk_name b,
      bl_reporting_currency = bk_reporting_currency b, bl_role = r,
      bl_created_at = bk_created_at b, bl_updated_at = bk_updated_at b\<rparr>"

section \<open>Handlers\<close>

fun book_items :: "memory_store \<Rightarrow> book_member list \<Rightarrow> ledger_error + book_list_item list" where
  "book_items s [] = Inr []"
| "book_items s (m # ms) =
     rbind (st_book (bm_book_id m) s) (\<lambda>b.
     rbind (book_items s ms) (\<lambda>items. Inr (book_list_item_of b (bm_role m) # items)))"

definition list_books ::
    "actor \<Rightarrow> int \<Rightarrow> int \<Rightarrow> memory_store \<Rightarrow> ledger_error + book_list_item page" where
  "list_books a page page_size s =
     (if at_user_id a = [] then Inl (ErrInvalidInput ''actor user id is required'')
      else rbind (st_book_memberships (at_user_id a) s) (\<lambda>members.
           rbind (book_items s members) (\<lambda>items.
             page_or (Panic ''slice bounds out of range'') (paginate items page page_size))))"

text \<open>\<open>categories\<close> are the default categories made for the new book.\<close>

definition create_book ::
    "create_book_request \<Rightarrow> string \<Rightarrow> time \<Rightarrow> category list \<Rightarrow>
     (memory_store, ledger_error, book_list_item) act" where
  "create_book request fresh now categories =
     abind (aguard (at_user_id (cb_actor request) \<noteq> []) (ErrInvalidInput ''actor user id is required'')) (\<lambda>_.
     abind (aread (\<lambda>_. validate_create_book_request request)) (\<lambda>_.
       let b = \<lparr>bk_id = fresh, bk_owner_user_id = at_user_id (cb_actor request),
                bk_name = trim_space (cb_name request),
                bk_reporting_currency = upper_trim (cb_reporting_currency request),
                bk_created_at = now, bk_updated_at = now\<rparr>;
           member = \<lparr>bm_book_id = fresh, bm_user_id = at_user_id (cb_actor request),
                bm_role = RoleOwner, bm_display_name = at_user_id (cb_actor request),
                bm_created_at = now, bm_updated_at = now\<rparr>
       in abind (st_create_book b member categories) (\<lambda>(created, created_member).
            aret (book_list_item_of created (bm_role created_member)))))"

definition get_book :: "actor \<Rightarrow> string \<Rightarrow> memory_store \<Rightarrow> ledger_error + book_list_item" where
  "get_book a book_id s =
     rbind (authorize_book_member a book_id s) (\<lambda>(member, b). Inr (book_list_item_of b (bm_role member)))"

definition update_book ::
    "update_book_request \<Rightarrow> time \<Rightarrow> (memory_store, ledger_error, book_list_item) act" where
  "update_book request now =
     abind (aread (authorize_book_member (ub_actor request) (ub_book_id request))) (\<lambda>(member, b).
     abind (aguard (is_manager (bm_role member)) (ErrAccessDenied ''role cannot update book settings'')) (\<lambda>_.
     abind (aread (\<lambda>_. validate_update_book_request request)) (\<lambda>_.
       let updated = b;
           updated = (case ub_name request of None \<Rightarrow> updated
             | Some name \<Rightarrow> updated\<lparr>bk_name := trim_space name\<rparr>);
           updated = (case ub_reporting_currency request of None \<Rightarrow> updated
             | Some currency \<Rightarrow> updated\<lparr>bk_reporting_currency := upper_trim currency\<rparr>);
           updated = updated\<lparr>bk_updated_at := now\<rparr>
       in abind (st_update_book updated) (\<lambda>updated.
            aret (book_list_item_of updated (bm_role member))))))"

definition list_book_members ::
    "actor \<Rightarrow> string \<Rightarrow> int \<Rightarrow> int \<Rightarrow> memory_store \<Rightarrow> ledger_error + book_member page" where
  "list_book_members a book_id page page_size s =
     rbind (authorize_book_member a book_id s) (\<lambda>_.
     rbind (st_book_members book_id s) (\<lambda>members.
       page_or (Panic ''slice bounds out of range'') (paginate members page page_size)))"

definition add_book_member ::
    "add_book_member_request \<Rightarrow> time \<Rightarrow> (memory_store, ledger_error, book_member) act" where
  "add_book_member request now =
     abind (aread (authorize_book_member (am_actor request) (am_book_id request))) (\<lambda>(manager, _).
     abind (aguard (is_manager (bm_role manager)) (ErrAccessDenied ''role cannot add book members'')) (\<lambda>_.
     abind (aguard (trim_space (am_user_id request) \<noteq> []) (ErrInvalidInput ''member user id is required'')) (\<lambda>_.
     abind (aguard (is_assignable_new_member_role (am_role request)) (ErrInvalidInput ''member role is invalid'')) (\<lambda>_.
     abind (aread (\<lambda>s. Inr (st_member (am_book_id request) (trim_space (am_user_id request)) s))) (\<lambda>existing.
       case existing of
         Inr member \<Rightarrow> aret member
       | Inl _ \<Rightarrow>
           (let display_name = trim_space (am_display_name request);
                display_name = (if display_name = [] then trim_space (am_user_id request) else display_name)
            in st_create_book_member
                 \<lparr>bm_book_id = am_book_id request, bm_user_id = trim_space (am_user_id request),
                  bm_role = am_role request, bm_display_name = display_name,
                  bm_created_at = now, bm_updated_at = now\<rparr>))))))"

definition reconcile_primary_owner ::
    "book \<Rightarrow> book_member \<Rightarrow> book_member \<Rightarrow> book_member list \<Rightarrow> time \<Rightarrow>
     (memory_store, ledger_error, unit) act" where
  "reconcile_primary_owner b previous updated members updated_at =
     (let save = (\<lambda>owner. abind (st_update_book (b\<lparr>bk_owner_user_id := owner, bk_updated_at := updated_at\<rparr>))
            (\<lambda>_. aret ()))
      in if bm_role updated = RoleOwner \<and> bk_owner_user_id b \<noteq> bm_user_id updated
         then save (bm_user_id updated)
         else if bm_role previous = RoleOwner \<and> bm_role updated \<noteq> RoleOwner
                 \<and> bk_owner_user_id b = bm_user_id previous
         then (case first_other_owner members (bm_user_id previous) of
             None \<Rightarrow> afail (ErrInvalidInput ''cannot demote the sole owner'')
           | Some replacement \<Rightarrow> save (bm_user_id replacement))
         else aret ())"

definition update_book_member_role ::
    "update_book_member_role_request \<Rightarrow> time \<Rightarrow> (memory_store, ledger_error, book_member) act" where
  "update_book_member_role request now =
     abind (aread (authorize_book_member (um_actor request) (um_book_id request))) (\<lambda>(manager, b).
     abind (aguard (is_manager (bm_role manager)) (ErrAccessDenied ''role cannot update book members'')) (\<lambda>_.
     abind (aguard (trim_space (um_user_id request) \<noteq> []) (ErrInvalidInput ''member user id is required'')) (\<lambda>_.
     abind (aguard (is_supported_member_role (um_role request)) (ErrInvalidInput ''member role is invalid'')) (\<lambda>_.
     abind (aread (st_book_members (um_book_id request))) (\<lambda>members.
       case find_book_member members (trim_space (um_user_id request)) of
         None \<Rightarrow> afail (ErrNotFound ''user is not a member of book'')
       | Some target \<Rightarrow>
           abind (aguard (\<not> (bm_role target = RoleOwner \<and> um_role request \<noteq> RoleOwner \<and> owner_count members \<le> 1))
             (ErrInvalidInput ''cannot demote the sole owner'')) (\<lambda>_.
           abind (st_update_book_member (target\<lparr>bm_role := um_role request, bm_updated_at := now\<rparr>)) (\<lambda>updated.
           abind (reconcile_primary_owner b target updated members now) (\<lambda>_. aret updated))))))))"

definition remove_book_member ::
    "remove_book_member_request \<Rightarrow> time \<Rightarrow> (memory_store, ledger_error, unit) act" where
  "remove_book_member request now =
     abind (aread (authorize_book_member (rm_actor request) (rm_book_id request))) (\<lambda>(manager, b).
     abind (aguard (is_manager (bm_role manager)) (ErrAccessDenied ''role cannot remove book members'')) (\<lambda>_.
     abind (aguard (trim_space (rm_user_id request) \<noteq> []) (ErrInvalidInput ''member user id is required'')) (\<lambda>_.
     abind (aread (st_book_members (rm_book_id request))) (\<lambda>members.
       case find_book_member members (trim_space (rm_user_id request)) of
         None \<Rightarrow> afail (ErrNotFound ''user is not a member of book'')
       | Some target \<Rightarrow>
           abind (aguard (\<not> (bm_role target = RoleOwner \<and> owner_count members \<le> 1))
             (ErrInvalidInput ''cannot remove the sole owner'')) (\<lambda>_.
           abind (st_delete_book_member (rm_book_id request) (bm_user_id target)) (\<lambda>_.
             if bm_role target = RoleOwner \<and> bk_owner_user_id b = bm_user_id target
             then (case first_other_owner members (bm_user_id target) of
                 None \<Rightarrow> afail (ErrInvalidInput ''cannot remove the sole owner'')
               | Some replacement \<Rightarrow>
                   abind (st_update_book (b\<lparr>bk_owner_user_id := bm_user_id replacement, bk_updated_at := now\<rparr>))
                     (\<lambda>_. aret ()))
             else aret ()))))))"

section \<open>What the helpers compute\<close>

lemma find_book_member_find: "find_book_member ms u = find (\<lambda>m. bm_user_id m = u) ms"
  by (induction ms) auto

lemma owner_count_filter: "owner_count ms = int (length (filter (\<lambda>m. bm_role m = RoleOwner) ms))"
  by (induction ms) auto

lemma first_other_owner_Some:
  "first_other_owner ms u = Some m \<Longrightarrow> m \<in> set ms \<and> bm_user_id m \<noteq> u \<and> bm_role m = RoleOwner"
  by (induction ms) (auto split: if_splits)

lemma first_other_owner_None:
  "first_other_owner ms u = None \<longleftrightarrow> (\<forall>m \<in> set ms. bm_role m = RoleOwner \<longrightarrow> bm_user_id m = u)"
  by (induction ms) auto

text \<open>With two owners, whoever is excluded, another owner is found.\<close>

lemma first_other_owner_exists:
  assumes "distinct (map bm_user_id ms)" and "1 < owner_count ms"
  shows "\<exists>m. first_other_owner ms u = Some m"
proof (rule ccontr)
  assume "\<nexists>m. first_other_owner ms u = Some m"
  then have all: "\<forall>m \<in> set ms. bm_role m = RoleOwner \<longrightarrow> bm_user_id m = u"
    using first_other_owner_None [of ms u] by (cases "first_other_owner ms u") auto
  let ?os = "filter (\<lambda>m. bm_role m = RoleOwner) ms"
  have "set (map bm_user_id ?os) \<subseteq> {u}" using all by auto
  then have "card (set (map bm_user_id ?os)) \<le> 1" using card_mono [of "{u}"] by fastforce
  moreover have "distinct (map bm_user_id ?os)" by (rule distinct_map_filter [OF assms(1)])
  ultimately have "length ?os \<le> 1" by (metis distinct_card length_map)
  then show False using assms(2) by (simp add: owner_count_filter)
qed

lemma authorize_iff [simp]:
  "authorize_book_member a b s = Inr (m, x) \<longleftrightarrow>
     at_user_id a \<noteq> [] \<and> b \<noteq> [] \<and> member_at s b (at_user_id a) = Some m \<and> book_at s b = Some x"
proof (cases "member_at s b (at_user_id a)")
  case None
  then show ?thesis using st_lookup_None(2) [OF None] by (auto simp: authorize_book_member_def)
next
  case (Some m')
  then show ?thesis
    by (auto simp: authorize_book_member_def rbind_Inr_iff st_lookup_Some(2) [OF Some])
qed

lemma authorize_denies:
  assumes "at_user_id a \<noteq> []" and "b \<noteq> []" and "member_at s b (at_user_id a) = None"
  shows "\<exists>msg. authorize_book_member a b s = Inl (ErrAccessDenied msg)"
proof -
  show ?thesis using assms st_lookup_None(2) [OF assms(3)] by (auto simp: authorize_book_member_def)
qed

section \<open>The ownership invariant\<close>

text \<open>The primary owner recorded in a book is a member of it with the owner role.\<close>

definition ownership_ok :: "memory_store \<Rightarrow> bool" where
  "ownership_ok s \<longleftrightarrow> list_all (\<lambda>(b, x).
     case member_at s b (bk_owner_user_id x) of None \<Rightarrow> False | Some m \<Rightarrow> bm_role m = RoleOwner)
     (ms_books s)"

text \<open>Every member belongs to a book that exists.\<close>

definition members_have_books :: "memory_store \<Rightarrow> bool" where
  "members_have_books s \<longleftrightarrow>
     list_all (\<lambda>(b, inner). inner \<noteq> [] \<longrightarrow> book_at s b \<noteq> None) (ms_members s)"

definition books_ok :: "memory_store \<Rightarrow> bool" where
  "books_ok s \<longleftrightarrow> store_ok s \<and> ownership_ok s \<and> members_have_books s"

lemma ownership_iff:
  assumes "store_ok s"
  shows "ownership_ok s \<longleftrightarrow> (\<forall>b x. book_at s b = Some x \<longrightarrow>
    (\<exists>m. member_at s b (bk_owner_user_id x) = Some m \<and> bm_role m = RoleOwner))"
proof -
  have "distinct (map fst (ms_books s))" using assms by (simp add: store_ok_def keys_ok_def)
  then have "(b, x) \<in> set (ms_books s) \<longleftrightarrow> book_at s b = Some x" for b x
    by (simp add: book_at_def)
  then show ?thesis by (force simp: ownership_ok_def list_all_iff split: option.splits)
qed

lemma members_have_books_iff:
  assumes "store_ok s"
  shows "members_have_books s \<longleftrightarrow> (\<forall>b u m. member_at s b u = Some m \<longrightarrow> book_at s b \<noteq> None)"
proof -
  have d: "distinct (map fst (ms_members s))" using assms by (simp add: store_ok_def members_ok_def)
  then have *: "(b, i) \<in> set (ms_members s) \<longleftrightarrow> map_of (ms_members s) b = Some i" for b i by simp
  have nonempty: "i \<noteq> [] \<longleftrightarrow> (\<exists>u m. map_of i u = Some m)" for i :: "(string \<times> book_member) list"
  proof (cases i)
    case (Cons p r)
    then have "map_of i (fst p) = Some (snd p)" by (cases p) simp
    then show ?thesis using Cons by blast
  qed simp
  have at: "member_at s b u = Some m \<longleftrightarrow> (\<exists>i. map_of (ms_members s) b = Some i \<and> map_of i u = Some m)"
    for b u m by (auto simp: member_at_def split: bind_splits)
  have "members_have_books s \<longleftrightarrow>
      (\<forall>b i. map_of (ms_members s) b = Some i \<longrightarrow> i \<noteq> [] \<longrightarrow> book_at s b \<noteq> None)"
    unfolding members_have_books_def list_all_iff using * by fast
  then show ?thesis unfolding nonempty at by blast
qed

lemma books_okI:
  assumes "store_ok t"
    and "\<And>b x. book_at t b = Some x \<Longrightarrow>
      \<exists>m. member_at t b (bk_owner_user_id x) = Some m \<and> bm_role m = RoleOwner"
    and "\<And>b u m. member_at t b u = Some m \<Longrightarrow> book_at t b \<noteq> None"
  shows "books_ok t"
  using assms by (simp add: books_ok_def ownership_iff members_have_books_iff)

lemma books_okD:
  assumes "books_ok s"
  shows "store_ok s"
    and "book_at s b = Some x \<Longrightarrow> \<exists>m. member_at s b (bk_owner_user_id x) = Some m \<and> bm_role m = RoleOwner"
    and "member_at s b u = Some m \<Longrightarrow> book_at s b \<noteq> None"
proof -
  show ok: "store_ok s" using assms by (simp add: books_ok_def)
  show "book_at s b = Some x \<Longrightarrow> \<exists>m. member_at s b (bk_owner_user_id x) = Some m \<and> bm_role m = RoleOwner"
    using assms ownership_iff [OF ok] by (simp add: books_ok_def)
  show "member_at s b u = Some m \<Longrightarrow> book_at s b \<noteq> None"
    using assms members_have_books_iff [OF ok] by (simp add: books_ok_def) blast
qed

section \<open>The handlers keep the invariant\<close>

lemma book_handlers_clean:
  "fails_clean (create_book request fresh now categories)"
  "fails_clean (update_book ubr now)"
  "fails_clean (add_book_member abr now)"
  unfolding create_book_def update_book_def add_book_member_def Let_def
  by (rule store_fails_clean clean_rules)+

lemma create_book_writes:
  assumes "create_book request fresh now categories s = (Inr item, t)"
  obtains b owner where "st_create_book b owner categories s = (Inr (b, owner), t)"
    and "bk_id b = fresh" and "bk_owner_user_id b = at_user_id (cb_actor request)"
    and "bk_name b = trim_space (cb_name request)"
    and "bk_reporting_currency b = upper_trim (cb_reporting_currency request)"
    and "bm_user_id owner = at_user_id (cb_actor request)" and "bm_role owner = RoleOwner"
    and "item = book_list_item_of b RoleOwner"
    and "at_user_id (cb_actor request) \<noteq> []" and "validate_create_book_request request = Inr ()"
proof -
  let ?b = "\<lparr>bk_id = fresh, bk_owner_user_id = at_user_id (cb_actor request),
      bk_name = trim_space (cb_name request),
      bk_reporting_currency = upper_trim (cb_reporting_currency request),
      bk_created_at = now, bk_updated_at = now\<rparr>"
  let ?m = "\<lparr>bm_book_id = fresh, bm_user_id = at_user_id (cb_actor request),
      bm_role = RoleOwner, bm_display_name = at_user_id (cb_actor request),
      bm_created_at = now, bm_updated_at = now\<rparr>"
  from assms obtain r where w: "st_create_book ?b ?m categories s = (Inr r, t)"
    and guards: "at_user_id (cb_actor request) \<noteq> []" "validate_create_book_request request = Inr ()"
    and item: "item = (case r of (b, m) \<Rightarrow> book_list_item_of b (bm_role m))"
    by (auto simp: create_book_def act_iffs Let_def split: if_splits prod.splits)
  have "r = (?b, ?m)" by (rule create_book_effect(1) [OF w])
  with w guards item show ?thesis by (intro that [of ?b ?m]) simp_all
qed

lemma create_book_keeps_books:
  assumes ok: "books_ok s" and "create_book request fresh now categories s = (r, t)"
  shows "books_ok t"
proof (cases r)
  case Inl
  then show ?thesis using assms fails_cleanD [OF book_handlers_clean(1)] by blast
next
  case (Inr item)
  with assms(2) have "create_book request fresh now categories s = (Inr item, t)" by simp
  then obtain b owner where w: "st_create_book b owner categories s = (Inr (b, owner), t)"
    and b: "bk_id b = fresh" "bk_owner_user_id b = at_user_id (cb_actor request)"
      "bm_user_id owner = at_user_id (cb_actor request)" "bm_role owner = RoleOwner"
    by (rule create_book_writes)
  note eff = create_book_effect [OF w]
  show ?thesis
  proof (rule books_okI)
    show "store_ok t" by (rule create_book_keeps [OF books_okD(1) [OF ok] w])
    show "\<exists>m. member_at t c (bk_owner_user_id x) = Some m \<and> bm_role m = RoleOwner"
      if "book_at t c = Some x" for c x
      using that b books_okD(2) [OF ok, of c x] by (auto simp: eff(4,6) split: if_splits)
    show "book_at t c \<noteq> None" if "member_at t c u = Some m" for c u m
      using that books_okD(3) [OF ok, of c u m] by (auto simp: eff(4,6) split: if_splits)
  qed
qed

text \<open>Writing a book whose primary owner is an owner, when the other books are in order.\<close>

lemma update_book_write_restores:
  assumes ok: "store_ok s"
    and others: "\<And>c x. c \<noteq> bk_id b \<Longrightarrow> book_at s c = Some x \<Longrightarrow>
      \<exists>m. member_at s c (bk_owner_user_id x) = Some m \<and> bm_role m = RoleOwner"
    and members: "\<And>c u m. member_at s c u = Some m \<Longrightarrow> book_at s c \<noteq> None"
    and w: "st_update_book b s = (Inr r, t)"
    and owner: "\<exists>m. member_at s (bk_id b) (bk_owner_user_id b) = Some m \<and> bm_role m = RoleOwner"
  shows "books_ok t"
proof (rule books_okI)
  note eff = update_book_effect [OF w]
  show "store_ok t" by (rule update_book_keeps [OF ok w])
  show "\<exists>m. member_at t c (bk_owner_user_id x) = Some m \<and> bm_role m = RoleOwner"
    if "book_at t c = Some x" for c x
    using that owner others [of c x] by (auto simp: eff(3,5) split: if_splits)
  show "book_at t c \<noteq> None" if "member_at t c u = Some m" for c u m
    using that members [of c u m] by (auto simp: eff(3,5))
qed

lemma update_book_write_keeps:
  assumes "books_ok s" and "st_update_book b s = (Inr r, t)"
    and "\<exists>m. member_at s (bk_id b) (bk_owner_user_id b) = Some m \<and> bm_role m = RoleOwner"
  shows "books_ok t"
  using books_okD [OF assms(1)] assms(2,3) by (intro update_book_write_restores) blast+

lemma update_book_writes:
  assumes "update_book request now s = (Inr item, t)"
  obtains m b b' where "member_at s (ub_book_id request) (at_user_id (ub_actor request)) = Some m"
    and "is_manager (bm_role m)" and "book_at s (ub_book_id request) = Some b"
    and "validate_update_book_request request = Inr ()"
    and "st_update_book b' s = (Inr b', t)" and "item = book_list_item_of b' (bm_role m)"
    and "b' = b\<lparr>bk_name := (case ub_name request of None \<Rightarrow> bk_name b | Some n \<Rightarrow> trim_space n),
           bk_reporting_currency := (case ub_reporting_currency request of None \<Rightarrow> bk_reporting_currency b
             | Some c \<Rightarrow> upper_trim c), bk_updated_at := now\<rparr>"
proof -
  from assms obtain m b r where m: "member_at s (ub_book_id request) (at_user_id (ub_actor request)) = Some m"
    "is_manager (bm_role m)" "book_at s (ub_book_id request) = Some b"
    "validate_update_book_request request = Inr ()"
    and w: "st_update_book (b\<lparr>bk_name := (case ub_name request of None \<Rightarrow> bk_name b | Some n \<Rightarrow> trim_space n),
           bk_reporting_currency := (case ub_reporting_currency request of None \<Rightarrow> bk_reporting_currency b
             | Some c \<Rightarrow> upper_trim c), bk_updated_at := now\<rparr>) s = (Inr r, t)"
    and item: "item = book_list_item_of r (bm_role m)"
    by (cases "ub_name request"; cases "ub_reporting_currency request")
      (auto simp: update_book_def act_iffs Let_def split: if_splits)
  from update_book_effect(1) [OF w] w item m show ?thesis by (intro that) simp_all
qed

lemma update_book_keeps_books:
  assumes ok: "books_ok s" and "update_book request now s = (r, t)"
  shows "books_ok t"
proof (cases r)
  case Inl
  then show ?thesis using assms fails_cleanD [OF book_handlers_clean(2)] by blast
next
  case (Inr item)
  with assms(2) have "update_book request now s = (Inr item, t)" by simp
  then obtain m b b' where b: "book_at s (ub_book_id request) = Some b"
    and w: "st_update_book b' s = (Inr b', t)"
    and b': "b' = b\<lparr>bk_name := (case ub_name request of None \<Rightarrow> bk_name b | Some n \<Rightarrow> trim_space n),
           bk_reporting_currency := (case ub_reporting_currency request of None \<Rightarrow> bk_reporting_currency b
             | Some c \<Rightarrow> upper_trim c), bk_updated_at := now\<rparr>"
    by (rule update_book_writes)
  have "bk_id b = ub_book_id request" by (rule book_at_ok [OF books_okD(1) [OF ok] b])
  then show ?thesis using books_okD(2) [OF ok b]
    by (intro update_book_write_keeps [OF ok w]) (simp add: b')
qed

lemma add_book_member_writes:
  assumes "add_book_member request now s = (Inr m, t)"
  shows "t = s \<and> member_at s (am_book_id request) (trim_space (am_user_id request)) = Some m \<or>
    st_create_book_member m s = (Inr m, t) \<and> bm_book_id m = am_book_id request \<and>
    bm_user_id m = trim_space (am_user_id request) \<and> bm_role m = am_role request"
  using assms
  by (auto simp: add_book_member_def act_iffs Let_def split: if_splits sum.splits
      dest: create_book_member_effect(1) st_member_iff [THEN iffD1])

lemma create_book_member_keeps_books:
  assumes ok: "books_ok s" and w: "st_create_book_member m s = (Inr r, t)"
  shows "books_ok t"
proof (rule books_okI)
  note eff = create_book_member_effect [OF w]
  show "store_ok t" by (rule create_book_member_keeps [OF books_okD(1) [OF ok] w])
  show "\<exists>m. member_at t c (bk_owner_user_id x) = Some m \<and> bm_role m = RoleOwner"
    if "book_at t c = Some x" for c x
    using that eff(3) books_okD(2) [OF ok, of c x] by (auto simp: eff(4,6))
  show "book_at t c \<noteq> None" if "member_at t c u = Some m'" for c u m'
    using that eff(2) books_okD(3) [OF ok, of c u m'] by (auto simp: eff(4,6) split: if_splits)
qed

lemma add_book_member_keeps_books:
  assumes ok: "books_ok s" and "add_book_member request now s = (r, t)"
  shows "books_ok t"
proof (cases r)
  case Inl
  then show ?thesis using assms fails_cleanD [OF book_handlers_clean(3)] by blast
next
  case (Inr m)
  then show ?thesis
    using add_book_member_writes [of request now s m t] assms create_book_member_keeps_books [OF ok]
    by auto
qed

subsection \<open>Changing roles and removing members\<close>

lemma update_book_member_ok:
  assumes "book_at s (bm_book_id m) \<noteq> None" and "member_at s (bm_book_id m) (bm_user_id m) \<noteq> None"
  shows "\<exists>t. st_update_book_member m s = (Inr m, t)"
  using assms by (auto simp: st_update_book_member_def book_at_def member_at_def split: bind_splits)

lemma delete_book_member_ok:
  assumes "member_at s b u \<noteq> None"
  shows "\<exists>t. st_delete_book_member b u s = (Inr (), t)"
  using assms by (auto simp: st_delete_book_member_def member_at_def split: bind_splits)

lemma update_book_ok:
  assumes "book_at s (bk_id b) \<noteq> None"
  shows "\<exists>t. st_update_book b s = (Inr b, t)"
  using assms by (auto simp: st_update_book_def book_at_def)

text \<open>
  The two writes of \<open>UpdateBookMemberRole\<close>: the member, then the primary owner where it has to
  change. Both succeed, and together they keep the invariant.
\<close>

lemma update_role_steps:
  assumes ok: "books_ok s" and b: "book_at s bid = Some b"
    and ms: "st_book_members bid s = Inr members" and target: "member_at s bid u = Some target"
    and guard: "\<not> (bm_role target = RoleOwner \<and> role \<noteq> RoleOwner \<and> owner_count members \<le> 1)"
    and new: "new = target\<lparr>bm_role := role, bm_updated_at := now\<rparr>"
  shows "\<exists>t t'. st_update_book_member new s = (Inr new, t) \<and>
    reconcile_primary_owner b target new members now t = (Inr (), t') \<and> books_ok t' \<and>
    member_at t' = (\<lambda>c v. if c = bid \<and> v = u then Some new else member_at s c v)"
proof -
  note s = books_okD [OF ok]
  have ids: "bm_book_id target = bid" "bm_user_id target = u" "bk_id b = bid"
    using member_at_ok [OF s(1) target] book_at_ok [OF s(1) b] by simp_all
  then have new_ids: "bm_book_id new = bid" "bm_user_id new = u" "bm_role new = role"
    by (simp_all add: new)
  obtain t where w: "st_update_book_member new s = (Inr new, t)"
    using update_book_member_ok [of s new] new_ids b target by auto
  note eff = update_book_member_effect [OF w, unfolded new_ids]
  have okt: "store_ok t" by (rule update_book_member_keeps [OF s(1) w])
  have others: "\<exists>m. member_at t c (bk_owner_user_id x) = Some m \<and> bm_role m = RoleOwner"
    if "c \<noteq> bid \<or> bk_owner_user_id x \<noteq> u \<or> role = RoleOwner" "book_at t c = Some x" for c x
    using that s(2) [of c x] new_ids(3) by (auto simp: eff(3,5))
  have members: "book_at t c \<noteq> None" if "member_at t c v = Some m" for c v m
    using that s(3) [of c v m] b by (auto simp: eff(3,5) split: if_splits)
  have save: "\<exists>t'. abind (st_update_book (b\<lparr>bk_owner_user_id := p, bk_updated_at := now\<rparr>)) (\<lambda>_. aret ()) t
        = (Inr (), t') \<and> books_ok t' \<and> member_at t' = member_at t"
    if p: "\<exists>m. member_at t bid p = Some m \<and> bm_role m = RoleOwner" for p
  proof -
    let ?b = "b\<lparr>bk_owner_user_id := p, bk_updated_at := now\<rparr>"
    obtain t' where w': "st_update_book ?b t = (Inr ?b, t')"
      using update_book_ok [of t ?b] b ids by (auto simp: eff(5))
    then have "books_ok t'"
      using okt others members p ids by (intro update_book_write_restores [OF okt _ _ w']) auto
    then show ?thesis using w' update_book_effect(5) [OF w'] by (simp add: abind_def)
  qed
  have "\<exists>t'. reconcile_primary_owner b target new members now t = (Inr (), t') \<and> books_ok t' \<and>
      member_at t' = member_at t"
  proof -
    consider (promote) "role = RoleOwner" "bk_owner_user_id b \<noteq> u"
      | (demote) "role \<noteq> RoleOwner" "bm_role target = RoleOwner" "bk_owner_user_id b = u"
      | (same) "role = RoleOwner \<and> bk_owner_user_id b = u \<or> role \<noteq> RoleOwner \<and> bk_owner_user_id b \<noteq> u \<or>
          role \<noteq> RoleOwner \<and> bm_role target \<noteq> RoleOwner"
      by blast
    then show ?thesis
    proof cases
      case promote
      then show ?thesis using save [of u] new_ids
        by (auto simp: reconcile_primary_owner_def Let_def eff(3))
    next
      case demote
      obtain r where r: "first_other_owner members u = Some r"
        using first_other_owner_exists [OF book_members_lookup(1) [OF s(1) ms]] demote guard by force
      then have "member_at s bid (bm_user_id r) = Some r" "bm_user_id r \<noteq> u" "bm_role r = RoleOwner"
        using first_other_owner_Some [OF r] book_members_lookup(3) [OF s(1) ms, of r] by simp_all
      then have "\<exists>m. member_at t bid (bm_user_id r) = Some m \<and> bm_role m = RoleOwner" by (simp add: eff(3))
      then show ?thesis using save [of "bm_user_id r"] demote r new_ids ids
        by (simp add: reconcile_primary_owner_def Let_def)
    next
      case same
      have "bk_owner_user_id b \<noteq> u \<or> role = RoleOwner" using same s(2) [OF b] target by auto
      then have still: "c \<noteq> bid \<or> bk_owner_user_id x \<noteq> u \<or> role = RoleOwner" if "book_at t c = Some x" for c x
        using that b by (auto simp: eff(5))
      have "books_ok t"
        by (rule books_okI [OF okt others members]) (auto dest: still)
      moreover have "reconcile_primary_owner b target new members now t = (Inr (), t)"
        using same new_ids ids by (auto simp: reconcile_primary_owner_def Let_def)
      ultimately show ?thesis by blast
    qed
  qed
  then show ?thesis using w eff(3) by auto
qed

lemma find_book_member_at:
  "store_ok s \<Longrightarrow> st_book_members b s = Inr ms \<Longrightarrow> find_book_member ms u = member_at s b u"
  by (simp add: find_book_member_find book_members_lookup(2))

text \<open>A role change fails without a trace, or does both writes.\<close>

lemma update_role_cases:
  assumes ok: "books_ok s" and run: "update_book_member_role request now s = (r, t)"
  obtains (failed) "\<not> is_ok r" and "t = s"
  | (changed) manager members target new
    where "member_at s (um_book_id request) (at_user_id (um_actor request)) = Some manager"
      and "is_manager (bm_role manager)" and "is_supported_member_role (um_role request)"
      and "st_book_members (um_book_id request) s = Inr members"
      and "member_at s (um_book_id request) (trim_space (um_user_id request)) = Some target"
      and "\<not> (bm_role target = RoleOwner \<and> um_role request \<noteq> RoleOwner \<and> owner_count members \<le> 1)"
      and "new = target\<lparr>bm_role := um_role request, bm_updated_at := now\<rparr>"
      and "r = Inr new" and "books_ok t"
      and "member_at t = (\<lambda>c v. if c = um_book_id request \<and> v = trim_space (um_user_id request)
             then Some new else member_at s c v)"
proof (cases "authorize_book_member (um_actor request) (um_book_id request) s")
  case (Inl e)
  then show ?thesis using run by (intro failed) (auto simp: update_book_member_role_def act_simps)
next
  case (Inr mb)
  obtain manager b where mb: "mb = (manager, b)" by force
  note auth = Inr [unfolded mb authorize_iff]
  show ?thesis
  proof (cases "is_manager (bm_role manager) \<and> trim_space (um_user_id request) \<noteq> [] \<and>
      is_supported_member_role (um_role request)")
    case False
    then show ?thesis using run Inr
      by (intro failed) (auto simp: update_book_member_role_def act_simps mb split: if_splits)
  next
    case True
    obtain members where ms: "st_book_members (um_book_id request) s = Inr members"
      using auth book_members_exist by blast
    note find = find_book_member_at [OF books_okD(1) [OF ok] ms]
    show ?thesis
    proof (cases "member_at s (um_book_id request) (trim_space (um_user_id request))")
      case None
      then show ?thesis using run Inr True
        by (intro failed) (auto simp add: update_book_member_role_def act_simps mb ms find)
    next
      case (Some target)
      let ?guard = "\<not> (bm_role target = RoleOwner \<and> um_role request \<noteq> RoleOwner \<and> owner_count members \<le> 1)"
      let ?new = "target\<lparr>bm_role := um_role request, bm_updated_at := now\<rparr>"
      show ?thesis
      proof (cases ?guard)
        case False
        then show ?thesis using run Inr True Some
          by (intro failed) (auto simp add: update_book_member_role_def act_simps mb ms find)
      next
        case guard: True
        from auth have "book_at s (um_book_id request) = Some b" by blast
        from update_role_steps [OF ok this ms Some guard refl, of now] obtain t1 t2 where
          steps: "st_update_book_member ?new s = (Inr ?new, t1)"
            "reconcile_primary_owner b target ?new members now t1 = (Inr (), t2)" "books_ok t2"
            "member_at t2 = (\<lambda>c v. if c = um_book_id request \<and> v = trim_space (um_user_id request)
               then Some ?new else member_at s c v)"
          by blast
        have "(r, t) = (Inr ?new, t2)"
          using run Inr True Some guard steps(1,2)
          by (simp add: update_book_member_role_def act_simps mb ms find abind_def [of "st_update_book_member _"]
              abind_def [of "reconcile_primary_owner _ _ _ _ _"])
        then show ?thesis using auth True ms Some guard steps(3,4) by (intro changed [of manager members target ?new]) simp_all
      qed
    qed
  qed
qed

lemma update_role_keeps_books:
  "books_ok s \<Longrightarrow> update_book_member_role request now s = (r, t) \<Longrightarrow> books_ok t"
  by (rule update_role_cases) auto

lemma remove_member_steps:
  assumes ok: "books_ok s" and b: "book_at s bid = Some b"
    and ms: "st_book_members bid s = Inr members" and target: "member_at s bid u = Some target"
    and guard: "\<not> (bm_role target = RoleOwner \<and> owner_count members \<le> 1)"
  shows "\<exists>t t'. st_delete_book_member bid u s = (Inr (), t) \<and>
    (if bm_role target = RoleOwner \<and> bk_owner_user_id b = u
     then (case first_other_owner members u of
         None \<Rightarrow> afail (ErrInvalidInput ''cannot remove the sole owner'')
       | Some replacement \<Rightarrow>
           abind (st_update_book (b\<lparr>bk_owner_user_id := bm_user_id replacement, bk_updated_at := now\<rparr>))
             (\<lambda>_. aret ()))
     else aret ()) t = (Inr (), t') \<and> books_ok t' \<and>
    member_at t' = (\<lambda>c v. if c = bid \<and> v = u then None else member_at s c v)"
proof -
  note s = books_okD [OF ok]
  have id: "bk_id b = bid" by (rule book_at_ok [OF s(1) b])
  obtain t where w: "st_delete_book_member bid u s = (Inr (), t)"
    using delete_book_member_ok [of s bid u] target by auto
  note eff = delete_book_member_effect [OF w]
  have okt: "store_ok t" by (rule delete_book_member_keeps [OF s(1) w])
  have members: "book_at t c \<noteq> None" if "member_at t c v = Some m" for c v m
    using that s(3) [of c v m] by (auto simp: eff(2,4) split: if_splits)
  have others: "\<exists>m. member_at t c (bk_owner_user_id x) = Some m \<and> bm_role m = RoleOwner"
    if "c \<noteq> bid \<or> bk_owner_user_id x \<noteq> u" "book_at t c = Some x" for c x
    using that s(2) [of c x] by (auto simp: eff(2,4))
  show ?thesis
  proof (cases "bk_owner_user_id b = u")
    case True
    then have owner: "bm_role target = RoleOwner" using s(2) [OF b] target by auto
    obtain r where r: "first_other_owner members u = Some r"
      using first_other_owner_exists [OF book_members_lookup(1) [OF s(1) ms]] owner guard by force
    then have "member_at s bid (bm_user_id r) = Some r" "bm_user_id r \<noteq> u" "bm_role r = RoleOwner"
      using first_other_owner_Some [OF r] book_members_lookup(3) [OF s(1) ms, of r] by simp_all
    then have new: "\<exists>m. member_at t bid (bm_user_id r) = Some m \<and> bm_role m = RoleOwner"
      by (simp add: eff(2))
    let ?b = "b\<lparr>bk_owner_user_id := bm_user_id r, bk_updated_at := now\<rparr>"
    obtain t' where w': "st_update_book ?b t = (Inr ?b, t')"
      using update_book_ok [of t ?b] b id by (auto simp: eff(4))
    then have "books_ok t'"
      using others members new id by (intro update_book_write_restores [OF okt _ _ w']) auto
    moreover have "abind (st_update_book ?b) (\<lambda>_. aret ()) t = (Inr (), t')" by (simp add: abind_def w')
    ultimately show ?thesis using w eff(2) update_book_effect(5) [OF w'] True owner r by simp
  next
    case False
    then have still: "c \<noteq> bid \<or> bk_owner_user_id x \<noteq> u" if "book_at t c = Some x" for c x
      using that b by (auto simp: eff(4))
    have "books_ok t" by (rule books_okI [OF okt others members]) (auto dest: still)
    then show ?thesis using w eff(2) False by auto
  qed
qed

lemma remove_member_cases:
  assumes ok: "books_ok s" and run: "remove_book_member request now s = (r, t)"
  obtains (failed) "\<not> is_ok r" and "t = s"
  | (removed) manager members target
    where "member_at s (rm_book_id request) (at_user_id (rm_actor request)) = Some manager"
      and "is_manager (bm_role manager)"
      and "st_book_members (rm_book_id request) s = Inr members"
      and "member_at s (rm_book_id request) (trim_space (rm_user_id request)) = Some target"
      and "\<not> (bm_role target = RoleOwner \<and> owner_count members \<le> 1)"
      and "r = Inr ()" and "books_ok t"
      and "member_at t = (\<lambda>c v. if c = rm_book_id request \<and> v = trim_space (rm_user_id request)
             then None else member_at s c v)"
proof (cases "authorize_book_member (rm_actor request) (rm_book_id request) s")
  case (Inl e)
  then show ?thesis using run by (intro failed) (auto simp: remove_book_member_def act_simps)
next
  case (Inr mb)
  obtain manager b where mb: "mb = (manager, b)" by force
  note auth = Inr [unfolded mb authorize_iff]
  show ?thesis
  proof (cases "is_manager (bm_role manager) \<and> trim_space (rm_user_id request) \<noteq> []")
    case False
    then show ?thesis using run Inr
      by (intro failed) (auto simp: remove_book_member_def act_simps mb split: if_splits)
  next
    case True
    obtain members where ms: "st_book_members (rm_book_id request) s = Inr members"
      using auth book_members_exist by blast
    note find = find_book_member_at [OF books_okD(1) [OF ok] ms]
    show ?thesis
    proof (cases "member_at s (rm_book_id request) (trim_space (rm_user_id request))")
      case None
      then show ?thesis using run Inr True
        by (intro failed) (auto simp add: remove_book_member_def act_simps mb ms find)
    next
      case (Some target)
      have id: "bm_user_id target = trim_space (rm_user_id request)"
        by (rule member_at_ok(2) [OF books_okD(1) [OF ok] Some])
      show ?thesis
      proof (cases "bm_role target = RoleOwner \<and> owner_count members \<le> 1")
        case guard: True
        then show ?thesis using run Inr True Some
          by (intro failed) (auto simp add: remove_book_member_def act_simps mb ms find)
      next
        case guard: False
        from auth have "book_at s (rm_book_id request) = Some b" by blast
        from remove_member_steps [OF ok this ms Some guard, of now] obtain t1 t2 where
          steps: "st_delete_book_member (rm_book_id request) (trim_space (rm_user_id request)) s = (Inr (), t1)"
            "(if bm_role target = RoleOwner \<and> bk_owner_user_id b = trim_space (rm_user_id request)
              then (case first_other_owner members (trim_space (rm_user_id request)) of
                  None \<Rightarrow> afail (ErrInvalidInput ''cannot remove the sole owner'')
                | Some replacement \<Rightarrow>
                    abind (st_update_book (b\<lparr>bk_owner_user_id := bm_user_id replacement, bk_updated_at := now\<rparr>))
                      (\<lambda>_. aret ()))
              else aret ()) t1 = (Inr (), t2)" (is "?rest t1 = _") "books_ok t2"
            "member_at t2 = (\<lambda>c v. if c = rm_book_id request \<and> v = trim_space (rm_user_id request)
               then None else member_at s c v)"
          by blast
        have "?rest t1 = (r, t)"
          using run Inr True Some guard steps(1)
          by (simp add: remove_book_member_def act_simps mb ms find id
              abind_def [of "st_delete_book_member _ _"] cong: if_cong split del: if_split)
        then have "(r, t) = (Inr (), t2)" using steps(2) by (rule trans [OF sym])
        then show ?thesis using auth True ms Some guard steps(3,4)
          by (intro removed [of manager members target]) simp_all
      qed
    qed
  qed
qed

lemma remove_member_keeps_books:
  "books_ok s \<Longrightarrow> remove_book_member request now s = (r, t) \<Longrightarrow> books_ok t"
  by (rule remove_member_cases) auto

lemmas books_keep = create_book_keeps_books update_book_keeps_books add_book_member_keeps_books
  update_role_keeps_books remove_member_keeps_books

end
