(* ===== verification/Ledger_Accounts.thy ===== *)
theory Ledger_Accounts
  imports Ledger_Books
begin

text \<open>
  Personal accounts and account groups (the first half of \<open>ledger/accounts_categories.go\<close>, the
  account lookups of \<open>ledger/entries.go\<close> and \<open>ledger/service.go\<close>): who may see, create, group,
  share and unshare an account.
\<close>

section \<open>Validation\<close>

definition max_account_name_length :: nat where
  "max_account_name_length = 120"

definition max_account_group_name_length :: nat where
  "max_account_group_name_length = 120"

definition max_shared_books_per_account :: nat where
  "max_shared_books_per_account = 50"

definition is_supported_account_type :: "account_type \<Rightarrow> bool" where
  "is_supported_account_type t \<longleftrightarrow>
     t \<in> {AccountTypeCash, AccountTypeSavings, AccountTypeCreditCard, AccountTypeLoan,
          AccountTypeInvestment, AccountTypePaymentPlatform}"

definition normalize_ids :: "string list \<Rightarrow> string list" where
  "normalize_ids ids = trimmed_unique ids"

definition remove_id :: "string list \<Rightarrow> string \<Rightarrow> string list" where
  "remove_id ids removed = filter (\<lambda>i. i \<noteq> removed) ids"

definition validate_create_account_request :: "create_account_request \<Rightarrow> ledger_error + unit" where
  "validate_create_account_request request =
     (if trim_space (ca_name request) = [] then Inl (ErrInvalidInput ''account name is required'')
      else if rune_count (trim_space (ca_name request)) > max_account_name_length
      then Inl (ErrInvalidInput ''account name is too long'')
      else if \<not> is_supported_account_type (ca_type request)
      then Inl (ErrInvalidInput ''account type is invalid'')
      else if \<not> is_supported_currency (ca_currency request)
      then Inl (ErrInvalidInput ''account currency is invalid'')
      else if length (normalize_ids (ca_shared_book_ids request)) > max_shared_books_per_account
      then Inl (ErrInvalidInput ''too many shared books'')
      else Inr ())"

definition validate_account_group_fields :: "string \<Rightarrow> ledger_error + unit" where
  "validate_account_group_fields name =
     (if trim_space name = [] then Inl (ErrInvalidInput ''account group name is required'')
      else if rune_count (trim_space name) > max_account_group_name_length
      then Inl (ErrInvalidInput ''account group name is too long'')
      else Inr ())"

definition account_group_by_id :: "string \<Rightarrow> memory_store \<Rightarrow> ledger_error + account_group" where
  "account_group_by_id group_id s =
     rbind (st_account_groups s) (\<lambda>groups.
       case find (\<lambda>g. ag_id g = group_id) groups of
         None \<Rightarrow> Inl (ErrNotFound ''account group not found'') | Some g \<Rightarrow> Inr g)"

definition validate_account_group :: "actor \<Rightarrow> string \<Rightarrow> memory_store \<Rightarrow> ledger_error + unit" where
  "validate_account_group a group_id s =
     (if group_id = [] then Inr ()
      else rbind (account_group_by_id group_id s) (\<lambda>g.
        rguard (ag_user_id g = at_user_id a) (ErrAccessDenied ''account group is not owned by actor'')))"

fun check_shared_books :: "actor \<Rightarrow> memory_store \<Rightarrow> string list \<Rightarrow> ledger_error + unit" where
  "check_shared_books a s [] = Inr ()"
| "check_shared_books a s (b # bs) =
     (case st_member b (at_user_id a) s of
        Inl _ \<Rightarrow> Inl (ErrAccessDenied ''actor cannot share account with book'')
      | Inr _ \<Rightarrow> check_shared_books a s bs)"

definition validate_shared_books :: "actor \<Rightarrow> string list \<Rightarrow> memory_store \<Rightarrow> ledger_error + unit" where
  "validate_shared_books a book_ids s = check_shared_books a s (normalize_ids book_ids)"

section \<open>Lookups\<close>

definition account_by_id :: "string \<Rightarrow> memory_store \<Rightarrow> ledger_error + account" where
  "account_by_id account_id s =
     (let account_id = trim_space account_id in
      if account_id = [] then Inl (ErrInvalidInput ''account id is required'')
      else rbind (st_accounts s) (\<lambda>accounts.
        case find (\<lambda>a. ac_id a = account_id) accounts of
          None \<Rightarrow> Inl (ErrNotFound ''account not found'') | Some a \<Rightarrow> Inr a))"

definition visible_account ::
    "actor \<Rightarrow> string \<Rightarrow> string \<Rightarrow> memory_store \<Rightarrow> ledger_error + account" where
  "visible_account a book_id account_id s =
     (let account_id = trim_space account_id in
      if account_id = [] then Inl (ErrInvalidInput ''account id is required'')
      else rbind (st_accounts s) (\<lambda>accounts.
        case find (\<lambda>x. ac_id x = account_id) accounts of
          None \<Rightarrow> Inl (ErrNotFound ''account not found'')
        | Some x \<Rightarrow>
            if ac_user_id x = at_user_id a \<or> book_id \<in> set (ac_shared_book_ids x) then Inr x
            else Inl (ErrAccessDenied ''account is not visible to actor'')))"

definition visible_accounts ::
    "actor \<Rightarrow> string \<Rightarrow> memory_store \<Rightarrow> ledger_error + account_summary list" where
  "visible_accounts a book_id s =
     rbind (st_accounts s) (\<lambda>accounts.
       Inr (map (\<lambda>x. \<lparr>as_id = ac_id x, as_name = ac_name x, as_type = ac_type x, as_currency = ac_currency x\<rparr>)
         (filter (\<lambda>x. ac_user_id x = at_user_id a \<or> book_id \<in> set (ac_shared_book_ids x)) accounts)))"

section \<open>Handlers\<close>

definition list_accounts ::
    "actor \<Rightarrow> int \<Rightarrow> int \<Rightarrow> memory_store \<Rightarrow> ledger_error + account page" where
  "list_accounts a page page_size s =
     (if at_user_id a = [] then Inl (ErrInvalidInput ''actor user id is required'')
      else rbind (st_accounts s) (\<lambda>accounts.
        page_or (Panic ''slice bounds out of range'')
          (paginate (filter (\<lambda>x. ac_user_id x = at_user_id a) accounts) page page_size)))"

definition list_account_groups ::
    "actor \<Rightarrow> int \<Rightarrow> int \<Rightarrow> memory_store \<Rightarrow> ledger_error + account_group page" where
  "list_account_groups a page page_size s =
     (if at_user_id a = [] then Inl (ErrInvalidInput ''actor user id is required'')
      else rbind (st_account_groups s) (\<lambda>groups.
        page_or (Panic ''slice bounds out of range'')
          (paginate (filter (\<lambda>g. ag_user_id g = at_user_id a) groups) page page_size)))"

definition create_account_group ::
    "create_account_group_request \<Rightarrow> string \<Rightarrow> time \<Rightarrow> (memory_store, ledger_error, account_group) act" where
  "create_account_group request fresh now =
     abind (aguard (at_user_id (cg_actor request) \<noteq> []) (ErrInvalidInput ''actor user id is required'')) (\<lambda>_.
     abind (aread (\<lambda>_. validate_account_group_fields (cg_name request))) (\<lambda>_.
       st_create_account_group
         \<lparr>ag_id = fresh, ag_user_id = at_user_id (cg_actor request), ag_name = trim_space (cg_name request),
          ag_sort_order = cg_sort_order request, ag_created_at = now, ag_updated_at = now\<rparr>))"

definition update_account_group ::
    "update_account_group_request \<Rightarrow> time \<Rightarrow> (memory_store, ledger_error, account_group) act" where
  "update_account_group request now =
     abind (aguard (at_user_id (ug_actor request) \<noteq> []) (ErrInvalidInput ''actor user id is required'')) (\<lambda>_.
     abind (aguard (ug_group_id request \<noteq> []) (ErrInvalidInput ''account group id is required'')) (\<lambda>_.
     abind (aguard (\<not> (ug_name request = None \<and> ug_sort_order request = None))
       (ErrInvalidInput ''account group update must include at least one field'')) (\<lambda>_.
     abind (aread (account_group_by_id (ug_group_id request))) (\<lambda>g.
     abind (aguard (ag_user_id g = at_user_id (ug_actor request))
       (ErrAccessDenied ''account group is not owned by actor'')) (\<lambda>_.
     abind (case ug_name request of
         None \<Rightarrow> aret g
       | Some name \<Rightarrow> abind (aread (\<lambda>_. validate_account_group_fields name)) (\<lambda>_.
           aret (g\<lparr>ag_name := trim_space name\<rparr>))) (\<lambda>updated.
       let updated = (case ug_sort_order request of None \<Rightarrow> updated
             | Some n \<Rightarrow> updated\<lparr>ag_sort_order := n\<rparr>)
       in st_update_account_group (updated\<lparr>ag_updated_at := now\<rparr>)))))))"

definition create_account ::
    "create_account_request \<Rightarrow> string \<Rightarrow> time \<Rightarrow> (memory_store, ledger_error, account) act" where
  "create_account request fresh now =
     abind (aguard (at_user_id (ca_actor request) \<noteq> []) (ErrInvalidInput ''actor user id is required'')) (\<lambda>_.
     abind (aread (\<lambda>_. validate_create_account_request request)) (\<lambda>_.
     abind (aread (validate_account_group (ca_actor request) (trim_space (ca_group_id request)))) (\<lambda>_.
     abind (aread (validate_shared_books (ca_actor request) (ca_shared_book_ids request))) (\<lambda>_.
       st_create_account
         \<lparr>ac_id = fresh, ac_user_id = at_user_id (ca_actor request),
          ac_group_id = trim_space (ca_group_id request), ac_name = trim_space (ca_name request),
          ac_type = ca_type request, ac_currency = upper_trim (ca_currency request),
          ac_shared_book_ids = normalize_ids (ca_shared_book_ids request),
          ac_opening_balance = ca_opening_balance request,
          ac_created_at = now, ac_updated_at = now\<rparr>))))"

definition unshare_account ::
    "unshare_account_request \<Rightarrow> time \<Rightarrow> (memory_store, ledger_error, account) act" where
  "unshare_account request now =
     abind (aread (authorize_book_member (ua_actor request) (ua_book_id request))) (\<lambda>(manager, _).
     abind (aguard (is_manager (bm_role manager)) (ErrAccessDenied ''role cannot unshare accounts'')) (\<lambda>_.
     abind (aguard (trim_space (ua_account_id request) \<noteq> []) (ErrInvalidInput ''account id is required'')) (\<lambda>_.
     abind (aread (account_by_id (trim_space (ua_account_id request)))) (\<lambda>a.
     abind (aguard (ua_book_id request \<in> set (ac_shared_book_ids a))
       (ErrNotFound ''account is not shared with book'')) (\<lambda>_.
       st_update_account (a\<lparr>ac_shared_book_ids := remove_id (ac_shared_book_ids a) (ua_book_id request),
         ac_updated_at := now\<rparr>))))))"

lemma account_handlers_clean:
  "fails_clean (create_account_group cgr fresh now)"
  "fails_clean (update_account_group ugr now)"
  "fails_clean (create_account car fresh now)"
  "fails_clean (unshare_account uar now)"
proof -
  show "fails_clean (update_account_group ugr now)"
    unfolding update_account_group_def Let_def
    by (cases "ug_name ugr"; simp) (rule store_fails_clean clean_rules)+
qed (unfold create_account_group_def create_account_def unshare_account_def,
    (rule store_fails_clean clean_rules)+)

section \<open>What the lookups find\<close>

lemma visible_account_iff:
  assumes "store_ok s"
  shows "visible_account a b i s = Inr x \<longleftrightarrow> trim_space i \<noteq> [] \<and> x \<in> set (ms_accounts s) \<and>
    ac_id x = trim_space i \<and> (ac_user_id x = at_user_id a \<or> b \<in> set (ac_shared_book_ids x))"
proof -
  have d: "distinct (map ac_id (ms_accounts s))" using assms by (simp add: store_ok_def)
  let ?as = "sort_func (\<lambda>l r. cmp_string (ac_id l) (ac_id r)) (ms_accounts s)"
  have f: "find (\<lambda>a. ac_id a = k) ?as = Some y \<longleftrightarrow> y \<in> set (ms_accounts s) \<and> ac_id y = k" for k y
    by (rule find_sorted [OF d])
  have "visible_account a b i s = Inr x \<longleftrightarrow> trim_space i \<noteq> [] \<and> find (\<lambda>a. ac_id a = trim_space i) ?as = Some x \<and>
      (ac_user_id x = at_user_id a \<or> b \<in> set (ac_shared_book_ids x))"
    by (auto simp: visible_account_def st_accounts_def Let_def split: option.splits)
  then show ?thesis by (auto simp: f)
qed

lemma account_by_id_iff:
  assumes "store_ok s"
  shows "account_by_id i s = Inr x \<longleftrightarrow> trim_space i \<noteq> [] \<and> x \<in> set (ms_accounts s) \<and> ac_id x = trim_space i"
proof -
  have d: "distinct (map ac_id (ms_accounts s))" using assms by (simp add: store_ok_def)
  let ?as = "sort_func (\<lambda>l r. cmp_string (ac_id l) (ac_id r)) (ms_accounts s)"
  have "account_by_id i s = Inr x \<longleftrightarrow> trim_space i \<noteq> [] \<and> find (\<lambda>a. ac_id a = trim_space i) ?as = Some x"
    by (auto simp: account_by_id_def st_accounts_def Let_def split: option.splits)
  then show ?thesis by (auto simp: find_sorted [OF d])
qed

lemma account_group_by_id_iff:
  assumes "store_ok s"
  shows "account_group_by_id i s = Inr g \<longleftrightarrow> g \<in> set (ms_groups s) \<and> ag_id g = i"
proof -
  have d: "distinct (map ag_id (ms_groups s))" using assms by (simp add: store_ok_def)
  have "account_group_by_id i s = Inr g \<longleftrightarrow>
      find (\<lambda>g. ag_id g = i) (sort_func (cmp_listing ag_sort_order ag_id) (ms_groups s)) = Some g"
    by (auto simp: account_group_by_id_def st_account_groups_def split: option.splits)
  then show ?thesis by (simp only: find_sorted [OF d])
qed

lemma shared_books_ok:
  "check_shared_books a s bs = Inr () \<longleftrightarrow> (\<forall>b \<in> set bs. \<exists>m. member_at s b (at_user_id a) = Some m)"
proof (induction bs)
  case (Cons b bs)
  show ?case
  proof (cases "member_at s b (at_user_id a)")
    case None
    then show ?thesis using st_lookup_None(2) [OF None] by auto
  next
    case (Some m)
    then show ?thesis using Cons by (simp add: st_lookup_Some(2) [OF Some])
  qed
qed simp

section \<open>What the handlers do\<close>

text \<open>What every account that passed validation satisfies.\<close>

definition account_wf :: "account \<Rightarrow> bool" where
  "account_wf a \<longleftrightarrow> trim_space (ac_name a) \<noteq> [] \<and> rune_count (trim_space (ac_name a)) \<le> 120 \<and>
     is_supported_account_type (ac_type a) \<and> is_supported_currency (ac_currency a) \<and>
     normalize_ids (ac_shared_book_ids a) = ac_shared_book_ids a \<and> length (ac_shared_book_ids a) \<le> 50"

lemma create_account_success:
  assumes ok: "store_ok s" and run: "create_account request fresh now s = (Inr a, t)"
  shows "account_wf a" and "ac_id a = fresh" and "ac_user_id a = at_user_id (ca_actor request)"
    and "\<forall>b \<in> set (ac_shared_book_ids a). \<exists>m. member_at s b (ac_user_id a) = Some m"
    and "ac_group_id a = [] \<or> (\<exists>g \<in> set (ms_groups s). ag_id g = ac_group_id a \<and> ag_user_id g = ac_user_id a)"
    and "fresh \<notin> ac_id ` set (ms_accounts s)" and "t = s\<lparr>ms_accounts := ms_accounts s @ [a]\<rparr>"
proof -
  from run have v: "validate_create_account_request request = Inr ()"
    and g: "validate_account_group (ca_actor request) (trim_space (ca_group_id request)) s = Inr ()"
    and b: "validate_shared_books (ca_actor request) (ca_shared_book_ids request) s = Inr ()"
    and w: "st_create_account \<lparr>ac_id = fresh, ac_user_id = at_user_id (ca_actor request),
          ac_group_id = trim_space (ca_group_id request), ac_name = trim_space (ca_name request),
          ac_type = ca_type request, ac_currency = upper_trim (ca_currency request),
          ac_shared_book_ids = normalize_ids (ca_shared_book_ids request),
          ac_opening_balance = ca_opening_balance request,
          ac_created_at = now, ac_updated_at = now\<rparr> s = (Inr a, t)"
    by (auto simp: create_account_def act_iffs split: if_splits)
  from w have a: "a = \<lparr>ac_id = fresh, ac_user_id = at_user_id (ca_actor request),
          ac_group_id = trim_space (ca_group_id request), ac_name = trim_space (ca_name request),
          ac_type = ca_type request, ac_currency = upper_trim (ca_currency request),
          ac_shared_book_ids = normalize_ids (ca_shared_book_ids request),
          ac_opening_balance = ca_opening_balance request,
          ac_created_at = now, ac_updated_at = now\<rparr>"
    and fresh: "fresh \<notin> ac_id ` set (ms_accounts s)" and t: "t = s\<lparr>ms_accounts := ms_accounts s @ [a]\<rparr>"
    by (auto simp: st_create_account_def list_ex_iff split: if_splits)
  show "account_wf a" using v
    by (auto simp: a account_wf_def validate_create_account_request_def max_account_name_length_def
        max_shared_books_per_account_def normalize_ids_def split: if_splits)
  show "ac_id a = fresh" "ac_user_id a = at_user_id (ca_actor request)" by (simp_all add: a)
  show "\<forall>b \<in> set (ac_shared_book_ids a). \<exists>m. member_at s b (ac_user_id a) = Some m"
    using b by (simp add: a validate_shared_books_def shared_books_ok)
  show "ac_group_id a = [] \<or> (\<exists>g \<in> set (ms_groups s). ag_id g = ac_group_id a \<and> ag_user_id g = ac_user_id a)"
    using g by (auto simp: a validate_account_group_def rbind_Inr_iff account_group_by_id_iff [OF ok] split: if_splits)
  show "fresh \<notin> ac_id ` set (ms_accounts s)" "t = s\<lparr>ms_accounts := ms_accounts s @ [a]\<rparr>" by (fact fresh t)+
qed

text \<open>Unsharing: a manager of the book takes it off the list of one account, and changes nothing else.\<close>

lemma unshare_account_success:
  assumes ok: "store_ok s" and run: "unshare_account request now s = (Inr a, t)"
  obtains m a0 where "member_at s (ua_book_id request) (at_user_id (ua_actor request)) = Some m"
    and "is_manager (bm_role m)" and "a0 \<in> set (ms_accounts s)"
    and "ac_id a0 = trim_space (ua_account_id request)"
    and "ua_book_id request \<in> set (ac_shared_book_ids a0)"
    and "a = a0\<lparr>ac_shared_book_ids := remove_id (ac_shared_book_ids a0) (ua_book_id request), ac_updated_at := now\<rparr>"
    and "st_update_account a s = (Inr a, t)"
proof -
  from run obtain m b a0 where m: "member_at s (ua_book_id request) (at_user_id (ua_actor request)) = Some m"
    "is_manager (bm_role m)"
    and a0: "account_by_id (trim_space (ua_account_id request)) s = Inr a0"
      "ua_book_id request \<in> set (ac_shared_book_ids a0)"
    and w: "st_update_account (a0\<lparr>ac_shared_book_ids :=
      remove_id (ac_shared_book_ids a0) (ua_book_id request), ac_updated_at := now\<rparr>) s = (Inr a, t)"
    by (auto simp: unshare_account_def act_iffs split: if_splits prod.splits)
  from w have "a = a0\<lparr>ac_shared_book_ids := remove_id (ac_shared_book_ids a0) (ua_book_id request), ac_updated_at := now\<rparr>"
    by (auto simp: st_update_account_def split: option.splits)
  with m a0 w account_by_id_iff [OF ok] show ?thesis by (intro that [of m a0]) simp_all
qed

lemma update_account_group_success:
  assumes ok: "store_ok s" and run: "update_account_group request now s = (Inr g, t)"
  obtains g0 where "g0 \<in> set (ms_groups s)" and "ag_id g0 = ug_group_id request"
    and "ag_user_id g0 = at_user_id (ug_actor request)"
    and "g = g0\<lparr>ag_name := (case ug_name request of None \<Rightarrow> ag_name g0 | Some n \<Rightarrow> trim_space n),
      ag_sort_order := (case ug_sort_order request of None \<Rightarrow> ag_sort_order g0 | Some n \<Rightarrow> n), ag_updated_at := now\<rparr>"
    and "st_update_account_group g s = (Inr g, t)"
proof -
  from run obtain g0 where g0: "account_group_by_id (ug_group_id request) s = Inr g0"
      "ag_user_id g0 = at_user_id (ug_actor request)"
    and w: "st_update_account_group (g0\<lparr>ag_name := (case ug_name request of None \<Rightarrow> ag_name g0 | Some n \<Rightarrow> trim_space n),
      ag_sort_order := (case ug_sort_order request of None \<Rightarrow> ag_sort_order g0 | Some n \<Rightarrow> n), ag_updated_at := now\<rparr>) s = (Inr g, t)"
    by (cases "ug_name request"; cases "ug_sort_order request")
      (auto simp: update_account_group_def act_iffs Let_def split: if_splits)
  from w have "g = g0\<lparr>ag_name := (case ug_name request of None \<Rightarrow> ag_name g0 | Some n \<Rightarrow> trim_space n),
      ag_sort_order := (case ug_sort_order request of None \<Rightarrow> ag_sort_order g0 | Some n \<Rightarrow> n), ag_updated_at := now\<rparr>"
    by (auto simp: st_update_account_group_def split: option.splits)
  with g0 w account_group_by_id_iff [OF ok] show ?thesis by (intro that [of g0]) simp_all
qed

end
