(* ===== verification/Ledger_Categories.thy ===== *)
theory Ledger_Categories
  imports Ledger_Books
begin

text \<open>
  The category tree of a book (the second half of \<open>ledger/accounts_categories.go\<close>): validation with
  its walk up the parents, the handlers, and the proof that the walk ends and the tree stays a
  forest.
\<close>

section \<open>Validation\<close>

definition max_category_name_length :: nat where
  "max_category_name_length = 120"

definition max_category_raw_source_length :: nat where
  "max_category_raw_source_length = 240"

text \<open>
  \<open>categoryParents\<close> after the loop over the listing, and one step of the walk. A missing key of a Go
  map reads as the empty string.
\<close>

definition category_parents :: "category list \<Rightarrow> (string \<rightharpoonup> string)" where
  "category_parents categories = map_of (rev (map (\<lambda>c. (ct_id c, ct_parent_id c)) categories))"

definition parent_step :: "category list \<Rightarrow> string \<Rightarrow> string" where
  "parent_step categories a =
     trim_space (case category_parents categories a of None \<Rightarrow> [] | Some p \<Rightarrow> p)"

text \<open>
  The walk: does it meet \<open>category_id\<close> before it runs out of ancestors? On a cyclic tree it would not
  end, which is the value \<open>None\<close>.
\<close>

partial_function (option) meets_ancestor ::
    "(string \<Rightarrow> string) \<Rightarrow> string \<Rightarrow> string \<Rightarrow> bool option" where
  "meets_ancestor parent category_id ancestor_id =
     (if ancestor_id = [] then Some False
      else if ancestor_id = category_id then Some True
      else meets_ancestor parent category_id (parent ancestor_id))"

declare meets_ancestor.simps [code]

definition validate_category_fields ::
    "string \<Rightarrow> string \<Rightarrow> string \<Rightarrow> string \<Rightarrow> category_direction \<Rightarrow> string \<Rightarrow> memory_store \<Rightarrow>
     (ledger_error + unit) option" where
  "validate_category_fields book_id category_id parent_id name direction raw_source_name s =
     (if trim_space name = [] then Some (Inl (ErrInvalidInput ''category name is required''))
      else if rune_count (trim_space name) > max_category_name_length
      then Some (Inl (ErrInvalidInput ''category name is too long''))
      else if direction \<noteq> CategoryDirectionIncome \<and> direction \<noteq> CategoryDirectionExpense
      then Some (Inl (ErrInvalidInput ''category direction is invalid''))
      else if rune_count (trim_space raw_source_name) > max_category_raw_source_length
      then Some (Inl (ErrInvalidInput ''raw source name is too long''))
      else if trim_space parent_id = [] then Some (Inr ())
      else if trim_space parent_id = trim_space category_id
      then Some (Inl (ErrInvalidInput ''category cannot be its own parent''))
      else (case st_categories book_id s of
          Inl e \<Rightarrow> Some (Inl e)
        | Inr categories \<Rightarrow>
            (case find (\<lambda>c. ct_id c = trim_space parent_id) (rev categories) of
               None \<Rightarrow> Some (Inl (ErrNotFound ''parent category not found''))
             | Some parent \<Rightarrow>
                 if ct_direction parent \<noteq> direction
                 then Some (Inl (ErrInvalidInput ''parent category direction differs''))
                 else map_option (\<lambda>meets.
                     if meets then Inl (ErrInvalidInput ''category parent would create a cycle'') else Inr ())
                   (meets_ancestor (parent_step categories) (trim_space category_id) (trim_space parent_id)))))"

definition validate_create_category_request ::
    "create_category_request \<Rightarrow> memory_store \<Rightarrow> (ledger_error + unit) option" where
  "validate_create_category_request request s =
     validate_category_fields (cc_book_id request) [] (cc_parent_id request) (cc_name request)
       (cc_direction request) (cc_raw_source_name request) s"

definition update_category_request_has_fields :: "update_category_request \<Rightarrow> bool" where
  "update_category_request_has_fields request \<longleftrightarrow>
     uc_parent_id request \<noteq> None \<or> uc_name request \<noteq> None \<or> uc_direction request \<noteq> None \<or>
     uc_sort_order request \<noteq> None \<or> uc_archived request \<noteq> None \<or> uc_raw_source_name request \<noteq> None"

definition category_by_id :: "string \<Rightarrow> string \<Rightarrow> memory_store \<Rightarrow> ledger_error + category" where
  "category_by_id book_id category_id s =
     rbind (st_categories book_id s) (\<lambda>categories.
       case find (\<lambda>c. ct_id c = category_id) categories of
         None \<Rightarrow> Inl (ErrNotFound ''category not found'') | Some c \<Rightarrow> Inr c)"

definition patch_category :: "category \<Rightarrow> update_category_request \<Rightarrow> category" where
  "patch_category c request =
     (let p = c;
          p = (case uc_parent_id request of None \<Rightarrow> p | Some x \<Rightarrow> p\<lparr>ct_parent_id := trim_space x\<rparr>);
          p = (case uc_name request of None \<Rightarrow> p | Some x \<Rightarrow> p\<lparr>ct_name := trim_space x\<rparr>);
          p = (case uc_direction request of None \<Rightarrow> p | Some x \<Rightarrow> p\<lparr>ct_direction := x\<rparr>);
          p = (case uc_sort_order request of None \<Rightarrow> p | Some x \<Rightarrow> p\<lparr>ct_sort_order := x\<rparr>);
          p = (case uc_archived request of None \<Rightarrow> p | Some x \<Rightarrow> p\<lparr>ct_archived := x\<rparr>)
      in (case uc_raw_source_name request of None \<Rightarrow> p | Some x \<Rightarrow> p\<lparr>ct_raw_source_name := trim_space x\<rparr>))"

section \<open>Handlers\<close>

definition list_categories ::
    "actor \<Rightarrow> string \<Rightarrow> int \<Rightarrow> int \<Rightarrow> memory_store \<Rightarrow> ledger_error + category page" where
  "list_categories a book_id page page_size s =
     (if at_user_id a = [] then Inl (ErrInvalidInput ''actor user id is required'')
      else if book_id = [] then Inl (ErrInvalidInput ''book id is required'')
      else (case st_member book_id (at_user_id a) s of
          Inl _ \<Rightarrow> Inl (ErrAccessDenied ''authorize category list for user'')
        | Inr _ \<Rightarrow> rbind (st_categories book_id s) (\<lambda>categories.
            page_or (Panic ''slice bounds out of range'') (paginate categories page page_size))))"

text \<open>\<open>None\<close>: the handler does not return.\<close>

definition create_category ::
    "create_category_request \<Rightarrow> string \<Rightarrow> time \<Rightarrow> memory_store \<Rightarrow>
     ((ledger_error + category) \<times> memory_store) option" where
  "create_category request fresh now s =
     (if at_user_id (cc_actor request) = [] then Some (Inl (ErrInvalidInput ''actor user id is required''), s)
      else if cc_book_id request = [] then Some (Inl (ErrInvalidInput ''book id is required''), s)
      else (case st_member (cc_book_id request) (at_user_id (cc_actor request)) s of
          Inl _ \<Rightarrow> Some (Inl (ErrAccessDenied ''authorize category create for user''), s)
        | Inr member \<Rightarrow>
            if \<not> is_manager (bm_role member)
            then Some (Inl (ErrAccessDenied ''role cannot create categories''), s)
            else (case validate_create_category_request request s of
                None \<Rightarrow> None
              | Some (Inl e) \<Rightarrow> Some (Inl e, s)
              | Some (Inr _) \<Rightarrow> Some (st_create_category
                  \<lparr>ct_id = fresh, ct_book_id = cc_book_id request,
                   ct_parent_id = trim_space (cc_parent_id request),
                   ct_name = trim_space (cc_name request), ct_direction = cc_direction request,
                   ct_sort_order = cc_sort_order request, ct_archived = False,
                   ct_raw_source_name = trim_space (cc_raw_source_name request),
                   ct_created_at = now, ct_updated_at = now\<rparr> s))))"

definition update_category ::
    "update_category_request \<Rightarrow> time \<Rightarrow> memory_store \<Rightarrow>
     ((ledger_error + category) \<times> memory_store) option" where
  "update_category request now s =
     (if at_user_id (uc_actor request) = [] then Some (Inl (ErrInvalidInput ''actor user id is required''), s)
      else if uc_book_id request = [] then Some (Inl (ErrInvalidInput ''book id is required''), s)
      else if uc_category_id request = [] then Some (Inl (ErrInvalidInput ''category id is required''), s)
      else if \<not> update_category_request_has_fields request
      then Some (Inl (ErrInvalidInput ''category update must include at least one field''), s)
      else (case st_member (uc_book_id request) (at_user_id (uc_actor request)) s of
          Inl _ \<Rightarrow> Some (Inl (ErrAccessDenied ''authorize category update for user''), s)
        | Inr member \<Rightarrow>
            if \<not> is_manager (bm_role member)
            then Some (Inl (ErrAccessDenied ''role cannot update categories''), s)
            else (case category_by_id (uc_book_id request) (uc_category_id request) s of
                Inl e \<Rightarrow> Some (Inl e, s)
              | Inr c \<Rightarrow>
                  let patched = patch_category c request in
                  (case validate_category_fields (uc_book_id request) (uc_category_id request)
                      (ct_parent_id patched) (ct_name patched) (ct_direction patched)
                      (ct_raw_source_name patched) s of
                     None \<Rightarrow> None
                   | Some (Inl e) \<Rightarrow> Some (Inl e, s)
                   | Some (Inr _) \<Rightarrow> Some (st_update_category (patched\<lparr>ct_updated_at := now\<rparr>) s)))))"

section \<open>The tree\<close>

text \<open>The trimmed parent of a category in a book, empty for a root or an unknown id.\<close>

definition parent_in :: "memory_store \<Rightarrow> string \<Rightarrow> string \<Rightarrow> string" where
  "parent_in s b a =
     (case find (\<lambda>c. ct_id c = a) (filter (\<lambda>c. ct_book_id c = b) (ms_categories s)) of
        None \<Rightarrow> [] | Some c \<Rightarrow> trim_space (ct_parent_id c))"

fun climb :: "(string \<Rightarrow> string) \<Rightarrow> nat \<Rightarrow> string \<Rightarrow> bool" where
  "climb parent 0 a \<longleftrightarrow> a = []"
| "climb parent (Suc n) a \<longleftrightarrow> a = [] \<or> climb parent n (parent a)"

definition tree_ok :: "memory_store \<Rightarrow> bool" where
  "tree_ok s \<longleftrightarrow>
     (\<forall>c \<in> set (ms_categories s). book_at s (ct_book_id c) \<noteq> None) \<and>
     (\<forall>c \<in> set (ms_categories s). trim_space (ct_parent_id c) = [] \<or>
        (\<exists>p \<in> set (ms_categories s). ct_book_id p = ct_book_id c \<and> ct_id p = trim_space (ct_parent_id c))) \<and>
     (\<forall>b a. \<exists>n. climb (parent_in s b) n a)"

lemma tree_okD:
  assumes "tree_ok s"
  shows "c \<in> set (ms_categories s) \<Longrightarrow> book_at s (ct_book_id c) \<noteq> None"
    and "c \<in> set (ms_categories s) \<Longrightarrow> trim_space (ct_parent_id c) \<noteq> [] \<Longrightarrow>
      \<exists>p \<in> set (ms_categories s). ct_book_id p = ct_book_id c \<and> ct_id p = trim_space (ct_parent_id c)"
    and "\<exists>n. climb (parent_in s b) n a"
  using assms unfolding tree_ok_def by blast+

lemma parent_step_listing:
  assumes "store_ok s" and "st_categories b s = Inr categories"
  shows "parent_step categories = parent_in s b"
proof
  fix a
  let ?cs = "filter (\<lambda>c. ct_book_id c = b) (ms_categories s)"
  have d: "distinct (map ct_id ?cs)" using assms(1) by (simp add: store_ok_def distinct_map_filter)
  have c: "categories = sort_func (cmp_listing ct_sort_order ct_id) ?cs"
    using assms(2) by (simp add: st_categories_def)
  have lookup: "map_of (rev (map (\<lambda>c. (ct_id c, ct_parent_id c)) xs)) a =
      map_option ct_parent_id (find (\<lambda>c. ct_id c = a) xs)" if "distinct (map ct_id xs)" for xs
    using that
  proof (induction xs)
    case (Cons x xs)
    then have "a = ct_id x \<Longrightarrow> find (\<lambda>c. ct_id c = a) xs = None" by (auto simp: find_None_iff image_iff)
    then show ?case using Cons by (auto simp: map_add_def split: option.splits)
  qed simp
  have "category_parents categories a = map_option ct_parent_id (find (\<lambda>c. ct_id c = a) ?cs)"
    using d lookup [of categories] find_sort_func [OF d, of a "cmp_listing ct_sort_order ct_id"]
    by (simp add: category_parents_def c)
  then show "parent_step categories a = parent_in s b a"
    by (simp add: parent_step_def parent_in_def split: option.splits)
qed

text \<open>The walk ends wherever climbing does, and an avoided category may change its parent.\<close>

lemma meets_root [simp]: "meets_ancestor parent c [] = Some False"
  by (simp add: meets_ancestor.simps [of parent c "[]"])

lemma meets_returns: "climb parent n a \<Longrightarrow> \<exists>m. meets_ancestor parent c a = Some m"
proof (induction n arbitrary: a)
  case 0
  then show ?case by auto
next
  case (Suc n)
  then show ?case
    by (cases "a = [] \<or> a = c") (auto simp: meets_ancestor.simps [of parent c a])
qed

lemma avoids_keeps_climb:
  "meets_ancestor parent c a = Some False \<Longrightarrow> climb parent n a \<Longrightarrow>
   (\<And>x. x \<noteq> c \<Longrightarrow> parent' x = parent x) \<Longrightarrow> climb parent' n a"
proof (induction n arbitrary: a)
  case (Suc n)
  show ?case
  proof (cases "a = []")
    case False
    then have "a \<noteq> c" "meets_ancestor parent c (parent a) = Some False"
      using Suc.prems(1) by (auto simp: meets_ancestor.simps [of parent c a] split: if_splits)
    then show ?thesis using Suc False by simp
  qed simp
qed simp

lemma never_met:
  assumes "climb parent n a" and "a \<noteq> c \<or> c = []" and "\<And>x. parent x \<noteq> c \<or> c = []"
  shows "meets_ancestor parent c a = Some False"
  using assms(1,2)
proof (induction n arbitrary: a)
  case (Suc n)
  show ?case
  proof (cases "a = []")
    case False
    then have "a \<noteq> c" using Suc.prems(2) by blast
    then show ?thesis using False Suc assms(3) [of a] by (simp add: meets_ancestor.simps [of parent c a])
  qed (simp add: meets_ancestor.simps [of parent c a])
qed simp

lemma climb_reparented:
  assumes "climb parent n a" and "climb parent' k (parent' c)" and "\<And>x. x \<noteq> c \<Longrightarrow> parent' x = parent x"
  shows "\<exists>m. climb parent' m a"
  using assms(1)
proof (induction n arbitrary: a)
  case 0
  then have "climb parent' 0 a" by simp
  then show ?case ..
next
  case (Suc n)
  show ?case
  proof (cases "a = c")
    case True
    then have "climb parent' (Suc k) a" using assms(2) by simp
    then show ?thesis ..
  next
    case False
    show ?thesis
    proof (cases "a = []")
      case True
      then have "climb parent' 0 a" by simp
      then show ?thesis ..
    next
      case ne: False
      then obtain m where "climb parent' m (parent' a)"
        using Suc False assms(3) by auto
      then have "climb parent' (Suc m) a" by simp
      then show ?thesis ..
    qed
  qed
qed

section \<open>Validation returns, and what it accepts\<close>

lemma find_rev_Some: "find P (rev xs) = Some x \<Longrightarrow> x \<in> set xs \<and> P x"
  by (metis find_Some_iff nth_mem set_rev)

lemma validate_returns:
  assumes "store_ok s" and "tree_ok s"
  shows "\<exists>v. validate_category_fields b c p name dir raw s = Some v"
proof -
  obtain categories where cs: "st_categories b s = Inr categories" by (simp add: st_categories_def)
  have "\<exists>m. meets_ancestor (parent_step categories) (trim_space c) (trim_space p) = Some m"
    using tree_okD(3) [OF assms(2), of b "trim_space p"] meets_returns
    by (metis parent_step_listing [OF assms(1) cs])
  then show ?thesis
    by (auto simp: validate_category_fields_def cs split: option.splits)
qed

lemma validate_accepts:
  assumes "store_ok s" and "validate_category_fields b c p name dir raw s = Some (Inr u)"
  shows "trim_space name \<noteq> []" and "rune_count (trim_space name) \<le> 120"
    and "dir = CategoryDirectionIncome \<or> dir = CategoryDirectionExpense"
    and "trim_space p = [] \<or>
      (\<exists>x \<in> set (ms_categories s). ct_book_id x = b \<and> ct_id x = trim_space p \<and> ct_direction x = dir) \<and>
      trim_space p \<noteq> trim_space c \<and>
      meets_ancestor (parent_in s b) (trim_space c) (trim_space p) = Some False"
proof -
  obtain categories where cs: "st_categories b s = Inr categories" by (simp add: st_categories_def)
  have listed: "x \<in> set categories \<longleftrightarrow> x \<in> set (ms_categories s) \<and> ct_book_id x = b" for x
    using cs by (auto simp: st_categories_def)
  note step = parent_step_listing [OF assms(1) cs]
  show "trim_space name \<noteq> []" "rune_count (trim_space name) \<le> 120"
    "dir = CategoryDirectionIncome \<or> dir = CategoryDirectionExpense"
    using assms(2) by (auto simp: validate_category_fields_def max_category_name_length_def split: if_splits)
  show "trim_space p = [] \<or>
      (\<exists>x \<in> set (ms_categories s). ct_book_id x = b \<and> ct_id x = trim_space p \<and> ct_direction x = dir) \<and>
      trim_space p \<noteq> trim_space c \<and>
      meets_ancestor (parent_in s b) (trim_space c) (trim_space p) = Some False"
  proof (cases "trim_space p = []")
    case False
    then obtain x where x: "find (\<lambda>c. ct_id c = trim_space p) (rev categories) = Some x"
      "ct_direction x = dir" "trim_space p \<noteq> trim_space c"
      "meets_ancestor (parent_step categories) (trim_space c) (trim_space p) = Some False"
      using assms(2) by (auto simp: validate_category_fields_def cs split: if_splits option.splits)
    then show ?thesis using find_rev_Some [OF x(1)] listed [of x] step by auto
  qed simp
qed

lemma create_category_success:
  assumes "create_category request fresh now s = Some (Inr c, t)"
  obtains m where "at_user_id (cc_actor request) \<noteq> []"
    and "member_at s (cc_book_id request) (at_user_id (cc_actor request)) = Some m"
    and "is_manager (bm_role m)"
    and "validate_create_category_request request s = Some (Inr ())"
    and "c = \<lparr>ct_id = fresh, ct_book_id = cc_book_id request,
           ct_parent_id = trim_space (cc_parent_id request),
           ct_name = trim_space (cc_name request), ct_direction = cc_direction request,
           ct_sort_order = cc_sort_order request, ct_archived = False,
           ct_raw_source_name = trim_space (cc_raw_source_name request),
           ct_created_at = now, ct_updated_at = now\<rparr>"
    and "ct_id c \<notin> ct_id ` set (ms_categories s)"
    and "t = s\<lparr>ms_categories := ms_categories s @ [c]\<rparr>"
proof -
  from assms obtain m where m: "st_member (cc_book_id request) (at_user_id (cc_actor request)) s = Inr m"
    by (auto simp: create_category_def split: if_splits sum.splits)
  then show ?thesis using assms
    by (intro that [of m])
      (auto simp: create_category_def st_create_category_def list_ex_iff
        split: if_splits sum.splits option.splits)
qed

lemma create_category_failure:
  "create_category request fresh now s = Some (Inl e, t) \<Longrightarrow> t = s"
  using fails_cleanD [OF store_fails_clean(9)]
  by (fastforce simp: create_category_def split: if_splits sum.splits option.splits)

lemma update_category_success:
  assumes "update_category request now s = Some (Inr c, t)"
  obtains m c0 where "at_user_id (uc_actor request) \<noteq> []"
    and "member_at s (uc_book_id request) (at_user_id (uc_actor request)) = Some m"
    and "is_manager (bm_role m)"
    and "category_by_id (uc_book_id request) (uc_category_id request) s = Inr c0"
    and "c = (patch_category c0 request)\<lparr>ct_updated_at := now\<rparr>"
    and "validate_category_fields (uc_book_id request) (uc_category_id request) (ct_parent_id c)
          (ct_name c) (ct_direction c) (ct_raw_source_name c) s = Some (Inr ())"
    and "st_update_category c s = (Inr c, t)"
proof -
  from assms obtain m where m: "st_member (uc_book_id request) (at_user_id (uc_actor request)) s = Inr m"
    by (auto simp: update_category_def split: if_splits sum.splits)
  from assms obtain c0 where c0: "category_by_id (uc_book_id request) (uc_category_id request) s = Inr c0"
    by (auto simp: update_category_def split: if_splits sum.splits)
  have st: "st_update_category x s = (Inr y, t) \<Longrightarrow> y = x" for x y
    by (auto simp: st_update_category_def split: option.splits)
  show ?thesis using assms m c0
    by (intro that [of m c0])
      (auto simp: update_category_def Let_def split: if_splits sum.splits option.splits dest: st)
qed

lemma update_category_failure:
  "update_category request now s = Some (Inl e, t) \<Longrightarrow> t = s"
  using fails_cleanD [OF store_fails_clean(10)]
  by (fastforce simp: update_category_def Let_def split: if_splits sum.splits option.splits)

lemma category_handlers_return:
  assumes "store_ok s" and "tree_ok s"
  shows "create_category request fresh now s \<noteq> None" and "update_category ucr now s \<noteq> None"
proof -
  have v: "validate_category_fields b c p name dir raw s = None \<longleftrightarrow> False" for b c p name dir raw
    using validate_returns [OF assms] by simp
  show "create_category request fresh now s \<noteq> None"
    by (auto simp: create_category_def validate_create_category_request_def v
        split: sum.splits option.splits)
  show "update_category ucr now s \<noteq> None"
    by (auto simp: update_category_def Let_def v split: sum.splits option.splits)
qed

section \<open>The tree stays a forest\<close>

lemma climb_put:
  assumes tree: "tree_ok s"
    and put: "\<And>b a. parent_in t b a = (if b = bk \<and> a = x then p else parent_in s b a)"
    and avoid: "p = [] \<or> meets_ancestor (parent_in s bk) x p = Some False"
  shows "\<exists>n. climb (parent_in t b) n a"
proof (cases "b = bk")
  case False
  then have "parent_in t b = parent_in s b" using put by (simp add: fun_eq_iff)
  then show ?thesis using tree_okD(3) [OF tree] by simp
next
  case True
  have same: "parent_in t bk y = parent_in s bk y" if "y \<noteq> x" for y using that put by simp
  have "\<exists>k. climb (parent_in t bk) k p"
  proof (cases "p = []")
    case True
    then have "climb (parent_in t bk) 0 p" by simp
    then show ?thesis ..
  next
    case False
    then show ?thesis using avoids_keeps_climb avoid tree_okD(3) [OF tree] same by metis
  qed
  then obtain k where "climb (parent_in t bk) k (parent_in t bk x)" using put by auto
  then show ?thesis using climb_reparented tree_okD(3) [OF tree] same True by metis
qed

lemma parent_in_trimmed: "trim_space (parent_in s b y) = parent_in s b y"
  by (simp add: parent_in_def split: option.splits)

lemma parent_in_exists:
  assumes "tree_ok s"
  shows "parent_in s b y = [] \<or> parent_in s b y \<in> ct_id ` set (ms_categories s)"
proof (cases "find (\<lambda>c. ct_id c = y) (filter (\<lambda>c. ct_book_id c = b) (ms_categories s))")
  case (Some c)
  then have "c \<in> set (filter (\<lambda>c. ct_book_id c = b) (ms_categories s))"
    by (metis find_Some_iff nth_mem)
  then have "trim_space (ct_parent_id c) = [] \<or> trim_space (ct_parent_id c) \<in> ct_id ` set (ms_categories s)"
    using tree_okD(2) [OF assms, of c] by (metis filter_is_subset image_eqI subsetD)
  then show ?thesis using Some by (simp add: parent_in_def)
qed (simp add: parent_in_def)

lemma parent_in_create:
  assumes "ct_id c \<notin> ct_id ` set (ms_categories s)"
  shows "parent_in (s\<lparr>ms_categories := ms_categories s @ [c]\<rparr>) b a =
    (if b = ct_book_id c \<and> a = ct_id c then trim_space (ct_parent_id c) else parent_in s b a)"
proof -
  have "find (\<lambda>d. ct_id d = ct_id c) (filter (\<lambda>d. ct_book_id d = b) (ms_categories s)) = None"
    using assms by (auto simp: find_None_iff image_iff)
  then show ?thesis by (auto simp: parent_in_def find_append split: option.splits)
qed

lemma create_category_tree:
  assumes ok: "store_ok s" "tree_ok s" "members_have_books s"
    and run: "create_category request fresh now s = Some (r, t)"
  shows "tree_ok t"
proof (cases r)
  case (Inl e)
  then show ?thesis using run create_category_failure ok by metis
next
  case (Inr c)
  with run have "create_category request fresh now s = Some (Inr c, t)" by simp
  then obtain m where m: "member_at s (cc_book_id request) (at_user_id (cc_actor request)) = Some m"
    and v: "validate_create_category_request request s = Some (Inr ())"
    and c: "c = \<lparr>ct_id = fresh, ct_book_id = cc_book_id request,
           ct_parent_id = trim_space (cc_parent_id request),
           ct_name = trim_space (cc_name request), ct_direction = cc_direction request,
           ct_sort_order = cc_sort_order request, ct_archived = False,
           ct_raw_source_name = trim_space (cc_raw_source_name request),
           ct_created_at = now, ct_updated_at = now\<rparr>"
    and new: "ct_id c \<notin> ct_id ` set (ms_categories s)"
    and t: "t = s\<lparr>ms_categories := ms_categories s @ [c]\<rparr>"
    by (rule create_category_success)
  let ?p = "trim_space (cc_parent_id request)"
  note acc = validate_accepts [OF ok(1) v [unfolded validate_create_category_request_def]]
  have book: "book_at s (cc_book_id request) \<noteq> None" using m ok members_have_books_iff by blast
  have parent: "?p = [] \<or> (\<exists>x \<in> set (ms_categories s). ct_book_id x = ct_book_id c \<and> ct_id x = ?p)"
    using acc(4) by (auto simp: c)
  have unused: "parent_in s b y \<noteq> fresh \<or> fresh = []" for b y
    using parent_in_exists [OF ok(2), of b y] new by (auto simp: c)
  have "?p \<noteq> fresh \<or> fresh = []" using parent new by (auto simp: c image_iff)
  then have avoid: "meets_ancestor (parent_in s (cc_book_id request)) fresh ?p = Some False"
    using tree_okD(3) [OF ok(2)] unused never_met by metis
  have put: "parent_in t b a = (if b = cc_book_id request \<and> a = fresh then ?p else parent_in s b a)" for b a
    using parent_in_create [OF new, of b a] by (simp add: t c)
  have "\<exists>n. climb (parent_in t b) n a" for b a
    by (rule climb_put [OF ok(2) put]) (simp add: avoid)
  moreover have "\<forall>d \<in> set (ms_categories t). book_at t (ct_book_id d) \<noteq> None"
    using tree_okD(1) [OF ok(2)] book by (auto simp: t c)
  moreover have "\<forall>d \<in> set (ms_categories t). trim_space (ct_parent_id d) = [] \<or>
      (\<exists>x \<in> set (ms_categories t). ct_book_id x = ct_book_id d \<and> ct_id x = trim_space (ct_parent_id d))"
    using tree_okD(2) [OF ok(2)] parent by (auto simp: t c)
  ultimately show ?thesis by (simp add: tree_ok_def)
qed

lemma category_by_id_Some:
  assumes "store_ok s"
  shows "category_by_id b i s = Inr c \<longleftrightarrow> c \<in> set (ms_categories s) \<and> ct_book_id c = b \<and> ct_id c = i"
proof -
  have d: "distinct (map ct_id (ms_categories s))" using assms by (simp add: store_ok_def)
  have "category_by_id b i s = Inr c \<longleftrightarrow> find (\<lambda>c. ct_id c = i)
      (sort_func (cmp_listing ct_sort_order ct_id) (filter (\<lambda>c. ct_book_id c = b) (ms_categories s))) = Some c"
    by (simp add: category_by_id_def st_categories_def split: option.splits)
  then show ?thesis by (simp only: find_listed [OF d])
qed

lemma patch_category_keeps [simp]:
  "ct_id (patch_category c request) = ct_id c" "ct_book_id (patch_category c request) = ct_book_id c"
  "ct_created_at (patch_category c request) = ct_created_at c"
  by (simp_all add: patch_category_def Let_def split: option.splits)

lemma parent_in_update:
  assumes d: "distinct (map ct_id (ms_categories s))"
    and c0: "c0 \<in> set (ms_categories s)" "ct_id c0 = ct_id c" "ct_book_id c0 = ct_book_id c"
    and t: "ms_categories t = map (\<lambda>y. if ct_id y = ct_id c then c else y) (ms_categories s)"
  shows "parent_in t b a =
    (if b = ct_book_id c \<and> a = ct_id c then trim_space (ct_parent_id c) else parent_in s b a)"
proof -
  have same: "y = c0" if "y \<in> set (ms_categories s)" "ct_id y = ct_id c" for y
    using that c0 d by (metis distinct_map inj_onD)
  have "find (\<lambda>d. ct_id d = a) (filter (\<lambda>d. ct_book_id d = b) (map (\<lambda>y. if ct_id y = ct_id c then c else y) xs)) =
      (if b = ct_book_id c \<and> a = ct_id c \<and> c0 \<in> set xs then Some c
       else find (\<lambda>d. ct_id d = a) (filter (\<lambda>d. ct_book_id d = b) xs))"
    if "set xs \<subseteq> set (ms_categories s)" for xs
    using that
  proof (induction xs)
    case (Cons x xs)
    then show ?case using same [of x] c0 by (cases "ct_id x = ct_id c") auto
  qed simp
  from this [of "ms_categories s"] show ?thesis using c0(1) by (simp add: parent_in_def t)
qed

lemma update_category_tree:
  assumes ok: "store_ok s" "tree_ok s" and run: "update_category request now s = Some (r, t)"
  shows "tree_ok t"
proof (cases r)
  case (Inl e)
  then show ?thesis using run update_category_failure ok by metis
next
  case (Inr c)
  with run have "update_category request now s = Some (Inr c, t)" by simp
  then obtain m c0 where c0: "category_by_id (uc_book_id request) (uc_category_id request) s = Inr c0"
    and c: "c = (patch_category c0 request)\<lparr>ct_updated_at := now\<rparr>"
    and v: "validate_category_fields (uc_book_id request) (uc_category_id request) (ct_parent_id c)
          (ct_name c) (ct_direction c) (ct_raw_source_name c) s = Some (Inr ())"
    and w: "st_update_category c s = (Inr c, t)"
    by (rule update_category_success)
  have d: "distinct (map ct_id (ms_categories s))" using ok(1) by (simp add: store_ok_def)
  have row: "c0 \<in> set (ms_categories s)" "ct_book_id c0 = uc_book_id request" "ct_id c0 = uc_category_id request"
    using c0 category_by_id_Some [OF ok(1)] by simp_all
  have ids: "ct_id c = uc_category_id request" "ct_book_id c = uc_book_id request"
    using row by (simp_all add: c)
  have rows: "ms_categories t = map (\<lambda>y. if ct_id y = ct_id c then c else y) (ms_categories s)"
    using category_table.update_rows [OF d w] by simp
  have books: "book_at t = book_at s" using w by (auto simp: st_update_category_def split: option.splits)
  let ?p = "trim_space (ct_parent_id c)"
  note acc = validate_accepts [OF ok(1) v]
  have avoid: "?p = [] \<or> meets_ancestor (parent_in s (uc_book_id request)) (ct_id c) ?p = Some False"
  proof (cases "?p = [] \<or> trim_space (ct_id c) = ct_id c")
    case True
    then show ?thesis using acc(4) ids by auto
  next
    case False
    then have "?p \<noteq> ct_id c" "\<And>x. parent_in s (uc_book_id request) x \<noteq> ct_id c"
      using parent_in_trimmed trim_space_idem by metis+
    then show ?thesis using never_met tree_okD(3) [OF ok(2)] by metis
  qed
  have put: "parent_in t b a = (if b = uc_book_id request \<and> a = ct_id c then ?p else parent_in s b a)" for b a
    using parent_in_update [OF d row(1) _ _ rows, of b a] row ids by simp
  have climbs: "\<exists>n. climb (parent_in t b) n a" for b a
    by (rule climb_put [OF ok(2) put]) (rule avoid)
  have kept: "\<exists>z \<in> set (ms_categories t). ct_book_id z = ct_book_id y \<and> ct_id z = ct_id y"
    if "y \<in> set (ms_categories s)" for y
  proof (cases "ct_id y = ct_id c")
    case True
    then have "y = c0" using that row ids d by (metis distinct_map inj_onD)
    then show ?thesis using that True row ids by (auto simp: rows image_iff)
  next
    case False
    then have "y \<in> set (ms_categories t)" using that by (auto simp: rows image_iff)
    then show ?thesis by blast
  qed
  have parent: "?p = [] \<or> (\<exists>x \<in> set (ms_categories s). ct_book_id x = ct_book_id c \<and> ct_id x = ?p)"
    using acc(4) ids by auto
  have from_s: "y = c \<or> y \<in> set (ms_categories s)" if "y \<in> set (ms_categories t)" for y
    using that by (auto simp: rows split: if_splits)
  have "\<forall>y \<in> set (ms_categories t). book_at t (ct_book_id y) \<noteq> None"
    using from_s tree_okD(1) [OF ok(2)] row ids books by metis
  moreover have "\<forall>y \<in> set (ms_categories t). trim_space (ct_parent_id y) = [] \<or>
      (\<exists>x \<in> set (ms_categories t). ct_book_id x = ct_book_id y \<and> ct_id x = trim_space (ct_parent_id y))"
    using from_s tree_okD(2) [OF ok(2)] parent kept by metis
  ultimately show ?thesis using climbs by (simp add: tree_ok_def)
qed

text \<open>A new book with default categories at most two levels deep.\<close>

lemma create_book_tree:
  assumes tree: "tree_ok s" and w: "st_create_book b owner cs s = (Inr x, t)"
    and two: "\<forall>c \<in> set cs. trim_space (ct_parent_id c) = [] \<or>
      (\<exists>p \<in> set cs. ct_id p = trim_space (ct_parent_id c) \<and> trim_space (ct_parent_id p) = [])"
  shows "tree_ok t"
proof -
  note eff = create_book_effect [OF w]
  have cs: "\<forall>c \<in> set cs. ct_book_id c = bk_id b" and d: "distinct (map ct_id cs)"
    using w check_default_categories_ok [of "bk_id b" "ms_categories s" "[]" cs]
    by (auto simp: st_create_book_def split: if_splits sum.splits)
  have old: "\<forall>c \<in> set (ms_categories s). ct_book_id c \<noteq> bk_id b"
    using tree_okD(1) [OF tree] eff(2) by (metis option.distinct(1))
  have other: "parent_in t b' = parent_in s b'" if "b' \<noteq> bk_id b" for b'
  proof -
    have "filter (\<lambda>c. ct_book_id c = b') cs = []" using cs that by (auto simp: filter_empty_conv)
    then show ?thesis by (simp add: fun_eq_iff parent_in_def eff(7))
  qed
  have new: "parent_in t (bk_id b) a =
      (case find (\<lambda>c. ct_id c = a) cs of None \<Rightarrow> [] | Some c \<Rightarrow> trim_space (ct_parent_id c))" for a
  proof -
    have "filter (\<lambda>c. ct_book_id c = bk_id b) (ms_categories s) = []"
      using old by (auto simp: filter_empty_conv)
    moreover have "filter (\<lambda>c. ct_book_id c = bk_id b) cs = cs" using cs by (simp add: filter_id_conv)
    ultimately show ?thesis by (simp add: parent_in_def eff(7))
  qed
  have "climb (parent_in t (bk_id b)) 2 a" for a
  proof (cases "find (\<lambda>c. ct_id c = a) cs")
    case None
    then show ?thesis by (simp add: new numeral_2_eq_2)
  next
    case (Some c)
    then have c: "c \<in> set cs" "ct_id c = a" by (auto simp: find_key_Some_iff [OF d])
    have "parent_in t (bk_id b) (trim_space (ct_parent_id c)) = []"
      if "p \<in> set cs" "ct_id p = trim_space (ct_parent_id c)" "trim_space (ct_parent_id p) = []" for p
      using that find_key_Some_iff [OF d, of "ct_id p" p] by (simp add: new)
    then show ?thesis using two c Some by (auto simp: new numeral_2_eq_2)
  qed
  then have climbs: "\<exists>n. climb (parent_in t b') n a" for b' a
    using other [of b'] tree_okD(3) [OF tree, of b' a] by (cases "b' = bk_id b") auto
  moreover have "\<forall>c \<in> set (ms_categories t). book_at t (ct_book_id c) \<noteq> None"
    using tree_okD(1) [OF tree] cs by (auto simp: eff(4,7))
  moreover have "\<forall>c \<in> set (ms_categories t). trim_space (ct_parent_id c) = [] \<or>
      (\<exists>p \<in> set (ms_categories t). ct_book_id p = ct_book_id c \<and> ct_id p = trim_space (ct_parent_id c))"
    using tree_okD(2) [OF tree] two cs by (auto simp: eff(7))
  ultimately show ?thesis by (simp add: tree_ok_def)
qed

text \<open>Writes that leave categories alone, and never lose a book, keep the trees.\<close>

lemma tree_ok_frame:
  assumes "tree_ok s" and "ms_categories t = ms_categories s"
    and "\<And>b. book_at s b \<noteq> None \<Longrightarrow> book_at t b \<noteq> None"
  shows "tree_ok t"
proof -
  have "parent_in t = parent_in s" using assms(2) by (simp add: parent_in_def fun_eq_iff)
  then show ?thesis using assms by (simp add: tree_ok_def)
qed

end
