(* ===== verification/Encodings.thy ===== *)
theory Encodings
  imports Effects
begin

text \<open>
  Text encodings of bytes that the keys and the passwords are stored in: the unpadded base64 encodings of
  package \<open>encoding/base64\<close> (\<open>RawStdEncoding\<close>, \<open>RawURLEncoding\<close>), \<open>encoding/hex\<close>, decimal numbers as
  \<open>fmt\<close> prints and \<open>strconv.Atoi\<close> reads them, and the functions of package \<open>strings\<close> that cut a string
  at a separator.

  A byte is a \<open>char\<close>. The two alphabets share their theory through the locale \<open>base64_alphabet\<close>.
\<close>

section \<open>Base64\<close>

text \<open>Three bytes are four digits of six bits; one or two bytes at the end are two or three digits.\<close>

fun sextets :: "nat list \<Rightarrow> nat list" where
  "sextets [] = []"
| "sextets [x] = [x div 4, x mod 4 * 16]"
| "sextets [x, y] = [x div 4, x mod 4 * 16 + y div 16, y mod 16 * 4]"
| "sextets (x # y # z # rest) =
     [x div 4, x mod 4 * 16 + y div 16, y mod 16 * 4 + z div 64, z mod 64] @ sextets rest"

text \<open>Reading digits back; the unused bits of the last one are not looked at, one digit alone is an error.\<close>

fun octets :: "nat list \<Rightarrow> nat list option" where
  "octets [] = Some []"
| "octets [a] = None"
| "octets [a, b] = Some [a * 4 + b div 16]"
| "octets [a, b, c] = Some [a * 4 + b div 16, b mod 16 * 16 + c div 4]"
| "octets (a # b # c # d # rest) =
     map_option (append [a * 4 + b div 16, b mod 16 * 16 + c div 4, c mod 4 * 64 + d]) (octets rest)"

definition encode_to_string :: "string \<Rightarrow> string \<Rightarrow> string" where
  "encode_to_string alphabet bytes = map ((!) alphabet) (sextets (map of_char bytes))"

text \<open>The decoder skips line ends wherever they are, and fails on every other character that is no digit.\<close>

definition decode_string :: "string \<Rightarrow> string \<Rightarrow> string option" where
  "decode_string alphabet s =
     Option.bind (those (map (\<lambda>c. index_func (\<lambda>a. a = c) alphabet)
         (filter (\<lambda>c. c \<noteq> CHR 0x0A \<and> c \<noteq> CHR 0x0D) s)))
       (\<lambda>digits. map_option (map char_of) (octets digits))"

definition std_alphabet :: string where
  "std_alphabet = ''ABCDEFGHIJKLMNOPQRSTUVWXYZabcdefghijklmnopqrstuvwxyz0123456789+/''"

definition url_alphabet :: string where
  "url_alphabet = ''ABCDEFGHIJKLMNOPQRSTUVWXYZabcdefghijklmnopqrstuvwxyz0123456789-_''"

lemma pack_digits:
  fixes p q k :: nat
  assumes "q < k"
  shows "(p * k + q) div k = p" and "(p * k + q) mod k = q"
  using assms by simp_all

lemma byte_digits:
  fixes x :: nat
  assumes "x < 256"
  shows "x div 4 < 64" and "x div 16 < 16" and "x div 64 < 4"
  using assms by (simp_all add: less_mult_imp_div_less)

lemma mixed_digits:
  fixes x y :: nat
  assumes "y < 256"
  shows "x mod 4 * 16 + y div 16 < 64" and "x mod 16 * 4 + y div 64 < 64"
    and "x mod 4 * 16 < 64" and "x mod 16 * 4 < 64"
  using byte_digits(2,3) [OF assms] mod_less_divisor [of 4 x] mod_less_divisor [of 16 x] by linarith+

lemma sextets_bound: "list_all (\<lambda>x. x < 256) xs \<Longrightarrow> list_all (\<lambda>d. d < 64) (sextets xs)"
  by (induction xs rule: sextets.induct) (simp_all add: byte_digits mixed_digits)

lemma octets_sextets: "list_all (\<lambda>x. x < 256) xs \<Longrightarrow> octets (sextets xs) = Some xs"
proof (induction xs rule: sextets.induct)
  case (3 x y)
  then show ?case by (simp add: byte_digits pack_digits)
next
  case (4 x y z rest)
  then show ?case by (simp add: byte_digits pack_digits)
qed (simp_all add: byte_digits)

lemma length_sextets_le: "length xs \<le> length (sextets xs)"
  by (induction xs rule: sextets.induct) simp_all

lemma sextets_Nil_iff [simp]: "sextets xs = [] \<longleftrightarrow> xs = []"
  using length_sextets_le [of xs] by (cases xs) auto

lemma index_func_nth: "distinct xs \<Longrightarrow> i < length xs \<Longrightarrow> index_func (\<lambda>a. a = xs ! i) xs = Some i"
proof (induction xs arbitrary: i)
  case (Cons x xs)
  then show ?case by (cases i) auto
qed simp

lemma those_map_Some: "(\<And>x. x \<in> set xs \<Longrightarrow> f x = Some (g x)) \<Longrightarrow> those (map f xs) = Some (map g xs)"
  by (induction xs) auto

locale base64_alphabet =
  fixes alphabet :: string
  assumes distinct_alphabet: "distinct alphabet"
    and length_alphabet: "length alphabet = 64"
    and no_line_ends: "CHR 0x0A \<notin> set alphabet" "CHR 0x0D \<notin> set alphabet"
begin

lemma digits_of_encoding:
  assumes "list_all (\<lambda>d. d < 64) digits"
  shows "those (map (\<lambda>c. index_func (\<lambda>a. a = c) alphabet)
      (filter (\<lambda>c. c \<noteq> CHR 0x0A \<and> c \<noteq> CHR 0x0D) (map ((!) alphabet) digits))) = Some digits"
proof -
  have "alphabet ! d \<noteq> CHR 0x0A \<and> alphabet ! d \<noteq> CHR 0x0D" if "d \<in> set digits" for d
    using that assms no_line_ends length_alphabet by (metis list_all_iff nth_mem)
  then have keep: "filter (\<lambda>c. c \<noteq> CHR 0x0A \<and> c \<noteq> CHR 0x0D) (map ((!) alphabet) digits) = map ((!) alphabet) digits"
    by (auto simp: filter_id_conv)
  have "those (map ((\<lambda>c. index_func (\<lambda>a. a = c) alphabet) \<circ> (!) alphabet) digits) = Some (map (\<lambda>d. d) digits)"
    using assms by (intro those_map_Some)
      (simp add: index_func_nth distinct_alphabet length_alphabet list_all_iff)
  then show ?thesis by (simp add: keep)
qed

lemma decode_encode: "decode_string alphabet (encode_to_string alphabet bytes) = Some bytes"
proof -
  have bytes: "list_all (\<lambda>x. x < 256) (map of_char bytes :: nat list)" by (simp add: list_all_iff)
  show ?thesis
    by (simp add: decode_string_def encode_to_string_def digits_of_encoding [OF sextets_bound [OF bytes]]
        octets_sextets [OF bytes] comp_def)
qed

lemma encode_chars: "set (encode_to_string alphabet bytes) \<subseteq> set alphabet"
proof -
  have "list_all (\<lambda>x. x < 256) (map of_char bytes :: nat list)" by (simp add: list_all_iff)
  from sextets_bound [OF this] show ?thesis
    by (auto simp: encode_to_string_def list_all_iff length_alphabet)
qed

lemma encode_Nil_iff: "encode_to_string alphabet bytes = [] \<longleftrightarrow> bytes = []"
  by (simp add: encode_to_string_def)

end

interpretation std: base64_alphabet std_alphabet
  by unfold_locales (simp_all add: std_alphabet_def)

interpretation url: base64_alphabet url_alphabet
  by unfold_locales (simp_all add: url_alphabet_def)

section \<open>Case outside ASCII\<close>

text \<open>
  \<open>strings.ToLower\<close> and \<open>strings.EqualFold\<close> on ASCII strings; on others \<open>other\<close> stands for the Unicode
  tables.
\<close>

definition is_ascii :: "string \<Rightarrow> bool" where
  "is_ascii s \<longleftrightarrow> list_all (\<lambda>c. (of_char c :: nat) < 128) s"

definition to_lower_with :: "(string \<Rightarrow> string) \<Rightarrow> string \<Rightarrow> string" where
  "to_lower_with other s = (if is_ascii s then to_lower s else other s)"

definition equal_fold :: "(string \<Rightarrow> string \<Rightarrow> bool) \<Rightarrow> string \<Rightarrow> string \<Rightarrow> bool" where
  "equal_fold other a b = (if is_ascii a \<and> is_ascii b then to_lower a = to_lower b else other a b)"

section \<open>Hexadecimal digits\<close>

definition hex_digit :: "nat \<Rightarrow> char" where
  "hex_digit n = ''0123456789abcdef'' ! n"

definition hex_encode :: "string \<Rightarrow> string" where
  "hex_encode bytes = concat (map (\<lambda>b. [hex_digit (of_char b div 16), hex_digit (of_char b mod 16)]) bytes)"

lemma length_hex_encode [simp]: "length (hex_encode bytes) = 2 * length bytes"
  by (induction bytes) (simp_all add: hex_encode_def)

lemma hex_encode_chars: "set (hex_encode bytes) \<subseteq> set ''0123456789abcdef''"
proof -
  have "hex_digit n \<in> set ''0123456789abcdef''" if "n < 16" for n
    unfolding hex_digit_def using that by (intro nth_mem) simp
  then have "hex_digit (of_char b div 16) \<in> set ''0123456789abcdef''"
    "hex_digit (of_char b mod 16) \<in> set ''0123456789abcdef''" for b
    by (auto simp: less_mult_imp_div_less)
  then show ?thesis by (auto simp: hex_encode_def)
qed

section \<open>Cutting strings\<close>

text \<open>\<open>strings.Cut\<close> and \<open>strings.Split\<close> for a separator of one byte, \<open>strings.SplitN(s, sep, 2)\<close>.\<close>

definition cut :: "char \<Rightarrow> string \<Rightarrow> (string \<times> string) option" where
  "cut sep s = (case dropWhile (\<lambda>c. c \<noteq> sep) s of
      [] \<Rightarrow> None | _ # after \<Rightarrow> Some (takeWhile (\<lambda>c. c \<noteq> sep) s, after))"

definition split_n2 :: "char \<Rightarrow> string \<Rightarrow> string list" where
  "split_n2 sep s = (case cut sep s of None \<Rightarrow> [s] | Some (a, b) \<Rightarrow> [a, b])"

fun split_at :: "char \<Rightarrow> string \<Rightarrow> string list" where
  "split_at sep [] = [[]]"
| "split_at sep (c # cs) =
     (if c = sep then [] # split_at sep cs
      else (case split_at sep cs of [] \<Rightarrow> [[c]] | w # ws \<Rightarrow> (c # w) # ws))"

lemma split_at_not_Nil [simp]: "split_at sep s \<noteq> []"
  by (induction s) (auto split: list.splits)

lemma split_at_plain: "sep \<notin> set s \<Longrightarrow> split_at sep s = [s]"
  by (induction s) auto

lemma split_at_append: "sep \<notin> set s \<Longrightarrow> split_at sep (s @ sep # t) = s # split_at sep t"
  by (induction s) (auto split: list.splits)

text \<open>\<open>strings.Join\<close>.\<close>

fun join_with :: "string \<Rightarrow> string list \<Rightarrow> string" where
  "join_with sep [] = []"
| "join_with sep [s] = s"
| "join_with sep (s # t # rest) = s @ sep @ join_with sep (t # rest)"

lemma split_join: "ss \<noteq> [] \<Longrightarrow> list_all (\<lambda>s. sep \<notin> set s) ss \<Longrightarrow> split_at sep (join_with [sep] ss) = ss"
  by (induction "[sep]" ss rule: join_with.induct) (simp_all add: split_at_plain split_at_append)

lemma cut_append: "sep \<notin> set s \<Longrightarrow> cut sep (s @ sep # t) = Some (s, t)"
proof -
  assume s: "sep \<notin> set s"
  have "takeWhile (\<lambda>c. c \<noteq> sep) (s @ sep # t) = s" using s by (subst takeWhile_append2) auto
  moreover have "dropWhile (\<lambda>c. c \<noteq> sep) (s @ sep # t) = sep # t" using s by (subst dropWhile_append2) auto
  ultimately show ?thesis by (simp add: cut_def)
qed

definition has_prefix :: "string \<Rightarrow> string \<Rightarrow> bool" where
  "has_prefix s p \<longleftrightarrow> take (length p) s = p"

definition trim_prefix :: "string \<Rightarrow> string \<Rightarrow> string" where
  "trim_prefix s p = (if has_prefix s p then drop (length p) s else s)"

lemma has_prefix_append [simp]: "has_prefix (p @ s) p"
  by (simp add: has_prefix_def)

lemma trim_prefix_append [simp]: "trim_prefix (p @ s) p = s"
  by (simp add: trim_prefix_def)

section \<open>Decimal numbers\<close>

text \<open>\<open>%d\<close> of a number that is not negative.\<close>

fun print_nat :: "nat \<Rightarrow> string" where
  "print_nat n = (if n < 10 then [char_of (48 + n)] else print_nat (n div 10) @ [char_of (48 + n mod 10)])"

declare print_nat.simps [simp del]

text \<open>Zeros in front up to a width, as of \<open>%06d\<close>.\<close>

definition pad_zeros :: "nat \<Rightarrow> string \<Rightarrow> string" where
  "pad_zeros k s = replicate (k - length s) (CHR ''0'') @ s"

fun read_digits :: "nat \<Rightarrow> string \<Rightarrow> nat option" where
  "read_digits acc [] = Some acc"
| "read_digits acc (c # cs) = (if is_digit c then read_digits (10 * acc + (of_char c - 48)) cs else None)"

text \<open>\<open>strconv.Atoi\<close>: an optional sign, at least one digit, and the value in the range of an int.\<close>

definition atoi :: "string \<Rightarrow> int option" where
  "atoi s =
     (let sign = (case s of c # _ \<Rightarrow> c = CHR ''-'' | [] \<Rightarrow> False);
          digits = (case s of c # cs \<Rightarrow> if c = CHR ''-'' \<or> c = CHR ''+'' then cs else s | [] \<Rightarrow> [])
      in if digits = [] then None
         else Option.bind (read_digits 0 digits) (\<lambda>n.
           (let v = (if sign then - int n else int n) in if in_int64 v then Some v else None)))"

lemma read_digits_append:
  "read_digits acc (s @ t) = Option.bind (read_digits acc s) (\<lambda>a. read_digits a t)"
  by (induction acc s rule: read_digits.induct) auto

lemma printed_digit: "n < 10 \<Longrightarrow> is_digit (char_of (48 + n :: nat)) \<and> (of_char (char_of (48 + n) :: char) :: nat) = 48 + n"
  by (simp add: is_digit_def of_char_of)

lemma read_print: "read_digits 0 (print_nat n) = Some n"
proof (induction n rule: print_nat.induct)
  case (1 n)
  show ?case
  proof (cases "n < 10")
    case True
    then show ?thesis using printed_digit [of n] by (simp add: print_nat.simps [of n])
  next
    case False
    moreover have "10 * (n div 10) + n mod 10 = n" by simp
    ultimately show ?thesis using 1 printed_digit [of "n mod 10"]
      by (simp add: print_nat.simps [of n] read_digits_append)
  qed
qed

lemma print_nat_digits: "print_nat n \<noteq> [] \<and> list_all is_digit (print_nat n)"
proof (induction n rule: print_nat.induct)
  case (1 n)
  then show ?case using printed_digit [of n] printed_digit [of "n mod 10"]
    by (cases "n < 10") (simp_all add: print_nat.simps [of n])
qed

lemma atoi_print: "int n < 2 ^ 63 \<Longrightarrow> atoi (print_nat n) = Some (int n)"
proof -
  assume small: "int n < 2 ^ 63"
  obtain c cs where cs: "print_nat n = c # cs" and c: "is_digit c"
    using print_nat_digits [of n] by (cases "print_nat n") auto
  have "c \<noteq> CHR ''-''" "c \<noteq> CHR ''+''" using c by (auto simp: is_digit_def)
  then show ?thesis using small read_print [of n] by (simp add: atoi_def cs in_int64_def)
qed

lemma print_nat_no: "\<not> is_digit c \<Longrightarrow> c \<notin> set (print_nat n)"
  using print_nat_digits [of n] by (auto simp: list_all_iff)

end
