(* ===== verification/Rates.thy ===== *)
theory Rates
  imports Money Ledger_Store Encodings
begin

text \<open>
  The exchange-rate table (\<open>ledger/rates.go\<close>, \<open>ExchangeRates\<close> of \<open>ledger/service.go\<close>): its
  normal form, the bootstrap rates, the index the conversions use, and the rates computed from the
  ECB reference rates. The HTTP request and the XML decoding of \<open>FetchExchangeRates\<close> are left out:
  the cubes they deliver are an argument.
\<close>

section \<open>The normal form of a rate table\<close>

fun normalize_rates_from :: "string list \<Rightarrow> exchange_rate list \<Rightarrow> exchange_rate list" where
  "normalize_rates_from seen [] = []"
| "normalize_rates_from seen (rate # rates) =
     (let currency = upper_trim (er_currency rate) in
      if \<not> is_supported_currency currency then normalize_rates_from seen rates
      else if currency \<in> set seen then normalize_rates_from seen rates
      else rate\<lparr>er_currency := currency,
                er_units_per_usd := trim_space (er_units_per_usd rate),
                er_source := trim_space (er_source rate)\<rparr>
           # normalize_rates_from (currency # seen) rates)"

definition normalize_exchange_rates :: "exchange_rate list \<Rightarrow> exchange_rate list" where
  "normalize_exchange_rates rates = clone_exchange_rates (normalize_rates_from [] rates)"

definition default_exchange_rates :: "time \<Rightarrow> exchange_rate list" where
  "default_exchange_rates updated_at = normalize_exchange_rates
     [\<lparr>er_currency = ''USD'', er_units_per_usd = ''1'', er_source = ''bootstrap'', er_updated_at = updated_at\<rparr>,
      \<lparr>er_currency = ''EUR'', er_units_per_usd = ''0.85'', er_source = ''bootstrap'', er_updated_at = updated_at\<rparr>,
      \<lparr>er_currency = ''CNY'', er_units_per_usd = ''7.20'', er_source = ''bootstrap'', er_updated_at = updated_at\<rparr>,
      \<lparr>er_currency = ''CAD'', er_units_per_usd = ''1.36'', er_source = ''bootstrap'', er_updated_at = updated_at\<rparr>]"

lemma normalize_rates_from_currencies:
  "set (map er_currency (normalize_rates_from seen rates)) =
     {c. is_supported_currency c \<and> c \<notin> set seen \<and> c \<in> upper_trim ` er_currency ` set rates}"
  "distinct (map er_currency (normalize_rates_from seen rates))"
  by (induction seen rates rule: normalize_rates_from.induct) (auto simp: Let_def)

lemma normalize_rates_from_id:
  "list_all (\<lambda>r. er_currency r \<in> set supported_currencies \<and>
      trim_space (er_units_per_usd r) = er_units_per_usd r \<and> trim_space (er_source r) = er_source r) rates \<Longrightarrow>
   distinct (map er_currency rates) \<Longrightarrow> set seen \<inter> er_currency ` set rates = {} \<Longrightarrow>
   normalize_rates_from seen rates = rates"
  by (induction seen rates rule: normalize_rates_from.induct)
    (auto simp: Let_def upper_trim_supported)

lemma mset_clone_exchange_rates [simp]: "mset (clone_exchange_rates rates) = mset rates"
  by (simp add: clone_exchange_rates_def)

lemma set_clone_exchange_rates [simp]: "set (clone_exchange_rates rates) = set rates"
  by (simp add: clone_exchange_rates_def)

lemma normalize_exchange_rates_sorted:
  "sorted (map er_currency (normalize_exchange_rates rates)) \<and>
   distinct (map er_currency (normalize_exchange_rates rates))"
proof -
  have "distinct (map er_currency (clone_exchange_rates (normalize_rates_from [] rates)))"
    using normalize_rates_from_currencies(2) [of "[]" rates] by (simp add: clone_exchange_rates_def)
  then show ?thesis by (simp add: normalize_exchange_rates_def clone_exchange_rates_key)
qed

text \<open>The entry kept for a currency is the first one of the input that normalises to it.\<close>

lemma normalize_rates_from_first:
  "find (\<lambda>r. er_currency r = c) (normalize_rates_from seen rates) =
     (if is_supported_currency c \<and> c \<notin> set seen
      then map_option (\<lambda>r. r\<lparr>er_currency := c, er_units_per_usd := trim_space (er_units_per_usd r),
               er_source := trim_space (er_source r)\<rparr>)
             (find (\<lambda>r. upper_trim (er_currency r) = c) rates)
      else None)"
  by (induction seen rates rule: normalize_rates_from.induct) (auto simp: Let_def)

lemma normalize_exchange_rates_first:
  "find (\<lambda>r. er_currency r = c) (normalize_exchange_rates rates) =
     (if is_supported_currency c
      then map_option (\<lambda>r. r\<lparr>er_currency := c, er_units_per_usd := trim_space (er_units_per_usd r),
               er_source := trim_space (er_source r)\<rparr>)
             (find (\<lambda>r. upper_trim (er_currency r) = c) rates)
      else None)"
proof -
  have d: "distinct (map er_currency (normalize_rates_from [] rates))"
    by (rule normalize_rates_from_currencies(2))
  show ?thesis
    using find_sort_func [OF d, of c] normalize_rates_from_first [of c "[]" rates]
    by (simp add: normalize_exchange_rates_def clone_exchange_rates_def)
qed

lemma normalize_rates_from_normal:
  "list_all (\<lambda>r. er_currency r \<in> set supported_currencies \<and>
      trim_space (er_units_per_usd r) = er_units_per_usd r \<and> trim_space (er_source r) = er_source r)
     (normalize_rates_from seen rates)"
  by (induction seen rates rule: normalize_rates_from.induct)
    (auto simp: Let_def is_supported_currency_def)

lemma normalize_exchange_rates_idem [simp]:
  "normalize_exchange_rates (normalize_exchange_rates rates) = normalize_exchange_rates rates"
proof -
  let ?n = "normalize_exchange_rates rates"
  have "list_all (\<lambda>r. er_currency r \<in> set supported_currencies \<and>
      trim_space (er_units_per_usd r) = er_units_per_usd r \<and> trim_space (er_source r) = er_source r) ?n"
    using normalize_rates_from_normal [of "[]" rates]
    by (simp add: normalize_exchange_rates_def list_all_iff)
  then have "normalize_rates_from [] ?n = ?n"
    using normalize_exchange_rates_sorted [of rates] by (intro normalize_rates_from_id) simp_all
  then show ?thesis by (simp add: normalize_exchange_rates_def [of ?n])
    (simp add: normalize_exchange_rates_def)
qed

section \<open>The index of the conversions\<close>

fun index_rates ::
    "(string \<Rightarrow> rat option) \<Rightarrow> exchange_rate list \<Rightarrow> (string \<rightharpoonup> rat) \<Rightarrow> ledger_error + (string \<rightharpoonup> rat)" where
  "index_rates other [] index = Inr index"
| "index_rates other (rate # rates) index =
     (case rat_set_string other (er_units_per_usd rate) of
        None \<Rightarrow> Inl (ErrInvalidInput ''exchange rate is invalid'')
      | Some parsed \<Rightarrow>
          if parsed \<le> 0 then Inl (ErrInvalidInput ''exchange rate is invalid'')
          else index_rates other rates (index(er_currency rate \<mapsto> parsed)))"

definition exchange_rate_index ::
    "(string \<Rightarrow> rat option) \<Rightarrow> time \<Rightarrow> memory_store \<Rightarrow> ledger_error + (string \<rightharpoonup> rat)" where
  "exchange_rate_index other now s =
     rbind (st_exchange_rates s) (\<lambda>rates.
     rbind (index_rates other
       (normalize_exchange_rates (if rates = [] then default_exchange_rates now else rates)) Map.empty)
       (\<lambda>index.
         if list_all (\<lambda>currency. index currency \<noteq> None) supported_currencies then Inr index
         else Inl (ErrInvalidInput ''exchange rate is missing'')))"

definition exchange_rates :: "time \<Rightarrow> memory_store \<Rightarrow> ledger_error + exchange_rate list" where
  "exchange_rates now s =
     rbind (st_exchange_rates s) (\<lambda>rates.
       if rates = [] then Inr (default_exchange_rates now) else Inr (normalize_exchange_rates rates))"

text \<open>The fetcher may be nil; otherwise its answer decides.\<close>

definition refresh_exchange_rates ::
    "(ledger_error + exchange_rate list) option \<Rightarrow> (memory_store, ledger_error, unit) act" where
  "refresh_exchange_rates fetcher s =
     (case fetcher of
        None \<Rightarrow> (Inl (ErrOther ''exchange rate fetcher is nil''), s)
      | Some (Inl e) \<Rightarrow> (Inl e, s)
      | Some (Inr rates) \<Rightarrow> st_replace_exchange_rates (normalize_exchange_rates rates) s)"

text \<open>One tick of the daily updater: the failure is only logged.\<close>

definition refresh_for_schedule ::
    "(ledger_error + exchange_rate list) option \<Rightarrow> memory_store \<Rightarrow> memory_store" where
  "refresh_for_schedule fetcher s = snd (refresh_exchange_rates fetcher s)"

lemma index_rates_pos:
  "index_rates other rates index = Inr result \<Longrightarrow> \<forall>c r. index c = Some r \<longrightarrow> 0 < r \<Longrightarrow>
   result c = Some r \<Longrightarrow> 0 < r"
  by (induction other rates index rule: index_rates.induct) (auto split: option.splits if_splits)

lemma exchange_rate_index_total: "exchange_rate_index other now s = Inr index \<Longrightarrow> rates_total index"
  by (auto simp: exchange_rate_index_def rbind_Inr_iff rates_total_def list_all_iff
      dest!: index_rates_pos split: if_splits option.splits)

lemma refresh_fails_clean: "fails_clean (refresh_exchange_rates fetcher)"
  by (auto simp: fails_clean_def refresh_exchange_rates_def st_replace_exchange_rates_def
      split: option.splits sum.splits)

section \<open>Printing a rational: FloatString\<close>

text \<open>
  \<open>FloatString(prec)\<close> of \<open>big.Rat\<close>, for a positive \<open>prec\<close>: the value in decimal with \<open>prec\<close> digits
  after the point, the last one rounded to nearest, halves away from zero.
\<close>

definition float_string :: "nat \<Rightarrow> rat \<Rightarrow> string" where
  "float_string prec v =
     (let n = nat (round_away (\<bar>v\<bar> * 10 ^ prec))
      in (if v < 0 then ''-'' else []) @ print_nat (n div 10 ^ prec) @ ''.'' @
         pad_zeros prec (print_nat (n mod 10 ^ prec)))"

lemma digit_char [simp]:
  assumes "n < 10"
  shows "is_digit (char_of (48 + n))" and "digit_value (char_of (48 + n)) = n"
  using assms by (simp_all add: is_digit_def digit_value_def)

lemma digits_value_snoc [simp]: "digits_value (ds @ [d]) = 10 * digits_value ds + digit_value d"
  by (simp add: digits_value_def)

lemma digits_value_append:
  "digits_value (a @ b) = digits_value a * 10 ^ length b + digits_value b"
  by (induction b rule: rev_induct) (simp_all add: digits_value_def [of "[]"] flip: append_assoc)

lemma print_nat_value: "list_all is_digit (print_nat n) \<and> print_nat n \<noteq> [] \<and> digits_value (print_nat n) = n"
proof (induction n rule: print_nat.induct)
  case (1 n)
  show ?case
  proof (cases "n < 10")
    case True
    then show ?thesis by (simp add: print_nat.simps [of n] digits_value_def)
  next
    case False
    then show ?thesis using "1.IH" by (simp add: print_nat.simps [of n])
  qed
qed

lemma length_print_nat: "n < 10 ^ Suc k \<Longrightarrow> length (print_nat n) \<le> Suc k"
proof (induction k arbitrary: n)
  case 0
  then show ?case by (simp add: print_nat.simps)
next
  case (Suc k)
  show ?case
  proof (cases "n < 10")
    case False
    have "n div 10 < 10 ^ Suc k" using Suc.prems by (simp add: less_mult_imp_div_less)
    then show ?thesis using False Suc.IH [of "n div 10"] by (simp add: print_nat.simps [of n])
  qed (simp add: print_nat.simps [of n])
qed

lemma pad_zeros_digits:
  "list_all is_digit s \<Longrightarrow> list_all is_digit (pad_zeros k s)"
  "digits_value (pad_zeros k s) = digits_value s"
  "length s \<le> k \<Longrightarrow> length (pad_zeros k s) = k"
proof -
  have "digits_value (replicate j (CHR ''0'')) = 0" for j
    by (induction j) (simp_all add: digits_value_def digit_value_def)
  then show "digits_value (pad_zeros k s) = digits_value s"
    by (simp add: pad_zeros_def digits_value_append)
qed (auto simp add: pad_zeros_def is_digit_def list_all_iff)

text \<open>What \<open>FloatString\<close> prints, \<open>SetString\<close> reads back as the value rounded to \<open>prec\<close> digits.\<close>

lemma float_string_decimal:
  assumes "0 \<le> v" and "0 < prec"
  shows "is_decimal (float_string prec v)"
    and "decimal_value (float_string prec v) = of_int (round_away (v * 10 ^ prec)) / 10 ^ prec"
proof -
  define n where "n = nat (round_away (v * 10 ^ prec))"
  define ds where "ds = print_nat (n div 10 ^ prec)"
  define fs where "fs = pad_zeros prec (print_nat (n mod 10 ^ prec))"
  have f: "float_string prec v = ds @ CHR ''.'' # fs"
    using assms by (simp add: float_string_def n_def ds_def fs_def Let_def)
  have d: "list_all is_digit ds" "ds \<noteq> []" "digits_value ds = n div 10 ^ prec"
    using print_nat_value [of "n div 10 ^ prec"] by (simp_all add: ds_def)
  have "n mod 10 ^ prec < 10 ^ Suc (prec - 1)" using assms by simp
  then have l: "length fs = prec"
    unfolding fs_def using assms by (intro pad_zeros_digits(3)) (metis Suc_pred' length_print_nat)
  have fd: "list_all is_digit fs" "digits_value fs = n mod 10 ^ prec"
    using print_nat_value [of "n mod 10 ^ prec"] by (simp_all add: fs_def pad_zeros_digits)
  have "fs \<noteq> []" using l assms by auto
  with d fd show "is_decimal (float_string prec v)" unfolding f is_decimal_iff by blast
  have "digits_value (ds @ fs) = n"
    unfolding digits_value_append d(3) fd(2) l by (rule div_mult_mod_eq)
  moreover have "of_nat n = (of_int (round_away (v * 10 ^ prec)) :: rat)"
    using assms round_away_sign(1) [of "v * 10 ^ prec"] by (simp add: n_def)
  ultimately show "decimal_value (float_string prec v) = of_int (round_away (v * 10 ^ prec)) / 10 ^ prec"
    unfolding f decimal_value_point [OF d(1)] by (simp add: l)
qed

section \<open>The rates of the ECB\<close>

record ecb_rate_cube =
  cube_currency :: string
  cube_rate :: string

text \<open>The loop over the cubes: euro rates by currency, later cubes override earlier ones.\<close>

fun euro_rates_from ::
    "(string \<Rightarrow> rat option) \<Rightarrow> ecb_rate_cube list \<Rightarrow> (string \<rightharpoonup> rat) \<Rightarrow> ledger_error + (string \<rightharpoonup> rat)" where
  "euro_rates_from other [] rates = Inr rates"
| "euro_rates_from other (cube # cubes) rates =
     (let currency = upper_trim (cube_currency cube) in
      if currency \<notin> set supported_currencies then euro_rates_from other cubes rates
      else (case rat_set_string other (trim_space (cube_rate cube)) of
          None \<Rightarrow> Inl (ErrInvalidInput ''ecb rate is invalid'')
        | Some rate \<Rightarrow>
            if rate \<le> 0 then Inl (ErrInvalidInput ''ecb rate is invalid'')
            else euro_rates_from other cubes (rates(currency \<mapsto> rate))))"

text \<open>The second loop ranges over the set of supported currencies.\<close>

fun usd_rates_from ::
    "(string \<rightharpoonup> rat) \<Rightarrow> rat \<Rightarrow> time \<Rightarrow> string list \<Rightarrow> ledger_error + exchange_rate list" where
  "usd_rates_from euro usd updated_at [] = Inr []"
| "usd_rates_from euro usd updated_at (currency # currencies) =
     rbind (if currency \<noteq> ''USD''
       then (case euro currency of
           None \<Rightarrow> Inl (ErrInvalidInput ''ecb rate is missing'')
         | Some euro_rate \<Rightarrow> Inr (euro_rate / usd))
       else Inr 1) (\<lambda>units.
     rbind (usd_rates_from euro usd updated_at currencies) (\<lambda>rest.
       Inr (\<lparr>er_currency = currency, er_units_per_usd = float_string 8 units,
             er_source = ''ecb-eurofxref'', er_updated_at = updated_at\<rparr> # rest)))"

definition rates_from_ecb_cubes ::
    "(string \<Rightarrow> rat option) \<Rightarrow> ecb_rate_cube list \<Rightarrow> time \<Rightarrow> ledger_error + exchange_rate list" where
  "rates_from_ecb_cubes other cubes updated_at =
     rbind (euro_rates_from other cubes [''EUR'' \<mapsto> 1]) (\<lambda>euro.
       case euro ''USD'' of
         None \<Rightarrow> Inl (ErrInvalidInput ''ecb USD rate is missing'')
       | Some usd \<Rightarrow>
           if usd \<le> 0 then Inl (ErrInvalidInput ''ecb USD rate is missing'')
           else rbind (usd_rates_from euro usd updated_at supported_currencies) (\<lambda>rates.
             Inr (normalize_exchange_rates rates)))"

lemma euro_rates_pos:
  "euro_rates_from other cubes rates = Inr result \<Longrightarrow> \<forall>c r. rates c = Some r \<longrightarrow> 0 < r \<Longrightarrow>
   result c = Some r \<Longrightarrow> 0 < r"
  by (induction other cubes rates rule: euro_rates_from.induct)
    (auto simp: Let_def split: option.splits if_splits)

lemma usd_rates_from_ok:
  "usd_rates_from euro usd t cs = Inr rates \<Longrightarrow>
   rates = map (\<lambda>c. \<lparr>er_currency = c,
     er_units_per_usd = float_string 8 (if c = ''USD'' then 1 else the (euro c) / usd),
     er_source = ''ecb-eurofxref'', er_updated_at = t\<rparr>) cs \<and>
   (\<forall>c \<in> set cs. c \<noteq> ''USD'' \<longrightarrow> euro c \<noteq> None)"
  by (induction cs arbitrary: rates) (auto simp: rbind_Inr_iff split: option.splits if_splits)

lemma trim_space_decimal: "is_decimal s \<Longrightarrow> trim_space s = s"
proof -
  assume dec: "is_decimal s"
  have set: "list_all (\<lambda>c. is_digit c \<or> c = CHR ''.'') s" and ne: "s \<noteq> []"
    using dec by (auto simp: is_decimal_iff list_all_iff)
  have no: "\<not> ascii_space c \<and> c \<noteq> CHR 0xC2 \<and> c \<noteq> CHR 0xE1 \<and> c \<noteq> CHR 0xE2 \<and> c \<noteq> CHR 0xE3 \<and>
      c \<notin> {CHR 0x85, CHR 0xA0} \<and> of_char c < (128 :: nat)" if "c \<in> set s" for c
    using set that by (auto simp: list_all_iff is_digit_def ascii_space_def)
  have left: "space_len s = 0"
    using no by (auto simp: space_len_def space2_def space3_def split: list.splits)
  have "space_len_rev (rev s) = 0"
  proof -
    have "\<forall>c \<in> set (rev s). \<not> ascii_space c \<and> c \<noteq> CHR 0xC2 \<and> c \<noteq> CHR 0xE1 \<and> c \<noteq> CHR 0xE2 \<and> c \<noteq> CHR 0xE3"
      using no by auto
    then show ?thesis
      by (auto simp: space_len_rev_def space2_def space3_def split: list.splits)
  qed
  with left show "trim_space s = s" by (rule trim_space_id)
qed

text \<open>The bootstrap table, as it is listed.\<close>

lemma default_exchange_rates_eq:
  "default_exchange_rates t =
     [\<lparr>er_currency = ''CAD'', er_units_per_usd = ''1.36'', er_source = ''bootstrap'', er_updated_at = t\<rparr>,
      \<lparr>er_currency = ''CNY'', er_units_per_usd = ''7.20'', er_source = ''bootstrap'', er_updated_at = t\<rparr>,
      \<lparr>er_currency = ''EUR'', er_units_per_usd = ''0.85'', er_source = ''bootstrap'', er_updated_at = t\<rparr>,
      \<lparr>er_currency = ''USD'', er_units_per_usd = ''1'', er_source = ''bootstrap'', er_updated_at = t\<rparr>]"
proof -
  have trim: "trim_space ''1'' = ''1''" "trim_space ''0.85'' = ''0.85''" "trim_space ''7.20'' = ''7.20''"
    "trim_space ''1.36'' = ''1.36''" "trim_space ''bootstrap'' = ''bootstrap''"
    by code_simp+
  have less: "(''USD'' < ''EUR'') = False" "(''CNY'' < ''USD'') = True" "(''CNY'' < ''EUR'') = True"
    "(''CAD'' < ''USD'') = True" "(''CAD'' < ''EUR'') = True" "(''CAD'' < ''CNY'') = True"
    "(''EUR'' < ''USD'') = True"
    by code_simp+
  show ?thesis
    unfolding default_exchange_rates_def normalize_exchange_rates_def
    by (subst normalize_rates_from_id)
      (simp_all add: supported_currencies_def trim clone_exchange_rates_def sort_func_def less)
qed

lemma default_index:
  "index_rates other (normalize_exchange_rates (default_exchange_rates t)) Map.empty =
   Inr [''CAD'' \<mapsto> 34 / 25, ''CNY'' \<mapsto> 36 / 5, ''EUR'' \<mapsto> 17 / 20, ''USD'' \<mapsto> 1]"
proof -
  have dec: "is_decimal ''1.36''" "is_decimal ''7.20''" "is_decimal ''0.85''" "is_decimal ''1''"
    by code_simp+
  have val: "decimal_value ''1.36'' = 34 / 25" "decimal_value ''7.20'' = 36 / 5"
    "decimal_value ''0.85'' = 17 / 20" "decimal_value ''1'' = 1"
    by code_simp+
  have "normalize_exchange_rates (default_exchange_rates t) = default_exchange_rates t"
    by (simp add: default_exchange_rates_def)
  then show ?thesis by (simp add: default_exchange_rates_eq rat_set_string_def dec val)
qed

end
