(* ===== verification/Ledger_Entries.thy ===== *)
theory Ledger_Entries
  imports Ledger_Accounts Ledger_Categories Rates
begin

text \<open>
  Entries (\<open>ledger/entries.go\<close>, and \<open>EntryMutationPolicy\<close> of \<open>ledger/service.go\<close>): validation, the
  policy on who may create and change which entry, and the handlers.

  \<open>parse\<close> is \<open>uuid.Parse\<close>, \<open>other\<close> reads the non-decimal forms of a rational, \<open>new_id\<close> is the
  outcome of \<open>NewEntryID\<close>.
\<close>

section \<open>Validation\<close>

definition max_note_length :: nat where "max_note_length = 500"
definition max_merchant_length :: nat where "max_merchant_length = 120"
definition max_tag_length :: nat where "max_tag_length = 64"
definition max_tags_per_entry :: nat where "max_tags_per_entry = 20"

definition normalize_tags :: "string list \<Rightarrow> string list" where
  "normalize_tags tags = trimmed_unique tags"

definition is_supported_entry_type :: "entry_type \<Rightarrow> bool" where
  "is_supported_entry_type t = (case t of EntryTypeOther _ \<Rightarrow> False | _ \<Rightarrow> True)"

definition validate_entry_category :: "entry_type \<Rightarrow> category option \<Rightarrow> ledger_error + unit" where
  "validate_entry_category t c =
     (case c of
        None \<Rightarrow> Inr ()
      | Some category \<Rightarrow>
          (case t of
             EntryTypeExpense \<Rightarrow> rguard (ct_direction category = CategoryDirectionExpense)
               (ErrInvalidInput ''expense entry category must be expense'')
           | EntryTypeIncome \<Rightarrow> rguard (ct_direction category = CategoryDirectionIncome)
               (ErrInvalidInput ''income entry category must be income'')
           | _ \<Rightarrow> Inr ()))"

definition validate_create_entry_request ::
    "create_entry_request \<Rightarrow> account \<Rightarrow> book \<Rightarrow> category option \<Rightarrow> (string \<rightharpoonup> rat) \<Rightarrow> ledger_error + unit" where
  "validate_create_entry_request request a b c rates =
     (if \<not> is_supported_entry_type (ce_type request) then Inl (ErrInvalidInput ''entry type is invalid'')
      else if ce_amount_cents request \<le> 0 then Inl (ErrInvalidInput ''amount must be positive'')
      else if ce_occurred_at request = zero_time then Inl (ErrInvalidInput ''occurred_at is required'')
      else
        let currency = upper_trim (ce_transaction_currency request);
            currency = (if currency = [] then ac_currency a else currency)
        in if \<not> is_supported_currency currency then Inl (ErrInvalidInput ''transaction currency is invalid'')
        else if \<not> is_supported_currency (ac_currency a) \<or> \<not> is_supported_currency (bk_reporting_currency b)
        then Inl (ErrInvalidInput ''account or book currency is invalid'')
        else
          rbind (convert_amount_cents (ce_amount_cents request) currency (bk_reporting_currency b)
            (ce_exchange_rate request) rates) (\<lambda>_.
          rbind (convert_amount_cents (ce_amount_cents request) currency (ac_currency a)
            (ce_exchange_rate request) rates) (\<lambda>_.
          rbind (validate_entry_category (ce_type request) c) (\<lambda>_.
            if rune_count (trim_space (ce_note request)) > max_note_length
            then Inl (ErrInvalidInput ''note is too long'')
            else if rune_count (trim_space (ce_merchant request)) > max_merchant_length
            then Inl (ErrInvalidInput ''merchant is too long'')
            else if ce_type request = EntryTypeTransfer \<and> trim_space (ce_destination_account_id request) = []
            then Inl (ErrInvalidInput ''destination account id is required for transfer'')
            else if list_ex (\<lambda>tag. rune_count tag > max_tag_length) (normalize_tags (ce_tags request))
            then Inl (ErrInvalidInput ''tag is too long'')
            else if length (normalize_tags (ce_tags request)) > max_tags_per_entry
            then Inl (ErrInvalidInput ''too many tags'')
            else Inr ()))))"

section \<open>Policy\<close>

definition entry_mutation_policy ::
    "actor \<Rightarrow> string \<Rightarrow> string \<Rightarrow> memory_store \<Rightarrow> ledger_error + mutation_policy" where
  "entry_mutation_policy a book_id entry_id s =
     (if at_user_id a = [] then Inl (ErrOther ''actor user id is required'')
      else if book_id = [] then Inl (ErrOther ''book id is required'')
      else if entry_id = [] then Inl (ErrOther ''entry id is required'')
      else (case st_member book_id (at_user_id a) s of
          Inl _ \<Rightarrow> Inl (ErrAccessDenied ''authorize entry mutation for user'')
        | Inr member \<Rightarrow>
            rbind (st_entries book_id s) (\<lambda>entries.
              case index_func (\<lambda>e. en_id e = entry_id) entries of
                None \<Rightarrow> Inl (ErrNotFound ''entry not found'')
              | Some i \<Rightarrow>
                  let allowed = (bm_role member = RoleOwner \<or> bm_role member = RoleAdministrator \<or>
                        (bm_role member = RoleMember \<and> en_creator_user_id (entries ! i) = at_user_id a))
                  in Inr \<lparr>mp_can_update = allowed, mp_can_delete = allowed\<rparr>)))"

definition create_entry_creator_user_id ::
    "create_entry_request \<Rightarrow> book_member \<Rightarrow> memory_store \<Rightarrow> ledger_error + string" where
  "create_entry_creator_user_id request actor_member s =
     (let creator = trim_space (ce_creator_user_id request) in
      if creator = [] \<or> creator = at_user_id (ce_actor request) then Inr (at_user_id (ce_actor request))
      else if bm_role actor_member \<noteq> RoleOwner \<and> bm_role actor_member \<noteq> RoleAdministrator
      then Inl (ErrAccessDenied ''role cannot create entries for another user'')
      else (case st_member (ce_book_id request) creator s of
          Inl _ \<Rightarrow> Inl (ErrAccessDenied ''creator is not a member of book'')
        | Inr _ \<Rightarrow> Inr creator))"

definition entry_category :: "string \<Rightarrow> string \<Rightarrow> memory_store \<Rightarrow> ledger_error + category option" where
  "entry_category book_id category_id s =
     (let category_id = trim_space category_id in
      if category_id = [] then Inr None
      else rbind (st_categories book_id s) (\<lambda>categories.
        case find (\<lambda>c. ct_id c = category_id) categories of
          None \<Rightarrow> Inl (ErrNotFound ''category not found'')
        | Some c \<Rightarrow>
            if ct_archived c then Inl (ErrInvalidInput ''category is archived'') else Inr (Some c)))"

definition update_entry_account ::
    "actor \<Rightarrow> string \<Rightarrow> string \<Rightarrow> string \<Rightarrow> bool \<Rightarrow> memory_store \<Rightarrow> ledger_error + account" where
  "update_entry_account a book_id current_id next_id changed s =
     (if changed \<or> trim_space current_id \<noteq> trim_space next_id then visible_account a book_id next_id s
      else account_by_id next_id s)"

definition update_entry_request_has_fields :: "update_entry_request \<Rightarrow> bool" where
  "update_entry_request_has_fields request \<longleftrightarrow>
     ue_type request \<noteq> None \<or> ue_account_id request \<noteq> None \<or> ue_destination_account_id request \<noteq> None \<or>
     ue_category_id request \<noteq> None \<or> ue_amount_cents request \<noteq> None \<or>
     ue_transaction_currency request \<noteq> None \<or> ue_exchange_rate request \<noteq> None \<or>
     ue_occurred_at request \<noteq> None \<or> ue_note request \<noteq> None \<or> ue_merchant request \<noteq> None \<or>
     ue_tags request \<noteq> None"

definition patch_entry :: "entry \<Rightarrow> update_entry_request \<Rightarrow> entry" where
  "patch_entry e request =
     (let p = e;
          p = (case ue_type request of None \<Rightarrow> p | Some x \<Rightarrow> p\<lparr>en_type := x\<rparr>);
          p = (case ue_account_id request of None \<Rightarrow> p | Some x \<Rightarrow> p\<lparr>en_account_id := trim_space x\<rparr>);
          p = (case ue_destination_account_id request of None \<Rightarrow> p
               | Some x \<Rightarrow> p\<lparr>en_destination_account_id := trim_space x\<rparr>);
          p = (case ue_category_id request of None \<Rightarrow> p | Some x \<Rightarrow> p\<lparr>en_category_id := trim_space x\<rparr>);
          p = (case ue_amount_cents request of None \<Rightarrow> p | Some x \<Rightarrow> p\<lparr>en_amount_cents := x\<rparr>);
          p = (case ue_transaction_currency request of None \<Rightarrow> p
               | Some x \<Rightarrow> p\<lparr>en_transaction_currency := upper_trim x\<rparr>);
          p = (case ue_exchange_rate request of None \<Rightarrow> p | Some x \<Rightarrow> p\<lparr>en_exchange_rate := trim_space x\<rparr>);
          p = (case ue_occurred_at request of None \<Rightarrow> p | Some x \<Rightarrow> p\<lparr>en_occurred_at := x\<rparr>);
          p = (case ue_note request of None \<Rightarrow> p | Some x \<Rightarrow> p\<lparr>en_note := trim_space x\<rparr>);
          p = (case ue_merchant request of None \<Rightarrow> p | Some x \<Rightarrow> p\<lparr>en_merchant := trim_space x\<rparr>)
      in (case ue_tags request of None \<Rightarrow> p | Some x \<Rightarrow> p\<lparr>en_tags := normalize_tags x\<rparr>))"

section \<open>Handlers\<close>

definition normalize_entry_page :: "int \<Rightarrow> int \<Rightarrow> int \<times> int" where
  "normalize_entry_page page page_size =
     (let page = (if page < 1 then 1 else page);
          page_size = (if page_size < 1 then 50 else page_size);
          page_size = (if page_size > 100 then 100 else page_size)
      in (page, page_size))"

definition list_entries ::
    "actor \<Rightarrow> string \<Rightarrow> int \<Rightarrow> int \<Rightarrow> memory_store \<Rightarrow> ledger_error + entry_list" where
  "list_entries a book_id page page_size s =
     (if at_user_id a = [] then Inl (ErrInvalidInput ''actor user id is required'')
      else if book_id = [] then Inl (ErrInvalidInput ''book id is required'')
      else (case st_member book_id (at_user_id a) s of
          Inl _ \<Rightarrow> Inl (ErrAccessDenied ''authorize entry list for user'')
        | Inr _ \<Rightarrow>
            (case normalize_entry_page page page_size of (page, page_size) \<Rightarrow>
               rbind (st_entries book_id s) (\<lambda>entries.
                 let total = int (length entries);
                     start = int64 (int64 (page - 1) * page_size)
                 in if start \<ge> total
                    then Inr \<lparr>el_entries = [], el_page = page, el_page_size = page_size, el_total = total\<rparr>
                    else let end = min (int64 (start + page_size)) total
                         in (case go_slice entries start end of
                               None \<Rightarrow> Inl (Panic ''slice bounds out of range'')
                             | Some xs \<Rightarrow> Inr \<lparr>el_entries = xs, el_page = page,
                                 el_page_size = page_size, el_total = total\<rparr>)))))"

definition create_entry ::
    "(string \<Rightarrow> string option) \<Rightarrow> (string \<Rightarrow> rat option) \<Rightarrow> create_entry_request \<Rightarrow>
     ledger_error + string \<Rightarrow> time \<Rightarrow> (memory_store, ledger_error, entry) act" where
  "create_entry parse other request new_id now =
     abind (aguard (at_user_id (ce_actor request) \<noteq> []) (ErrInvalidInput ''actor user id is required'')) (\<lambda>_.
     abind (aguard (ce_book_id request \<noteq> []) (ErrInvalidInput ''book id is required'')) (\<lambda>_.
     abind (aread (st_book (ce_book_id request))) (\<lambda>b.
     abind (aread (\<lambda>s. case st_member (ce_book_id request) (at_user_id (ce_actor request)) s of
         Inl _ \<Rightarrow> Inl (ErrAccessDenied ''authorize entry create for user'') | Inr m \<Rightarrow> Inr m)) (\<lambda>member.
     abind (aguard (bm_role member \<noteq> RoleViewer) (ErrAccessDenied ''viewer cannot create entries'')) (\<lambda>_.
     abind (aread (create_entry_creator_user_id request member)) (\<lambda>creator.
     abind (aread (visible_account (ce_actor request) (ce_book_id request) (ce_account_id request))) (\<lambda>a.
     abind (aread (\<lambda>s. if trim_space (ce_destination_account_id request) \<noteq> []
         then rbind (visible_account (ce_actor request) (ce_book_id request)
                (ce_destination_account_id request) s) (\<lambda>_. Inr ())
         else Inr ())) (\<lambda>_.
     abind (aread (entry_category (ce_book_id request) (ce_category_id request))) (\<lambda>c.
     abind (aread (exchange_rate_index other now)) (\<lambda>rates.
     abind (aread (\<lambda>_. validate_create_entry_request request a b c rates)) (\<lambda>_.
     abind (aread (\<lambda>_. new_id)) (\<lambda>entry_id.
       let currency = upper_trim (ce_transaction_currency request);
           currency = (if currency = [] then ac_currency a else currency)
       in st_create_entry parse
         \<lparr>en_id = entry_id, en_book_id = ce_book_id request, en_creator_user_id = creator,
          en_type = ce_type request, en_account_id = trim_space (ce_account_id request),
          en_destination_account_id = trim_space (ce_destination_account_id request),
          en_category_id = trim_space (ce_category_id request), en_amount_cents = ce_amount_cents request,
          en_transaction_currency = currency, en_account_currency = ac_currency a,
          en_book_reporting_currency = bk_reporting_currency b,
          en_exchange_rate = trim_space (ce_exchange_rate request), en_occurred_at = ce_occurred_at request,
          en_note = trim_space (ce_note request), en_merchant = trim_space (ce_merchant request),
          en_tags = normalize_tags (ce_tags request), en_raw_source = [],
          en_created_at = now, en_updated_at = now\<rparr>))))))))))))"

text \<open>The request \<open>UpdateEntry\<close> validates: the patched entry as if it were created.\<close>

definition validation_request :: "update_entry_request \<Rightarrow> entry \<Rightarrow> book \<Rightarrow> create_entry_request" where
  "validation_request request patched b =
     \<lparr>ce_actor = ue_actor request, ce_book_id = ue_book_id request, ce_creator_user_id = [],
      ce_type = en_type patched, ce_account_id = en_account_id patched,
      ce_destination_account_id = en_destination_account_id patched,
      ce_category_id = en_category_id patched, ce_amount_cents = en_amount_cents patched,
      ce_transaction_currency = en_transaction_currency patched,
      ce_book_reporting_currency = bk_reporting_currency b,
      ce_exchange_rate = en_exchange_rate patched, ce_occurred_at = en_occurred_at patched,
      ce_note = en_note patched, ce_merchant = en_merchant patched, ce_tags = en_tags patched\<rparr>"

definition update_entry ::
    "(string \<Rightarrow> rat option) \<Rightarrow> update_entry_request \<Rightarrow> time \<Rightarrow> (memory_store, ledger_error, entry) act" where
  "update_entry other request now =
     abind (aguard (at_user_id (ue_actor request) \<noteq> []) (ErrInvalidInput ''actor user id is required'')) (\<lambda>_.
     abind (aguard (ue_book_id request \<noteq> []) (ErrInvalidInput ''book id is required'')) (\<lambda>_.
     abind (aguard (ue_entry_id request \<noteq> []) (ErrInvalidInput ''entry id is required'')) (\<lambda>_.
     abind (aguard (update_entry_request_has_fields request)
       (ErrInvalidInput ''entry update must include at least one field'')) (\<lambda>_.
     abind (aread (entry_mutation_policy (ue_actor request) (ue_book_id request) (ue_entry_id request))) (\<lambda>policy.
     abind (aguard (mp_can_update policy) (ErrAccessDenied ''actor cannot update entry'')) (\<lambda>_.
     abind (aread (st_book (ue_book_id request))) (\<lambda>b.
     abind (aread (st_entry (ue_book_id request) (ue_entry_id request))) (\<lambda>e.
       let patched = patch_entry e request in
     abind (aread (update_entry_account (ue_actor request) (ue_book_id request) (en_account_id e)
       (en_account_id patched) (ue_account_id request \<noteq> None))) (\<lambda>a.
     abind (aread (\<lambda>s. if trim_space (en_destination_account_id patched) \<noteq> []
         then rbind (update_entry_account (ue_actor request) (ue_book_id request)
                (en_destination_account_id e) (en_destination_account_id patched)
                (ue_destination_account_id request \<noteq> None) s) (\<lambda>_. Inr ())
         else Inr ())) (\<lambda>_.
     abind (aread (entry_category (ue_book_id request) (en_category_id patched))) (\<lambda>c.
     abind (aread (exchange_rate_index other now)) (\<lambda>rates.
     abind (aread (\<lambda>_. validate_create_entry_request (validation_request request patched b) a b c rates)) (\<lambda>_.
       let currency = upper_trim (en_transaction_currency patched);
           currency = (if currency = [] then ac_currency a else currency)
       in st_update_entry (patched\<lparr>en_account_currency := ac_currency a,
            en_book_reporting_currency := bk_reporting_currency b,
            en_transaction_currency := currency, en_updated_at := now\<rparr>))))))))))))))"

definition delete_entry ::
    "actor \<Rightarrow> string \<Rightarrow> string \<Rightarrow> (memory_store, ledger_error, unit) act" where
  "delete_entry a book_id entry_id =
     abind (aread (entry_mutation_policy a book_id entry_id)) (\<lambda>policy.
     abind (aguard (mp_can_delete policy) (ErrAccessDenied ''actor cannot delete entry'')) (\<lambda>_.
       st_delete_entry book_id entry_id))"

lemma entry_handlers_clean:
  "fails_clean (create_entry parse other cer new_id now)"
  "fails_clean (update_entry other uer now)"
  "fails_clean (delete_entry a b e)"
  unfolding create_entry_def update_entry_def delete_entry_def Let_def
  by (rule store_fails_clean clean_rules)+

section \<open>The policy\<close>

text \<open>Who may change an entry: an owner or administrator of the book, or a member for an entry of their own.\<close>

definition may_mutate :: "memory_store \<Rightarrow> string \<Rightarrow> string \<Rightarrow> entry \<Rightarrow> bool" where
  "may_mutate s u b e \<longleftrightarrow>
     (case member_at s b u of
        None \<Rightarrow> False
      | Some m \<Rightarrow> is_manager (bm_role m) \<or> (bm_role m = RoleMember \<and> en_creator_user_id e = u))"

lemma st_entry_iff:
  assumes "store_ok s"
  shows "st_entry b i s = Inr e \<longleftrightarrow> e \<in> set (ms_entries s) \<and> en_book_id e = b \<and> en_id e = i"
proof -
  have d: "distinct (map en_id (filter (\<lambda>e. en_book_id e = b) (ms_entries s)))"
    using assms by (simp add: store_ok_def distinct_map_filter)
  have "find (\<lambda>e. en_book_id e = b \<and> en_id e = i) xs =
      find (\<lambda>e. en_id e = i) (filter (\<lambda>e. en_book_id e = b) xs)" for xs
    by (induction xs) auto
  from this [of "ms_entries s"] have "st_entry b i s = Inr e \<longleftrightarrow>
      find (\<lambda>e. en_id e = i) (filter (\<lambda>e. en_book_id e = b) (ms_entries s)) = Some e"
    unfolding st_entry_def by (simp split: option.split)
  then show ?thesis by (auto simp: find_key_Some_iff [OF d])
qed

lemma policy_iff:
  assumes "store_ok s"
  shows "entry_mutation_policy a b i s = Inr p \<longleftrightarrow>
    at_user_id a \<noteq> [] \<and> b \<noteq> [] \<and> i \<noteq> [] \<and> (\<exists>m. member_at s b (at_user_id a) = Some m) \<and>
    (\<exists>e. st_entry b i s = Inr e \<and>
      p = \<lparr>mp_can_update = may_mutate s (at_user_id a) b e, mp_can_delete = may_mutate s (at_user_id a) b e\<rparr>)"
proof (cases "member_at s b (at_user_id a)")
  case None
  then show ?thesis using st_lookup_None(2) [OF None] by (auto simp: entry_mutation_policy_def)
next
  case (Some m)
  let ?es = "sort_func cmp_occurred (filter (\<lambda>e. en_book_id e = b) (ms_entries s))"
  have es: "st_entries b s = Inr ?es" by (simp add: st_entries_def)
  have d: "distinct (map en_id (ms_entries s))" using assms by (simp add: store_ok_def)
  have found: "index_func (\<lambda>e. en_id e = i) ?es = Some k \<Longrightarrow> st_entry b i s = Inr (?es ! k)" for k
    using index_func_Some [of "\<lambda>e. en_id e = i" ?es k] find_listed [OF d, of i cmp_occurred "\<lambda>e. en_book_id e = b"]
      st_entry_iff [OF assms] by simp
  have missing: "index_func (\<lambda>e. en_id e = i) ?es = None \<Longrightarrow> st_entry b i s \<noteq> Inr e" for e
    using st_entry_iff [OF assms] by (auto simp: index_func_None_iff)
  show ?thesis using Some found missing
    by (auto simp: entry_mutation_policy_def st_lookup_Some(2) [OF Some] es may_mutate_def is_manager_def
        Let_def split: option.splits)
qed

section \<open>What the handlers accept\<close>

text \<open>What every entry that passed validation satisfies.\<close>

definition entry_wf :: "entry \<Rightarrow> bool" where
  "entry_wf e \<longleftrightarrow>
     is_supported_entry_type (en_type e) \<and> 0 < en_amount_cents e \<and> en_occurred_at e \<noteq> zero_time \<and>
     is_supported_currency (en_transaction_currency e) \<and> is_supported_currency (en_account_currency e) \<and>
     is_supported_currency (en_book_reporting_currency e) \<and>
     (en_type e = EntryTypeTransfer \<longrightarrow> en_destination_account_id e \<noteq> []) \<and>
     rune_count (trim_space (en_note e)) \<le> 500 \<and> rune_count (trim_space (en_merchant e)) \<le> 120 \<and>
     length (normalize_tags (en_tags e)) \<le> 20 \<and>
     (\<forall>tag \<in> set (normalize_tags (en_tags e)). rune_count tag \<le> 64)"

lemma validate_entry_accepts:
  assumes "validate_create_entry_request request a b c rates = Inr u"
  defines "currency \<equiv> (if upper_trim (ce_transaction_currency request) = [] then ac_currency a
      else upper_trim (ce_transaction_currency request))"
  shows "is_supported_entry_type (ce_type request)" and "0 < ce_amount_cents request"
    and "ce_occurred_at request \<noteq> zero_time" and "is_supported_currency currency"
    and "is_supported_currency (ac_currency a)" and "is_supported_currency (bk_reporting_currency b)"
    and "\<exists>x. convert_amount_cents (ce_amount_cents request) currency (bk_reporting_currency b)
      (ce_exchange_rate request) rates = Inr x"
    and "\<exists>x. convert_amount_cents (ce_amount_cents request) currency (ac_currency a)
      (ce_exchange_rate request) rates = Inr x"
    and "validate_entry_category (ce_type request) c = Inr ()"
    and "ce_type request = EntryTypeTransfer \<Longrightarrow> trim_space (ce_destination_account_id request) \<noteq> []"
    and "rune_count (trim_space (ce_note request)) \<le> 500"
    and "rune_count (trim_space (ce_merchant request)) \<le> 120"
    and "length (normalize_tags (ce_tags request)) \<le> 20"
    and "\<forall>tag \<in> set (normalize_tags (ce_tags request)). rune_count tag \<le> 64"
  using assms(1) unfolding currency_def
  by (auto simp: validate_create_entry_request_def Let_def rbind_Inr_iff max_note_length_def
      max_merchant_length_def max_tag_length_def max_tags_per_entry_def list_ex_iff not_less
      split: if_splits)

lemma entry_category_iff:
  assumes "store_ok s"
  shows "entry_category b i s = Inr r \<longleftrightarrow>
    (if trim_space i = [] then r = None
     else \<exists>c. r = Some c \<and> c \<in> set (ms_categories s) \<and> ct_book_id c = b \<and> ct_id c = trim_space i \<and>
       \<not> ct_archived c)"
proof -
  have d: "distinct (map ct_id (ms_categories s))" using assms by (simp add: store_ok_def)
  let ?cs = "sort_func (cmp_listing ct_sort_order ct_id) (filter (\<lambda>c. ct_book_id c = b) (ms_categories s))"
  have "entry_category b i s = Inr r \<longleftrightarrow> (if trim_space i = [] then r = None
      else \<exists>c. r = Some c \<and> find (\<lambda>c. ct_id c = trim_space i) ?cs = Some c \<and> \<not> ct_archived c)"
    by (auto simp: entry_category_def st_categories_def Let_def split: option.splits)
  then show ?thesis by (simp only: find_listed [OF d]) auto
qed

text \<open>A successful \<open>CreateEntry\<close>: who, with what, and the one write.\<close>

lemma create_entry_success:
  assumes "create_entry parse other request new_id now s = (Inr e, t)"
  obtains m b a c rates i where
    "member_at s (ce_book_id request) (at_user_id (ce_actor request)) = Some m"
    and "bm_role m \<noteq> RoleViewer" and "book_at s (ce_book_id request) = Some b"
    and "create_entry_creator_user_id request m s = Inr (en_creator_user_id e)"
    and "visible_account (ce_actor request) (ce_book_id request) (ce_account_id request) s = Inr a"
    and "trim_space (ce_destination_account_id request) \<noteq> [] \<Longrightarrow>
      \<exists>d. visible_account (ce_actor request) (ce_book_id request) (ce_destination_account_id request) s = Inr d"
    and "entry_category (ce_book_id request) (ce_category_id request) s = Inr c"
    and "exchange_rate_index other now s = Inr rates"
    and "validate_create_entry_request request a b c rates = Inr ()"
    and "new_id = Inr i" and "normalize_entry_id parse i = Inr (en_id e)"
    and "en_id e \<notin> en_id ` set (ms_entries s)"
    and "t = s\<lparr>ms_entries := ms_entries s @ [e]\<rparr>"
    and "en_book_id e = ce_book_id request" and "en_type e = ce_type request"
    and "en_account_id e = trim_space (ce_account_id request)"
    and "en_destination_account_id e = trim_space (ce_destination_account_id request)"
    and "en_category_id e = trim_space (ce_category_id request)"
    and "en_amount_cents e = ce_amount_cents request" and "en_occurred_at e = ce_occurred_at request"
    and "en_transaction_currency e = (if upper_trim (ce_transaction_currency request) = [] then ac_currency a
      else upper_trim (ce_transaction_currency request))"
    and "en_account_currency e = ac_currency a" and "en_book_reporting_currency e = bk_reporting_currency b"
    and "en_exchange_rate e = trim_space (ce_exchange_rate request)"
    and "en_note e = trim_space (ce_note request)" and "en_merchant e = trim_space (ce_merchant request)"
    and "en_tags e = normalize_tags (ce_tags request)"
proof -
  obtain m b a c rates i cr where parts:
    "book_at s (ce_book_id request) = Some b"
    "(case st_member (ce_book_id request) (at_user_id (ce_actor request)) s of
        Inl _ \<Rightarrow> Inl (ErrAccessDenied ''authorize entry create for user'') | Inr m \<Rightarrow> Inr m) = Inr m"
    "bm_role m \<noteq> RoleViewer" "create_entry_creator_user_id request m s = Inr cr"
    "visible_account (ce_actor request) (ce_book_id request) (ce_account_id request) s = Inr a"
    "(if trim_space (ce_destination_account_id request) \<noteq> []
      then rbind (visible_account (ce_actor request) (ce_book_id request) (ce_destination_account_id request) s)
             (\<lambda>_. Inr ()) else Inr ()) = Inr ()"
    "entry_category (ce_book_id request) (ce_category_id request) s = Inr c"
    "exchange_rate_index other now s = Inr rates"
    "validate_create_entry_request request a b c rates = Inr ()" "new_id = Inr i"
    and w: "st_create_entry parse
         \<lparr>en_id = i, en_book_id = ce_book_id request, en_creator_user_id = cr,
          en_type = ce_type request, en_account_id = trim_space (ce_account_id request),
          en_destination_account_id = trim_space (ce_destination_account_id request),
          en_category_id = trim_space (ce_category_id request), en_amount_cents = ce_amount_cents request,
          en_transaction_currency = (if upper_trim (ce_transaction_currency request) = [] then ac_currency a
            else upper_trim (ce_transaction_currency request)), en_account_currency = ac_currency a,
          en_book_reporting_currency = bk_reporting_currency b,
          en_exchange_rate = trim_space (ce_exchange_rate request), en_occurred_at = ce_occurred_at request,
          en_note = trim_space (ce_note request), en_merchant = trim_space (ce_merchant request),
          en_tags = normalize_tags (ce_tags request), en_raw_source = [],
          en_created_at = now, en_updated_at = now\<rparr> s = (Inr e, t)"
    using assms unfolding create_entry_def Let_def
    by (simp only: act_iffs aread_iff aguard_iff st_book_iff) (auto split: if_splits)
  have m: "member_at s (ce_book_id request) (at_user_id (ce_actor request)) = Some m"
    using parts(2) by (auto split: sum.splits)
  show ?thesis
    using m parts w
    by (intro that [of m b a c rates i])
      (auto simp: st_create_entry_def Let_def list_ex_iff rbind_Inr_iff split: sum.splits if_splits)
qed

lemma normalize_tags_idem [simp]: "normalize_tags (normalize_tags tags) = normalize_tags tags"
  by (simp add: normalize_tags_def)

lemma create_entry_wf:
  assumes "create_entry parse other request new_id now s = (Inr e, t)"
  shows "entry_wf e"
  using assms
proof (rule create_entry_success)
  fix m b a c rates i
  assume v: "validate_create_entry_request request a b c rates = Inr ()"
    and eq: "en_type e = ce_type request" "en_amount_cents e = ce_amount_cents request"
      "en_destination_account_id e = trim_space (ce_destination_account_id request)"
      "en_occurred_at e = ce_occurred_at request"
      "en_transaction_currency e = (if upper_trim (ce_transaction_currency request) = [] then ac_currency a
        else upper_trim (ce_transaction_currency request))"
      "en_account_currency e = ac_currency a" "en_book_reporting_currency e = bk_reporting_currency b"
      "en_note e = trim_space (ce_note request)" "en_merchant e = trim_space (ce_merchant request)"
      "en_tags e = normalize_tags (ce_tags request)"
  show "entry_wf e"
    unfolding entry_wf_def eq using validate_entry_accepts [OF v] by simp
qed

lemma patch_entry_keeps [simp]:
  "en_id (patch_entry e request) = en_id e" "en_book_id (patch_entry e request) = en_book_id e"
  "en_creator_user_id (patch_entry e request) = en_creator_user_id e"
  "en_raw_source (patch_entry e request) = en_raw_source e"
  "en_created_at (patch_entry e request) = en_created_at e"
  by (simp_all add: patch_entry_def Let_def split: option.splits)

lemma update_entry_success:
  assumes ok: "store_ok s" and run: "update_entry other request now s = (Inr e, t)"
  obtains e0 b a c rates where
    "e0 \<in> set (ms_entries s)" and "en_book_id e0 = ue_book_id request" and "en_id e0 = ue_entry_id request"
    and "may_mutate s (at_user_id (ue_actor request)) (ue_book_id request) e0"
    and "book_at s (ue_book_id request) = Some b"
    and "update_entry_account (ue_actor request) (ue_book_id request) (en_account_id e0)
      (en_account_id (patch_entry e0 request)) (ue_account_id request \<noteq> None) s = Inr a"
    and "trim_space (en_destination_account_id (patch_entry e0 request)) \<noteq> [] \<Longrightarrow>
      \<exists>d. update_entry_account (ue_actor request) (ue_book_id request) (en_destination_account_id e0)
        (en_destination_account_id (patch_entry e0 request)) (ue_destination_account_id request \<noteq> None) s = Inr d"
    and "entry_category (ue_book_id request) (en_category_id (patch_entry e0 request)) s = Inr c"
    and "validate_create_entry_request (validation_request request (patch_entry e0 request) b) a b c rates = Inr ()"
    and "e = (patch_entry e0 request)\<lparr>en_account_currency := ac_currency a,
            en_book_reporting_currency := bk_reporting_currency b,
            en_transaction_currency := (if upper_trim (en_transaction_currency (patch_entry e0 request)) = []
              then ac_currency a else upper_trim (en_transaction_currency (patch_entry e0 request))),
            en_updated_at := now\<rparr>"
    and "st_update_entry e s = (Inr e, t)"
proof -
  obtain p b e0 a c rates where parts:
    "entry_mutation_policy (ue_actor request) (ue_book_id request) (ue_entry_id request) s = Inr p"
    "mp_can_update p" "book_at s (ue_book_id request) = Some b"
    "st_entry (ue_book_id request) (ue_entry_id request) s = Inr e0"
    "update_entry_account (ue_actor request) (ue_book_id request) (en_account_id e0)
      (en_account_id (patch_entry e0 request)) (ue_account_id request \<noteq> None) s = Inr a"
    "(if trim_space (en_destination_account_id (patch_entry e0 request)) \<noteq> []
      then rbind (update_entry_account (ue_actor request) (ue_book_id request) (en_destination_account_id e0)
        (en_destination_account_id (patch_entry e0 request)) (ue_destination_account_id request \<noteq> None) s)
          (\<lambda>_. Inr ()) else Inr ()) = Inr ()"
    "entry_category (ue_book_id request) (en_category_id (patch_entry e0 request)) s = Inr c"
    "validate_create_entry_request (validation_request request (patch_entry e0 request) b) a b c rates = Inr ()"
    and w: "st_update_entry ((patch_entry e0 request)\<lparr>en_account_currency := ac_currency a,
            en_book_reporting_currency := bk_reporting_currency b,
            en_transaction_currency := (if upper_trim (en_transaction_currency (patch_entry e0 request)) = []
              then ac_currency a else upper_trim (en_transaction_currency (patch_entry e0 request))),
            en_updated_at := now\<rparr>) s = (Inr e, t)"
    using run unfolding update_entry_def Let_def
    by (simp only: act_iffs aread_iff aguard_iff st_book_iff) (auto split: if_splits)
  have "e0 \<in> set (ms_entries s)" "en_book_id e0 = ue_book_id request" "en_id e0 = ue_entry_id request"
    using parts(4) st_entry_iff [OF ok] by simp_all
  moreover have "may_mutate s (at_user_id (ue_actor request)) (ue_book_id request) e0"
    using parts(1,2,4) policy_iff [OF ok] by auto
  moreover from w have "e = (patch_entry e0 request)\<lparr>en_account_currency := ac_currency a,
            en_book_reporting_currency := bk_reporting_currency b,
            en_transaction_currency := (if upper_trim (en_transaction_currency (patch_entry e0 request)) = []
              then ac_currency a else upper_trim (en_transaction_currency (patch_entry e0 request))),
            en_updated_at := now\<rparr>"
    by (auto simp: st_update_entry_def split: option.splits)
  ultimately show ?thesis using parts w by (intro that [of e0 b a c rates]) (simp_all add: rbind_Inr_iff)
qed

lemma update_entry_wf:
  assumes "store_ok s" and "update_entry other request now s = (Inr e, t)"
  shows "entry_wf e"
  using assms
proof (rule update_entry_success)
  fix e0 b a c rates
  let ?p = "patch_entry e0 request"
  assume v: "validate_create_entry_request (validation_request request ?p b) a b c rates = Inr ()"
    and e: "e = ?p\<lparr>en_account_currency := ac_currency a,
            en_book_reporting_currency := bk_reporting_currency b,
            en_transaction_currency := (if upper_trim (en_transaction_currency ?p) = []
              then ac_currency a else upper_trim (en_transaction_currency ?p)), en_updated_at := now\<rparr>"
  show "entry_wf e"
    using validate_entry_accepts [OF v]
    by (auto simp: entry_wf_def e validation_request_def)
qed

lemma delete_entry_success:
  assumes ok: "store_ok s" and run: "delete_entry a b i s = (Inr u, t)"
  obtains e where "e \<in> set (ms_entries s)" and "en_book_id e = b" and "en_id e = i"
    and "may_mutate s (at_user_id a) b e"
    and "t = s\<lparr>ms_entries := filter (\<lambda>x. en_id x \<noteq> i) (ms_entries s)\<rparr>"
proof -
  obtain p where p: "entry_mutation_policy a b i s = Inr p" "mp_can_delete p"
    and w: "st_delete_entry b i s = (Inr u, t)"
    using run by (auto simp: delete_entry_def act_iffs split: if_splits)
  then obtain e where e: "st_entry b i s = Inr e" "may_mutate s (at_user_id a) b e"
    using policy_iff [OF ok, of a b i p] by auto
  from w obtain k where k: "index_func (\<lambda>x. en_book_id x = b \<and> en_id x = i) (ms_entries s) = Some k"
    and t: "t = s\<lparr>ms_entries := delete_at k (ms_entries s)\<rparr>"
    by (auto simp: st_delete_entry_def split: option.splits)
  have "en_id (ms_entries s ! k) = i" using index_func_Some [OF k] by simp
  moreover have "distinct (map en_id (ms_entries s))" using ok by (simp add: store_ok_def)
  ultimately have "t = s\<lparr>ms_entries := filter (\<lambda>x. en_id x \<noteq> i) (ms_entries s)\<rparr>"
    using delete_at_filter [OF k, of en_id] t by simp
  then show ?thesis using e st_entry_iff [OF ok] by (intro that [of e]) simp_all
qed

end
