(* ===== verification/Ledger_Summary.thy ===== *)
theory Ledger_Summary
  imports Ledger_Entries
begin

text \<open>
  The summary of a book (\<open>BookSummary\<close>, \<open>Summary\<close>, \<open>normalizeDateRange\<close> and \<open>entryInRange\<close> of
  \<open>ledger/service.go\<close>): the entries in a range of days, converted to the currency of the book and
  added up by kind, in 64-bit arithmetic.
\<close>

section \<open>Date ranges\<close>

text \<open>
  \<open>AddDate(0, 0, 1)\<close> on a midnight of UTC is the next midnight. The zero time stands for an absent
  bound.
\<close>

definition normalize_date_range :: "time \<Rightarrow> time \<Rightarrow> time \<times> time" where
  "normalize_date_range start_date end_date =
     ((if start_date \<noteq> zero_time then start_date else zero_time),
      (if end_date \<noteq> zero_time then day_start end_date + day else zero_time))"

definition entry_in_range :: "entry \<Rightarrow> time \<Rightarrow> time \<Rightarrow> bool" where
  "entry_in_range e start end =
     (if start \<noteq> zero_time \<and> en_occurred_at e < start then False
      else if end \<noteq> zero_time \<and> \<not> en_occurred_at e < end then False
      else True)"

section \<open>The totals\<close>

text \<open>One round of the loop of \<open>BookSummary\<close>.\<close>

definition add_entry :: "entry_type \<Rightarrow> int \<Rightarrow> summary \<Rightarrow> summary" where
  "add_entry t cents sm =
     (let sm = sm\<lparr>sm_entry_count := int64 (sm_entry_count sm + 1)\<rparr> in
      case t of
        EntryTypeIncome \<Rightarrow> sm\<lparr>sm_income_cents := int64 (sm_income_cents sm + cents),
                             sm_balance_cents := int64 (sm_balance_cents sm + cents)\<rparr>
      | EntryTypeBorrow \<Rightarrow> sm\<lparr>sm_income_cents := int64 (sm_income_cents sm + cents),
                             sm_balance_cents := int64 (sm_balance_cents sm + cents)\<rparr>
      | EntryTypeExpense \<Rightarrow> sm\<lparr>sm_expense_cents := int64 (sm_expense_cents sm + cents),
                             sm_balance_cents := int64 (sm_balance_cents sm - cents)\<rparr>
      | EntryTypeLend \<Rightarrow> sm\<lparr>sm_expense_cents := int64 (sm_expense_cents sm + cents),
                             sm_balance_cents := int64 (sm_balance_cents sm - cents)\<rparr>
      | EntryTypeRefund \<Rightarrow> sm\<lparr>sm_refund_cents := int64 (sm_refund_cents sm + cents),
                             sm_balance_cents := int64 (sm_balance_cents sm + cents)\<rparr>
      | EntryTypeReimbursement \<Rightarrow> sm\<lparr>sm_refund_cents := int64 (sm_refund_cents sm + cents),
                             sm_balance_cents := int64 (sm_balance_cents sm + cents)\<rparr>
      | EntryTypeRepayment \<Rightarrow> sm\<lparr>sm_refund_cents := int64 (sm_refund_cents sm + cents),
                             sm_balance_cents := int64 (sm_balance_cents sm + cents)\<rparr>
      | EntryTypeTransfer \<Rightarrow> sm\<lparr>sm_transfer_count := int64 (sm_transfer_count sm + 1)\<rparr>
      | EntryTypeOther _ \<Rightarrow> sm)"

fun add_entries ::
    "time \<Rightarrow> time \<Rightarrow> string \<Rightarrow> (string \<rightharpoonup> rat) \<Rightarrow> entry list \<Rightarrow> summary \<Rightarrow> ledger_error + summary" where
  "add_entries start end currency rates [] sm = Inr sm"
| "add_entries start end currency rates (e # es) sm =
     (if \<not> entry_in_range e start end then add_entries start end currency rates es sm
      else rbind (entry_amount_in_currency_cents e currency rates) (\<lambda>cents.
        add_entries start end currency rates es (add_entry (en_type e) cents sm)))"

definition book_summary ::
    "(string \<Rightarrow> rat option) \<Rightarrow> time \<Rightarrow> summary_request \<Rightarrow> memory_store \<Rightarrow> ledger_error + summary" where
  "book_summary other now request s =
     (if at_user_id (sq_actor request) = [] then Inl (ErrOther ''actor user id is required'')
      else if sq_book_id request = [] then Inl (ErrOther ''book id is required'')
      else
        rbind (st_book (sq_book_id request) s) (\<lambda>b.
        case st_member (sq_book_id request) (at_user_id (sq_actor request)) s of
          Inl _ \<Rightarrow> Inl (ErrAccessDenied ''authorize book summary for user'')
        | Inr _ \<Rightarrow>
            rbind (st_entries (sq_book_id request) s) (\<lambda>entries.
            rbind (st_categories (sq_book_id request) s) (\<lambda>categories.
            rbind (visible_accounts (sq_actor request) (sq_book_id request) s) (\<lambda>accounts.
            rbind (exchange_rate_index other now s) (\<lambda>rates.
              case normalize_date_range (sq_start_date request) (sq_end_date request) of (start, end) \<Rightarrow>
                add_entries start end (bk_reporting_currency b) rates entries
                  \<lparr>sm_book_id = bk_id b, sm_book_name = bk_name b, sm_balance_cents = 0,
                   sm_currency = bk_reporting_currency b, sm_entry_count = 0, sm_income_cents = 0,
                   sm_expense_cents = 0, sm_refund_cents = 0, sm_transfer_count = 0,
                   sm_accounts = accounts, sm_categories = categories\<rparr>))))))"

text \<open>\<open>Summary\<close>: the summary of the demo book for the demo user, an empty one on failure.\<close>

definition default_summary :: "(string \<Rightarrow> rat option) \<Rightarrow> time \<Rightarrow> memory_store \<Rightarrow> summary" where
  "default_summary other now s =
     (case book_summary other now \<lparr>sq_actor = \<lparr>at_user_id = ''user-owner''\<rparr>, sq_book_id = ''book-household'',
           sq_start_date = zero_time, sq_end_date = zero_time\<rparr> s of
        Inr sm \<Rightarrow> sm
      | Inl _ \<Rightarrow> \<lparr>sm_book_id = ''book-household'', sm_book_name = [], sm_balance_cents = 0,
           sm_currency = ''USD'', sm_entry_count = 0, sm_income_cents = 0, sm_expense_cents = 0,
           sm_refund_cents = 0, sm_transfer_count = 0, sm_accounts = [], sm_categories = []\<rparr>)"

section \<open>What the loop adds up\<close>

definition income_type :: "entry_type \<Rightarrow> bool" where
  "income_type t \<longleftrightarrow> t = EntryTypeIncome \<or> t = EntryTypeBorrow"

definition expense_type :: "entry_type \<Rightarrow> bool" where
  "expense_type t \<longleftrightarrow> t = EntryTypeExpense \<or> t = EntryTypeLend"

definition refund_type :: "entry_type \<Rightarrow> bool" where
  "refund_type t \<longleftrightarrow> t = EntryTypeRefund \<or> t = EntryTypeReimbursement \<or> t = EntryTypeRepayment"

text \<open>The converted amount of an entry, 0 where it does not convert.\<close>

definition cents_of :: "string \<Rightarrow> (string \<rightharpoonup> rat) \<Rightarrow> entry \<Rightarrow> int" where
  "cents_of currency rates e =
     (case entry_amount_in_currency_cents e currency rates of Inl _ \<Rightarrow> 0 | Inr x \<Rightarrow> x)"

definition total :: "(entry_type \<Rightarrow> bool) \<Rightarrow> string \<Rightarrow> (string \<rightharpoonup> rat) \<Rightarrow> entry list \<Rightarrow> int" where
  "total P currency rates es = sum_list (map (cents_of currency rates) (filter (\<lambda>e. P (en_type e)) es))"

lemma total_Nil [simp]: "total P currency rates [] = 0"
  by (simp add: total_def)

lemma total_Cons:
  "total P currency rates (e # es) =
     (if P (en_type e) then cents_of currency rates e + total P currency rates es else total P currency rates es)"
  by (simp add: total_def)

text \<open>A field that every round increases by a given amount, in 64 bits, ends increased by their sum.\<close>

lemma add_entries_field:
  assumes step: "\<And>t cents sm. int64 (f (add_entry t cents sm)) = int64 (f sm + d t cents)"
    and run: "add_entries start end currency rates es sm = Inr sm'"
  shows "int64 (f sm') = int64 (f sm +
    sum_list (map (\<lambda>e. d (en_type e) (cents_of currency rates e)) (filter (\<lambda>e. entry_in_range e start end) es)))"
  using run
proof (induction es arbitrary: sm)
  case (Cons e es)
  show ?case
  proof (cases "entry_in_range e start end")
    case True
    then obtain cents where c: "entry_amount_in_currency_cents e currency rates = Inr cents"
      and rest: "add_entries start end currency rates es (add_entry (en_type e) cents sm) = Inr sm'"
      using Cons.prems by (auto simp: rbind_Inr_iff)
    let ?S = "sum_list (map (\<lambda>e. d (en_type e) (cents_of currency rates e))
        (filter (\<lambda>e. entry_in_range e start end) es))"
    have "int64 (f sm') = int64 (int64 (f (add_entry (en_type e) cents sm)) + ?S)"
      using Cons.IH [OF rest] by simp
    also have "\<dots> = int64 (f sm + d (en_type e) cents + ?S)" by (simp add: step)
    finally show ?thesis using True c by (simp add: cents_of_def add.assoc)
  next
    case False
    then show ?thesis using Cons by simp
  qed
qed simp

lemma sum_selected:
  "sum_list (map (\<lambda>e. if P (en_type e) then cents_of currency rates e else 0) es) = total P currency rates es"
  by (induction es) (simp_all add: total_Cons)

lemma sum_count:
  "sum_list (map (\<lambda>e. if Q e then 1 else 0) es) = int (length (filter Q es))"
  by (induction es) simp_all

text \<open>The totals of the loop, from any starting point, in 64 bits.\<close>

lemma add_entries_totals:
  assumes run: "add_entries start end currency rates es sm = Inr sm'"
    and es': "es' = filter (\<lambda>e. entry_in_range e start end) es"
  shows "int64 (sm_income_cents sm') = int64 (sm_income_cents sm + total income_type currency rates es')"
    and "int64 (sm_expense_cents sm') = int64 (sm_expense_cents sm + total expense_type currency rates es')"
    and "int64 (sm_refund_cents sm') = int64 (sm_refund_cents sm + total refund_type currency rates es')"
    and "int64 (sm_balance_cents sm') = int64 (sm_balance_cents sm + (total income_type currency rates es' +
      total refund_type currency rates es' - total expense_type currency rates es'))"
    and "int64 (sm_entry_count sm') = int64 (sm_entry_count sm + int (length es'))"
    and "int64 (sm_transfer_count sm') = int64 (sm_transfer_count sm +
      int (length (filter (\<lambda>e. en_type e = EntryTypeTransfer) es')))"
proof -
  show "int64 (sm_income_cents sm') = int64 (sm_income_cents sm + total income_type currency rates es')"
    using add_entries_field [where f = sm_income_cents and d = "\<lambda>t c. if income_type t then c else 0", OF _ run]
    unfolding sum_selected es' by (auto simp: add_entry_def income_type_def Let_def split: entry_type.splits)
  show "int64 (sm_expense_cents sm') = int64 (sm_expense_cents sm + total expense_type currency rates es')"
    using add_entries_field [where f = sm_expense_cents and d = "\<lambda>t c. if expense_type t then c else 0", OF _ run]
    unfolding sum_selected es' by (auto simp: add_entry_def expense_type_def Let_def split: entry_type.splits)
  show "int64 (sm_refund_cents sm') = int64 (sm_refund_cents sm + total refund_type currency rates es')"
    using add_entries_field [where f = sm_refund_cents and d = "\<lambda>t c. if refund_type t then c else 0", OF _ run]
    unfolding sum_selected es' by (auto simp: add_entry_def refund_type_def Let_def split: entry_type.splits)
  show "int64 (sm_entry_count sm') = int64 (sm_entry_count sm + int (length es'))"
    using add_entries_field [where f = sm_entry_count and d = "\<lambda>t c. 1", OF _ run]
    unfolding es' by (auto simp: add_entry_def Let_def sum_list_triv split: entry_type.splits)
  show "int64 (sm_transfer_count sm') = int64 (sm_transfer_count sm +
      int (length (filter (\<lambda>e. en_type e = EntryTypeTransfer) es')))"
    using add_entries_field [where f = sm_transfer_count and d = "\<lambda>t c. if t = EntryTypeTransfer then 1 else 0", OF _ run]
    unfolding sum_count es' by (auto simp: add_entry_def Let_def split: entry_type.splits)
  let ?d = "\<lambda>t c. (if income_type t then c else 0) + (if refund_type t then c else 0) - (if expense_type t then c else 0)"
  have "sum_list (map (\<lambda>e. ?d (en_type e) (cents_of currency rates e)) xs) =
      total income_type currency rates xs + total refund_type currency rates xs - total expense_type currency rates xs" for xs
    by (induction xs) (simp_all add: total_Cons)
  then show "int64 (sm_balance_cents sm') = int64 (sm_balance_cents sm + (total income_type currency rates es' +
      total refund_type currency rates es' - total expense_type currency rates es'))"
    using add_entries_field [where f = sm_balance_cents and d = ?d, OF _ run]
    unfolding es' by (auto simp: add_entry_def income_type_def refund_type_def expense_type_def Let_def
        split: entry_type.splits)
qed

text \<open>The fields stay 64-bit numbers, and the order of the entries does not matter.\<close>

definition wrapped :: "summary \<Rightarrow> bool" where
  "wrapped sm \<longleftrightarrow> list_all (\<lambda>x. int64 x = x) [sm_income_cents sm, sm_expense_cents sm, sm_refund_cents sm,
     sm_balance_cents sm, sm_entry_count sm, sm_transfer_count sm]"

lemma add_entry_wrapped: "wrapped sm \<Longrightarrow> wrapped (add_entry t cents sm)"
  by (cases t) (simp_all add: wrapped_def add_entry_def Let_def)

lemma add_entries_wrapped:
  "add_entries start end currency rates es sm = Inr sm' \<Longrightarrow> wrapped sm \<Longrightarrow> wrapped sm'"
proof (induction es arbitrary: sm)
  case (Cons e es)
  then show ?case by (auto simp: rbind_Inr_iff add_entry_wrapped split: if_splits)
qed simp

lemma add_entries_currency:
  "add_entries start end currency rates es sm = Inr sm' \<Longrightarrow> sm_currency sm' = sm_currency sm"
proof (induction es arbitrary: sm)
  case (Cons e es)
  have "sm_currency (add_entry t c x) = sm_currency x" for t c x
    by (cases t) (simp_all add: add_entry_def Let_def)
  with Cons show ?case by (auto simp: rbind_Inr_iff split: if_splits)
qed simp

lemma total_perm: "mset xs = mset ys \<Longrightarrow> total P currency rates xs = total P currency rates ys"
proof -
  have "total P currency rates zs = sum_mset (image_mset (cents_of currency rates) (filter_mset (\<lambda>e. P (en_type e)) (mset zs)))"
    for zs by (simp add: total_def sum_mset_sum_list flip: mset_map mset_filter)
  then show "mset xs = mset ys \<Longrightarrow> ?thesis" by simp
qed

lemma add_entries_convert:
  "add_entries start end currency rates es sm = Inr sm' \<Longrightarrow> e \<in> set es \<Longrightarrow> entry_in_range e start end \<Longrightarrow>
   is_ok (entry_amount_in_currency_cents e currency rates)"
proof (induction es arbitrary: sm)
  case (Cons x es)
  then show ?case by (auto simp: rbind_Inr_iff split: if_splits)
qed simp

end
