(* ===== verification/Ledger_Frames.thy ===== *)
theory Ledger_Frames
  imports Ledger_Summary
begin

text \<open>
  What each handler may change: relations between the state before and after that hold of every run,
  proved by rules that follow the shape of the handler. They carry the invariants of
  \<open>Ledger_Steps\<close> over the parts of the store a handler leaves alone.
\<close>

section \<open>What an operation may change\<close>

text \<open>
  A reflexive and transitive relation between the state before and after. An operation obeys it
  when all its runs do; the rules follow the shape of the operation, like those of \<open>fails_clean\<close>.
\<close>

locale write_relation =
  fixes R :: "'s \<Rightarrow> 's \<Rightarrow> bool"
  assumes refl: "R s s" and trans: "R s t \<Longrightarrow> R t u \<Longrightarrow> R s u"
begin

definition obeys :: "('s, 'e, 'a) act \<Rightarrow> bool" where
  "obeys m \<longleftrightarrow> (\<forall>s r t. m s = (r, t) \<longrightarrow> R s t)"

lemma obeysI: "(\<And>s r t. m s = (r, t) \<Longrightarrow> R s t) \<Longrightarrow> obeys m"
  by (simp add: obeys_def)

lemma obeysD: "obeys m \<Longrightarrow> m s = (r, t) \<Longrightarrow> R s t"
  by (simp add: obeys_def)

lemma obeys_bind: "obeys m \<Longrightarrow> (\<And>x. obeys (f x)) \<Longrightarrow> obeys (abind m f)"
  unfolding obeys_def abind_def by (fastforce split: prod.splits sum.splits intro: trans)

lemma obeys_basic:
  "obeys (aret x)" "obeys (afail e)" "obeys (aread f)" "obeys (aguard b e)"
  by (auto simp: obeys_def refl)

lemma obeys_prod: "(\<And>a b. obeys (f a b)) \<Longrightarrow> obeys (case p of (a, b) \<Rightarrow> f a b)"
  by (cases p) simp

lemma obeys_cases:
  "(\<And>x. obeys (f x)) \<Longrightarrow> (\<And>y. obeys (g y)) \<Longrightarrow> obeys (case r of Inl x \<Rightarrow> f x | Inr y \<Rightarrow> g y)"
  "obeys h \<Longrightarrow> (\<And>z. obeys (k z)) \<Longrightarrow> obeys (case q of None \<Rightarrow> h | Some z \<Rightarrow> k z)"
  by (simp_all split: sum.split option.split)

lemma obeys_if: "obeys m \<Longrightarrow> obeys n \<Longrightarrow> obeys (if b then m else n)"
  by simp

lemmas rules = obeys_bind obeys_basic obeys_prod obeys_cases obeys_if

end

text \<open>Well-formedness is kept; every write of the store keeps it, so every handler does.\<close>

interpretation store_kept: write_relation "\<lambda>s t. store_ok s \<longrightarrow> store_ok t"
  by unfold_locales auto

lemma store_writes_kept:
  "store_kept.obeys (st_create_book b owner cs)" "store_kept.obeys (st_create_book_member m)"
  "store_kept.obeys (st_update_book_member m)" "store_kept.obeys (st_delete_book_member bi ui)"
  "store_kept.obeys (st_update_book b)" "store_kept.obeys (st_create_entry parse e)"
  "store_kept.obeys (st_update_entry e)" "store_kept.obeys (st_delete_entry bi ei)"
  "store_kept.obeys (st_create_category c)" "store_kept.obeys (st_update_category c)"
  "store_kept.obeys (st_create_account_group g)" "store_kept.obeys (st_update_account_group g)"
  "store_kept.obeys (st_create_account a)" "store_kept.obeys (st_update_account a)"
  "store_kept.obeys (st_replace_exchange_rates rs)"
  by (rule store_kept.obeysI, rule impI, erule store_keeps, assumption)+

text \<open>
  The same for the parts of the store a handler leaves alone. \<open>books_kept\<close>: writes to books and members
  that lose no book; \<open>entries_only\<close>, \<open>groups_only\<close>, \<open>accounts_only\<close>, \<open>rates_only\<close>: writes to one table,
  where account groups and accounts keep their ids and owners.
\<close>

definition books_only :: "memory_store \<Rightarrow> memory_store \<Rightarrow> bool" where
  "books_only s t \<longleftrightarrow> ms_entries t = ms_entries s \<and> ms_categories t = ms_categories s \<and>
     ms_groups t = ms_groups s \<and> ms_accounts t = ms_accounts s \<and> ms_rates t = ms_rates s \<and>
     (\<forall>b. book_at s b \<noteq> None \<longrightarrow> book_at t b \<noteq> None)"

interpretation books_kept: write_relation books_only
  by unfold_locales (auto simp: books_only_def)

lemma book_writes_kept:
  "books_kept.obeys (st_create_book_member m)" "books_kept.obeys (st_update_book_member m)"
  "books_kept.obeys (st_delete_book_member bi ui)" "books_kept.obeys (st_update_book b)"
  by (auto intro!: books_kept.obeysI simp: books_only_def store_writes Let_def book_at_def update_conv'
      split: if_splits option.splits)

lemma book_handlers_kept:
  "books_kept.obeys (update_book ubr now)" "books_kept.obeys (add_book_member amr now)"
  "books_kept.obeys (update_book_member_role umr now)" "books_kept.obeys (remove_book_member rmr now)"
  unfolding update_book_def add_book_member_def update_book_member_role_def remove_book_member_def
    reconcile_primary_owner_def Let_def
  by (rule book_writes_kept books_kept.rules)+

text \<open>The other handlers write one table only: outside of it the states agree.\<close>

definition not_entries :: "memory_store \<Rightarrow> memory_store" where
  "not_entries s = s\<lparr>ms_entries := []\<rparr>"
definition not_groups :: "memory_store \<Rightarrow> memory_store" where
  "not_groups s = s\<lparr>ms_groups := []\<rparr>"
definition not_accounts :: "memory_store \<Rightarrow> memory_store" where
  "not_accounts s = s\<lparr>ms_accounts := []\<rparr>"
definition not_rates :: "memory_store \<Rightarrow> memory_store" where
  "not_rates s = s\<lparr>ms_rates := []\<rparr>"
definition not_books :: "memory_store \<Rightarrow> memory_store" where
  "not_books s = s\<lparr>ms_books := [], ms_members := [], ms_categories := []\<rparr>"

definition same_part :: "(memory_store \<Rightarrow> memory_store) \<Rightarrow> memory_store \<Rightarrow> memory_store \<Rightarrow> bool" where
  "same_part f s t \<longleftrightarrow> f t = f s"

lemmas part_defs = same_part_def not_entries_def not_groups_def not_accounts_def not_rates_def not_books_def

interpretation part: write_relation "same_part f" for f
  by unfold_locales (auto simp: same_part_def)

lemma writes_parts:
  "part.obeys not_entries (st_create_entry parse e)" "part.obeys not_entries (st_update_entry e)"
  "part.obeys not_entries (st_delete_entry bi ei)"
  "part.obeys not_groups (st_create_account_group g)" "part.obeys not_groups (st_update_account_group g)"
  "part.obeys not_accounts (st_create_account a)" "part.obeys not_accounts (st_update_account a)"
  "part.obeys not_rates (st_replace_exchange_rates rs)" "part.obeys not_books (st_create_book b owner cs)"
  by (rule part.obeysI; auto simp: part_defs store_writes Let_def split: if_splits option.splits sum.splits)+

lemma handlers_parts:
  "part.obeys not_entries (create_entry parse other cer new_id now)"
  "part.obeys not_entries (update_entry other uer now)"
  "part.obeys not_entries (delete_entry a b i)"
  "part.obeys not_groups (create_account_group cgr fresh now)"
  "part.obeys not_groups (update_account_group ugr now)"
  "part.obeys not_accounts (create_account car fresh now)"
  "part.obeys not_accounts (unshare_account uar now)"
  "part.obeys not_books (create_book cbr fresh now cs)"
  unfolding create_entry_def update_entry_def delete_entry_def create_account_group_def
    update_account_group_def create_account_def unshare_account_def create_book_def Let_def
  by (rule writes_parts part.rules)+

lemma refresh_parts: "part.obeys not_rates (refresh_exchange_rates fetcher)"
  by (auto intro!: part.obeysI simp: refresh_exchange_rates_def st_replace_exchange_rates_def part_defs
      split: option.splits sum.splits)

lemma handlers_store:
  "store_kept.obeys (create_entry parse other cer new_id now)"
  "store_kept.obeys (update_entry other uer now)"
  "store_kept.obeys (delete_entry a b i)"
  "store_kept.obeys (create_account_group cgr fresh now)"
  "store_kept.obeys (update_account_group ugr now)"
  "store_kept.obeys (create_account car fresh now)"
  "store_kept.obeys (unshare_account uar now)"
  unfolding create_entry_def update_entry_def delete_entry_def create_account_group_def
    update_account_group_def create_account_def unshare_account_def Let_def
  by (rule store_writes_kept store_kept.rules)+

lemma part_iffs:
  "same_part not_entries s t \<longleftrightarrow> ms_books t = ms_books s \<and> ms_members t = ms_members s \<and> ms_categories t = ms_categories s \<and> ms_groups t = ms_groups s \<and> ms_accounts t = ms_accounts s \<and> ms_rates t = ms_rates s"
  "same_part not_groups s t \<longleftrightarrow> ms_books t = ms_books s \<and> ms_members t = ms_members s \<and> ms_entries t = ms_entries s \<and> ms_categories t = ms_categories s \<and> ms_accounts t = ms_accounts s \<and> ms_rates t = ms_rates s"
  "same_part not_accounts s t \<longleftrightarrow> ms_books t = ms_books s \<and> ms_members t = ms_members s \<and> ms_entries t = ms_entries s \<and> ms_categories t = ms_categories s \<and> ms_groups t = ms_groups s \<and> ms_rates t = ms_rates s"
  "same_part not_rates s t \<longleftrightarrow> ms_books t = ms_books s \<and> ms_members t = ms_members s \<and> ms_entries t = ms_entries s \<and> ms_categories t = ms_categories s \<and> ms_groups t = ms_groups s \<and> ms_accounts t = ms_accounts s"
  "same_part not_books s t \<longleftrightarrow> ms_entries t = ms_entries s \<and> ms_groups t = ms_groups s \<and> ms_accounts t = ms_accounts s \<and> ms_rates t = ms_rates s"
  by (cases s; cases t; auto simp: part_defs)+

text \<open>The invariants over the parts they read.\<close>

lemma books_ok_frame:
  assumes "books_ok s" and "store_ok t" and "ms_books t = ms_books s" and "ms_members t = ms_members s"
  shows "books_ok t"
proof -
  have "book_at t = book_at s" "member_at t = member_at s"
    using assms(3,4) by (simp_all add: book_at_def member_at_def fun_eq_iff)
  then show ?thesis using assms by (simp add: books_ok_def ownership_ok_def members_have_books_def)
qed

end
