(* ===== verification/Ledger_Seed.thy ===== *)
theory Ledger_Seed
  imports Ledger_Summary
begin

text \<open>
  The default categories of a new book and the demo data (\<open>ledger/seed.go\<close>), with the proof that
  creating a book with them keeps every category tree a forest.
\<close>

section \<open>Default categories\<close>

datatype category_spec = Spec (sp_key: string) (sp_parent_key: string) (sp_name: string)
  (sp_direction: category_direction) (sp_sort_order: int)

definition default_category_specs :: "category_spec list" where
  "default_category_specs =
     [Spec ''expense-food'' [] ''Food & Dining'' CategoryDirectionExpense 100,
      Spec ''expense-food-breakfast'' ''expense-food'' ''Breakfast'' CategoryDirectionExpense 110,
      Spec ''expense-food-lunch'' ''expense-food'' ''Lunch'' CategoryDirectionExpense 120,
      Spec ''expense-food-dinner'' ''expense-food'' ''Dinner'' CategoryDirectionExpense 130,
      Spec ''expense-food-coffee'' ''expense-food'' ''Coffee & Drinks'' CategoryDirectionExpense 140,
      Spec ''expense-food-groceries'' ''expense-food'' ''Groceries'' CategoryDirectionExpense 150,
      Spec ''expense-food-snacks'' ''expense-food'' ''Snacks'' CategoryDirectionExpense 160,
      Spec ''expense-food-delivery'' ''expense-food'' ''Delivery'' CategoryDirectionExpense 170,
      Spec ''expense-transport'' [] ''Transportation'' CategoryDirectionExpense 200,
      Spec ''expense-transport-transit'' ''expense-transport'' ''Public Transit'' CategoryDirectionExpense 210,
      Spec ''expense-transport-taxi'' ''expense-transport'' ''Taxi & Ride Share'' CategoryDirectionExpense 220,
      Spec ''expense-transport-fuel'' ''expense-transport'' ''Fuel'' CategoryDirectionExpense 230,
      Spec ''expense-transport-parking'' ''expense-transport'' ''Parking'' CategoryDirectionExpense 240,
      Spec ''expense-transport-maintenance'' ''expense-transport'' ''Vehicle Maintenance'' CategoryDirectionExpense 250,
      Spec ''expense-transport-tolls'' ''expense-transport'' ''Tolls'' CategoryDirectionExpense 260,
      Spec ''expense-shopping'' [] ''Shopping'' CategoryDirectionExpense 300,
      Spec ''expense-shopping-clothing'' ''expense-shopping'' ''Clothing & Shoes'' CategoryDirectionExpense 310,
      Spec ''expense-shopping-home'' ''expense-shopping'' ''Home Goods'' CategoryDirectionExpense 320,
      Spec ''expense-shopping-electronics'' ''expense-shopping'' ''Electronics'' CategoryDirectionExpense 330,
      Spec ''expense-shopping-gifts'' ''expense-shopping'' ''Gifts'' CategoryDirectionExpense 340,
      Spec ''expense-shopping-personal'' ''expense-shopping'' ''Personal Care'' CategoryDirectionExpense 350,
      Spec ''expense-shopping-kids'' ''expense-shopping'' ''Baby & Kids'' CategoryDirectionExpense 360,
      Spec ''expense-home'' [] ''Housing & Utilities'' CategoryDirectionExpense 400,
      Spec ''expense-home-rent'' ''expense-home'' ''Rent or Mortgage'' CategoryDirectionExpense 410,
      Spec ''expense-home-utilities'' ''expense-home'' ''Utilities'' CategoryDirectionExpense 420,
      Spec ''expense-home-internet'' ''expense-home'' ''Internet'' CategoryDirectionExpense 430,
      Spec ''expense-home-phone'' ''expense-home'' ''Phone'' CategoryDirectionExpense 440,
      Spec ''expense-home-repairs'' ''expense-home'' ''Repairs'' CategoryDirectionExpense 450,
      Spec ''expense-home-property'' ''expense-home'' ''Property Fees'' CategoryDirectionExpense 460,
      Spec ''expense-health'' [] ''Health'' CategoryDirectionExpense 500,
      Spec ''expense-health-medical'' ''expense-health'' ''Medical'' CategoryDirectionExpense 510,
      Spec ''expense-health-pharmacy'' ''expense-health'' ''Pharmacy'' CategoryDirectionExpense 520,
      Spec ''expense-health-fitness'' ''expense-health'' ''Fitness'' CategoryDirectionExpense 530,
      Spec ''expense-health-insurance'' ''expense-health'' ''Insurance'' CategoryDirectionExpense 540,
      Spec ''expense-life'' [] ''Life & Entertainment'' CategoryDirectionExpense 600,
      Spec ''expense-life-movies'' ''expense-life'' ''Movies & Shows'' CategoryDirectionExpense 610,
      Spec ''expense-life-games'' ''expense-life'' ''Games'' CategoryDirectionExpense 620,
      Spec ''expense-life-travel'' ''expense-life'' ''Travel'' CategoryDirectionExpense 630,
      Spec ''expense-life-hobbies'' ''expense-life'' ''Hobbies'' CategoryDirectionExpense 640,
      Spec ''expense-life-subscriptions'' ''expense-life'' ''Subscriptions'' CategoryDirectionExpense 650,
      Spec ''expense-work'' [] ''Work & Study'' CategoryDirectionExpense 700,
      Spec ''expense-work-office'' ''expense-work'' ''Office Supplies'' CategoryDirectionExpense 710,
      Spec ''expense-work-books'' ''expense-work'' ''Books'' CategoryDirectionExpense 720,
      Spec ''expense-work-training'' ''expense-work'' ''Training'' CategoryDirectionExpense 730,
      Spec ''expense-work-travel'' ''expense-work'' ''Business Travel'' CategoryDirectionExpense 740,
      Spec ''expense-finance'' [] ''Finance & Giving'' CategoryDirectionExpense 800,
      Spec ''expense-finance-fees'' ''expense-finance'' ''Bank Fees'' CategoryDirectionExpense 810,
      Spec ''expense-finance-interest'' ''expense-finance'' ''Interest Paid'' CategoryDirectionExpense 820,
      Spec ''expense-finance-taxes'' ''expense-finance'' ''Taxes'' CategoryDirectionExpense 830,
      Spec ''expense-finance-charity'' ''expense-finance'' ''Charity'' CategoryDirectionExpense 840,
      Spec ''income-work'' [] ''Work Income'' CategoryDirectionIncome 1000,
      Spec ''income-work-salary'' ''income-work'' ''Salary'' CategoryDirectionIncome 1010,
      Spec ''income-work-bonus'' ''income-work'' ''Bonus'' CategoryDirectionIncome 1020,
      Spec ''income-work-freelance'' ''income-work'' ''Freelance'' CategoryDirectionIncome 1030,
      Spec ''income-work-reimbursement'' ''income-work'' ''Reimbursement'' CategoryDirectionIncome 1040,
      Spec ''income-work-benefits'' ''income-work'' ''Benefits'' CategoryDirectionIncome 1050,
      Spec ''income-investment'' [] ''Investment Income'' CategoryDirectionIncome 1100,
      Spec ''income-investment-interest'' ''income-investment'' ''Interest'' CategoryDirectionIncome 1110,
      Spec ''income-investment-dividends'' ''income-investment'' ''Dividends'' CategoryDirectionIncome 1120,
      Spec ''income-investment-gains'' ''income-investment'' ''Capital Gains'' CategoryDirectionIncome 1130,
      Spec ''income-other'' [] ''Other Income'' CategoryDirectionIncome 1200,
      Spec ''income-other-gifts'' ''income-other'' ''Gifts Received'' CategoryDirectionIncome 1210,
      Spec ''income-other-refunds'' ''income-other'' ''Refunds'' CategoryDirectionIncome 1220,
      Spec ''income-other-cashback'' ''income-other'' ''Cashback'' CategoryDirectionIncome 1230,
      Spec ''income-other-misc'' ''income-other'' ''Other Income'' CategoryDirectionIncome 1240]"

text \<open>
  \<open>idFor\<close> is called once per key, so what it returns is a function of the key. The map of ids reads
  as the empty string for the missing parent key of a root.
\<close>

definition spec_id :: "(string \<Rightarrow> string) \<Rightarrow> string \<Rightarrow> string" where
  "spec_id id_for key = (if list_ex (\<lambda>sp. sp_key sp = key) default_category_specs then id_for key else [])"

definition default_book_categories :: "string \<Rightarrow> time \<Rightarrow> (string \<Rightarrow> string) \<Rightarrow> category list" where
  "default_book_categories book_id now id_for =
     map (\<lambda>sp. \<lparr>ct_id = spec_id id_for (sp_key sp), ct_book_id = book_id,
        ct_parent_id = spec_id id_for (sp_parent_key sp), ct_name = sp_name sp,
        ct_direction = sp_direction sp, ct_sort_order = sp_sort_order sp, ct_archived = False,
        ct_raw_source_name = [], ct_created_at = now, ct_updated_at = now\<rparr>) default_category_specs"

text \<open>
  The table: keys are unique, and a parent is a root of the same direction.
\<close>

lemma specs_distinct: "distinct (map sp_key default_category_specs)"
  by code_simp

lemma specs_parents:
  "list_all (\<lambda>sp. sp_parent_key sp = [] \<or>
     list_ex (\<lambda>r. sp_key r = sp_parent_key sp \<and> sp_parent_key r = [] \<and> sp_direction r = sp_direction sp)
       default_category_specs) default_category_specs"
  by code_simp

lemma specs_keys: "list_all (\<lambda>sp. sp_key sp \<noteq> []) default_category_specs"
  by code_simp

lemma spec_id_key [simp]: "sp \<in> set default_category_specs \<Longrightarrow> spec_id id_for (sp_key sp) = id_for (sp_key sp)"
  by (auto simp: spec_id_def list_ex_iff)

lemma spec_id_Nil [simp]: "spec_id id_for [] = []"
  using specs_keys by (auto simp: spec_id_def list_ex_iff list_all_iff)

text \<open>The categories made from the table: two levels, directions agree with the parent.\<close>

lemma default_categories_parents:
  assumes "c \<in> set (default_book_categories b now id_for)"
  shows "ct_parent_id c = [] \<or> (\<exists>p \<in> set (default_book_categories b now id_for).
    ct_id p = ct_parent_id c \<and> ct_parent_id p = [] \<and> ct_direction p = ct_direction c)"
proof -
  from assms obtain sp where sp: "sp \<in> set default_category_specs"
    and c: "ct_parent_id c = spec_id id_for (sp_parent_key sp)" "ct_direction c = sp_direction sp"
    by (auto simp: default_book_categories_def)
  from sp specs_parents consider "sp_parent_key sp = []"
    | r where "r \<in> set default_category_specs" "sp_key r = sp_parent_key sp" "sp_parent_key r = []"
        "sp_direction r = sp_direction sp"
    by (auto simp: list_all_iff list_ex_iff)
  then show ?thesis
  proof cases
    case 1
    then show ?thesis by (simp add: c)
  next
    case 2
    define row where "row = (\<lambda>sp. \<lparr>ct_id = id_for (sp_key sp), ct_book_id = b,
      ct_parent_id = spec_id id_for (sp_parent_key sp), ct_name = sp_name sp,
      ct_direction = sp_direction sp, ct_sort_order = sp_sort_order sp, ct_archived = False,
      ct_raw_source_name = [], ct_created_at = now, ct_updated_at = now\<rparr>)"
    from 2 have "ct_id (row r) = ct_parent_id c \<and> ct_parent_id (row r) = [] \<and> ct_direction (row r) = ct_direction c"
      by (simp add: row_def c flip: 2(2))
    moreover have "row r \<in> set (default_book_categories b now id_for)"
      using 2(1) by (simp add: default_book_categories_def row_def)
    ultimately show ?thesis by blast
  qed
qed

lemma default_categories_two_levels:
  assumes "\<And>k. trim_space (id_for k) = id_for k"
  shows "\<forall>c \<in> set (default_book_categories b now id_for). trim_space (ct_parent_id c) = [] \<or>
      (\<exists>p \<in> set (default_book_categories b now id_for).
        ct_id p = trim_space (ct_parent_id c) \<and> trim_space (ct_parent_id p) = [])"
proof
  fix c assume c: "c \<in> set (default_book_categories b now id_for)"
  then have "trim_space (ct_parent_id c) = ct_parent_id c"
    using assms by (auto simp: default_book_categories_def spec_id_def)
  then show "trim_space (ct_parent_id c) = [] \<or> (\<exists>p \<in> set (default_book_categories b now id_for).
        ct_id p = trim_space (ct_parent_id c) \<and> trim_space (ct_parent_id p) = [])"
    using default_categories_parents [OF c] by auto
qed

text \<open>With fresh ids the store accepts them.\<close>

lemma check_default_categories_pass:
  "\<forall>c \<in> set cs. ct_book_id c = b \<Longrightarrow> distinct (map ct_id cs) \<Longrightarrow>
   ct_id ` set cs \<inter> (set seen \<union> ct_id ` set existing) = {} \<Longrightarrow>
   check_default_categories b existing seen cs = Inr ()"
proof (induction cs arbitrary: seen)
  case (Cons a cs)
  from Cons.prems(3) have fresh: "ct_id a \<notin> ct_id ` set existing" by auto
  have "\<not> list_ex (\<lambda>e. ct_id e = ct_id a) existing"
  proof
    assume "list_ex (\<lambda>e. ct_id e = ct_id a) existing"
    then obtain e where e: "e \<in> set existing" "ct_id e = ct_id a" by (auto simp: list_ex_iff)
    from imageI [OF e(1), of ct_id] have "ct_id a \<in> ct_id ` set existing" by (simp only: e(2))
    with fresh show False by blast
  qed
  moreover have "check_default_categories b existing (ct_id a # seen) cs = Inr ()"
    by (rule Cons.IH) (use Cons.prems in auto)
  ultimately show ?case using Cons.prems by simp
qed simp

lemma default_categories_ids:
  assumes "inj_on id_for (sp_key ` set default_category_specs)"
  shows "distinct (map ct_id (default_book_categories b now id_for))"
proof -
  have "map ct_id (default_book_categories b now id_for) = map (id_for \<circ> sp_key) default_category_specs"
    by (simp add: default_book_categories_def)
  then show ?thesis using assms specs_distinct by (simp add: distinct_map comp_inj_on)
qed

section \<open>Demo data\<close>

text \<open>1 July 2026, 0:00 UTC: 739797 days after 1 January of year 1.\<close>

definition demo_time :: time where
  "demo_time = 739797 * day"

definition demo_member :: "string \<Rightarrow> role \<Rightarrow> string \<Rightarrow> book_member" where
  "demo_member user r name =
     \<lparr>bm_book_id = ''book-household'', bm_user_id = user, bm_role = r, bm_display_name = name,
      bm_created_at = demo_time, bm_updated_at = demo_time\<rparr>"

definition demo_seed_data :: seed_data where
  "demo_seed_data =
     \<lparr>sd_books = [\<lparr>bk_id = ''book-household'', bk_owner_user_id = ''user-owner'', bk_name = ''Household'',
         bk_reporting_currency = ''USD'', bk_created_at = demo_time, bk_updated_at = demo_time\<rparr>],
      sd_members = [demo_member ''user-owner'' RoleOwner ''Owner'', demo_member ''user-member'' RoleMember ''Member'',
         demo_member ''user-admin'' RoleAdministrator ''Administrator'',
         demo_member ''user-viewer'' RoleViewer ''Viewer''],
      sd_categories = default_book_categories ''book-household'' demo_time (\<lambda>key. ''cat-'' @ key),
      sd_groups = [\<lparr>ag_id = ''group-cash'', ag_user_id = ''user-owner'', ag_name = ''Cash'', ag_sort_order = 10,
           ag_created_at = demo_time, ag_updated_at = demo_time\<rparr>,
         \<lparr>ag_id = ''group-cards'', ag_user_id = ''user-member'', ag_name = ''Cards'', ag_sort_order = 20,
           ag_created_at = demo_time, ag_updated_at = demo_time\<rparr>],
      sd_accounts = [\<lparr>ac_id = ''acct-cash'', ac_user_id = ''user-owner'', ac_group_id = ''group-cash'',
           ac_name = ''Cash'', ac_type = AccountTypeCash, ac_currency = ''USD'', ac_shared_book_ids = [],
           ac_opening_balance = 0, ac_created_at = demo_time, ac_updated_at = demo_time\<rparr>,
         \<lparr>ac_id = ''acct-shared-card'', ac_user_id = ''user-member'', ac_group_id = ''group-cards'',
           ac_name = ''Shared card'', ac_type = AccountTypeCreditCard, ac_currency = ''USD'',
           ac_shared_book_ids = [''book-household''], ac_opening_balance = 0,
           ac_created_at = demo_time, ac_updated_at = demo_time\<rparr>],
      sd_entries = [\<lparr>en_id = ''019017f6-d300-7cc7-8d6d-5f73391f9bb1'', en_book_id = ''book-household'',
           en_creator_user_id = ''user-owner'', en_type = EntryTypeIncome, en_account_id = ''acct-cash'',
           en_destination_account_id = [], en_category_id = ''cat-income-work-salary'', en_amount_cents = 0,
           en_transaction_currency = ''USD'', en_account_currency = ''USD'',
           en_book_reporting_currency = ''USD'', en_exchange_rate = [], en_occurred_at = demo_time,
           en_note = ''Opening balance'', en_merchant = [], en_tags = [], en_raw_source = [],
           en_created_at = demo_time, en_updated_at = demo_time\<rparr>],
      sd_rates = default_exchange_rates demo_time\<rparr>"

definition demo_store :: memory_store where
  "demo_store = new_memory_store demo_seed_data"

end
