(* ===== verification/Ledger_Steps.thy ===== *)
theory Ledger_Steps
  imports Ledger_Frames Ledger_Seed
begin

text \<open>
  The service as a transition system. A request that changes state is a step of \<open>ledger_step\<close>,
  whatever its outcome; \<open>ledger_ok\<close> is the invariant of the whole store, and every store reached from
  one that satisfies it satisfies it too.
\<close>

section \<open>The invariant\<close>

definition accounts_ok :: "memory_store \<Rightarrow> bool" where
  "accounts_ok s \<longleftrightarrow> list_all (\<lambda>a. account_wf a \<and> (ac_group_id a = [] \<or>
     list_ex (\<lambda>g. ag_id g = ac_group_id a \<and> ag_user_id g = ac_user_id a) (ms_groups s))) (ms_accounts s)"

text \<open>What an entry refers to exists.\<close>

definition entry_refs :: "memory_store \<Rightarrow> entry \<Rightarrow> bool" where
  "entry_refs s e \<longleftrightarrow> book_at s (en_book_id e) \<noteq> None \<and>
     list_ex (\<lambda>a. ac_id a = en_account_id e) (ms_accounts s) \<and>
     (en_destination_account_id e = [] \<or>
        list_ex (\<lambda>a. ac_id a = en_destination_account_id e) (ms_accounts s)) \<and>
     (en_category_id e = [] \<or>
        list_ex (\<lambda>c. ct_book_id c = en_book_id e \<and> ct_id c = en_category_id e) (ms_categories s))"

definition entries_ok :: "memory_store \<Rightarrow> bool" where
  "entries_ok s \<longleftrightarrow> list_all (\<lambda>e. entry_wf e \<and> entry_refs s e) (ms_entries s)"

definition ledger_ok :: "memory_store \<Rightarrow> bool" where
  "ledger_ok s \<longleftrightarrow> books_ok s \<and> tree_ok s \<and> accounts_ok s \<and> entries_ok s"

lemma ledger_okD:
  assumes "ledger_ok s"
  shows "store_ok s" "books_ok s" "tree_ok s" "accounts_ok s" "entries_ok s" "members_have_books s"
  using assms by (simp_all add: ledger_ok_def books_ok_def)

section \<open>The steps\<close>

text \<open>
  Time, new identifiers and fetched rates are chosen by the environment; the identifiers made for the
  default categories of a new book have no surrounding space, as those of \<open>uuid.NewString\<close>.
\<close>

inductive ledger_step ::
    "(string \<Rightarrow> string option) \<Rightarrow> (string \<Rightarrow> rat option) \<Rightarrow> memory_store \<Rightarrow> memory_store \<Rightarrow> bool"
  for parse other where
  create_book: "(\<And>k. trim_space (id_for k) = id_for k) \<Longrightarrow>
    create_book cbr fresh now (default_book_categories fresh now id_for) s = (r, t) \<Longrightarrow>
    ledger_step parse other s t"
| update_book: "update_book ubr now s = (r, t) \<Longrightarrow> ledger_step parse other s t"
| add_member: "add_book_member amr now s = (r, t) \<Longrightarrow> ledger_step parse other s t"
| update_role: "update_book_member_role umr now s = (r, t) \<Longrightarrow> ledger_step parse other s t"
| remove_member: "remove_book_member rmr now s = (r, t) \<Longrightarrow> ledger_step parse other s t"
| create_group: "create_account_group cgr fresh now s = (r, t) \<Longrightarrow> ledger_step parse other s t"
| update_group: "update_account_group ugr now s = (r, t) \<Longrightarrow> ledger_step parse other s t"
| create_account: "create_account car fresh now s = (r, t) \<Longrightarrow> ledger_step parse other s t"
| unshare_account: "unshare_account uar now s = (r, t) \<Longrightarrow> ledger_step parse other s t"
| create_category: "create_category ccr fresh now s = Some (r, t) \<Longrightarrow> ledger_step parse other s t"
| update_category: "update_category ucr now s = Some (r, t) \<Longrightarrow> ledger_step parse other s t"
| create_entry: "create_entry parse other cer new_id now s = (r, t) \<Longrightarrow> ledger_step parse other s t"
| update_entry: "update_entry other uer now s = (r, t) \<Longrightarrow> ledger_step parse other s t"
| delete_entry: "delete_entry a b i s = (r, t) \<Longrightarrow> ledger_step parse other s t"
| refresh: "refresh_exchange_rates fetcher s = (r, t) \<Longrightarrow> ledger_step parse other s t"

inductive_cases ledger_stepE: "ledger_step parse other s t"

section \<open>Each handler keeps it\<close>

lemma entry_refs_mono:
  assumes "entry_refs s e"
    and "\<And>b. book_at s b \<noteq> None \<Longrightarrow> book_at t b \<noteq> None"
    and "ac_id ` set (ms_accounts s) \<subseteq> ac_id ` set (ms_accounts t)"
    and "(\<lambda>c. (ct_book_id c, ct_id c)) ` set (ms_categories s) \<subseteq> (\<lambda>c. (ct_book_id c, ct_id c)) ` set (ms_categories t)"
  shows "entry_refs t e"
proof -
  have a: "list_ex (\<lambda>a. ac_id a = i) (ms_accounts u) \<longleftrightarrow> i \<in> ac_id ` set (ms_accounts u)" for i u
    by (auto simp: list_ex_iff)
  have c: "list_ex (\<lambda>c. ct_book_id c = b \<and> ct_id c = i) (ms_categories u) \<longleftrightarrow>
      (b, i) \<in> (\<lambda>c. (ct_book_id c, ct_id c)) ` set (ms_categories u)" for b i u
    by (auto simp: list_ex_iff)
  show ?thesis using assms unfolding entry_refs_def a c by blast
qed

lemma entries_ok_frame:
  assumes "entries_ok s" and "ms_entries t = ms_entries s"
    and "\<And>b. book_at s b \<noteq> None \<Longrightarrow> book_at t b \<noteq> None"
    and "ac_id ` set (ms_accounts s) \<subseteq> ac_id ` set (ms_accounts t)"
    and "(\<lambda>c. (ct_book_id c, ct_id c)) ` set (ms_categories s) \<subseteq> (\<lambda>c. (ct_book_id c, ct_id c)) ` set (ms_categories t)"
  shows "entries_ok t"
  using assms(1) entry_refs_mono [OF _ assms(3-5)] by (auto simp: entries_ok_def list_all_iff assms(2))

lemma accounts_ok_frame:
  "accounts_ok s \<Longrightarrow> ms_accounts t = ms_accounts s \<Longrightarrow> ms_groups t = ms_groups s \<Longrightarrow> accounts_ok t"
  by (simp add: accounts_ok_def)

text \<open>Books and members.\<close>

lemma books_only_step:
  assumes ok: "ledger_ok s" and frame: "books_only s t" and books: "books_ok t"
  shows "ledger_ok t"
proof -
  note parts = ledger_okD [OF ok]
  have same: "ms_entries t = ms_entries s" "ms_categories t = ms_categories s" "ms_groups t = ms_groups s"
    "ms_accounts t = ms_accounts s" and kept: "\<And>b. book_at s b \<noteq> None \<Longrightarrow> book_at t b \<noteq> None"
    using frame by (simp_all add: books_only_def)
  have "tree_ok t" by (rule tree_ok_frame [OF parts(3) same(2) kept])
  moreover have "entries_ok t" by (rule entries_ok_frame [OF parts(5) same(1) kept]) (simp_all add: same)
  moreover have "accounts_ok t" by (rule accounts_ok_frame [OF parts(4)]) (simp_all add: same)
  ultimately show ?thesis using books by (simp add: ledger_ok_def)
qed

lemma create_book_step:
  assumes ok: "ledger_ok s" and ids: "\<And>k. trim_space (id_for k) = id_for k"
    and run: "create_book request fresh now (default_book_categories fresh now id_for) s = (r, t)"
  shows "ledger_ok t"
proof (cases r)
  case (Inl e)
  then have "t = s" using run fails_cleanD [OF book_handlers_clean(1)] by blast
  then show ?thesis using ok by simp
next
  case (Inr item)
  note parts = ledger_okD [OF ok]
  from run Inr obtain b owner
    where w: "st_create_book b owner (default_book_categories fresh now id_for) s = (Inr (b, owner), t)"
    by (auto elim: create_book_writes)
  note eff = create_book_effect [OF w]
  have same: "ms_entries t = ms_entries s" "ms_groups t = ms_groups s" "ms_accounts t = ms_accounts s"
    using eff by simp_all
  have kept: "book_at t c \<noteq> None" if "book_at s c \<noteq> None" for c using that by (simp add: eff(4))
  have "books_ok t" by (rule create_book_keeps_books [OF parts(2) run])
  moreover have "tree_ok t"
    by (rule create_book_tree [OF parts(3) w]) (rule default_categories_two_levels [OF ids])
  moreover have "entries_ok t"
    by (rule entries_ok_frame [OF parts(5) same(1) kept]) (auto simp: same eff(7))
  moreover have "accounts_ok t" by (rule accounts_ok_frame [OF parts(4) same(3,2)])
  ultimately show ?thesis by (simp add: ledger_ok_def)
qed

text \<open>Categories: no row disappears, and the other tables stay.\<close>

lemma category_rows_step:
  assumes ok: "ledger_ok s" and tree: "tree_ok t" and store: "store_ok t"
    and same: "ms_books t = ms_books s" "ms_members t = ms_members s" "ms_entries t = ms_entries s"
      "ms_groups t = ms_groups s" "ms_accounts t = ms_accounts s"
    and rows: "(\<lambda>c. (ct_book_id c, ct_id c)) ` set (ms_categories s) \<subseteq> (\<lambda>c. (ct_book_id c, ct_id c)) ` set (ms_categories t)"
  shows "ledger_ok t"
proof -
  note parts = ledger_okD [OF ok]
  have "books_ok t" by (rule books_ok_frame [OF parts(2) store same(1,2)])
  moreover have "accounts_ok t" by (rule accounts_ok_frame [OF parts(4) same(5,4)])
  moreover have "entries_ok t"
    by (rule entries_ok_frame [OF parts(5) same(3) _ _ rows]) (simp_all add: same book_at_def)
  ultimately show ?thesis using tree by (simp add: ledger_ok_def)
qed

lemma create_category_step:
  assumes ok: "ledger_ok s" and run: "create_category request fresh now s = Some (r, t)"
  shows "ledger_ok t"
proof (cases r)
  case (Inl e)
  then show ?thesis using ok run create_category_failure by metis
next
  case (Inr c)
  note parts = ledger_okD [OF ok]
  from run Inr have run': "create_category request fresh now s = Some (Inr c, t)" by simp
  then have t: "t = s\<lparr>ms_categories := ms_categories s @ [c]\<rparr>" and new: "ct_id c \<notin> ct_id ` set (ms_categories s)"
    by (auto elim: create_category_success)
  have "store_ok t" using parts(1) new by (simp add: t store_ok_def)
  moreover have "tree_ok t" by (rule create_category_tree [OF parts(1,3,6) run])
  ultimately show ?thesis by (intro category_rows_step [OF ok]) (auto simp: t)
qed

lemma update_category_step:
  assumes ok: "ledger_ok s" and run: "update_category request now s = Some (r, t)"
  shows "ledger_ok t"
proof (cases r)
  case (Inl e)
  then show ?thesis using ok run update_category_failure by metis
next
  case (Inr c)
  note parts = ledger_okD [OF ok]
  from run Inr have w: "st_update_category c s = (Inr c, t)" by (auto elim: update_category_success)
  have d: "distinct (map ct_id (ms_categories s))" using parts(1) by (rule store_ok_distinct)
  from category_table.update_rows [OF d w] obtain z
    where z: "z \<in> set (ms_categories s)" "ct_id z = ct_id c" "ct_book_id z = ct_book_id c"
      and rows: "ms_categories t = map (\<lambda>y. if ct_id y = ct_id c then c else y) (ms_categories s)"
    by blast
  have same_row: "y = z" if "y \<in> set (ms_categories s)" "ct_id y = ct_id c" for y
    using d that z by (metis distinct_map inj_onD)
  have "(ct_book_id y, ct_id y) \<in> (\<lambda>c. (ct_book_id c, ct_id c)) ` set (ms_categories t)"
    if y: "y \<in> set (ms_categories s)" for y
  proof (cases "ct_id y = ct_id c")
    case True
    then have "y = z" by (rule same_row [OF y])
    moreover have "c \<in> set (ms_categories t)" using y True by (auto simp: rows)
    ultimately show ?thesis using z by (metis (mono_tags, lifting) image_eqI)
  next
    case False
    then have "y \<in> set (ms_categories t)" using y by (auto simp: rows)
    then show ?thesis by (rule imageI)
  qed
  then have sub: "(\<lambda>c. (ct_book_id c, ct_id c)) ` set (ms_categories s) \<subseteq> (\<lambda>c. (ct_book_id c, ct_id c)) ` set (ms_categories t)"
    by blast
  have "tree_ok t" by (rule update_category_tree [OF parts(1,3) run])
  moreover have "store_ok t" by (rule category_writes_keep(2) [OF parts(1) w])
  moreover have "ms_books t = ms_books s" "ms_members t = ms_members s" "ms_entries t = ms_entries s"
    "ms_groups t = ms_groups s" "ms_accounts t = ms_accounts s"
    using w by (auto simp: st_update_category_def split: option.splits)
  ultimately show ?thesis by (intro category_rows_step [OF ok _ _ _ _ _ _ _ sub])
qed

text \<open>Entries.\<close>

lemma entries_rows_step:
  assumes ok: "ledger_ok s" and store: "store_ok t" and frame: "same_part not_entries s t"
    and rows: "\<And>e. e \<in> set (ms_entries t) \<Longrightarrow> e \<in> set (ms_entries s) \<or> entry_wf e \<and> entry_refs s e"
  shows "ledger_ok t"
proof -
  note parts = ledger_okD [OF ok]
  note same = frame [unfolded part_iffs]
  have "books_ok t" using same by (intro books_ok_frame [OF parts(2) store]) simp_all
  moreover have "tree_ok t" using same by (intro tree_ok_frame [OF parts(3)]) (simp_all add: book_at_def)
  moreover have "accounts_ok t" using same by (intro accounts_ok_frame [OF parts(4)]) simp_all
  moreover have "entry_refs t e \<longleftrightarrow> entry_refs s e" for e using same by (simp add: entry_refs_def book_at_def)
  then have "entries_ok t" using parts(5) rows by (auto simp: entries_ok_def list_all_iff)
  ultimately show ?thesis by (simp add: ledger_ok_def)
qed

lemma visible_account_listed:
  "store_ok s \<Longrightarrow> visible_account a b i s = Inr x \<Longrightarrow> list_ex (\<lambda>a. ac_id a = trim_space i) (ms_accounts s)"
  by (auto simp: visible_account_iff list_ex_iff)

lemma entry_category_listed:
  "store_ok s \<Longrightarrow> entry_category b i s = Inr c \<Longrightarrow> trim_space i = [] \<or>
   list_ex (\<lambda>c. ct_book_id c = b \<and> ct_id c = trim_space i) (ms_categories s)"
  by (auto simp: entry_category_iff list_ex_iff split: if_splits)

lemma create_entry_refs:
  assumes ok: "store_ok s" and run: "create_entry parse other request new_id now s = (Inr e, t)"
  shows "entry_refs s e"
  using run
proof (rule create_entry_success)
  fix m b a c rates i
  assume b: "book_at s (ce_book_id request) = Some b"
    and a: "visible_account (ce_actor request) (ce_book_id request) (ce_account_id request) s = Inr a"
    and d: "trim_space (ce_destination_account_id request) \<noteq> [] \<Longrightarrow>
      \<exists>d. visible_account (ce_actor request) (ce_book_id request) (ce_destination_account_id request) s = Inr d"
    and c: "entry_category (ce_book_id request) (ce_category_id request) s = Inr c"
    and eq: "en_book_id e = ce_book_id request" "en_account_id e = trim_space (ce_account_id request)"
      "en_destination_account_id e = trim_space (ce_destination_account_id request)"
      "en_category_id e = trim_space (ce_category_id request)"
  show "entry_refs s e"
    unfolding entry_refs_def eq
    using b visible_account_listed [OF ok a] d visible_account_listed [OF ok] entry_category_listed [OF ok c]
    by blast
qed

text \<open>
  An update looks a changed account or category up, and the entry keeps the others, which the
  invariant knows.
\<close>

lemma update_entry_account_listed:
  assumes ok: "store_ok s" and "update_entry_account a b old new changed s = Inr x"
  shows "list_ex (\<lambda>a. ac_id a = trim_space new) (ms_accounts s)"
  using assms visible_account_listed [OF ok] account_by_id_iff [OF ok]
  by (auto simp: update_entry_account_def list_ex_iff split: if_splits)

lemma update_entry_refs:
  assumes ok: "ledger_ok s" and run: "update_entry other request now s = (Inr e, t)"
  shows "entry_refs s e"
  using ledger_okD(1) [OF ok] run
proof (rule update_entry_success)
  fix e0 b a c rates
  let ?p = "patch_entry e0 request"
  note st = ledger_okD(1) [OF ok]
  assume e0: "e0 \<in> set (ms_entries s)" "en_book_id e0 = ue_book_id request"
    and a: "update_entry_account (ue_actor request) (ue_book_id request) (en_account_id e0)
      (en_account_id ?p) (ue_account_id request \<noteq> None) s = Inr a"
    and d: "trim_space (en_destination_account_id ?p) \<noteq> [] \<Longrightarrow>
      \<exists>d. update_entry_account (ue_actor request) (ue_book_id request) (en_destination_account_id e0)
        (en_destination_account_id ?p) (ue_destination_account_id request \<noteq> None) s = Inr d"
    and c: "entry_category (ue_book_id request) (en_category_id ?p) s = Inr c"
    and e: "e = ?p\<lparr>en_account_currency := ac_currency a,
            en_book_reporting_currency := bk_reporting_currency b,
            en_transaction_currency := (if upper_trim (en_transaction_currency ?p) = []
              then ac_currency a else upper_trim (en_transaction_currency ?p)), en_updated_at := now\<rparr>"
  have old: "entry_refs s e0" using ledger_okD(5) [OF ok] e0 by (auto simp: entries_ok_def list_all_iff)
  have ids: "en_account_id ?p = en_account_id e0 \<or> trim_space (en_account_id ?p) = en_account_id ?p"
    "en_destination_account_id ?p = en_destination_account_id e0 \<or>
      trim_space (en_destination_account_id ?p) = en_destination_account_id ?p"
    "en_category_id ?p = en_category_id e0 \<or> trim_space (en_category_id ?p) = en_category_id ?p"
    by (auto simp: patch_entry_def Let_def split: option.splits)
  have d_listed: "list_ex (\<lambda>a. ac_id a = trim_space (en_destination_account_id ?p)) (ms_accounts s)"
    if "trim_space (en_destination_account_id ?p) \<noteq> []"
    using d [OF that] update_entry_account_listed [OF st] by blast
  have "list_ex (\<lambda>a. ac_id a = en_account_id ?p) (ms_accounts s)"
    using ids(1) old update_entry_account_listed [OF st a] by (auto simp: entry_refs_def)
  moreover have "en_destination_account_id ?p = [] \<or>
      list_ex (\<lambda>a. ac_id a = en_destination_account_id ?p) (ms_accounts s)"
  proof (cases "en_destination_account_id ?p = en_destination_account_id e0")
    case True
    then show ?thesis using old by (simp add: entry_refs_def)
  next
    case False
    then have "trim_space (en_destination_account_id ?p) = en_destination_account_id ?p" using ids(2) by blast
    then show ?thesis using d_listed by metis
  qed
  moreover have "en_category_id ?p = [] \<or>
      list_ex (\<lambda>c. ct_book_id c = en_book_id e0 \<and> ct_id c = en_category_id ?p) (ms_categories s)"
    using ids(3) old entry_category_listed [OF st c] e0(2) by (auto simp: entry_refs_def)
  ultimately show "entry_refs s e" using old by (simp add: entry_refs_def e)
qed

lemma entry_steps:
  assumes ok: "ledger_ok s"
  shows "create_entry parse other cer new_id now s = (r, t) \<Longrightarrow> ledger_ok t"
    and "update_entry other uer now s = (r, t) \<Longrightarrow> ledger_ok t"
    and "delete_entry a b i s = (r', t) \<Longrightarrow> ledger_ok t"
proof -
  note st = ledger_okD(1) [OF ok]
  note step = entries_rows_step [OF ok]
  show "ledger_ok t" if run: "create_entry parse other cer new_id now s = (r, t)"
  proof (cases r)
    case (Inl x)
    then show ?thesis using ok run fails_cleanD [OF entry_handlers_clean(1)] by metis
  next
    case (Inr e)
    note run' = run [unfolded Inr]
    from run' have "t = s\<lparr>ms_entries := ms_entries s @ [e]\<rparr>" by (rule create_entry_success)
    then show ?thesis
      using store_kept.obeysD [OF handlers_store(1) run] st part.obeysD [OF handlers_parts(1) run]
        create_entry_refs [OF st run'] create_entry_wf [OF run']
      by (intro step) auto
  qed
  show "ledger_ok t" if run: "update_entry other uer now s = (r, t)"
  proof (cases r)
    case (Inl x)
    then show ?thesis using ok run fails_cleanD [OF entry_handlers_clean(2)] by metis
  next
    case (Inr e)
    note run' = run [unfolded Inr]
    have w: "st_update_entry e s = (Inr e, t)" using st run' by (rule update_entry_success)
    have "ms_entries t = map (\<lambda>y. if en_id y = en_id e then e else y) (ms_entries s)"
      using entry_table.update_rows [OF store_ok_distinct(1) [OF st] w] by blast
    then show ?thesis
      using store_kept.obeysD [OF handlers_store(2) run] st part.obeysD [OF handlers_parts(2) run]
        update_entry_refs [OF ok run'] update_entry_wf [OF st run']
      by (intro step) (auto split: if_splits)
  qed
  show "ledger_ok t" if run: "delete_entry a b i s = (r', t)"
  proof (cases r')
    case (Inl x)
    then show ?thesis using ok run fails_cleanD [OF entry_handlers_clean(3)] by metis
  next
    case (Inr u)
    note run' = run [unfolded Inr]
    have "t = s\<lparr>ms_entries := filter (\<lambda>x. en_id x \<noteq> i) (ms_entries s)\<rparr>"
      using st run' by (rule delete_entry_success)
    then show ?thesis
      using store_kept.obeysD [OF handlers_store(3) run] st part.obeysD [OF handlers_parts(3) run]
      by (intro step) auto
  qed
qed

text \<open>Accounts and their groups.\<close>

lemma owner_listed:
  "list_ex (\<lambda>g. ag_id g = i \<and> ag_user_id g = u) gs \<longleftrightarrow> (i, u) \<in> (\<lambda>g. (ag_id g, ag_user_id g)) ` set gs"
  by (auto simp: list_ex_iff)

lemma group_rows_step:
  assumes ok: "ledger_ok s" and store: "store_ok t" and frame: "same_part not_groups s t"
    and rows: "(\<lambda>g. (ag_id g, ag_user_id g)) ` set (ms_groups s) \<subseteq> (\<lambda>g. (ag_id g, ag_user_id g)) ` set (ms_groups t)"
  shows "ledger_ok t"
proof -
  note parts = ledger_okD [OF ok]
  note same = frame [unfolded part_iffs]
  have "books_ok t" using same by (intro books_ok_frame [OF parts(2) store]) simp_all
  moreover have "tree_ok t" using same by (intro tree_ok_frame [OF parts(3)]) (simp_all add: book_at_def)
  moreover have "accounts_ok t"
    using parts(4) rows same unfolding accounts_ok_def owner_listed list_all_iff by (simp, blast)
  moreover have "entries_ok t" using same by (intro entries_ok_frame [OF parts(5)]) (simp_all add: book_at_def)
  ultimately show ?thesis by (simp add: ledger_ok_def)
qed

lemma group_steps:
  assumes ok: "ledger_ok s"
  shows "create_account_group cgr fresh now s = (r, t) \<Longrightarrow> ledger_ok t"
    and "update_account_group ugr now s = (r, t) \<Longrightarrow> ledger_ok t"
proof -
  note st = ledger_okD(1) [OF ok]
  show "ledger_ok t" if run: "create_account_group cgr fresh now s = (r, t)"
  proof -
    have "set (ms_groups s) \<subseteq> set (ms_groups t)"
      using run by (auto simp: create_account_group_def act_defs st_create_account_group_def
          split: if_splits sum.splits)
    then show ?thesis
      using store_kept.obeysD [OF handlers_store(4) run] st part.obeysD [OF handlers_parts(4) run]
      by (intro group_rows_step [OF ok]) auto
  qed
  show "ledger_ok t" if run: "update_account_group ugr now s = (r, t)"
  proof (cases r)
    case (Inl x)
    then show ?thesis using ok run fails_cleanD [OF account_handlers_clean(2)] by metis
  next
    case (Inr g)
    obtain g0 where g0: "g0 \<in> set (ms_groups s)" and g: "ag_id g = ag_id g0" "ag_user_id g = ag_user_id g0"
        and w: "st_update_account_group g s = (Inr g, t)"
      by (rule update_account_group_success [OF st run [unfolded Inr]]) simp
    have d: "distinct (map ag_id (ms_groups s))" by (rule store_ok_distinct(3) [OF st])
    have rows: "ms_groups t = map (\<lambda>y. if ag_id y = ag_id g then g else y) (ms_groups s)"
      using group_table.update_rows [OF d w] by blast
    have "ag_user_id y = ag_user_id g0" if "y \<in> set (ms_groups s)" "ag_id y = ag_id g" for y
      using d that g0 g by (metis distinct_map inj_onD)
    then have "map (\<lambda>g. (ag_id g, ag_user_id g)) (ms_groups t) = map (\<lambda>g. (ag_id g, ag_user_id g)) (ms_groups s)"
      by (auto simp: rows g)
    then have "(\<lambda>g. (ag_id g, ag_user_id g)) ` set (ms_groups t) = (\<lambda>g. (ag_id g, ag_user_id g)) ` set (ms_groups s)"
      by (metis set_map)
    then show ?thesis
      using store_kept.obeysD [OF handlers_store(5) run] st part.obeysD [OF handlers_parts(5) run]
      by (intro group_rows_step [OF ok]) auto
  qed
qed

lemma account_wf_unshared:
  assumes "account_wf a"
  shows "account_wf (a\<lparr>ac_shared_book_ids := remove_id (ac_shared_book_ids a) b, ac_updated_at := now\<rparr>)"
proof -
  let ?ids = "ac_shared_book_ids a"
  have norm: "trimmed_unique ?ids = ?ids" using assms by (simp add: account_wf_def normalize_ids_def)
  have "trim_space x = x \<and> x \<noteq> []" if "x \<in> set ?ids" for x
  proof -
    have "x \<in> trim_space ` set ?ids - {[]}" using that set_trimmed_unique [of ?ids] unfolding norm by blast
    then show ?thesis by auto
  qed
  moreover have "distinct ?ids" using distinct_trimmed_unique [of ?ids] unfolding norm .
  ultimately have "list_all (\<lambda>x. trim_space x = x \<and> x \<noteq> []) ?ids" "distinct ?ids"
    by (simp_all add: list_all_iff)
  then have "normalize_ids (remove_id ?ids b) = remove_id ?ids b"
    using trimmed_unique_from_id [of "[]" "remove_id ?ids b"]
    by (simp add: normalize_ids_def trimmed_unique_def remove_id_def list_all_iff)
  moreover have "length (remove_id ?ids b) \<le> length ?ids" by (simp add: remove_id_def)
  ultimately show ?thesis using assms by (simp add: account_wf_def)
qed

definition account_refs :: "memory_store \<Rightarrow> account \<Rightarrow> bool" where
  "account_refs s a \<longleftrightarrow> ac_group_id a = [] \<or>
     list_ex (\<lambda>g. ag_id g = ac_group_id a \<and> ag_user_id g = ac_user_id a) (ms_groups s)"

lemma account_rows_step:
  assumes ok: "ledger_ok s" and store: "store_ok t" and frame: "same_part not_accounts s t"
    and ids: "ac_id ` set (ms_accounts s) \<subseteq> ac_id ` set (ms_accounts t)"
    and rows: "\<And>a. a \<in> set (ms_accounts t) \<Longrightarrow> a \<in> set (ms_accounts s) \<or> account_wf a \<and> account_refs s a"
  shows "ledger_ok t"
proof -
  note parts = ledger_okD [OF ok]
  note same = frame [unfolded part_iffs]
  have "books_ok t" using same by (intro books_ok_frame [OF parts(2) store]) simp_all
  moreover have "tree_ok t" using same by (intro tree_ok_frame [OF parts(3)]) (simp_all add: book_at_def)
  moreover have "accounts_ok t"
    using parts(4) rows same by (auto simp: accounts_ok_def account_refs_def list_all_iff)
  moreover have "entries_ok t" using same ids by (intro entries_ok_frame [OF parts(5)]) (simp_all add: book_at_def)
  ultimately show ?thesis by (simp add: ledger_ok_def)
qed

lemma account_steps:
  assumes ok: "ledger_ok s"
  shows "create_account car fresh now s = (r, t) \<Longrightarrow> ledger_ok t"
    and "unshare_account uar now s = (r, t) \<Longrightarrow> ledger_ok t"
proof -
  note st = ledger_okD(1) [OF ok]
  show "ledger_ok t" if run: "create_account car fresh now s = (r, t)"
  proof (cases r)
    case (Inl x)
    then show ?thesis using ok run fails_cleanD [OF account_handlers_clean(3)] by metis
  next
    case (Inr a)
    note new = create_account_success [OF st run [unfolded Inr]]
    have "account_refs s a" using new(5) by (auto simp: account_refs_def list_ex_iff)
    then show ?thesis
      using store_kept.obeysD [OF handlers_store(6) run] st part.obeysD [OF handlers_parts(6) run] new(1,7)
      by (intro account_rows_step [OF ok]) auto
  qed
  show "ledger_ok t" if run: "unshare_account uar now s = (r, t)"
  proof (cases r)
    case (Inl x)
    then show ?thesis using ok run fails_cleanD [OF account_handlers_clean(4)] by metis
  next
    case (Inr a)
    obtain a0 where a0: "a0 \<in> set (ms_accounts s)"
        and a: "a = a0\<lparr>ac_shared_book_ids := remove_id (ac_shared_book_ids a0) (ua_book_id uar), ac_updated_at := now\<rparr>"
        and w: "st_update_account a s = (Inr a, t)"
      by (rule unshare_account_success [OF st run [unfolded Inr]])
    have rows: "ms_accounts t = map (\<lambda>y. if ac_id y = ac_id a then a else y) (ms_accounts s)"
      using account_table.update_rows [OF store_ok_distinct(4) [OF st] w] by blast
    have "account_wf a0 \<and> account_refs s a0"
      using ledger_okD(4) [OF ok] a0 by (simp add: accounts_ok_def account_refs_def list_all_iff)
    then have "account_wf a \<and> account_refs s a" by (simp add: a account_refs_def account_wf_unshared)
    then show ?thesis
      using store_kept.obeysD [OF handlers_store(7) run] st part.obeysD [OF handlers_parts(7) run]
      by (intro account_rows_step [OF ok]) (auto simp: rows image_iff split: if_splits)
  qed
qed

lemma refresh_step:
  assumes ok: "ledger_ok s" and run: "refresh_exchange_rates fetcher s = (r, t)"
  shows "ledger_ok t"
proof -
  note parts = ledger_okD [OF ok]
  note same = part.obeysD [OF refresh_parts run, unfolded part_iffs]
  have "store_ok t" using parts(1) same by (simp add: store_ok_def)
  then have "books_ok t" using same by (intro books_ok_frame [OF parts(2)]) simp_all
  moreover have "tree_ok t" using same by (intro tree_ok_frame [OF parts(3)]) (simp_all add: book_at_def)
  moreover have "accounts_ok t" using same by (intro accounts_ok_frame [OF parts(4)]) simp_all
  moreover have "entries_ok t" using same by (intro entries_ok_frame [OF parts(5)]) (simp_all add: book_at_def)
  ultimately show ?thesis by (simp add: ledger_ok_def)
qed

section \<open>The invariant of every reachable store\<close>

lemma ledger_step_ok:
  assumes "ledger_step parse other s t" and ok: "ledger_ok s"
  shows "ledger_ok t"
  using assms(1)
proof (cases rule: ledger_step.cases)
  case create_book
  then show ?thesis using create_book_step [OF ok] by blast
next
  case update_book
  then show ?thesis using books_only_step [OF ok books_kept.obeysD [OF book_handlers_kept(1)]]
      update_book_keeps_books ledger_okD(2) [OF ok] by blast
next
  case add_member
  then show ?thesis using books_only_step [OF ok books_kept.obeysD [OF book_handlers_kept(2)]]
      add_book_member_keeps_books ledger_okD(2) [OF ok] by blast
next
  case update_role
  then show ?thesis using books_only_step [OF ok books_kept.obeysD [OF book_handlers_kept(3)]]
      update_role_keeps_books ledger_okD(2) [OF ok] by blast
next
  case remove_member
  then show ?thesis using books_only_step [OF ok books_kept.obeysD [OF book_handlers_kept(4)]]
      remove_member_keeps_books ledger_okD(2) [OF ok] by blast
qed (use ok in \<open>blast intro: group_steps account_steps create_category_step update_category_step
    entry_steps refresh_step\<close>)+

text \<open>
  \<open>reachable s0 s\<close>: requests lead from \<open>s0\<close> to \<open>s\<close>.
\<close>

inductive reachable ::
    "(string \<Rightarrow> string option) \<Rightarrow> (string \<Rightarrow> rat option) \<Rightarrow> memory_store \<Rightarrow> memory_store \<Rightarrow> bool"
  for parse other s where
  start: "reachable parse other s s"
| step: "reachable parse other s t \<Longrightarrow> ledger_step parse other t u \<Longrightarrow> reachable parse other s u"

lemma reachable_ok: "reachable parse other s t \<Longrightarrow> ledger_ok s \<Longrightarrow> ledger_ok t"
  by (induction rule: reachable.induct) (auto intro: ledger_step_ok)

text \<open>An empty store, as \<open>NewMemoryStore(SeedData{})\<close> makes it.\<close>

definition empty_store :: memory_store where
  "empty_store = new_memory_store
     \<lparr>sd_books = [], sd_members = [], sd_categories = [], sd_groups = [], sd_accounts = [], sd_entries = [], sd_rates = []\<rparr>"

lemma empty_store_eq: "empty_store =
    \<lparr>ms_books = [], ms_members = [], ms_entries = [], ms_categories = [], ms_groups = [], ms_accounts = [], ms_rates = []\<rparr>"
  by (simp add: empty_store_def new_memory_store_def clone_exchange_rates_def sort_func_def)

lemma empty_store_ok: "ledger_ok empty_store"
proof -
  have "store_ok empty_store" by (simp add: empty_store_eq store_ok_def members_ok_def keys_ok_def)
  moreover have none: "ms_categories empty_store = []" by (simp add: empty_store_eq)
  have "climb (parent_in empty_store b) (Suc 0) a" for b a by (simp add: parent_in_def none)
  then have "\<exists>n. climb (parent_in empty_store b) n a" for b a by blast
  then have "tree_ok empty_store" by (simp add: tree_ok_def none)
  ultimately show ?thesis
    by (simp add: ledger_ok_def books_ok_def ownership_ok_def members_have_books_def accounts_ok_def
        entries_ok_def) (simp add: empty_store_eq)
qed

end
