(* ===== verification/Ledger_Sample.thy ===== *)
theory Ledger_Sample
  imports Ledger_Steps
begin

text \<open>
  The small store on which the witnesses run: one book with an owner, a member and a viewer, a shared
  account, an unshared one, two categories and an entry of the member. It satisfies the invariant.
\<close>

section \<open>A store to run on\<close>

definition sample_member :: "string \<Rightarrow> role \<Rightarrow> book_member" where
  "sample_member u r = \<lparr>bm_book_id = ''b'', bm_user_id = u, bm_role = r, bm_display_name = u,
     bm_created_at = 1, bm_updated_at = 1\<rparr>"

definition sample_account :: "string \<Rightarrow> string \<Rightarrow> string list \<Rightarrow> account" where
  "sample_account i u books = \<lparr>ac_id = i, ac_user_id = u, ac_group_id = [], ac_name = i,
     ac_type = AccountTypeCash, ac_currency = ''USD'', ac_shared_book_ids = books,
     ac_opening_balance = 0, ac_created_at = 1, ac_updated_at = 1\<rparr>"

definition sample_entry :: entry where
  "sample_entry = \<lparr>en_id = ''e'', en_book_id = ''b'', en_creator_user_id = ''m'',
     en_type = EntryTypeExpense, en_account_id = ''a'', en_destination_account_id = [],
     en_category_id = ''c'', en_amount_cents = 250, en_transaction_currency = ''USD'',
     en_account_currency = ''USD'', en_book_reporting_currency = ''USD'', en_exchange_rate = [],
     en_occurred_at = 100, en_note = [], en_merchant = [], en_tags = [], en_raw_source = [],
     en_created_at = 1, en_updated_at = 1\<rparr>"

definition sample_category :: "string \<Rightarrow> string \<Rightarrow> category" where
  "sample_category i p = \<lparr>ct_id = i, ct_book_id = ''b'', ct_parent_id = p, ct_name = i,
     ct_direction = CategoryDirectionExpense, ct_sort_order = 10, ct_archived = False,
     ct_raw_source_name = [], ct_created_at = 1, ct_updated_at = 1\<rparr>"

definition sample_store :: memory_store where
  "sample_store =
     \<lparr>ms_books = [(''b'', \<lparr>bk_id = ''b'', bk_owner_user_id = ''o'', bk_name = ''Home'',
         bk_reporting_currency = ''USD'', bk_created_at = 1, bk_updated_at = 1\<rparr>)],
      ms_members = [(''b'', [(''o'', sample_member ''o'' RoleOwner), (''m'', sample_member ''m'' RoleMember),
         (''v'', sample_member ''v'' RoleViewer)])],
      ms_entries = [sample_entry],
      ms_categories = [sample_category ''c'' [], sample_category ''d'' ''c''],
      ms_groups = [], ms_accounts = [sample_account ''a'' ''m'' [''b''], sample_account ''x'' ''v'' []],
      ms_rates = []\<rparr>"

lemma sample_books_ok: "books_ok sample_store"
  by code_simp

lemma sample_store_ok: "store_ok sample_store"
  using sample_books_ok by (rule books_okD)

lemma sample_tree_ok: "tree_ok sample_store"
proof -
  have [simp]: "trim_space ''c'' = ''c''" "trim_space [] = []" by code_simp+
  have "climb (parent_in sample_store b) (Suc (Suc 0)) a" for b a
    by (auto simp: parent_in_def sample_store_def sample_category_def)
  then have "\<exists>n. climb (parent_in sample_store b) n a" for b a by blast
  moreover have "list_all (\<lambda>c. book_at sample_store (ct_book_id c) \<noteq> None) (ms_categories sample_store)"
    "list_all (\<lambda>c. trim_space (ct_parent_id c) = [] \<or> list_ex (\<lambda>p. ct_book_id p = ct_book_id c \<and>
      ct_id p = trim_space (ct_parent_id c)) (ms_categories sample_store)) (ms_categories sample_store)"
    by code_simp+
  ultimately show ?thesis unfolding tree_ok_def list_all_iff list_ex_iff by blast
qed

lemma sample_ledger_ok: "ledger_ok sample_store"
proof -
  have "accounts_ok sample_store" "entries_ok sample_store" by code_simp+
  then show ?thesis using sample_books_ok sample_tree_ok by (simp add: ledger_ok_def)
qed

end
