(* ===== verification/Ledger_Properties.thy ===== *)
theory Ledger_Properties
  imports Ledger_Sample
begin

text \<open>
  The properties of books, members and entries, over the components before, with their witnesses on
  \<open>sample_store\<close>.
\<close>

section \<open>Books and members\<close>



text \<open>C2. Changing a role is atomic and exact. It fails without a trace, or a manager of the book asked
  for it, the target was a member, the book keeps an owner, and exactly the role of that member
  changed, with the primary owner of every book still one of its owners.\<close>

theorem role_change_exact:
  assumes "books_ok s" and "update_book_member_role request now s = (r, t)"
  shows "\<not> is_ok r \<and> t = s \<or>
    (\<exists>manager target new.
       member_at s (um_book_id request) (at_user_id (um_actor request)) = Some manager \<and>
       is_manager (bm_role manager) \<and>
       member_at s (um_book_id request) (trim_space (um_user_id request)) = Some target \<and>
       new = target\<lparr>bm_role := um_role request, bm_updated_at := now\<rparr> \<and> r = Inr new \<and>
       books_ok t \<and> books_only s t \<and>
       member_at t = (\<lambda>c v. if c = um_book_id request \<and> v = trim_space (um_user_id request)
         then Some new else member_at s c v))"
  using assms
proof (rule update_role_cases)
  fix manager members target new
  assume "r = Inr new" "books_ok t" "new = target\<lparr>bm_role := um_role request, bm_updated_at := now\<rparr>"
    "member_at s (um_book_id request) (at_user_id (um_actor request)) = Some manager"
    "is_manager (bm_role manager)"
    "member_at s (um_book_id request) (trim_space (um_user_id request)) = Some target"
    "member_at t = (\<lambda>c v. if c = um_book_id request \<and> v = trim_space (um_user_id request)
             then Some new else member_at s c v)"
  then show ?thesis using books_kept.obeysD [OF book_handlers_kept(3) assms(2)] by blast
qed simp

definition sample_role_request :: "string \<Rightarrow> string \<Rightarrow> role \<Rightarrow> update_book_member_role_request" where
  "sample_role_request a u r = \<lparr>um_actor = \<lparr>at_user_id = a\<rparr>, um_book_id = ''b'', um_user_id = u, um_role = r\<rparr>"

theorem role_change_exact_witness:
  "\<exists>r t. update_book_member_role (sample_role_request ''o'' '' m '' RoleOwner) 5 sample_store = (r, t) \<and>
     is_ok r \<and> member_at t ''b'' ''v'' = member_at sample_store ''b'' ''v''"
proof -
  let ?run = "update_book_member_role (sample_role_request ''o'' '' m '' RoleOwner) 5 sample_store"
  have ok: "is_ok (fst ?run)" by code_simp
  have "''v'' \<noteq> trim_space (um_user_id (sample_role_request ''o'' '' m '' RoleOwner))" by code_simp
  then have "member_at (snd ?run) ''b'' ''v'' = member_at sample_store ''b'' ''v''"
    using role_change_exact [OF sample_books_ok prod.collapse [symmetric], of
        "sample_role_request ''o'' '' m '' RoleOwner" 5] ok by auto
  then show ?thesis using ok by (metis prod.collapse)
qed

text \<open>Removing a member is atomic and exact in the same way.\<close>

theorem member_removal_exact:
  assumes "books_ok s" and "remove_book_member request now s = (r, t)"
  shows "\<not> is_ok r \<and> t = s \<or>
    (\<exists>manager target.
       member_at s (rm_book_id request) (at_user_id (rm_actor request)) = Some manager \<and>
       is_manager (bm_role manager) \<and>
       member_at s (rm_book_id request) (trim_space (rm_user_id request)) = Some target \<and>
       r = Inr () \<and> books_ok t \<and> books_only s t \<and>
       member_at t = (\<lambda>c v. if c = rm_book_id request \<and> v = trim_space (rm_user_id request)
         then None else member_at s c v))"
  using assms
proof (rule remove_member_cases)
  fix manager members target
  assume "r = Inr ()" "books_ok t"
    "member_at s (rm_book_id request) (at_user_id (rm_actor request)) = Some manager"
    "is_manager (bm_role manager)"
    "member_at s (rm_book_id request) (trim_space (rm_user_id request)) = Some target"
    "member_at t = (\<lambda>c v. if c = rm_book_id request \<and> v = trim_space (rm_user_id request)
             then None else member_at s c v)"
  then show ?thesis using books_kept.obeysD [OF book_handlers_kept(4) assms(2)] by blast
qed simp

theorem member_removal_exact_witness:
  "\<exists>r t. remove_book_member \<lparr>rm_actor = \<lparr>at_user_id = ''o''\<rparr>, rm_book_id = ''b'', rm_user_id = ''m''\<rparr> 5 sample_store = (r, t) \<and>
     is_ok r \<and> member_at t ''b'' ''m'' = None"
proof -
  let ?request = "\<lparr>rm_actor = \<lparr>at_user_id = ''o''\<rparr>, rm_book_id = ''b'', rm_user_id = ''m''\<rparr>"
  have ok: "is_ok (fst (remove_book_member ?request 5 sample_store))" by code_simp
  have "trim_space ''m'' = ''m''" by code_simp
  then have "member_at (snd (remove_book_member ?request 5 sample_store)) ''b'' ''m'' = None"
    using member_removal_exact [OF sample_books_ok prod.collapse [symmetric], of ?request 5] ok by auto
  then show ?thesis using ok by (metis prod.collapse)
qed

text \<open>The sole owner of a book can neither be demoted nor removed: both requests fail and leave the
  store as it was, whoever asks.\<close>

theorem sole_owner_protected:
  assumes ok: "books_ok s" and ms: "st_book_members b s = Inr members"
    and sole: "filter (\<lambda>m. bm_role m = RoleOwner) members = [owner]"
    and demote: "um_book_id ur = b" "trim_space (um_user_id ur) = bm_user_id owner" "um_role ur \<noteq> RoleOwner"
    and remove: "rm_book_id rr = b" "trim_space (rm_user_id rr) = bm_user_id owner"
  shows "(\<exists>e. update_book_member_role ur now s = (Inl e, s)) \<and> (\<exists>e. remove_book_member rr now s = (Inl e, s))"
proof (rule conjI)
  note st = books_okD(1) [OF ok]
  have "owner \<in> set members" "bm_role owner = RoleOwner" using sole by (auto simp: filter_eq_Cons_iff)
  then have owner: "member_at s b (bm_user_id owner) = Some owner" "bm_role owner = RoleOwner"
    using book_members_lookup(3) [OF st ms] by simp_all
  have count: "owner_count members \<le> 1" by (simp add: owner_count_filter sole)
  have "\<exists>e. r = Inl e \<and> t = s" if run: "update_book_member_role ur now s = (r, t)" for r t
    using ok run
  proof (rule update_role_cases)
    assume "\<not> is_ok r" "t = s"
    then show ?thesis by (cases r) auto
  qed (use ms owner count demote in auto)
  then show "\<exists>e. update_book_member_role ur now s = (Inl e, s)" by (metis prod.collapse)
  have "\<exists>e. r = Inl e \<and> t = s" if run: "remove_book_member rr now s = (r, t)" for r t
    using ok run
  proof (rule remove_member_cases)
    assume "\<not> is_ok r" "t = s"
    then show ?thesis by (cases r) auto
  qed (use ms owner count remove in auto)
  then show "\<exists>e. remove_book_member rr now s = (Inl e, s)" by (metis prod.collapse)
qed

theorem sole_owner_protected_witness:
  "\<exists>e. update_book_member_role (sample_role_request ''o'' ''o'' RoleMember) 5 sample_store = (Inl e, sample_store)"
proof -
  let ?o = "sample_member ''o'' RoleOwner"
  obtain ms where ms: "st_book_members ''b'' sample_store = Inr ms"
    and "filter (\<lambda>m. bm_role m = RoleOwner) ms = [?o]"
  proof -
    have "(case st_book_members ''b'' sample_store of Inl _ \<Rightarrow> False
      | Inr ms \<Rightarrow> filter (\<lambda>m. bm_role m = RoleOwner) ms = [?o])" by code_simp
    then show ?thesis by (cases "st_book_members ''b'' sample_store") (auto intro: that)
  qed
  moreover have "trim_space ''o'' = ''o''" by code_simp
  ultimately show ?thesis
    using sole_owner_protected [OF sample_books_ok, of "''b''" ms ?o "sample_role_request ''o'' ''o'' RoleMember"
        "\<lparr>rm_actor = \<lparr>at_user_id = ''o''\<rparr>, rm_book_id = ''b'', rm_user_id = ''o''\<rparr>" 5]
    by (simp add: sample_role_request_def sample_member_def)
qed



text \<open>The mutation policy: the answer for an entry of the book is yes for an owner or administrator of the
  book, and for a member exactly when the member created the entry; a viewer gets no.\<close>

theorem mutation_policy_iff:
  "store_ok s \<Longrightarrow> entry_mutation_policy a b i s = Inr p \<longleftrightarrow>
    at_user_id a \<noteq> [] \<and> b \<noteq> [] \<and> i \<noteq> [] \<and>
    (\<exists>m e. member_at s b (at_user_id a) = Some m \<and>
       e \<in> set (ms_entries s) \<and> en_book_id e = b \<and> en_id e = i \<and>
       (let allowed = bm_role m \<in> {RoleOwner, RoleAdministrator} \<or>
              bm_role m = RoleMember \<and> en_creator_user_id e = at_user_id a
        in p = \<lparr>mp_can_update = allowed, mp_can_delete = allowed\<rparr>))"
  by (auto simp: policy_iff st_entry_iff may_mutate_def is_manager_def Let_def)

theorem mutation_policy_iff_witness:
  "entry_mutation_policy \<lparr>at_user_id = ''m''\<rparr> ''b'' ''e'' sample_store =
     Inr \<lparr>mp_can_update = True, mp_can_delete = True\<rparr>"
proof -
  have "member_at sample_store ''b'' ''m'' = Some (sample_member ''m'' RoleMember)" by code_simp
  then show ?thesis
    unfolding mutation_policy_iff [OF sample_store_ok]
    by (auto simp: sample_member_def sample_store_def sample_entry_def)
qed

section \<open>Entries\<close>

text \<open>C4. A created entry: its author is a member who is not a viewer, it is attributed to the author, or by a
  manager to another member, its account is visible to the author, its category belongs to the book, is
  not archived and has the direction of an income or expense, it satisfies \<open>entry_wf\<close>, and the store
  has exactly this entry more.\<close>

theorem create_entry_exact:
  assumes ok: "store_ok s" and run: "create_entry parse other request new_id now s = (Inr e, t)"
  shows "entry_wf e \<and> t = s\<lparr>ms_entries := ms_entries s @ [e]\<rparr> \<and> en_id e \<notin> en_id ` set (ms_entries s) \<and>
    (\<exists>m. member_at s (en_book_id e) (at_user_id (ce_actor request)) = Some m \<and> bm_role m \<noteq> RoleViewer \<and>
      (en_creator_user_id e = at_user_id (ce_actor request) \<or>
       is_manager (bm_role m) \<and> (\<exists>c. member_at s (en_book_id e) (en_creator_user_id e) = Some c))) \<and>
    (\<exists>a \<in> set (ms_accounts s). ac_id a = en_account_id e \<and> en_account_currency e = ac_currency a \<and>
      (ac_user_id a = at_user_id (ce_actor request) \<or> en_book_id e \<in> set (ac_shared_book_ids a))) \<and>
    (en_category_id e \<noteq> [] \<longrightarrow> (\<exists>c \<in> set (ms_categories s). ct_id c = en_category_id e \<and>
      ct_book_id c = en_book_id e \<and> \<not> ct_archived c \<and>
      (en_type e = EntryTypeExpense \<longrightarrow> ct_direction c = CategoryDirectionExpense) \<and>
      (en_type e = EntryTypeIncome \<longrightarrow> ct_direction c = CategoryDirectionIncome)))"
  using run
proof (rule create_entry_success)
  fix m b a c rates i
  assume m: "member_at s (ce_book_id request) (at_user_id (ce_actor request)) = Some m" "bm_role m \<noteq> RoleViewer"
    and cr: "create_entry_creator_user_id request m s = Inr (en_creator_user_id e)"
    and a: "visible_account (ce_actor request) (ce_book_id request) (ce_account_id request) s = Inr a"
    and c: "entry_category (ce_book_id request) (ce_category_id request) s = Inr c"
    and v: "validate_create_entry_request request a b c rates = Inr ()"
    and new: "en_id e \<notin> en_id ` set (ms_entries s)" "t = s\<lparr>ms_entries := ms_entries s @ [e]\<rparr>"
    and eq: "en_book_id e = ce_book_id request" "en_type e = ce_type request"
      "en_account_id e = trim_space (ce_account_id request)"
      "en_category_id e = trim_space (ce_category_id request)" "en_account_currency e = ac_currency a"
  have "en_creator_user_id e = at_user_id (ce_actor request) \<or>
      is_manager (bm_role m) \<and> (\<exists>x. member_at s (en_book_id e) (en_creator_user_id e) = Some x)"
    using cr by (auto simp: create_entry_creator_user_id_def is_manager_def Let_def eq(1)
        split: if_splits sum.splits)
  moreover have "en_category_id e \<noteq> [] \<longrightarrow> (\<exists>c \<in> set (ms_categories s). ct_id c = en_category_id e \<and>
      ct_book_id c = en_book_id e \<and> \<not> ct_archived c \<and>
      (en_type e = EntryTypeExpense \<longrightarrow> ct_direction c = CategoryDirectionExpense) \<and>
      (en_type e = EntryTypeIncome \<longrightarrow> ct_direction c = CategoryDirectionIncome))"
    using c validate_entry_accepts(9) [OF v]
    by (auto simp: entry_category_iff [OF ok] eq validate_entry_category_def split: if_splits)
  moreover have "\<exists>a \<in> set (ms_accounts s). ac_id a = en_account_id e \<and> en_account_currency e = ac_currency a \<and>
      (ac_user_id a = at_user_id (ce_actor request) \<or> en_book_id e \<in> set (ac_shared_book_ids a))"
    using a by (auto simp: visible_account_iff [OF ok] eq)
  ultimately show ?thesis using create_entry_wf [OF run] m new by (simp add: eq(1))
qed

definition sample_entry_request :: create_entry_request where
  "sample_entry_request = \<lparr>ce_actor = \<lparr>at_user_id = ''m''\<rparr>, ce_book_id = ''b'', ce_creator_user_id = [],
     ce_type = EntryTypeExpense, ce_account_id = '' a'', ce_destination_account_id = [],
     ce_category_id = ''d'', ce_amount_cents = 1999, ce_transaction_currency = ''eur'',
     ce_book_reporting_currency = [], ce_exchange_rate = '' eur/usd=1.08 '', ce_occurred_at = 7,
     ce_note = [], ce_merchant = [], ce_tags = [''x'', '' x'']\<rparr>"

theorem create_entry_exact_witness:
  "\<exists>e t. create_entry Some (\<lambda>_. None) sample_entry_request (Inr ''n'') 9 sample_store = (Inr e, t) \<and> entry_wf e"
proof -
  let ?run = "create_entry Some (\<lambda>_. None) sample_entry_request (Inr ''n'') 9 sample_store"
  have "is_ok (fst ?run)" by code_simp
  then obtain e where "?run = (Inr e, snd ?run)" by (cases "fst ?run") (auto simp: prod_eq_iff)
  then show ?thesis using create_entry_exact [OF sample_store_ok] by blast
qed

text \<open>C5. An updated entry: the actor may change it, it keeps its id, book, creator, source and time of
  creation, the result satisfies \<open>entry_wf\<close>, and no other entry and nothing else in the store changes.\<close>

theorem update_entry_exact:
  assumes ok: "store_ok s" and run: "update_entry other request now s = (Inr e, t)"
  shows "entry_wf e \<and> same_part not_entries s t \<and>
    ms_entries t = map (\<lambda>x. if en_id x = en_id e then e else x) (ms_entries s) \<and>
    (\<exists>old \<in> set (ms_entries s). may_mutate s (at_user_id (ue_actor request)) (en_book_id old) old \<and>
      en_id e = en_id old \<and> en_id e = ue_entry_id request \<and>
      en_book_id e = en_book_id old \<and> en_book_id e = ue_book_id request \<and>
      en_creator_user_id e = en_creator_user_id old \<and> en_raw_source e = en_raw_source old \<and>
      en_created_at e = en_created_at old \<and> en_updated_at e = now)"
  using ok run
proof (rule update_entry_success)
  fix e0 b a c rates
  let ?p = "patch_entry e0 request"
  assume e0: "e0 \<in> set (ms_entries s)" "en_book_id e0 = ue_book_id request" "en_id e0 = ue_entry_id request"
      "may_mutate s (at_user_id (ue_actor request)) (ue_book_id request) e0"
    and e: "e = ?p\<lparr>en_account_currency := ac_currency a,
            en_book_reporting_currency := bk_reporting_currency b,
            en_transaction_currency := (if upper_trim (en_transaction_currency ?p) = []
              then ac_currency a else upper_trim (en_transaction_currency ?p)), en_updated_at := now\<rparr>"
    and w: "st_update_entry e s = (Inr e, t)"
  have "ms_entries t = map (\<lambda>x. if en_id x = en_id e then e else x) (ms_entries s)"
    using entry_table.update_rows [OF store_ok_distinct(1) [OF ok] w] by blast
  moreover have "\<exists>old \<in> set (ms_entries s). may_mutate s (at_user_id (ue_actor request)) (en_book_id old) old \<and>
      en_id e = en_id old \<and> en_id e = ue_entry_id request \<and>
      en_book_id e = en_book_id old \<and> en_book_id e = ue_book_id request \<and>
      en_creator_user_id e = en_creator_user_id old \<and> en_raw_source e = en_raw_source old \<and>
      en_created_at e = en_created_at old \<and> en_updated_at e = now"
    by (rule bexI [of _ e0]) (use e0 in \<open>simp_all add: e\<close>)
  ultimately show ?thesis
    using update_entry_wf [OF ok run] part.obeysD [OF handlers_parts(2) run] by blast
qed

definition sample_update :: update_entry_request where
  "sample_update = \<lparr>ue_actor = \<lparr>at_user_id = ''o''\<rparr>, ue_book_id = ''b'', ue_entry_id = ''e'', ue_type = None,
     ue_account_id = None, ue_destination_account_id = None, ue_category_id = None,
     ue_amount_cents = Some 900, ue_transaction_currency = None, ue_exchange_rate = None,
     ue_occurred_at = None, ue_note = Some ''lunch'', ue_merchant = None, ue_tags = None\<rparr>"

theorem update_entry_exact_witness:
  "\<exists>e t. update_entry (\<lambda>_. None) sample_update 9 sample_store = (Inr e, t) \<and> entry_wf e \<and> ms_accounts t = ms_accounts sample_store"
proof -
  let ?run = "update_entry (\<lambda>_. None) sample_update 9 sample_store"
  have "is_ok (fst ?run)" by code_simp
  then obtain e where run: "?run = (Inr e, snd ?run)" by (cases "fst ?run") (auto simp: prod_eq_iff)
  from update_entry_exact [OF sample_store_ok run]
  have "entry_wf e" "same_part not_entries sample_store (snd ?run)" by blast+
  then show ?thesis using run unfolding part_iffs by blast
qed

text \<open>Deleting an entry removes that entry and nothing else, for an actor who may change it.\<close>

theorem delete_entry_exact:
  assumes "store_ok s" and "delete_entry a b i s = (Inr u, t)"
  shows "t = s\<lparr>ms_entries := filter (\<lambda>x. en_id x \<noteq> i) (ms_entries s)\<rparr> \<and>
    (\<exists>e \<in> set (ms_entries s). en_id e = i \<and> en_book_id e = b \<and> may_mutate s (at_user_id a) b e)"
  using assms by (rule delete_entry_success) blast

theorem delete_entry_exact_witness:
  "snd (delete_entry \<lparr>at_user_id = ''o''\<rparr> ''b'' ''e'' sample_store) = sample_store\<lparr>ms_entries := []\<rparr>"
proof -
  have "delete_entry \<lparr>at_user_id = ''o''\<rparr> ''b'' ''e'' sample_store =
      (Inr (), snd (delete_entry \<lparr>at_user_id = ''o''\<rparr> ''b'' ''e'' sample_store))"
    by (simp add: prod_eq_iff) code_simp
  from delete_entry_exact [OF sample_store_ok this] show ?thesis
    by (simp add: sample_store_def sample_entry_def)
qed

end
