(* ===== verification/Amount_Properties.thy ===== *)
theory Amount_Properties
  imports Ledger_Sample
begin

text \<open>
  The properties of amounts, exchange rates, pages and totals, with their witnesses.
\<close>

section \<open>Amounts\<close>

text \<open>C33. Converting between supported currencies multiplies by one factor (1 within a currency, the rate of
  the entry or its inverse, or the quotient of the two USD rates) and rounds to the nearest cent, halves
  away from zero; the error of the rounding is at most half a cent while the result fits an int64.
  Without a factor the conversion fails.\<close>

theorem convert_amount_nearest:
  assumes "is_supported_currency source" and "is_supported_currency target" and "in_int64 amount"
  shows "(case conversion_factor source target text rates of
      None \<Rightarrow> \<exists>e. convert_amount_cents amount source target text rates = Inl e
    | Some f \<Rightarrow> 0 < f \<and>
        convert_amount_cents amount source target text rates = Inr (int64 (round_away (of_int amount * f))) \<and>
        \<bar>of_int (round_away (of_int amount * f)) - of_int amount * f\<bar> \<le> 1 / 2)"
  using convert_by_factor [OF assms] convert_no_factor conversion_factor_pos round_away_near
  by (simp split: option.split)

theorem convert_amount_nearest_witness:
  "convert_amount_cents 101 ''usd'' ''EUR'' ''EUR/USD=1.5'' Map.empty = Inr 67"
proof -
  have "is_supported_currency ''usd''" "is_supported_currency ''EUR''" "in_int64 101"
    "int64 (round_away (of_int 101 * (2 / 3))) = 67"
    "conversion_factor ''usd'' ''EUR'' ''EUR/USD=1.5'' Map.empty = Some (2 / 3)"
    by code_simp+
  then show ?thesis
    using convert_amount_nearest [of "''usd''" "''EUR''" 101 "''EUR/USD=1.5''" Map.empty] by simp
qed

text \<open>The rounding of \<open>roundRatToInt64\<close> is the value rounded half away from zero, in 64 bits: exact on
  integers, monotone, of the sign of the value, and at most half away from it.\<close>

theorem round_rat_spec:
  "round_rat_to_int64 v = int64 (round_away v) \<and> \<bar>of_int (round_away v) - v\<bar> \<le> 1 / 2 \<and>
   round_away (of_int n) = n \<and> (v \<le> w \<longrightarrow> round_away v \<le> round_away w) \<and>
   round_away (of_int n + 1 / 2) = (if 0 \<le> n then n + 1 else n) \<and> round_away (- v) = - round_away v"
proof (intro conjI impI)
  show "round_away (of_int n + 1 / 2) = (if 0 \<le> n then n + 1 else n)"
  proof (cases "0 \<le> n")
    case True
    then have "0 \<le> (of_int n + 1 / 2 :: rat)" by simp
    moreover have "\<lfloor>of_int n + 1 / 2 + 1 / 2 :: rat\<rfloor> = n + 1" by (simp add: floor_eq_iff)
    ultimately show ?thesis using True by (simp add: round_away_def)
  next
    case False
    then have "n + 1 \<le> 0" by simp
    then have "(of_int n :: rat) + 1 \<le> 0" by (metis of_int_0 of_int_1 of_int_add of_int_le_iff)
    then have "\<not> 0 \<le> (of_int n + 1 / 2 :: rat)" by simp
    moreover have "- (of_int n + 1 / 2) + 1 / 2 = (of_int (- n) :: rat)" by simp
    ultimately show ?thesis using False by (simp only: round_away_def if_False floor_of_int)
  qed
  show "round_away (- v) = - round_away v" 
  proof (cases "v = 0")
    case True
    then show ?thesis using round_away_of_int [of 0] by simp
  qed (auto simp: round_away_def)
  show "\<bar>of_int (round_away v) - v\<bar> \<le> 1 / 2" by (rule round_away_near)
qed (auto simp: round_rat_to_int64_eq round_away_mono)

theorem round_rat_spec_witness: "round_rat_to_int64 (- (5 / 2)) = - 3 \<and> round_away (1 / 3) \<le> round_away (5 / 2)"
proof -
  have "round_rat_to_int64 (- (5 / 2)) = int64 (- round_away (5 / 2))" using round_rat_spec [of "- (5 / 2)" 0] round_rat_spec [of "5 / 2" 0] by simp
  moreover have "int64 (- round_away (5 / 2)) = - 3" by code_simp
  moreover have "round_away (1 / 3) \<le> round_away (5 / 2)" using round_rat_spec [of "1 / 3" 0 "5 / 2"] by simp
  ultimately show ?thesis by simp
qed

text \<open>\<open>parseExchangeRate\<close> accepts exactly \<open>FROM/TO=rate\<close>, after trimming and upper-casing: two codes of
  three letters and a positive decimal number, whose exact value it returns. Anything else is an
  invalid input.\<close>

theorem parse_exchange_rate_exact:
  "case parse_exchange_rate t of
     Inr x \<Rightarrow> 0 < xr_rate x \<and> (\<exists>digits. upper_trim t = xr_from x @ ''/'' @ xr_to x @ ''='' @ digits \<and>
        currency_code (xr_from x) \<and> currency_code (xr_to x) \<and> is_decimal digits \<and>
        xr_rate x = decimal_value digits)
   | Inl e \<Rightarrow> (\<exists>m. e = ErrInvalidInput m) \<and>
       \<not> (\<exists>from target digits. upper_trim t = from @ ''/'' @ target @ ''='' @ digits \<and>
          currency_code from \<and> currency_code target \<and> is_decimal digits \<and> 0 < decimal_value digits)"
proof (cases "parse_exchange_rate t")
  case (Inl e)
  have "\<not> (\<exists>from target digits. upper_trim t = from @ ''/'' @ target @ ''='' @ digits \<and>
          currency_code from \<and> currency_code target \<and> is_decimal digits \<and> 0 < decimal_value digits)"
  proof (clarify)
    fix src target digits
    assume "upper_trim t = src @ ''/'' @ target @ ''='' @ digits" "currency_code src" "currency_code target"
      "is_decimal digits" "0 < decimal_value digits"
    then have "parse_exchange_rate t = Inr \<lparr>xr_from = src, xr_to = target, xr_rate = decimal_value digits\<rparr>"
      unfolding parse_exchange_rate_iff by auto
    then show False using Inl by simp
  qed
  then show ?thesis using Inl parse_exchange_rate_error [OF Inl] by simp
next
  case (Inr x)
  then show ?thesis using parse_exchange_rate_iff [of t x] parse_exchange_rate_pos [OF Inr] by auto
qed

section \<open>Rates\<close>

text \<open>Stored rates are normal: one row per supported currency at most, sorted by currency, the first row
  given for a currency wins, and normalising again changes nothing.\<close>

theorem normalized_rates:
  "sorted (map er_currency (normalize_exchange_rates rates)) \<and>
   distinct (map er_currency (normalize_exchange_rates rates)) \<and>
   normalize_exchange_rates (normalize_exchange_rates rates) = normalize_exchange_rates rates \<and>
   find (\<lambda>r. er_currency r = c) (normalize_exchange_rates rates) =
     (if is_supported_currency c
      then map_option (\<lambda>r. r\<lparr>er_currency := c, er_units_per_usd := trim_space (er_units_per_usd r),
               er_source := trim_space (er_source r)\<rparr>)
             (find (\<lambda>r. upper_trim (er_currency r) = c) rates)
      else None)"
  using normalize_exchange_rates_sorted normalize_exchange_rates_first by simp

text \<open>When the service has an index of rates it covers every supported currency with a positive rate,
  so an entry without a rate of its own converts into any of them; and with no stored rates the
  bootstrap rates give such an index.\<close>

theorem rate_index_total:
  "(exchange_rate_index other now s = Inr index \<and> is_supported_currency source \<and>
    is_supported_currency target \<and> in_int64 amount \<longrightarrow>
      (\<exists>cents. convert_amount_cents amount source target [] index = Inr cents)) \<and>
   (ms_rates s = [] \<longrightarrow> exchange_rate_index other now s =
      Inr [''CAD'' \<mapsto> 34 / 25, ''CNY'' \<mapsto> 36 / 5, ''EUR'' \<mapsto> 17 / 20, ''USD'' \<mapsto> 1])"
proof (intro conjI impI)
  show "\<exists>cents. convert_amount_cents amount source target [] index = Inr cents"
    if "exchange_rate_index other now s = Inr index \<and> is_supported_currency source \<and>
      is_supported_currency target \<and> in_int64 amount"
  proof -
    have "trim_space [] = []" by code_simp
    then show ?thesis using that exchange_rate_index_total convert_amount_cents_total by blast
  qed
  show "exchange_rate_index other now s =
      Inr [''CAD'' \<mapsto> 34 / 25, ''CNY'' \<mapsto> 36 / 5, ''EUR'' \<mapsto> 17 / 20, ''USD'' \<mapsto> 1]" if "ms_rates s = []"
  proof -
    have "clone_exchange_rates [] = []" by (simp add: clone_exchange_rates_def sort_func_def)
    moreover have "list_all (\<lambda>currency. [''CAD'' \<mapsto> 34 / 25 :: rat, ''CNY'' \<mapsto> 36 / 5, ''EUR'' \<mapsto> 17 / 20, ''USD'' \<mapsto> 1] currency \<noteq> None)
        supported_currencies" by code_simp
    ultimately show ?thesis
      using that by (simp add: exchange_rate_index_def st_exchange_rates_def default_index del: not_None_eq fun_upd_apply)
  qed
qed

theorem rate_index_total_witness:
  "\<exists>cents. convert_amount_cents 500 ''EUR'' ''CAD'' [] [''CAD'' \<mapsto> 34 / 25, ''CNY'' \<mapsto> 36 / 5, ''EUR'' \<mapsto> 17 / 20, ''USD'' \<mapsto> 1] = Inr cents"
proof -
  have "ms_rates sample_store = []" "is_supported_currency ''EUR''" "is_supported_currency ''CAD''" "in_int64 500"
    by code_simp+
  then show ?thesis using rate_index_total [of "\<lambda>_. None" 0 sample_store
      "[''CAD'' \<mapsto> 34 / 25, ''CNY'' \<mapsto> 36 / 5, ''EUR'' \<mapsto> 17 / 20, ''USD'' \<mapsto> 1]" "''EUR''" "''CAD''" 500]
    by blast
qed

text \<open>A rate printed with \<open>FloatString\<close> reads back as the value rounded to the printed digits: what
  \<open>RatesFromECBCubes\<close> stores, the index of rates parses.\<close>

theorem float_string_round_trip:
  "0 \<le> v \<Longrightarrow> 0 < prec \<Longrightarrow>
   rat_set_string other (float_string prec v) = Some (of_int (round_away (v * 10 ^ prec)) / 10 ^ prec)"
  by (simp add: rat_set_string_def float_string_decimal)

theorem float_string_round_trip_witness:
  "rat_set_string (\<lambda>_. None) (float_string 2 (2 / 3)) = Some (67 / 100)"
proof -
  have "round_away ((2 / 3) * 10 ^ 2) = 67" by code_simp
  then show ?thesis using float_string_round_trip [of "2 / 3" 2] by simp
qed

section \<open>Pages\<close>

text \<open>A page is the slice of the list it names, whatever page and size were asked for, and the list is
  never indexed out of range, while the offset of the page fits an int.\<close>

theorem page_is_slice:
  assumes "fits items" and "page_offset page page_size < 2 ^ 63"
  shows "\<exists>p. paginate items page page_size = Some p \<and> pg_total p = int (length items) \<and>
    1 \<le> pg_page_size p \<and> pg_page_size p \<le> 100 \<and> pg_page p = max 1 page \<and>
    pg_items p = take (nat (pg_page_size p)) (drop (nat ((pg_page p - 1) * pg_page_size p)) items)"
proof -
  obtain q n where qn: "normalize_page page page_size = (q, n)" by force
  then have "page_offset page page_size = (q - 1) * n" by (simp add: page_offset_def)
  then show ?thesis using paginate_slice [OF assms] normalize_page_bounds [OF qn] by (simp add: qn)
qed

theorem page_is_slice_witness:
  "\<exists>p. paginate [10, 20, 30 :: int] 2 2 = Some p \<and> pg_total p = 3"
proof -
  have "fits [10, 20, 30 :: int]" "page_offset 2 2 < 2 ^ 63" by code_simp+
  then show ?thesis using page_is_slice [of "[10, 20, 30 :: int]" 2 2] by auto
qed

text \<open>The other case: a page number whose offset wraps around to a negative int makes the slice
  expression panic, and only then. A request can ask for such a page.\<close>

theorem page_panics_iff:
  assumes "fits items" and "in_int64 page"
  shows "paginate items page page_size = None \<longleftrightarrow> int64 (page_offset page page_size) < 0"
  by (rule paginate_None_iff [OF assms])

theorem page_panics_iff_witness:
  "list_accounts \<lparr>at_user_id = ''m''\<rparr> (2 ^ 62) 3 sample_store = Inl (Panic ''slice bounds out of range'')"
proof -
  let ?mine = "filter (\<lambda>x. ac_user_id x = ''m'') (case st_accounts sample_store of Inr as \<Rightarrow> as | Inl _ \<Rightarrow> [])"
  have "fits ?mine" "in_int64 (2 ^ 62)" "int64 (page_offset (2 ^ 62) 3) < 0" by code_simp+
  then have "paginate ?mine (2 ^ 62) 3 = None" using page_panics_iff by blast
  then show ?thesis by (simp add: list_accounts_def st_accounts_def page_or_def)
qed

text \<open>Reading page after page of a listing ends, and gives the whole list in order: so the import sees
  every account, group and category.\<close>

theorem pages_collect_list:
  "fits items \<Longrightarrow> collect_pages (\<lambda>page. page_or e (paginate items page 100)) 1 [] = Some (Inr items)"
  using whole_list.collect_all by simp

theorem pages_collect_list_witness:
  "collect_pages (\<lambda>page. page_or () (paginate (replicate 250 ''x'') page 100)) 1 [] = Some (Inr (replicate 250 ''x''))"
proof -
  have "fits (replicate 250 ''x'')" by (simp add: fits_def)
  then show ?thesis by (rule pages_collect_list)
qed

section \<open>Totals\<close>

text \<open>C34. A summary counts the entries of the book in the range and adds up their converted amounts by
  kind: income and loans taken, expenses and loans given, refunds and repayments, in the reporting
  currency. The balance is income plus refunds less expenses, and transfers only count. All of it in
  64 bits.\<close>

theorem summary_totals:
  assumes run: "book_summary other now request s = Inr sm"
    and range: "normalize_date_range (sq_start_date request) (sq_end_date request) = (start, end)"
    and es: "es = filter (\<lambda>e. en_book_id e = sq_book_id request \<and> entry_in_range e start end) (ms_entries s)"
  shows "\<exists>b rates. book_at s (sq_book_id request) = Some b \<and> exchange_rate_index other now s = Inr rates \<and>
    (\<forall>e \<in> set es. is_ok (entry_amount_in_currency_cents e (bk_reporting_currency b) rates)) \<and>
    sm_income_cents sm = int64 (total income_type (bk_reporting_currency b) rates es) \<and>
    sm_expense_cents sm = int64 (total expense_type (bk_reporting_currency b) rates es) \<and>
    sm_refund_cents sm = int64 (total refund_type (bk_reporting_currency b) rates es) \<and>
    sm_balance_cents sm = int64 (total income_type (bk_reporting_currency b) rates es +
      total refund_type (bk_reporting_currency b) rates es - total expense_type (bk_reporting_currency b) rates es) \<and>
    sm_entry_count sm = int64 (int (length es)) \<and> sm_currency sm = bk_reporting_currency b"
proof -
  let ?sorted = "sort_func cmp_occurred (filter (\<lambda>e. en_book_id e = sq_book_id request) (ms_entries s))"
  obtain m where m: "member_at s (sq_book_id request) (at_user_id (sq_actor request)) = Some m"
  proof (cases "member_at s (sq_book_id request) (at_user_id (sq_actor request))")
    case None
    then show ?thesis using run st_lookup_None(2) [OF None]
      by (auto simp: book_summary_def rbind_Inr_iff split: if_splits)
  qed
  obtain b rates accounts categories where b: "book_at s (sq_book_id request) = Some b"
    and rates: "exchange_rate_index other now s = Inr rates"
    and add: "add_entries start end (bk_reporting_currency b) rates ?sorted
        \<lparr>sm_book_id = bk_id b, sm_book_name = bk_name b, sm_balance_cents = 0,
         sm_currency = bk_reporting_currency b, sm_entry_count = 0, sm_income_cents = 0,
         sm_expense_cents = 0, sm_refund_cents = 0, sm_transfer_count = 0,
         sm_accounts = accounts, sm_categories = categories\<rparr> = Inr sm"
    using run range by (auto simp: book_summary_def rbind_Inr_iff st_lookup_Some(2) [OF m] st_entries_def split: if_splits)
  let ?es = "filter (\<lambda>e. entry_in_range e start end) ?sorted"
  have perm: "mset ?es = mset es"
    unfolding es mset_filter mset_sort_func filter_filter_mset by (rule filter_mset_cong) auto
  have sums: "total P c rates ?es = total P c rates es" for P c by (rule total_perm [OF perm])
  have len: "length ?es = length es" by (rule mset_eq_length [OF perm])
  have ok: "\<forall>e \<in> set es. is_ok (entry_amount_in_currency_cents e (bk_reporting_currency b) rates)"
    using add_entries_convert [OF add] by (auto simp: es)
  have "int64 0 = 0" by code_simp
  then have w: "wrapped sm" using add_entries_wrapped [OF add] by (simp add: wrapped_def)
  have cur: "sm_currency sm = bk_reporting_currency b" using add_entries_currency [OF add] by simp
  note totals = add_entries_totals [OF add refl, simplified sums len]
  show ?thesis
    using b rates ok cur totals w by (intro exI [of _ b] exI [of _ rates]) (simp add: wrapped_def)
qed

definition sample_summary :: summary_request where
  "sample_summary = \<lparr>sq_actor = \<lparr>at_user_id = ''v''\<rparr>, sq_book_id = ''b'', sq_start_date = 50, sq_end_date = 60\<rparr>"

theorem summary_totals_witness:
  "\<exists>sm. book_summary (\<lambda>_. None) 9 sample_summary sample_store = Inr sm \<and> sm_entry_count sm = 1"
proof -
  have "is_ok (book_summary (\<lambda>_. None) 9 sample_summary sample_store)" by code_simp
  then obtain sm where sm: "book_summary (\<lambda>_. None) 9 sample_summary sample_store = Inr sm" by (auto simp: is_ok_iff)
  have range: "normalize_date_range (sq_start_date sample_summary) (sq_end_date sample_summary) = (50, day)"
    by code_simp
  have "sm_entry_count sm = int64 (int (length (filter (\<lambda>e. en_book_id e = sq_book_id sample_summary \<and>
      entry_in_range e 50 day) (ms_entries sample_store))))"
    using summary_totals [OF sm range refl] by blast
  moreover have "int64 (int (length (filter (\<lambda>e. en_book_id e = sq_book_id sample_summary \<and>
      entry_in_range e 50 day) (ms_entries sample_store)))) = 1" by code_simp
  ultimately show ?thesis using sm by simp
qed

lemma before_end_iff:
  fixes x n k :: int
  assumes "0 < n"
  shows "x < (k + 1) * n \<longleftrightarrow> x div n \<le> k"
proof -
  have x: "x = x div n * n + x mod n" "0 \<le> x mod n" "x mod n < n" using assms by simp_all
  show ?thesis
  proof (cases "x div n \<le> k")
    case True
    then have "x div n * n \<le> k * n" using assms by simp
    moreover have "(k + 1) * n = k * n + n" by (simp add: algebra_simps)
    ultimately show ?thesis using True x by linarith
  next
    case False
    then have "(k + 1) * n \<le> x div n * n" using assms by (intro mult_right_mono) simp_all
    then show ?thesis using False x by linarith
  qed
qed

text \<open>The range of a summary is half open and made of whole days at its end: an entry is in it when it
  is not before the start, and before midnight UTC after the day of the end date.\<close>

theorem date_range_exact:
  assumes "normalize_date_range d1 d2 = (start, end)" and "d1 \<noteq> zero_time" and "0 \<le> d2" and "d2 \<noteq> zero_time"
  shows "entry_in_range e start end \<longleftrightarrow> d1 \<le> en_occurred_at e \<and> en_occurred_at e div day \<le> d2 div day"
proof -
  have "day_start d2 + day = (d2 div day + 1) * day" by (simp add: day_start_def algebra_simps)
  moreover have "en_occurred_at e < (d2 div day + 1) * day \<longleftrightarrow> en_occurred_at e div day \<le> d2 div day"
    by (rule before_end_iff) (simp add: day_def hour_def minute_def second_def)
  moreover have "0 < (d2 div day + 1) * day"
    using assms(3) by (simp add: day_def hour_def minute_def second_def pos_imp_zdiv_nonneg_iff)
  ultimately show ?thesis
    using assms by (auto simp: normalize_date_range_def entry_in_range_def zero_time_def)
qed

theorem date_range_exact_witness:
  "entry_in_range (sample_entry\<lparr>en_occurred_at := 5 * day - 1\<rparr>) 7 (5 * day) \<and>
   \<not> entry_in_range (sample_entry\<lparr>en_occurred_at := 5 * day\<rparr>) 7 (5 * day)"
proof -
  have "normalize_date_range 7 (4 * day + 3) = (7, 5 * day)" "7 \<noteq> zero_time" "(0::int) \<le> 4 * day + 3"
    "4 * day + 3 \<noteq> zero_time" "(5 * day - 1) div day = 4" "5 * day div day = 5" "(4 * day + 3) div day = 4"
    "7 \<le> 5 * day - 1"
    by code_simp+
  note eval = this
  show ?thesis
    using date_range_exact [OF eval(1-4), of "sample_entry\<lparr>en_occurred_at := 5 * day - 1\<rparr>"]
      date_range_exact [OF eval(1-4), of "sample_entry\<lparr>en_occurred_at := 5 * day\<rparr>"] eval(5-8) by simp
qed

end
