(* ===== verification/Tree_Properties.thy ===== *)
theory Tree_Properties
  imports Ledger_Sample
begin

text \<open>
  The properties of the category tree, the default categories, accounts and snapshots, with their
  witnesses.
\<close>

section \<open>Categories\<close>




text \<open>A category that is created hangs under a category of the same book and direction or is a root, has a
  name of 1 to 120 characters, was asked for by a manager of the book, and is the only change.\<close>

theorem created_category_exact:
  assumes ok: "store_ok s" and run: "create_category request fresh now s = Some (Inr c, t)"
  shows "t = s\<lparr>ms_categories := ms_categories s @ [c]\<rparr> \<and> ct_id c = fresh \<and>
    fresh \<notin> ct_id ` set (ms_categories s) \<and> ct_name c \<noteq> [] \<and> rune_count (ct_name c) \<le> 120 \<and>
    ct_direction c \<in> {CategoryDirectionIncome, CategoryDirectionExpense} \<and>
    (\<exists>m. member_at s (ct_book_id c) (at_user_id (cc_actor request)) = Some m \<and> is_manager (bm_role m)) \<and>
    (ct_parent_id c = [] \<or> (\<exists>p \<in> set (ms_categories s). ct_id p = ct_parent_id c \<and>
      ct_book_id p = ct_book_id c \<and> ct_direction p = ct_direction c))"
  using run
proof (rule create_category_success)
  fix m
  assume m: "member_at s (cc_book_id request) (at_user_id (cc_actor request)) = Some m" "is_manager (bm_role m)"
    and v: "validate_create_category_request request s = Some (Inr ())"
    and c: "c = \<lparr>ct_id = fresh, ct_book_id = cc_book_id request,
           ct_parent_id = trim_space (cc_parent_id request),
           ct_name = trim_space (cc_name request), ct_direction = cc_direction request,
           ct_sort_order = cc_sort_order request, ct_archived = False,
           ct_raw_source_name = trim_space (cc_raw_source_name request),
           ct_created_at = now, ct_updated_at = now\<rparr>"
    and t: "ct_id c \<notin> ct_id ` set (ms_categories s)" "t = s\<lparr>ms_categories := ms_categories s @ [c]\<rparr>"
  note acc = validate_accepts [OF ok v [unfolded validate_create_category_request_def]]
  show ?thesis using m acc t by (auto simp: c)
qed

definition sample_category_request :: create_category_request where
  "sample_category_request = \<lparr>cc_actor = \<lparr>at_user_id = ''o''\<rparr>, cc_book_id = ''b'', cc_parent_id = '' d'',
     cc_name = '' Tea '', cc_direction = CategoryDirectionExpense, cc_sort_order = 5, cc_raw_source_name = []\<rparr>"

theorem created_category_exact_witness:
  "\<exists>c t. create_category sample_category_request ''n'' 9 sample_store = Some (Inr c, t) \<and> ct_id c = ''n''"
proof -
  have "map_option (is_ok \<circ> fst) (create_category sample_category_request ''n'' 9 sample_store) = Some True"
    by code_simp
  then obtain c t where run: "create_category sample_category_request ''n'' 9 sample_store = Some (Inr c, t)"
    by (auto simp: is_ok_iff)
  then show ?thesis using created_category_exact [OF sample_store_ok run] by blast
qed

text \<open>The categories of a book are listed by sort order, then by id, all of them and no others, while
  their sort orders stay in the range in which their difference does not wrap.\<close>

theorem category_listing_sorted:
  assumes "list_all (order_ok \<circ> ct_sort_order) (ms_categories s)"
  shows "\<exists>cs. st_categories b s = Inr cs \<and> mset cs = mset (filter (\<lambda>c. ct_book_id c = b) (ms_categories s)) \<and>
    sorted (map (\<lambda>c. Listing_Key (ct_sort_order c) (ct_id c)) cs)"
  using categories_sorted [OF assms, of b] by simp

theorem category_listing_sorted_witness:
  "\<exists>cs. st_categories ''b'' sample_store = Inr cs \<and> length cs = 2"
proof -
  have "list_all (order_ok \<circ> ct_sort_order) (ms_categories sample_store)" by code_simp
  from category_listing_sorted [OF this, of "''b''"] obtain cs where "st_categories ''b'' sample_store = Inr cs"
    and "mset cs = mset (filter (\<lambda>c. ct_book_id c = ''b'') (ms_categories sample_store))" by blast
  moreover from this(2) have "length cs = length (filter (\<lambda>c. ct_book_id c = ''b'') (ms_categories sample_store))"
    by (rule mset_eq_length)
  moreover have "length (filter (\<lambda>c. ct_book_id c = ''b'') (ms_categories sample_store)) = 2" by code_simp
  ultimately show ?thesis by auto
qed

text \<open>The default categories of a new book make a tree of two levels in which every child has the
  direction of its parent, all in the book.\<close>

theorem default_categories_tree:
  "list_all (\<lambda>c. ct_book_id c = b \<and> (ct_parent_id c = [] \<or>
     list_ex (\<lambda>p. ct_id p = ct_parent_id c \<and> ct_parent_id p = [] \<and> ct_direction p = ct_direction c)
       (default_book_categories b now id_for))) (default_book_categories b now id_for)"
proof -
  have "ct_book_id c = b" if "c \<in> set (default_book_categories b now id_for)" for c
    using that by (auto simp: default_book_categories_def)
  then show ?thesis using default_categories_parents [of _ b now id_for]
    by (simp add: list_all_iff list_ex_iff)
qed

section \<open>Accounts\<close>

text \<open>Unsharing takes one book off the list of one account, at the request of a manager of the book, and
  leaves every other account, and the rest of the store, as it is.\<close>

theorem unshare_account_exact:
  assumes ok: "store_ok s" and run: "unshare_account request now s = (Inr a, t)"
  shows "same_part not_accounts s t \<and>
    ms_accounts t = map (\<lambda>x. if ac_id x = ac_id a then a else x) (ms_accounts s) \<and>
    (\<exists>m. member_at s (ua_book_id request) (at_user_id (ua_actor request)) = Some m \<and> is_manager (bm_role m)) \<and>
    (\<exists>old \<in> set (ms_accounts s). a = old\<lparr>ac_shared_book_ids := ac_shared_book_ids a, ac_updated_at := now\<rparr> \<and>
      set (ac_shared_book_ids a) = set (ac_shared_book_ids old) - {ua_book_id request} \<and>
      ua_book_id request \<in> set (ac_shared_book_ids old))"
  using ok run
proof (rule unshare_account_success)
  fix m a0
  assume m: "member_at s (ua_book_id request) (at_user_id (ua_actor request)) = Some m" "is_manager (bm_role m)"
    and a0: "a0 \<in> set (ms_accounts s)" "ua_book_id request \<in> set (ac_shared_book_ids a0)"
    and a: "a = a0\<lparr>ac_shared_book_ids := remove_id (ac_shared_book_ids a0) (ua_book_id request), ac_updated_at := now\<rparr>"
    and w: "st_update_account a s = (Inr a, t)"
  have "ms_accounts t = map (\<lambda>x. if ac_id x = ac_id a then a else x) (ms_accounts s)"
    using account_table.update_rows [OF store_ok_distinct(4) [OF ok] w] by blast
  moreover have "\<exists>old \<in> set (ms_accounts s). a = old\<lparr>ac_shared_book_ids := ac_shared_book_ids a, ac_updated_at := now\<rparr> \<and>
      set (ac_shared_book_ids a) = set (ac_shared_book_ids old) - {ua_book_id request} \<and>
      ua_book_id request \<in> set (ac_shared_book_ids old)"
    by (rule bexI [of _ a0]) (use a0 in \<open>auto simp: a remove_id_def\<close>)
  ultimately show ?thesis using m part.obeysD [OF handlers_parts(7) run] by blast
qed

definition sample_unshare :: unshare_account_request where
  "sample_unshare = \<lparr>ua_actor = \<lparr>at_user_id = ''o''\<rparr>, ua_account_id = '' a '', ua_book_id = ''b''\<rparr>"

theorem unshare_account_exact_witness:
  "\<exists>a t. unshare_account sample_unshare 9 sample_store = (Inr a, t) \<and> ''b'' \<notin> set (ac_shared_book_ids a)"
proof -
  let ?run = "unshare_account sample_unshare 9 sample_store"
  have "is_ok (fst ?run)" by code_simp
  then obtain a where run: "?run = (Inr a, snd ?run)" by (cases "fst ?run") (auto simp: prod_eq_iff)
  from unshare_account_exact [OF sample_store_ok run] have "ua_book_id sample_unshare \<notin> set (ac_shared_book_ids a)"
    by blast
  then show ?thesis using run by (simp add: sample_unshare_def) metis
qed

text \<open>An account that is created satisfies \<open>account_wf\<close>, belongs to the actor, is in a group of the actor or in
  none, and is shared only with books the actor is a member of.\<close>

theorem created_account_exact:
  assumes "store_ok s" and "create_account request fresh now s = (Inr a, t)"
  shows "account_wf a \<and> ac_id a = fresh \<and> ac_user_id a = at_user_id (ca_actor request) \<and>
    (\<forall>b \<in> set (ac_shared_book_ids a). \<exists>m. member_at s b (ac_user_id a) = Some m) \<and>
    (ac_group_id a = [] \<or> (\<exists>g \<in> set (ms_groups s). ag_id g = ac_group_id a \<and> ag_user_id g = ac_user_id a)) \<and>
    t = s\<lparr>ms_accounts := ms_accounts s @ [a]\<rparr>"
  using create_account_success [OF assms] by blast

theorem created_account_exact_witness:
  "\<exists>a t. create_account \<lparr>ca_actor = \<lparr>at_user_id = ''v''\<rparr>, ca_group_id = [], ca_name = '' Bank'',
     ca_type = AccountTypeSavings, ca_currency = ''cad'', ca_shared_book_ids = [''b'', '' b''],
     ca_opening_balance = 5\<rparr> ''n'' 9 sample_store = (Inr a, t) \<and> account_wf a"
proof -
  let ?run = "create_account \<lparr>ca_actor = \<lparr>at_user_id = ''v''\<rparr>, ca_group_id = [], ca_name = '' Bank'',
     ca_type = AccountTypeSavings, ca_currency = ''cad'', ca_shared_book_ids = [''b'', '' b''],
     ca_opening_balance = 5\<rparr> ''n'' 9 sample_store"
  have "is_ok (fst ?run)" by code_simp
  then obtain a where run: "?run = (Inr a, snd ?run)" by (cases "fst ?run") (auto simp: prod_eq_iff)
  from created_account_exact [OF sample_store_ok run] have "account_wf a" by blast
  with run show ?thesis by blast
qed

section \<open>Snapshots\<close>

text \<open>A store rebuilt from the snapshot of a store has the same books, members, entries, categories,
  groups, accounts and rates: what is saved is what is loaded.\<close>

theorem snapshot_round_trip:
  "store_ok s \<Longrightarrow> same_data (new_memory_store (snapshot s)) s"
  by (rule snapshot_same_data)

theorem snapshot_round_trip_witness: "same_data (new_memory_store (snapshot sample_store)) sample_store"
  by (rule snapshot_round_trip [OF sample_store_ok])

end
