(* ===== verification/Durable.thy ===== *)
theory Durable
  imports Effects
begin

text \<open>
  Snapshot files (\<open>persistence/jsonfile.go\<close>, \<open>persistence/snapshot.go\<close>) and the stores built on them:
  a store in memory whose whole content is written to a file after each write
  (\<open>ledger/file_store.go\<close>, \<open>audit/file_store.go\<close>). The contract between the two is the locale
  \<open>snapshot_store\<close>.

  A file holds a value or is still being written; \<open>json.Encoder\<close> and \<open>json.Decoder\<close> are what
  \<open>decode_slice\<close> and the decoders of the stores say: an object sets the fields it has, and a field
  tagged \<open>omitempty\<close> is absent when it is empty.
\<close>

section \<open>Writing a file atomically\<close>

datatype 'v content = Partial | Complete 'v

type_synonym 'v files = "string \<rightharpoonup> 'v content"

text \<open>The call that fails, if one does; the later ones are not reached.\<close>

datatype save_fault = NoFault | FailMkdir | FailCreateTemp | FailChmod | FailEncode | FailSync | FailClose | FailRename

text \<open>
  The states of the file system during \<open>SaveJSONAtomic\<close>, in order: the temporary file appears, gets
  the value, and is renamed over the file, or is removed by the deferred function. \<open>temp\<close> is the
  name \<open>os.CreateTemp\<close> chose.
\<close>

definition save_states :: "string \<Rightarrow> string \<Rightarrow> 'v \<Rightarrow> save_fault \<Rightarrow> 'v files \<Rightarrow> 'v files list" where
  "save_states temp path v fault fs =
     (let created = fs(temp \<mapsto> Partial);
          written = fs(temp \<mapsto> Complete v);
          removed = (\<lambda>s. s(temp := None))
      in case fault of
           FailMkdir \<Rightarrow> [fs]
         | FailCreateTemp \<Rightarrow> [fs]
         | FailChmod \<Rightarrow> [fs, created, removed created]
         | FailEncode \<Rightarrow> [fs, created, removed created]
         | FailSync \<Rightarrow> [fs, created, written, removed written]
         | FailClose \<Rightarrow> [fs, created, written, removed written]
         | FailRename \<Rightarrow> [fs, created, written, removed written]
         | NoFault \<Rightarrow> [fs, created, written, (removed written)(path \<mapsto> Complete v)])"

definition save_json_atomic :: "string \<Rightarrow> string \<Rightarrow> 'v \<Rightarrow> save_fault \<Rightarrow> ('v files, string, unit) act" where
  "save_json_atomic temp path v fault fs =
     (case fault of
        NoFault \<Rightarrow> Inr () | FailMkdir \<Rightarrow> Inl ''create json store directory''
      | FailCreateTemp \<Rightarrow> Inl ''create json store temp file'' | FailChmod \<Rightarrow> Inl ''set json store temp mode''
      | FailEncode \<Rightarrow> Inl ''encode json store'' | FailSync \<Rightarrow> Inl ''sync json store''
      | FailClose \<Rightarrow> Inl ''close json store temp file'' | FailRename \<Rightarrow> Inl ''replace json store'',
      last (save_states temp path v fault fs))"

text \<open>\<open>LoadJSON\<close> into a value that starts as \<open>dst\<close>; a file cut off in the middle does not decode.\<close>

definition load_json :: "('d \<Rightarrow> 'v \<Rightarrow> 'd) \<Rightarrow> string \<Rightarrow> 'd \<Rightarrow> 'v files \<Rightarrow> string + 'd" where
  "load_json decode path dst fs =
     (case fs path of
        None \<Rightarrow> Inr dst
      | Some Partial \<Rightarrow> Inl ''decode json store''
      | Some (Complete v) \<Rightarrow> Inr (decode dst v))"

lemma save_result:
  assumes "fs temp = None" and "temp \<noteq> path"
  shows "save_json_atomic temp path v fault fs =
    (if fault = NoFault then (Inr (), fs(path \<mapsto> Complete v))
     else (Inl (case fst (save_json_atomic temp path v fault fs) of Inl e \<Rightarrow> e | Inr _ \<Rightarrow> []), fs))"
  using assms by (cases fault) (auto simp: save_json_atomic_def save_states_def Let_def fun_eq_iff)

text \<open>Whenever the process stops, the file has its old content or the new one.\<close>

lemma save_states_atomic:
  "temp \<noteq> path \<Longrightarrow> st \<in> set (save_states temp path v fault fs) \<Longrightarrow>
   st path = fs path \<or> st path = Some (Complete v)"
  by (cases fault) (auto simp: save_states_def Let_def)

section \<open>Decoding into what is there\<close>

text \<open>
  A JSON array decodes into a slice that is there element by element: an element that exists is decoded
  into, not replaced, further ones start as zero values.
\<close>

fun decode_slice :: "('a \<Rightarrow> 'a \<Rightarrow> 'a) \<Rightarrow> 'a \<Rightarrow> 'a list \<Rightarrow> 'a list \<Rightarrow> 'a list" where
  "decode_slice decode zero old [] = []"
| "decode_slice decode zero [] (x # xs) = decode zero x # decode_slice decode zero [] xs"
| "decode_slice decode zero (o' # old) (x # xs) = decode o' x # decode_slice decode zero old xs"

text \<open>A field tagged \<open>omitempty\<close>.\<close>

definition keep_omitted :: "'a list \<Rightarrow> 'a list \<Rightarrow> 'a list" where
  "keep_omitted old saved = (if saved = [] then old else saved)"

lemma keep_omitted_simps [simp]: "keep_omitted [] saved = saved" "saved \<noteq> [] \<Longrightarrow> keep_omitted old saved = saved"
    "keep_omitted old [] = old"
  by (simp_all add: keep_omitted_def)

lemma decode_slice_zero [simp]: "(\<And>x. decode zero x = x) \<Longrightarrow> decode_slice decode zero [] xs = xs"
  by (induction xs) simp_all

lemma length_decode_slice [simp]: "length (decode_slice decode zero old xs) = length xs"
  by (induction decode zero old xs rule: decode_slice.induct) simp_all

lemma nth_decode_slice:
  "i < length xs \<Longrightarrow> decode_slice decode zero old xs ! i =
   decode (if i < length old then old ! i else zero) (xs ! i)"
proof (induction decode zero old xs arbitrary: i rule: decode_slice.induct)
  case (2 decode zero x xs)
  then show ?case by (cases i) auto
next
  case (3 decode zero o' old x xs)
  then show ?case by (cases i) auto
qed simp

section \<open>Stores that save a snapshot after each write\<close>

text \<open>The store in memory and the value in the file, if there is one.\<close>

record ('m, 'd) durable =
  du_memory :: 'm
  du_file :: "'d option"

text \<open>
  One write: the operation on memory, then \<open>persist\<close>, under the lock of the store. \<open>saved\<close> is what the
  sink answers, \<open>None\<close> for success; a failing sink leaves the file as it was (\<open>save_result\<close>).
\<close>

definition durable_write ::
    "('m \<Rightarrow> 'd) \<Rightarrow> 'e option \<Rightarrow> ('m, 'e, 'a) act \<Rightarrow> (('m, 'd) durable, 'e, 'a) act" where
  "durable_write snap saved f s =
     (case f (du_memory s) of
        (Inl e, m) \<Rightarrow> (Inl e, s\<lparr>du_memory := m\<rparr>)
      | (Inr x, m) \<Rightarrow>
          (case saved of
             Some e \<Rightarrow> (Inl e, s\<lparr>du_memory := m\<rparr>)
           | None \<Rightarrow> (Inr x, s\<lparr>du_memory := m, du_file := Some (snap m)\<rparr>)))"

definition durable_read :: "('m \<Rightarrow> 'a) \<Rightarrow> ('m, 'd) durable \<Rightarrow> 'a" where
  "durable_read f s = f (du_memory s)"

definition open_durable :: "('d \<Rightarrow> 'd option \<Rightarrow> 'd) \<Rightarrow> ('d \<Rightarrow> 'm) \<Rightarrow> 'd \<Rightarrow> 'd option \<Rightarrow> ('m, 'd) durable" where
  "open_durable load build fallback file = \<lparr>du_memory = build (load fallback file), du_file = file\<rparr>"

text \<open>
  The contract. \<open>same\<close> relates stores that answer alike, \<open>good\<close> the well-formed ones; a store rebuilt
  from a loaded snapshot is the same.
\<close>

locale snapshot_store =
  fixes snap :: "'m \<Rightarrow> 'd" and load :: "'d \<Rightarrow> 'd option \<Rightarrow> 'd" and build :: "'d \<Rightarrow> 'm"
    and fallback :: 'd and same :: "'m \<Rightarrow> 'm \<Rightarrow> bool" and good :: "'m \<Rightarrow> bool"
  assumes load_snapshot: "load fallback (Some (snap m)) = snap m"
    and rebuild: "good m \<Longrightarrow> same (build (snap m)) m"
begin

text \<open>What the file promises: reopening it gives the memory as of the last write that succeeded.\<close>

definition synced :: "('m, 'd) durable \<Rightarrow> bool" where
  "synced s \<longleftrightarrow> du_file s = Some (snap (du_memory s))"

lemma write_ok_synced: "durable_write snap saved f s = (Inr x, t) \<Longrightarrow>
    saved = None \<and> synced t \<and> f (du_memory s) = (Inr x, du_memory t)"
  by (auto simp: durable_write_def synced_def split: prod.splits sum.splits option.splits)

lemma write_failed_file: "durable_write snap saved f s = (Inl e, t) \<Longrightarrow> du_file t = du_file s"
  by (auto simp: durable_write_def split: prod.splits sum.splits option.splits)

lemma refused_write: "fails_clean f \<Longrightarrow> durable_write snap None f s = (Inl e, t) \<Longrightarrow> t = s"
  by (auto simp: durable_write_def fails_clean_def split: prod.splits sum.splits)

lemma reopened: "synced s \<Longrightarrow> good (du_memory s) \<Longrightarrow>
    same (du_memory (open_durable load build fallback (du_file s))) (du_memory s)"
  by (simp add: synced_def open_durable_def load_snapshot rebuild)

lemma acknowledged_write_survives:
  "durable_write snap saved f s = (Inr x, t) \<Longrightarrow> good (du_memory t) \<Longrightarrow>
   same (du_memory (open_durable load build fallback (du_file t))) (du_memory t)"
  using reopened [of t] write_ok_synced [of saved f s x t] by simp

end

section \<open>Rebuilding tables\<close>

text \<open>A table with unique keys, and an index that names the one row with a value, filled again row by row.\<close>

lemma map_of_rev_distinct: "distinct (map fst m) \<Longrightarrow> map_of (rev m) = map_of m"
  by (rule map_of_eqI) (auto simp: rev_map [symmetric] map_of_eq_Some_iff fun_eq_iff)

lemma map_of_fold_update:
  "map_of (fold (\<lambda>x. AList.update (f x) (g x)) xs m) = map_of m ++ map_of (rev (map (\<lambda>x. (f x, g x)) xs))"
  by (induction xs arbitrary: m) (simp_all add: update_conv' map_add_upd_left)

lemma copied_table: "distinct (map fst m) \<Longrightarrow> map_of (fold (\<lambda>x. AList.update (fst x) (snd x)) m []) = map_of m"
  by (simp only: map_of_fold_update prod.collapse list.map_ident map_of_rev_distinct) (simp add: map_of_rev_distinct)

lemma keyed_rows: "keys_ok key m \<Longrightarrow> map (\<lambda>v. (key v, v)) (map snd m) = m"
  by (auto simp: keys_ok_def list_all_iff intro!: map_idI)

lemma rebuilt_rows:
  assumes "keys_ok key m"
  shows "map_of (fold (\<lambda>v. AList.update (key v) v) (map snd m) []) = map_of m"
proof -
  have "distinct (map fst m)" using assms by (simp add: keys_ok_def)
  then show ?thesis unfolding map_of_fold_update keyed_rows [OF assms] by (simp add: map_of_rev_distinct)
qed

lemma rebuilt_index:
  assumes keys: "keys_ok key m"
    and index: "\<And>k i. map_of ids k = Some i \<longleftrightarrow> (\<exists>v. map_of m i = Some v \<and> f v = k)"
  shows "map_of (fold (\<lambda>v. AList.update (f v) (key v)) (map snd m) []) = map_of ids"
proof -
  have unique: "distinct (map fst m)" using keys by (simp add: keys_ok_def)
  have rows: "(i, v) \<in> set m \<longleftrightarrow> map_of m i = Some v" for i v by (rule map_of_eq_Some_iff [OF unique, symmetric])
  have key: "key v = i" if "map_of m i = Some v" for i v using keys_ok_lookup [OF keys that] .
  define pairs where "pairs = map (\<lambda>v. (f v, key v)) (map snd m)"
  have "inj_on (\<lambda>p. f (snd p)) (set m)"
  proof (rule inj_onI, clarsimp)
    fix i v j w assume *: "(i, v) \<in> set m" "(j, w) \<in> set m" "f v = f w"
    then have "map_of ids (f v) = Some i" "map_of ids (f v) = Some j" using index by (auto simp: rows)
    then show "i = j \<and> v = w" using * by (simp add: rows)
  qed
  then have "distinct (map fst pairs)"
    using distinct_map [of fst m] unique by (simp add: pairs_def distinct_map comp_def)
  then have "map_of (rev pairs) k = Some i \<longleftrightarrow> (k, i) \<in> set pairs" for k i
    by (subst map_of_eq_Some_iff) (simp_all add: rev_map [symmetric])
  moreover have "(k, i) \<in> set pairs \<longleftrightarrow> map_of ids k = Some i" for k i
  proof -
    have "(k, i) \<in> set pairs \<longleftrightarrow> (\<exists>j v. map_of m j = Some v \<and> f v = k \<and> key v = i)"
      by (force simp: pairs_def rows [symmetric] image_iff)
    also have "\<dots> \<longleftrightarrow> map_of ids k = Some i" using index key by metis
    finally show ?thesis .
  qed
  ultimately have "map_of (rev pairs) = map_of ids" by (metis not_Some_eq ext)
  then show ?thesis by (simp add: map_of_fold_update pairs_def)
qed

end
