(* ===== verification/Ledger_Durable.thy ===== *)
theory Ledger_Durable
  imports Ledger_Sample Durable
begin

text \<open>
  The durable ledger store (\<open>SnapshotStore\<close> of \<open>ledger/file_store.go\<close>): the store in memory behind a file
  that is rewritten after each write. \<open>saved\<close> is the answer of the sink to that write.
\<close>

section \<open>Loading\<close>

text \<open>
  Decoding a saved row into a row that is there: the fields tagged \<open>omitempty\<close> in \<open>ledger/model.go\<close>
  keep what was there when the saved one is empty. The rows of the other tables have no such field.
\<close>

definition decode_category :: "category \<Rightarrow> category \<Rightarrow> category" where
  "decode_category old saved = saved\<lparr>
     ct_parent_id := keep_omitted (ct_parent_id old) (ct_parent_id saved),
     ct_raw_source_name := keep_omitted (ct_raw_source_name old) (ct_raw_source_name saved)\<rparr>"

definition decode_account :: "account \<Rightarrow> account \<Rightarrow> account" where
  "decode_account old saved = saved\<lparr>
     ac_shared_book_ids := keep_omitted (ac_shared_book_ids old) (ac_shared_book_ids saved)\<rparr>"

definition decode_entry :: "entry \<Rightarrow> entry \<Rightarrow> entry" where
  "decode_entry old saved = saved\<lparr>
     en_account_id := keep_omitted (en_account_id old) (en_account_id saved),
     en_destination_account_id := keep_omitted (en_destination_account_id old) (en_destination_account_id saved),
     en_category_id := keep_omitted (en_category_id old) (en_category_id saved),
     en_exchange_rate := keep_omitted (en_exchange_rate old) (en_exchange_rate saved),
     en_note := keep_omitted (en_note old) (en_note saved),
     en_merchant := keep_omitted (en_merchant old) (en_merchant saved),
     en_tags := keep_omitted (en_tags old) (en_tags saved),
     en_raw_source := keep_omitted (en_raw_source old) (en_raw_source saved)\<rparr>"

definition zero_category :: category where
  "zero_category = \<lparr>ct_id = [], ct_book_id = [], ct_parent_id = [], ct_name = [],
     ct_direction = CategoryDirectionOther [], ct_sort_order = 0, ct_archived = False,
     ct_raw_source_name = [], ct_created_at = zero_time, ct_updated_at = zero_time\<rparr>"

definition zero_account :: account where
  "zero_account = \<lparr>ac_id = [], ac_user_id = [], ac_group_id = [], ac_name = [], ac_type = AccountTypeOther [],
     ac_currency = [], ac_shared_book_ids = [], ac_opening_balance = 0, ac_created_at = zero_time,
     ac_updated_at = zero_time\<rparr>"

definition zero_entry :: entry where
  "zero_entry = \<lparr>en_id = [], en_book_id = [], en_creator_user_id = [], en_type = EntryTypeOther [],
     en_account_id = [], en_destination_account_id = [], en_category_id = [], en_amount_cents = 0,
     en_transaction_currency = [], en_account_currency = [], en_book_reporting_currency = [],
     en_exchange_rate = [], en_occurred_at = zero_time, en_note = [], en_merchant = [], en_tags = [],
     en_raw_source = [], en_created_at = zero_time, en_updated_at = zero_time\<rparr>"

text \<open>\<open>sink.Load(&snapshot)\<close> with \<open>snapshot := fallback\<close>: the fallback when nothing is stored.\<close>

definition load_seed :: "seed_data \<Rightarrow> seed_data option \<Rightarrow> seed_data" where
  "load_seed fallback file =
     (case file of
        None \<Rightarrow> fallback
      | Some saved \<Rightarrow> saved\<lparr>
          sd_categories := decode_slice decode_category zero_category (sd_categories fallback) (sd_categories saved),
          sd_accounts := decode_slice decode_account zero_account (sd_accounts fallback) (sd_accounts saved),
          sd_entries := decode_slice decode_entry zero_entry (sd_entries fallback) (sd_entries saved)\<rparr>)"

type_synonym ledger_durable = "(memory_store, seed_data) durable"

definition new_snapshot_store :: "seed_data \<Rightarrow> seed_data option \<Rightarrow> ledger_durable" where
  "new_snapshot_store = open_durable load_seed new_memory_store"

section \<open>Reading\<close>

definition ss_book :: "string \<Rightarrow> ledger_durable \<Rightarrow> ledger_error + book" where
  "ss_book book_id = durable_read (st_book book_id)"

definition ss_books :: "ledger_durable \<Rightarrow> ledger_error + book list" where
  "ss_books = durable_read (st_books)"

definition ss_book_memberships :: "string \<Rightarrow> ledger_durable \<Rightarrow> ledger_error + book_member list" where
  "ss_book_memberships user_id = durable_read (st_book_memberships user_id)"

definition ss_book_members :: "string \<Rightarrow> ledger_durable \<Rightarrow> ledger_error + book_member list" where
  "ss_book_members book_id = durable_read (st_book_members book_id)"

definition ss_member :: "string \<Rightarrow> string \<Rightarrow> ledger_durable \<Rightarrow> ledger_error + book_member" where
  "ss_member book_id user_id = durable_read (st_member book_id user_id)"

definition ss_entry :: "string \<Rightarrow> string \<Rightarrow> ledger_durable \<Rightarrow> ledger_error + entry" where
  "ss_entry book_id entry_id = durable_read (st_entry book_id entry_id)"

definition ss_entries :: "string \<Rightarrow> ledger_durable \<Rightarrow> ledger_error + entry list" where
  "ss_entries book_id = durable_read (st_entries book_id)"

definition ss_categories :: "string \<Rightarrow> ledger_durable \<Rightarrow> ledger_error + category list" where
  "ss_categories book_id = durable_read (st_categories book_id)"

definition ss_account_groups :: "ledger_durable \<Rightarrow> ledger_error + account_group list" where
  "ss_account_groups = durable_read (st_account_groups)"

definition ss_accounts :: "ledger_durable \<Rightarrow> ledger_error + account list" where
  "ss_accounts = durable_read (st_accounts)"

definition ss_exchange_rates :: "ledger_durable \<Rightarrow> ledger_error + exchange_rate list" where
  "ss_exchange_rates = durable_read (st_exchange_rates)"

section \<open>Writing\<close>

definition ss_create_book ::
    "ledger_error option \<Rightarrow> book \<Rightarrow> book_member \<Rightarrow> category list \<Rightarrow> (ledger_durable, ledger_error, book \<times> book_member) act" where
  "ss_create_book saved b owner categories = durable_write snapshot saved (st_create_book b owner categories)"

definition ss_update_book ::
    "ledger_error option \<Rightarrow> book \<Rightarrow> (ledger_durable, ledger_error, book) act" where
  "ss_update_book saved b = durable_write snapshot saved (st_update_book b)"

definition ss_create_book_member ::
    "ledger_error option \<Rightarrow> book_member \<Rightarrow> (ledger_durable, ledger_error, book_member) act" where
  "ss_create_book_member saved m = durable_write snapshot saved (st_create_book_member m)"

definition ss_update_book_member ::
    "ledger_error option \<Rightarrow> book_member \<Rightarrow> (ledger_durable, ledger_error, book_member) act" where
  "ss_update_book_member saved m = durable_write snapshot saved (st_update_book_member m)"

definition ss_delete_book_member ::
    "ledger_error option \<Rightarrow> string \<Rightarrow> string \<Rightarrow> (ledger_durable, ledger_error, unit) act" where
  "ss_delete_book_member saved book_id user_id = durable_write snapshot saved (st_delete_book_member book_id user_id)"

definition ss_create_entry ::
    "ledger_error option \<Rightarrow> (string \<Rightarrow> string option) \<Rightarrow> entry \<Rightarrow> (ledger_durable, ledger_error, entry) act" where
  "ss_create_entry saved parse e = durable_write snapshot saved (st_create_entry parse e)"

definition ss_update_entry ::
    "ledger_error option \<Rightarrow> entry \<Rightarrow> (ledger_durable, ledger_error, entry) act" where
  "ss_update_entry saved e = durable_write snapshot saved (st_update_entry e)"

definition ss_delete_entry ::
    "ledger_error option \<Rightarrow> string \<Rightarrow> string \<Rightarrow> (ledger_durable, ledger_error, unit) act" where
  "ss_delete_entry saved book_id entry_id = durable_write snapshot saved (st_delete_entry book_id entry_id)"

definition ss_create_category ::
    "ledger_error option \<Rightarrow> category \<Rightarrow> (ledger_durable, ledger_error, category) act" where
  "ss_create_category saved c = durable_write snapshot saved (st_create_category c)"

definition ss_update_category ::
    "ledger_error option \<Rightarrow> category \<Rightarrow> (ledger_durable, ledger_error, category) act" where
  "ss_update_category saved c = durable_write snapshot saved (st_update_category c)"

definition ss_create_account_group ::
    "ledger_error option \<Rightarrow> account_group \<Rightarrow> (ledger_durable, ledger_error, account_group) act" where
  "ss_create_account_group saved g = durable_write snapshot saved (st_create_account_group g)"

definition ss_update_account_group ::
    "ledger_error option \<Rightarrow> account_group \<Rightarrow> (ledger_durable, ledger_error, account_group) act" where
  "ss_update_account_group saved g = durable_write snapshot saved (st_update_account_group g)"

definition ss_create_account ::
    "ledger_error option \<Rightarrow> account \<Rightarrow> (ledger_durable, ledger_error, account) act" where
  "ss_create_account saved a = durable_write snapshot saved (st_create_account a)"

definition ss_update_account ::
    "ledger_error option \<Rightarrow> account \<Rightarrow> (ledger_durable, ledger_error, account) act" where
  "ss_update_account saved a = durable_write snapshot saved (st_update_account a)"

definition ss_replace_exchange_rates ::
    "ledger_error option \<Rightarrow> exchange_rate list \<Rightarrow> (ledger_durable, ledger_error, unit) act" where
  "ss_replace_exchange_rates saved rates = durable_write snapshot saved (st_replace_exchange_rates rates)"

lemmas ss_writes = ss_create_book_def ss_update_book_def ss_create_book_member_def ss_update_book_member_def ss_delete_book_member_def ss_create_entry_def ss_update_entry_def ss_delete_entry_def ss_create_category_def ss_update_category_def ss_create_account_group_def ss_update_account_group_def ss_create_account_def ss_update_account_def ss_replace_exchange_rates_def

section \<open>The contract\<close>

text \<open>
  Loading into the zero value, or into any fallback without optional fields, gives what was saved.
\<close>

definition no_seed :: seed_data where
  "no_seed = \<lparr>sd_books = [], sd_members = [], sd_categories = [], sd_groups = [], sd_accounts = [],
     sd_entries = [], sd_rates = []\<rparr>"

lemma load_no_seed: "load_seed no_seed (Some saved) = saved"
proof -
  have "decode_category zero_category c = c" "decode_account zero_account a = a" "decode_entry zero_entry e = e"
    for c a e
    by (simp_all add: decode_category_def zero_category_def decode_account_def zero_account_def
        decode_entry_def zero_entry_def)
  then show ?thesis by (simp add: load_seed_def no_seed_def)
qed

interpretation ledger_file: snapshot_store snapshot load_seed new_memory_store no_seed same_data store_ok
  by unfold_locales (simp_all add: load_no_seed snapshot_same_data)

text \<open>What a failed sink leaves: the change in memory, and the file as it was.\<close>

lemma failed_sink:
  "f (du_memory s) = (Inr x, m) \<Longrightarrow> durable_write snap (Some e) f s = (Inl e, s\<lparr>du_memory := m\<rparr>)"
  by (simp add: durable_write_def)

end
