(* ===== verification/Audit_Log.thy ===== *)
theory Audit_Log
  imports Pagination Durable
begin

text \<open>
  The audit log (package \<open>audit\<close>): recording an event at the end of a hash chain, verifying the chain,
  listing, and the stores behind it. The service reaches its store through the interface \<open>Store\<close>, which
  is the locale \<open>audit_store\<close> here; the store in memory and the one that saves snapshots both provide it.

  \<open>digest\<close> is the hex form of the SHA-256 of the JSON of the hashed fields, as a function of these
  fields. Metadata is the association list of a Go map in the order of iteration.
\<close>

section \<open>Data\<close>

datatype audit_error = AuditInvalidInput string | AuditNotFound string | AuditOther string

record event =
  ev_id :: string
  ev_seq :: int
  ev_prev_hash :: string
  ev_hash :: string
  ev_actor_id :: string
  ev_actor_email :: string
  ev_action :: string
  ev_target_type :: string
  ev_target_id :: string
  ev_metadata :: "(string \<times> string) list"
  ev_created_at :: time

record record_request =
  rr_actor_id :: string
  rr_actor_email :: string
  rr_action :: string
  rr_target_type :: string
  rr_target_id :: string
  rr_metadata :: "(string \<times> string) list"

record list_request =
  lr_actor_id :: string
  lr_page :: int
  lr_page_size :: int

record list_result =
  lt_items :: "event list"
  lt_page :: int
  lt_page_size :: int
  lt_total :: int

text \<open>The hashed fields: all but the hash itself, with the metadata sorted by key, as JSON objects of maps are.\<close>

record hash_payload =
  hp_seq :: int
  hp_prev_hash :: string
  hp_id :: string
  hp_actor_id :: string
  hp_actor_email :: string
  hp_action :: string
  hp_target_type :: string
  hp_target_id :: string
  hp_metadata :: "(string \<times> string) list"
  hp_created_at :: time

definition event_payload :: "event \<Rightarrow> hash_payload" where
  "event_payload e =
     \<lparr>hp_seq = ev_seq e, hp_prev_hash = ev_prev_hash e, hp_id = ev_id e, hp_actor_id = ev_actor_id e,
      hp_actor_email = ev_actor_email e, hp_action = ev_action e, hp_target_type = ev_target_type e,
      hp_target_id = ev_target_id e, hp_metadata = sort_key fst (ev_metadata e), hp_created_at = ev_created_at e\<rparr>"

type_synonym digest = "hash_payload \<Rightarrow> string"

definition event_hash :: "digest \<Rightarrow> event \<Rightarrow> string" where
  "event_hash digest e = digest (event_payload e)"

section \<open>Sanitizing metadata\<close>

fun contains :: "string \<Rightarrow> string \<Rightarrow> bool" where
  "contains [] pat \<longleftrightarrow> pat = []"
| "contains (c # cs) pat \<longleftrightarrow> take (length pat) (c # cs) = pat \<or> contains cs pat"

definition is_sensitive_metadata_key :: "string \<Rightarrow> bool" where
  "is_sensitive_metadata_key key =
     (let key = to_lower key in
      contains key ''password'' \<or> contains key ''token'' \<or> contains key ''secret'' \<or> contains key ''code'')"

fun sanitize_from :: "(string \<times> string) list \<Rightarrow> (string \<times> string) list \<Rightarrow> (string \<times> string) list" where
  "sanitize_from safe [] = safe"
| "sanitize_from safe ((key, val) # rest) =
     (let key = trim_space key; val = trim_space val in
      if key = [] \<or> val = [] \<or> is_sensitive_metadata_key key then sanitize_from safe rest
      else sanitize_from (AList.update key (if length val > 256 then take 256 val else val) safe) rest)"

definition sanitize_metadata :: "(string \<times> string) list \<Rightarrow> (string \<times> string) list" where
  "sanitize_metadata metadata = sanitize_from [] metadata"

section \<open>Recording\<close>

text \<open>\<open>tail\<close> is the answer of \<open>store.Tail\<close>.\<close>

definition fill_chain :: "digest \<Rightarrow> audit_error + event \<Rightarrow> event \<Rightarrow> audit_error + event" where
  "fill_chain digest tail e =
     (case tail of
        Inr last_event \<Rightarrow>
          (let e = e\<lparr>ev_seq := int64 (ev_seq last_event + 1), ev_prev_hash := ev_hash last_event\<rparr>
           in Inr (e\<lparr>ev_hash := event_hash digest e\<rparr>))
      | Inl (AuditNotFound _) \<Rightarrow>
          (let e = e\<lparr>ev_seq := 1\<rparr> in Inr (e\<lparr>ev_hash := event_hash digest e\<rparr>))
      | Inl err \<Rightarrow> Inl err)"

definition new_event :: "record_request \<Rightarrow> string \<Rightarrow> time \<Rightarrow> event" where
  "new_event request fresh now =
     \<lparr>ev_id = fresh, ev_seq = 0, ev_prev_hash = [], ev_hash = [], ev_actor_id = trim_space (rr_actor_id request),
      ev_actor_email = to_lower (trim_space (rr_actor_email request)), ev_action = rr_action request,
      ev_target_type = trim_space (rr_target_type request), ev_target_id = trim_space (rr_target_id request),
      ev_metadata = sanitize_metadata (rr_metadata request), ev_created_at = now\<rparr>"

definition audit_record ::
    "digest \<Rightarrow> (event \<Rightarrow> ('s, audit_error, event) act) \<Rightarrow> ('s \<Rightarrow> audit_error + event) \<Rightarrow>
     record_request \<Rightarrow> string \<Rightarrow> time \<Rightarrow> ('s, audit_error, event) act" where
  "audit_record digest save tail request fresh now =
     abind (aguard (rr_action request \<noteq> []) (AuditInvalidInput ''action is required'')) (\<lambda>_.
     abind (aguard (trim_space (rr_target_type request) \<noteq> []) (AuditInvalidInput ''target type is required'')) (\<lambda>_.
     abind (aread (\<lambda>s. fill_chain digest (tail s) (new_event request fresh now))) (\<lambda>e.
       save e)))"

text \<open>\<open>SubjectHash\<close>, with \<open>sha\<close> the hex form of SHA-256.\<close>

definition subject_hash :: "(string \<Rightarrow> string) \<Rightarrow> string \<Rightarrow> string" where
  "subject_hash sha subject =
     (let subject = to_lower (trim_space subject) in if subject = [] then [] else sha subject)"

section \<open>Verifying\<close>

definition cmp_seq :: "event \<Rightarrow> event \<Rightarrow> int" where
  "cmp_seq left right = (if ev_seq left < ev_seq right then -1 else if ev_seq left > ev_seq right then 1 else 0)"

text \<open>\<open>expected\<close> is \<open>int64(index + 1)\<close>.\<close>

fun verify_from :: "digest \<Rightarrow> int \<Rightarrow> string \<Rightarrow> event list \<Rightarrow> audit_error + unit" where
  "verify_from digest expected prev_hash [] = Inr ()"
| "verify_from digest expected prev_hash (e # es) =
     (if ev_seq e \<noteq> expected then Inl (AuditOther ''audit chain seq mismatch'')
      else if ev_prev_hash e \<noteq> prev_hash then Inl (AuditOther ''audit chain previous hash mismatch'')
      else if ev_hash e \<noteq> event_hash digest e then Inl (AuditOther ''audit chain hash mismatch'')
      else verify_from digest (expected + 1) (ev_hash e) es)"

definition verify_chain :: "digest \<Rightarrow> event list \<Rightarrow> audit_error + unit" where
  "verify_chain digest events =
     (if events = [] then Inr () else verify_from digest 1 [] (sort_func cmp_seq events))"

section \<open>Listing\<close>

text \<open>The slice expression may panic, which is \<open>None\<close>.\<close>

definition paginate_events :: "event list \<Rightarrow> int \<Rightarrow> int \<Rightarrow> event list option" where
  "paginate_events events page page_size =
     (let total = int (length events);
          start = int64 (int64 (page - 1) * page_size);
          start = (if start < 0 \<or> start > total then total else start);
          end = int64 (start + page_size);
          end = (if end > total then total else end)
      in go_slice events start end)"

definition list_page :: "list_request \<Rightarrow> audit_error + event list \<Rightarrow> (audit_error + list_result) option" where
  "list_page request loaded =
     (let page = (if lr_page request = 0 then 1 else lr_page request);
          page_size = (if lr_page_size request = 0 then 50 else lr_page_size request)
      in if page < 1 \<or> page_size < 1 \<or> page_size > 100
         then Some (Inl (AuditInvalidInput ''pagination is invalid''))
         else (case loaded of
             Inl e \<Rightarrow> Some (Inl e)
           | Inr events \<Rightarrow>
               map_option (\<lambda>items. Inr \<lparr>lt_items = items, lt_page = page, lt_page_size = page_size,
                 lt_total = int (length events)\<rparr>) (paginate_events events page page_size)))"

definition audit_list ::
    "(string \<Rightarrow> 's \<Rightarrow> audit_error + event list) \<Rightarrow> list_request \<Rightarrow> 's \<Rightarrow> (audit_error + list_result) option" where
  "audit_list events_by_actor request s =
     (if trim_space (lr_actor_id request) = [] then Some (Inl (AuditInvalidInput ''actor id is required''))
      else list_page request (events_by_actor (lr_actor_id request) s))"

definition audit_list_all ::
    "('s \<Rightarrow> audit_error + event list) \<Rightarrow> list_request \<Rightarrow> 's \<Rightarrow> (audit_error + list_result) option" where
  "audit_list_all all_events request s = list_page request (all_events s)"

section \<open>The stores\<close>

type_synonym audit_memory = "event list"

definition au_save_event :: "event \<Rightarrow> (audit_memory, audit_error, event) act" where
  "au_save_event e s = (Inr e, s @ [e])"

definition au_events_by_actor :: "string \<Rightarrow> audit_memory \<Rightarrow> audit_error + event list" where
  "au_events_by_actor actor_id s =
     (if actor_id = [] then Inl (AuditInvalidInput ''actor id is required'')
      else Inr (filter (\<lambda>e. ev_actor_id e = actor_id) (rev s)))"

definition au_all_events :: "audit_memory \<Rightarrow> audit_error + event list" where
  "au_all_events s = Inr (rev s)"

definition au_tail :: "audit_memory \<Rightarrow> audit_error + event" where
  "au_tail s = (if s = [] then Inl (AuditNotFound ''audit event not found'') else Inr (last s))"

text \<open>\<open>Snapshot\<close> and \<open>NewMemoryStoreFromSnapshot\<close> copy the events.\<close>

definition au_snapshot :: "audit_memory \<Rightarrow> event list" where "au_snapshot s = s"
definition au_from_snapshot :: "event list \<Rightarrow> audit_memory" where "au_from_snapshot d = d"

type_synonym audit_durable = "(audit_memory, event list) durable"

definition as_save_event :: "audit_error option \<Rightarrow> event \<Rightarrow> (audit_durable, audit_error, event) act" where
  "as_save_event saved e = durable_write au_snapshot saved (au_save_event e)"

definition as_events_by_actor :: "string \<Rightarrow> audit_durable \<Rightarrow> audit_error + event list" where
  "as_events_by_actor actor_id = durable_read (au_events_by_actor actor_id)"

definition as_all_events :: "audit_durable \<Rightarrow> audit_error + event list" where
  "as_all_events = durable_read au_all_events"

definition as_tail :: "audit_durable \<Rightarrow> audit_error + event" where
  "as_tail = durable_read au_tail"

text \<open>The fallback is the empty snapshot; an event decoded into no event is the saved one.\<close>

definition load_events :: "event list \<Rightarrow> event list option \<Rightarrow> event list" where
  "load_events fallback file = (case file of None \<Rightarrow> fallback | Some saved \<Rightarrow> saved)"

definition audit_snapshot_store :: "event list option \<Rightarrow> audit_durable" where
  "audit_snapshot_store file = open_durable load_events au_from_snapshot [] file"

interpretation audit_file: snapshot_store au_snapshot load_events au_from_snapshot "[]" "(=)" "\<lambda>_. True"
  by unfold_locales (simp_all add: load_events_def au_snapshot_def au_from_snapshot_def)

section \<open>The chain\<close>

fun chained :: "digest \<Rightarrow> int \<Rightarrow> string \<Rightarrow> event list \<Rightarrow> bool" where
  "chained digest n prev [] \<longleftrightarrow> True"
| "chained digest n prev (e # es) \<longleftrightarrow>
     ev_seq e = n \<and> ev_prev_hash e = prev \<and> ev_hash e = event_hash digest e \<and> chained digest (n + 1) (ev_hash e) es"

lemma verify_from_chained: "verify_from digest n prev es = Inr () \<longleftrightarrow> chained digest n prev es"
  by (induction digest n prev es rule: chained.induct) auto

definition end_hash :: "string \<Rightarrow> event list \<Rightarrow> string" where
  "end_hash prev es = (if es = [] then prev else ev_hash (last es))"

lemma chained_append:
  "chained digest n prev (xs @ ys) \<longleftrightarrow>
   chained digest n prev xs \<and> chained digest (n + int (length xs)) (end_hash prev xs) ys"
  by (induction digest n prev xs rule: chained.induct) (auto simp: end_hash_def algebra_simps)

lemma chained_seqs: "chained digest n prev es \<Longrightarrow> i < length es \<Longrightarrow> ev_seq (es ! i) = n + int i"
proof (induction digest n prev es arbitrary: i rule: chained.induct)
  case (2 digest n prev e es)
  then show ?case by (cases i) auto
qed simp

lemma chained_sorted:
  assumes "chained digest n prev es"
  shows "sorted (map ev_seq es)" and "distinct (map ev_seq es)"
  using chained_seqs [OF assms] by (auto simp: sorted_iff_nth_mono distinct_conv_nth)

text \<open>Verification does not depend on the order of the events.\<close>

lemma verify_chain_perm:
  assumes "chained digest 1 [] es" and "mset xs = mset es"
  shows "verify_chain digest xs = Inr ()"
proof -
  have "sort_func cmp_seq xs = sort_key ev_seq xs"
    by (rule sort_func_key) (simp add: cmp_seq_def)
  moreover have "distinct (map ev_seq xs)"
    using chained_sorted(2) [OF assms(1)] assms(2) by (metis mset_eq_imp_distinct_iff mset_map)
  then have "inj_on ev_seq (set xs)" by (simp add: distinct_map)
  then have "sort_key ev_seq xs = es"
    using chained_sorted(1) [OF assms(1)] assms(2) by (intro sort_key_inj_key_eq) simp_all
  ultimately show ?thesis using assms(1) by (simp add: verify_chain_def verify_from_chained)
qed

lemma verify_chain_iff:
  "verify_chain digest xs = Inr () \<longleftrightarrow> chained digest 1 [] (sort_func cmp_seq xs)"
  by (auto simp: verify_chain_def verify_from_chained sort_func_def)

end
