(* ===== verification/Audit_Chain.thy ===== *)
theory Audit_Chain
  imports Audit_Log
begin

text \<open>
  What the chain of the audit log guarantees: the interface the service relies on, the invariant every
  recording keeps, what verification detects, and what overlapping recordings break.
\<close>

section \<open>The interface\<close>

locale audit_store =
  fixes save :: "event \<Rightarrow> ('s, audit_error, event) act"
    and tail :: "'s \<Rightarrow> audit_error + event"
    and by_actor :: "string \<Rightarrow> 's \<Rightarrow> audit_error + event list"
    and all_events :: "'s \<Rightarrow> audit_error + event list"
    and events :: "'s \<Rightarrow> event list"
  assumes save_appends: "\<exists>t. save e s = (Inr e, t) \<and> events t = events s @ [e]"
    and tail_newest: "events s \<noteq> [] \<Longrightarrow> tail s = Inr (last (events s))"
    and tail_empty: "events s = [] \<Longrightarrow> \<exists>m. tail s = Inl (AuditNotFound m)"
    and all_newest_first: "all_events s = Inr (rev (events s))"
    and actor_newest_first: "u \<noteq> [] \<Longrightarrow> by_actor u s = Inr (filter (\<lambda>e. ev_actor_id e = u) (rev (events s)))"
begin

text \<open>The event a recording appends: the next of the chain.\<close>

lemma record_appends:
  assumes "audit_record digest save tail request fresh now s = (Inr e, t)"
  shows "events t = events s @ [e]"
    and "ev_seq e = (if events s = [] then 1 else int64 (ev_seq (last (events s)) + 1))"
    and "ev_prev_hash e = end_hash [] (events s)" and "ev_hash e = event_hash digest e"
proof -
  from assms obtain f where f: "fill_chain digest (tail s) (new_event request fresh now) = Inr f"
    and w: "save f s = (Inr e, t)"
    by (auto simp: audit_record_def act_iffs split: if_splits)
  from save_appends [of f s] w have ef: "e = f" and t: "events t = events s @ [f]" by auto
  show "events t = events s @ [e]" using t ef by simp
  show "ev_seq e = (if events s = [] then 1 else int64 (ev_seq (last (events s)) + 1))"
    "ev_prev_hash e = end_hash [] (events s)" "ev_hash e = event_hash digest e"
  proof -
    consider m where "events s = []" "tail s = Inl (AuditNotFound m)"
      | "events s \<noteq> []" "tail s = Inr (last (events s))"
      using tail_newest [of s] tail_empty [of s] by blast
    then have "ev_seq e = (if events s = [] then 1 else int64 (ev_seq (last (events s)) + 1)) \<and>
        ev_prev_hash e = end_hash [] (events s) \<and> ev_hash e = event_hash digest e"
      using f by cases (auto simp: fill_chain_def ef Let_def end_hash_def new_event_def event_hash_def event_payload_def)
    then show "ev_seq e = (if events s = [] then 1 else int64 (ev_seq (last (events s)) + 1))"
      "ev_prev_hash e = end_hash [] (events s)" "ev_hash e = event_hash digest e" by simp_all
  qed
qed

lemma record_refused:
  "audit_record digest save tail request fresh now s = (Inl e, t) \<Longrightarrow> t = s"
proof -
  assume run: "audit_record digest save tail request fresh now s = (Inl e, t)"
  have "save f s \<noteq> (Inl e', u)" for f e' u using save_appends [of f s] by auto
  then show "t = s" using run by (auto simp: audit_record_def act_iffs split: if_splits)
qed

text \<open>A recording keeps the chain, while the sequence numbers fit an int64.\<close>

lemma record_keeps_chain:
  assumes ok: "chained digest 1 [] (events s)" and fits: "int (length (events s)) < 2 ^ 63 - 1"
    and run: "audit_record digest save tail request fresh now s = (r, t)"
  shows "chained digest 1 [] (events t)"
proof (cases r)
  case (Inl x)
  then show ?thesis using ok run record_refused by metis
next
  case (Inr e)
  note new = record_appends [OF run [unfolded Inr]]
  have "ev_seq e = 1 + int (length (events s))"
  proof (cases "events s = []")
    case False
    moreover from this obtain k where "length (events s) = Suc k" by (cases "events s") auto
    ultimately have "ev_seq (last (events s)) = int (length (events s))"
      using chained_seqs [OF ok, of k] by (simp add: last_conv_nth)
    then show ?thesis using False fits by (simp add: new(2) int64_id in_int64_def)
  qed (simp add: new(2))
  then show ?thesis using ok new by (simp add: chained_append)
qed

text \<open>A run of recordings.\<close>

fun record_all :: "digest \<Rightarrow> (record_request \<times> string \<times> time) list \<Rightarrow> 's \<Rightarrow> 's" where
  "record_all digest [] s = s"
| "record_all digest ((request, fresh, now) # rest) s =
     record_all digest rest (snd (audit_record digest save tail request fresh now s))"

lemma record_all_fold:
  "record_all digest rs s = fold (\<lambda>(request, fresh, now) s. snd (audit_record digest save tail request fresh now s)) rs s"
  by (induction digest rs s rule: record_all.induct) simp_all

lemma record_all_chain:
  "chained digest 1 [] (events s) \<Longrightarrow> int (length (events s) + length rs) < 2 ^ 63 - 1 \<Longrightarrow>
   chained digest 1 [] (events (record_all digest rs s))"
proof (induction digest rs s rule: record_all.induct)
  case (2 digest request fresh now rest s)
  obtain r t where run: "audit_record digest save tail request fresh now s = (r, t)" by force
  have "length (events t) \<le> Suc (length (events s))"
    using record_appends(1) [of digest request fresh now s _ t] record_refused [of digest request fresh now s _ t] run
    by (cases r) auto
  then have "chained digest 1 [] (events (record_all digest rest t))"
    using 2 run record_keeps_chain [OF "2.prems"(1) _ run] by auto
  then show ?case using run by simp
qed simp

lemma record_all_verifies:
  assumes "events s = []" and "int (length rs) < 2 ^ 63 - 1"
  shows "\<exists>es. all_events (record_all digest rs s) = Inr es \<and> verify_chain digest es = Inr ()"
proof -
  have "chained digest 1 [] (events (record_all digest rs s))"
    using assms by (intro record_all_chain) simp_all
  then have "verify_chain digest (rev (events (record_all digest rs s))) = Inr ()"
    by (rule verify_chain_perm) simp
  then show ?thesis by (simp add: all_newest_first)
qed

end

text \<open>The store in memory, and the durable one with a sink that works.\<close>

interpretation memory_log: audit_store au_save_event au_tail au_events_by_actor au_all_events "\<lambda>s. s"
  by unfold_locales (auto simp: au_save_event_def au_tail_def au_all_events_def au_events_by_actor_def)

interpretation durable_log: audit_store "as_save_event None" as_tail as_events_by_actor as_all_events du_memory
  by unfold_locales (auto simp: as_save_event_def as_tail_def as_all_events_def as_events_by_actor_def
      durable_write_def durable_read_def au_save_event_def au_tail_def au_all_events_def au_events_by_actor_def)

section \<open>What verification detects\<close>

text \<open>
  Two logs of the same length whose chains verify and end in the same hash agree event by event in
  every hashed field, or two of their events exhibit a collision of the digest.
\<close>

definition collision :: "digest \<Rightarrow> event list \<Rightarrow> event list \<Rightarrow> bool" where
  "collision digest xs ys \<longleftrightarrow> list_ex (\<lambda>x. list_ex (\<lambda>y.
     event_payload x \<noteq> event_payload y \<and> event_hash digest x = event_hash digest y) ys) xs"

lemma chained_unique:
  "length xs = length ys \<Longrightarrow> \<not> collision digest xs ys \<Longrightarrow> chained digest n p xs \<Longrightarrow> chained digest n q ys \<Longrightarrow>
    xs \<noteq> [] \<Longrightarrow> ev_hash (last xs) = ev_hash (last ys) \<Longrightarrow>
    map event_payload xs = map event_payload ys \<and> map ev_hash xs = map ev_hash ys \<and> p = q"
proof (induction xs ys arbitrary: n p q rule: list_induct2)
  case (Cons x xs y ys)
  have inj: "event_payload x = event_payload y" if "event_hash digest x = event_hash digest y"
    using that Cons.prems(1) by (simp add: collision_def)
  have rest: "\<not> collision digest xs ys"
    using Cons.prems(1) by (auto simp: collision_def list_ex_iff)
  have hash: "ev_hash x = event_hash digest x" "ev_hash y = event_hash digest y"
    "ev_prev_hash x = p" "ev_prev_hash y = q"
    using Cons.prems by simp_all
  have same: "ev_hash x = ev_hash y \<and> map event_payload xs = map event_payload ys \<and> map ev_hash xs = map ev_hash ys"
  proof (cases "xs = []")
    case True
    then show ?thesis using Cons.hyps Cons.prems by simp
  next
    case False
    moreover from this have "ys \<noteq> []" using Cons.hyps by auto
    ultimately show ?thesis
      using Cons.IH [OF rest, of "n + 1" "ev_hash x" "ev_hash y"] Cons.prems hash(1,2) by simp
  qed
  have "event_hash digest x = event_hash digest y" using same unfolding hash(1,2) by blast
  then have pay: "event_payload x = event_payload y" by (rule inj)
  moreover from arg_cong [OF pay, of hp_prev_hash] have "p = q"
    using hash(3,4) by (simp add: event_payload_def)
  ultimately show ?case using same by simp
qed simp

text \<open>Removing the newest events is not detected: a prefix of a chain is a chain.\<close>

lemma chained_prefix: "chained digest n p (xs @ ys) \<Longrightarrow> chained digest n p xs"
  by (simp add: chained_append)

section \<open>Overlapping recordings\<close>

text \<open>
  \<open>Record\<close> reads the tail and saves the event in two critical sections. Two recordings that both read
  before either saves: their events carry the same number, and the log verifies no more, whatever is
  recorded later.
\<close>

definition filled :: "digest \<Rightarrow> audit_memory \<Rightarrow> record_request \<Rightarrow> string \<Rightarrow> time \<Rightarrow> audit_error + event" where
  "filled digest s request fresh now = fill_chain digest (au_tail s) (new_event request fresh now)"

lemma same_seq_fails:
  assumes "e \<in> set es" and "f \<in> set es" and "e \<noteq> f" and "ev_seq e = ev_seq f"
  shows "verify_chain digest es \<noteq> Inr ()"
proof
  assume "verify_chain digest es = Inr ()"
  then have "distinct (map ev_seq (sort_func cmp_seq es))"
    unfolding verify_chain_iff by (rule chained_sorted(2))
  then have "distinct (map ev_seq es)" by simp
  then show False using assms by (auto simp: distinct_map dest: inj_onD)
qed

lemma overlap_same_seq:
  assumes "filled digest s r1 i1 t1 = Inr e" and "filled digest s r2 i2 t2 = Inr f"
  shows "ev_seq e = ev_seq f" and "ev_id e = i1" and "ev_id f = i2"
  using assms by (auto simp: filled_def fill_chain_def Let_def new_event_def split: sum.splits audit_error.splits)

section \<open>Pages of events\<close>

lemma paginate_events_total:
  assumes "fits events" and "1 \<le> page_size" and "page_size \<le> 100"
  shows "paginate_events events page page_size \<noteq> None"
proof -
  let ?n = "int (length events)"
  have n: "0 \<le> ?n" "?n < 2 ^ 62" using assms(1) by (simp_all add: fits_def)
  define start where "start = (let start = int64 (int64 (page - 1) * page_size) in
    if start < 0 \<or> start > ?n then ?n else start)"
  have start: "0 \<le> start" "start \<le> ?n" by (simp_all add: start_def Let_def)
  have "int64 (start + page_size) = start + page_size"
    using start n assms by (intro int64_id) (simp add: in_int64_def)
  then show ?thesis using start n assms
    by (simp add: paginate_events_def go_slice_def Let_def flip: start_def [unfolded Let_def])
qed

lemma paginate_events_slice:
  assumes "fits events" and "1 \<le> page" and "1 \<le> page_size" and "page_size \<le> 100"
    and "(page - 1) * page_size < 2 ^ 63"
  shows "paginate_events events page page_size =
    Some (take (nat page_size) (drop (nat ((page - 1) * page_size)) events))"
proof -
  let ?n = "int (length events)" and ?o = "(page - 1) * page_size"
  have n: "?n < 2 ^ 62" using assms(1) by (simp add: fits_def)
  have "page - 1 \<le> ?o" using assms mult_left_mono [of 1 page_size "page - 1"] by simp
  then have "int64 (page - 1) = page - 1" using assms by (intro int64_id) (simp add: in_int64_def)
  moreover have o: "0 \<le> ?o" using assms by simp
  moreover from o have "int64 ?o = ?o" using assms(5) by (intro int64_id) (simp add: in_int64_def)
  ultimately have off: "int64 (int64 (page - 1) * page_size) = ?o" by simp
  have wrap: "int64 (st + page_size) = st + page_size" if "0 \<le> st" "st \<le> ?n" for st
    using that n assms by (intro int64_id) (simp add: in_int64_def)
  show ?thesis
  proof (cases "?o > ?n")
    case True
    then have "nat ?o \<ge> length events" by linarith
    then show ?thesis using True o assms(3) wrap [of ?n]
      by (simp add: paginate_events_def off go_slice_def Let_def)
  next
    case False
    have "nat (?o + page_size) - nat ?o = nat page_size" using o assms(3) by linarith
    then show ?thesis using False o assms(3) wrap [of ?o]
      by (auto simp: paginate_events_def off go_slice_def Let_def)
  qed
qed

section \<open>Sanitized metadata\<close>

definition safe_pair :: "string \<times> string \<Rightarrow> bool" where
  "safe_pair p \<longleftrightarrow> fst p \<noteq> [] \<and> snd p \<noteq> [] \<and> length (snd p) \<le> 256 \<and> \<not> is_sensitive_metadata_key (fst p)"

lemma set_update: "x \<in> set (AList.update k v m) \<Longrightarrow> x = (k, v) \<or> x \<in> set m"
  by (induction m) (auto split: if_splits)

lemma sanitize_from_safe:
  "distinct (map fst safe) \<Longrightarrow> \<forall>p \<in> set safe. safe_pair p \<Longrightarrow>
   distinct (map fst (sanitize_from safe m)) \<and> (\<forall>p \<in> set (sanitize_from safe m). safe_pair p)"
proof (induction safe m rule: sanitize_from.induct)
  case (2 safe key val rest)
  let ?k = "trim_space key" and ?v = "trim_space val"
  show ?case
  proof (cases "?k = [] \<or> ?v = [] \<or> is_sensitive_metadata_key ?k")
    case True
    then show ?thesis using 2 by (auto simp: Let_def)
  next
    case False
    define w where "w = (if length ?v > 256 then take 256 ?v else ?v)"
    have "safe_pair (?k, w)" using False by (simp add: safe_pair_def w_def)
    then have "\<forall>p \<in> set (AList.update ?k w safe). safe_pair p"
      using "2.prems"(2) by (blast dest: set_update)
    moreover have "distinct (map fst (AList.update ?k w safe))" using "2.prems"(1) by (simp add: distinct_update)
    ultimately have "distinct (map fst (sanitize_from (AList.update ?k w safe) rest)) \<and>
        (\<forall>p \<in> set (sanitize_from (AList.update ?k w safe) rest). safe_pair p)"
      using "2.IH"(2) [OF refl refl False] by (simp add: w_def)
    then show ?thesis using False by (simp add: Let_def w_def)
  qed
qed simp

end
