(* ===== verification/Storage_Properties.thy ===== *)
theory Storage_Properties
  imports Ledger_Durable Audit_Chain
begin

text \<open>
  The properties of what is stored: snapshot files, the durable ledger and the audit log, with their
  witnesses.
\<close>

section \<open>Snapshot files\<close>

text \<open>C36. Saving a file is atomic: whatever fails, and wherever the process stops, the file holds its old
  content or the whole new value; it holds the new value exactly when the call succeeds, and no
  temporary file is left after it returns.\<close>

theorem save_is_atomic:
  assumes "fs temp = None" and "temp \<noteq> path"
  shows "(\<forall>st \<in> set (save_states temp path v fault fs). st path = fs path \<or> st path = Some (Complete v)) \<and>
    (case save_json_atomic temp path v fault fs of
       (Inr _, fs') \<Rightarrow> fault = NoFault \<and> fs' = fs(path \<mapsto> Complete v)
     | (Inl _, fs') \<Rightarrow> fault \<noteq> NoFault \<and> fs' = fs)"
  using save_states_atomic [OF assms(2)] assms
  by (cases fault) (auto simp: save_json_atomic_def save_states_def Let_def fun_eq_iff)

theorem save_is_atomic_witness:
  "load_json (\<lambda>_ v. v) ''p'' 0 (snd (save_json_atomic ''t'' ''p'' (7::int) NoFault Map.empty)) = Inr 7"
proof -
  have "(case save_json_atomic ''t'' ''p'' (7::int) NoFault Map.empty of
       (Inr _, fs') \<Rightarrow> fs' = [''p'' \<mapsto> Complete 7] | (Inl _, fs') \<Rightarrow> NoFault \<noteq> NoFault)"
    using save_is_atomic [of Map.empty "''t''" "''p''" "7::int" NoFault] by (auto split: prod.splits sum.splits)
  then have "snd (save_json_atomic ''t'' ''p'' (7::int) NoFault Map.empty) = [''p'' \<mapsto> Complete 7]"
    by (simp split: prod.splits sum.splits)
  then show ?thesis by (simp add: load_json_def)
qed

section \<open>The durable ledger\<close>



text \<open>The server opens its file with the demo data as the fallback, and the fallback shows through: in a
  row that has the position of a demo row, an optional field that was saved empty comes back with the
  value of the demo row. So an account that was unshared is shared again after a restart.\<close>

theorem demo_fallback_shows_through:
  assumes "i < length (sd_accounts saved)" and "i < length (sd_accounts demo_seed_data)"
    and "ac_shared_book_ids (sd_accounts saved ! i) = []"
  shows "ac_shared_book_ids (ms_accounts (du_memory (new_snapshot_store demo_seed_data (Some saved))) ! i) =
    ac_shared_book_ids (sd_accounts demo_seed_data ! i)"
  using assms by (simp add: new_snapshot_store_def open_durable_def load_seed_def new_memory_store_def
      nth_decode_slice decode_account_def keep_omitted_def)

theorem demo_fallback_shows_through_witness:
  "\<exists>a t. st_update_account ((sd_accounts demo_seed_data ! 1)\<lparr>ac_shared_book_ids := []\<rparr>) demo_store = (Inr a, t) \<and>
     ac_shared_book_ids (ms_accounts t ! 1) = [] \<and>
     ac_shared_book_ids (ms_accounts (du_memory (new_snapshot_store demo_seed_data (Some (snapshot t)))) ! 1) =
       [''book-household'']"
proof -
  let ?a = "(sd_accounts demo_seed_data ! 1)\<lparr>ac_shared_book_ids := []\<rparr>"
  have acc: "ms_accounts demo_store = sd_accounts demo_seed_data"
    by (simp add: demo_store_def new_memory_store_def Let_def)
  have "index_func (\<lambda>x. ac_id x = ac_id ?a) (sd_accounts demo_seed_data) = Some 1" by (simp add: demo_seed_data_def)
  then obtain a t where w: "st_update_account ?a demo_store = (Inr a, t)"
    and t: "t = demo_store\<lparr>ms_accounts := (ms_accounts demo_store)[1 := ?a]\<rparr>"
    by (simp add: st_update_account_def acc)
  have "ac_shared_book_ids (sd_accounts demo_seed_data ! 1) = [''book-household'']" "length (sd_accounts demo_seed_data) = 2"
    by (simp_all add: demo_seed_data_def)
  moreover from this have "ac_shared_book_ids (ms_accounts t ! 1) = []" "length (ms_accounts t) = 2" by (simp_all add: t acc)
  moreover have "sd_accounts (snapshot t) = ms_accounts t" by (simp add: snapshot_def)
  ultimately show ?thesis using w demo_fallback_shows_through [of 1 "snapshot t"] by simp
qed

section \<open>The audit log\<close>

text \<open>A log that starts empty and is written by recordings that do not overlap, refused ones included,
  verifies at every moment, in whatever order its events are given to the check.\<close>

theorem audit_log_verifies:
  assumes "int (length requests) < 2 ^ 63 - 1"
    and "events_log = fold (\<lambda>(request, fresh, now) s. snd (audit_record digest au_save_event au_tail request fresh now s)) requests []"
    and "mset events = mset events_log"
  shows "verify_chain digest events = Inr () \<and> au_all_events events_log = Inr (rev events_log)"
proof -
  have "chained digest 1 [] (memory_log.record_all digest requests [])"
    using assms(1) by (intro memory_log.record_all_chain) simp_all
  then have "chained digest 1 [] events_log" by (simp add: assms(2) memory_log.record_all_fold)
  then show ?thesis using verify_chain_perm assms(3) by (simp add: au_all_events_def)
qed

definition sample_record :: "string \<Rightarrow> record_request" where
  "sample_record a = \<lparr>rr_actor_id = a, rr_actor_email = '' A@B.c'', rr_action = ''auth.login'',
     rr_target_type = ''user'', rr_target_id = a, rr_metadata = [(''ip'', '' 1 ''), (''authToken'', ''x'')]\<rparr>"

theorem audit_log_verifies_witness:
  "verify_chain (\<lambda>p. hp_prev_hash p @ hp_id p) (rev (snd (audit_record (\<lambda>p. hp_prev_hash p @ hp_id p)
     au_save_event au_tail (sample_record ''u'') ''i'' 3 []))) = Inr ()"
  by (rule audit_log_verifies [of "[(sample_record ''u'', ''i'', 3)]", OF _ refl, THEN conjunct1]) simp_all



text \<open>Recordings that overlap break the log for good: if two of them read the tail of the same log before
  either saves its event, both events get the same number, and no log that contains both verifies.\<close>

theorem overlapping_records_break_chain:
  assumes "filled digest s r1 id1 now1 = Inr e1" and "filled digest s r2 id2 now2 = Inr e2" and "id1 \<noteq> id2"
  shows "verify_chain digest (snd (au_save_event e2 (snd (au_save_event e1 s))) @ later) \<noteq> Inr ()"
proof -
  note same = overlap_same_seq [OF assms(1,2)]
  show ?thesis
    by (rule same_seq_fails [of e1 _ e2]) (use same assms(3) in \<open>auto simp: au_save_event_def\<close>)
qed

theorem overlapping_records_break_chain_witness:
  "\<exists>e1 e2. filled (\<lambda>p. hp_id p) [] (sample_record ''u'') ''i'' 3 = Inr e1 \<and>
     filled (\<lambda>p. hp_id p) [] (sample_record ''u'') ''j'' 3 = Inr e2 \<and>
     verify_chain (\<lambda>p. hp_id p) [e1, e2] \<noteq> Inr ()"
proof -
  have "is_ok (filled (\<lambda>p. hp_id p) [] (sample_record ''u'') ''i'' 3)"
    "is_ok (filled (\<lambda>p. hp_id p) [] (sample_record ''u'') ''j'' 3)" by code_simp+
  then obtain e1 e2 where e: "filled (\<lambda>p. hp_id p) [] (sample_record ''u'') ''i'' 3 = Inr e1"
    "filled (\<lambda>p. hp_id p) [] (sample_record ''u'') ''j'' 3 = Inr e2" by (auto simp: is_ok_iff)
  then show ?thesis using overlapping_records_break_chain [OF e, of "[]"] by (auto simp: au_save_event_def)
qed

text \<open>A page of the audit log never indexes out of range, for any page number an int can hold, and is the
  slice it names while its offset fits an int. The guard against wrapped offsets tests for negative
  ones only: page 2^58 + 1 of 64 events wraps around to offset 0 and gives the first page.\<close>

theorem audit_page_safe:
  assumes "fits events" and "1 \<le> n" and "n \<le> 100"
  shows "paginate_events events page n \<noteq> None \<and>
    (1 \<le> page \<and> (page - 1) * n < 2 ^ 63 \<longrightarrow>
      paginate_events events page n = Some (take (nat n) (drop (nat ((page - 1) * n)) events))) \<and>
    paginate_events events (2 ^ 58 + 1) 64 = paginate_events events 1 64"
proof -
  have "int64 (int64 (2 ^ 58 + 1 - 1) * 64) = int64 (int64 (1 - 1) * 64)" by code_simp
  then have "paginate_events events (2 ^ 58 + 1) 64 = paginate_events events 1 64"
    by (simp only: paginate_events_def)
  then show ?thesis using paginate_events_total [OF assms] paginate_events_slice [OF assms(1) _ assms(2,3)] by blast
qed

theorem audit_page_safe_witness: "paginate_events [] (2 ^ 62) 100 \<noteq> None"
proof -
  have "fits ([] :: event list)" by (simp add: fits_def)
  then show ?thesis using audit_page_safe [of "[]" 100 "2 ^ 62"] by simp
qed

text \<open>Metadata of an event carries no key that names a password, token, secret or code, no blank key or
  value, each key once, and values of at most 256 bytes.\<close>

theorem sanitized_metadata:
  "distinct (map fst (sanitize_metadata m)) \<and>
   list_all (\<lambda>(k, v). k \<noteq> [] \<and> v \<noteq> [] \<and> length v \<le> 256 \<and>
     \<not> list_ex (contains (to_lower k)) [''password'', ''token'', ''secret'', ''code'']) (sanitize_metadata m)"
  using sanitize_from_safe [of "[]" m]
  by (auto simp: sanitize_metadata_def safe_pair_def list_all_iff is_sensitive_metadata_key_def Let_def)

end
