(* ===== verification/Password.thy ===== *)
theory Password
  imports Encodings
begin

text \<open>
  Password hashes (\<open>auth/password.go\<close>): the text form of a hash, its parameters, verification against
  Argon2id and the older PBKDF2 hashes, and the test whether a hash is to be replaced.

  The key derivation functions are parameters: \<open>argon2\<close> of password, salt, iterations, memory,
  parallelism and key length, \<open>pbkdf2\<close> of password, salt, iterations and key length.
\<close>

section \<open>Parameters\<close>

record password_params =
  pp_version :: int
  pp_memory_kib :: int
  pp_iterations :: int
  pp_parallelism :: int
  pp_key_length :: int

definition zero_params :: password_params where
  "zero_params = \<lparr>pp_version = 0, pp_memory_kib = 0, pp_iterations = 0, pp_parallelism = 0, pp_key_length = 0\<rparr>"

definition password_algorithm_argon2id :: string where
  "password_algorithm_argon2id = ''argon2id''"

definition password_algorithm_pbkdf2 :: string where
  "password_algorithm_pbkdf2 = ''pbkdf2-sha256''"

definition validate_password :: "string \<Rightarrow> string + unit" where
  "validate_password password =
     (if rune_count password < 8 then Inl ''password must be at least 8 characters''
      else if rune_count password > 1024 then Inl ''password is too long''
      else Inr ())"

type_synonym argon2 = "string \<Rightarrow> string \<Rightarrow> int \<Rightarrow> int \<Rightarrow> int \<Rightarrow> int \<Rightarrow> string"
type_synonym pbkdf2 = "string \<Rightarrow> string \<Rightarrow> int \<Rightarrow> int \<Rightarrow> string"

text \<open>\<open>salt\<close> is what the random source gives, \<open>None\<close> for an error of it. Version 19 is \<open>argon2.Version\<close>.\<close>

definition hash_password :: "argon2 \<Rightarrow> string option \<Rightarrow> string \<Rightarrow> string + string" where
  "hash_password argon2 random password =
     rbind (validate_password password) (\<lambda>_.
     (case random of
        None \<Rightarrow> Inl ''read password salt randomness''
      | Some salt \<Rightarrow>
          (let hash = argon2 password salt 2 19456 1 32 in
           Inr (''$'' @ password_algorithm_argon2id @ ''$v='' @ print_nat 19 @ ''$m='' @ print_nat 19456 @
                '',t='' @ print_nat 2 @ '',p='' @ print_nat 1 @ ''$'' @ encode_to_string std_alphabet salt @
                ''$'' @ encode_to_string std_alphabet hash))))"

section \<open>Parsing\<close>

definition password_hash_algorithm :: "string \<Rightarrow> string + string" where
  "password_hash_algorithm encoded_hash =
     (let parts = split_at (CHR ''$'') encoded_hash in
      if length parts < 2 \<or> parts ! 0 \<noteq> [] \<or> trim_space (parts ! 1) = []
      then Inl ''unsupported password hash format''
      else Inr (parts ! 1))"

text \<open>One parameter of a comma-separated list: its key and its number.\<close>

definition key_number :: "string \<Rightarrow> string + string \<times> int" where
  "key_number part =
     (case split_n2 (CHR ''='') part of
        [key, number] \<Rightarrow> (case atoi number of None \<Rightarrow> Inl ''parse password hash parameter'' | Some v \<Rightarrow> Inr (key, v))
      | _ \<Rightarrow> Inl ''invalid password hash parameter'')"

fun argon2id_params_from :: "password_params \<Rightarrow> string list \<Rightarrow> string + password_params" where
  "argon2id_params_from params [] = Inr params"
| "argon2id_params_from params (part # parts) =
     rbind (key_number part) (\<lambda>(key, v).
       if key = ''m'' then argon2id_params_from (params\<lparr>pp_memory_kib := v\<rparr>) parts
       else if key = ''t'' then argon2id_params_from (params\<lparr>pp_iterations := v\<rparr>) parts
       else if key = ''p'' then argon2id_params_from (params\<lparr>pp_parallelism := v\<rparr>) parts
       else Inl ''unknown password hash parameter'')"

definition parse_argon2id_params :: "string \<Rightarrow> string \<Rightarrow> string + password_params" where
  "parse_argon2id_params version_param encoded_params =
     (case split_n2 (CHR ''='') version_param of
        [key, number] \<Rightarrow>
          if key \<noteq> ''v'' then Inl ''invalid argon2 version parameter''
          else (case atoi number of
                  None \<Rightarrow> Inl ''parse argon2 version''
                | Some version \<Rightarrow>
                    rbind (argon2id_params_from (zero_params\<lparr>pp_version := version\<rparr>)
                             (split_at (CHR '','') encoded_params)) (\<lambda>params.
                      if pp_version params = 0 \<or> pp_memory_kib params = 0 \<or> pp_iterations params = 0 \<or>
                         pp_parallelism params = 0
                      then Inl ''password hash parameters are incomplete'' else Inr params))
      | _ \<Rightarrow> Inl ''invalid argon2 version parameter'')"

fun pbkdf2_params_from :: "password_params \<Rightarrow> string list \<Rightarrow> string + password_params" where
  "pbkdf2_params_from params [] = Inr params"
| "pbkdf2_params_from params (part # parts) =
     rbind (key_number part) (\<lambda>(key, v).
       if key = ''i'' then pbkdf2_params_from (params\<lparr>pp_iterations := v\<rparr>) parts
       else if key = ''l'' then pbkdf2_params_from (params\<lparr>pp_key_length := v\<rparr>) parts
       else Inl ''unknown password hash parameter'')"

definition parse_pbkdf2_params :: "string \<Rightarrow> string + password_params" where
  "parse_pbkdf2_params encoded_params =
     rbind (pbkdf2_params_from zero_params (split_at (CHR '','') encoded_params)) (\<lambda>params.
       if pp_iterations params = 0 \<or> pp_key_length params = 0
       then Inl ''password hash parameters are incomplete'' else Inr params)"

definition decode_part :: "string \<Rightarrow> string \<Rightarrow> string + string" where
  "decode_part msg s = (case decode_string std_alphabet s of None \<Rightarrow> Inl msg | Some bytes \<Rightarrow> Inr bytes)"

definition parse_argon2id_hash :: "string \<Rightarrow> string + password_params \<times> string \<times> string" where
  "parse_argon2id_hash encoded_hash =
     (let parts = split_at (CHR ''$'') encoded_hash in
      rbind (rguard (length parts = 6 \<and> parts ! 1 = password_algorithm_argon2id) ''unsupported password hash format'') (\<lambda>_.
      rbind (parse_argon2id_params (parts ! 2) (parts ! 3)) (\<lambda>params.
      rbind (rguard (pp_version params = 19) ''password hash argon2 version is unsupported'') (\<lambda>_.
      rbind (rguard (19456 \<le> pp_memory_kib params) ''password hash memory cost is too low'') (\<lambda>_.
      rbind (rguard (2 \<le> pp_iterations params) ''password hash iteration count is too low'') (\<lambda>_.
      rbind (rguard (1 \<le> pp_parallelism params) ''password hash parallelism is too low'') (\<lambda>_.
      rbind (rguard (pp_memory_kib params \<le> 2 ^ 32 - 1 \<and> pp_iterations params \<le> 2 ^ 32 - 1 \<and> pp_parallelism params \<le> 255)
              ''password hash parameters are too large'') (\<lambda>_.
      rbind (decode_part ''decode password salt'' (parts ! 4)) (\<lambda>salt.
      rbind (decode_part ''decode password hash'' (parts ! 5)) (\<lambda>hash.
      (let params = params\<lparr>pp_key_length := int (length hash)\<rparr> in
       rbind (rguard (32 \<le> pp_key_length params) ''password hash key length is too low'') (\<lambda>_.
       rbind (rguard (pp_key_length params \<le> 2 ^ 32 - 1) ''password hash key length is too large'') (\<lambda>_.
       Inr (params, salt, hash))))))))))))))"

definition parse_pbkdf2_hash :: "string \<Rightarrow> string + password_params \<times> string \<times> string" where
  "parse_pbkdf2_hash encoded_hash =
     (let parts = split_at (CHR ''$'') encoded_hash in
      rbind (rguard (length parts = 5 \<and> parts ! 1 = password_algorithm_pbkdf2) ''unsupported password hash format'') (\<lambda>_.
      rbind (parse_pbkdf2_params (parts ! 2)) (\<lambda>params.
      rbind (rguard (600000 \<le> pp_iterations params) ''password hash iteration count is too low'') (\<lambda>_.
      rbind (rguard (32 \<le> pp_key_length params) ''password hash key length is too low'') (\<lambda>_.
      rbind (decode_part ''decode password salt'' (parts ! 3)) (\<lambda>salt.
      rbind (decode_part ''decode password hash'' (parts ! 4)) (\<lambda>hash.
      Inr (params, salt, hash))))))))"

section \<open>Verification\<close>

definition verify_password :: "argon2 \<Rightarrow> pbkdf2 \<Rightarrow> string \<Rightarrow> string \<Rightarrow> string + bool" where
  "verify_password argon2 pbkdf2 password encoded_hash =
     rbind (password_hash_algorithm encoded_hash) (\<lambda>algorithm.
       if algorithm = password_algorithm_argon2id then
         rbind (parse_argon2id_hash encoded_hash) (\<lambda>(params, salt, expected_hash).
           Inr (argon2 password salt (pp_iterations params mod 2 ^ 32) (pp_memory_kib params mod 2 ^ 32)
                  (pp_parallelism params mod 2 ^ 8) (pp_key_length params mod 2 ^ 32) = expected_hash))
       else if algorithm = password_algorithm_pbkdf2 then
         rbind (parse_pbkdf2_hash encoded_hash) (\<lambda>(params, salt, expected_hash).
           Inr (pbkdf2 password salt (pp_iterations params) (pp_key_length params) = expected_hash))
       else Inl ''unsupported password hash format'')"

definition needs_password_rehash :: "string \<Rightarrow> string + bool" where
  "needs_password_rehash encoded_hash =
     rbind (password_hash_algorithm encoded_hash) (\<lambda>algorithm.
       if algorithm \<noteq> password_algorithm_argon2id then Inr True
       else rbind (parse_argon2id_hash encoded_hash) (\<lambda>(params, _, _).
         Inr (pp_version params \<noteq> 19 \<or> pp_memory_kib params < 19456 \<or> pp_iterations params < 2 \<or>
              pp_parallelism params < 1 \<or> pp_key_length params < 32)))"

section \<open>A fresh hash reads back\<close>

lemma key_number_print: "CHR ''='' \<notin> set key \<Longrightarrow> int n < 2 ^ 63 \<Longrightarrow>
    key_number (key @ ''='' @ print_nat n) = Inr (key, int n)"
  using cut_append [of "CHR ''=''" key "print_nat n"] by (simp add: key_number_def split_n2_def atoi_print)

lemma std_no_dollar: "CHR ''$'' \<notin> set (encode_to_string std_alphabet bytes)"
proof -
  have "CHR ''$'' \<notin> set std_alphabet" by (simp add: std_alphabet_def)
  then show ?thesis using std.encode_chars [of bytes] by blast
qed

lemma print_no [simp]: "CHR ''$'' \<notin> set (print_nat n)" "CHR '','' \<notin> set (print_nat n)" "CHR ''='' \<notin> set (print_nat n)"
  by (rule print_nat_no; simp add: is_digit_def)+

text \<open>The general form: what a hash with any parameters splits into.\<close>

lemma split_argon2id:
  fixes salt hash :: string
  defines "e \<equiv> encode_to_string std_alphabet"
  shows "split_at (CHR ''$'') (''$'' @ ''argon2id'' @ ''$v='' @ print_nat v @ ''$m='' @ print_nat m @
      '',t='' @ print_nat i @ '',p='' @ print_nat p @ ''$'' @ e salt @ ''$'' @ e hash) =
    [[], ''argon2id'', ''v='' @ print_nat v, ''m='' @ print_nat m @ '',t='' @ print_nat i @ '',p='' @ print_nat p,
     e salt, e hash]"
proof -
  have last: "split_at (CHR ''$'') (e salt @ ''$'' @ e hash) = [e salt, e hash]"
    using split_at_append [OF std_no_dollar, of salt "e hash"] split_at_plain [OF std_no_dollar, of hash]
    by (simp add: e_def)
  have params: "split_at (CHR ''$'') ((''m='' @ print_nat m @ '',t='' @ print_nat i @ '',p='' @ print_nat p) @ CHR ''$'' # t) =
      (''m='' @ print_nat m @ '',t='' @ print_nat i @ '',p='' @ print_nat p) # split_at (CHR ''$'') t" for t
    by (rule split_at_append) simp
  have version: "split_at (CHR ''$'') ((''v='' @ print_nat v) @ CHR ''$'' # t) = (''v='' @ print_nat v) # split_at (CHR ''$'') t" for t
    by (rule split_at_append) simp
  have name: "split_at (CHR ''$'') (''argon2id'' @ CHR ''$'' # t) = ''argon2id'' # split_at (CHR ''$'') t" for t
    by (rule split_at_append) simp
  show ?thesis using last params [of "e salt @ ''$'' @ e hash"] version name by simp
qed

lemma params_argon2id:
  assumes "int v < 2 ^ 63" "int m < 2 ^ 63" "int i < 2 ^ 63" "int p < 2 ^ 63" "0 < v" "0 < m" "0 < i" "0 < p"
  shows "parse_argon2id_params (''v='' @ print_nat v) (''m='' @ print_nat m @ '',t='' @ print_nat i @ '',p='' @ print_nat p) =
    Inr \<lparr>pp_version = int v, pp_memory_kib = int m, pp_iterations = int i, pp_parallelism = int p, pp_key_length = 0\<rparr>"
proof -
  have split: "split_at (CHR '','') (''m='' @ print_nat m @ '',t='' @ print_nat i @ '',p='' @ print_nat p) =
      [''m='' @ print_nat m, ''t='' @ print_nat i, ''p='' @ print_nat p]"
    using split_at_append [of "CHR '',''" "''m='' @ print_nat m" "''t='' @ print_nat i @ '',p='' @ print_nat p"]
      split_at_append [of "CHR '',''" "''t='' @ print_nat i" "''p='' @ print_nat p"]
      split_at_plain [of "CHR '',''" "''p='' @ print_nat p"] by simp
  have "split_n2 (CHR ''='') (''v='' @ print_nat v) = [''v'', print_nat v]"
    using cut_append [of "CHR ''=''" "''v''" "print_nat v"] by (simp add: split_n2_def)
  then show ?thesis
    using assms key_number_print [of "''m''" m] key_number_print [of "''t''" i] key_number_print [of "''p''" p]
    unfolding parse_argon2id_params_def split by (simp add: atoi_print zero_params_def)
qed

lemma fresh_hash:
  assumes "validate_password password = Inr ()" and "\<And>p s i m l n. length (argon2 p s i m l n) = nat n"
  obtains h where "hash_password argon2 (Some salt) password = Inr h"
    and "password_hash_algorithm h = Inr password_algorithm_argon2id"
    and "parse_argon2id_hash h =
      Inr (\<lparr>pp_version = 19, pp_memory_kib = 19456, pp_iterations = 2, pp_parallelism = 1, pp_key_length = 32\<rparr>,
           salt, argon2 password salt 2 19456 1 32)"
proof
  let ?hash = "argon2 password salt 2 19456 1 32"
  let ?h = "''$'' @ ''argon2id'' @ ''$v='' @ print_nat 19 @ ''$m='' @ print_nat 19456 @ '',t='' @ print_nat 2 @
      '',p='' @ print_nat 1 @ ''$'' @ encode_to_string std_alphabet salt @ ''$'' @ encode_to_string std_alphabet ?hash"
  note parts = split_argon2id [of 19 19456 2 1 salt ?hash]
  note params = params_argon2id [of 19 19456 2 1]
  have trim: "trim_space ''argon2id'' = ''argon2id''" by code_simp
  show "hash_password argon2 (Some salt) password = Inr ?h"
    using assms(1) by (simp add: hash_password_def password_algorithm_argon2id_def)
  show "password_hash_algorithm ?h = Inr password_algorithm_argon2id"
    unfolding password_hash_algorithm_def parts Let_def by (simp add: trim password_algorithm_argon2id_def)
  show "parse_argon2id_hash ?h =
      Inr (\<lparr>pp_version = 19, pp_memory_kib = 19456, pp_iterations = 2, pp_parallelism = 1, pp_key_length = 32\<rparr>, salt, ?hash)"
    unfolding parse_argon2id_hash_def parts Let_def
    using params assms(2) by (simp add: password_algorithm_argon2id_def decode_part_def std.decode_encode)
qed

lemma parsed_argon2id_current:
  assumes "parse_argon2id_hash h = Inr (params, salt, hash)"
  shows "pp_version params = 19 \<and> 19456 \<le> pp_memory_kib params \<and> pp_memory_kib params < 2 ^ 32 \<and>
    2 \<le> pp_iterations params \<and> pp_iterations params < 2 ^ 32 \<and>
    1 \<le> pp_parallelism params \<and> pp_parallelism params < 2 ^ 8 \<and>
    32 \<le> pp_key_length params \<and> pp_key_length params < 2 ^ 32 \<and> pp_key_length params = int (length hash)"
  using assms by (auto simp: parse_argon2id_hash_def rbind_Inr_iff Let_def)

end
