(* ===== verification/Keyring.thy ===== *)
theory Keyring
  imports Encodings
begin

text \<open>
  Envelope encryption of stored secrets (\<open>crypto/keyring\<close>): keys derived from passphrases, a ring of one
  active and several retired keys, and ciphertexts that name their key.

  The cryptographic primitives are parameters: \<open>sha\<close> is SHA-256, \<open>seal\<close> and \<open>unseal\<close> are AES-GCM, as
  functions of key, nonce, text and additional data. What the code relies on is \<open>primitives_ok\<close>. Random
  bytes are arguments, \<open>None\<close> for a source that fails.
\<close>

section \<open>Keys\<close>

record key =
  ky_id :: string
  ky_value :: string

record ring =
  rg_active :: key
  rg_retired :: "(string \<times> key) list"

definition ciphertext_prefix :: string where
  "ciphertext_prefix = ''enc:v1:''"

definition derive_bytes :: "(string \<Rightarrow> string) \<Rightarrow> string \<Rightarrow> string \<Rightarrow> string" where
  "derive_bytes sha label secret = sha (label @ secret)"

definition derive_key :: "(string \<Rightarrow> string) \<Rightarrow> string \<Rightarrow> string + key" where
  "derive_key sha secret =
     (let trimmed = trim_space secret in
      if rune_count trimmed < 16 then Inl ''secret must contain at least 16 characters''
      else Inr \<lparr>ky_id = take 16 (hex_encode (derive_bytes sha ''accounting-keyring:v1:ident:'' trimmed)),
                ky_value = take 32 (derive_bytes sha ''accounting-keyring:v1:value:'' trimmed)\<rparr>)"

text \<open>The loop of \<open>New\<close> over the retired secrets.\<close>

fun add_retired :: "(string \<Rightarrow> string) \<Rightarrow> key \<Rightarrow> (string \<times> key) list \<Rightarrow> string list \<Rightarrow> string + (string \<times> key) list" where
  "add_retired sha active m [] = Inr m"
| "add_retired sha active m (spec # specs) =
     (if trim_space spec = [] then add_retired sha active m specs
      else rbind (derive_key sha spec) (\<lambda>key.
        if ky_id key = ky_id active then Inl ''retired secret duplicates the active secret''
        else if map_of m (ky_id key) \<noteq> None then Inl ''retired secret is duplicated''
        else add_retired sha active (AList.update (ky_id key) key m) specs))"

definition new_ring :: "(string \<Rightarrow> string) \<Rightarrow> string \<Rightarrow> string list \<Rightarrow> string + ring" where
  "new_ring sha active retired =
     rbind (derive_key sha active) (\<lambda>active_key.
     rbind (add_retired sha active_key [] retired) (\<lambda>m. Inr \<lparr>rg_active = active_key, rg_retired = m\<rparr>))"

definition key_by_id :: "ring \<Rightarrow> string \<Rightarrow> key option" where
  "key_by_id r key_id = (if ky_id (rg_active r) = key_id then Some (rg_active r) else map_of (rg_retired r) key_id)"

section \<open>Ciphertexts\<close>

definition is_encrypted :: "string \<Rightarrow> bool" where
  "is_encrypted v \<longleftrightarrow> has_prefix (trim_space v) ciphertext_prefix"

text \<open>\<open>aes.NewCipher\<close> accepts keys of 16, 24 and 32 bytes.\<close>

definition new_aead :: "string \<Rightarrow> string + string" where
  "new_aead key = (if length key \<in> {16, 24, 32} then Inr key else Inl ''create aes cipher'')"

type_synonym aead = "string \<Rightarrow> string \<Rightarrow> string \<Rightarrow> string \<Rightarrow> string"
type_synonym aead_open = "string \<Rightarrow> string \<Rightarrow> string \<Rightarrow> string \<Rightarrow> string option"

definition read_random :: "string \<Rightarrow> string option \<Rightarrow> string + string" where
  "read_random msg r = (case r of None \<Rightarrow> Inl msg | Some bytes \<Rightarrow> Inr bytes)"

record randomness =
  rn_data_key :: "string option"
  rn_data_key_nonce :: "string option"
  rn_payload_nonce :: "string option"

definition encrypt :: "aead \<Rightarrow> randomness \<Rightarrow> ring option \<Rightarrow> string \<Rightarrow> string \<Rightarrow> string + string" where
  "encrypt seal rnd ring plaintext aad =
     (case ring of
        None \<Rightarrow> Inl ''keyring is nil''
      | Some r \<Rightarrow>
          rbind (read_random ''read data key'' (rn_data_key rnd)) (\<lambda>dek.
          rbind (new_aead (ky_value (rg_active r))) (\<lambda>kek_aead.
          rbind (new_aead dek) (\<lambda>dek_aead.
          rbind (read_random ''read data key nonce'' (rn_data_key_nonce rnd)) (\<lambda>dek_nonce.
          rbind (read_random ''read payload nonce'' (rn_payload_nonce rnd)) (\<lambda>payload_nonce.
          (let wrapped = seal kek_aead dek_nonce dek aad;
               payload = seal dek_aead payload_nonce plaintext aad;
               blob = dek_nonce @ wrapped @ payload_nonce @ payload
           in Inr (ciphertext_prefix @ ky_id (rg_active r) @ '':'' @ encode_to_string url_alphabet blob))))))))"

definition split_ciphertext :: "string \<Rightarrow> string + string \<times> string" where
  "split_ciphertext v =
     (let rest = trim_prefix (trim_space v) ciphertext_prefix in
      if rest = trim_space v then Inl ''ciphertext prefix is missing''
      else (case cut (CHR '':'') rest of
              None \<Rightarrow> Inl ''ciphertext key id or payload is missing''
            | Some (key_id, encoded) \<Rightarrow>
                if trim_space key_id = [] \<or> trim_space encoded = []
                then Inl ''ciphertext key id or payload is missing''
                else Inr (trim_space key_id, trim_space encoded)))"

definition decrypt :: "aead_open \<Rightarrow> ring option \<Rightarrow> string \<Rightarrow> string \<Rightarrow> string + string" where
  "decrypt unseal ring ciphertext aad =
     (case ring of
        None \<Rightarrow> Inl ''keyring is nil''
      | Some r \<Rightarrow>
          rbind (split_ciphertext ciphertext) (\<lambda>(key_id, encoded).
          rbind (read_random ''key is not available'' (map_option ky_value (key_by_id r key_id))) (\<lambda>value.
          rbind (read_random ''decode ciphertext'' (decode_string url_alphabet encoded)) (\<lambda>blob.
          rbind (rguard (length blob > 12 + 48 + 12) ''ciphertext is too short'') (\<lambda>_.
          (let dek_nonce = take 12 blob;
               wrapped = take 48 (drop 12 blob);
               payload_nonce = take 12 (drop 60 blob);
               payload = drop 72 blob
           in rbind (new_aead value) (\<lambda>kek_aead.
              rbind (read_random ''unwrap data key'' (unseal kek_aead dek_nonce wrapped aad)) (\<lambda>dek.
              rbind (new_aead dek) (\<lambda>dek_aead.
              read_random ''decrypt payload'' (unseal dek_aead payload_nonce payload aad))))))))))"

section \<open>What the code relies on\<close>

text \<open>
  A SHA-256 sum has 32 bytes; a sealed text has 16 bytes more than the plain one; opening gives what was
  sealed, and nothing but a sealed text opens.
\<close>

definition primitives_ok :: "(string \<Rightarrow> string) \<Rightarrow> aead \<Rightarrow> aead_open \<Rightarrow> bool" where
  "primitives_ok sha seal unseal \<longleftrightarrow>
     (\<forall>x. length (sha x) = 32) \<and>
     (\<forall>k n p a. length (seal k n p a) = length p + 16) \<and>
     (\<forall>k n c a p. unseal k n c a = Some p \<longleftrightarrow> c = seal k n p a)"

lemma primitives_okD:
  assumes "primitives_ok sha seal unseal"
  shows "length (sha x) = 32" and "length (seal k n p a) = length p + 16"
    and "unseal k n c a = Some p \<longleftrightarrow> c = seal k n p a"
  using assms by (simp_all add: primitives_ok_def)

lemma read_random_iff [simp]:
  "read_random msg r = Inr x \<longleftrightarrow> r = Some x" "read_random msg r = Inl e \<longleftrightarrow> r = None \<and> e = msg"
  by (auto simp: read_random_def split: option.splits)

lemma read_random_Some [simp]: "read_random msg (Some x) = Inr x"
  by (simp add: read_random_def)

section \<open>Rings\<close>

definition visible :: "char \<Rightarrow> bool" where
  "visible c \<longleftrightarrow> 33 \<le> (of_char c :: nat) \<and> (of_char c :: nat) < 127"

lemma visible_no_space:
  "ascii_space c \<Longrightarrow> \<not> visible c" "space2 a b \<Longrightarrow> \<not> visible a \<and> \<not> visible b"
  "space3 a b c \<Longrightarrow> \<not> visible a \<and> \<not> visible c"
  by (auto simp: ascii_space_def space2_def space3_def visible_def)

lemma trim_space_visible:
  assumes "list_all visible s"
  shows "trim_space s = s"
proof (rule trim_space_id)
  show "space_len s = 0"
    using assms visible_no_space by (auto simp: space_len_def split: list.splits)
  have "list_all visible (rev s)" using assms by simp
  then show "space_len_rev (rev s) = 0"
    using visible_no_space by (auto simp: space_len_rev_def split: list.splits)
qed

lemma alphabet_visible: "list_all visible url_alphabet" "list_all visible ''0123456789abcdef''"
    "CHR '':'' \<notin> set ''0123456789abcdef''"
  by (simp_all add: url_alphabet_def visible_def)

lemma derived_key:
  assumes ok: "primitives_ok sha seal unseal" and key: "derive_key sha secret = Inr k"
  shows "length (ky_value k) = 32" and "length (ky_id k) = 16" and "list_all visible (ky_id k)"
    and "CHR '':'' \<notin> set (ky_id k)"
proof -
  have len: "length (sha x) = 32" for x by (rule primitives_okD(1) [OF ok])
  have id: "ky_id k = take 16 (hex_encode (derive_bytes sha ''accounting-keyring:v1:ident:'' (trim_space secret)))"
    and v: "length (ky_value k) = 32" and l: "length (ky_id k) = 16"
    using key len by (auto simp: derive_key_def derive_bytes_def Let_def split: if_splits)
  have sub: "set (ky_id k) \<subseteq> set ''0123456789abcdef''"
    unfolding id using hex_encode_chars set_take_subset by fast
  show "length (ky_value k) = 32" "length (ky_id k) = 16" by (fact v l)+
  show "list_all visible (ky_id k)" using sub alphabet_visible(2) unfolding list_all_iff by blast
  show "CHR '':'' \<notin> set (ky_id k)" using sub alphabet_visible(3) by blast
qed

text \<open>The keys of a ring are the derived keys of its secrets, each found under its id.\<close>

lemma add_retired_keys:
  assumes "add_retired sha active m specs = Inr m'"
    and "\<forall>i k. map_of m i = Some k \<longrightarrow> ky_id k = i \<and> i \<noteq> ky_id active"
  shows "(\<forall>i k. map_of m' i = Some k \<longrightarrow> ky_id k = i \<and> i \<noteq> ky_id active) \<and>
    (\<forall>i k. map_of m i = Some k \<longrightarrow> map_of m' i = Some k) \<and>
    (\<forall>spec k. spec \<in> set specs \<longrightarrow> derive_key sha spec = Inr k \<longrightarrow> map_of m' (ky_id k) = Some k)"
  using assms
proof (induction sha active m specs arbitrary: m' rule: add_retired.induct)
  case (2 sha active m spec specs)
  show ?case
  proof (cases "trim_space spec = []")
    case True
    have none: "derive_key sha spec \<noteq> Inr k" for k
      using True rune_count_le_length [of "[]"] by (simp add: derive_key_def)
    have "add_retired sha active m specs = Inr m'" using "2.prems"(1) True by simp
    from "2.IH"(1) [OF True this "2.prems"(2)] show ?thesis using none by auto
  next
    case False
    then obtain k where k: "derive_key sha spec = Inr k" using "2.prems"(1) by (auto simp: rbind_Inr_iff)
    let ?m = "AList.update (ky_id k) k m"
    have fresh: "ky_id k \<noteq> ky_id active" "map_of m (ky_id k) = None"
      and rest: "add_retired sha active ?m specs = Inr m'"
      using "2.prems"(1) False by (auto simp: k split: if_splits)
    have prem: "\<forall>i k'. map_of ?m i = Some k' \<longrightarrow> ky_id k' = i \<and> i \<noteq> ky_id active"
      using "2.prems"(2) fresh by (auto simp: update_conv' split: if_splits)
    have "\<not> map_of m (ky_id k) \<noteq> None" using fresh(2) by simp
    note IH = "2.IH"(2) [OF False fresh(1) this rest prem]
    have "map_of ?m (ky_id k) = Some k" by (simp add: update_conv')
    then have "map_of m' (ky_id k) = Some k" using IH by blast
    moreover have "map_of m' i = Some k'" if "map_of m i = Some k'" for i k'
    proof -
      have "i \<noteq> ky_id k" using that fresh(2) by auto
      then have "map_of ?m i = Some k'" using that by (simp add: update_conv')
      then show ?thesis using IH by blast
    qed
    moreover have "map_of m' (ky_id k') = Some k'"
      if "spec' \<in> set (spec # specs)" "derive_key sha spec' = Inr k'" for spec' k'
    proof (cases "spec' = spec")
      case True
      then show ?thesis using that(2) k \<open>map_of m' (ky_id k) = Some k\<close> by simp
    next
      case False
      then have "spec' \<in> set specs" using that(1) by simp
      then show ?thesis using that(2) IH by blast
    qed
    ultimately show ?thesis using IH by blast
  qed
qed simp

lemma ring_has_key:
  assumes "new_ring sha active retired = Inr r"
    and "secret = active \<or> secret \<in> set retired" and "derive_key sha secret = Inr k"
  shows "key_by_id r (ky_id k) = Some k"
proof -
  obtain a m where a: "derive_key sha active = Inr a" and m: "add_retired sha a [] retired = Inr m"
    and r: "r = \<lparr>rg_active = a, rg_retired = m\<rparr>"
    using assms(1) by (auto simp: new_ring_def rbind_Inr_iff)
  note keys = add_retired_keys [OF m, simplified]
  show ?thesis
  proof (cases "secret = active")
    case True
    then show ?thesis using a assms(3) by (simp add: key_by_id_def r)
  next
    case False
    then have found: "map_of m (ky_id k) = Some k" using keys assms(2,3) by blast
    then have "ky_id k \<noteq> ky_id a" using keys by blast
    then show ?thesis using found by (simp add: key_by_id_def r)
  qed
qed

section \<open>Decrypting what was encrypted\<close>

lemma split_printed:
  assumes "list_all visible i" "CHR '':'' \<notin> set i" "i \<noteq> []" "bytes \<noteq> []"
  shows "split_ciphertext (ciphertext_prefix @ i @ '':'' @ encode_to_string url_alphabet bytes) =
    Inr (i, encode_to_string url_alphabet bytes)"
proof -
  let ?e = "encode_to_string url_alphabet bytes"
  have e: "list_all visible ?e"
    using url.encode_chars [of bytes] alphabet_visible(1) unfolding list_all_iff by blast
  have "list_all visible (ciphertext_prefix @ i @ '':'' @ ?e)"
    using e assms(1) by (simp add: ciphertext_prefix_def visible_def)
  note trim = trim_space_visible [OF this]
  have "cut (CHR '':'') (i @ '':'' @ ?e) = Some (i, ?e)" using cut_append [OF assms(2), of ?e] by simp
  then show ?thesis
    using assms(3,4) trim_space_visible [OF e] trim_space_visible [OF assms(1)]
    by (simp add: split_ciphertext_def trim trim_prefix_append ciphertext_prefix_def Let_def url.encode_Nil_iff
        trim [unfolded ciphertext_prefix_def, simplified] trim_prefix_def has_prefix_def)
qed


text \<open>A successful encryption, taken apart.\<close>

lemma encryptE:
  assumes ok: "primitives_ok sha seal unseal" and active: "derive_key sha secret = Inr (rg_active r)"
    and dek: "length dek = 32" "length n1 = 12" "length n2 = 12"
    and run: "encrypt seal \<lparr>rn_data_key = Some dek, rn_data_key_nonce = Some n1, rn_payload_nonce = Some n2\<rparr>
                (Some r) plaintext aad = Inr c"
  shows "split_ciphertext c = Inr (ky_id (rg_active r), encode_to_string url_alphabet
      (n1 @ seal (ky_value (rg_active r)) n1 dek aad @ n2 @ seal dek n2 plaintext aad))"
    and "is_encrypted c"
proof -
  note key = derived_key [OF ok active]
  let ?blob = "n1 @ seal (ky_value (rg_active r)) n1 dek aad @ n2 @ seal dek n2 plaintext aad"
  have c: "c = ciphertext_prefix @ ky_id (rg_active r) @ '':'' @ encode_to_string url_alphabet ?blob"
    using run key(1) dek(1) by (simp add: encrypt_def new_aead_def Let_def)
  have ne: "ky_id (rg_active r) \<noteq> []" "?blob \<noteq> []" using key(2) dek by auto
  show "split_ciphertext c = Inr (ky_id (rg_active r), encode_to_string url_alphabet ?blob)"
    unfolding c by (rule split_printed [OF key(3,4) ne])
  then have "has_prefix (trim_space c) ciphertext_prefix"
    by (auto simp: split_ciphertext_def trim_prefix_def Let_def split: if_splits)
  then show "is_encrypted c" by (simp add: is_encrypted_def)
qed

lemma decrypt_parts:
  assumes ok: "primitives_ok sha seal unseal" and k: "key_by_id r i = Some k" "length (ky_value k) = 32"
    and split: "split_ciphertext c = Inr (i, encode_to_string url_alphabet (n1 @ seal (ky_value k) n1 dek aad @ n2 @ payload))"
    and len: "length dek = 32" "length n1 = 12" "length n2 = 12" "payload \<noteq> []"
  shows "decrypt unseal (Some r) c aad' = Inr p \<longleftrightarrow>
    (\<exists>dek'. seal (ky_value k) n1 dek aad = seal (ky_value k) n1 dek' aad' \<and> payload = seal dek' n2 p aad')"
proof -
  let ?w = "seal (ky_value k) n1 dek aad"
  have w: "length ?w = 48" using primitives_okD(2) [OF ok] len(1) by simp
  have blob: "take 12 (n1 @ ?w @ n2 @ payload) = n1" "take 48 (drop 12 (n1 @ ?w @ n2 @ payload)) = ?w"
    "take 12 (drop 60 (n1 @ ?w @ n2 @ payload)) = n2" "drop 72 (n1 @ ?w @ n2 @ payload) = payload"
    "12 + 48 + 12 < length (n1 @ ?w @ n2 @ payload)"
    using len w by simp_all
  have dek': "length dek' = 32" if "?w = seal (ky_value k) n1 dek' aad'" for dek'
    using w primitives_okD(2) [OF ok, of "ky_value k" n1 dek' aad'] by (simp add: that)
  show ?thesis
    unfolding decrypt_def option.case split rbind.simps prod.case k(1) option.map read_random_Some
      url.decode_encode Let_def blob(1-4)
    using blob(5) k(2) dek'
    by (auto simp: rbind_Inr_iff new_aead_def primitives_okD(3) [OF ok])
qed

end
