(* ===== verification/Rate_Limiter.thy ===== *)
theory Rate_Limiter
  imports Encodings
begin

text \<open>
  The limiter of authentication attempts (\<open>httpserver/auth_rate_limiter.go\<close>): fixed windows, one bucket for
  each route and client address and one for each route and subject. \<open>sha\<close> is SHA-256 in hex, \<open>lower\<close>
  is \<open>strings.ToLower\<close> outside ASCII. Every call
  of \<open>allow\<close> holds the lock, so calls are steps of a sequence.
\<close>

section \<open>The limiter\<close>

record auth_rate_limit_config =
  rl_enabled :: bool
  rl_limit :: int
  rl_window :: int

record auth_rate_bucket =
  rb_count :: int
  rb_reset_at :: time
  rb_last_seen :: time

type_synonym rate_buckets = "(string \<times> auth_rate_bucket) list"

record auth_rate_limiter =
  rt_cfg :: auth_rate_limit_config
  rt_buckets :: rate_buckets

definition new_auth_rate_limiter :: "auth_rate_limit_config \<Rightarrow> auth_rate_limiter" where
  "new_auth_rate_limiter cfg =
     (let cfg = (if rl_limit cfg \<le> 0 then cfg\<lparr>rl_limit := 20\<rparr> else cfg);
          cfg = (if rl_window cfg \<le> 0 then cfg\<lparr>rl_window := minute\<rparr> else cfg)
      in \<lparr>rt_cfg = cfg, rt_buckets = []\<rparr>)"

definition hash_auth_rate_subject :: "(string \<Rightarrow> string) \<Rightarrow> (string \<Rightarrow> string) \<Rightarrow> string \<Rightarrow> string" where
  "hash_auth_rate_subject lower sha subject =
     (let subject = to_lower_with lower (trim_space subject) in if subject = [] then [] else sha subject)"

definition auth_rate_key :: "string \<Rightarrow> string \<Rightarrow> string \<Rightarrow> string" where
  "auth_rate_key route dimension v = trim_space route @ [CHR 0x00] @ trim_space dimension @ [CHR 0x00] @ trim_space v"

definition auth_rate_keys :: "(string \<Rightarrow> string) \<Rightarrow> (string \<Rightarrow> string) \<Rightarrow> string \<Rightarrow> string \<Rightarrow> string \<Rightarrow> string list" where
  "auth_rate_keys lower sha route client_ip subject =
     (let subject_hash = hash_auth_rate_subject lower sha subject in
      auth_rate_key route ''ip'' client_ip #
      (if subject_hash \<noteq> [] then [auth_rate_key route ''subject'' subject_hash] else []))"

definition prune_locked :: "time \<Rightarrow> rate_buckets \<Rightarrow> rate_buckets" where
  "prune_locked now buckets = filter (\<lambda>(_, bucket). \<not> rb_reset_at bucket < now) buckets"

text \<open>Reading a key that is not there gives the zero bucket, whose reset time is the zero time.\<close>

definition bucket_at :: "rate_buckets \<Rightarrow> string \<Rightarrow> auth_rate_bucket" where
  "bucket_at buckets key =
     (case map_of buckets key of
        Some b \<Rightarrow> b | None \<Rightarrow> \<lparr>rb_count = 0, rb_reset_at = zero_time, rb_last_seen = zero_time\<rparr>)"

definition window_over :: "time \<Rightarrow> auth_rate_bucket \<Rightarrow> bool" where
  "window_over now bucket \<longleftrightarrow> rb_reset_at bucket = zero_time \<or> \<not> rb_reset_at bucket > now"

text \<open>The two loops of \<open>allow\<close>: find a full bucket, else count the attempt in every bucket.\<close>

fun check_keys :: "auth_rate_limit_config \<Rightarrow> time \<Rightarrow> string list \<Rightarrow> rate_buckets \<Rightarrow> bool \<times> rate_buckets" where
  "check_keys cfg now [] buckets = (True, buckets)"
| "check_keys cfg now (key # keys) buckets =
     (let bucket = bucket_at buckets key in
      if window_over now bucket then check_keys cfg now keys buckets
      else if rb_count bucket \<ge> rl_limit cfg
      then (False, AList.update key (bucket\<lparr>rb_last_seen := now\<rparr>) buckets)
      else check_keys cfg now keys buckets)"

fun count_keys :: "auth_rate_limit_config \<Rightarrow> time \<Rightarrow> string list \<Rightarrow> rate_buckets \<Rightarrow> rate_buckets" where
  "count_keys cfg now [] buckets = buckets"
| "count_keys cfg now (key # keys) buckets =
     (let bucket = bucket_at buckets key in
      count_keys cfg now keys
        (AList.update key
           (if window_over now bucket
            then \<lparr>rb_count = 1, rb_reset_at = now + rl_window cfg, rb_last_seen = now\<rparr>
            else bucket\<lparr>rb_count := int64 (rb_count bucket + 1), rb_last_seen := now\<rparr>) buckets))"

text \<open>\<open>None\<close> is a nil limiter.\<close>

definition allow :: "(string \<Rightarrow> string) \<Rightarrow> (string \<Rightarrow> string) \<Rightarrow> string \<Rightarrow> string \<Rightarrow> string \<Rightarrow> time \<Rightarrow>
    auth_rate_limiter option \<Rightarrow> bool \<times> auth_rate_limiter option" where
  "allow lower sha route client_ip subject now limiter =
     (case limiter of
        None \<Rightarrow> (True, None)
      | Some l \<Rightarrow>
          if \<not> rl_enabled (rt_cfg l) then (True, Some l)
          else (let keys = auth_rate_keys lower sha route client_ip subject;
                    buckets = prune_locked now (rt_buckets l)
                in case check_keys (rt_cfg l) now keys buckets of
                     (False, buckets) \<Rightarrow> (False, Some (l\<lparr>rt_buckets := buckets\<rparr>))
                   | (True, buckets) \<Rightarrow> (True, Some (l\<lparr>rt_buckets := count_keys (rt_cfg l) now keys buckets\<rparr>))))"

section \<open>How many attempts one key admits\<close>

text \<open>
  The attempts that a key still admits before the instant \<open>until\<close>, while no window is longer than the
  time to it: what is left in a window that lasts to the end, or that and one more window.
\<close>

definition room :: "auth_rate_limit_config \<Rightarrow> time \<Rightarrow> string \<Rightarrow> rate_buckets \<Rightarrow> int" where
  "room cfg until key buckets =
     (case map_of buckets key of
        None \<Rightarrow> rl_limit cfg
      | Some b \<Rightarrow> (if until \<le> rb_reset_at b then 0 else rl_limit cfg) + max 0 (rl_limit cfg - rb_count b))"

definition buckets_ok :: "auth_rate_limit_config \<Rightarrow> rate_buckets \<Rightarrow> bool" where
  "buckets_ok cfg buckets \<longleftrightarrow> distinct (map fst buckets) \<and>
     (\<forall>key b. map_of buckets key = Some b \<longrightarrow> 1 \<le> rb_count b \<and> rb_count b \<le> rl_limit cfg)"

definition cfg_ok :: "auth_rate_limit_config \<Rightarrow> bool" where
  "cfg_ok cfg \<longleftrightarrow> 1 \<le> rl_limit cfg \<and> in_int64 (rl_limit cfg)"

lemma buckets_okD: "buckets_ok cfg m \<Longrightarrow> map_of m k = Some b \<Longrightarrow> 1 \<le> rb_count b \<and> rb_count b \<le> rl_limit cfg"
  by (simp add: buckets_ok_def)

lemma map_of_filter_values:
  "distinct (map fst m) \<Longrightarrow> map_of (filter (\<lambda>(_, v). P v) m) k =
     (case map_of m k of None \<Rightarrow> None | Some v \<Rightarrow> if P v then Some v else None)"
proof (induction m)
  case (Cons kv m)
  obtain k' v where kv: "kv = (k', v)" by (cases kv) auto
  have "k' \<notin> fst ` set m" using Cons.prems by (simp add: kv)
  then have "map_of m k' = None" by (simp add: map_of_eq_None_iff)
  with Cons kv show ?case by (auto split: option.splits)
qed simp

lemma map_of_prune:
  "distinct (map fst m) \<Longrightarrow> map_of (prune_locked now m) k =
     (case map_of m k of None \<Rightarrow> None | Some b \<Rightarrow> if rb_reset_at b < now then None else Some b)"
  using map_of_filter_values [of m "\<lambda>b. \<not> rb_reset_at b < now" k]
  by (simp add: prune_locked_def split: option.splits)

lemma prune_ok: "buckets_ok cfg m \<Longrightarrow> buckets_ok cfg (prune_locked now m)"
proof -
  assume ok: "buckets_ok cfg m"
  then have d: "distinct (map fst m)" by (simp add: buckets_ok_def)
  have "distinct (map fst (prune_locked now m))" using d by (simp add: prune_locked_def distinct_map_filter)
  then show ?thesis using ok by (auto simp: buckets_ok_def map_of_prune [OF d] split: option.splits if_splits)
qed

lemma room_prune:
  assumes "buckets_ok cfg m" "now < until"
  shows "room cfg until k (prune_locked now m) \<le> room cfg until k m"
  using assms map_of_prune [of m now k] by (auto simp: room_def buckets_ok_def split: option.splits)

text \<open>A refused attempt changes the time of the last one only.\<close>

lemma check_keys_cases:
  "check_keys cfg now keys m = (True, m) \<and>
     (\<forall>k \<in> set keys. \<not> window_over now (bucket_at m k) \<longrightarrow> rb_count (bucket_at m k) < rl_limit cfg) \<or>
   (\<exists>k \<in> set keys. \<not> window_over now (bucket_at m k) \<and>
     check_keys cfg now keys m = (False, AList.update k ((bucket_at m k)\<lparr>rb_last_seen := now\<rparr>) m))"
proof (induction cfg now keys m rule: check_keys.induct)
  case (2 cfg now key keys m)
  show ?case
  proof (cases "window_over now (bucket_at m key)")
    case True
    then show ?thesis using "2.IH"(1) [OF refl] by auto
  next
    case False
    then show ?thesis
    proof (cases "rb_count (bucket_at m key) \<ge> rl_limit cfg")
      case True
      with False show ?thesis by (simp add: Let_def)
    next
      case small: False
      then show ?thesis using "2.IH"(2) [OF refl] False by auto
    qed
  qed
qed simp

lemma live_bucket: "\<not> window_over now (bucket_at m k) \<Longrightarrow> map_of m k = Some (bucket_at m k)"
  by (auto simp: bucket_at_def window_over_def split: option.splits)

text \<open>The bucket after an attempt that is counted.\<close>

definition counted :: "auth_rate_limit_config \<Rightarrow> time \<Rightarrow> auth_rate_bucket \<Rightarrow> auth_rate_bucket" where
  "counted cfg now bucket =
     (if window_over now bucket
      then \<lparr>rb_count = 1, rb_reset_at = now + rl_window cfg, rb_last_seen = now\<rparr>
      else bucket\<lparr>rb_count := int64 (rb_count bucket + 1), rb_last_seen := now\<rparr>)"

lemma bucket_at_update: "bucket_at (AList.update k b m) k' = (if k' = k then b else bucket_at m k')"
  by (simp add: bucket_at_def update_conv')

lemma map_of_count_keys:
  "distinct keys \<Longrightarrow> map_of (count_keys cfg now keys m) k =
     (if k \<in> set keys then Some (counted cfg now (bucket_at m k)) else map_of m k)"
proof (induction keys arbitrary: m)
  case (Cons key keys)
  have "map_of (count_keys cfg now (key # keys) m) k =
      map_of (count_keys cfg now keys (AList.update key (counted cfg now (bucket_at m key)) m)) k"
    by (simp add: Let_def counted_def)
  then show ?case using Cons by (auto simp: update_conv' bucket_at_update)
qed simp

lemma distinct_count_keys:
  "distinct (map fst m) \<Longrightarrow> distinct (map fst (count_keys cfg now keys m))"
  by (induction cfg now keys m rule: count_keys.induct) (simp_all add: Let_def distinct_update)

lemma distinct_rate_keys: "distinct (auth_rate_keys lower sha route ip subject)"
proof -
  have "trim_space ''ip'' = ''ip''" "trim_space ''subject'' = ''subject''" by code_simp+
  then show ?thesis by (simp add: auth_rate_keys_def auth_rate_key_def Let_def)
qed

lemma counted_ok:
  assumes "cfg_ok cfg" "window_over now b \<or> 1 \<le> rb_count b \<and> rb_count b < rl_limit cfg"
  shows "1 \<le> rb_count (counted cfg now b) \<and> rb_count (counted cfg now b) \<le> rl_limit cfg"
proof (cases "window_over now b")
  case True
  then show ?thesis using assms(1) by (simp add: counted_def cfg_ok_def)
next
  case False
  then have "in_int64 (rb_count b + 1)" using assms by (auto simp: cfg_ok_def in_int64_def)
  then show ?thesis using False assms by (simp add: counted_def int64_id)
qed

lemma count_keys_ok:
  assumes cfg: "cfg_ok cfg" and m: "buckets_ok cfg m" and keys: "distinct keys"
    and free: "\<forall>k \<in> set keys. \<not> window_over now (bucket_at m k) \<longrightarrow> rb_count (bucket_at m k) < rl_limit cfg"
  shows "buckets_ok cfg (count_keys cfg now keys m)"
proof -
  have "1 \<le> rb_count (counted cfg now (bucket_at m k)) \<and> rb_count (counted cfg now (bucket_at m k)) \<le> rl_limit cfg"
    if "k \<in> set keys" for k
    using counted_ok [OF cfg] free that live_bucket [of now m k] m by (metis buckets_ok_def)
  moreover have "distinct (map fst (count_keys cfg now keys m))"
    using distinct_count_keys m by (simp add: buckets_ok_def)
  ultimately show ?thesis
    using m by (auto simp: buckets_ok_def map_of_count_keys [OF keys])
qed

lemma room_counted:
  assumes cfg: "cfg_ok cfg" and m: "buckets_ok cfg m" and keys: "distinct keys" and k: "k \<in> set keys"
    and free: "\<not> window_over now (bucket_at m k) \<longrightarrow> rb_count (bucket_at m k) < rl_limit cfg"
    and t: "now < until" "until \<le> now + rl_window cfg" "0 < until"
  shows "room cfg until k (count_keys cfg now keys m) + 1 \<le> room cfg until k m"
proof (cases "window_over now (bucket_at m k)")
  case True
  then have "room cfg until k (count_keys cfg now keys m) = rl_limit cfg - 1"
    using k t(2) cfg by (simp add: room_def map_of_count_keys [OF keys] counted_def cfg_ok_def)
  moreover have "rl_limit cfg \<le> room cfg until k m"
    using True t by (auto simp: room_def bucket_at_def window_over_def zero_time_def split: option.splits)
  ultimately show ?thesis by simp
next
  case False
  note b = live_bucket [OF False]
  have "in_int64 (rb_count (bucket_at m k) + 1)"
    using buckets_okD [OF m b] free False cfg by (simp add: cfg_ok_def in_int64_def)
  then show ?thesis
    using k False free by (simp add: room_def map_of_count_keys [OF keys] counted_def b int64_id)
qed

text \<open>One call: refused or not it makes no room, and an admitted one takes room from each of its keys.\<close>

lemma allow_step:
  assumes cfg: "cfg_ok (rt_cfg l)" "rl_enabled (rt_cfg l)" and m: "buckets_ok (rt_cfg l) (rt_buckets l)"
    and run: "allow lower sha route ip subject now (Some l) = (ok, l')"
  obtains l2 where "l' = Some l2" and "rt_cfg l2 = rt_cfg l" and "buckets_ok (rt_cfg l) (rt_buckets l2)"
    and "\<And>until k. now < until \<Longrightarrow> until \<le> now + rl_window (rt_cfg l) \<Longrightarrow> 0 < until \<Longrightarrow>
      room (rt_cfg l) until k (rt_buckets l2) + (if ok \<and> k \<in> set (auth_rate_keys lower sha route ip subject) then 1 else 0)
        \<le> room (rt_cfg l) until k (rt_buckets l)"
proof -
  let ?keys = "auth_rate_keys lower sha route ip subject" and ?m = "prune_locked now (rt_buckets l)" and ?c = "rt_cfg l"
  have pm: "buckets_ok ?c ?m" by (rule prune_ok [OF m])
  have prune: "room ?c until k ?m \<le> room ?c until k (rt_buckets l)" if "now < until" for until k
    by (rule room_prune [OF m that])
  consider (yes) "check_keys ?c now ?keys ?m = (True, ?m)"
      "\<forall>k \<in> set ?keys. \<not> window_over now (bucket_at ?m k) \<longrightarrow> rb_count (bucket_at ?m k) < rl_limit ?c"
    | (no) k where "\<not> window_over now (bucket_at ?m k)"
      "check_keys ?c now ?keys ?m = (False, AList.update k ((bucket_at ?m k)\<lparr>rb_last_seen := now\<rparr>) ?m)"
    using check_keys_cases [of ?c now ?keys ?m] by blast
  then show thesis
  proof cases
    case yes
    let ?l = "l\<lparr>rt_buckets := count_keys ?c now ?keys ?m\<rparr>"
    have r: "ok = True" "l' = Some ?l" using run cfg(2) yes(1) by (simp_all add: allow_def Let_def)
    show thesis
    proof (rule that [of ?l])
      show "buckets_ok ?c (rt_buckets ?l)"
        using count_keys_ok [OF cfg(1) pm distinct_rate_keys yes(2)] by simp
      fix until k assume t: "now < until" "until \<le> now + rl_window ?c" "0 < until"
      show "room ?c until k (rt_buckets ?l) + (if ok \<and> k \<in> set ?keys then 1 else 0) \<le> room ?c until k (rt_buckets l)"
      proof (cases "k \<in> set ?keys")
        case True
        have "room ?c until k (count_keys ?c now ?keys ?m) + 1 \<le> room ?c until k ?m"
          by (rule room_counted [OF cfg(1) pm distinct_rate_keys True _ t]) (use yes(2) True in blast)
        then show ?thesis using True r(1) prune [OF t(1), of k] by simp
      next
        case False
        then have "room ?c until k (count_keys ?c now ?keys ?m) = room ?c until k ?m"
          by (simp add: room_def map_of_count_keys [OF distinct_rate_keys])
        then show ?thesis using False prune [OF t(1), of k] by simp
      qed
    qed (simp_all add: r)
  next
    case (no k0)
    let ?l = "l\<lparr>rt_buckets := AList.update k0 ((bucket_at ?m k0)\<lparr>rb_last_seen := now\<rparr>) ?m\<rparr>"
    have r: "ok = False" "l' = Some ?l" using run cfg(2) no(2) by (simp_all add: allow_def Let_def)
    note b = live_bucket [OF no(1)]
    show thesis
    proof (rule that [of ?l])
      show "buckets_ok ?c (rt_buckets ?l)"
        using pm b by (auto simp: buckets_ok_def update_conv' distinct_update)
      fix until k assume t: "now < until"
      have "room ?c until k (rt_buckets ?l) = room ?c until k ?m" using b by (auto simp: room_def update_conv')
      then show "room ?c until k (rt_buckets ?l) + (if ok \<and> k \<in> set ?keys then 1 else 0) \<le> room ?c until k (rt_buckets l)"
        using prune [OF t, of k] r(1) by simp
    qed (simp_all add: r)
  qed
qed

section \<open>Sequences of attempts\<close>

record rate_call =
  cl_route :: string
  cl_ip :: string
  cl_subject :: string
  cl_now :: time

definition call_limiter :: "(string \<Rightarrow> string) \<Rightarrow> (string \<Rightarrow> string) \<Rightarrow> rate_call \<Rightarrow> auth_rate_limiter option \<Rightarrow> bool \<times> auth_rate_limiter option" where
  "call_limiter lower sha c l = allow lower sha (cl_route c) (cl_ip c) (cl_subject c) (cl_now c) l"

fun run_limiter :: "(string \<Rightarrow> string) \<Rightarrow> (string \<Rightarrow> string) \<Rightarrow> rate_call list \<Rightarrow> auth_rate_limiter option \<Rightarrow> auth_rate_limiter option" where
  "run_limiter lower sha [] l = l"
| "run_limiter lower sha (c # cs) l = run_limiter lower sha cs (snd (call_limiter lower sha c l))"

text \<open>The number of admitted attempts that count for a key.\<close>

fun admitted :: "(string \<Rightarrow> string) \<Rightarrow> (string \<Rightarrow> string) \<Rightarrow> string \<Rightarrow> rate_call list \<Rightarrow> auth_rate_limiter option \<Rightarrow> int" where
  "admitted lower sha key [] l = 0"
| "admitted lower sha key (c # cs) l =
     (case call_limiter lower sha c l of (ok, l') \<Rightarrow>
        (if ok \<and> key \<in> set (auth_rate_keys lower sha (cl_route c) (cl_ip c) (cl_subject c)) then 1 else 0) + admitted lower sha key cs l')"

lemma room_nonneg: "cfg_ok cfg \<Longrightarrow> 0 \<le> room cfg until k m"
  by (auto simp: room_def cfg_ok_def split: option.splits)

lemma admitted_le_room:
  assumes "cfg_ok (rt_cfg l)" "rl_enabled (rt_cfg l)" "buckets_ok (rt_cfg l) (rt_buckets l)" "0 < until"
    and "\<forall>c \<in> set cs. cl_now c < until \<and> until \<le> cl_now c + rl_window (rt_cfg l)"
  shows "admitted lower sha key cs (Some l) \<le> room (rt_cfg l) until key (rt_buckets l)"
  using assms
proof (induction cs arbitrary: l)
  case Nil
  then show ?case by (simp add: room_nonneg)
next
  case (Cons c cs)
  obtain ok l' where run: "call_limiter lower sha c (Some l) = (ok, l')" by (cases "call_limiter lower sha c (Some l)")
  obtain l2 where l2: "l' = Some l2" "rt_cfg l2 = rt_cfg l" "buckets_ok (rt_cfg l) (rt_buckets l2)"
    "room (rt_cfg l) until key (rt_buckets l2) +
      (if ok \<and> key \<in> set (auth_rate_keys lower sha (cl_route c) (cl_ip c) (cl_subject c)) then 1 else 0)
      \<le> room (rt_cfg l) until key (rt_buckets l)"
    using allow_step [OF Cons.prems(1-3) run [unfolded call_limiter_def]] Cons.prems(4,5) by (metis list.set_intros(1))
  have "admitted lower sha key cs (Some l2) \<le> room (rt_cfg l) until key (rt_buckets l2)"
    using Cons.IH [of l2] Cons.prems l2 by simp
  then show ?case using l2(4) by (simp add: run l2(1))
qed

lemma run_limiter_ok:
  assumes "cfg_ok (rt_cfg l)" "rl_enabled (rt_cfg l)" "buckets_ok (rt_cfg l) (rt_buckets l)"
  shows "\<exists>l'. run_limiter lower sha cs (Some l) = Some l' \<and> rt_cfg l' = rt_cfg l \<and> buckets_ok (rt_cfg l) (rt_buckets l')"
  using assms
proof (induction cs arbitrary: l)
  case (Cons c cs)
  obtain ok l' where run: "call_limiter lower sha c (Some l) = (ok, l')" by (cases "call_limiter lower sha c (Some l)")
  obtain l2 where l2: "l' = Some l2" "rt_cfg l2 = rt_cfg l" "buckets_ok (rt_cfg l) (rt_buckets l2)"
    using allow_step [OF Cons.prems run [unfolded call_limiter_def]] by metis
  show ?case using Cons.IH [of l2] Cons.prems l2 by (simp add: run)
qed simp

lemma room_le: "buckets_ok cfg m \<Longrightarrow> cfg_ok cfg \<Longrightarrow> room cfg until k m \<le> 2 * rl_limit cfg"
  using buckets_okD [of cfg m k] by (fastforce simp: room_def cfg_ok_def split: option.splits)

lemma new_limiter_ok:
  "in_int64 (rl_limit cfg) \<Longrightarrow> cfg_ok (rt_cfg (new_auth_rate_limiter cfg)) \<and>
   rl_enabled (rt_cfg (new_auth_rate_limiter cfg)) = rl_enabled cfg \<and> rt_buckets (new_auth_rate_limiter cfg) = [] \<and>
   0 < rl_window (rt_cfg (new_auth_rate_limiter cfg))"
  by (auto simp: new_auth_rate_limiter_def cfg_ok_def Let_def in_int64_def minute_def second_def)

end
