(* ===== verification/Secret_Properties.thy ===== *)
theory Secret_Properties
  imports Password Keyring Rate_Limiter
begin

text \<open>
  The properties of stored secrets and of the limit on guessing them: password hashes, the key ring and
  the limiter of authentication attempts, with their witnesses.
\<close>

section \<open>Passwords\<close>

text \<open>C38. A password that passes validation can be hashed, and the hash verifies exactly the passwords with the
  same Argon2id key, so the password itself; it is not due for replacement. Nothing is assumed of Argon2id
  but the length of its key.\<close>

theorem password_round_trip:
  assumes "validate_password password = Inr ()" and "\<And>p s i m l n. length (argon2 p s i m l n) = nat n"
  shows "\<exists>h. hash_password argon2 (Some salt) password = Inr h \<and>
    (\<forall>p. verify_password argon2 pbkdf2 p h = Inr (argon2 p salt 2 19456 1 32 = argon2 password salt 2 19456 1 32)) \<and>
    needs_password_rehash h = Inr False"
proof -
  obtain h where h: "hash_password argon2 (Some salt) password = Inr h"
    "password_hash_algorithm h = Inr password_algorithm_argon2id"
    "parse_argon2id_hash h =
      Inr (\<lparr>pp_version = 19, pp_memory_kib = 19456, pp_iterations = 2, pp_parallelism = 1, pp_key_length = 32\<rparr>,
           salt, argon2 password salt 2 19456 1 32)"
    using fresh_hash [of password argon2 salt] assms by blast
  then show ?thesis by (simp add: verify_password_def needs_password_rehash_def)
qed

definition sample_argon2 :: argon2 where
  "sample_argon2 p s i m l n = take (nat n) (p @ s @ replicate (nat n) (CHR ''x''))"

theorem password_round_trip_witness:
  "\<exists>h. hash_password sample_argon2 (Some ''salt'') ''password'' = Inr h \<and>
    verify_password sample_argon2 (\<lambda>_ _ _ _. []) ''password'' h = Inr True \<and>
    verify_password sample_argon2 (\<lambda>_ _ _ _. []) ''Password'' h = Inr False"
proof -
  have "validate_password ''password'' = Inr ()" by code_simp
  moreover have "length (sample_argon2 p s i m l n) = nat n" for p s i m l n by (simp add: sample_argon2_def)
  ultimately obtain h where h: "hash_password sample_argon2 (Some ''salt'') ''password'' = Inr h"
    "\<And>p. verify_password sample_argon2 (\<lambda>_ _ _ _. []) p h =
      Inr (sample_argon2 p ''salt'' 2 19456 1 32 = sample_argon2 ''password'' ''salt'' 2 19456 1 32)"
    using password_round_trip [of "''password''" sample_argon2 "''salt''" "\<lambda>_ _ _ _. []"] by blast
  have "sample_argon2 ''Password'' ''salt'' 2 19456 1 32 \<noteq> sample_argon2 ''password'' ''salt'' 2 19456 1 32"
    by (simp add: sample_argon2_def)
  then show ?thesis using h by auto
qed

text \<open>A stored hash is due for replacement exactly when its algorithm is another than Argon2id. An Argon2id
  hash with weaker parameters is never replaced: reading it fails before its parameters are compared, and
  so does verifying any password against it.\<close>

theorem rehash_iff_other_algorithm:
  "(needs_password_rehash h = Inr True \<longleftrightarrow>
      (\<exists>algorithm. password_hash_algorithm h = Inr algorithm \<and> algorithm \<noteq> password_algorithm_argon2id)) \<and>
   (\<forall>b. password_hash_algorithm h = Inr password_algorithm_argon2id \<longrightarrow>
      needs_password_rehash h = Inr b \<longrightarrow> \<not> b \<and> (\<forall>p. is_ok (verify_password argon2 pbkdf2 p h)))"
proof (cases "password_hash_algorithm h")
  case (Inl e)
  then show ?thesis by (simp add: needs_password_rehash_def)
next
  case (Inr algorithm)
  show ?thesis
  proof (cases "parse_argon2id_hash h")
    case (Inl e)
    with Inr show ?thesis by (auto simp: needs_password_rehash_def)
  next
    case parsed: (Inr x)
    obtain params salt hash where x: "x = (params, salt, hash)" by (cases x)
    show ?thesis using Inr parsed parsed_argon2id_current [OF parsed [unfolded x]]
      by (auto simp: needs_password_rehash_def verify_password_def x)
  qed
qed

theorem rehash_iff_other_algorithm_witness:
  "needs_password_rehash ''$pbkdf2-sha256$i=600000,l=32$$'' = Inr True"
proof -
  have "password_hash_algorithm ''$pbkdf2-sha256$i=600000,l=32$$'' = Inr ''pbkdf2-sha256''" by code_simp
  then show ?thesis
    using rehash_iff_other_algorithm [of "''$pbkdf2-sha256$i=600000,l=32$$''" "\<lambda>_ _ _ _ _ _. []" "\<lambda>_ _ _ _. []"]
    by (simp add: password_algorithm_argon2id_def)
qed

section \<open>The key ring\<close>

text \<open>C39. What is encrypted with a ring decrypts, with the same ring and with every later ring that has the old
  secret among the retired ones. A ciphertext is recognised as one. With other additional data (for
  another user) it decrypts only if the sealed data key is a valid one for that data too, which
  authenticated encryption is to prevent.\<close>

theorem keyring_round_trip:
  assumes ok: "primitives_ok sha seal unseal"
    and old: "new_ring sha secret retired = Inr r"
    and later: "new_ring sha active specs = Inr r'" "secret = active \<or> secret \<in> set specs"
    and len: "length dek = 32" "length n1 = 12" "length n2 = 12"
    and run: "encrypt seal \<lparr>rn_data_key = Some dek, rn_data_key_nonce = Some n1, rn_payload_nonce = Some n2\<rparr>
                (Some r) plaintext aad = Inr c"
  shows "decrypt unseal (Some r') c aad = Inr plaintext \<and> is_encrypted c \<and>
    (\<forall>aad' p. decrypt unseal (Some r') c aad' = Inr p \<longrightarrow>
       (\<exists>dek'. seal (ky_value (rg_active r)) n1 dek aad = seal (ky_value (rg_active r)) n1 dek' aad'))"
proof -
  have k: "derive_key sha secret = Inr (rg_active r)" using old by (auto simp: new_ring_def rbind_Inr_iff)
  note found = ring_has_key [OF later k]
  note split = encryptE [OF ok k len run]
  have "seal dek n2 plaintext aad \<noteq> []" using primitives_okD(2) [OF ok, of dek n2 plaintext aad] by auto
  note dec = decrypt_parts [OF ok found derived_key(1) [OF ok k] split(1) len this]
  show ?thesis using dec split(2) by blast
qed

definition sample_tag :: "string \<Rightarrow> string" where
  "sample_tag a = take 16 (a @ replicate 16 (CHR ''.''))"

definition sample_seal :: aead where
  "sample_seal k n p a = p @ sample_tag a"

definition sample_unseal :: aead_open where
  "sample_unseal k n c a =
     (if 16 \<le> length c \<and> drop (length c - 16) c = sample_tag a then Some (take (length c - 16) c) else None)"

definition sample_sha :: "string \<Rightarrow> string" where
  "sample_sha x = take 32 (rev x @ replicate 32 (CHR ''#''))"

lemma sample_primitives: "primitives_ok sample_sha sample_seal sample_unseal"
proof -
  have tag: "length (sample_tag a) = 16" for a by (simp add: sample_tag_def)
  have "sample_unseal k n c a = Some p \<longleftrightarrow> c = sample_seal k n p a" for k n c a p
  proof
    assume "sample_unseal k n c a = Some p"
    then show "c = sample_seal k n p a"
      by (metis append_take_drop_id option.distinct(1) option.inject sample_seal_def sample_unseal_def)
  qed (simp add: sample_unseal_def sample_seal_def tag)
  then show ?thesis by (simp add: primitives_ok_def tag sample_seal_def sample_sha_def min_def)
qed

theorem keyring_round_trip_witness:
  "\<exists>r r' c. new_ring sample_sha ''a passphrase, first'' [] = Inr r \<and>
     new_ring sample_sha ''a passphrase, second'' [''a passphrase, first''] = Inr r' \<and>
     encrypt sample_seal \<lparr>rn_data_key = Some (replicate 32 (CHR ''k'')), rn_data_key_nonce = Some (replicate 12 (CHR ''m'')),
       rn_payload_nonce = Some (replicate 12 (CHR ''n''))\<rparr> (Some r) ''seed'' ''auth.totp:u'' = Inr c \<and>
     decrypt sample_unseal (Some r') c ''auth.totp:u'' = Inr ''seed''"
proof -
  let ?rn = "\<lparr>rn_data_key = Some (replicate 32 (CHR ''k'')), rn_data_key_nonce = Some (replicate 12 (CHR ''m'')),
       rn_payload_nonce = Some (replicate 12 (CHR ''n''))\<rparr>"
  have "is_ok (new_ring sample_sha ''a passphrase, first'' [])"
    "is_ok (new_ring sample_sha ''a passphrase, second'' [''a passphrase, first''])"
    "is_ok (rbind (new_ring sample_sha ''a passphrase, first'' []) (\<lambda>r. encrypt sample_seal ?rn (Some r) ''seed'' ''auth.totp:u''))"
    by code_simp+
  then obtain r r' c where w: "new_ring sample_sha ''a passphrase, first'' [] = Inr r"
    "new_ring sample_sha ''a passphrase, second'' [''a passphrase, first''] = Inr r'"
    "encrypt sample_seal ?rn (Some r) ''seed'' ''auth.totp:u'' = Inr c" by (auto simp: is_ok_iff)
  moreover have "decrypt sample_unseal (Some r') c ''auth.totp:u'' = Inr ''seed''"
    using keyring_round_trip [OF sample_primitives w(1,2) _ _ _ _ w(3)] by simp
  ultimately show ?thesis by blast
qed

section \<open>The limiter\<close>

text \<open>C40. Whatever calls came before, the limiter admits at most twice its limit of attempts for one client
  address and route, or one subject and route, in any period not longer than its window, and at most its
  limit from a fresh start.\<close>

theorem attempts_limited:
  assumes "rl_enabled cfg" and "in_int64 (rl_limit cfg)" and "0 < start"
    and "limiter = new_auth_rate_limiter cfg"
    and "\<forall>c \<in> set calls. start \<le> cl_now c \<and> cl_now c < start + rl_window (rt_cfg limiter)"
  shows "admitted lower sha key calls (run_limiter lower sha earlier (Some limiter)) \<le> 2 * rl_limit (rt_cfg limiter) \<and>
    admitted lower sha key calls (Some limiter) \<le> rl_limit (rt_cfg limiter)"
proof -
  note new = new_limiter_ok [OF assms(2), folded assms(4)]
  have ok: "buckets_ok (rt_cfg limiter) (rt_buckets limiter)" using new by (simp add: buckets_ok_def)
  let ?stop = "start + rl_window (rt_cfg limiter)"
  have pos: "0 < ?stop" using assms(3) new by linarith
  have times: "\<forall>c \<in> set calls. cl_now c < ?stop \<and> ?stop \<le> cl_now c + rl_window (rt_cfg limiter)" using assms(5) by auto
  obtain l where l: "run_limiter lower sha earlier (Some limiter) = Some l" "rt_cfg l = rt_cfg limiter"
    "buckets_ok (rt_cfg limiter) (rt_buckets l)"
    using run_limiter_ok [of limiter lower sha earlier] new ok assms(1) by auto
  have "admitted lower sha key calls (Some l) \<le> room (rt_cfg l) ?stop key (rt_buckets l)"
    using l new assms(1) pos times by (intro admitted_le_room) simp_all
  also have "\<dots> \<le> 2 * rl_limit (rt_cfg limiter)" using l(2) room_le [OF l(3)] new by simp
  finally have a: "admitted lower sha key calls (Some l) \<le> 2 * rl_limit (rt_cfg limiter)" .
  have "admitted lower sha key calls (Some limiter) \<le> room (rt_cfg limiter) ?stop key (rt_buckets limiter)"
    using new assms(1) ok pos times by (intro admitted_le_room) simp_all
  also have "\<dots> = rl_limit (rt_cfg limiter)" using new by (simp add: room_def)
  finally show ?thesis using a l(1) by simp
qed

definition sample_call :: "int \<Rightarrow> rate_call" where
  "sample_call now = \<lparr>cl_route = ''login'', cl_ip = ''::1'', cl_subject = ''a@b.c'', cl_now = now\<rparr>"

theorem attempts_limited_witness:
  "admitted id id (auth_rate_key ''login'' ''ip'' ''::1'') [sample_call 1, sample_call 2, sample_call 3]
     (Some (new_auth_rate_limiter \<lparr>rl_enabled = True, rl_limit = 2, rl_window = 10\<rparr>)) = 2 \<and>
   admitted id id (auth_rate_key ''login'' ''ip'' ''::1'') [sample_call 1, sample_call 2, sample_call 3]
     (Some (new_auth_rate_limiter \<lparr>rl_enabled = True, rl_limit = 2, rl_window = 10\<rparr>)) \<le> 2"
proof
  let ?cfg = "\<lparr>rl_enabled = True, rl_limit = 2, rl_window = 10\<rparr>"
  let ?l = "new_auth_rate_limiter ?cfg"
  have l: "rt_cfg ?l = ?cfg" by (simp add: new_auth_rate_limiter_def)
  have "admitted id id (auth_rate_key ''login'' ''ip'' ''::1'') [sample_call 1, sample_call 2, sample_call 3] (Some ?l)
      \<le> rl_limit (rt_cfg ?l)"
    by (rule attempts_limited [of ?cfg 1 ?l, THEN conjunct2]) (auto simp: l in_int64_def sample_call_def)
  then show "admitted id id (auth_rate_key ''login'' ''ip'' ''::1'') [sample_call 1, sample_call 2, sample_call 3] (Some ?l) \<le> 2"
    by (simp add: l)
  show "admitted id id (auth_rate_key ''login'' ''ip'' ''::1'') [sample_call 1, sample_call 2, sample_call 3] (Some ?l) = 2"
    by code_simp
qed

end
