(* ===== verification/Auth_Model.thy ===== *)
theory Auth_Model
  imports Durable
begin

text \<open>
  The data of package \<open>auth\<close>: users, sessions, one-time codes, throttles and passkeys
  (\<open>auth/model.go\<close>, \<open>auth/context.go\<close>, \<open>auth/currency.go\<close>), and the settings of the service.

  A \<open>UserRecord\<close> embeds a \<open>User\<close>; here it extends the record, and \<open>user.truncate\<close> is the embedded
  part. Of the records of the WebAuthn library only the fields that the source reads are kept, the rest
  of a ceremony's session data is the opaque \<open>ws_data\<close>.
\<close>

text \<open>\<open>AuthPanic\<close> is a run-time panic.\<close>

datatype auth_error = ErrInvalidCredentials | LoginLocked int | AuthFailed string | AuthPanic

datatype user_status = UserStatusPendingVerification | UserStatusActive

record user =
  us_id :: string
  us_email :: string
  us_status :: user_status
  us_email_verified :: bool
  us_totp_enabled :: bool
  us_base_currency :: string
  us_created_at :: time
  us_updated_at :: time

record user_record = user +
  ur_password_hash :: string
  ur_totp_secret :: string
  ur_external_sso_subject :: string

text \<open>The zero value of the status is the empty string, which is no status; nothing reads it.\<close>

definition zero_user_record :: user_record where
  "zero_user_record =
     \<lparr>us_id = [], us_email = [], us_status = UserStatusPendingVerification, us_email_verified = False,
      us_totp_enabled = False, us_base_currency = [], us_created_at = zero_time, us_updated_at = zero_time,
      ur_password_hash = [], ur_totp_secret = [], ur_external_sso_subject = []\<rparr>"

record session =
  se_id :: string
  se_user_id :: string
  se_user_email :: string
  se_status :: user_status
  se_expires_at :: time
  se_created_at :: time

record auth_actor =
  aa_user_id :: string
  aa_email :: string
  aa_status :: user_status

record register_request =
  rg_email :: string
  rg_password :: string
  rg_turnstile_token :: string
  rg_remote_ip :: string

record login_request =
  lg_email :: string
  lg_password :: string
  lg_totp_code :: string
  lg_turnstile_token :: string
  lg_remote_ip :: string

record login_throttle =
  lt_email :: string
  lt_failed_count :: int
  lt_locked_until :: time
  lt_updated_at :: time

record resolve_user_request =
  rs_user_id :: string
  rs_email :: string

record update_user_profile_request =
  pr_actor :: auth_actor
  pr_base_currency :: "string option"

record external_sso_identity =
  si_subject :: string
  si_username :: string
  si_display_name :: string

text \<open>A login answers with a session or with the request for a second factor.\<close>

record auth_result =
  ar_user :: user
  ar_session :: "session option"
  ar_session_token :: string
  ar_totp_required :: bool

datatype email_code_purpose = EmailCodePurposeVerification | EmailCodePurposePasswordReset

definition purpose_string :: "email_code_purpose \<Rightarrow> string" where
  "purpose_string p = (case p of
     EmailCodePurposeVerification \<Rightarrow> ''email_verification'' | EmailCodePurposePasswordReset \<Rightarrow> ''password_reset'')"

record email_code_record =
  ec_email :: string
  ec_purpose :: email_code_purpose
  ec_code_hash :: string
  ec_expires_at :: time
  ec_created_at :: time
  ec_used_at :: "time option"
  ec_attempts :: int

record email_code_delivery =
  ed_email :: string
  ed_code :: string
  ed_user :: "user option"
  ed_expires_at :: time

record pending_totp_setup =
  pt_user_id :: string
  pt_secret :: string
  pt_otpauth :: string
  pt_expires_at :: time
  pt_created_at :: time

record totp_setup =
  ts_secret :: string
  ts_otpauth :: string
  ts_expires_at :: time

record webauthn_credential =
  wc_id :: string
  wc_public_key :: string
  wc_sign_count :: int
  wc_backup_eligible :: bool
  wc_backup_state :: bool
  wc_transport :: "string list"
  wc_aaguid :: string
  wc_attestation_type :: string
  wc_attestation_format :: string
  wc_attachment :: string

record webauthn_session =
  ws_expires :: time
  ws_data :: string

record passkey_credential =
  pk_id :: string
  pk_user_id :: string
  pk_label :: string
  pk_credential_id :: string
  pk_public_key :: string
  pk_sign_count :: int
  pk_backup_eligible :: bool
  pk_backup_state :: bool
  pk_transports :: "string list"
  pk_aaguid :: string
  pk_attestation_type :: string
  pk_attestation_format :: string
  pk_attachment :: string
  pk_credential :: webauthn_credential
  pk_created_at :: time
  pk_updated_at :: time
  pk_last_used_at :: "time option"

datatype passkey_ceremony_type = PasskeyCeremonyRegistration | PasskeyCeremonyLogin

record passkey_ceremony =
  pc_id :: string
  pc_user_id :: string
  pc_type :: passkey_ceremony_type
  pc_session :: webauthn_session
  pc_created_at :: time
  pc_expires_at :: time

record passkey_list_item =
  pi_id :: string
  pi_label :: string
  pi_transports :: "string list"
  pi_backup_eligible :: bool
  pi_backup_state :: bool
  pi_sign_count :: int
  pi_created_at :: time
  pi_updated_at :: time
  pi_last_used_at :: "time option"

section \<open>Currencies\<close>

definition default_base_currency :: string where
  "default_base_currency = ''USD''"

definition supported_base_currencies :: "string list" where
  "supported_base_currencies = [''CAD'', ''CNY'', ''EUR'', ''USD'']"

definition normalize_base_currency :: "string \<Rightarrow> auth_error + string" where
  "normalize_base_currency v =
     (let currency = to_upper (trim_space v) in
      if currency \<in> set supported_base_currencies then Inr currency
      else Inl (AuthFailed ''base currency is not supported''))"

end
