(* ===== verification/Auth_Store.thy ===== *)
theory Auth_Store
  imports Auth_Model
begin

text \<open>
  The store of package \<open>auth\<close> in memory (\<open>auth/store.go\<close>). Each method takes the lock of the store, so it is
  one atomic step. Maps are association lists; the few methods that iterate over one do so in its order.
\<close>

section \<open>State\<close>

record auth_store =
  users_by_id :: "(string \<times> user_record) list"
  user_ids_by_email :: "(string \<times> string) list"
  sessions :: "(string \<times> session) list"
  email_codes :: "((string \<times> email_code_purpose) \<times> email_code_record) list"
  pending_totp :: "(string \<times> pending_totp_setup) list"
  totp_replays :: "((string \<times> string) \<times> time) list"
  failed_totps :: "(string \<times> int) list"
  login_throttles :: "(string \<times> login_throttle) list"
  passkeys_by_id :: "(string \<times> passkey_credential) list"
  passkey_ids_by_credential_id :: "(string \<times> string) list"
  passkey_ceremonies :: "(string \<times> passkey_ceremony) list"

type_synonym 'a auth_act = "(auth_store, auth_error, 'a) act"

definition new_auth_store :: auth_store where
  "new_auth_store =
     \<lparr>users_by_id = [], user_ids_by_email = [], sessions = [], email_codes = [], pending_totp = [],
      totp_replays = [], failed_totps = [], login_throttles = [], passkeys_by_id = [],
      passkey_ids_by_credential_id = [], passkey_ceremonies = []\<rparr>"

section \<open>Users\<close>

definition clone_user_record :: "user_record \<Rightarrow> user_record" where
  "clone_user_record u =
     (if trim_space (us_base_currency u) = [] then u\<lparr>us_base_currency := default_base_currency\<rparr> else u)"

definition create_user :: "user_record \<Rightarrow> user_record auth_act" where
  "create_user u s =
     (if map_of (users_by_id s) (us_id u) \<noteq> None then (Inl (AuthFailed ''user id already exists''), s)
      else if map_of (user_ids_by_email s) (us_email u) \<noteq> None then (Inl (AuthFailed ''user email already exists''), s)
      else (Inr (clone_user_record u),
            s\<lparr>users_by_id := AList.update (us_id u) (clone_user_record u) (users_by_id s),
              user_ids_by_email := AList.update (us_email u) (us_id u) (user_ids_by_email s)\<rparr>))"

text \<open>An index entry without a user would give the zero record.\<close>

definition user_by_email :: "string \<Rightarrow> auth_store \<Rightarrow> auth_error + user_record" where
  "user_by_email email s =
     (case map_of (user_ids_by_email s) email of
        None \<Rightarrow> Inl (AuthFailed ''user not found'')
      | Some user_id \<Rightarrow>
          Inr (clone_user_record (case map_of (users_by_id s) user_id of Some u \<Rightarrow> u | None \<Rightarrow> zero_user_record)))"

definition update_user :: "user_record \<Rightarrow> user_record auth_act" where
  "update_user u s =
     (case map_of (users_by_id s) (us_id u) of
        None \<Rightarrow> (Inl (AuthFailed ''user not found''), s)
      | Some existing \<Rightarrow>
          if us_email existing \<noteq> us_email u then (Inl (AuthFailed ''user email cannot change''), s)
          else (Inr (clone_user_record u),
                s\<lparr>users_by_id := AList.update (us_id u) (clone_user_record u) (users_by_id s)\<rparr>))"

definition user_by_id :: "string \<Rightarrow> auth_store \<Rightarrow> auth_error + user_record" where
  "user_by_id user_id s =
     (case map_of (users_by_id s) user_id of
        None \<Rightarrow> Inl (AuthFailed ''user not found'')
      | Some u \<Rightarrow> Inr (clone_user_record u))"

section \<open>Sessions\<close>

definition store_session :: "string \<Rightarrow> session \<Rightarrow> unit auth_act" where
  "store_session token_hash se s = (Inr (), s\<lparr>sessions := AList.update token_hash se (sessions s)\<rparr>)"

definition session_by_token_hash :: "string \<Rightarrow> auth_store \<Rightarrow> auth_error + session" where
  "session_by_token_hash token_hash s =
     (case map_of (sessions s) token_hash of
        None \<Rightarrow> Inl (AuthFailed ''session not found'') | Some se \<Rightarrow> Inr se)"

definition delete_session :: "string \<Rightarrow> unit auth_act" where
  "delete_session token_hash s = (Inr (), s\<lparr>sessions := AList.delete token_hash (sessions s)\<rparr>)"

definition delete_sessions_by_user :: "string \<Rightarrow> unit auth_act" where
  "delete_sessions_by_user user_id s =
     (Inr (), s\<lparr>sessions := filter (\<lambda>(_, se). se_user_id se \<noteq> user_id) (sessions s)\<rparr>)"

section \<open>TOTP secrets\<close>

text \<open>The two loops of \<open>MigrateTOTPSecrets\<close>; an error stops a loop and keeps what it has rewritten.\<close>

type_synonym secret_transform = "string \<Rightarrow> string \<Rightarrow> auth_error + string"

fun migrate_users :: "secret_transform \<Rightarrow> (string \<times> user_record) list \<Rightarrow> auth_error option \<times> (string \<times> user_record) list" where
  "migrate_users encrypt [] = (None, [])"
| "migrate_users encrypt ((user_id, u) # rest) =
     (if trim_space (ur_totp_secret u) = [] then
        (case migrate_users encrypt rest of (err, rest') \<Rightarrow> (err, (user_id, u) # rest'))
      else (case encrypt (us_id u) (ur_totp_secret u) of
              Inl err \<Rightarrow> (Some err, (user_id, u) # rest)
            | Inr secret \<Rightarrow>
                (case migrate_users encrypt rest of (err, rest') \<Rightarrow> (err, (user_id, u\<lparr>ur_totp_secret := secret\<rparr>) # rest'))))"

fun migrate_setups :: "secret_transform \<Rightarrow> (string \<times> pending_totp_setup) list \<Rightarrow>
    auth_error option \<times> (string \<times> pending_totp_setup) list" where
  "migrate_setups encrypt [] = (None, [])"
| "migrate_setups encrypt ((session_id, setup) # rest) =
     (if trim_space (pt_secret setup) = [] then
        (case migrate_setups encrypt rest of (err, rest') \<Rightarrow> (err, (session_id, setup) # rest'))
      else (case encrypt (pt_user_id setup) (pt_secret setup) of
              Inl err \<Rightarrow> (Some err, (session_id, setup) # rest)
            | Inr secret \<Rightarrow>
                (case migrate_setups encrypt rest of (err, rest') \<Rightarrow>
                   (err, (session_id, setup\<lparr>pt_secret := secret\<rparr>) # rest'))))"

definition migrate_secrets :: "secret_transform \<Rightarrow> unit auth_act" where
  "migrate_secrets encrypt s =
     (case migrate_users encrypt (users_by_id s) of
        (Some err, users) \<Rightarrow> (Inl err, s\<lparr>users_by_id := users\<rparr>)
      | (None, users) \<Rightarrow>
          (case migrate_setups encrypt (pending_totp s) of
             (Some err, setups) \<Rightarrow> (Inl err, s\<lparr>users_by_id := users, pending_totp := setups\<rparr>)
           | (None, setups) \<Rightarrow> (Inr (), s\<lparr>users_by_id := users, pending_totp := setups\<rparr>)))"

section \<open>Email codes\<close>

definition store_email_code :: "email_code_record \<Rightarrow> unit auth_act" where
  "store_email_code code s =
     (Inr (), s\<lparr>email_codes := AList.update (ec_email code, ec_purpose code) code (email_codes s)\<rparr>)"

definition email_code :: "string \<Rightarrow> email_code_purpose \<Rightarrow> auth_store \<Rightarrow> auth_error + email_code_record" where
  "email_code email purpose s =
     (case map_of (email_codes s) (email, purpose) of
        None \<Rightarrow> Inl (AuthFailed ''email code not found'') | Some code \<Rightarrow> Inr code)"

definition delete_email_code :: "string \<Rightarrow> email_code_purpose \<Rightarrow> unit auth_act" where
  "delete_email_code email purpose s =
     (Inr (), s\<lparr>email_codes := AList.delete (email, purpose) (email_codes s)\<rparr>)"

section \<open>Pending setups, used codes and failures\<close>

definition store_pending_totp_setup :: "string \<Rightarrow> pending_totp_setup \<Rightarrow> unit auth_act" where
  "store_pending_totp_setup session_id setup s =
     (Inr (), s\<lparr>pending_totp := AList.update session_id setup (pending_totp s)\<rparr>)"

definition find_pending_totp_setup :: "string \<Rightarrow> auth_store \<Rightarrow> auth_error + pending_totp_setup" where
  "find_pending_totp_setup session_id s =
     (case map_of (pending_totp s) session_id of
        None \<Rightarrow> Inl (AuthFailed ''pending totp setup not found'') | Some setup \<Rightarrow> Inr setup)"

definition delete_pending_totp_setup :: "string \<Rightarrow> unit auth_act" where
  "delete_pending_totp_setup session_id s = (Inr (), s\<lparr>pending_totp := AList.delete session_id (pending_totp s)\<rparr>)"

definition store_totp_replay :: "string \<Rightarrow> string \<Rightarrow> time \<Rightarrow> unit auth_act" where
  "store_totp_replay user_id code_hash expires_at s =
     (Inr (), s\<lparr>totp_replays := AList.update (user_id, code_hash) expires_at (totp_replays s)\<rparr>)"

definition totp_replay_exists :: "string \<Rightarrow> string \<Rightarrow> time \<Rightarrow> bool auth_act" where
  "totp_replay_exists user_id code_hash now s =
     (case map_of (totp_replays s) (user_id, code_hash) of
        None \<Rightarrow> (Inr False, s)
      | Some expires_at \<Rightarrow>
          if \<not> expires_at > now
          then (Inr False, s\<lparr>totp_replays := AList.delete (user_id, code_hash) (totp_replays s)\<rparr>)
          else (Inr True, s))"

text \<open>Reading a counter that is not there gives 0.\<close>

definition failed_totp_count :: "string \<Rightarrow> auth_store \<Rightarrow> int" where
  "failed_totp_count user_id s = (case map_of (failed_totps s) user_id of None \<Rightarrow> 0 | Some n \<Rightarrow> n)"

definition increment_failed_totp :: "string \<Rightarrow> int auth_act" where
  "increment_failed_totp user_id s =
     (let n = int64 (failed_totp_count user_id s + 1) in
      (Inr n, s\<lparr>failed_totps := AList.update user_id n (failed_totps s)\<rparr>))"

definition reset_failed_totp :: "string \<Rightarrow> unit auth_act" where
  "reset_failed_totp user_id s = (Inr (), s\<lparr>failed_totps := AList.delete user_id (failed_totps s)\<rparr>)"

section \<open>Login throttles\<close>

definition login_throttle_of :: "string \<Rightarrow> auth_store \<Rightarrow> login_throttle" where
  "login_throttle_of email s =
     (case map_of (login_throttles s) email of
        None \<Rightarrow> \<lparr>lt_email = [], lt_failed_count = 0, lt_locked_until = zero_time, lt_updated_at = zero_time\<rparr>
      | Some t \<Rightarrow> t)"

definition store_login_throttle :: "login_throttle \<Rightarrow> unit auth_act" where
  "store_login_throttle t s =
     (if trim_space (lt_email t) = [] then (Inl (AuthFailed ''login throttle email is required''), s)
      else (Inr (), s\<lparr>login_throttles := AList.update (lt_email t) t (login_throttles s)\<rparr>))"

definition reset_login_throttle :: "string \<Rightarrow> unit auth_act" where
  "reset_login_throttle email s = (Inr (), s\<lparr>login_throttles := AList.delete email (login_throttles s)\<rparr>)"

section \<open>Passkeys\<close>

definition create_passkey :: "passkey_credential \<Rightarrow> passkey_credential auth_act" where
  "create_passkey p s =
     (if map_of (passkeys_by_id s) (pk_id p) \<noteq> None then (Inl (AuthFailed ''passkey id already exists''), s)
      else if map_of (passkey_ids_by_credential_id s) (pk_credential_id p) \<noteq> None
      then (Inl (AuthFailed ''passkey credential already exists''), s)
      else (Inr p, s\<lparr>passkeys_by_id := AList.update (pk_id p) p (passkeys_by_id s),
                     passkey_ids_by_credential_id :=
                       AList.update (pk_credential_id p) (pk_id p) (passkey_ids_by_credential_id s)\<rparr>))"

definition store_update_passkey :: "passkey_credential \<Rightarrow> passkey_credential auth_act" where
  "store_update_passkey p s =
     (case map_of (passkeys_by_id s) (pk_id p) of
        None \<Rightarrow> (Inl (AuthFailed ''passkey not found''), s)
      | Some existing \<Rightarrow>
          if pk_user_id existing \<noteq> pk_user_id p then (Inl (AuthFailed ''passkey owner cannot change''), s)
          else if pk_credential_id existing \<noteq> pk_credential_id p
          then (Inl (AuthFailed ''passkey credential id cannot change''), s)
          else (Inr p, s\<lparr>passkeys_by_id := AList.update (pk_id p) p (passkeys_by_id s)\<rparr>))"

definition store_delete_passkey :: "string \<Rightarrow> string \<Rightarrow> unit auth_act" where
  "store_delete_passkey user_id passkey_id s =
     (case map_of (passkeys_by_id s) passkey_id of
        None \<Rightarrow> (Inl (AuthFailed ''passkey not found''), s)
      | Some p \<Rightarrow>
          if pk_user_id p \<noteq> user_id then (Inl (AuthFailed ''passkey not found''), s)
          else (Inr (), s\<lparr>passkeys_by_id := AList.delete passkey_id (passkeys_by_id s),
                          passkey_ids_by_credential_id :=
                            AList.delete (pk_credential_id p) (passkey_ids_by_credential_id s)\<rparr>))"

definition passkey_by_id :: "string \<Rightarrow> string \<Rightarrow> auth_store \<Rightarrow> auth_error + passkey_credential" where
  "passkey_by_id user_id passkey_id s =
     (case map_of (passkeys_by_id s) passkey_id of
        None \<Rightarrow> Inl (AuthFailed ''passkey not found'')
      | Some p \<Rightarrow> if pk_user_id p \<noteq> user_id then Inl (AuthFailed ''passkey not found'') else Inr p)"

text \<open>As for users, an index entry without a passkey would give the zero passkey.\<close>

definition zero_passkey :: passkey_credential where
  "zero_passkey =
     \<lparr>pk_id = [], pk_user_id = [], pk_label = [], pk_credential_id = [], pk_public_key = [], pk_sign_count = 0,
      pk_backup_eligible = False, pk_backup_state = False, pk_transports = [], pk_aaguid = [],
      pk_attestation_type = [], pk_attestation_format = [], pk_attachment = [],
      pk_credential = \<lparr>wc_id = [], wc_public_key = [], wc_sign_count = 0, wc_backup_eligible = False,
        wc_backup_state = False, wc_transport = [], wc_aaguid = [], wc_attestation_type = [],
        wc_attestation_format = [], wc_attachment = []\<rparr>,
      pk_created_at = zero_time, pk_updated_at = zero_time, pk_last_used_at = None\<rparr>"

definition passkey_by_credential_id :: "string \<Rightarrow> auth_store \<Rightarrow> auth_error + passkey_credential" where
  "passkey_by_credential_id credential_id s =
     (case map_of (passkey_ids_by_credential_id s) credential_id of
        None \<Rightarrow> Inl (AuthFailed ''passkey not found'')
      | Some passkey_id \<Rightarrow>
          Inr (case map_of (passkeys_by_id s) passkey_id of None \<Rightarrow> zero_passkey | Some p \<Rightarrow> p))"

definition store_list_passkeys :: "string \<Rightarrow> auth_store \<Rightarrow> passkey_credential list" where
  "store_list_passkeys user_id s = filter (\<lambda>p. pk_user_id p = user_id) (map snd (passkeys_by_id s))"

definition store_passkey_ceremony :: "passkey_ceremony \<Rightarrow> unit auth_act" where
  "store_passkey_ceremony c s = (Inr (), s\<lparr>passkey_ceremonies := AList.update (pc_id c) c (passkey_ceremonies s)\<rparr>)"

definition find_passkey_ceremony :: "string \<Rightarrow> auth_store \<Rightarrow> auth_error + passkey_ceremony" where
  "find_passkey_ceremony ceremony_id s =
     (case map_of (passkey_ceremonies s) ceremony_id of
        None \<Rightarrow> Inl (AuthFailed ''passkey ceremony not found'') | Some c \<Rightarrow> Inr c)"

definition delete_passkey_ceremony :: "string \<Rightarrow> unit auth_act" where
  "delete_passkey_ceremony ceremony_id s =
     (Inr (), s\<lparr>passkey_ceremonies := AList.delete ceremony_id (passkey_ceremonies s)\<rparr>)"

end
