(* ===== verification/Triples.thy ===== *)
theory Triples
  imports Effects
begin

text \<open>
  Hoare triples for state-changing operations: from a state with \<open>P\<close>, the operation ends with a result
  \<open>x\<close> and a state with \<open>Q x\<close>, or with an error and a state with \<open>E\<close>. The rules compute forwards, so a
  handler is proved by its own sequence of calls.
\<close>

definition triple :: "('s \<Rightarrow> bool) \<Rightarrow> ('s, 'e, 'a) act \<Rightarrow> ('a \<Rightarrow> 's \<Rightarrow> bool) \<Rightarrow> ('s \<Rightarrow> bool) \<Rightarrow> bool" where
  "triple P m Q E \<longleftrightarrow> (\<forall>s. P s \<longrightarrow> (case m s of (Inl e, t) \<Rightarrow> E t | (Inr x, t) \<Rightarrow> Q x t))"

lemma tripleI:
  "(\<And>s x t. P s \<Longrightarrow> m s = (Inr x, t) \<Longrightarrow> Q x t) \<Longrightarrow> (\<And>s e t. P s \<Longrightarrow> m s = (Inl e, t) \<Longrightarrow> E t) \<Longrightarrow> triple P m Q E"
  unfolding triple_def by (auto split: prod.splits sum.splits)

lemma tripleD:
  "triple P m Q E \<Longrightarrow> P s \<Longrightarrow> m s = (Inr x, t) \<Longrightarrow> Q x t"
  "triple P m Q E \<Longrightarrow> P s \<Longrightarrow> m s = (Inl e, t) \<Longrightarrow> E t"
  unfolding triple_def by fastforce+

lemma triple_bind [intro?]:
  "triple P m Q E \<Longrightarrow> (\<And>x. triple (Q x) (f x) R E) \<Longrightarrow> triple P (abind m f) R E"
  by (rule tripleI) (auto simp: act_iffs dest: tripleD)

lemma triple_weaken:
  assumes "triple P m Q E" and "\<And>x s. Q x s \<Longrightarrow> Q' x s" and "\<And>s. E s \<Longrightarrow> E' s"
  shows "triple P m Q' E'"
  by (rule tripleI; rule assms(2,3)) (erule (1) tripleD [OF assms(1)])+

lemma triple_strengthen: "triple P' m Q E \<Longrightarrow> (\<And>s. P s \<Longrightarrow> P' s) \<Longrightarrow> triple P m Q E"
  by (simp add: triple_def)

lemma triple_read: "(\<And>s. P s \<Longrightarrow> E s) \<Longrightarrow> triple P (aread f) (\<lambda>x s. P s \<and> f s = Inr x) E"
  unfolding triple_def aread_def by (auto split: sum.splits)

lemma triple_guard: "(\<And>s. P s \<Longrightarrow> E s) \<Longrightarrow> triple P (aguard b e) (\<lambda>_ s. P s \<and> b) E"
  unfolding triple_def aguard_def by auto

lemma triple_ret: "(\<And>s. P s \<Longrightarrow> Q x s) \<Longrightarrow> triple P (aret x) Q E"
  unfolding triple_def aret_def by auto

lemma triple_fail: "(\<And>s. P s \<Longrightarrow> E s) \<Longrightarrow> triple P (afail e) Q E"
  unfolding triple_def afail_def by auto

lemma triple_if:
  "(b \<Longrightarrow> triple P m Q E) \<Longrightarrow> (\<not> b \<Longrightarrow> triple P m' Q E) \<Longrightarrow> triple P (if b then m else m') Q E"
  by simp

lemma triple_option:
  "(x = None \<Longrightarrow> triple P m Q E) \<Longrightarrow> (\<And>y. x = Some y \<Longrightarrow> triple P (f y) Q E) \<Longrightarrow>
   triple P (case x of None \<Rightarrow> m | Some y \<Rightarrow> f y) Q E"
  by (cases x) simp_all

lemma triple_sum:
  "(\<And>y. x = Inl y \<Longrightarrow> triple P (f y) Q E) \<Longrightarrow> (\<And>y. x = Inr y \<Longrightarrow> triple P (g y) Q E) \<Longrightarrow>
   triple P (case x of Inl y \<Rightarrow> f y | Inr y \<Rightarrow> g y) Q E"
  by (cases x) simp_all

text \<open>A handler that runs one of two operations on what a call finds.\<close>

definition aif_found :: "('s \<Rightarrow> 'e + 'a) \<Rightarrow> ('a \<Rightarrow> ('s, 'e, 'b) act) \<Rightarrow> ('s, 'e, 'b) act \<Rightarrow> ('s, 'e, 'b) act" where
  "aif_found f found missing s = (case f s of Inl _ \<Rightarrow> missing s | Inr x \<Rightarrow> found x s)"

lemma triple_found:
  "(\<And>x. triple (\<lambda>s. P s \<and> f s = Inr x) (g x) Q E) \<Longrightarrow> triple P m Q E \<Longrightarrow> triple P (aif_found f g m) Q E"
  unfolding triple_def aif_found_def by (auto split: sum.splits)

text \<open>What every operation of a sequence keeps, the sequence keeps.\<close>

definition keeps :: "('s \<Rightarrow> bool) \<Rightarrow> ('s, 'e, 'a) act \<Rightarrow> bool" where
  "keeps P m \<longleftrightarrow> triple P m (\<lambda>_. P) P"

lemma keepsD: "keeps P m \<Longrightarrow> P s \<Longrightarrow> m s = (r, t) \<Longrightarrow> P t"
  by (cases r) (auto simp: keeps_def dest: tripleD)

lemma keepsI: "(\<And>s r t. P s \<Longrightarrow> m s = (r, t) \<Longrightarrow> P t) \<Longrightarrow> keeps P m"
  unfolding keeps_def by (rule tripleI) blast+

lemma keeps_bind: "keeps P m \<Longrightarrow> (\<And>x. keeps P (f x)) \<Longrightarrow> keeps P (abind m f)"
  unfolding keeps_def by (rule triple_bind)

lemma keeps_basic: "keeps P (aret x)" "keeps P (afail e)" "keeps P (aread f)" "keeps P (aguard b e)"
  by (auto simp: keeps_def triple_def act_defs split: sum.splits)

lemma keeps_if: "keeps P m \<Longrightarrow> keeps P m' \<Longrightarrow> keeps P (if b then m else m')"
  by simp

lemma keeps_option: "keeps P m \<Longrightarrow> (\<And>y. keeps P (f y)) \<Longrightarrow> keeps P (case x of None \<Rightarrow> m | Some y \<Rightarrow> f y)"
  by (cases x) simp_all

lemma keeps_sum: "(\<And>y. keeps P (f y)) \<Longrightarrow> (\<And>y. keeps P (g y)) \<Longrightarrow> keeps P (case x of Inl y \<Rightarrow> f y | Inr y \<Rightarrow> g y)"
  by (cases x) simp_all

lemma keeps_found: "(\<And>x. keeps P (g x)) \<Longrightarrow> keeps P m \<Longrightarrow> keeps P (aif_found f g m)"
  unfolding keeps_def by (rule triple_found) (auto intro: triple_strengthen)

lemma keeps_prod: "(\<And>a b. keeps P (f a b)) \<Longrightarrow> keeps P (case x of (a, b) \<Rightarrow> f a b)"
  by (cases x) simp

lemma keeps_let: "keeps P (f x) \<Longrightarrow> keeps P (let y = x in f y)"
  by simp

lemmas keeps_rules = keeps_bind keeps_basic keeps_if keeps_option keeps_sum keeps_found keeps_let
lemmas triple_rules = triple_bind triple_if triple_option triple_sum triple_found

text \<open>A successful run, peeled from the front.\<close>

lemma guard_ok_iff: "abind (aguard b e) f s = (Inr x, t) \<longleftrightarrow> b \<and> f () s = (Inr x, t)"
  by (simp add: abind_aguard)

lemma read_ok_iff: "abind (aread g) f s = (Inr x, t) \<longleftrightarrow> (\<exists>y. g s = Inr y \<and> f y s = (Inr x, t))"
  by (simp add: abind_Inr_iff)

lemma found_ok_iff: "aif_found f g m s = (Inr x, t) \<longleftrightarrow>
    (\<exists>y. f s = Inr y \<and> g y s = (Inr x, t)) \<or> (\<exists>e. f s = Inl e \<and> m s = (Inr x, t))"
  by (auto simp: aif_found_def split: sum.splits)

lemmas peel = guard_ok_iff read_ok_iff found_ok_iff

end
