(* ===== verification/Auth_Service.thy ===== *)
theory Auth_Service
  imports Auth_Store Triples Password Keyring
begin

text \<open>
  The handlers of package \<open>auth\<close> but for passkeys: registration, login, external sign-on, profiles, sessions
  (\<open>auth/service.go\<close>, \<open>auth/session.go\<close>, \<open>auth/ids.go\<close>), one-time email codes (\<open>auth/email_codes.go\<close>) and
  TOTP (\<open>auth/totp.go\<close>).

  What the handlers call outside the repository is the record \<open>auth_env\<close>: the address parser of \<open>net/mail\<close>,
  SHA-256, the password functions, Turnstile, the TOTP library, the cipher and the UUID parser. Random
  values are the record \<open>fresh_values\<close>, \<open>None\<close> for a source that fails. The clock is read once for each
  request. Every method of the store is a step of its own.
\<close>

section \<open>Surroundings and settings\<close>

record auth_env =
  ax_parse_address :: "string \<Rightarrow> string option"
  ax_lower :: "string \<Rightarrow> string"
  ax_fold :: "string \<Rightarrow> string \<Rightarrow> bool"
  ax_sha :: "string \<Rightarrow> string"
  ax_argon2 :: argon2
  ax_pbkdf2 :: pbkdf2
  ax_turnstile :: "string \<Rightarrow> string \<Rightarrow> auth_error option"
  ax_validate_totp :: "string \<Rightarrow> string \<Rightarrow> time \<Rightarrow> auth_error + bool"
  ax_seal :: aead
  ax_unseal :: aead_open
  ax_parse_uuid :: "string \<Rightarrow> (nat \<times> string) option"

record fresh_values =
  fv_token :: "string option"
  fv_session_id :: string
  fv_salt :: "string option"
  fv_user_id :: "string option"
  fv_code :: "nat option"
  fv_cipher :: randomness

record auth_config =
  cf_allowed_registration_domains :: "string list"
  cf_email_login_enabled :: bool
  cf_email_register_enabled :: bool
  cf_email_verification_required :: bool
  cf_email_verification_ttl :: int
  cf_external_sso_enabled :: bool
  cf_external_sso_auto_provision :: bool
  cf_session_ttl :: int
  cf_totp_enabled :: bool
  cf_totp_issuer :: string
  cf_totp_replay_cache_duration :: int
  cf_passkey_enabled :: bool
  cf_turnstile_enabled :: bool
  cf_turnstile_login_mode :: string
  cf_totp_keyring :: "ring option"

text \<open>The defaults of \<open>NewService\<close>; its dependencies are parameters here.\<close>

definition new_service :: "auth_config \<Rightarrow> auth_config" where
  "new_service cfg =
     (let cfg = (if cf_session_ttl cfg = 0 then cfg\<lparr>cf_session_ttl := 24 * hour\<rparr> else cfg);
          cfg = (if cf_email_verification_ttl cfg = 0 then cfg\<lparr>cf_email_verification_ttl := 10 * minute\<rparr> else cfg);
          cfg = (if cf_totp_issuer cfg = [] then cfg\<lparr>cf_totp_issuer := ''Accounting''\<rparr> else cfg);
          cfg = (if cf_totp_replay_cache_duration cfg = 0 then cfg\<lparr>cf_totp_replay_cache_duration := 30 * second\<rparr> else cfg)
      in if cf_turnstile_login_mode cfg = [] then cfg\<lparr>cf_turnstile_login_mode := ''always''\<rparr> else cfg)"

text \<open>Errors of the helpers below the service.\<close>

definition failed :: "string + 'a \<Rightarrow> auth_error + 'a" where
  "failed r = (case r of Inl msg \<Rightarrow> Inl (AuthFailed msg) | Inr x \<Rightarrow> Inr x)"

definition drawn :: "string \<Rightarrow> 'a option \<Rightarrow> auth_error + 'a" where
  "drawn msg x = (case x of None \<Rightarrow> Inl (AuthFailed msg) | Some y \<Rightarrow> Inr y)"

text \<open>An error of a call that the handler answers with another error.\<close>

definition or_error :: "auth_error \<Rightarrow> auth_error + 'a \<Rightarrow> auth_error + 'a" where
  "or_error e r = (case r of Inl _ \<Rightarrow> Inl e | Inr x \<Rightarrow> Inr x)"

section \<open>Helpers\<close>

definition normalize_email :: "auth_env \<Rightarrow> string \<Rightarrow> auth_error + string" where
  "normalize_email env email =
     (let email = trim_space email in
      if email = [] \<or> length email > 320 then Inl (AuthFailed ''email is invalid'')
      else (case ax_parse_address env email of
              None \<Rightarrow> Inl (AuthFailed ''parse email'')
            | Some address \<Rightarrow>
                (let normalized = to_lower_with (ax_lower env) (trim_space address) in
                 if normalized = [] \<or> length normalized > 320 then Inl (AuthFailed ''email is invalid'')
                 else Inr normalized)))"

definition validate_registration_domain :: "auth_env \<Rightarrow> auth_config \<Rightarrow> string \<Rightarrow> auth_error + unit" where
  "validate_registration_domain env cfg email =
     (if cf_allowed_registration_domains cfg = [] then Inr ()
      else (case cut (CHR ''@'') email of
              None \<Rightarrow> Inl (AuthFailed ''email domain is invalid'')
            | Some (_, domain) \<Rightarrow>
                if list_ex (equal_fold (ax_fold env) domain) (cf_allowed_registration_domains cfg) then Inr ()
                else Inl (AuthFailed ''email domain is not allowed'')))"

definition new_session_token :: "fresh_values \<Rightarrow> auth_error + string" where
  "new_session_token fr =
     rbind (drawn ''read session token randomness'' (fv_token fr)) (\<lambda>bytes. Inr (encode_to_string url_alphabet bytes))"

definition hash_session_token :: "auth_env \<Rightarrow> string \<Rightarrow> string" where
  "hash_session_token env token = hex_encode (ax_sha env token)"

definition normalize_external_sso_user_id :: "auth_env \<Rightarrow> string \<Rightarrow> auth_error + string" where
  "normalize_external_sso_user_id env subject =
     (let subject = trim_space subject in
      if subject = [] then Inl (AuthFailed ''external sso uid is required'')
      else (case ax_parse_uuid env subject of
              None \<Rightarrow> Inl (AuthFailed ''parse external sso uid'')
            | Some (version, canonical) \<Rightarrow>
                if version \<noteq> 7 then Inl (AuthFailed ''external sso uid must be uuidv7'') else Inr canonical))"

section \<open>Turnstile and throttling\<close>

definition require_turnstile :: "auth_env \<Rightarrow> auth_config \<Rightarrow> string \<Rightarrow> string \<Rightarrow> auth_error + unit" where
  "require_turnstile env cfg token remote_ip =
     (if \<not> cf_turnstile_enabled cfg then Inr ()
      else (case ax_turnstile env token remote_ip of Some e \<Rightarrow> Inl e | None \<Rightarrow> Inr ()))"

definition require_login_turnstile ::
    "auth_env \<Rightarrow> auth_config \<Rightarrow> string \<Rightarrow> string \<Rightarrow> string \<Rightarrow> auth_store \<Rightarrow> auth_error + unit" where
  "require_login_turnstile env cfg email token remote_ip s =
     (if \<not> cf_turnstile_enabled cfg then Inr ()
      else if cf_turnstile_login_mode cfg = ''after_failure'' \<and> lt_failed_count (login_throttle_of email s) = 0
      then Inr ()
      else require_turnstile env cfg token remote_ip)"

definition reject_locked_login :: "time \<Rightarrow> string \<Rightarrow> auth_store \<Rightarrow> auth_error + unit" where
  "reject_locked_login now email s =
     (let throttle = login_throttle_of email s in
      if lt_locked_until throttle > now then Inl (LoginLocked (lt_locked_until throttle - now)) else Inr ())"

text \<open>The loop doubles the duration, \<open>n\<close> times, and stops at the maximum.\<close>

fun double_lock :: "nat \<Rightarrow> int \<Rightarrow> int" where
  "double_lock 0 duration = (if duration > hour then hour else duration)"
| "double_lock (Suc n) duration = (if duration \<ge> hour div 2 then hour else double_lock n (duration * 2))"

definition login_lock_duration :: "int \<Rightarrow> int" where
  "login_lock_duration failed_count =
     (if failed_count \<le> 5 then 0 else double_lock (nat (failed_count - 5 - 1)) minute)"

definition record_failed_login :: "time \<Rightarrow> string \<Rightarrow> unit auth_act" where
  "record_failed_login now email =
     abind (aread (\<lambda>s. Inr (login_throttle_of email s))) (\<lambda>throttle.
     (let count = int64 (lt_failed_count throttle + 1);
          duration = login_lock_duration count
      in store_login_throttle
           \<lparr>lt_email = email, lt_failed_count = count,
            lt_locked_until = (if duration > 0 then now + duration else zero_time), lt_updated_at = now\<rparr>))"

section \<open>Sessions\<close>

definition create_session :: "auth_env \<Rightarrow> auth_config \<Rightarrow> fresh_values \<Rightarrow> time \<Rightarrow> user_record \<Rightarrow> auth_result auth_act" where
  "create_session env cfg fr now rec =
     abind (aread (\<lambda>_. new_session_token fr)) (\<lambda>token.
     (let se = \<lparr>se_id = fv_session_id fr, se_user_id = us_id rec, se_user_email = us_email rec,
                se_status = us_status rec, se_expires_at = now + cf_session_ttl cfg, se_created_at = now\<rparr>
      in abind (store_session (hash_session_token env token) se) (\<lambda>_.
         aret \<lparr>ar_user = user.truncate rec, ar_session = Some se, ar_session_token = token, ar_totp_required = False\<rparr>)))"

definition session_from_token :: "auth_env \<Rightarrow> time \<Rightarrow> string \<Rightarrow> auth_store \<Rightarrow> auth_error + session" where
  "session_from_token env now token s =
     (if token = [] then Inl (AuthFailed ''session token is required'')
      else rbind (session_by_token_hash (hash_session_token env token) s) (\<lambda>se.
        if \<not> se_expires_at se > now then Inl (AuthFailed ''session expired'') else Inr se))"

definition logout :: "auth_env \<Rightarrow> string \<Rightarrow> unit auth_act" where
  "logout env token = (if token = [] then aret () else delete_session (hash_session_token env token))"

definition logout_all :: "string \<Rightarrow> unit auth_act" where
  "logout_all user_id =
     (let user_id = trim_space user_id in
      if user_id = [] then afail ErrInvalidCredentials else delete_sessions_by_user user_id)"

text \<open>\<open>ContextWithSession\<close>: the identity a session gives to a request.\<close>

definition session_actor :: "session \<Rightarrow> auth_actor" where
  "session_actor se = \<lparr>aa_user_id = se_user_id se, aa_email = se_user_email se, aa_status = se_status se\<rparr>"

section \<open>TOTP codes\<close>

definition totp_validity_window :: int where
  "totp_validity_window = 30 * (2 * 1 + 1) * second"

definition totp_secret_aad :: "string \<Rightarrow> string" where
  "totp_secret_aad user_id = ''auth.totp:'' @ trim_space user_id"

definition encrypt_totp_secret :: "auth_env \<Rightarrow> ring option \<Rightarrow> randomness \<Rightarrow> secret_transform" where
  "encrypt_totp_secret env keys rnd user_id secret =
     (let secret = trim_space secret in
      if secret = [] \<or> keys = None \<or> is_encrypted secret then Inr secret
      else failed (encrypt (ax_seal env) rnd keys secret (totp_secret_aad user_id)))"

definition decrypt_totp_secret :: "auth_env \<Rightarrow> ring option \<Rightarrow> secret_transform" where
  "decrypt_totp_secret env keys user_id secret =
     (let secret = trim_space secret in
      if secret = [] \<or> \<not> is_encrypted secret then Inr secret
      else if keys = None then Inl (AuthFailed ''totp keyring is not configured'')
      else failed (decrypt (ax_unseal env) keys secret (totp_secret_aad user_id)))"

definition validate_totp_value :: "auth_env \<Rightarrow> time \<Rightarrow> string \<Rightarrow> string \<Rightarrow> auth_error + unit" where
  "validate_totp_value env now secret code =
     rbind (ax_validate_totp env (trim_space code) secret now) (\<lambda>ok. if ok then Inr () else Inl ErrInvalidCredentials)"

definition hash_totp_code :: "auth_env \<Rightarrow> string \<Rightarrow> string \<Rightarrow> string" where
  "hash_totp_code env user_id code = hex_encode (ax_sha env (user_id @ [CHR 0x00] @ trim_space code))"

definition below_max_failures :: "string \<Rightarrow> auth_store \<Rightarrow> auth_error + unit" where
  "below_max_failures user_id s = (if failed_totp_count user_id s \<ge> 5 then Inl ErrInvalidCredentials else Inr ())"

definition verify_totp_code :: "auth_env \<Rightarrow> auth_config \<Rightarrow> time \<Rightarrow> user_record \<Rightarrow> string \<Rightarrow> unit auth_act" where
  "verify_totp_code env cfg now rec code =
     abind (aread (below_max_failures (us_id rec))) (\<lambda>_.
     (let code_hash = hash_totp_code env (us_id rec) code in
      abind (totp_replay_exists (us_id rec) code_hash now) (\<lambda>replayed.
      if replayed then abind (increment_failed_totp (us_id rec)) (\<lambda>_. afail ErrInvalidCredentials)
      else abind (aread (\<lambda>_. decrypt_totp_secret env (cf_totp_keyring cfg) (us_id rec) (ur_totp_secret rec))) (\<lambda>secret.
        (case validate_totp_value env now secret code of
           Inl err \<Rightarrow> abind (increment_failed_totp (us_id rec)) (\<lambda>_. afail err)
         | Inr _ \<Rightarrow>
             (let retention = (if cf_totp_replay_cache_duration cfg < totp_validity_window
                               then totp_validity_window else cf_totp_replay_cache_duration cfg)
              in abind (store_totp_replay (us_id rec) code_hash (now + retention)) (\<lambda>_.
                 reset_failed_totp (us_id rec))))))))"

section \<open>Registration and login\<close>

definition register :: "auth_env \<Rightarrow> auth_config \<Rightarrow> fresh_values \<Rightarrow> time \<Rightarrow> register_request \<Rightarrow> user auth_act" where
  "register env cfg fr now request =
     abind (aguard (cf_email_register_enabled cfg) (AuthFailed ''email registration is disabled'')) (\<lambda>_.
     abind (aread (\<lambda>_. require_turnstile env cfg (rg_turnstile_token request) (rg_remote_ip request))) (\<lambda>_.
     abind (aread (\<lambda>_. normalize_email env (rg_email request))) (\<lambda>email.
     abind (aread (\<lambda>_. validate_registration_domain env cfg email)) (\<lambda>_.
     abind (aread (\<lambda>_. failed (hash_password (ax_argon2 env) (fv_salt fr) (rg_password request)))) (\<lambda>password_hash.
     abind (aread (\<lambda>_. drawn ''generate user uid'' (fv_user_id fr))) (\<lambda>user_id.
     abind (create_user
       \<lparr>us_id = user_id, us_email = email,
        us_status = (if cf_email_verification_required cfg then UserStatusPendingVerification else UserStatusActive),
        us_email_verified = (\<not> cf_email_verification_required cfg), us_totp_enabled = False,
        us_base_currency = default_base_currency, us_created_at = now, us_updated_at = now,
        ur_password_hash = password_hash, ur_totp_secret = [], ur_external_sso_subject = []\<rparr>) (\<lambda>created.
     aret (user.truncate created))))))))"

definition login :: "auth_env \<Rightarrow> auth_config \<Rightarrow> fresh_values \<Rightarrow> time \<Rightarrow> login_request \<Rightarrow> auth_result auth_act" where
  "login env cfg fr now request =
     abind (aguard (cf_email_login_enabled cfg) (AuthFailed ''email login is disabled'')) (\<lambda>_.
     abind (aread (\<lambda>_. or_error ErrInvalidCredentials (normalize_email env (lg_email request)))) (\<lambda>email.
     abind (aread (reject_locked_login now email)) (\<lambda>_.
     abind (aread (require_login_turnstile env cfg email (lg_turnstile_token request) (lg_remote_ip request))) (\<lambda>_.
     aif_found (user_by_email email)
       (\<lambda>rec.
          abind (aread (\<lambda>_. failed (verify_password (ax_argon2 env) (ax_pbkdf2 env) (lg_password request)
                   (ur_password_hash rec)))) (\<lambda>matched.
          if \<not> matched \<or> us_status rec \<noteq> UserStatusActive
          then abind (record_failed_login now email) (\<lambda>_. afail ErrInvalidCredentials)
          else if us_totp_enabled rec \<and> cf_totp_enabled cfg \<and> trim_space (lg_totp_code request) = []
          then abind (reset_login_throttle email) (\<lambda>_.
            aret \<lparr>ar_user = user.truncate rec, ar_session = None, ar_session_token = [], ar_totp_required = True\<rparr>)
          else abind (if us_totp_enabled rec \<and> cf_totp_enabled cfg
                      then verify_totp_code env cfg now rec (lg_totp_code request) else aret ()) (\<lambda>_.
            abind (aread (\<lambda>_. failed (needs_password_rehash (ur_password_hash rec)))) (\<lambda>needs_rehash.
            abind (if needs_rehash
                   then abind (aread (\<lambda>_. failed (hash_password (ax_argon2 env) (fv_salt fr) (lg_password request)))) (\<lambda>password_hash.
                     update_user (rec\<lparr>ur_password_hash := password_hash, us_updated_at := now\<rparr>))
                   else aret rec) (\<lambda>rec.
            abind (create_session env cfg fr now rec) (\<lambda>result.
            abind (reset_login_throttle email) (\<lambda>_. aret result)))))))
       (abind (record_failed_login now email) (\<lambda>_. afail ErrInvalidCredentials))))))"

section \<open>External sign-on\<close>

definition create_external_sso_session ::
    "auth_env \<Rightarrow> auth_config \<Rightarrow> fresh_values \<Rightarrow> time \<Rightarrow> user_record \<Rightarrow> string \<Rightarrow> auth_result auth_act" where
  "create_external_sso_session env cfg fr now rec sso_user_id =
     abind (aguard (us_status rec = UserStatusActive) ErrInvalidCredentials) (\<lambda>_.
     (let subject = trim_space (ur_external_sso_subject rec) in
      if subject = [] then
        abind (update_user (rec\<lparr>ur_external_sso_subject := sso_user_id, us_updated_at := now\<rparr>)) (\<lambda>rec.
        create_session env cfg fr now rec)
      else if subject = sso_user_id then create_session env cfg fr now rec
      else afail ErrInvalidCredentials))"

text \<open>\<open>validator\<close> is the answer of the configured validator for the token, \<open>None\<close> without one.\<close>

definition login_with_external_sso ::
    "auth_env \<Rightarrow> auth_config \<Rightarrow> fresh_values \<Rightarrow> time \<Rightarrow> (auth_error + external_sso_identity) option \<Rightarrow> auth_result auth_act" where
  "login_with_external_sso env cfg fr now validator =
     abind (aguard (cf_external_sso_enabled cfg) (AuthFailed ''external sso login is disabled'')) (\<lambda>_.
     abind (aread (\<lambda>_. case validator of
              None \<Rightarrow> Inl (AuthFailed ''external sso validator is not configured'') | Some answer \<Rightarrow> answer)) (\<lambda>identity.
     abind (aread (\<lambda>_. normalize_email env (si_username identity))) (\<lambda>email.
     abind (aread (\<lambda>_. normalize_external_sso_user_id env (si_subject identity))) (\<lambda>sso_user_id.
     aif_found (user_by_id sso_user_id)
       (\<lambda>rec. create_external_sso_session env cfg fr now rec sso_user_id)
       (aif_found (user_by_email email)
          (\<lambda>rec. create_external_sso_session env cfg fr now rec sso_user_id)
          (abind (aguard (cf_external_sso_auto_provision cfg) (AuthFailed ''user not found'')) (\<lambda>_.
           abind (create_user
             \<lparr>us_id = sso_user_id, us_email = email, us_status = UserStatusActive, us_email_verified = True,
              us_totp_enabled = False, us_base_currency = default_base_currency, us_created_at = now,
              us_updated_at = now, ur_password_hash = [], ur_totp_secret = [],
              ur_external_sso_subject = sso_user_id\<rparr>) (\<lambda>created.
           create_session env cfg fr now created))))))))"

section \<open>Profiles\<close>

definition user_profile :: "auth_actor \<Rightarrow> auth_store \<Rightarrow> auth_error + user" where
  "user_profile actor s =
     (if trim_space (aa_user_id actor) = [] then Inl (AuthFailed ''actor user id is required'')
      else rbind (user_by_id (aa_user_id actor) s) (\<lambda>rec. Inr (user.truncate rec)))"

definition update_user_profile :: "time \<Rightarrow> update_user_profile_request \<Rightarrow> user auth_act" where
  "update_user_profile now request =
     abind (aguard (trim_space (aa_user_id (pr_actor request)) \<noteq> []) (AuthFailed ''actor user id is required'')) (\<lambda>_.
     abind (aread (\<lambda>_. drawn ''profile update field is required'' (pr_base_currency request))) (\<lambda>v.
     abind (aread (\<lambda>_. normalize_base_currency v)) (\<lambda>base_currency.
     abind (aread (user_by_id (aa_user_id (pr_actor request)))) (\<lambda>rec.
     abind (update_user (rec\<lparr>us_base_currency := base_currency, us_updated_at := now\<rparr>)) (\<lambda>updated.
     aret (user.truncate updated))))))"

definition resolve_user :: "auth_env \<Rightarrow> resolve_user_request \<Rightarrow> auth_store \<Rightarrow> auth_error + user" where
  "resolve_user env request s =
     rbind (if trim_space (rs_user_id request) \<noteq> [] then user_by_id (trim_space (rs_user_id request)) s
            else if trim_space (rs_email request) \<noteq> []
            then rbind (normalize_email env (rs_email request)) (\<lambda>email. user_by_email email s)
            else Inl (AuthFailed ''user id or email is required'')) (\<lambda>rec.
       if us_status rec \<noteq> UserStatusActive then Inl (AuthFailed ''user is not active'')
       else Inr (user.truncate rec))"

end
