(* ===== verification/Auth_Codes.thy ===== *)
theory Auth_Codes
  imports Auth_Service
begin

text \<open>
  One-time codes sent by email (\<open>auth/email_codes.go\<close>) and the second factor (\<open>auth/totp.go\<close>): requesting and
  confirming them. \<open>sent\<close> is the answer of the email sender, \<open>generated\<close> the key and URL of the TOTP library.
\<close>

section \<open>Email codes\<close>

definition new_email_code :: "fresh_values \<Rightarrow> auth_error + string" where
  "new_email_code fr =
     rbind (drawn ''read email code randomness'' (fv_code fr)) (\<lambda>n. Inr (pad_zeros 6 (print_nat n)))"

definition hash_email_code :: "auth_env \<Rightarrow> string \<Rightarrow> email_code_purpose \<Rightarrow> string \<Rightarrow> string" where
  "hash_email_code env email purpose code =
     hex_encode (ax_sha env (email @ [CHR 0x00] @ purpose_string purpose @ [CHR 0x00] @ trim_space code))"

definition create_email_code ::
    "auth_env \<Rightarrow> auth_config \<Rightarrow> fresh_values \<Rightarrow> time \<Rightarrow> string \<Rightarrow> email_code_purpose \<Rightarrow> email_code_delivery auth_act" where
  "create_email_code env cfg fr now email purpose =
     abind (aread (\<lambda>_. new_email_code fr)) (\<lambda>code.
     abind (store_email_code
       \<lparr>ec_email = email, ec_purpose = purpose, ec_code_hash = hash_email_code env email purpose code,
        ec_expires_at = now + cf_email_verification_ttl cfg, ec_created_at = now, ec_used_at = None, ec_attempts = 0\<rparr>) (\<lambda>_.
     aret \<lparr>ed_email = email, ed_code = code, ed_user = None, ed_expires_at = now + cf_email_verification_ttl cfg\<rparr>))"

text \<open>The answer for addresses that get no code; it looks the same.\<close>

definition silent_delivery :: "auth_config \<Rightarrow> time \<Rightarrow> string \<Rightarrow> email_code_delivery" where
  "silent_delivery cfg now email =
     \<lparr>ed_email = email, ed_code = [], ed_user = None, ed_expires_at = now + cf_email_verification_ttl cfg\<rparr>"

definition send_auth_code :: "auth_error option \<Rightarrow> email_code_delivery \<Rightarrow> email_code_delivery auth_act" where
  "send_auth_code sent delivery = (case sent of Some e \<Rightarrow> afail e | None \<Rightarrow> aret delivery)"

definition request_email_verification ::
    "auth_env \<Rightarrow> auth_config \<Rightarrow> fresh_values \<Rightarrow> time \<Rightarrow> auth_error option \<Rightarrow> string \<Rightarrow> email_code_delivery auth_act" where
  "request_email_verification env cfg fr now sent email =
     abind (aread (\<lambda>_. normalize_email env email)) (\<lambda>email.
     aif_found (user_by_email email)
       (\<lambda>rec.
          if us_email_verified rec \<and> us_status rec = UserStatusActive then aret (silent_delivery cfg now email)
          else abind (create_email_code env cfg fr now email EmailCodePurposeVerification) (\<lambda>delivery.
            send_auth_code sent (delivery\<lparr>ed_user := Some (user.truncate rec)\<rparr>)))
       (aret (silent_delivery cfg now email)))"

definition request_password_reset ::
    "auth_env \<Rightarrow> auth_config \<Rightarrow> fresh_values \<Rightarrow> time \<Rightarrow> auth_error option \<Rightarrow> string \<Rightarrow> email_code_delivery auth_act" where
  "request_password_reset env cfg fr now sent email =
     abind (aread (\<lambda>_. normalize_email env email)) (\<lambda>email.
     aif_found (user_by_email email)
       (\<lambda>rec.
          if us_status rec \<noteq> UserStatusActive then aret (silent_delivery cfg now email)
          else abind (create_email_code env cfg fr now email EmailCodePurposePasswordReset) (\<lambda>delivery.
            send_auth_code sent (delivery\<lparr>ed_user := Some (user.truncate rec)\<rparr>)))
       (aret (silent_delivery cfg now email)))"

definition consume_email_code ::
    "auth_env \<Rightarrow> time \<Rightarrow> string \<Rightarrow> email_code_purpose \<Rightarrow> string \<Rightarrow> unit auth_act" where
  "consume_email_code env now email purpose code =
     abind (aguard (trim_space code \<noteq> []) ErrInvalidCredentials) (\<lambda>_.
     abind (aread (\<lambda>s. or_error ErrInvalidCredentials (email_code email purpose s))) (\<lambda>rec.
     if \<not> ec_expires_at rec > now
     then abind (delete_email_code email purpose) (\<lambda>_. afail ErrInvalidCredentials)
     else if hash_email_code env email purpose code \<noteq> ec_code_hash rec
     then (let rec = rec\<lparr>ec_attempts := int64 (ec_attempts rec + 1)\<rparr> in
           abind (if ec_attempts rec \<ge> 5 then delete_email_code email purpose else store_email_code rec) (\<lambda>_.
           afail ErrInvalidCredentials))
     else delete_email_code email purpose))"

definition confirm_email_verification :: "auth_env \<Rightarrow> time \<Rightarrow> string \<Rightarrow> string \<Rightarrow> user auth_act" where
  "confirm_email_verification env now email code =
     abind (aread (\<lambda>_. or_error ErrInvalidCredentials (normalize_email env email))) (\<lambda>email.
     abind (consume_email_code env now email EmailCodePurposeVerification code) (\<lambda>_.
     abind (aread (\<lambda>s. or_error ErrInvalidCredentials (user_by_email email s))) (\<lambda>rec.
     abind (update_user (rec\<lparr>us_email_verified := True, us_status := UserStatusActive, us_updated_at := now\<rparr>)) (\<lambda>updated.
     aret (user.truncate updated)))))"

definition confirm_password_reset ::
    "auth_env \<Rightarrow> fresh_values \<Rightarrow> time \<Rightarrow> string \<Rightarrow> string \<Rightarrow> string \<Rightarrow> user auth_act" where
  "confirm_password_reset env fr now email code new_password =
     abind (aread (\<lambda>_. or_error ErrInvalidCredentials (normalize_email env email))) (\<lambda>email.
     abind (aread (\<lambda>_. failed (hash_password (ax_argon2 env) (fv_salt fr) new_password))) (\<lambda>password_hash.
     abind (consume_email_code env now email EmailCodePurposePasswordReset code) (\<lambda>_.
     abind (aread (\<lambda>s. or_error ErrInvalidCredentials (user_by_email email s))) (\<lambda>rec.
     abind (aguard (us_status rec = UserStatusActive) ErrInvalidCredentials) (\<lambda>_.
     abind (update_user (rec\<lparr>ur_password_hash := password_hash, us_updated_at := now\<rparr>)) (\<lambda>updated.
     abind (reset_login_throttle email) (\<lambda>_.
     abind (delete_sessions_by_user (us_id updated)) (\<lambda>_.
     aret (user.truncate updated)))))))))"

section \<open>TOTP\<close>

text \<open>The status of a user is whether TOTP is on.\<close>

definition totp_status :: "auth_config \<Rightarrow> auth_actor \<Rightarrow> auth_store \<Rightarrow> auth_error + bool" where
  "totp_status cfg actor s =
     (if aa_user_id actor = [] then Inl ErrInvalidCredentials
      else if \<not> cf_totp_enabled cfg then Inr False
      else rbind (user_by_id (aa_user_id actor) s) (\<lambda>rec. Inr (us_totp_enabled rec)))"

definition setup_totp ::
    "auth_env \<Rightarrow> auth_config \<Rightarrow> fresh_values \<Rightarrow> time \<Rightarrow> auth_error + string \<times> string \<Rightarrow> auth_actor \<Rightarrow> session \<Rightarrow> totp_setup auth_act" where
  "setup_totp env cfg fr now generated actor se =
     abind (aguard (cf_totp_enabled cfg) (AuthFailed ''totp is disabled'')) (\<lambda>_.
     abind (aguard (aa_user_id actor \<noteq> [] \<and> se_id se \<noteq> []) ErrInvalidCredentials) (\<lambda>_.
     abind (aread (user_by_id (aa_user_id actor))) (\<lambda>rec.
     abind (aread (\<lambda>_. generated)) (\<lambda>(secret, url).
     abind (aread (\<lambda>_. encrypt_totp_secret env (cf_totp_keyring cfg) (fv_cipher fr) (aa_user_id actor) secret)) (\<lambda>stored.
     abind (store_pending_totp_setup (se_id se)
       \<lparr>pt_user_id = aa_user_id actor, pt_secret = stored, pt_otpauth = url, pt_expires_at = now + 10 * minute,
        pt_created_at = now\<rparr>) (\<lambda>_.
     aret \<lparr>ts_secret = secret, ts_otpauth = url, ts_expires_at = now + 10 * minute\<rparr>))))))"

definition confirm_totp ::
    "auth_env \<Rightarrow> auth_config \<Rightarrow> fresh_values \<Rightarrow> time \<Rightarrow> auth_actor \<Rightarrow> session \<Rightarrow> string \<Rightarrow> bool auth_act" where
  "confirm_totp env cfg fr now actor se code =
     abind (aguard (cf_totp_enabled cfg) (AuthFailed ''totp is disabled'')) (\<lambda>_.
     abind (aguard (aa_user_id actor \<noteq> [] \<and> se_id se \<noteq> []) ErrInvalidCredentials) (\<lambda>_.
     abind (aread (\<lambda>s. or_error ErrInvalidCredentials (find_pending_totp_setup (se_id se) s))) (\<lambda>setup.
     if pt_user_id setup \<noteq> aa_user_id actor \<or> \<not> pt_expires_at setup > now
     then abind (delete_pending_totp_setup (se_id se)) (\<lambda>_. afail ErrInvalidCredentials)
     else
       abind (aread (below_max_failures (aa_user_id actor))) (\<lambda>_.
       abind (aread (\<lambda>_. decrypt_totp_secret env (cf_totp_keyring cfg) (pt_user_id setup) (pt_secret setup))) (\<lambda>secret.
       (case validate_totp_value env now secret code of
          Inl err \<Rightarrow> abind (increment_failed_totp (aa_user_id actor)) (\<lambda>_. afail err)
        | Inr _ \<Rightarrow>
            abind (aread (user_by_id (aa_user_id actor))) (\<lambda>rec.
            abind (aread (\<lambda>_. encrypt_totp_secret env (cf_totp_keyring cfg) (fv_cipher fr) (us_id rec) secret)) (\<lambda>stored.
            abind (update_user (rec\<lparr>us_totp_enabled := True, ur_totp_secret := stored, us_updated_at := now\<rparr>)) (\<lambda>_.
            abind (delete_pending_totp_setup (se_id se)) (\<lambda>_.
            abind (reset_failed_totp (aa_user_id actor)) (\<lambda>_. aret True)))))))))))"

definition disable_totp :: "auth_env \<Rightarrow> auth_config \<Rightarrow> time \<Rightarrow> auth_actor \<Rightarrow> string \<Rightarrow> bool auth_act" where
  "disable_totp env cfg now actor code =
     abind (aguard (cf_totp_enabled cfg) (AuthFailed ''totp is disabled'')) (\<lambda>_.
     abind (aguard (aa_user_id actor \<noteq> []) ErrInvalidCredentials) (\<lambda>_.
     abind (aread (user_by_id (aa_user_id actor))) (\<lambda>rec.
     if \<not> us_totp_enabled rec then aret False
     else
       abind (verify_totp_code env cfg now rec code) (\<lambda>_.
       abind (update_user (rec\<lparr>us_totp_enabled := False, ur_totp_secret := [], us_updated_at := now\<rparr>)) (\<lambda>_.
       abind (delete_sessions_by_user (us_id rec)) (\<lambda>_. aret False))))))"

text \<open>Every secret is encrypted with randomness of its own.\<close>

definition migrate_totp_secrets :: "auth_env \<Rightarrow> auth_config \<Rightarrow> (string \<Rightarrow> string \<Rightarrow> randomness) \<Rightarrow> unit auth_act" where
  "migrate_totp_secrets env cfg rnd =
     (if cf_totp_keyring cfg = None then aret ()
      else migrate_secrets (\<lambda>user_id secret. encrypt_totp_secret env (cf_totp_keyring cfg) (rnd user_id secret) user_id secret))"

end
