(* ===== verification/Auth_Passkeys.thy ===== *)
theory Auth_Passkeys
  imports Auth_Codes Pagination
begin

text \<open>
  Passkeys (\<open>auth/passkeys.go\<close>): the two ceremonies of registration and login, and the management of the
  stored credentials. The WebAuthn library is the record \<open>webauthn_env\<close>: what it answers to a beginning, the
  credential it finds in a registration response, the credential id and user handle it reads from a login
  response, and the check of that response against the credentials of the user.
\<close>

section \<open>The library\<close>

record passkey_user =
  pu_user :: user
  pu_credentials :: "webauthn_credential list"

record webauthn_env =
  we_new :: "auth_error option"
  we_begin_registration :: "passkey_user \<Rightarrow> auth_error + string \<times> webauthn_session"
  we_finish_registration :: "passkey_user \<Rightarrow> webauthn_session \<Rightarrow> string \<Rightarrow> auth_error + webauthn_credential"
  we_begin_login :: "auth_error + string \<times> webauthn_session"
  we_parse_login :: "string \<Rightarrow> auth_error + string \<times> string"
  we_validate_login :: "passkey_user \<Rightarrow> webauthn_session \<Rightarrow> string \<Rightarrow> auth_error + webauthn_credential"

definition passkey_web_authn :: "webauthn_env \<Rightarrow> auth_config \<Rightarrow> auth_error + unit" where
  "passkey_web_authn wa cfg =
     (if \<not> cf_passkey_enabled cfg then Inl (AuthFailed ''passkeys are disabled'')
      else (case we_new wa of Some e \<Rightarrow> Inl e | None \<Rightarrow> Inr ()))"

definition load_passkey_user :: "user_record \<Rightarrow> auth_store \<Rightarrow> passkey_user" where
  "load_passkey_user rec s =
     \<lparr>pu_user = user.truncate rec, pu_credentials = map pk_credential (store_list_passkeys (us_id rec) s)\<rparr>"

text \<open>A deferred call runs whatever happened, and its own result is dropped.\<close>

definition adefer :: "('s, 'e, 'b) act \<Rightarrow> ('s, 'e, 'a) act \<Rightarrow> ('s, 'e, 'a) act" where
  "adefer later m s = (case m s of (r, t) \<Rightarrow> (r, snd (later t)))"

section \<open>Labels and records\<close>

definition normalize_passkey_label :: "string \<Rightarrow> auth_error + string" where
  "normalize_passkey_label label =
     (let label = trim_space label in
      if label = [] then Inl (AuthFailed ''passkey label is required'')
      else if length label > 80 then Inl (AuthFailed ''passkey label is too long'')
      else Inr label)"

definition default_passkey_label :: "string \<Rightarrow> string" where
  "default_passkey_label label =
     (let label = trim_space label in if label = [] \<or> length label > 80 then ''Passkey'' else label)"

definition refresh_passkey_from_credential ::
    "passkey_credential \<Rightarrow> webauthn_credential \<Rightarrow> time \<Rightarrow> passkey_credential" where
  "refresh_passkey_from_credential p c now =
     p\<lparr>pk_credential := c, pk_credential_id := wc_id c, pk_public_key := wc_public_key c,
       pk_sign_count := wc_sign_count c, pk_backup_eligible := wc_backup_eligible c,
       pk_backup_state := wc_backup_state c, pk_aaguid := wc_aaguid c, pk_attestation_type := wc_attestation_type c,
       pk_attestation_format := wc_attestation_format c, pk_attachment := wc_attachment c,
       pk_transports := wc_transport c, pk_last_used_at := Some now, pk_updated_at := now\<rparr>"

text \<open>\<open>new_id\<close> is the fresh UUID.\<close>

definition passkey_from_credential ::
    "string \<Rightarrow> string \<Rightarrow> string \<Rightarrow> webauthn_credential \<Rightarrow> time \<Rightarrow> passkey_credential" where
  "passkey_from_credential new_id user_id label c now =
     (refresh_passkey_from_credential
        (zero_passkey\<lparr>pk_id := new_id, pk_user_id := user_id, pk_label := default_passkey_label label,
           pk_credential := c, pk_created_at := now, pk_updated_at := now\<rparr>) c now)\<lparr>pk_last_used_at := None\<rparr>"

definition make_passkey_list_item :: "passkey_credential \<Rightarrow> passkey_list_item" where
  "make_passkey_list_item p =
     \<lparr>pi_id = pk_id p, pi_label = pk_label p, pi_transports = pk_transports p, pi_backup_eligible = pk_backup_eligible p,
      pi_backup_state = pk_backup_state p, pi_sign_count = pk_sign_count p, pi_created_at = pk_created_at p,
      pi_updated_at = pk_updated_at p, pi_last_used_at = pk_last_used_at p\<rparr>"

section \<open>Registration\<close>

definition begin_passkey_registration ::
    "webauthn_env \<Rightarrow> auth_config \<Rightarrow> fresh_values \<Rightarrow> time \<Rightarrow> auth_actor \<Rightarrow> (string \<times> string) auth_act" where
  "begin_passkey_registration wa cfg fr now actor =
     abind (aread (\<lambda>_. passkey_web_authn wa cfg)) (\<lambda>_.
     abind (aread (user_by_id (aa_user_id actor))) (\<lambda>rec.
     abind (aguard (us_status rec = UserStatusActive) ErrInvalidCredentials) (\<lambda>_.
     abind (aread (\<lambda>s. Inr (load_passkey_user rec s))) (\<lambda>u.
     abind (aread (\<lambda>_. we_begin_registration wa u)) (\<lambda>(options, se).
     abind (aread (\<lambda>_. new_session_token fr)) (\<lambda>flow_id.
     abind (store_passkey_ceremony
       \<lparr>pc_id = flow_id, pc_user_id = us_id rec, pc_type = PasskeyCeremonyRegistration, pc_session = se,
        pc_created_at = now, pc_expires_at = ws_expires se\<rparr>) (\<lambda>_.
     aret (flow_id, options))))))))"

definition finish_passkey_registration ::
    "webauthn_env \<Rightarrow> auth_config \<Rightarrow> string \<Rightarrow> time \<Rightarrow> auth_actor \<Rightarrow> string \<Rightarrow> string \<Rightarrow> string \<Rightarrow> passkey_list_item auth_act" where
  "finish_passkey_registration wa cfg new_id now actor flow_id label credential_json =
     abind (aread (\<lambda>_. passkey_web_authn wa cfg)) (\<lambda>_.
     abind (aguard (credential_json \<noteq> []) (AuthFailed ''passkey credential response is required'')) (\<lambda>_.
     abind (aread (find_passkey_ceremony flow_id)) (\<lambda>ceremony.
     adefer (delete_passkey_ceremony flow_id) (
       abind (aguard (pc_type ceremony = PasskeyCeremonyRegistration \<and> pc_user_id ceremony = aa_user_id actor)
                ErrInvalidCredentials) (\<lambda>_.
       abind (aguard (pc_expires_at ceremony > now) (AuthFailed ''passkey registration ceremony expired'')) (\<lambda>_.
       abind (aread (user_by_id (aa_user_id actor))) (\<lambda>rec.
       abind (aread (\<lambda>s. we_finish_registration wa (load_passkey_user rec s) (pc_session ceremony) credential_json)) (\<lambda>c.
       abind (create_passkey (passkey_from_credential new_id (us_id rec) label c now)) (\<lambda>stored.
       aret (make_passkey_list_item stored))))))))))"

section \<open>Login\<close>

definition begin_passkey_login :: "webauthn_env \<Rightarrow> auth_config \<Rightarrow> fresh_values \<Rightarrow> time \<Rightarrow> (string \<times> string) auth_act" where
  "begin_passkey_login wa cfg fr now =
     abind (aread (\<lambda>_. passkey_web_authn wa cfg)) (\<lambda>_.
     abind (aread (\<lambda>_. we_begin_login wa)) (\<lambda>(options, se).
     abind (aread (\<lambda>_. new_session_token fr)) (\<lambda>flow_id.
     abind (store_passkey_ceremony
       \<lparr>pc_id = flow_id, pc_user_id = [], pc_type = PasskeyCeremonyLogin, pc_session = se,
        pc_created_at = now, pc_expires_at = ws_expires se\<rparr>) (\<lambda>_.
     aret (flow_id, options)))))"

text \<open>The handler that the library calls to find the user of a credential.\<close>

definition passkey_login_handler :: "string \<Rightarrow> string \<Rightarrow> auth_store \<Rightarrow> auth_error + user_record" where
  "passkey_login_handler raw_id user_handle s =
     rbind (or_error ErrInvalidCredentials (passkey_by_credential_id raw_id s)) (\<lambda>p.
     rbind (rguard (pk_user_id p = user_handle) ErrInvalidCredentials) (\<lambda>_.
     rbind (or_error ErrInvalidCredentials (user_by_id (pk_user_id p) s)) (\<lambda>rec.
     rbind (rguard (us_status rec = UserStatusActive) ErrInvalidCredentials) (\<lambda>_.
     Inr rec))))"

definition finish_passkey_login ::
    "auth_env \<Rightarrow> webauthn_env \<Rightarrow> auth_config \<Rightarrow> fresh_values \<Rightarrow> time \<Rightarrow> string \<Rightarrow> string \<Rightarrow> auth_result auth_act" where
  "finish_passkey_login env wa cfg fr now flow_id credential_json =
     abind (aread (\<lambda>_. passkey_web_authn wa cfg)) (\<lambda>_.
     abind (aguard (credential_json \<noteq> []) (AuthFailed ''passkey credential response is required'')) (\<lambda>_.
     abind (aread (find_passkey_ceremony flow_id)) (\<lambda>ceremony.
     adefer (delete_passkey_ceremony flow_id) (
       abind (aguard (pc_type ceremony = PasskeyCeremonyLogin) ErrInvalidCredentials) (\<lambda>_.
       abind (aguard (pc_expires_at ceremony > now) (AuthFailed ''passkey login ceremony expired'')) (\<lambda>_.
       abind (aread (\<lambda>_. we_parse_login wa credential_json)) (\<lambda>(raw_id, user_handle).
       abind (aread (passkey_login_handler raw_id user_handle)) (\<lambda>rec.
       abind (aread (\<lambda>s. we_validate_login wa (load_passkey_user rec s) (pc_session ceremony) credential_json)) (\<lambda>c.
       abind (aread (passkey_by_credential_id (wc_id c))) (\<lambda>p.
       abind (store_update_passkey (refresh_passkey_from_credential p c now)) (\<lambda>_.
       abind (create_session env cfg fr now rec) (\<lambda>result.
       abind (reset_login_throttle (us_email rec)) (\<lambda>_.
       aret result)))))))))))))"

section \<open>Management\<close>

text \<open>\<open>sort.Slice\<close> leaves credentials of one instant in any order; here they keep that of the map.\<close>

definition list_passkeys ::
    "webauthn_env \<Rightarrow> auth_config \<Rightarrow> auth_actor \<Rightarrow> int \<Rightarrow> int \<Rightarrow> auth_store \<Rightarrow> auth_error + passkey_list_item page" where
  "list_passkeys wa cfg actor page page_size s =
     rbind (passkey_web_authn wa cfg) (\<lambda>_.
     (let items = map make_passkey_list_item (store_list_passkeys (aa_user_id actor) s);
          items = sort_func (\<lambda>a b. pi_created_at a - pi_created_at b) items
      in page_or AuthPanic (paginate items page page_size)))"

definition update_passkey ::
    "webauthn_env \<Rightarrow> auth_config \<Rightarrow> time \<Rightarrow> auth_actor \<Rightarrow> string \<Rightarrow> string \<Rightarrow> passkey_list_item auth_act" where
  "update_passkey wa cfg now actor passkey_id label =
     abind (aread (\<lambda>_. passkey_web_authn wa cfg)) (\<lambda>_.
     abind (aread (passkey_by_id (aa_user_id actor) passkey_id)) (\<lambda>p.
     abind (aread (\<lambda>_. normalize_passkey_label label)) (\<lambda>label.
     abind (store_update_passkey (p\<lparr>pk_label := label, pk_updated_at := now\<rparr>)) (\<lambda>updated.
     aret (make_passkey_list_item updated)))))"

definition delete_passkey :: "webauthn_env \<Rightarrow> auth_config \<Rightarrow> auth_actor \<Rightarrow> string \<Rightarrow> unit auth_act" where
  "delete_passkey wa cfg actor passkey_id =
     abind (aread (\<lambda>_. passkey_web_authn wa cfg)) (\<lambda>_.
     abind (aguard (trim_space passkey_id \<noteq> []) (AuthFailed ''passkey id is required'')) (\<lambda>_.
     store_delete_passkey (aa_user_id actor) passkey_id))"

end
