(* ===== verification/Auth_Invariant.thy ===== *)
theory Auth_Invariant
  imports Auth_Passkeys
begin

text \<open>
  The invariant of the authentication store and that every handler keeps it: the indexes of users and
  passkeys agree with the rows, every session belongs to an active user, email codes have attempts left.
  The rows of users change in few calls; the others keep any fact \<open>Q\<close> about them.
\<close>

section \<open>The invariant\<close>

definition users_ok :: "(string \<times> user_record) list \<Rightarrow> (string \<times> string) list \<Rightarrow> bool" where
  "users_ok users ids \<longleftrightarrow> keys_ok us_id users \<and>
     (\<forall>e i. map_of ids e = Some i \<longleftrightarrow> (\<exists>u. map_of users i = Some u \<and> us_email u = e)) \<and>
     (\<forall>i u. map_of users i = Some u \<longrightarrow> trim_space (us_base_currency u) \<noteq> [])"

definition sessions_ok :: "(string \<times> user_record) list \<Rightarrow> (string \<times> session) list \<Rightarrow> bool" where
  "sessions_ok users m \<longleftrightarrow> distinct (map fst m) \<and>
     (\<forall>h se. map_of m h = Some se \<longrightarrow> se_status se = UserStatusActive \<and>
        (\<exists>u. map_of users (se_user_id se) = Some u \<and> us_status u = UserStatusActive \<and> us_email u = se_user_email se))"

definition passkeys_ok ::
    "(string \<times> user_record) list \<Rightarrow> (string \<times> passkey_credential) list \<Rightarrow> (string \<times> string) list \<Rightarrow> bool" where
  "passkeys_ok users m ids \<longleftrightarrow> keys_ok pk_id m \<and>
     (\<forall>c i. map_of ids c = Some i \<longleftrightarrow> (\<exists>p. map_of m i = Some p \<and> pk_credential_id p = c)) \<and>
     (\<forall>i p. map_of m i = Some p \<longrightarrow> map_of users (pk_user_id p) \<noteq> None)"

definition codes_ok :: "((string \<times> email_code_purpose) \<times> email_code_record) list \<Rightarrow> bool" where
  "codes_ok m \<longleftrightarrow> keys_ok (\<lambda>c. (ec_email c, ec_purpose c)) m \<and>
     (\<forall>k c. map_of m k = Some c \<longrightarrow> 0 \<le> ec_attempts c \<and> ec_attempts c < 5)"

definition auth_ok :: "auth_store \<Rightarrow> bool" where
  "auth_ok s \<longleftrightarrow> users_ok (users_by_id s) (user_ids_by_email s) \<and> sessions_ok (users_by_id s) (sessions s) \<and>
     passkeys_ok (users_by_id s) (passkeys_by_id s) (passkey_ids_by_credential_id s) \<and>
     codes_ok (email_codes s) \<and> keys_ok lt_email (login_throttles s)"

text \<open>The invariant with a fact about the rows of users.\<close>

definition auth_inv :: "((string \<times> user_record) list \<Rightarrow> bool) \<Rightarrow> auth_store \<Rightarrow> bool" where
  "auth_inv Q s \<longleftrightarrow> auth_ok s \<and> Q (users_by_id s)"

definition has :: "user_record \<Rightarrow> (string \<times> user_record) list \<Rightarrow> bool" where
  "has u users \<longleftrightarrow> map_of users (us_id u) = Some u"

lemma auth_inv_True: "auth_inv (\<lambda>_. True) = auth_ok"
  by (simp add: auth_inv_def fun_eq_iff)

lemma auth_invD: "auth_inv Q s \<Longrightarrow> auth_ok s"
  by (simp add: auth_inv_def)

section \<open>Reading users\<close>

lemma user_by_id_iff: "auth_ok s \<Longrightarrow> user_by_id i s = Inr u \<longleftrightarrow> map_of (users_by_id s) i = Some u"
  by (auto simp: auth_ok_def users_ok_def user_by_id_def clone_user_record_def split: option.splits)

lemma user_by_email_iff:
  assumes "auth_ok s"
  shows "user_by_email e s = Inr u \<longleftrightarrow> map_of (users_by_id s) (us_id u) = Some u \<and> us_email u = e"
proof -
  note ok = assms [unfolded auth_ok_def users_ok_def]
  have id: "us_id x = i" if "map_of (users_by_id s) i = Some x" for i x using ok that by (blast dest: keys_ok_lookup)
  have clone: "clone_user_record x = x" if "map_of (users_by_id s) i = Some x" for i x
    using ok that by (auto simp: clone_user_record_def)
  have index: "map_of (user_ids_by_email s) e = Some i \<longleftrightarrow> (\<exists>x. map_of (users_by_id s) i = Some x \<and> us_email x = e)" for i
    using ok by blast
  show ?thesis
  proof (cases "map_of (user_ids_by_email s) e")
    case None
    then have "\<not> (map_of (users_by_id s) (us_id u) = Some u \<and> us_email u = e)" using index [of "us_id u"] by simp
    then show ?thesis using None by (simp add: user_by_email_def)
  next
    case (Some i)
    then obtain x where x: "map_of (users_by_id s) i = Some x" "us_email x = e" using index [of i] by blast
    have r: "user_by_email e s = Inr x" by (simp add: user_by_email_def Some x(1) clone [OF x(1)])
    have "x = u" if u: "map_of (users_by_id s) (us_id u) = Some u" "us_email u = e"
    proof -
      have "map_of (user_ids_by_email s) e = Some (us_id u)" using index [of "us_id u"] u by simp
      then show ?thesis using Some x(1) u(1) by simp
    qed
    moreover have "map_of (users_by_id s) (us_id x) = Some x" using x(1) id [OF x(1)] by simp
    ultimately show ?thesis using r x(2) by auto
  qed
qed

lemma found_user: "auth_ok s \<Longrightarrow> user_by_id i s = Inr u \<Longrightarrow> auth_inv (has u) s"
  by (auto simp: user_by_id_iff auth_inv_def has_def auth_ok_def users_ok_def dest: keys_ok_lookup)

lemma found_email: "auth_ok s \<Longrightarrow> user_by_email e s = Inr u \<Longrightarrow> auth_inv (has u) s \<and> us_email u = e"
  by (simp add: user_by_email_iff auth_inv_def has_def)

section \<open>Calls that leave the users alone\<close>

lemma distinct_filter_fst: "distinct (map fst m) \<Longrightarrow> distinct (map fst (filter P m))"
  by (induction m) auto

lemma map_of_filter_snd:
  "distinct (map fst m) \<Longrightarrow> map_of (filter (\<lambda>(_, v). P v) m) k = Some v \<longleftrightarrow> map_of m k = Some v \<and> P v"
  by (simp add: map_of_eq_Some_iff distinct_filter_fst)

lemma keeps_sessions:
  "keeps (auth_inv Q) (delete_session h)" "keeps (auth_inv Q) (delete_sessions_by_user i)"
  by (rule keepsI; auto simp: auth_inv_def auth_ok_def sessions_ok_def delete_session_def delete_sessions_by_user_def
      delete_conv' distinct_delete map_of_filter_snd distinct_filter_fst split: if_splits)+

lemma keeps_throttles:
  "keeps (auth_inv Q) (store_login_throttle t)" "keeps (auth_inv Q) (reset_login_throttle e)"
  by (rule keepsI; auto simp: auth_inv_def auth_ok_def store_login_throttle_def reset_login_throttle_def
      keys_ok_update keys_ok_delete split: if_splits)+

lemma keeps_totp:
  "keeps (auth_inv Q) (store_totp_replay i h t)" "keeps (auth_inv Q) (totp_replay_exists i h t)"
  "keeps (auth_inv Q) (increment_failed_totp i)" "keeps (auth_inv Q) (reset_failed_totp i)"
  "keeps (auth_inv Q) (store_pending_totp_setup h p)" "keeps (auth_inv Q) (delete_pending_totp_setup h)"
  "keeps (auth_inv Q) (store_passkey_ceremony c)" "keeps (auth_inv Q) (delete_passkey_ceremony h)"
  by (rule keepsI; auto simp: auth_inv_def auth_ok_def store_totp_replay_def totp_replay_exists_def
      increment_failed_totp_def reset_failed_totp_def store_pending_totp_setup_def delete_pending_totp_setup_def
      store_passkey_ceremony_def delete_passkey_ceremony_def Let_def split: option.splits if_splits)+

lemma codes_ok_update:
  "codes_ok m \<Longrightarrow> 0 \<le> ec_attempts c \<Longrightarrow> ec_attempts c < 5 \<Longrightarrow> codes_ok (AList.update (ec_email c, ec_purpose c) c m)"
  by (auto simp: codes_ok_def keys_ok_update update_conv' split: if_splits)

lemma codes_ok_delete: "codes_ok m \<Longrightarrow> codes_ok (AList.delete k m)"
  by (auto simp: codes_ok_def keys_ok_delete delete_conv' split: if_splits)

lemma keeps_codes:
  "0 \<le> ec_attempts c \<Longrightarrow> ec_attempts c < 5 \<Longrightarrow> keeps (auth_inv Q) (store_email_code c)"
  "keeps (auth_inv Q) (delete_email_code e p)"
  by (rule keepsI; auto simp: auth_inv_def auth_ok_def store_email_code_def delete_email_code_def
      codes_ok_update codes_ok_delete)+

lemma keeps_adefer:
  assumes "keeps P later" and "keeps P m"
  shows "keeps P (adefer later m)"
proof (rule keepsI)
  fix s r t assume "P s" "adefer later m s = (r, t)"
  then obtain u where "m s = (r, u)" "t = snd (later u)" by (auto simp: adefer_def split: prod.splits)
  then show "P t" using keepsD [OF assms(1), of u] keepsD [OF assms(2) \<open>P s\<close>] by (metis prod.collapse)
qed

lemmas keeps_calls = keeps_sessions keeps_throttles keeps_totp keeps_codes(2)

section \<open>Calls that write users\<close>

lemma create_user_triple:
  assumes "trim_space (us_base_currency u) \<noteq> []"
  shows "triple auth_ok (create_user u) (\<lambda>x s. x = u \<and> auth_inv (has u) s) auth_ok"
proof (rule tripleI)
  fix s x t assume ok: "auth_ok s" and run: "create_user u s = (Inr x, t)"
  have clone: "clone_user_record u = u" using assms by (simp add: clone_user_record_def)
  from run have new: "map_of (users_by_id s) (us_id u) = None" "map_of (user_ids_by_email s) (us_email u) = None"
    and x: "x = u" and t: "t = s\<lparr>users_by_id := AList.update (us_id u) u (users_by_id s),
      user_ids_by_email := AList.update (us_email u) (us_id u) (user_ids_by_email s)\<rparr>"
    by (auto simp: create_user_def clone split: if_splits)
  have index: "map_of (user_ids_by_email s) e = Some i \<longleftrightarrow>
      (\<exists>v. map_of (users_by_id s) i = Some v \<and> us_email v = e)" for e i
    using ok by (simp add: auth_ok_def users_ok_def)
  have other: "us_email v \<noteq> us_email u" if "map_of (users_by_id s) i = Some v" for i v
    using index [of "us_email u" i] new(2) that by auto
  have "users_ok (users_by_id t) (user_ids_by_email t)"
    using ok assms other unfolding auth_ok_def users_ok_def t
    by (auto simp: update_conv' keys_ok_update index new split: if_splits)
  moreover have "sessions_ok (users_by_id t) (sessions t)" "passkeys_ok (users_by_id t) (passkeys_by_id t) (passkey_ids_by_credential_id t)"
    using ok new(1) unfolding auth_ok_def sessions_ok_def passkeys_ok_def t
    by (fastforce simp: update_conv')+
  ultimately show "x = u \<and> auth_inv (has u) t"
    using ok x by (simp add: auth_inv_def auth_ok_def has_def t update_conv')
next
  fix s e t assume "auth_ok s" "create_user u s = (Inl e, t)"
  then show "auth_ok t" by (auto simp: create_user_def split: if_splits)
qed

lemma update_user_triple:
  assumes same: "us_id u = us_id old" "us_email u = us_email old"
    and active: "us_status old = UserStatusActive \<longrightarrow> us_status u = UserStatusActive"
    and base: "us_base_currency u = us_base_currency old \<or> trim_space (us_base_currency u) \<noteq> []"
  shows "triple (auth_inv (has old)) (update_user u) (\<lambda>x s. x = u \<and> auth_inv (has u) s) auth_ok"
proof (rule tripleI)
  fix s x t assume inv: "auth_inv (has old) s" and run: "update_user u s = (Inr x, t)"
  have ok: "auth_ok s" and old: "map_of (users_by_id s) (us_id u) = Some old"
    using inv same by (simp_all add: auth_inv_def has_def)
  have b: "trim_space (us_base_currency u) \<noteq> []" using ok old base by (auto simp: auth_ok_def users_ok_def)
  then have clone: "clone_user_record u = u" by (simp add: clone_user_record_def)
  have x: "x = u" and t: "t = s\<lparr>users_by_id := AList.update (us_id u) u (users_by_id s)\<rparr>"
    using run old same by (auto simp: update_user_def clone split: if_splits)
  have "users_ok (users_by_id t) (user_ids_by_email t)"
    using ok b old same unfolding auth_ok_def users_ok_def t by (auto simp: update_conv' keys_ok_update split: if_splits)
  moreover have "sessions_ok (users_by_id t) (sessions t)"
    using ok old active same unfolding auth_ok_def sessions_ok_def t by (fastforce simp: update_conv')
  moreover have "passkeys_ok (users_by_id t) (passkeys_by_id t) (passkey_ids_by_credential_id t)"
    using ok unfolding auth_ok_def passkeys_ok_def t by (auto simp: update_conv')
  ultimately show "x = u \<and> auth_inv (has u) t"
    using ok x by (simp add: auth_inv_def auth_ok_def has_def t update_conv')
next
  fix s e t assume "auth_inv (has old) s" "update_user u s = (Inl e, t)"
  then show "auth_ok t" by (auto simp: update_user_def auth_inv_def split: if_splits option.splits)
qed

lemma create_session_keeps:
  assumes "us_status u = UserStatusActive"
  shows "keeps (auth_inv (has u)) (create_session env cfg fr now u)"
proof (rule keepsI)
  fix s r t assume inv: "auth_inv (has u) s" and run: "create_session env cfg fr now u s = (r, t)"
  show "auth_inv (has u) t"
  proof (cases r)
    case (Inl e)
    then show ?thesis using inv run by (simp add: create_session_def Let_def act_iffs store_session_def)
  next
    case (Inr x)
    then obtain h se where t: "t = s\<lparr>sessions := AList.update h se (sessions s)\<rparr>"
      and se: "se_user_id se = us_id u" "se_user_email se = us_email u" "se_status se = us_status u"
      using run by (auto simp: create_session_def Let_def act_iffs store_session_def)
    have "sessions_ok (users_by_id s) (AList.update h se (sessions s))"
      using inv assms se unfolding auth_inv_def auth_ok_def sessions_ok_def has_def
      by (auto simp: update_conv' distinct_update split: if_splits)
    then show ?thesis using inv by (simp add: t auth_inv_def auth_ok_def)
  qed
qed

section \<open>Passkey rows\<close>

lemma create_passkey_keeps:
  assumes "pk_user_id p = us_id u"
  shows "keeps (auth_inv (has u)) (create_passkey p)"
proof (rule keepsI)
  fix s r t assume inv: "auth_inv (has u) s" and run: "create_passkey p s = (r, t)"
  show "auth_inv (has u) t"
  proof (cases "map_of (passkeys_by_id s) (pk_id p) = None \<and> map_of (passkey_ids_by_credential_id s) (pk_credential_id p) = None")
    case False
    then show ?thesis using inv run by (auto simp: create_passkey_def split: if_splits)
  next
    case True
    then have t: "t = s\<lparr>passkeys_by_id := AList.update (pk_id p) p (passkeys_by_id s),
        passkey_ids_by_credential_id := AList.update (pk_credential_id p) (pk_id p) (passkey_ids_by_credential_id s)\<rparr>"
      using run by (auto simp: create_passkey_def)
    have index: "map_of (passkey_ids_by_credential_id s) c = Some i \<longleftrightarrow>
        (\<exists>q. map_of (passkeys_by_id s) i = Some q \<and> pk_credential_id q = c)" for c i
      using inv by (simp add: auth_inv_def auth_ok_def passkeys_ok_def)
    have other: "pk_credential_id q \<noteq> pk_credential_id p" if "map_of (passkeys_by_id s) i = Some q" for i q
      using index [of "pk_credential_id p" i] True that by auto
    have "passkeys_ok (users_by_id t) (passkeys_by_id t) (passkey_ids_by_credential_id t)"
      using inv assms True other unfolding auth_inv_def auth_ok_def passkeys_ok_def has_def t
      by (auto simp: update_conv' keys_ok_update index split: if_splits)
    then show ?thesis using inv by (simp add: t auth_inv_def auth_ok_def)
  qed
qed

lemma store_update_passkey_keeps: "keeps (auth_inv Q) (store_update_passkey p)"
proof (rule keepsI)
  fix s r t assume inv: "auth_inv Q s" and run: "store_update_passkey p s = (r, t)"
  show "auth_inv Q t"
  proof (cases "t = s")
    case False
    then obtain q where q: "map_of (passkeys_by_id s) (pk_id p) = Some q" "pk_user_id q = pk_user_id p"
        "pk_credential_id q = pk_credential_id p"
      and t: "t = s\<lparr>passkeys_by_id := AList.update (pk_id p) p (passkeys_by_id s)\<rparr>"
      using run by (auto simp: store_update_passkey_def split: option.splits if_splits)
    have "map_of (users_by_id s) (pk_user_id q) \<noteq> None"
      using inv q(1) by (fastforce simp: auth_inv_def auth_ok_def passkeys_ok_def)
    then have "map_of (users_by_id s) (pk_user_id p) \<noteq> None" by (simp add: q(2))
    then have "passkeys_ok (users_by_id t) (passkeys_by_id t) (passkey_ids_by_credential_id t)"
      using inv q unfolding auth_inv_def auth_ok_def passkeys_ok_def t
      by (auto simp: update_conv' keys_ok_update split: if_splits)
    then show ?thesis using inv by (simp add: t auth_inv_def auth_ok_def)
  qed (use inv in simp)
qed

lemma store_delete_passkey_keeps: "keeps (auth_inv Q) (store_delete_passkey i j)"
proof (rule keepsI)
  fix s r t assume inv: "auth_inv Q s" and run: "store_delete_passkey i j s = (r, t)"
  show "auth_inv Q t"
  proof (cases "t = s")
    case False
    then obtain q where q: "map_of (passkeys_by_id s) j = Some q"
      and t: "t = s\<lparr>passkeys_by_id := AList.delete j (passkeys_by_id s),
        passkey_ids_by_credential_id := AList.delete (pk_credential_id q) (passkey_ids_by_credential_id s)\<rparr>"
      using run by (auto simp: store_delete_passkey_def split: option.splits if_splits)
    have index: "map_of (passkey_ids_by_credential_id s) c = Some k \<longleftrightarrow>
        (\<exists>q. map_of (passkeys_by_id s) k = Some q \<and> pk_credential_id q = c)" for c k
      using inv by (simp add: auth_inv_def auth_ok_def passkeys_ok_def)
    have other: "pk_credential_id p \<noteq> pk_credential_id q" if "map_of (passkeys_by_id s) k = Some p" "k \<noteq> j" for k p
      using index [of "pk_credential_id q" k] index [of "pk_credential_id q" j] q that by auto
    have "passkeys_ok (users_by_id t) (passkeys_by_id t) (passkey_ids_by_credential_id t)"
      using inv q other unfolding auth_inv_def auth_ok_def passkeys_ok_def t
      by (auto simp: delete_conv' keys_ok_delete index split: if_splits)
    then show ?thesis using inv by (simp add: t auth_inv_def auth_ok_def)
  qed (use inv in simp)
qed

section \<open>Handlers\<close>

lemma read_keeps:
  "(\<And>x. triple (\<lambda>s. P s \<and> f s = Inr x) (g x) (\<lambda>_. R) R) \<Longrightarrow> (\<And>s. P s \<Longrightarrow> R s) \<Longrightarrow>
   triple P (abind (aread f) g) (\<lambda>_. R) R"
  by (rule triple_bind [OF triple_read]) simp_all

lemma keeps_weaken:
  assumes "keeps P m" and "\<And>s. R s \<Longrightarrow> P s" and "\<And>s. P s \<Longrightarrow> R' s"
  shows "triple R m (\<lambda>_. R') R'"
  by (rule triple_strengthen [OF triple_weaken [OF assms(1) [unfolded keeps_def]]]) (use assms in simp_all)

lemma triple_absurd: "(\<And>s. \<not> P s) \<Longrightarrow> triple P m Q E"
  by (simp add: triple_def)

lemma keepsT: "triple P m (\<lambda>_. P) P \<Longrightarrow> keeps P m"
  by (simp add: keeps_def)

lemma record_failed_login_keeps: "keeps (auth_inv Q) (record_failed_login now email)"
  unfolding record_failed_login_def by (intro keeps_rules keeps_calls)

lemma verify_totp_code_keeps: "keeps (auth_inv Q) (verify_totp_code env cfg now rec code)"
  unfolding verify_totp_code_def by (intro keeps_rules keeps_calls)

lemma create_email_code_keeps: "keeps (auth_inv Q) (create_email_code env cfg fr now email purpose)"
  unfolding create_email_code_def by (intro keeps_rules keeps_codes) simp_all

lemma consume_email_code_keeps: "keeps (auth_inv Q) (consume_email_code env now email purpose code)"
proof -
  have attempts: "ec_email c = email \<and> ec_purpose c = purpose \<and> 0 \<le> ec_attempts c \<and> ec_attempts c < 5"
    if "auth_inv Q s" "or_error ErrInvalidCredentials (email_code email purpose s) = Inr c" for s c
  proof -
    have c: "map_of (email_codes s) (email, purpose) = Some c"
      using that(2) by (auto simp: or_error_def email_code_def split: option.splits)
    have "codes_ok (email_codes s)" using that(1) by (simp add: auth_inv_def auth_ok_def)
    then show ?thesis using c keys_ok_lookup [of _ "email_codes s" "(email, purpose)" c] by (auto simp: codes_ok_def)
  qed
  have store: "keeps (auth_inv Q) (store_email_code (c\<lparr>ec_attempts := int64 (ec_attempts c + 1)\<rparr>))"
    if "0 \<le> ec_attempts c" "ec_attempts c < 5" "\<not> 5 \<le> int64 (ec_attempts c + 1)" for c
    using that by (intro keeps_codes) (simp_all add: int64_id in_int64_def)
  have body: "triple (\<lambda>s. auth_inv Q s \<and> or_error ErrInvalidCredentials (email_code email purpose s) = Inr c)
      (if \<not> ec_expires_at c > now
       then abind (delete_email_code email purpose) (\<lambda>_. afail ErrInvalidCredentials)
       else if hash_email_code env email purpose code \<noteq> ec_code_hash c
       then (let c = c\<lparr>ec_attempts := int64 (ec_attempts c + 1)\<rparr> in
           abind (if ec_attempts c \<ge> 5 then delete_email_code email purpose else store_email_code c) (\<lambda>_.
           afail ErrInvalidCredentials))
       else delete_email_code email purpose) (\<lambda>_. auth_inv Q) (auth_inv Q)" (is "triple ?P ?m _ _") for c
  proof (cases "0 \<le> ec_attempts c \<and> ec_attempts c < 5")
    case True
    let ?c = "c\<lparr>ec_attempts := int64 (ec_attempts c + 1)\<rparr>"
    have "keeps (auth_inv Q) (if ec_attempts ?c \<ge> 5 then delete_email_code email purpose else store_email_code ?c)"
      using True store [of c] keeps_codes(2) by simp
    note wrong = keeps_let [of _ "\<lambda>c. abind (if ec_attempts c \<ge> 5 then delete_email_code email purpose
      else store_email_code c) (\<lambda>_. afail ErrInvalidCredentials)", OF keeps_bind [OF this keeps_basic(2)]]
    have "keeps (auth_inv Q) ?m"
      by (rule keeps_if [OF keeps_bind [OF keeps_codes(2) keeps_basic(2)] keeps_if [OF wrong keeps_codes(2)]])
    then show ?thesis by (rule keeps_weaken) simp_all
  next
    case False
    then have "\<not> ?P s" for s using attempts [of s c] by auto
    then show ?thesis by (rule triple_absurd)
  qed
  show ?thesis
    unfolding consume_email_code_def
    by (intro keepsT triple_bind [OF triple_guard] read_keeps triple_strengthen [OF body]) simp_all
qed

lemma found_keeps:
  "(\<And>x. triple (\<lambda>s. P s \<and> f s = Inr x) (g x) (\<lambda>_. R) R) \<Longrightarrow> triple P m (\<lambda>_. R) R \<Longrightarrow>
   triple P (aif_found f g m) (\<lambda>_. R) R"
  by (rule triple_found)

text \<open>A handler on a user that was just read: the row is still there, so it may be written back.\<close>

lemma with_user_by_id:
  assumes "\<And>u. triple (auth_inv (has u)) (g u) (\<lambda>_. auth_ok) auth_ok"
  shows "triple (\<lambda>s. auth_ok s \<and> user_by_id i s = Inr u) (g u) (\<lambda>_. auth_ok) auth_ok"
  by (rule triple_strengthen [OF assms]) (auto dest: found_user)

lemma with_user_by_email:
  assumes "\<And>u. us_email u = e \<Longrightarrow> triple (auth_inv (has u)) (g u) (\<lambda>_. auth_ok) auth_ok"
  shows "triple (\<lambda>s. auth_ok s \<and> user_by_email e s = Inr u) (g u) (\<lambda>_. auth_ok) auth_ok"
proof (cases "us_email u = e")
  case True
  then show ?thesis by (intro triple_strengthen [OF assms]) (auto dest: found_email)
next
  case False
  then show ?thesis by (intro triple_absurd) (auto dest: found_email)
qed

lemma skip_call:
  assumes "keeps P m" and "\<And>x. triple P (f x) (\<lambda>_. auth_ok) auth_ok" and "\<And>s. P s \<Longrightarrow> auth_ok s"
  shows "triple P (abind m f) (\<lambda>_. auth_ok) auth_ok"
  by (rule triple_bind [OF triple_weaken [OF assms(1) [unfolded keeps_def]] assms(2)]) (use assms(3) in auto)

lemma end_with:
  assumes "keeps (auth_inv Q) m"
  shows "triple (auth_inv Q) m (\<lambda>_. auth_ok) auth_ok"
  by (rule keeps_weaken [OF assms]) (auto dest: auth_invD)

text \<open>Write a user back, go on with the new row.\<close>

lemma then_update:
  assumes "us_id u = us_id old" "us_email u = us_email old"
    and "us_status old = UserStatusActive \<longrightarrow> us_status u = UserStatusActive"
    and "us_base_currency u = us_base_currency old \<or> trim_space (us_base_currency u) \<noteq> []"
    and "triple (auth_inv (has u)) (f u) (\<lambda>_. auth_ok) auth_ok"
  shows "triple (auth_inv (has old)) (abind (update_user u) f) (\<lambda>_. auth_ok) auth_ok"
proof (rule triple_bind [OF update_user_triple [OF assms(1-4)]])
  fix x
  show "triple (\<lambda>s. x = u \<and> auth_inv (has u) s) (f x) (\<lambda>_. auth_ok) auth_ok"
    by (cases "x = u") (auto intro: triple_absurd assms(5))
qed

lemma then_create:
  assumes "trim_space (us_base_currency u) \<noteq> []" and "triple (auth_inv (has u)) (f u) (\<lambda>_. auth_ok) auth_ok"
  shows "triple auth_ok (abind (create_user u) f) (\<lambda>_. auth_ok) auth_ok"
proof (rule triple_bind [OF create_user_triple [OF assms(1)]])
  fix x
  show "triple (\<lambda>s. x = u \<and> auth_inv (has u) s) (f x) (\<lambda>_. auth_ok) auth_ok"
    by (cases "x = u") (auto intro: triple_absurd assms(2))
qed

lemma default_currency [simp]: "trim_space default_base_currency \<noteq> []"
  by code_simp

lemma keeps_ok: "(\<And>Q. keeps (auth_inv Q) m) \<Longrightarrow> keeps auth_ok m"
  by (metis auth_inv_True)

lemma register_keeps: "keeps auth_ok (register env cfg fr now request)"
  unfolding register_def
  by (intro keepsT skip_call [OF keeps_basic(4)] skip_call [OF keeps_basic(3)] then_create end_with keeps_basic(1)) simp_all

lemma create_external_sso_session_triple:
  "triple (auth_inv (has u)) (create_external_sso_session env cfg fr now u sso) (\<lambda>_. auth_ok) auth_ok"
proof (cases "us_status u = UserStatusActive")
  case True
  then show ?thesis unfolding create_external_sso_session_def Let_def
    by (intro skip_call [OF keeps_basic(4)] triple_if then_update end_with create_session_keeps keeps_basic(2))
      (auto dest: auth_invD)
next
  case False
  then show ?thesis unfolding create_external_sso_session_def
    by (auto simp: triple_def act_defs dest: auth_invD)
qed

lemma login_with_external_sso_keeps: "keeps auth_ok (login_with_external_sso env cfg fr now validator)"
  unfolding login_with_external_sso_def
  by (intro keepsT skip_call [OF keeps_basic(4)] skip_call [OF keeps_basic(3)] found_keeps with_user_by_id
      with_user_by_email create_external_sso_session_triple then_create end_with create_session_keeps) simp_all

lemma afail_triple: "triple (auth_inv Q) (afail e) (\<lambda>_. auth_ok) auth_ok"
  by (intro end_with keeps_basic)

lemma failed_login_keeps: "keeps (auth_inv Q) (abind (record_failed_login now email) (\<lambda>_. afail e))"
  by (intro keeps_bind record_failed_login_keeps keeps_basic)

text \<open>The end of a login: a new hash if one is due, then the session.\<close>

lemma login_end:
  assumes a: "us_status u = UserStatusActive"
  shows "triple (auth_inv (has u)) (abind (if b then abind (aread (\<lambda>_. h)) (\<lambda>password_hash.
        update_user (u\<lparr>ur_password_hash := password_hash, us_updated_at := now\<rparr>)) else aret u) (\<lambda>u.
      abind (create_session env cfg fr now u) (\<lambda>result. abind (reset_login_throttle email) (\<lambda>_. aret result))))
      (\<lambda>_. auth_ok) auth_ok"
proof -
  have session: "triple (auth_inv (has u)) (abind (create_session env cfg fr now u) (\<lambda>result.
      abind (reset_login_throttle email) (\<lambda>_. aret result))) (\<lambda>_. auth_ok) auth_ok"
    if "us_status u = UserStatusActive" for u
    using that by (intro end_with keeps_bind create_session_keeps keeps_throttles keeps_basic)
  show ?thesis
  proof (cases b)
    case False
    then show ?thesis using session [OF a] by (simp add: triple_def)
  next
    case True
    have assoc: "abind (abind (aread (\<lambda>_. h)) f) g = abind (aread (\<lambda>_. h)) (\<lambda>x. abind (f x) g)"
      for f :: "string \<Rightarrow> user_record auth_act" and g :: "user_record \<Rightarrow> auth_result auth_act"
      by (auto simp: fun_eq_iff abind_def aread_def split: prod.splits sum.splits)
    show ?thesis unfolding if_P [OF True] assoc
      by (intro skip_call [OF keeps_basic(3)] then_update session) (use a in \<open>auto dest: auth_invD\<close>)
  qed
qed

lemma login_keeps: "keeps auth_ok (login env cfg fr now request)"
  unfolding login_def
  by (intro keepsT skip_call [OF keeps_basic(4)] skip_call [OF keeps_basic(3)] found_keeps with_user_by_email
      triple_if end_with [OF failed_login_keeps] skip_call [OF keeps_throttles(2)]
      skip_call [OF keeps_if [OF verify_totp_code_keeps keeps_basic(1)]] login_end end_with [OF keeps_basic(1)]
      failed_login_keeps [THEN keeps_ok, unfolded keeps_def])
    (auto dest: auth_invD)

lemma session_handlers_keep:
  "keeps auth_ok (logout env token)" "keeps auth_ok (logout_all user_id)"
  unfolding logout_def logout_all_def
  by (intro keeps_ok keeps_rules keeps_sessions)+

lemma update_user_profile_keeps: "keeps auth_ok (update_user_profile now request)"
proof -
  have base: "trim_space c \<noteq> []" if "normalize_base_currency v = Inr c" for v c
  proof -
    have "c \<in> set supported_base_currencies"
      using that by (auto simp: normalize_base_currency_def Let_def split: if_splits)
    moreover have "list_all (\<lambda>c. trim_space c \<noteq> []) supported_base_currencies" by code_simp
    ultimately show ?thesis by (simp add: list_all_iff)
  qed
  have profile: "triple (\<lambda>s. auth_ok s \<and> normalize_base_currency v = Inr c)
      (abind (aread (user_by_id i)) (\<lambda>rec. abind (update_user (rec\<lparr>us_base_currency := c, us_updated_at := now\<rparr>))
        (\<lambda>updated. aret (user.truncate updated)))) (\<lambda>_. auth_ok) auth_ok" for v c i
  proof (cases "normalize_base_currency v = Inr c")
    case True
    note b = base [OF True]
    have "triple auth_ok (abind (aread (user_by_id i)) (\<lambda>rec. abind (update_user (rec\<lparr>us_base_currency := c, us_updated_at := now\<rparr>))
        (\<lambda>updated. aret (user.truncate updated)))) (\<lambda>_. auth_ok) auth_ok"
      by (intro read_keeps with_user_by_id then_update end_with keeps_basic) (simp_all add: b)
    then show ?thesis using True by simp
  qed (simp add: triple_absurd)
  show ?thesis
    unfolding update_user_profile_def
    by (intro keepsT skip_call [OF keeps_basic(4)]) (intro skip_call [OF keeps_basic(3)] read_keeps profile, simp_all)
qed

section \<open>Handlers of codes\<close>

lemma request_code_handlers_keep:
  "keeps auth_ok (request_email_verification env cfg fr now sent email)"
  "keeps auth_ok (request_password_reset env cfg fr now sent email)"
  unfolding request_email_verification_def request_password_reset_def send_auth_code_def
  by (intro keeps_ok keeps_rules create_email_code_keeps)+

text \<open>Reading a user by email where a miss is an invalid login.\<close>

lemma or_error_iff [simp]: "or_error e r = Inr x \<longleftrightarrow> r = Inr x"
  by (auto simp: or_error_def split: sum.splits)

lemma then_user:
  assumes "\<And>u. us_email u = e \<Longrightarrow> triple (auth_inv (has u)) (g u) (\<lambda>_. auth_ok) auth_ok"
  shows "triple auth_ok (abind (aread (\<lambda>s. or_error err (user_by_email e s))) g) (\<lambda>_. auth_ok) auth_ok"
  by (rule read_keeps) (simp_all add: with_user_by_email [OF assms])

lemma confirm_email_verification_keeps: "keeps auth_ok (confirm_email_verification env now email code)"
  unfolding confirm_email_verification_def
  by (intro keepsT skip_call [OF keeps_basic(3)] skip_call [OF keeps_ok, OF consume_email_code_keeps]
      then_user then_update end_with keeps_basic) simp_all

lemma confirm_password_reset_keeps: "keeps auth_ok (confirm_password_reset env fr now email code password)"
  unfolding confirm_password_reset_def
  by (intro keepsT skip_call [OF keeps_basic(3)] skip_call [OF keeps_ok, OF consume_email_code_keeps]
      then_user skip_call [OF keeps_basic(4)] then_update end_with keeps_rules keeps_calls)
    (auto dest: auth_invD)

lemma setup_totp_keeps: "keeps auth_ok (setup_totp env cfg fr now generated actor se)"
  unfolding setup_totp_def by (intro keeps_ok keeps_rules keeps_prod keeps_calls)

lemma confirm_totp_keeps: "keeps auth_ok (confirm_totp env cfg fr now actor se code)"
proof -
  have enable: "triple auth_ok (abind (aread (user_by_id i)) (\<lambda>rec.
      abind (aread (\<lambda>_. h rec)) (\<lambda>stored.
      abind (update_user (rec\<lparr>us_totp_enabled := True, ur_totp_secret := stored, us_updated_at := now\<rparr>)) (\<lambda>_.
      abind (delete_pending_totp_setup (se_id se)) (\<lambda>_. abind (reset_failed_totp i) (\<lambda>_. aret True))))))
      (\<lambda>_. auth_ok) auth_ok" for i and h :: "user_record \<Rightarrow> auth_error + string"
    by (intro read_keeps with_user_by_id skip_call [OF keeps_basic(3)] then_update end_with keeps_rules keeps_calls)
      (auto dest: auth_invD)
  have wrong: "keeps (auth_inv Q) (abind m (\<lambda>_. afail e))" if "keeps (auth_inv Q) m" for Q e and m :: "'a auth_act"
    by (intro keeps_bind keeps_basic that)
  show ?thesis
    unfolding confirm_totp_def
    by (intro keepsT skip_call [OF keeps_basic(4)] skip_call [OF keeps_basic(3)] triple_if triple_sum enable
        wrong [OF keeps_totp(6), THEN keeps_ok, unfolded keeps_def]
        wrong [OF keeps_totp(3), THEN keeps_ok, unfolded keeps_def])
qed

lemma disable_totp_keeps: "keeps auth_ok (disable_totp env cfg now actor code)"
  unfolding disable_totp_def
  by (intro keepsT skip_call [OF keeps_basic(4)] read_keeps with_user_by_id triple_if
      skip_call [OF verify_totp_code_keeps] then_update end_with keeps_rules keeps_calls)
    (auto dest: auth_invD)

section \<open>Migration\<close>

text \<open>Rewriting secrets leaves every other field of every row.\<close>

lemma migrate_users_rows:
  "map (\<lambda>(i, u). (i, u\<lparr>ur_totp_secret := []\<rparr>)) (snd (migrate_users f m)) = map (\<lambda>(i, u). (i, u\<lparr>ur_totp_secret := []\<rparr>)) m"
  by (induction m) (auto split: prod.splits sum.splits)

lemma map_of_secretless:
  "map_of (map (\<lambda>(i, u). (i, u\<lparr>ur_totp_secret := []\<rparr>)) m) i = map_option (\<lambda>u. u\<lparr>ur_totp_secret := []\<rparr>) (map_of m i)"
  by (induction m) auto

lemma auth_ok_secrets:
  assumes ok: "auth_ok s"
    and rows: "map (\<lambda>(i, u). (i, u\<lparr>ur_totp_secret := []\<rparr>)) m = map (\<lambda>(i, u). (i, u\<lparr>ur_totp_secret := []\<rparr>)) (users_by_id s)"
  shows "auth_ok (s\<lparr>users_by_id := m, pending_totp := p\<rparr>)"
proof -
  have fst: "map fst m = map fst (users_by_id s)"
    using arg_cong [OF rows, of "map fst"] by (simp add: comp_def case_prod_unfold)
  have lookup: "map_option (\<lambda>u. u\<lparr>ur_totp_secret := []\<rparr>) (map_of m i) =
      map_option (\<lambda>u. u\<lparr>ur_totp_secret := []\<rparr>) (map_of (users_by_id s) i)" for i
    using map_of_secretless [of m i] map_of_secretless [of "users_by_id s" i] rows by simp
  have fields: "(\<exists>u. map_of m i = Some u \<and> P (u\<lparr>ur_totp_secret := []\<rparr>)) \<longleftrightarrow>
      (\<exists>u. map_of (users_by_id s) i = Some u \<and> P (u\<lparr>ur_totp_secret := []\<rparr>))" for i P
    using lookup [of i] by (cases "map_of m i"; cases "map_of (users_by_id s) i") auto
  have all: "(\<forall>u. map_of m i = Some u \<longrightarrow> P (u\<lparr>ur_totp_secret := []\<rparr>)) \<longleftrightarrow>
      (\<forall>u. map_of (users_by_id s) i = Some u \<longrightarrow> P (u\<lparr>ur_totp_secret := []\<rparr>))" for i P
    using lookup [of i] by (cases "map_of m i"; cases "map_of (users_by_id s) i") auto
  have "users_ok m (user_ids_by_email s)"
    using ok fields [of _ "\<lambda>u. us_email u = _"] all [of _ "\<lambda>u. us_id u = _"]
      all [of _ "\<lambda>u. trim_space (us_base_currency u) \<noteq> []"] fst
    unfolding auth_ok_def users_ok_def keys_ok_iff by simp
  moreover have "sessions_ok m (sessions s)"
    using ok fields [of _ "\<lambda>u. us_status u = UserStatusActive \<and> us_email u = _"]
    unfolding auth_ok_def sessions_ok_def by simp
  moreover have "map_of m i = None \<longleftrightarrow> map_of (users_by_id s) i = None" for i using lookup [of i] by auto
  then have "passkeys_ok m (passkeys_by_id s) (passkey_ids_by_credential_id s)"
    using ok unfolding auth_ok_def passkeys_ok_def by simp
  ultimately show ?thesis using ok by (simp add: auth_ok_def)
qed

lemma migrate_totp_secrets_keeps: "keeps auth_ok (migrate_totp_secrets env cfg rnd)"
proof -
  have "keeps auth_ok (migrate_secrets f)" for f
  proof (rule keepsI)
    fix s r t assume ok: "auth_ok s" and run: "migrate_secrets f s = (r, t)"
    have "\<exists>p. t = s\<lparr>users_by_id := snd (migrate_users f (users_by_id s)), pending_totp := p\<rparr>"
      using run by (auto simp: migrate_secrets_def split: prod.splits option.splits intro: exI [of _ "pending_totp s"])
    then show "auth_ok t" using auth_ok_secrets [OF ok migrate_users_rows] by blast
  qed
  then show ?thesis unfolding migrate_totp_secrets_def by (intro keeps_if keeps_basic)
qed

section \<open>Handlers of passkeys\<close>

lemma begin_passkey_keeps:
  "keeps auth_ok (begin_passkey_registration wa cfg fr now actor)" "keeps auth_ok (begin_passkey_login wa cfg fr now)"
  unfolding begin_passkey_registration_def begin_passkey_login_def
  by (intro keeps_ok keeps_rules keeps_prod keeps_calls)+

lemma finish_passkey_registration_keeps:
  "keeps auth_ok (finish_passkey_registration wa cfg new_id now actor flow_id label json)"
proof -
  have "pk_user_id (passkey_from_credential new_id (us_id u) label c now) = us_id u" for u :: user_record and c
    by (simp add: passkey_from_credential_def refresh_passkey_from_credential_def)
  then have "keeps (auth_inv (has u)) (abind (create_passkey (passkey_from_credential new_id (us_id u) label c now))
      (\<lambda>stored. aret (make_passkey_list_item stored)))" for u c
    by (intro keeps_bind create_passkey_keeps keeps_basic) simp
  note store = end_with [OF this]
  have del: "keeps auth_ok (delete_passkey_ceremony flow_id)" by (intro keeps_ok keeps_totp)
  show ?thesis
    unfolding finish_passkey_registration_def
    by (rule keeps_bind [OF keeps_basic(3)], rule keeps_bind [OF keeps_basic(4)], rule keeps_bind [OF keeps_basic(3)],
        rule keeps_adefer [OF del])
      (intro keepsT skip_call [OF keeps_basic(4)] read_keeps with_user_by_id skip_call [OF keeps_basic(3)] store;
       auto dest: auth_invD)
qed

lemma passkey_login_user:
  assumes "auth_ok s" and "passkey_login_handler raw handle s = Inr u"
  shows "auth_inv (has u) s \<and> us_status u = UserStatusActive"
  using assms by (auto simp: passkey_login_handler_def rbind_Inr_iff dest: found_user)

lemma finish_passkey_login_keeps: "keeps auth_ok (finish_passkey_login env wa cfg fr now flow_id json)"
proof -
  have del: "keeps auth_ok (delete_passkey_ceremony flow_id)" by (intro keeps_ok keeps_totp)
  have session: "keeps (auth_inv (has u)) (abind (aread (\<lambda>s. f s)) (\<lambda>c.
       abind (aread (passkey_by_credential_id (wc_id c))) (\<lambda>p.
       abind (store_update_passkey (refresh_passkey_from_credential p c now)) (\<lambda>_.
       abind (create_session env cfg fr now u) (\<lambda>result.
       abind (reset_login_throttle (us_email u)) (\<lambda>_. aret result))))))"
    if "us_status u = UserStatusActive" for u f
    using that by (intro keeps_bind keeps_basic store_update_passkey_keeps create_session_keeps keeps_throttles)
  have "triple (\<lambda>s. auth_ok s \<and> passkey_login_handler raw handle s = Inr u) (abind (aread (\<lambda>s. f s)) (\<lambda>c.
       abind (aread (passkey_by_credential_id (wc_id c))) (\<lambda>p.
       abind (store_update_passkey (refresh_passkey_from_credential p c now)) (\<lambda>_.
       abind (create_session env cfg fr now u) (\<lambda>result.
       abind (reset_login_throttle (us_email u)) (\<lambda>_. aret result)))))) (\<lambda>_. auth_ok) auth_ok" for raw handle u f
  proof (cases "us_status u = UserStatusActive")
    case True
    then show ?thesis by (intro triple_strengthen [OF end_with [OF session]]) (auto dest: passkey_login_user)
  next
    case False
    then show ?thesis by (intro triple_absurd) (auto dest: passkey_login_user)
  qed
  note session = this
  have inner: "keeps auth_ok (abind (aread (passkey_login_handler raw handle)) (\<lambda>u. abind (aread (\<lambda>s. f u s)) (\<lambda>c.
       abind (aread (passkey_by_credential_id (wc_id c))) (\<lambda>p.
       abind (store_update_passkey (refresh_passkey_from_credential p c now)) (\<lambda>_.
       abind (create_session env cfg fr now u) (\<lambda>result.
       abind (reset_login_throttle (us_email u)) (\<lambda>_. aret result)))))))" for raw handle f
    by (intro keepsT read_keeps session) simp_all
  show ?thesis
    unfolding finish_passkey_login_def
    by (rule keeps_bind [OF keeps_basic(3)], rule keeps_bind [OF keeps_basic(4)], rule keeps_bind [OF keeps_basic(3)],
        rule keeps_adefer [OF del], rule keeps_bind [OF keeps_basic(4)], rule keeps_bind [OF keeps_basic(4)],
        rule keeps_bind [OF keeps_basic(3)], rule keeps_prod, rule inner)
qed

lemma passkey_handlers_keep:
  "keeps auth_ok (update_passkey wa cfg now actor passkey_id label)" "keeps auth_ok (delete_passkey wa cfg actor passkey_id)"
  unfolding update_passkey_def delete_passkey_def
  by (intro keeps_ok keeps_rules store_update_passkey_keeps store_delete_passkey_keeps)+

end
