(* ===== verification/Auth_Steps.thy ===== *)
theory Auth_Steps
  imports Auth_Invariant
begin

text \<open>
  The life of the authentication store: a step is one request at one instant, a path is a sequence of
  requests before an instant. Every reachable store satisfies the invariant. What the calls of the store
  keep, every request keeps: the locale \<open>auth_frame\<close>, with two uses, the count of failed second factors
  that has reached its maximum and the marker of a used code.
\<close>

section \<open>Requests\<close>

inductive auth_step :: "auth_env \<Rightarrow> webauthn_env \<Rightarrow> auth_config \<Rightarrow> time \<Rightarrow> auth_store \<Rightarrow> auth_store \<Rightarrow> bool"
  for env wa cfg now where
  register_step: "auth_step env wa cfg now s (snd (register env cfg fr now registration s))"
| login_step: "auth_step env wa cfg now s (snd (login env cfg fr now request s))"
| sso_step: "auth_step env wa cfg now s (snd (login_with_external_sso env cfg fr now validator s))"
| profile_step: "auth_step env wa cfg now s (snd (update_user_profile now update s))"
| logout_step: "auth_step env wa cfg now s (snd (logout env token s))"
| logout_all_step: "auth_step env wa cfg now s (snd (logout_all user_id s))"
| request_verification_step: "auth_step env wa cfg now s (snd (request_email_verification env cfg fr now sent email s))"
| confirm_verification_step: "auth_step env wa cfg now s (snd (confirm_email_verification env now email code s))"
| request_reset_step: "auth_step env wa cfg now s (snd (request_password_reset env cfg fr now sent email s))"
| confirm_reset_step: "auth_step env wa cfg now s (snd (confirm_password_reset env fr now email code password s))"
| setup_totp_step: "auth_step env wa cfg now s (snd (setup_totp env cfg fr now generated actor se s))"
| confirm_totp_step: "auth_step env wa cfg now s (snd (confirm_totp env cfg fr now actor se code s))"
| disable_totp_step: "auth_step env wa cfg now s (snd (disable_totp env cfg now actor code s))"
| migrate_step: "auth_step env wa cfg now s (snd (migrate_totp_secrets env cfg rnd s))"
| begin_registration_step: "auth_step env wa cfg now s (snd (begin_passkey_registration wa cfg fr now actor s))"
| finish_registration_step:
    "auth_step env wa cfg now s (snd (finish_passkey_registration wa cfg new_id now actor flow_id label json s))"
| begin_login_step: "auth_step env wa cfg now s (snd (begin_passkey_login wa cfg fr now s))"
| finish_login_step: "auth_step env wa cfg now s (snd (finish_passkey_login env wa cfg fr now flow_id json s))"
| update_passkey_step: "auth_step env wa cfg now s (snd (update_passkey wa cfg now actor passkey_id label s))"
| delete_passkey_step: "auth_step env wa cfg now s (snd (delete_passkey wa cfg actor passkey_id s))"

inductive auth_path :: "auth_env \<Rightarrow> webauthn_env \<Rightarrow> auth_config \<Rightarrow> time \<Rightarrow> auth_store \<Rightarrow> auth_store \<Rightarrow> bool"
  for env wa cfg until where
  path_refl: "auth_path env wa cfg until s s"
| path_step: "auth_path env wa cfg until s t \<Longrightarrow> auth_step env wa cfg now t u \<Longrightarrow> now < until \<Longrightarrow>
    auth_path env wa cfg until s u"

definition auth_reachable :: "auth_env \<Rightarrow> webauthn_env \<Rightarrow> auth_config \<Rightarrow> auth_store \<Rightarrow> bool" where
  "auth_reachable env wa cfg s \<longleftrightarrow> (\<exists>until. auth_path env wa cfg until new_auth_store s)"

lemma keeps_snd: "keeps P m \<Longrightarrow> P s \<Longrightarrow> P (snd (m s))"
  by (cases "m s") (auto dest: keepsD)

lemmas handlers_keep =
  register_keeps login_keeps login_with_external_sso_keeps update_user_profile_keeps session_handlers_keep
  request_code_handlers_keep confirm_email_verification_keeps confirm_password_reset_keeps
  setup_totp_keeps confirm_totp_keeps disable_totp_keeps migrate_totp_secrets_keeps
  begin_passkey_keeps finish_passkey_registration_keeps finish_passkey_login_keeps passkey_handlers_keep

lemma auth_step_ok: "auth_step env wa cfg now s t \<Longrightarrow> auth_ok s \<Longrightarrow> auth_ok t"
  by (induction rule: auth_step.induct) (rule keeps_snd, rule handlers_keep, assumption)+

lemma auth_path_ok: "auth_path env wa cfg until s t \<Longrightarrow> auth_ok s \<Longrightarrow> auth_ok t"
  by (induction rule: auth_path.induct) (auto dest: auth_step_ok)

lemma new_auth_store_ok: "auth_ok new_auth_store"
  by (simp add: auth_ok_def new_auth_store_def users_ok_def sessions_ok_def passkeys_ok_def codes_ok_def)

lemma auth_reachable_okI: "auth_reachable env wa cfg s \<Longrightarrow> auth_ok s"
  using auth_path_ok new_auth_store_ok by (auto simp: auth_reachable_def)

section \<open>What every call keeps, every request keeps\<close>

locale auth_frame =
  fixes P :: "auth_store \<Rightarrow> bool" and env :: auth_env and cfg :: auth_config and now :: time
  assumes users: "keeps P (create_user u)" "keeps P (update_user u)"
    and session_rows: "keeps P (store_session h se)" "keeps P (delete_session h)" "keeps P (delete_sessions_by_user i)"
    and code_rows: "keeps P (store_email_code c)" "keeps P (delete_email_code e p)"
    and setup_rows: "keeps P (store_pending_totp_setup h p')" "keeps P (delete_pending_totp_setup h)"
    and throttle_rows: "keeps P (store_login_throttle t)" "keeps P (reset_login_throttle e)"
    and passkey_rows: "keeps P (create_passkey k)" "keeps P (store_update_passkey k)" "keeps P (store_delete_passkey i j)"
    and ceremony_rows: "keeps P (store_passkey_ceremony y)" "keeps P (delete_passkey_ceremony h)"
    and secrets: "keeps P (migrate_secrets f)"
    and verify: "keeps P (verify_totp_code env cfg now rec code)"
    and confirm: "keeps P (confirm_totp env cfg fr now actor se' code)"
begin

lemmas calls = users session_rows code_rows setup_rows throttle_rows passkey_rows ceremony_rows secrets verify confirm

lemma create_session_frame: "keeps P (create_session env cfg fr now u)"
  unfolding create_session_def by (intro keeps_rules calls)

lemma record_failed_login_frame: "keeps P (record_failed_login now email)"
  unfolding record_failed_login_def by (intro keeps_rules calls)

lemma consume_email_code_frame: "keeps P (consume_email_code env now email purpose code)"
  unfolding consume_email_code_def by (intro keeps_rules calls)

lemma service_frame:
  "keeps P (register env cfg fr now registration)"
  "keeps P (login env cfg fr now request)"
  "keeps P (login_with_external_sso env cfg fr now validator)"
  "keeps P (update_user_profile now update)"
  "keeps P (logout env token)"
  "keeps P (logout_all user_id)"
  unfolding register_def login_def login_with_external_sso_def create_external_sso_session_def update_user_profile_def
    logout_def logout_all_def
  by (intro keeps_rules calls create_session_frame record_failed_login_frame)+

lemma codes_frame:
  "keeps P (request_email_verification env cfg fr now sent email)"
  "keeps P (confirm_email_verification env now email code)"
  "keeps P (request_password_reset env cfg fr now sent email)"
  "keeps P (confirm_password_reset env fr now email code password)"
  "keeps P (setup_totp env cfg fr now generated actor se)"
  "keeps P (disable_totp env cfg now actor code)"
  "keeps P (migrate_totp_secrets env cfg rnd)"
  unfolding request_email_verification_def confirm_email_verification_def request_password_reset_def
    confirm_password_reset_def setup_totp_def disable_totp_def migrate_totp_secrets_def create_email_code_def
    send_auth_code_def
  by (intro keeps_rules keeps_prod calls consume_email_code_frame)+

lemma passkeys_frame:
  "keeps P (begin_passkey_registration wa cfg fr now actor)"
  "keeps P (finish_passkey_registration wa cfg new_id now actor flow_id label json)"
  "keeps P (begin_passkey_login wa cfg fr now)"
  "keeps P (finish_passkey_login env wa cfg fr now flow_id json)"
  "keeps P (update_passkey wa cfg now actor passkey_id label)"
  "keeps P (delete_passkey wa cfg actor passkey_id)"
  unfolding begin_passkey_registration_def finish_passkey_registration_def begin_passkey_login_def
    finish_passkey_login_def update_passkey_def delete_passkey_def
  by (intro keeps_rules keeps_prod keeps_adefer calls create_session_frame)+

lemma step_frame: "auth_step env wa cfg now s t \<Longrightarrow> P s \<Longrightarrow> P t"
  by (induction rule: auth_step.induct)
    (rule keeps_snd, rule service_frame codes_frame passkeys_frame confirm, assumption)+

end

section \<open>A count at its maximum, a marked code\<close>

definition totp_locked :: "string \<Rightarrow> auth_store \<Rightarrow> bool" where
  "totp_locked user_id s \<longleftrightarrow> 5 \<le> failed_totp_count user_id s"

text \<open>The marker of a code lasts at least to the instant \<open>e\<close>; after that nothing is said.\<close>

definition totp_marked :: "string \<Rightarrow> string \<Rightarrow> time \<Rightarrow> time \<Rightarrow> auth_store \<Rightarrow> bool" where
  "totp_marked user_id h e now s \<longleftrightarrow> e \<le> now \<or> (\<exists>e'. e \<le> e' \<and> map_of (totp_replays s) (user_id, h) = Some e')"

lemma frame_parts:
  assumes "\<And>s t. failed_totps t = failed_totps s \<Longrightarrow> totp_replays t = totp_replays s \<Longrightarrow> P s \<Longrightarrow> P t"
  shows "keeps P (create_user u)" "keeps P (update_user u)"
    "keeps P (store_session h se)" "keeps P (delete_session h)" "keeps P (delete_sessions_by_user i)"
    "keeps P (store_email_code c)" "keeps P (delete_email_code e p)"
    "keeps P (store_pending_totp_setup h p')" "keeps P (delete_pending_totp_setup h)"
    "keeps P (store_login_throttle t)" "keeps P (reset_login_throttle e)"
    "keeps P (create_passkey k)" "keeps P (store_update_passkey k)" "keeps P (store_delete_passkey i j)"
    "keeps P (store_passkey_ceremony y)" "keeps P (delete_passkey_ceremony h)" "keeps P (migrate_secrets f)"
  by (rule keepsI, rule assms; (assumption |
      auto simp: create_user_def update_user_def store_session_def delete_session_def delete_sessions_by_user_def
        store_email_code_def delete_email_code_def store_pending_totp_setup_def delete_pending_totp_setup_def
        store_login_throttle_def reset_login_throttle_def create_passkey_def store_update_passkey_def
        store_delete_passkey_def store_passkey_ceremony_def delete_passkey_ceremony_def migrate_secrets_def
        split: if_splits option.splits prod.splits))+

lemma locked_part: "failed_totps t = failed_totps s \<Longrightarrow> totp_locked i s \<Longrightarrow> totp_locked i t"
  by (simp add: totp_locked_def failed_totp_count_def)

lemma marked_part: "totp_replays t = totp_replays s \<Longrightarrow> totp_marked i h e now s \<Longrightarrow> totp_marked i h e now t"
  by (simp add: totp_marked_def)

lemma locked_stops: "keeps (totp_locked i) (abind (aread (below_max_failures i)) f)"
  by (rule keepsI) (auto simp: totp_locked_def below_max_failures_def abind_aread)

lemma locked_others:
  "j \<noteq> i \<Longrightarrow> keeps (totp_locked i) (increment_failed_totp j)"
  "j \<noteq> i \<Longrightarrow> keeps (totp_locked i) (reset_failed_totp j)"
  "keeps (totp_locked i) (store_totp_replay j h e)"
  "keeps (totp_locked i) (totp_replay_exists j h e)"
  by (rule keepsI; auto simp: totp_locked_def increment_failed_totp_def reset_failed_totp_def store_totp_replay_def
      totp_replay_exists_def failed_totp_count_def Let_def update_conv' delete_conv' split: option.splits if_splits)+

lemmas locked_calls = frame_parts [of "totp_locked i" for i, OF locked_part]

lemma locked_verify: "keeps (totp_locked i) (verify_totp_code env cfg now rec code)"
proof (cases "us_id rec = i")
  case True
  show ?thesis unfolding verify_totp_code_def True by (rule locked_stops)
next
  case False
  then show ?thesis unfolding verify_totp_code_def by (intro keeps_rules locked_others)
qed

lemma locked_confirm: "keeps (totp_locked i) (confirm_totp env cfg fr now actor se code)"
proof (cases "aa_user_id actor = i")
  case True
  show ?thesis
    unfolding confirm_totp_def True
    by (rule keeps_bind [OF keeps_basic(4)], rule keeps_bind [OF keeps_basic(4)], rule keeps_bind [OF keeps_basic(3)],
        rule keeps_if [OF keeps_bind [OF locked_calls(9) keeps_basic(2)] locked_stops])
next
  case False
  then show ?thesis unfolding confirm_totp_def by (intro keeps_rules locked_others locked_calls)
qed

lemma marked_calls:
  "keeps (totp_marked i h e now) (increment_failed_totp j)"
  "keeps (totp_marked i h e now) (reset_failed_totp j)"
  "(j, h') \<noteq> (i, h) \<Longrightarrow> keeps (totp_marked i h e now) (store_totp_replay j h' e')"
  "keeps (totp_marked i h e now) (totp_replay_exists j h' now)"
  by (rule keepsI; auto simp: totp_marked_def increment_failed_totp_def reset_failed_totp_def store_totp_replay_def
      totp_replay_exists_def Let_def update_conv' delete_conv' split: option.splits if_splits)+

lemmas marked_frame = frame_parts [of "totp_marked i h e now" for i h e now, OF marked_part]

text \<open>A marker that is still wanted is found.\<close>

lemma marked_found:
  assumes "totp_marked i h e now s" and "now < e" and "totp_replay_exists i h now s = (r, t)"
  shows "r = Inr True \<and> t = s"
  using assms by (auto simp: totp_marked_def totp_replay_exists_def)

lemma marked_rejected:
  assumes "totp_marked i h e now s" and "now < e" and "us_id rec = i" and "hash_totp_code env i code = h"
  shows "verify_totp_code env cfg now rec code s =
    (Inl ErrInvalidCredentials, if totp_locked i s then s else snd (increment_failed_totp i s))"
proof -
  have found: "totp_replay_exists i h now s = (Inr True, s)"
    using marked_found [OF assms(1,2)] by (cases "totp_replay_exists i h now s") auto
  show ?thesis
    by (simp add: verify_totp_code_def Let_def assms(3,4) abind_def found aread_def below_max_failures_def totp_locked_def
        increment_failed_totp_def afail_def)
qed

lemma marked_verify: "keeps (totp_marked i h e now) (verify_totp_code env cfg now rec code)"
proof (cases "(us_id rec, hash_totp_code env (us_id rec) code) = (i, h) \<and> now < e")
  case False
  have store: "keeps (totp_marked i h e now) (store_totp_replay (us_id rec) (hash_totp_code env (us_id rec) code) e')" for e'
  proof (cases "now < e")
    case True
    then show ?thesis using False by (intro marked_calls(3)) auto
  qed (simp add: keeps_def triple_def totp_marked_def store_totp_replay_def)
  show ?thesis unfolding verify_totp_code_def Let_def by (intro keeps_rules marked_calls(1,2,4) store)
next
  case True
  show ?thesis
  proof (rule keepsI)
    fix s r t assume m: "totp_marked i h e now s" and run: "verify_totp_code env cfg now rec code s = (r, t)"
    have "t = s \<or> t = snd (increment_failed_totp i s)" using marked_rejected [OF m] True run by auto
    then show "totp_marked i h e now t" using m keeps_snd [OF marked_calls(1) m] by auto
  qed
qed

lemma marked_confirm: "keeps (totp_marked i h e now) (confirm_totp env cfg fr now actor se code)"
  unfolding confirm_totp_def by (intro keeps_rules marked_calls(1,2) marked_frame)

interpretation totp_lock: auth_frame "totp_locked i" env cfg now for i env cfg now
  by (unfold_locales; intro locked_calls locked_verify locked_confirm)

interpretation totp_mark: auth_frame "totp_marked i h e now" env cfg now for i h e env cfg now
  by (unfold_locales; intro marked_frame marked_verify marked_confirm)

lemma locked_path: "auth_path env wa cfg until s t \<Longrightarrow> totp_locked i s \<Longrightarrow> totp_locked i t"
  by (induction rule: auth_path.induct) (auto dest: totp_lock.step_frame)

text \<open>Along a path before \<open>e\<close>, a marker that lasts to \<open>e\<close> stays.\<close>

lemma marked_path:
  assumes "auth_path env wa cfg until s t" and "until \<le> e" and "\<And>now. totp_marked i h e now s"
  shows "totp_marked i h e now t"
  using assms
proof (induction arbitrary: now rule: auth_path.induct)
  case (path_step s t now' u)
  have "totp_marked i h e now' t" using path_step by blast
  then have "totp_marked i h e now' u" using totp_mark.step_frame path_step.hyps(2) by blast
  then show ?case using path_step.hyps(3) path_step.prems(1) by (auto simp: totp_marked_def)
qed simp

end
