(* ===== verification/Auth_Login.thy ===== *)
theory Auth_Login
  imports Auth_Steps
begin

text \<open>
  What the handlers of logins and codes do, call by call: a successful login taken apart, throttling after
  failures, email codes as they are guessed, and the effect of a password reset.
\<close>

section \<open>Login\<close>

lemma record_failed_never_ok: "abind (record_failed_login now email) (\<lambda>_. afail e) s \<noteq> (Inr x, t)"
  by (auto simp: abind_Inr_iff)

lemma login_success:
  assumes run: "login env cfg fr now request s = (Inr res, t)"
  obtains email u where "cf_email_login_enabled cfg" and "normalize_email env (lg_email request) = Inr email"
    and "reject_locked_login now email s = Inr ()"
    and "require_login_turnstile env cfg email (lg_turnstile_token request) (lg_remote_ip request) s = Inr ()"
    and "user_by_email email s = Inr u"
    and "verify_password (ax_argon2 env) (ax_pbkdf2 env) (lg_password request) (ur_password_hash u) = Inr True"
    and "us_status u = UserStatusActive"
    and "us_totp_enabled u \<and> cf_totp_enabled cfg \<and> trim_space (lg_totp_code request) = [] \<and>
        res = \<lparr>ar_user = user.truncate u, ar_session = None, ar_session_token = [], ar_totp_required = True\<rparr> \<and>
        t = snd (reset_login_throttle email s) \<or>
      (\<exists>s1 v s2 s3. (if us_totp_enabled u \<and> cf_totp_enabled cfg
            then verify_totp_code env cfg now u (lg_totp_code request) s = (Inr (), s1) else s1 = s) \<and>
        (v = u \<and> s2 = s1 \<or> (\<exists>h. update_user (u\<lparr>ur_password_hash := h, us_updated_at := now\<rparr>) s1 = (Inr v, s2))) \<and>
        create_session env cfg fr now v s2 = (Inr res, s3) \<and> t = snd (reset_login_throttle email s3))"
proof -
  obtain email u matched where pre: "cf_email_login_enabled cfg" "normalize_email env (lg_email request) = Inr email"
    "reject_locked_login now email s = Inr ()"
    "require_login_turnstile env cfg email (lg_turnstile_token request) (lg_remote_ip request) s = Inr ()"
    "user_by_email email s = Inr u"
    and m: "failed (verify_password (ax_argon2 env) (ax_pbkdf2 env) (lg_password request) (ur_password_hash u)) = Inr matched"
    and run: "(if \<not> matched \<or> us_status u \<noteq> UserStatusActive
          then abind (record_failed_login now email) (\<lambda>_. afail ErrInvalidCredentials)
          else if us_totp_enabled u \<and> cf_totp_enabled cfg \<and> trim_space (lg_totp_code request) = []
          then abind (reset_login_throttle email) (\<lambda>_.
            aret \<lparr>ar_user = user.truncate u, ar_session = None, ar_session_token = [], ar_totp_required = True\<rparr>)
          else abind (if us_totp_enabled u \<and> cf_totp_enabled cfg
                      then verify_totp_code env cfg now u (lg_totp_code request) else aret ()) (\<lambda>_.
            abind (aread (\<lambda>_. failed (needs_password_rehash (ur_password_hash u)))) (\<lambda>needs_rehash.
            abind (if needs_rehash
                   then abind (aread (\<lambda>_. failed (hash_password (ax_argon2 env) (fv_salt fr) (lg_password request)))) (\<lambda>h.
                     update_user (u\<lparr>ur_password_hash := h, us_updated_at := now\<rparr>))
                   else aret u) (\<lambda>rec.
            abind (create_session env cfg fr now rec) (\<lambda>result.
            abind (reset_login_throttle email) (\<lambda>_. aret result)))))) s = (Inr res, t)"
    using run unfolding login_def by (auto simp: peel record_failed_never_ok split del: if_split)
  have active: "matched" "us_status u = UserStatusActive"
    using run record_failed_never_ok [of now email ErrInvalidCredentials s res t] by (auto split: if_split_asm)
  have m: "verify_password (ax_argon2 env) (ax_pbkdf2 env) (lg_password request) (ur_password_hash u) = Inr True"
    using m active(1) by (auto simp: failed_def split: sum.splits)
  have "\<not> (\<not> matched \<or> us_status u \<noteq> UserStatusActive)" using active by simp
  note run = run [unfolded if_not_P [OF this]]
  show thesis
  proof (rule that [OF pre m active(2)])
    show "us_totp_enabled u \<and> cf_totp_enabled cfg \<and> trim_space (lg_totp_code request) = [] \<and>
        res = \<lparr>ar_user = user.truncate u, ar_session = None, ar_session_token = [], ar_totp_required = True\<rparr> \<and>
        t = snd (reset_login_throttle email s) \<or>
      (\<exists>s1 v s2 s3. (if us_totp_enabled u \<and> cf_totp_enabled cfg
            then verify_totp_code env cfg now u (lg_totp_code request) s = (Inr (), s1) else s1 = s) \<and>
        (v = u \<and> s2 = s1 \<or> (\<exists>h. update_user (u\<lparr>ur_password_hash := h, us_updated_at := now\<rparr>) s1 = (Inr v, s2))) \<and>
        create_session env cfg fr now v s2 = (Inr res, s3) \<and> t = snd (reset_login_throttle email s3))"
    proof (cases "us_totp_enabled u \<and> cf_totp_enabled cfg \<and> trim_space (lg_totp_code request) = []")
      case True
      then show ?thesis using run by (simp add: abind_Inr_iff reset_login_throttle_def)
    next
      case False
      note run = run [unfolded if_not_P [OF False]]
      obtain s1 where s1: "(if us_totp_enabled u \<and> cf_totp_enabled cfg
          then verify_totp_code env cfg now u (lg_totp_code request) else aret ()) s = (Inr (), s1)"
        using run by (auto simp: abind_Inr_iff split: if_splits)
      then have totp: "if us_totp_enabled u \<and> cf_totp_enabled cfg
          then verify_totp_code env cfg now u (lg_totp_code request) s = (Inr (), s1) else s1 = s"
        by (auto split: if_splits)
      note run = run [unfolded abind_def [of "if us_totp_enabled u \<and> cf_totp_enabled cfg
          then verify_totp_code env cfg now u (lg_totp_code request) else aret ()"] s1 prod.case sum.case]
      obtain needs v s2 s3 where rest:
        "(if needs then abind (aread (\<lambda>_. failed (hash_password (ax_argon2 env) (fv_salt fr) (lg_password request)))) (\<lambda>h.
            update_user (u\<lparr>ur_password_hash := h, us_updated_at := now\<rparr>)) else aret u) s1 = (Inr v, s2)"
        "create_session env cfg fr now v s2 = (Inr res, s3)" "t = snd (reset_login_throttle email s3)"
        using run by (auto simp: abind_Inr_iff reset_login_throttle_def)
      have "v = u \<and> s2 = s1 \<or> (\<exists>h. update_user (u\<lparr>ur_password_hash := h, us_updated_at := now\<rparr>) s1 = (Inr v, s2))"
        using rest(1) by (cases needs) (auto simp: abind_Inr_iff)
      then show ?thesis using totp rest(2,3) by blast
    qed
  qed
qed

lemma login_session:
  assumes run: "login env cfg fr now request s = (Inr res, t)" and se: "ar_session res = Some se"
  obtains email u s1 v s2 s3 where "normalize_email env (lg_email request) = Inr email"
    and "reject_locked_login now email s = Inr ()" and "user_by_email email s = Inr u"
    and "verify_password (ax_argon2 env) (ax_pbkdf2 env) (lg_password request) (ur_password_hash u) = Inr True"
    and "us_status u = UserStatusActive"
    and "if us_totp_enabled u \<and> cf_totp_enabled cfg
        then verify_totp_code env cfg now u (lg_totp_code request) s = (Inr (), s1) else s1 = s"
    and "v = u \<and> s2 = s1 \<or> (\<exists>h. update_user (u\<lparr>ur_password_hash := h, us_updated_at := now\<rparr>) s1 = (Inr v, s2))"
    and "create_session env cfg fr now v s2 = (Inr res, s3)" and "t = snd (reset_login_throttle email s3)"
  apply (rule login_success [OF run])
  apply (erule disjE)
  subgoal using se by simp
  subgoal by (elim exE conjE) (rule that; assumption)
  done

section \<open>Throttling\<close>

lemma double_lock_eq: "0 \<le> d \<Longrightarrow> d \<le> hour \<Longrightarrow> double_lock n d = min hour (d * 2 ^ n)"
proof (induction n arbitrary: d)
  case (Suc n)
  have even: "2 * (hour div 2) = hour" by (simp add: hour_def minute_def second_def)
  show ?case
  proof (cases "hour div 2 \<le> d")
    case True
    have "hour \<le> d * 2" using True even by linarith
    also have "d * 2 \<le> d * 2 ^ Suc n" using Suc.prems(1) by (simp add: mult_left_mono)
    finally show ?thesis using True by simp
  next
    case False
    then have "d * 2 \<le> hour" using even by linarith
    then have "double_lock n (d * 2) = min hour (d * 2 * 2 ^ n)" using Suc.IH [of "d * 2"] Suc.prems(1) by simp
    then show ?thesis using False by (simp add: mult.assoc)
  qed
qed simp

lemma login_lock_duration_eq:
  "login_lock_duration n = (if n \<le> 5 then 0 else min hour (minute * 2 ^ nat (n - 6)))"
  using double_lock_eq [of minute] by (simp add: login_lock_duration_def hour_def minute_def second_def)

lemma recorded_throttle:
  assumes "record_failed_login now email s = (Inr (), t)"
  shows "login_throttle_of email t =
    \<lparr>lt_email = email, lt_failed_count = int64 (lt_failed_count (login_throttle_of email s) + 1),
     lt_locked_until = (if login_lock_duration (int64 (lt_failed_count (login_throttle_of email s) + 1)) > 0
       then now + login_lock_duration (int64 (lt_failed_count (login_throttle_of email s) + 1)) else zero_time),
     lt_updated_at = now\<rparr>"
proof -
  have "login_throttle_of email t = lt" if "store_login_throttle lt s = (Inr (), t)" "lt_email lt = email" for lt
    using that by (auto simp: store_login_throttle_def login_throttle_of_def update_conv' split: if_splits)
  then show ?thesis using assms by (auto simp: record_failed_login_def abind_Inr_iff Let_def)
qed

lemma locked_login_refused:
  assumes "cf_email_login_enabled cfg" and "normalize_email env (lg_email request) = Inr email"
    and "now < lt_locked_until (login_throttle_of email s)"
  shows "login env cfg fr now request s = (Inl (LoginLocked (lt_locked_until (login_throttle_of email s) - now)), s)"
  using assms by (simp add: login_def act_simps reject_locked_login_def Let_def or_error_def)

section \<open>Guessing an email code\<close>

lemma email_code_iff: "email_code e p s = Inr c \<longleftrightarrow> map_of (email_codes s) (e, p) = Some c"
  by (auto simp: email_code_def split: option.splits)

lemma consume_missing:
  "map_of (email_codes s) (e, p) = None \<Longrightarrow> consume_email_code env now e p code s = (Inl ErrInvalidCredentials, s)"
  by (simp add: consume_email_code_def act_simps email_code_def or_error_def)

lemma consume_success:
  assumes "consume_email_code env now e p code s = (Inr (), t)"
  obtains c where "map_of (email_codes s) (e, p) = Some c" and "now < ec_expires_at c"
    and "hash_email_code env e p code = ec_code_hash c" and "t = s\<lparr>email_codes := AList.delete (e, p) (email_codes s)\<rparr>"
  using assms unfolding consume_email_code_def
  by (auto simp: peel email_code_iff abind_Inr_iff delete_email_code_def Let_def split: if_splits)

text \<open>A wrong guess is refused; it removes the code or counts one attempt more.\<close>

lemma wrong_guess:
  assumes ok: "auth_ok s" and c: "map_of (email_codes s) (e, p) = Some c"
    and wrong: "trim_space code \<noteq> []" "hash_email_code env e p code \<noteq> ec_code_hash c"
    and run: "consume_email_code env now e p code s = (r, t)"
  shows "r = Inl ErrInvalidCredentials \<and> (map_of (email_codes t) (e, p) = None \<or>
    (ec_attempts c < 4 \<and> map_of (email_codes t) (e, p) = Some (c\<lparr>ec_attempts := ec_attempts c + 1\<rparr>)))"
proof -
  have "codes_ok (email_codes s)" using ok by (simp add: auth_ok_def)
  then have a: "0 \<le> ec_attempts c" "ec_attempts c < 5" and k: "ec_email c = e" "ec_purpose c = p"
    using c keys_ok_lookup [of _ "email_codes s" "(e, p)" c] by (auto simp: codes_ok_def)
  have w: "int64 (ec_attempts c + 1) = ec_attempts c + 1" using a by (simp add: int64_id in_int64_def)
  have f: "email_code e p s = Inr c" using c by (simp add: email_code_iff)
  have i: "int64 5 = 5" by (simp add: int64_id in_int64_def)
  show ?thesis
    using run unfolding consume_email_code_def
    by (cases "now < ec_expires_at c"; cases "ec_attempts c = 4")
      (use a in \<open>auto simp: act_defs or_error_def f wrong w k i delete_email_code_def store_email_code_def Let_def
        delete_conv' update_conv' split: if_splits\<close>)
qed

fun guess_codes :: "auth_env \<Rightarrow> string \<Rightarrow> email_code_purpose \<Rightarrow> (time \<times> string) list \<Rightarrow> auth_store \<Rightarrow> auth_store" where
  "guess_codes env e p [] s = s"
| "guess_codes env e p ((now, code) # guesses) s =
     guess_codes env e p guesses (snd (consume_email_code env now e p code s))"

lemma guesses_missing: "map_of (email_codes s) (e, p) = None \<Longrightarrow> guess_codes env e p guesses s = s"
  by (induction guesses) (auto simp: consume_missing)

lemma guesses_exhaust:
  assumes "auth_ok s" and "map_of (email_codes s) (e, p) = Some c"
    and "\<forall>(now, code) \<in> set guesses. trim_space code \<noteq> [] \<and> hash_email_code env e p code \<noteq> ec_code_hash c"
    and "5 - ec_attempts c \<le> int (length guesses)"
  shows "map_of (email_codes (guess_codes env e p guesses s)) (e, p) = None"
  using assms
proof (induction guesses arbitrary: s c)
  case Nil
  then have "ec_attempts c < 5" by (auto simp: auth_ok_def codes_ok_def)
  then show ?case using Nil by simp
next
  case (Cons g guesses)
  obtain now code where g: "g = (now, code)" by (cases g)
  obtain r t where run: "consume_email_code env now e p code s = (r, t)" by (cases "consume_email_code env now e p code s")
  have wrong: "trim_space code \<noteq> []" "hash_email_code env e p code \<noteq> ec_code_hash c" using Cons.prems(3) by (simp_all add: g)
  have ok: "auth_ok t" using keepsD [OF keeps_ok [OF consume_email_code_keeps] Cons.prems(1) run] .
  from wrong_guess [OF Cons.prems(1,2) wrong run] show ?case
  proof (elim conjE disjE)
    assume "map_of (email_codes t) (e, p) = None"
    then show ?thesis by (simp add: g run guesses_missing)
  next
    assume t: "map_of (email_codes t) (e, p) = Some (c\<lparr>ec_attempts := ec_attempts c + 1\<rparr>)"
    have "map_of (email_codes (guess_codes env e p guesses t)) (e, p) = None"
      by (rule Cons.IH [OF ok t]) (use Cons.prems(3,4) in auto)
    then show ?thesis by (simp add: g run)
  qed
qed

section \<open>Password reset\<close>

lemma update_user_run:
  assumes "auth_ok s" and "map_of (users_by_id s) (us_id u) = Some old" and "us_email old = us_email u"
    and "us_base_currency u = us_base_currency old"
  shows "update_user u s = (Inr u, s\<lparr>users_by_id := AList.update (us_id u) u (users_by_id s)\<rparr>)"
proof -
  have "trim_space (us_base_currency u) \<noteq> []" using assms by (auto simp: auth_ok_def users_ok_def)
  then have "clone_user_record u = u" by (simp add: clone_user_record_def)
  then show ?thesis using assms(2,3) by (simp add: update_user_def)
qed

lemma password_reset_success:
  assumes ok: "auth_ok s" and run: "confirm_password_reset env fr now email code password s = (Inr x, t)"
  obtains e c u h where "normalize_email env email = Inr e" and "hash_password (ax_argon2 env) (fv_salt fr) password = Inr h"
    and "map_of (email_codes s) (e, EmailCodePurposePasswordReset) = Some c" and "now < ec_expires_at c"
    and "hash_email_code env e EmailCodePurposePasswordReset code = ec_code_hash c"
    and "user_by_email e s = Inr u" and "us_status u = UserStatusActive"
    and "t = s\<lparr>users_by_id := AList.update (us_id u) (u\<lparr>ur_password_hash := h, us_updated_at := now\<rparr>) (users_by_id s),
      email_codes := AList.delete (e, EmailCodePurposePasswordReset) (email_codes s),
      login_throttles := AList.delete e (login_throttles s),
      sessions := filter (\<lambda>(_, se). se_user_id se \<noteq> us_id u) (sessions s)\<rparr>"
proof -
  obtain e h s1 u where e: "normalize_email env email = Inr e"
    and h: "failed (hash_password (ax_argon2 env) (fv_salt fr) password) = Inr h"
    and c: "consume_email_code env now e EmailCodePurposePasswordReset code s = (Inr (), s1)"
    and u: "user_by_email e s1 = Inr u" "us_status u = UserStatusActive"
    and rest: "abind (update_user (u\<lparr>ur_password_hash := h, us_updated_at := now\<rparr>)) (\<lambda>updated.
      abind (reset_login_throttle e) (\<lambda>_. abind (delete_sessions_by_user (us_id updated)) (\<lambda>_. aret (user.truncate updated)))) s1 = (Inr x, t)"
    using run unfolding confirm_password_reset_def by (auto simp: peel abind_Inr_iff [of "consume_email_code _ _ _ _ _"])
  obtain c where c': "map_of (email_codes s) (e, EmailCodePurposePasswordReset) = Some c" "now < ec_expires_at c"
    "hash_email_code env e EmailCodePurposePasswordReset code = ec_code_hash c"
    "s1 = s\<lparr>email_codes := AList.delete (e, EmailCodePurposePasswordReset) (email_codes s)\<rparr>"
    by (rule consume_success [OF c])
  have ok1: "auth_ok s1" by (rule keepsD [OF keeps_ok [OF consume_email_code_keeps] ok c])
  have old: "map_of (users_by_id s1) (us_id u) = Some u" using u(1) ok1 by (simp add: user_by_email_iff)
  note upd = update_user_run [OF ok1, of "u\<lparr>ur_password_hash := h, us_updated_at := now\<rparr>" u, simplified, OF old]
  have h': "hash_password (ax_argon2 env) (fv_salt fr) password = Inr h" using h by (auto simp: failed_def split: sum.splits)
  have u': "user_by_email e s = Inr u" using u(1) by (simp add: c'(4) user_by_email_def user_by_id_def cong: option.case_cong)
  have "t = s\<lparr>users_by_id := AList.update (us_id u) (u\<lparr>ur_password_hash := h, us_updated_at := now\<rparr>) (users_by_id s),
      email_codes := AList.delete (e, EmailCodePurposePasswordReset) (email_codes s),
      login_throttles := AList.delete e (login_throttles s),
      sessions := filter (\<lambda>(_, se). se_user_id se \<noteq> us_id u) (sessions s)\<rparr>"
    using rest upd by (cases s) (simp add: abind_def c'(4) reset_login_throttle_def delete_sessions_by_user_def aret_def)
  then show thesis using that e h' c'(1-3) u' u(2) by blast
qed

section \<open>Sessions\<close>

lemma create_session_Inr_iff: "create_session env cfg fr now u s = (Inr res, t) \<longleftrightarrow>
    (\<exists>token. new_session_token fr = Inr token \<and>
      res = \<lparr>ar_user = user.truncate u,
        ar_session = Some \<lparr>se_id = fv_session_id fr, se_user_id = us_id u, se_user_email = us_email u,
          se_status = us_status u, se_expires_at = now + cf_session_ttl cfg, se_created_at = now\<rparr>,
        ar_session_token = token, ar_totp_required = False\<rparr> \<and>
      t = s\<lparr>sessions := AList.update (hash_session_token env token) (the (ar_session res)) (sessions s)\<rparr>)"
  by (auto simp: create_session_def peel abind_Inr_iff store_session_def Let_def)

lemma update_user_Inr: "update_user u s = (Inr v, t) \<Longrightarrow>
    v = clone_user_record u \<and> t = s\<lparr>users_by_id := AList.update (us_id u) v (users_by_id s)\<rparr>"
  by (auto simp: update_user_def split: option.splits if_splits)

lemma clone_fields [simp]:
  "us_id (clone_user_record u) = us_id u" "us_email (clone_user_record u) = us_email u"
  "us_status (clone_user_record u) = us_status u"
  "ur_external_sso_subject (clone_user_record u) = ur_external_sso_subject u"
  by (simp_all add: clone_user_record_def)

lemma session_token_nonempty: "new_session_token fr = Inr token \<Longrightarrow> fv_token fr \<noteq> Some [] \<Longrightarrow> token \<noteq> []"
  by (cases "fv_token fr" rule: option.exhaust)
    (auto simp: new_session_token_def drawn_def encode_to_string_def dest: arg_cong [of _ _ length])

lemma wrong_password:
  assumes "cf_email_login_enabled cfg" and "normalize_email env (lg_email request) = Inr email"
    and "reject_locked_login now email s = Inr ()"
    and "require_login_turnstile env cfg email (lg_turnstile_token request) (lg_remote_ip request) s = Inr ()"
    and "user_by_email email s = Inr u"
    and "verify_password (ax_argon2 env) (ax_pbkdf2 env) (lg_password request) (ur_password_hash u) = Inr False"
  shows "login env cfg fr now request s =
    abind (record_failed_login now email) (\<lambda>_. afail ErrInvalidCredentials) s"
  using assms by (simp add: login_def act_simps or_error_def aif_found_def failed_def)

section \<open>Marked codes\<close>

lemma verified_code_marked:
  assumes "verify_totp_code env cfg now u code s = (Inr x, t)"
  shows "totp_marked (us_id u) (hash_totp_code env (us_id u) code)
    (now + max totp_validity_window (cf_totp_replay_cache_duration cfg)) now' t"
proof -
  have inr: "r = Inr ()" if "\<forall>e. r \<noteq> Inl e" for r :: "auth_error + unit" using that by (cases r) auto
  show ?thesis
    using assms
    by (auto simp: verify_totp_code_def peel abind_Inr_iff Let_def totp_marked_def store_totp_replay_def reset_failed_totp_def
        update_conv' max_def split: if_splits sum.splits dest: inr)
qed

lemma locked_verify_fails:
  "totp_locked (us_id u) s \<Longrightarrow> verify_totp_code env cfg now u code s = (Inl ErrInvalidCredentials, s)"
  by (simp add: verify_totp_code_def act_simps below_max_failures_def totp_locked_def)

section \<open>External sign-on\<close>

lemma sso_session:
  assumes run: "create_external_sso_session env cfg fr now u i s = (Inr res, t)"
    and stored: "map_of (users_by_id s) (us_id u) = Some u"
  obtains se v where "us_status u = UserStatusActive"
    and "trim_space (ur_external_sso_subject u) = [] \<or> trim_space (ur_external_sso_subject u) = i"
    and "ar_session res = Some se" and "se_user_id se = us_id u"
    and "map_of (users_by_id t) (us_id u) = Some v" and "us_status v = UserStatusActive"
    and "ur_external_sso_subject v = i \<or> trim_space (ur_external_sso_subject v) = i"
proof -
  have active: "us_status u = UserStatusActive" using run by (simp add: create_external_sso_session_def peel)
  consider (fresh) v s' where "trim_space (ur_external_sso_subject u) = []"
      "update_user (u\<lparr>ur_external_sso_subject := i, us_updated_at := now\<rparr>) s = (Inr v, s')"
      "create_session env cfg fr now v s' = (Inr res, t)"
    | (bound) "trim_space (ur_external_sso_subject u) = i" "create_session env cfg fr now u s = (Inr res, t)"
    using run by (auto simp: create_external_sso_session_def peel abind_Inr_iff Let_def split: if_splits)
  then show thesis
  proof cases
    case fresh
    have "v = clone_user_record (u\<lparr>ur_external_sso_subject := i, us_updated_at := now\<rparr>)"
      "map_of (users_by_id s') (us_id u) = Some v"
      using update_user_Inr [OF fresh(2)] by (simp_all add: update_conv')
    then show thesis
      using fresh(1,3) active by (intro that [of _ v]) (auto simp: create_session_Inr_iff)
  next
    case bound
    then show thesis
      using stored active by (intro that [of _ u]) (auto simp: create_session_Inr_iff)
  qed
qed

lemma create_user_Inr: "create_user u s = (Inr v, t) \<Longrightarrow>
    v = clone_user_record u \<and> map_of (users_by_id s) (us_id u) = None \<and> map_of (users_by_id t) (us_id u) = Some v"
  by (auto simp: create_user_def update_conv' split: if_splits)

definition provisioned_user :: "time \<Rightarrow> string \<Rightarrow> string \<Rightarrow> user_record" where
  "provisioned_user now i email =
     \<lparr>us_id = i, us_email = email, us_status = UserStatusActive, us_email_verified = True, us_totp_enabled = False,
      us_base_currency = default_base_currency, us_created_at = now, us_updated_at = now, ur_password_hash = [],
      ur_totp_secret = [], ur_external_sso_subject = i\<rparr>"

lemma sso_success:
  assumes run: "login_with_external_sso env cfg fr now validator s = (Inr res, t)"
  obtains (by_id) identity email i v where "validator = Some (Inr identity)"
      and "normalize_email env (si_username identity) = Inr email"
      and "normalize_external_sso_user_id env (si_subject identity) = Inr i"
      and "user_by_id i s = Inr v" and "create_external_sso_session env cfg fr now v i s = (Inr res, t)"
    | (by_email) identity email i e v where "validator = Some (Inr identity)"
      and "normalize_email env (si_username identity) = Inr email"
      and "normalize_external_sso_user_id env (si_subject identity) = Inr i"
      and "user_by_id i s = Inl e" and "user_by_email email s = Inr v"
      and "create_external_sso_session env cfg fr now v i s = (Inr res, t)"
    | (created) identity email i v s' where "validator = Some (Inr identity)"
      and "normalize_email env (si_username identity) = Inr email"
      and "normalize_external_sso_user_id env (si_subject identity) = Inr i"
      and "cf_external_sso_auto_provision cfg" and "create_user (provisioned_user now i email) s = (Inr v, s')"
      and "create_session env cfg fr now v s' = (Inr res, t)"
  using run unfolding login_with_external_sso_def provisioned_user_def [symmetric]
  by (auto simp: peel abind_Inr_iff [of "create_user _"] split: option.splits)

lemma auth_ok_user_id: "auth_ok s \<Longrightarrow> map_of (users_by_id s) i = Some u \<Longrightarrow> us_id u = i"
  by (auto simp: auth_ok_def users_ok_def dest: keys_ok_lookup)

lemma sso_bound:
  assumes ok: "auth_ok s" and run: "login_with_external_sso env cfg fr now validator s = (Inr res, t)"
  shows "\<exists>identity email i se u. validator = Some (Inr identity) \<and> normalize_email env (si_username identity) = Inr email \<and>
    normalize_external_sso_user_id env (si_subject identity) = Inr i \<and> ar_session res = Some se \<and>
    map_of (users_by_id t) (se_user_id se) = Some u \<and> us_status u = UserStatusActive \<and>
    (ur_external_sso_subject u = i \<or> trim_space (ur_external_sso_subject u) = i) \<and>
    (if map_of (users_by_id s) (se_user_id se) = None
     then cf_external_sso_auto_provision cfg \<and> se_user_id se = i \<and> us_email u = email
     else \<exists>v. map_of (users_by_id s) (se_user_id se) = Some v \<and> us_status v = UserStatusActive \<and>
       (us_id v = i \<or> map_of (users_by_id s) i = None \<and> us_email v = email) \<and>
       (trim_space (ur_external_sso_subject v) = [] \<or> trim_space (ur_external_sso_subject v) = i))"
proof -
  note rows = user_by_id_iff [OF ok] user_by_email_iff [OF ok]
  from run show ?thesis
  proof (cases rule: sso_success)
    case (by_id identity email i v)
    then have v: "map_of (users_by_id s) (us_id v) = Some v" "us_id v = i" using ok by (auto simp: rows dest: auth_ok_user_id)
    obtain se w where "us_status v = UserStatusActive"
      "trim_space (ur_external_sso_subject v) = [] \<or> trim_space (ur_external_sso_subject v) = i"
      "ar_session res = Some se" "se_user_id se = us_id v" "map_of (users_by_id t) (us_id v) = Some w"
      "us_status w = UserStatusActive" "ur_external_sso_subject w = i \<or> trim_space (ur_external_sso_subject w) = i"
      by (rule sso_session [OF by_id(5) v(1)])
    then show ?thesis using by_id(1-3) v by auto
  next
    case (by_email identity email i e v)
    have missing: "map_of (users_by_id s) i = None" using by_email(4) rows(1) by (cases "map_of (users_by_id s) i") force+
    have v: "map_of (users_by_id s) (us_id v) = Some v" "us_email v = email" using by_email(5) by (simp_all add: rows)
    obtain se w where "us_status v = UserStatusActive"
      "trim_space (ur_external_sso_subject v) = [] \<or> trim_space (ur_external_sso_subject v) = i"
      "ar_session res = Some se" "se_user_id se = us_id v" "map_of (users_by_id t) (us_id v) = Some w"
      "us_status w = UserStatusActive" "ur_external_sso_subject w = i \<or> trim_space (ur_external_sso_subject w) = i"
      by (rule sso_session [OF by_email(6) v(1)])
    then show ?thesis using by_email(1-3) v missing by auto
  next
    case (created identity email i v s')
    from create_user_Inr [OF created(5)]
    have "us_id v = i" "us_email v = email" "us_status v = UserStatusActive" "ur_external_sso_subject v = i"
      "map_of (users_by_id s) i = None" "map_of (users_by_id s') i = Some v"
      by (simp_all add: provisioned_user_def)
    then show ?thesis using created(1-4,6) by (auto simp: create_session_Inr_iff)
  qed
qed

section \<open>Passkeys\<close>

lemma adefer_Inr_iff: "adefer later m s = (Inr x, t) \<longleftrightarrow> (\<exists>t'. m s = (Inr x, t') \<and> t = snd (later t'))"
  by (auto simp: adefer_def split: prod.splits)

lemma passkey_login_success:
  assumes "finish_passkey_login env wa cfg fr now flow_id json s = (Inr res, t)"
  obtains ceremony raw handle u c s1 s2 where "find_passkey_ceremony flow_id s = Inr ceremony"
    and "pc_type ceremony = PasskeyCeremonyLogin" and "now < pc_expires_at ceremony"
    and "we_parse_login wa json = Inr (raw, handle)" and "passkey_login_handler raw handle s = Inr u"
    and "we_validate_login wa (load_passkey_user u s) (pc_session ceremony) json = Inr c"
    and "create_session env cfg fr now u s1 = (Inr res, s2)"
    and "t = snd (delete_passkey_ceremony flow_id (snd (reset_login_throttle (us_email u) s2)))"
proof -
  show thesis
    using assms unfolding finish_passkey_login_def
    by (simp only: peel adefer_Inr_iff prod.case_eq_if abind_Inr_iff [of "store_update_passkey _"]
        abind_Inr_iff [of "create_session _ _ _ _ _"] abind_Inr_iff [of "reset_login_throttle _"] aret_iff)
      (elim exE conjE, rule that, assumption+, auto simp: reset_login_throttle_def)
qed

end
