(* ===== verification/Auth_Sample.thy ===== *)
theory Auth_Sample
  imports Auth_Steps
begin

text \<open>
  Concrete surroundings and a concrete store for the witnesses: addresses parse to themselves, digests are
  the reversed text filled up to 32 bytes, a TOTP code is valid when it is the secret.
\<close>

definition sample_env :: auth_env where
  "sample_env =
     \<lparr>ax_parse_address = Some, ax_lower = id, ax_fold = (=), ax_sha = (\<lambda>x. take 32 (rev x @ replicate 32 (CHR ''#''))),
      ax_argon2 = (\<lambda>p s i m l n. take (nat n) (p @ s @ replicate (nat n) (CHR ''x''))), ax_pbkdf2 = (\<lambda>p s i n. p),
      ax_turnstile = (\<lambda>_ _. None), ax_validate_totp = (\<lambda>code secret now. Inr (code = secret)),
      ax_seal = (\<lambda>k n p a. p), ax_unseal = (\<lambda>k n c a. Some c), ax_parse_uuid = (\<lambda>s. Some (7, s))\<rparr>"

definition sample_config :: auth_config where
  "sample_config =
     \<lparr>cf_allowed_registration_domains = [], cf_email_login_enabled = True, cf_email_register_enabled = True,
      cf_email_verification_required = False, cf_email_verification_ttl = 600, cf_external_sso_enabled = True,
      cf_external_sso_auto_provision = True, cf_session_ttl = 1000, cf_totp_enabled = True, cf_totp_issuer = ''A'',
      cf_totp_replay_cache_duration = 30, cf_passkey_enabled = True, cf_turnstile_enabled = False,
      cf_turnstile_login_mode = ''always'', cf_totp_keyring = None\<rparr>"

definition sample_fresh :: fresh_values where
  "sample_fresh =
     \<lparr>fv_token = Some ''token'', fv_session_id = ''s1'', fv_salt = Some ''salt'', fv_user_id = Some ''u1'',
      fv_code = Some 42, fv_cipher = \<lparr>rn_data_key = None, rn_data_key_nonce = None, rn_payload_nonce = None\<rparr>\<rparr>"

definition sample_user :: user_record where
  "sample_user =
     \<lparr>us_id = ''u1'', us_email = ''a@b.c'', us_status = UserStatusActive, us_email_verified = True,
      us_totp_enabled = True, us_base_currency = ''USD'', us_created_at = 1, us_updated_at = 1,
      ur_password_hash = (case hash_password (ax_argon2 sample_env) (Some ''salt'') ''password'' of Inr h \<Rightarrow> h | Inl _ \<Rightarrow> []),
      ur_totp_secret = ''123456'', ur_external_sso_subject = []\<rparr>"

definition sample_auth_store :: auth_store where
  "sample_auth_store = new_auth_store\<lparr>users_by_id := [(''u1'', sample_user)], user_ids_by_email := [(''a@b.c'', ''u1'')]\<rparr>"

definition sample_login :: "string \<Rightarrow> string \<Rightarrow> login_request" where
  "sample_login password code =
     \<lparr>lg_email = ''a@b.c'', lg_password = password, lg_totp_code = code, lg_turnstile_token = [], lg_remote_ip = []\<rparr>"

lemma sample_auth_store_ok: "auth_ok sample_auth_store"
proof -
  have "trim_space ''USD'' \<noteq> []" by code_simp
  then show ?thesis
    by (auto simp: auth_ok_def sample_auth_store_def new_auth_store_def users_ok_def sessions_ok_def passkeys_ok_def
        codes_ok_def keys_ok_def sample_user_def)
qed

text \<open>What the handlers read of the sample.\<close>

lemma sample_password:
  "verify_password (ax_argon2 sample_env) (ax_pbkdf2 sample_env) ''password'' (ur_password_hash sample_user) = Inr True"
  "verify_password (ax_argon2 sample_env) (ax_pbkdf2 sample_env) ''Password'' (ur_password_hash sample_user) = Inr False"
  "needs_password_rehash (ur_password_hash sample_user) = Inr False"
proof -
  have "validate_password ''password'' = Inr ()" by code_simp
  moreover have "length (ax_argon2 sample_env p s i m l n) = nat n" for p s i m l n by (simp add: sample_env_def)
  ultimately obtain h where h: "hash_password (ax_argon2 sample_env) (Some ''salt'') ''password'' = Inr h"
    "password_hash_algorithm h = Inr password_algorithm_argon2id"
    "parse_argon2id_hash h =
      Inr (\<lparr>pp_version = 19, pp_memory_kib = 19456, pp_iterations = 2, pp_parallelism = 1, pp_key_length = 32\<rparr>,
           ''salt'', ax_argon2 sample_env ''password'' ''salt'' 2 19456 1 32)"
    using fresh_hash [of "''password''" "ax_argon2 sample_env" "''salt''"] by blast
  have "ur_password_hash sample_user = h" using h(1) by (simp add: sample_user_def)
  moreover have "ax_argon2 sample_env ''Password'' ''salt'' 2 19456 1 32 \<noteq> ax_argon2 sample_env ''password'' ''salt'' 2 19456 1 32"
    by (simp add: sample_env_def)
  ultimately show
    "verify_password (ax_argon2 sample_env) (ax_pbkdf2 sample_env) ''password'' (ur_password_hash sample_user) = Inr True"
    "verify_password (ax_argon2 sample_env) (ax_pbkdf2 sample_env) ''Password'' (ur_password_hash sample_user) = Inr False"
    "needs_password_rehash (ur_password_hash sample_user) = Inr False"
    using h(2,3) by (simp_all add: verify_password_def needs_password_rehash_def)
qed

lemma sample_email: "normalize_email sample_env ''a@b.c'' = Inr ''a@b.c''"
  by code_simp

lemma sample_fields [simp]:
  "us_id sample_user = ''u1''" "us_email sample_user = ''a@b.c''" "us_status sample_user = UserStatusActive"
  "us_totp_enabled sample_user" "ur_totp_secret sample_user = ''123456''" "ur_external_sso_subject sample_user = []"
  by (simp_all add: sample_user_def)

lemma sample_found: "user_by_email ''a@b.c'' sample_auth_store = Inr sample_user" "user_by_id ''u1'' sample_auth_store = Inr sample_user"
proof -
  have "clone_user_record sample_user = sample_user"
  proof -
    have "trim_space ''USD'' \<noteq> []" by code_simp
    then show ?thesis by (simp add: clone_user_record_def sample_user_def)
  qed
  then show "user_by_email ''a@b.c'' sample_auth_store = Inr sample_user" "user_by_id ''u1'' sample_auth_store = Inr sample_user"
    by (simp_all add: user_by_email_def user_by_id_def sample_auth_store_def)
qed

text \<open>A right code is accepted and marked.\<close>

definition sample_totp_store :: auth_store where
  "sample_totp_store = sample_auth_store\<lparr>totp_replays := [((''u1'', hash_totp_code sample_env ''u1'' ''123456''), 5 + totp_validity_window)]\<rparr>"

lemma sample_totp: "verify_totp_code sample_env sample_config 5 sample_user ''123456'' sample_auth_store = (Inr (), sample_totp_store)"
proof -
  have "decrypt_totp_secret sample_env None ''u1'' ''123456'' = Inr ''123456''" by code_simp
  moreover have "validate_totp_value sample_env 5 ''123456'' ''123456'' = Inr ()" by code_simp
  moreover have "cf_totp_keyring sample_config = None" "cf_totp_replay_cache_duration sample_config < totp_validity_window"
    by (simp_all add: sample_config_def totp_validity_window_def second_def)
  ultimately show ?thesis
    by (simp add: verify_totp_code_def act_defs below_max_failures_def failed_totp_count_def sample_auth_store_def
        sample_totp_store_def new_auth_store_def totp_replay_exists_def store_totp_replay_def reset_failed_totp_def
        Let_def)
qed

end
