(* ===== verification/Auth_Properties.thy ===== *)
theory Auth_Properties
  imports Auth_Login Auth_Sample
begin

text \<open>
  The properties of authentication: the invariant of its store, logins, throttling, email codes, the second
  factor, external sign-on and sessions, with their witnesses.
\<close>

section \<open>The store\<close>

text \<open>C16. In every store that requests can reach, the index of email addresses names exactly the stored users,
  every session belongs to an active user with the address of the session, the index of credential ids
  names exactly the stored passkeys, every passkey belongs to a stored user, and every stored email code
  has fewer than five failed attempts.\<close>

theorem auth_invariant:
  assumes "auth_reachable env wa cfg s"
  shows "(\<forall>e i. map_of (user_ids_by_email s) e = Some i \<longleftrightarrow> (\<exists>u. map_of (users_by_id s) i = Some u \<and> us_email u = e)) \<and>
    (\<forall>h se. map_of (sessions s) h = Some se \<longrightarrow>
      (\<exists>u. map_of (users_by_id s) (se_user_id se) = Some u \<and> us_status u = UserStatusActive \<and> us_email u = se_user_email se)) \<and>
    (\<forall>c i. map_of (passkey_ids_by_credential_id s) c = Some i \<longleftrightarrow>
      (\<exists>p. map_of (passkeys_by_id s) i = Some p \<and> pk_credential_id p = c)) \<and>
    (\<forall>i p. map_of (passkeys_by_id s) i = Some p \<longrightarrow> map_of (users_by_id s) (pk_user_id p) \<noteq> None) \<and>
    (\<forall>k c. map_of (email_codes s) k = Some c \<longrightarrow> (ec_email c, ec_purpose c) = k \<and> 0 \<le> ec_attempts c \<and> ec_attempts c < 5)"
proof -
  have ok: "auth_ok s" by (rule auth_reachable_okI [OF assms])
  have parts: "users_ok (users_by_id s) (user_ids_by_email s)" "sessions_ok (users_by_id s) (sessions s)"
    "passkeys_ok (users_by_id s) (passkeys_by_id s) (passkey_ids_by_credential_id s)" "codes_ok (email_codes s)"
    using ok by (simp_all add: auth_ok_def)
  then have "(ec_email c, ec_purpose c) = k" if "map_of (email_codes s) k = Some c" for k c
    using that keys_ok_lookup [of _ "email_codes s" k c] by (auto simp: codes_ok_def)
  moreover have "\<forall>k c. map_of (email_codes s) k = Some c \<longrightarrow> 0 \<le> ec_attempts c \<and> ec_attempts c < 5"
    using parts(4) by (simp add: codes_ok_def)
  ultimately have "\<forall>k c. map_of (email_codes s) k = Some c \<longrightarrow>
      (ec_email c, ec_purpose c) = k \<and> 0 \<le> ec_attempts c \<and> ec_attempts c < 5" by blast
  moreover have "\<forall>e i. map_of (user_ids_by_email s) e = Some i \<longleftrightarrow> (\<exists>u. map_of (users_by_id s) i = Some u \<and> us_email u = e)"
    using parts(1) unfolding users_ok_def by (elim conjE)
  moreover have "\<forall>h se. map_of (sessions s) h = Some se \<longrightarrow>
      (\<exists>u. map_of (users_by_id s) (se_user_id se) = Some u \<and> us_status u = UserStatusActive \<and> us_email u = se_user_email se)"
    using parts(2) unfolding sessions_ok_def by blast
  moreover have "\<forall>c i. map_of (passkey_ids_by_credential_id s) c = Some i \<longleftrightarrow>
      (\<exists>p. map_of (passkeys_by_id s) i = Some p \<and> pk_credential_id p = c)"
    using parts(3) unfolding passkeys_ok_def by (elim conjE)
  moreover have "\<forall>i p. map_of (passkeys_by_id s) i = Some p \<longrightarrow> map_of (users_by_id s) (pk_user_id p) \<noteq> None"
    using parts(3) unfolding passkeys_ok_def by (elim conjE)
  ultimately show ?thesis by (intro conjI)
qed

definition sample_registration :: register_request where
  "sample_registration = \<lparr>rg_email = ''a@b.c'', rg_password = ''password'', rg_turnstile_token = [], rg_remote_ip = []\<rparr>"

definition sample_step :: auth_store where
  "sample_step = snd (register sample_env sample_config sample_fresh 5 sample_registration new_auth_store)"

lemma sample_step_reachable: "auth_reachable sample_env wa sample_config sample_step"
  unfolding auth_reachable_def sample_step_def
  by (rule exI [of _ 6], rule path_step [OF path_refl register_step [where now = 5]], simp)

definition sample_registered :: user_record where
  "sample_registered =
     \<lparr>us_id = ''u1'', us_email = ''a@b.c'', us_status = UserStatusActive, us_email_verified = True,
      us_totp_enabled = False, us_base_currency = ''USD'', us_created_at = 5, us_updated_at = 5,
      ur_password_hash = ur_password_hash sample_user, ur_totp_secret = [], ur_external_sso_subject = []\<rparr>"

lemma sample_step_eq:
  "sample_step = new_auth_store\<lparr>users_by_id := [(''u1'', sample_registered)], user_ids_by_email := [(''a@b.c'', ''u1'')]\<rparr>"
proof -
  have "validate_password ''password'' = Inr ()" by code_simp
  then obtain h where h: "hash_password (ax_argon2 sample_env) (Some ''salt'') ''password'' = Inr h"
    by (simp add: hash_password_def)
  have hash: "ur_password_hash sample_user = h" by (simp add: sample_user_def h)
  have usd: "trim_space ''USD'' \<noteq> []" by code_simp
  show ?thesis
    by (simp add: sample_step_def register_def sample_registration_def sample_config_def sample_fresh_def
        act_defs require_turnstile_def sample_email validate_registration_domain_def failed_def drawn_def h
        create_user_def new_auth_store_def sample_registered_def clone_user_record_def usd default_base_currency_def hash)
qed

lemma sample_registered_found: "user_by_email ''a@b.c'' sample_step = Inr sample_registered"
proof -
  have "trim_space ''USD'' \<noteq> []" by code_simp
  then have "clone_user_record sample_registered = sample_registered" by (simp add: clone_user_record_def sample_registered_def)
  then show ?thesis by (simp add: sample_step_eq user_by_email_def)
qed

theorem auth_invariant_witness:
  "map_of (user_ids_by_email sample_step) ''a@b.c'' = Some ''u1'' \<and>
   (\<exists>u. map_of (users_by_id sample_step) ''u1'' = Some u \<and> us_email u = ''a@b.c'')"
proof -
  have "map_of (user_ids_by_email sample_step) ''a@b.c'' = Some ''u1''" by (simp add: sample_step_eq)
  moreover have "map_of (user_ids_by_email sample_step) e = Some i \<longleftrightarrow>
      (\<exists>u. map_of (users_by_id sample_step) i = Some u \<and> us_email u = e)" for e i
    using auth_invariant [OF sample_step_reachable] by blast
  ultimately show ?thesis by blast
qed

section \<open>Login\<close>

text \<open>C17. A login that creates a session was not locked out, named a stored active user by its normalised address
  and gave the password that the stored hash verifies; when TOTP is on for the user and the service, the
  code was verified. The session is that user's, lasts for the configured time, is stored under the hash
  of the token alone, and the failures counted for the address are forgotten.\<close>

theorem login_needs_credentials:
  assumes "login env cfg fr now request s = (Inr res, t)" and "ar_session res = Some se"
  shows "\<exists>email u. normalize_email env (lg_email request) = Inr email \<and> user_by_email email s = Inr u \<and>
    us_status u = UserStatusActive \<and> lt_locked_until (login_throttle_of email s) \<le> now \<and>
    verify_password (ax_argon2 env) (ax_pbkdf2 env) (lg_password request) (ur_password_hash u) = Inr True \<and>
    (us_totp_enabled u \<and> cf_totp_enabled cfg \<longrightarrow>
      (\<exists>s'. verify_totp_code env cfg now u (lg_totp_code request) s = (Inr (), s'))) \<and>
    se_user_id se = us_id u \<and> se_user_email se = us_email u \<and> se_expires_at se = now + cf_session_ttl cfg \<and>
    map_of (sessions t) (hash_session_token env (ar_session_token res)) = Some se \<and>
    map_of (login_throttles t) email = None"
proof -
  obtain email u s1 v s2 s3 where pre: "normalize_email env (lg_email request) = Inr email"
    "reject_locked_login now email s = Inr ()" "user_by_email email s = Inr u"
    "verify_password (ax_argon2 env) (ax_pbkdf2 env) (lg_password request) (ur_password_hash u) = Inr True"
    "us_status u = UserStatusActive"
    and run: "if us_totp_enabled u \<and> cf_totp_enabled cfg
        then verify_totp_code env cfg now u (lg_totp_code request) s = (Inr (), s1) else s1 = s"
    "v = u \<and> s2 = s1 \<or> (\<exists>h. update_user (u\<lparr>ur_password_hash := h, us_updated_at := now\<rparr>) s1 = (Inr v, s2))"
    "create_session env cfg fr now v s2 = (Inr res, s3)" "t = snd (reset_login_throttle email s3)"
    by (rule login_session [OF assms])
  have v: "us_id v = us_id u" "us_email v = us_email u" using run(2) by (auto dest!: update_user_Inr)
  have "lt_locked_until (login_throttle_of email s) \<le> now"
    using pre(2) by (auto simp: reject_locked_login_def Let_def split: if_splits)
  then show ?thesis
    using pre run(1,3,4) assms(2)
    by (intro exI [of _ email] exI [of _ u])
      (auto simp: create_session_Inr_iff v reset_login_throttle_def update_conv' delete_conv')
qed

text \<open>The sample login with the right password and code.\<close>

definition sample_token :: string where
  "sample_token = encode_to_string url_alphabet ''token''"

definition sample_session :: session where
  "sample_session =
     \<lparr>se_id = ''s1'', se_user_id = ''u1'', se_user_email = ''a@b.c'', se_status = UserStatusActive,
      se_expires_at = 1005, se_created_at = 5\<rparr>"

definition sample_result :: auth_result where
  "sample_result = \<lparr>ar_user = user.truncate sample_user, ar_session = Some sample_session,
     ar_session_token = sample_token, ar_totp_required = False\<rparr>"

definition sample_logged_in :: auth_store where
  "sample_logged_in = sample_totp_store\<lparr>sessions := [(hash_session_token sample_env sample_token, sample_session)]\<rparr>"

lemma sample_settings [simp]:
  "cf_email_login_enabled sample_config" "cf_totp_enabled sample_config" "cf_session_ttl sample_config = 1000"
  "\<not> cf_turnstile_enabled sample_config" "cf_external_sso_enabled sample_config" "cf_external_sso_auto_provision sample_config"
  by (simp_all add: sample_config_def)

lemma sample_not_locked: "reject_locked_login 5 ''a@b.c'' sample_auth_store = Inr ()"
  by (simp add: reject_locked_login_def login_throttle_of_def sample_auth_store_def new_auth_store_def zero_time_def)

lemma sample_request [simp]:
  "lg_email (sample_login p c) = ''a@b.c''" "lg_password (sample_login p c) = p" "lg_totp_code (sample_login p c) = c"
  by (simp_all add: sample_login_def)

lemma sample_session_made:
  "create_session sample_env sample_config sample_fresh 5 sample_user sample_totp_store = (Inr sample_result, sample_logged_in)"
  by (simp add: create_session_Inr_iff sample_result_def sample_token_def new_session_token_def drawn_def sample_fresh_def
      sample_session_def sample_logged_in_def sample_totp_store_def sample_auth_store_def new_auth_store_def)

lemma sample_login_run:
  "login sample_env sample_config sample_fresh 5 (sample_login ''password'' ''123456'') sample_auth_store =
    (Inr sample_result, sample_logged_in)"
proof -
  have code: "trim_space ''123456'' \<noteq> []" by code_simp
  have reset: "reset_login_throttle ''a@b.c'' sample_logged_in = (Inr (), sample_logged_in)"
    by (simp add: reset_login_throttle_def sample_logged_in_def sample_totp_store_def sample_auth_store_def new_auth_store_def)
  show ?thesis
    by (simp add: login_def act_defs or_error_def sample_email sample_not_locked require_login_turnstile_def aif_found_def
        sample_found sample_password failed_def code sample_totp sample_session_made reset)
qed

theorem login_needs_credentials_witness:
  "verify_password (ax_argon2 sample_env) (ax_pbkdf2 sample_env) ''password'' (ur_password_hash sample_user) = Inr True \<and>
   (\<exists>s'. verify_totp_code sample_env sample_config 5 sample_user ''123456'' sample_auth_store = (Inr (), s')) \<and>
   map_of (sessions sample_logged_in) (hash_session_token sample_env (ar_session_token sample_result)) = Some sample_session"
  using login_needs_credentials [OF sample_login_run, of sample_session]
  by (simp add: sample_result_def sample_email sample_found)

text \<open>C18. A wrong password is refused and counted. With \<open>n \<ge> 5\<close> failures counted before, the address is
  then locked: until one minute doubled \<open>n - 5\<close> times, at most an hour, has passed, every login with
  it is refused, also one with the right password, and changes nothing.\<close>

theorem login_lockout:
  assumes "cf_email_login_enabled cfg" and "normalize_email env (lg_email request) = Inr email"
    and "reject_locked_login now email s = Inr ()"
    and "require_login_turnstile env cfg email (lg_turnstile_token request) (lg_remote_ip request) s = Inr ()"
    and "user_by_email email s = Inr u"
    and "verify_password (ax_argon2 env) (ax_pbkdf2 env) (lg_password request) (ur_password_hash u) = Inr False"
    and "trim_space email \<noteq> []"
    and n: "n = lt_failed_count (login_throttle_of email s)" "5 \<le> n" "n < 2 ^ 62"
    and "normalize_email env (lg_email request') = Inr email"
    and until: "now' < now + min hour (minute * 2 ^ nat (n - 5))"
  shows "\<exists>t. login env cfg fr now request s = (Inl ErrInvalidCredentials, t) \<and>
    lt_failed_count (login_throttle_of email t) = n + 1 \<and>
    login env cfg fr' now' request' t =
      (Inl (LoginLocked (now + min hour (minute * 2 ^ nat (n - 5)) - now')), t)"
proof -
  obtain t where t: "record_failed_login now email s = (Inr (), t)"
    using assms(7) by (auto simp: record_failed_login_def act_defs store_login_throttle_def Let_def)
  have count: "int64 (n + 1) = n + 1" using n by (simp add: int64_id in_int64_def)
  have positive: "0 < login_lock_duration (n + 1)" using n(2) by (simp add: login_lock_duration_eq hour_def minute_def second_def)
  have lock: "login_lock_duration (n + 1) = min hour (minute * 2 ^ nat (n - 5))"
    using n(2) by (simp add: login_lock_duration_eq)
  have throttle: "lt_failed_count (login_throttle_of email t) = n + 1"
    "lt_locked_until (login_throttle_of email t) = now + min hour (minute * 2 ^ nat (n - 5))"
    using recorded_throttle [OF t] positive by (simp_all add: n(1) [symmetric] count lock)
  have "login env cfg fr now request s = (Inl ErrInvalidCredentials, t)"
    using wrong_password [OF assms(1-6)] t by (simp add: act_defs)
  moreover have "login env cfg fr' now' request' t =
      (Inl (LoginLocked (now + min hour (minute * 2 ^ nat (n - 5)) - now')), t)"
    using locked_login_refused [OF assms(1) assms(11), of now' t] until by (simp add: throttle(2))
  ultimately show ?thesis using throttle(1) by blast
qed

definition sample_failures :: auth_store where
  "sample_failures = sample_auth_store\<lparr>login_throttles :=
     [(''a@b.c'', \<lparr>lt_email = ''a@b.c'', lt_failed_count = 6, lt_locked_until = 4, lt_updated_at = 1\<rparr>)]\<rparr>"

theorem login_lockout_witness:
  "\<exists>t. login sample_env sample_config sample_fresh 5 (sample_login ''Password'' []) sample_failures =
      (Inl ErrInvalidCredentials, t) \<and>
    login sample_env sample_config sample_fresh 6 (sample_login ''password'' ''123456'') t =
      (Inl (LoginLocked (2 * minute - 1)), t)"
proof -
  have nonempty: "trim_space ''a@b.c'' \<noteq> []" by code_simp
  have found: "user_by_email ''a@b.c'' sample_failures = Inr sample_user"
    using sample_found(1) by (simp add: sample_failures_def user_by_email_def cong: option.case_cong)
  have free: "reject_locked_login 5 ''a@b.c'' sample_failures = Inr ()"
    by (simp add: reject_locked_login_def login_throttle_of_def sample_failures_def)
  have bound: "min hour (minute * 2) = 2 * minute" by (simp add: hour_def minute_def second_def)
  have later: "(6 :: int) < 5 + min hour (minute * 2 ^ nat (6 - 5))" by (simp add: hour_def minute_def second_def)
  have turnstile: "require_login_turnstile sample_env sample_config ''a@b.c'' x y sample_failures = Inr ()" for x y
    by (simp add: require_login_turnstile_def)
  have count: "6 = lt_failed_count (login_throttle_of ''a@b.c'' sample_failures)"
    by (simp add: sample_failures_def login_throttle_of_def)
  have email: "normalize_email sample_env (lg_email (sample_login p c)) = Inr ''a@b.c''" for p c by (simp add: sample_email)
  have wrong: "verify_password (ax_argon2 sample_env) (ax_pbkdf2 sample_env) (lg_password (sample_login ''Password'' []))
      (ur_password_hash sample_user) = Inr False" by (simp add: sample_password)
  obtain t where "login sample_env sample_config sample_fresh 5 (sample_login ''Password'' []) sample_failures =
      (Inl ErrInvalidCredentials, t)"
    "login sample_env sample_config sample_fresh 6 (sample_login ''password'' ''123456'') t =
      (Inl (LoginLocked (5 + min hour (minute * 2 ^ nat (6 - 5)) - 6)), t)"
    using login_lockout [OF sample_settings(1) email free turnstile found wrong nonempty count _ _
        email [of "''password''" "''123456''"] later, of sample_fresh sample_fresh] by auto
  then show ?thesis by (auto simp: bound)
qed

section \<open>Email codes\<close>

text \<open>C19. An email code cannot be searched: from any reachable store, after five wrong guesses at whatever times
  the code is gone, and then every guess, also the right one, is refused.\<close>

theorem email_code_guesses:
  assumes "auth_reachable env wa cfg s" and "map_of (email_codes s) (e, p) = Some c"
    and "\<forall>(now, code) \<in> set guesses. trim_space code \<noteq> [] \<and> hash_email_code env e p code \<noteq> ec_code_hash c"
    and "5 \<le> length guesses"
  shows "consume_email_code env now e p code (guess_codes env e p guesses s) =
    (Inl ErrInvalidCredentials, guess_codes env e p guesses s)"
proof -
  have ok: "auth_ok s" by (rule auth_reachable_okI [OF assms(1)])
  then have "0 \<le> ec_attempts c" using assms(2) by (auto simp: auth_ok_def codes_ok_def)
  then have "map_of (email_codes (guess_codes env e p guesses s)) (e, p) = None"
    using guesses_exhaust [OF ok assms(2,3)] assms(4) by simp
  then show ?thesis by (rule consume_missing)
qed

definition sample_code :: email_code_record where
  "sample_code =
     \<lparr>ec_email = ''a@b.c'', ec_purpose = EmailCodePurposePasswordReset,
      ec_code_hash = hash_email_code sample_env ''a@b.c'' EmailCodePurposePasswordReset ''000042'',
      ec_expires_at = 605, ec_created_at = 5, ec_used_at = None, ec_attempts = 0\<rparr>"

definition sample_code_store :: auth_store where
  "sample_code_store = snd (request_password_reset sample_env sample_config sample_fresh 5 None ''a@b.c'' sample_step)"

lemma sample_code_store_eq:
  "sample_code_store = sample_step\<lparr>email_codes := [((''a@b.c'', EmailCodePurposePasswordReset), sample_code)]\<rparr>"
proof -
  have code: "new_email_code sample_fresh = Inr ''000042''" by code_simp
  have empty: "email_codes sample_step = []" by (simp add: sample_step_eq new_auth_store_def)
  have active: "us_status sample_registered = UserStatusActive" by (simp add: sample_registered_def)
  show ?thesis
    by (simp add: sample_code_store_def request_password_reset_def act_defs sample_email aif_found_def
        sample_registered_found active code empty create_email_code_def store_email_code_def sample_config_def
        sample_code_def send_auth_code_def)
qed

lemma sample_code_store_reachable: "auth_reachable sample_env wa sample_config sample_code_store"
  unfolding auth_reachable_def sample_code_store_def sample_step_def
  by (rule exI [of _ 6], rule path_step [OF path_step [OF path_refl register_step [where now = 5]] request_reset_step [where now = 5]])
    simp_all

lemma sample_guess:
  "trim_space ''111111'' \<noteq> []"
  "hash_email_code sample_env ''a@b.c'' EmailCodePurposePasswordReset ''111111'' \<noteq> ec_code_hash sample_code"
  by code_simp+

theorem email_code_guesses_witness:
  "fst (consume_email_code sample_env 7 ''a@b.c'' EmailCodePurposePasswordReset ''000042''
     (guess_codes sample_env ''a@b.c'' EmailCodePurposePasswordReset (replicate 5 (6, ''111111'')) sample_code_store)) =
   Inl ErrInvalidCredentials"
  using email_code_guesses [OF sample_code_store_reachable, of _ _ sample_code "replicate 5 (6, ''111111'')"] sample_guess
  by (simp add: sample_code_store_eq)

text \<open>C20. A password reset succeeds only with the stored, unexpired code of the address of an active user, and then
  it changes exactly four things: the user's password hash, the code, which is used up, the failed logins
  of the address, which are forgotten, and the sessions of the user, which all end.\<close>

theorem password_reset_exact:
  assumes "auth_reachable env wa cfg s" and "confirm_password_reset env fr now email code password s = (Inr x, t)"
  shows "\<exists>e c u h. normalize_email env email = Inr e \<and> hash_password (ax_argon2 env) (fv_salt fr) password = Inr h \<and>
    map_of (email_codes s) (e, EmailCodePurposePasswordReset) = Some c \<and> now < ec_expires_at c \<and>
    hash_email_code env e EmailCodePurposePasswordReset code = ec_code_hash c \<and>
    user_by_email e s = Inr u \<and> us_status u = UserStatusActive \<and>
    t = s\<lparr>users_by_id := AList.update (us_id u) (u\<lparr>ur_password_hash := h, us_updated_at := now\<rparr>) (users_by_id s),
      email_codes := AList.delete (e, EmailCodePurposePasswordReset) (email_codes s),
      login_throttles := AList.delete e (login_throttles s),
      sessions := filter (\<lambda>(_, se). se_user_id se \<noteq> us_id u) (sessions s)\<rparr>"
  by (rule password_reset_success [OF auth_reachable_okI [OF assms(1)] assms(2)]) blast

lemma sample_reset_run:
  "\<exists>x t. confirm_password_reset sample_env sample_fresh 6 ''a@b.c'' ''000042'' ''password'' sample_code_store = (Inr x, t)"
proof -
  have "validate_password ''password'' = Inr ()" by code_simp
  then obtain h where h: "hash_password (ax_argon2 sample_env) (Some ''salt'') ''password'' = Inr h"
    by (simp add: hash_password_def)
  have code: "trim_space ''000042'' \<noteq> []" by code_simp
  have found: "user_by_email ''a@b.c'' (sample_step\<lparr>email_codes := c\<rparr>) = Inr sample_registered" for c
    using sample_registered_found by (simp add: user_by_email_def cong: option.case_cong)
  have right: "hash_email_code sample_env ''a@b.c'' EmailCodePurposePasswordReset ''000042'' = ec_code_hash sample_code"
    by (simp add: sample_code_def)
  have "6 < ec_expires_at sample_code" by (simp add: sample_code_def)
  then have consumed: "consume_email_code sample_env 6 ''a@b.c'' EmailCodePurposePasswordReset ''000042'' sample_code_store =
      (Inr (), sample_step\<lparr>email_codes := []\<rparr>)"
    by (simp add: consume_email_code_def act_defs code sample_code_store_eq email_code_def or_error_def right
        delete_email_code_def)
  have active: "us_status sample_registered = UserStatusActive" "us_id sample_registered = ''u1''"
    "us_email sample_registered = ''a@b.c''" by (simp_all add: sample_registered_def)
  have salt: "fv_salt sample_fresh = Some ''salt''" by (simp add: sample_fresh_def)
  obtain w w' where updated: "update_user (sample_registered\<lparr>ur_password_hash := h, us_updated_at := 6\<rparr>)
      (sample_step\<lparr>email_codes := []\<rparr>) = (Inr w, w')"
    by (simp add: update_user_def active sample_step_eq)
  show ?thesis
    by (simp add: confirm_password_reset_def act_defs sample_email or_error_def h failed_def consumed found active salt
        updated reset_login_throttle_def delete_sessions_by_user_def)
qed

theorem password_reset_exact_witness:
  "\<exists>x t. confirm_password_reset sample_env sample_fresh 6 ''a@b.c'' ''000042'' ''password'' sample_code_store = (Inr x, t) \<and>
    email_codes t = [] \<and> user_ids_by_email t = [(''a@b.c'', ''u1'')]"
proof -
  obtain x t where run: "confirm_password_reset sample_env sample_fresh 6 ''a@b.c'' ''000042'' ''password'' sample_code_store = (Inr x, t)"
    using sample_reset_run by blast
  obtain e where "normalize_email sample_env ''a@b.c'' = Inr e"
    "email_codes t = AList.delete (e, EmailCodePurposePasswordReset) (email_codes sample_code_store)"
    "user_ids_by_email t = user_ids_by_email sample_code_store"
    using password_reset_exact [OF sample_code_store_reachable run] by auto
  then have "email_codes t = [] \<and> user_ids_by_email t = [(''a@b.c'', ''u1'')]"
    by (simp add: sample_email sample_code_store_eq sample_step_eq)
  then show ?thesis using run by blast
qed

section \<open>The second factor\<close>

text \<open>C21. A TOTP code that was accepted is not accepted again for the user while it could still be valid, or for
  the configured time if that is longer, whatever requests come between.\<close>

theorem totp_no_replay:
  assumes "verify_totp_code env cfg now u code s = (Inr x, s')"
    and "auth_path env wa cfg until s' t"
    and "until \<le> now + max totp_validity_window (cf_totp_replay_cache_duration cfg)" and "now' < until"
    and "us_id v = us_id u" and "trim_space code' = trim_space code"
  shows "fst (verify_totp_code env cfg now' v code' t) = Inl ErrInvalidCredentials"
proof -
  let ?h = "hash_totp_code env (us_id u) code" and ?e = "now + max totp_validity_window (cf_totp_replay_cache_duration cfg)"
  have h: "hash_totp_code env (us_id u) code' = ?h" by (simp add: hash_totp_code_def assms(6))
  have "totp_marked (us_id u) ?h ?e now'' s'" for now'' by (rule verified_code_marked [OF assms(1)])
  then have marked: "totp_marked (us_id u) ?h ?e now' t" by (rule marked_path [OF assms(2,3)])
  have "now' < ?e" using assms(3,4) by simp
  from marked_rejected [OF marked this assms(5) h] show ?thesis by simp
qed

theorem totp_no_replay_witness:
  "fst (verify_totp_code sample_env sample_config 6 sample_user ''123456'' sample_totp_store) = Inl ErrInvalidCredentials"
proof -
  have later: "7 \<le> 5 + max totp_validity_window (cf_totp_replay_cache_duration sample_config)"
    by (simp add: totp_validity_window_def second_def)
  show ?thesis using totp_no_replay [OF sample_totp path_refl later, of 6 sample_user "''123456''"] by simp
qed

text \<open>C22. Five failed TOTP codes lock the second factor of a user for good: after any further requests, every code
  is refused, a login with the password of a user with TOTP on never gives a session, and TOTP cannot be
  turned off.\<close>

theorem totp_lockout_permanent:
  assumes "5 \<le> failed_totp_count (us_id u) s" and "auth_path env wa cfg until s t"
    and "normalize_email env (lg_email request) = Inr email" and "user_by_email email t = Inr u"
    and "us_totp_enabled u" and "cf_totp_enabled cfg"
  shows "verify_totp_code env cfg now u code t = (Inl ErrInvalidCredentials, t) \<and>
    (\<forall>res t'. login env cfg fr now request t = (Inr res, t') \<longrightarrow> ar_session res = None) \<and>
    (aa_user_id actor = us_id u \<and> user_by_id (us_id u) t = Inr u \<longrightarrow> \<not> is_ok (fst (disable_totp env cfg now actor code t)))"
proof (intro conjI allI impI)
  have locked: "totp_locked (us_id u) t" by (rule locked_path [OF assms(2)]) (simp add: totp_locked_def assms(1))
  then show refused: "verify_totp_code env cfg now u code t = (Inl ErrInvalidCredentials, t)"
    by (rule locked_verify_fails)
  show "ar_session res = None" if "login env cfg fr now request t = (Inr res, t')" for res t'
  proof (rule ccontr)
    assume "ar_session res \<noteq> None"
    then obtain se where "ar_session res = Some se" by blast
    from login_session [OF that this] show False
      using assms(3-6) locked_verify_fails [OF locked] by (metis Inl_Inr_False Inr_inject Pair_inject)
  qed
  show "\<not> is_ok (fst (disable_totp env cfg now actor code t))"
    if "aa_user_id actor = us_id u \<and> user_by_id (us_id u) t = Inr u"
    using that locked_verify_fails [OF locked, of env cfg now code] assms(5,6) by (auto simp: disable_totp_def act_defs is_ok_def)
qed

definition sample_locked :: auth_store where
  "sample_locked = sample_auth_store\<lparr>failed_totps := [(''u1'', 5)]\<rparr>"

theorem totp_lockout_permanent_witness:
  "verify_totp_code sample_env sample_config 100 sample_user ''123456'' sample_locked = (Inl ErrInvalidCredentials, sample_locked) \<and>
   \<not> (\<exists>res t'. login sample_env sample_config sample_fresh 100 (sample_login ''password'' ''123456'') sample_locked = (Inr res, t') \<and>
      ar_session res \<noteq> None)"
proof -
  have found: "user_by_email ''a@b.c'' sample_locked = Inr sample_user"
    using sample_found(1) by (simp add: sample_locked_def user_by_email_def cong: option.case_cong)
  have count: "5 \<le> failed_totp_count (us_id sample_user) sample_locked"
    by (simp add: failed_totp_count_def sample_locked_def)
  have email: "normalize_email sample_env (lg_email (sample_login ''password'' ''123456'')) = Inr ''a@b.c''"
    by (simp add: sample_email)
  note locked = totp_lockout_permanent [OF count path_refl email found sample_fields(4) sample_settings(2), of 100 "''123456''" sample_fresh]
  show ?thesis
  proof (intro conjI notI)
    show "verify_totp_code sample_env sample_config 100 sample_user ''123456'' sample_locked =
        (Inl ErrInvalidCredentials, sample_locked)" by (rule conjunct1 [OF locked])
  next
    assume "\<exists>res t'. login sample_env sample_config sample_fresh 100 (sample_login ''password'' ''123456'') sample_locked = (Inr res, t') \<and>
      ar_session res \<noteq> None"
    then show False using conjunct1 [OF conjunct2 [OF locked]] by fastforce
  qed
qed

section \<open>External sign-on\<close>

text \<open>C24. A session by external sign-on is for the stored, active user with the subject as id, or else with the
  address of the token, and only if that user was bound to no subject or to this one; afterwards the user is
  bound to the subject. Without such a user one is created with the subject as id, if the service allows it.\<close>

theorem sso_binding:
  assumes "auth_reachable env wa cfg s" and "login_with_external_sso env cfg fr now validator s = (Inr res, t)"
  shows "\<exists>identity email i se u. validator = Some (Inr identity) \<and> normalize_email env (si_username identity) = Inr email \<and>
    normalize_external_sso_user_id env (si_subject identity) = Inr i \<and> ar_session res = Some se \<and>
    map_of (users_by_id t) (se_user_id se) = Some u \<and> us_status u = UserStatusActive \<and>
    (ur_external_sso_subject u = i \<or> trim_space (ur_external_sso_subject u) = i) \<and>
    (if map_of (users_by_id s) (se_user_id se) = None
     then cf_external_sso_auto_provision cfg \<and> se_user_id se = i \<and> us_email u = email
     else \<exists>v. map_of (users_by_id s) (se_user_id se) = Some v \<and> us_status v = UserStatusActive \<and>
       (us_id v = i \<or> map_of (users_by_id s) i = None \<and> us_email v = email) \<and>
       (trim_space (ur_external_sso_subject v) = [] \<or> trim_space (ur_external_sso_subject v) = i))"
  by (rule sso_bound [OF auth_reachable_okI [OF assms(1)] assms(2)])

definition sample_identity :: external_sso_identity where
  "sample_identity = \<lparr>si_subject = ''x1'', si_username = ''a@b.c'', si_display_name = []\<rparr>"

theorem sso_binding_witness:
  "\<exists>res t u. login_with_external_sso sample_env sample_config sample_fresh 6 (Some (Inr sample_identity)) sample_step = (Inr res, t) \<and>
    map_of (users_by_id t) ''u1'' = Some u \<and>
    (ur_external_sso_subject u = ''x1'' \<or> trim_space (ur_external_sso_subject u) = ''x1'')"
proof -
  have id: "normalize_external_sso_user_id sample_env (si_subject sample_identity) = Inr ''x1''" by code_simp
  have email: "normalize_email sample_env (si_username sample_identity) = Inr ''a@b.c''"
    by (simp add: sample_identity_def sample_email)
  have missing: "\<exists>e. user_by_id ''x1'' sample_step = Inl e" by (simp add: user_by_id_def sample_step_eq)
  have new: "us_status sample_registered = UserStatusActive" "trim_space (ur_external_sso_subject sample_registered) = []"
    "us_id sample_registered = ''u1''" "us_email sample_registered = ''a@b.c''"
    by (simp_all add: sample_registered_def)
  obtain w s' where updated: "update_user (sample_registered\<lparr>ur_external_sso_subject := ''x1'', us_updated_at := 6\<rparr>) sample_step =
      (Inr w, s')"
    by (simp add: update_user_def new sample_step_eq)
  then have w: "us_id w = ''u1''" by (auto dest: update_user_Inr simp: new)
  have token: "\<exists>token. new_session_token sample_fresh = Inr token"
    by (simp add: new_session_token_def drawn_def sample_fresh_def)
  obtain res t where session_made: "create_session sample_env sample_config sample_fresh 6 w s' = (Inr res, t)"
    using token by (auto simp: create_session_Inr_iff)
  have run: "login_with_external_sso sample_env sample_config sample_fresh 6 (Some (Inr sample_identity)) sample_step = (Inr res, t)"
    using missing by (auto simp: login_with_external_sso_def act_defs id email aif_found_def sample_registered_found
        create_external_sso_session_def new updated session_made)
  obtain se u where "ar_session res = Some se" "map_of (users_by_id t) (se_user_id se) = Some u"
    "ur_external_sso_subject u = ''x1'' \<or> trim_space (ur_external_sso_subject u) = ''x1''"
    using sso_binding [OF sample_step_reachable run] id by auto
  moreover have "se_user_id se = ''u1''" using calculation(1) session_made w by (auto simp: create_session_Inr_iff)
  ultimately show ?thesis using run by auto
qed

section \<open>Sessions\<close>

text \<open>C25. The token of a created session gives the session back until it expires and an error from then on. The
  token is refused once it is logged out, or all sessions of the user are; logging out other tokens, with
  another hash, changes nothing for it.\<close>

theorem session_lifetime:
  assumes "auth_ok s" and "create_session env cfg fr now u s = (Inr res, t)" and "fv_token fr \<noteq> Some []"
  shows "\<exists>se. ar_session res = Some se \<and> session_actor se = \<lparr>aa_user_id = us_id u, aa_email = us_email u, aa_status = us_status u\<rparr> \<and>
    (\<forall>later. session_from_token env later (ar_session_token res) t =
      (if later < now + cf_session_ttl cfg then Inr se else Inl (AuthFailed ''session expired''))) \<and>
    (\<forall>later. \<not> is_ok (session_from_token env later (ar_session_token res) (snd (logout env (ar_session_token res) t)))) \<and>
    (\<forall>later. us_id u = trim_space (us_id u) \<and> us_id u \<noteq> [] \<longrightarrow>
      \<not> is_ok (session_from_token env later (ar_session_token res) (snd (logout_all (us_id u) t)))) \<and>
    (\<forall>later other. hash_session_token env other \<noteq> hash_session_token env (ar_session_token res) \<longrightarrow>
      session_from_token env later (ar_session_token res) (snd (logout env other t)) =
      session_from_token env later (ar_session_token res) t)"
proof -
  let ?se = "\<lparr>se_id = fv_session_id fr, se_user_id = us_id u, se_user_email = us_email u,
        se_status = us_status u, se_expires_at = now + cf_session_ttl cfg, se_created_at = now\<rparr>"
  obtain token where token: "new_session_token fr = Inr token" "ar_session_token res = token" and se: "ar_session res = Some ?se"
    and t: "t = s\<lparr>sessions := AList.update (hash_session_token env token) ?se (sessions s)\<rparr>"
    using assms(2) by (auto simp: create_session_Inr_iff)
  have nonempty: "token \<noteq> []" by (rule session_token_nonempty [OF token(1) assms(3)])
  have rows: "distinct (map fst (sessions t))"
    using assms(1) by (auto simp: auth_ok_def sessions_ok_def t distinct_update)
  have stored: "map_of (sessions t) (hash_session_token env token) = Some ?se" by (simp add: t update_conv')
  have expiry: "session_from_token env later token t =
      (if later < now + cf_session_ttl cfg then Inr ?se else Inl (AuthFailed ''session expired''))" for later
    by (simp add: session_from_token_def nonempty session_by_token_hash_def stored)
  have one: "\<not> is_ok (session_from_token env later token (snd (logout env token t)))" for later
    by (simp add: session_from_token_def nonempty session_by_token_hash_def logout_def delete_session_def delete_conv')
  have none: "map_of (filter (\<lambda>(_, se). se_user_id se \<noteq> us_id u) (sessions t)) (hash_session_token env token) = None"
    using map_of_filter_snd [OF rows, of "\<lambda>se. se_user_id se \<noteq> us_id u"] stored by (metis (no_types, lifting) not_None_eq option.inject session.select_convs(2))
  have all: "\<not> is_ok (session_from_token env later token (snd (logout_all (us_id u) t)))"
    if "us_id u = trim_space (us_id u) \<and> us_id u \<noteq> []" for later
    using that by (auto simp: session_from_token_def nonempty session_by_token_hash_def logout_all_def Let_def
        delete_sessions_by_user_def none)
  have other: "session_from_token env later token (snd (logout env other t)) = session_from_token env later token t"
    if "hash_session_token env other \<noteq> hash_session_token env token" for later other
    using that by (simp add: session_from_token_def nonempty session_by_token_hash_def logout_def delete_session_def
        delete_conv' aret_def)
  show ?thesis
    unfolding token(2) se using expiry one all other by (auto simp: session_actor_def)
qed

lemma sample_totp_store_ok: "auth_ok sample_totp_store"
  by (rule keepsD [OF keeps_ok [OF verify_totp_code_keeps] sample_auth_store_ok sample_totp])

theorem session_lifetime_witness:
  "session_from_token sample_env 1004 sample_token sample_logged_in = Inr sample_session \<and>
   session_from_token sample_env 1005 sample_token sample_logged_in = Inl (AuthFailed ''session expired'')"
proof -
  have "fv_token sample_fresh \<noteq> Some []" by (simp add: sample_fresh_def)
  from session_lifetime [OF sample_totp_store_ok sample_session_made this] show ?thesis by (auto simp: sample_result_def)
qed

section \<open>Passkeys\<close>

text \<open>C26. A passkey login succeeds only within an unexpired login ceremony, with a response whose credential is stored
  for the user of its handle, an active one, and passes the library's check against that user's stored
  credentials. The session is that user's, and the ceremony is used up: no response to it succeeds again.\<close>

theorem passkey_login_bound:
  assumes "finish_passkey_login env wa cfg fr now flow_id json s = (Inr res, t)"
  shows "(\<exists>ceremony raw p u c se. find_passkey_ceremony flow_id s = Inr ceremony \<and>
      pc_type ceremony = PasskeyCeremonyLogin \<and> now < pc_expires_at ceremony \<and>
      we_parse_login wa json = Inr (raw, pk_user_id p) \<and> passkey_by_credential_id raw s = Inr p \<and>
      user_by_id (pk_user_id p) s = Inr u \<and> us_status u = UserStatusActive \<and>
      we_validate_login wa (load_passkey_user u s) (pc_session ceremony) json = Inr c \<and>
      ar_session res = Some se \<and> se_user_id se = us_id u \<and> se_expires_at se = now + cf_session_ttl cfg) \<and>
    (\<forall>env' cfg' fr' now' json'. \<not> is_ok (fst (finish_passkey_login env' wa cfg' fr' now' flow_id json' t)))"
proof -
  obtain ceremony raw handle u c s1 s2 where run: "find_passkey_ceremony flow_id s = Inr ceremony"
    "pc_type ceremony = PasskeyCeremonyLogin" "now < pc_expires_at ceremony" "we_parse_login wa json = Inr (raw, handle)"
    and user: "passkey_login_handler raw handle s = Inr u"
    and checked: "we_validate_login wa (load_passkey_user u s) (pc_session ceremony) json = Inr c"
    "create_session env cfg fr now u s1 = (Inr res, s2)"
    and t: "t = snd (delete_passkey_ceremony flow_id (snd (reset_login_throttle (us_email u) s2)))"
    by (rule passkey_login_success [OF assms])
  obtain p where p: "passkey_by_credential_id raw s = Inr p" "pk_user_id p = handle" "user_by_id (pk_user_id p) s = Inr u"
    "us_status u = UserStatusActive"
    using user by (auto simp: passkey_login_handler_def rbind_Inr_iff rguard_def split: if_splits)
  obtain se where se: "ar_session res = Some se" "se_user_id se = us_id u" "se_expires_at se = now + cf_session_ttl cfg"
    using checked(2) by (auto simp: create_session_Inr_iff)
  have "find_passkey_ceremony flow_id t = Inl (AuthFailed ''passkey ceremony not found'')"
    by (simp add: t find_passkey_ceremony_def delete_passkey_ceremony_def delete_conv')
  then have "\<not> is_ok (fst (finish_passkey_login env' wa cfg' fr' now' flow_id json' t))" for env' cfg' fr' now' json'
    by (auto simp: finish_passkey_login_def act_defs split: sum.splits)
  then show ?thesis using run p checked(1) se by blast
qed

text \<open>A library that reads every login response as one of the sample credential.\<close>

definition sample_credential :: webauthn_credential where
  "sample_credential = pk_credential zero_passkey\<lparr>wc_id := ''c1''\<rparr>"

definition sample_webauthn :: webauthn_env where
  "sample_webauthn =
     \<lparr>we_new = None, we_begin_registration = (\<lambda>u. Inl ErrInvalidCredentials),
      we_finish_registration = (\<lambda>u se json. Inl ErrInvalidCredentials), we_begin_login = Inl ErrInvalidCredentials,
      we_parse_login = (\<lambda>json. Inr (''c1'', ''u1'')),
      we_validate_login = (\<lambda>u se json. if sample_credential \<in> set (pu_credentials u) then Inr sample_credential
        else Inl ErrInvalidCredentials)\<rparr>"

definition sample_ceremony :: passkey_ceremony where
  "sample_ceremony =
     \<lparr>pc_id = ''f1'', pc_user_id = [], pc_type = PasskeyCeremonyLogin, pc_session = \<lparr>ws_expires = 100, ws_data = []\<rparr>,
      pc_created_at = 1, pc_expires_at = 100\<rparr>"

definition sample_passkeys :: auth_store where
  "sample_passkeys = sample_auth_store\<lparr>
     passkeys_by_id := [(''p1'', zero_passkey\<lparr>pk_id := ''p1'', pk_user_id := ''u1'', pk_credential_id := ''c1'',
       pk_credential := sample_credential\<rparr>)],
     passkey_ids_by_credential_id := [(''c1'', ''p1'')], passkey_ceremonies := [(''f1'', sample_ceremony)]\<rparr>"

lemma sample_passkey_run:
  "\<exists>res t. finish_passkey_login sample_env sample_webauthn sample_config sample_fresh 5 ''f1'' ''{}'' sample_passkeys = (Inr res, t)"
proof -
  have user: "user_by_id ''u1'' sample_passkeys = Inr sample_user"
    using sample_found(2) by (simp add: sample_passkeys_def user_by_id_def cong: option.case_cong)
  have found: "find_passkey_ceremony ''f1'' sample_passkeys = Inr sample_ceremony"
    by (simp add: find_passkey_ceremony_def sample_passkeys_def)
  have passkey: "passkey_by_credential_id ''c1'' sample_passkeys = Inr (zero_passkey\<lparr>pk_id := ''p1'', pk_user_id := ''u1'',
      pk_credential_id := ''c1'', pk_credential := sample_credential\<rparr>)"
    by (simp add: passkey_by_credential_id_def sample_passkeys_def)
  have mine: "sample_credential \<in> set (pu_credentials (load_passkey_user sample_user sample_passkeys))"
    by (simp add: load_passkey_user_def store_list_passkeys_def sample_passkeys_def)
  have on: "passkey_web_authn sample_webauthn sample_config = Inr ()"
    by (simp add: passkey_web_authn_def sample_config_def sample_webauthn_def)
  have id: "wc_id sample_credential = ''c1''" by (simp add: sample_credential_def)
  obtain x s' where updated: "store_update_passkey (refresh_passkey_from_credential (zero_passkey\<lparr>pk_id := ''p1'',
      pk_user_id := ''u1'', pk_credential_id := ''c1'', pk_credential := sample_credential\<rparr>) sample_credential 5) sample_passkeys =
      (Inr x, s')"
    by (simp add: store_update_passkey_def refresh_passkey_from_credential_def sample_passkeys_def id)
  have "\<exists>token. new_session_token sample_fresh = Inr token" by (simp add: new_session_token_def drawn_def sample_fresh_def)
  then obtain res t where session_made: "create_session sample_env sample_config sample_fresh 5 sample_user s' = (Inr res, t)"
    by (auto simp: create_session_Inr_iff)
  have parse: "we_parse_login sample_webauthn json = Inr (''c1'', ''u1'')"
    "we_validate_login sample_webauthn (load_passkey_user sample_user sample_passkeys) se json = Inr sample_credential" for se json
    using mine by (simp_all add: sample_webauthn_def)
  have handler: "passkey_login_handler ''c1'' ''u1'' sample_passkeys = Inr sample_user"
    by (simp add: passkey_login_handler_def passkey user or_error_def rguard_def)
  have ceremony: "pc_type sample_ceremony = PasskeyCeremonyLogin" "pc_expires_at sample_ceremony = 100"
    by (simp_all add: sample_ceremony_def)
  show ?thesis
    by (simp add: finish_passkey_login_def act_defs on found adefer_def ceremony parse handler passkey id updated session_made
        reset_login_throttle_def)
qed

theorem passkey_login_bound_witness:
  "\<exists>res t se. finish_passkey_login sample_env sample_webauthn sample_config sample_fresh 5 ''f1'' ''{}'' sample_passkeys = (Inr res, t) \<and>
    ar_session res = Some se \<and>
    \<not> is_ok (fst (finish_passkey_login sample_env sample_webauthn sample_config sample_fresh 6 ''f1'' ''{}'' t))"
proof -
  obtain res t where run: "finish_passkey_login sample_env sample_webauthn sample_config sample_fresh 5 ''f1'' ''{}'' sample_passkeys =
      (Inr res, t)" using sample_passkey_run by blast
  obtain se where "ar_session res = Some se" using passkey_login_bound [OF run] by blast
  moreover have "\<not> is_ok (fst (finish_passkey_login sample_env sample_webauthn sample_config sample_fresh 6 ''f1'' ''{}'' t))"
    using passkey_login_bound [OF run] by blast
  ultimately show ?thesis using run by blast
qed

end
