(* ===== verification/Import_Store.thy ===== *)
theory Import_Store
  imports Durable
begin

text \<open>
  Staged imports (package \<open>imports\<close>): the stored batches with their preview rows (\<open>imports/model.go\<close>), the
  store in memory (\<open>imports/store.go\<close>), the store that saves snapshots (\<open>imports/file_store.go\<close>), and the
  interface the service relies on, as the locale \<open>batch_store\<close>. \<open>clone...\<close> copies what could be shared;
  values are not shared here, and the copies are left out.
\<close>

section \<open>Data\<close>

datatype import_error = ImportInvalidInput string | ImportNotFound string | ImportOther string | ImportPanic

text \<open>The last constructor is for every other string a file can hold.\<close>

datatype batch_status = BatchStatusPreview | BatchStatusApplied | BatchStatusOther string

record applied_skipped_row =
  as_row_number :: int
  as_reason :: string

record detected_schema =
  ds_columns :: "(string \<times> string) list"
  ds_missing :: "string list"

record preview_row =
  pw_row_number :: int
  pw_raw :: "(string \<times> string) list"
  pw_type :: string
  pw_source_type :: string
  pw_occurred_at :: string
  pw_amount :: string
  pw_currency :: string
  pw_account :: string
  pw_destination_account :: string
  pw_category :: string
  pw_book :: string
  pw_member :: string
  pw_participants :: "string list"
  pw_merchant :: string
  pw_attribute :: string
  pw_note :: string
  pw_tags :: "string list"
  pw_warnings :: "string list"
  pw_errors :: "string list"

record detected_values =
  dv_books :: "string list"
  dv_accounts :: "string list"
  dv_categories :: "string list"
  dv_currencies :: "string list"
  dv_members :: "string list"
  dv_merchants :: "string list"
  dv_tags :: "string list"

record batch =
  ib_id :: string
  ib_user_id :: string
  ib_source :: string
  ib_filename :: string
  ib_content_type :: string
  ib_source_hash :: string
  ib_parser_version :: string
  ib_status :: batch_status
  ib_detected_schema :: detected_schema
  ib_rows :: "preview_row list"
  ib_detected :: detected_values
  ib_error_count :: int
  ib_warning_count :: int
  ib_applied_book_id :: string
  ib_applied_entry_ids :: "string list"
  ib_applied_skipped_rows :: "applied_skipped_row list"
  ib_applied_at :: "time option"
  ib_created_at :: time
  ib_updated_at :: time

definition zero_batch :: batch where
  "zero_batch =
     \<lparr>ib_id = [], ib_user_id = [], ib_source = [], ib_filename = [], ib_content_type = [], ib_source_hash = [],
      ib_parser_version = [], ib_status = BatchStatusOther [],
      ib_detected_schema = \<lparr>ds_columns = [], ds_missing = []\<rparr>, ib_rows = [],
      ib_detected = \<lparr>dv_books = [], dv_accounts = [], dv_categories = [], dv_currencies = [], dv_members = [],
        dv_merchants = [], dv_tags = []\<rparr>,
      ib_error_count = 0, ib_warning_count = 0, ib_applied_book_id = [], ib_applied_entry_ids = [],
      ib_applied_skipped_rows = [], ib_applied_at = None, ib_created_at = zero_time, ib_updated_at = zero_time\<rparr>"

section \<open>The store in memory\<close>

record import_memory =
  im_batches :: "(string \<times> batch) list"
  im_by_hash :: "(string \<times> string) list"

type_synonym 'a import_act = "(import_memory, import_error, 'a) act"

definition new_import_memory :: import_memory where
  "new_import_memory = \<lparr>im_batches = [], im_by_hash = []\<rparr>"

definition batch_hash_key :: "string \<Rightarrow> string \<Rightarrow> string \<Rightarrow> string" where
  "batch_hash_key user_id source source_hash = user_id @ [CHR 0x00] @ source @ [CHR 0x00] @ source_hash"

definition batch_key :: "batch \<Rightarrow> string" where
  "batch_key b = batch_hash_key (ib_user_id b) (ib_source b) (ib_source_hash b)"

definition im_save_batch :: "batch \<Rightarrow> batch import_act" where
  "im_save_batch b s =
     (Inr b, s\<lparr>im_batches := AList.update (ib_id b) b (im_batches s),
       im_by_hash := AList.update (batch_key b) (ib_id b) (im_by_hash s)\<rparr>)"

text \<open>An index entry without a batch would give the zero batch.\<close>

definition im_at :: "import_memory \<Rightarrow> string \<Rightarrow> batch" where
  "im_at s i = (case map_of (im_batches s) i of None \<Rightarrow> zero_batch | Some b \<Rightarrow> b)"

definition im_save_batch_if_absent :: "batch \<Rightarrow> (batch \<times> bool) import_act" where
  "im_save_batch_if_absent b s =
     (case map_of (im_by_hash s) (batch_key b) of
        Some existing_id \<Rightarrow> (Inr (im_at s existing_id, False), s)
      | None \<Rightarrow>
          (Inr (b, True), s\<lparr>im_batches := AList.update (ib_id b) b (im_batches s),
             im_by_hash := AList.update (batch_key b) (ib_id b) (im_by_hash s)\<rparr>))"

definition im_batch :: "string \<Rightarrow> string \<Rightarrow> import_memory \<Rightarrow> import_error + batch" where
  "im_batch user_id batch_id s =
     (case map_of (im_batches s) batch_id of
        None \<Rightarrow> Inl (ImportNotFound ''import batch not found'')
      | Some b \<Rightarrow> if ib_user_id b \<noteq> user_id then Inl (ImportNotFound ''import batch not found'') else Inr b)"

definition im_batch_by_hash :: "string \<Rightarrow> string \<Rightarrow> string \<Rightarrow> import_memory \<Rightarrow> import_error + batch" where
  "im_batch_by_hash user_id source source_hash s =
     (case map_of (im_by_hash s) (batch_hash_key user_id source source_hash) of
        None \<Rightarrow> Inl (ImportNotFound ''import batch not found'')
      | Some i \<Rightarrow> Inr (im_at s i))"

section \<open>Snapshots\<close>

definition im_snapshot :: "import_memory \<Rightarrow> batch list" where
  "im_snapshot s = map snd (im_batches s)"

definition im_from_snapshot :: "batch list \<Rightarrow> import_memory" where
  "im_from_snapshot batches = fold (\<lambda>b s. snd (im_save_batch b s)) batches new_import_memory"

definition load_batches :: "batch list \<Rightarrow> batch list option \<Rightarrow> batch list" where
  "load_batches fallback file = (case file of None \<Rightarrow> fallback | Some saved \<Rightarrow> saved)"

type_synonym import_durable = "(import_memory, batch list) durable"

definition import_snapshot_store :: "batch list option \<Rightarrow> import_durable" where
  "import_snapshot_store file = open_durable load_batches im_from_snapshot [] file"

definition id_save_batch :: "import_error option \<Rightarrow> batch \<Rightarrow> (import_durable, import_error, batch) act" where
  "id_save_batch saved b = durable_write im_snapshot saved (im_save_batch b)"

text \<open>Nothing is saved when the batch was there already.\<close>

definition id_save_batch_if_absent ::
    "import_error option \<Rightarrow> batch \<Rightarrow> (import_durable, import_error, batch \<times> bool) act" where
  "id_save_batch_if_absent saved b s =
     (case im_save_batch_if_absent b (du_memory s) of
        (Inr (stored, False), m) \<Rightarrow> (Inr (stored, False), s\<lparr>du_memory := m\<rparr>)
      | _ \<Rightarrow> durable_write im_snapshot saved (im_save_batch_if_absent b) s)"

definition id_batch :: "string \<Rightarrow> string \<Rightarrow> import_durable \<Rightarrow> import_error + batch" where
  "id_batch user_id batch_id = durable_read (im_batch user_id batch_id)"

definition id_batch_by_hash :: "string \<Rightarrow> string \<Rightarrow> string \<Rightarrow> import_durable \<Rightarrow> import_error + batch" where
  "id_batch_by_hash user_id source source_hash = durable_read (im_batch_by_hash user_id source source_hash)"

section \<open>Well-formed stores\<close>

text \<open>The index names, for every key, the one batch with that key.\<close>

definition import_ok :: "import_memory \<Rightarrow> bool" where
  "import_ok s \<longleftrightarrow> keys_ok ib_id (im_batches s) \<and>
     (\<forall>k i. map_of (im_by_hash s) k = Some i \<longleftrightarrow> (\<exists>b. map_of (im_batches s) i = Some b \<and> batch_key b = k))"

lemma new_import_memory_ok: "import_ok new_import_memory"
  by (simp add: import_ok_def new_import_memory_def)

lemma import_okD:
  assumes "import_ok s"
  shows "map_of (im_batches s) i = Some b \<Longrightarrow> ib_id b = i"
    and "map_of (im_batches s) i = Some b \<Longrightarrow> map_of (im_by_hash s) (batch_key b) = Some i"
    and "map_of (im_by_hash s) k = Some i \<Longrightarrow> \<exists>b. map_of (im_batches s) i = Some b \<and> batch_key b = k"
  using assms by (auto simp: import_ok_def dest: keys_ok_lookup)

text \<open>Saving keeps it when the id is new together with its key, or both belong to one stored batch.\<close>

lemma save_keeps_ok:
  assumes ok: "import_ok s"
    and fresh: "map_of (im_batches s) (ib_id b) = None \<and> map_of (im_by_hash s) (batch_key b) = None \<or>
      (\<exists>old. map_of (im_batches s) (ib_id b) = Some old \<and> batch_key old = batch_key b)"
  shows "import_ok (snd (im_save_batch b s))"
proof -
  have index: "map_of (im_by_hash s) k = Some i \<longleftrightarrow> (\<exists>b. map_of (im_batches s) i = Some b \<and> batch_key b = k)" for k i
    using ok by (simp add: import_ok_def)
  have "map_of (im_by_hash s) (batch_key b) = None \<or> map_of (im_by_hash s) (batch_key b) = Some (ib_id b)"
    using fresh import_okD(2) [OF ok] by force
  then have only: "i = ib_id b" if "map_of (im_batches s) i = Some ba" "batch_key ba = batch_key b" for i ba
    using that import_okD(2) [OF ok] by force
  show ?thesis
    using ok fresh index unfolding import_ok_def im_save_batch_def
    by (auto simp: update_conv' keys_ok_update dest: only split: if_splits)
qed

section \<open>The interface of the service to its store\<close>

locale batch_store =
  fixes save :: "batch \<Rightarrow> ('s, import_error, batch) act"
    and save_if_absent :: "batch \<Rightarrow> ('s, import_error, batch \<times> bool) act"
    and by_id :: "string \<Rightarrow> string \<Rightarrow> 's \<Rightarrow> import_error + batch"
    and by_hash :: "string \<Rightarrow> string \<Rightarrow> string \<Rightarrow> 's \<Rightarrow> import_error + batch"
    and stored :: "'s \<Rightarrow> string \<Rightarrow> batch option"
    and good :: "'s \<Rightarrow> bool"
  assumes good_id: "good s \<Longrightarrow> stored s i = Some b \<Longrightarrow> ib_id b = i"
    and good_unique: "good s \<Longrightarrow> stored s i = Some a \<Longrightarrow> stored s j = Some b \<Longrightarrow> batch_key a = batch_key b \<Longrightarrow> i = j"
    and save_known: "good s \<Longrightarrow> stored s (ib_id b) = Some old \<Longrightarrow> batch_key old = batch_key b \<Longrightarrow>
      \<exists>t. save b s = (Inr b, t) \<and> good t \<and> stored t = (stored s)(ib_id b \<mapsto> b)"
    and absent_found: "good s \<Longrightarrow> stored s i = Some old \<Longrightarrow> batch_key old = batch_key b \<Longrightarrow>
      save_if_absent b s = (Inr (old, False), s)"
    and absent_new: "good s \<Longrightarrow> stored s (ib_id b) = None \<Longrightarrow> (\<And>i old. stored s i = Some old \<Longrightarrow> batch_key old \<noteq> batch_key b) \<Longrightarrow>
      \<exists>t. save_if_absent b s = (Inr (b, True), t) \<and> good t \<and> stored t = (stored s)(ib_id b \<mapsto> b)"
    and by_id_owner: "good s \<Longrightarrow> stored s i = Some b \<Longrightarrow> ib_user_id b = u \<Longrightarrow> by_id u i s = Inr b"
    and by_id_missing: "good s \<Longrightarrow> (\<And>b. stored s i = Some b \<Longrightarrow> ib_user_id b \<noteq> u) \<Longrightarrow> \<exists>m. by_id u i s = Inl (ImportNotFound m)"
    and by_hash_found: "good s \<Longrightarrow> stored s i = Some b \<Longrightarrow> batch_key b = batch_hash_key u src h \<Longrightarrow> by_hash u src h s = Inr b"
    and by_hash_missing: "good s \<Longrightarrow> (\<And>i b. stored s i = Some b \<Longrightarrow> batch_key b \<noteq> batch_hash_key u src h) \<Longrightarrow>
      \<exists>m. by_hash u src h s = Inl (ImportNotFound m)"

lemma known_key: "import_ok s \<Longrightarrow> map_of (im_batches s) i = Some b \<Longrightarrow> map_of (im_by_hash s) (batch_key b) = Some i"
  by (rule import_okD(2))

lemma missing_key: "import_ok s \<Longrightarrow> (\<And>i b. map_of (im_batches s) i = Some b \<Longrightarrow> batch_key b \<noteq> k) \<Longrightarrow> map_of (im_by_hash s) k = None"
  using import_okD(3) [of s k] by (cases "map_of (im_by_hash s) k") auto

lemma memory_rows: "map_of (im_batches (snd (im_save_batch b s))) = (map_of (im_batches s))(ib_id b \<mapsto> b)"
  by (simp add: im_save_batch_def update_conv')

lemma memory_absent: "map_of (im_by_hash s) (batch_key b) = None \<Longrightarrow>
    im_save_batch_if_absent b s = (Inr (b, True), snd (im_save_batch b s))"
  by (simp add: im_save_batch_if_absent_def im_save_batch_def)

lemma memory_found:
  assumes "import_ok s" and "map_of (im_batches s) i = Some old" and "batch_key old = batch_key b"
  shows "im_save_batch_if_absent b s = (Inr (old, False), s)"
proof -
  have "map_of (im_by_hash s) (batch_key b) = Some i" using known_key [OF assms(1,2)] assms(3) by simp
  then show ?thesis by (simp add: im_save_batch_if_absent_def im_at_def assms(2))
qed

interpretation import_memory: batch_store im_save_batch im_save_batch_if_absent im_batch im_batch_by_hash
  "\<lambda>s. map_of (im_batches s)" import_ok
proof (unfold_locales, goal_cases)
  case (2 s i a j b)
  then show ?case using known_key [of s i a] known_key [of s j b] by simp
next
  case (3 s b old)
  then show ?case using save_keeps_ok [of s b] memory_rows [of b s] by (auto simp: im_save_batch_def)
next
  case (5 s b)
  then have "map_of (im_by_hash s) (batch_key b) = None" by (intro missing_key)
  then show ?case using 5 save_keeps_ok [of s b] memory_rows [of b s] memory_absent [of s b] by auto
next
  case (8 s i b u src h)
  then show ?case using known_key [of s i b] by (simp add: im_batch_by_hash_def im_at_def)
next
  case (9 s u src h)
  then have "map_of (im_by_hash s) (batch_hash_key u src h) = None" by (intro missing_key)
  then show ?case by (simp add: im_batch_by_hash_def)
qed (auto simp: im_batch_def memory_found split: option.splits dest: import_okD(1))

text \<open>The durable store with a sink that works.\<close>

interpretation import_file: batch_store "id_save_batch None" "id_save_batch_if_absent None" id_batch id_batch_by_hash
  "\<lambda>s. map_of (im_batches (du_memory s))" "\<lambda>s. import_ok (du_memory s)"
proof (unfold_locales, goal_cases)
  case (3 s b old)
  then obtain t where "im_save_batch b (du_memory s) = (Inr b, t)" "import_ok t"
    "map_of (im_batches t) = (map_of (im_batches (du_memory s)))(ib_id b \<mapsto> b)"
    using import_memory.save_known by blast
  then show ?case by (auto simp: id_save_batch_def durable_write_def)
next
  case (4 s i old b)
  then have "im_save_batch_if_absent b (du_memory s) = (Inr (old, False), du_memory s)" by (rule memory_found)
  then show ?case by (simp add: id_save_batch_if_absent_def)
next
  case (5 s b)
  then obtain t where "im_save_batch_if_absent b (du_memory s) = (Inr (b, True), t)" "import_ok t"
    "map_of (im_batches t) = (map_of (im_batches (du_memory s)))(ib_id b \<mapsto> b)"
    using import_memory.absent_new [of "du_memory s" b] by blast
  then show ?case by (auto simp: id_save_batch_if_absent_def durable_write_def)
qed (auto simp: id_batch_def id_batch_by_hash_def durable_read_def intro: import_memory.good_id import_memory.good_unique
    import_memory.by_id_owner import_memory.by_id_missing import_memory.by_hash_found import_memory.by_hash_missing)

section \<open>Reopening a file\<close>

definition same_batches :: "import_memory \<Rightarrow> import_memory \<Rightarrow> bool" where
  "same_batches s t \<longleftrightarrow> map_of (im_batches s) = map_of (im_batches t) \<and> map_of (im_by_hash s) = map_of (im_by_hash t)"

lemma save_all_rows:
  "im_batches (fold (\<lambda>b s. snd (im_save_batch b s)) bs s) = fold (\<lambda>b. AList.update (ib_id b) b) bs (im_batches s)"
  "im_by_hash (fold (\<lambda>b s. snd (im_save_batch b s)) bs s) = fold (\<lambda>b. AList.update (batch_key b) (ib_id b)) bs (im_by_hash s)"
  by (induction bs arbitrary: s) (simp_all add: im_save_batch_def)

lemma rebuilt_batches: "import_ok s \<Longrightarrow> same_batches (im_from_snapshot (im_snapshot s)) s"
  unfolding import_ok_def same_batches_def im_from_snapshot_def im_snapshot_def save_all_rows
  using rebuilt_rows [of ib_id "im_batches s"] rebuilt_index [of ib_id "im_batches s" "im_by_hash s" batch_key]
  by (simp add: new_import_memory_def)

interpretation import_snapshots: snapshot_store im_snapshot load_batches im_from_snapshot "[]" same_batches import_ok
  by unfold_locales (simp_all add: load_batches_def rebuilt_batches)

end
