(* ===== verification/Wacai_Text.thy ===== *)
theory Wacai_Text
  imports Encodings
begin

text \<open>
  The words in Chinese that Wacai exports use (\<open>imports/wacai_normalize.go\<close>, \<open>imports/service.go\<close>,
  \<open>httpserver/import_routes.go\<close>), as UTF-8, and the functions of package \<open>strings\<close> that split at them.
\<close>

section \<open>Words\<close>

definition zh_expense :: string where "zh_expense = [CHR 0xE6, CHR 0x94, CHR 0xAF, CHR 0xE5, CHR 0x87, CHR 0xBA]"
definition zh_income :: string where "zh_income = [CHR 0xE6, CHR 0x94, CHR 0xB6, CHR 0xE5, CHR 0x85, CHR 0xA5]"
definition zh_transfer :: string where "zh_transfer = [CHR 0xE8, CHR 0xBD, CHR 0xAC, CHR 0xE8, CHR 0xB4, CHR 0xA6]"
definition zh_borrow :: string where "zh_borrow = [CHR 0xE5, CHR 0x80, CHR 0x9F, CHR 0xE5, CHR 0x85, CHR 0xA5]"
definition zh_lend :: string where "zh_lend = [CHR 0xE5, CHR 0x80, CHR 0x9F, CHR 0xE5, CHR 0x87, CHR 0xBA]"
definition zh_loan :: string where "zh_loan = [CHR 0xE5, CHR 0x80, CHR 0x9F, CHR 0xE8, CHR 0xB4, CHR 0xB7]"
definition zh_repayment :: string where "zh_repayment = [CHR 0xE8, CHR 0xBF, CHR 0x98, CHR 0xE6, CHR 0xAC, CHR 0xBE]"
definition zh_refund :: string where "zh_refund = [CHR 0xE9, CHR 0x80, CHR 0x80, CHR 0xE6, CHR 0xAC, CHR 0xBE]"
definition zh_reimbursement :: string where
  "zh_reimbursement =
     [CHR 0xE6, CHR 0x8A, CHR 0xA5, CHR 0xE9, CHR 0x94, CHR 0x80]"
definition zh_renminbi :: string where
  "zh_renminbi =
     [CHR 0xE4, CHR 0xBA, CHR 0xBA, CHR 0xE6, CHR 0xB0, CHR 0x91, CHR 0xE5, CHR 0xB8, CHR 0x81]"
definition zh_chinese_yuan :: string where
  "zh_chinese_yuan =
     [CHR 0xE4, CHR 0xB8, CHR 0xAD, CHR 0xE5, CHR 0x9B, CHR 0xBD, CHR 0xE5, CHR 0x85, CHR 0x83]"
definition zh_us_dollar :: string where "zh_us_dollar = [CHR 0xE7, CHR 0xBE, CHR 0x8E, CHR 0xE5, CHR 0x85, CHR 0x83]"
definition zh_us_dollars :: string where
  "zh_us_dollars =
     [CHR 0xE7, CHR 0xBE, CHR 0x8E, CHR 0xE9, CHR 0x87, CHR 0x91]"
definition zh_canadian_dollar :: string where
  "zh_canadian_dollar =
     [CHR 0xE5, CHR 0x8A, CHR 0xA0, CHR 0xE6, CHR 0x8B, CHR 0xBF, CHR 0xE5, CHR 0xA4, CHR 0xA7,
      CHR 0xE5, CHR 0x85, CHR 0x83]"
definition zh_canadian_dollars :: string where
  "zh_canadian_dollars =
     [CHR 0xE5, CHR 0x8A, CHR 0xA0, CHR 0xE5, CHR 0x85, CHR 0x83]"
definition zh_euro :: string where "zh_euro = [CHR 0xE6, CHR 0xAC, CHR 0xA7, CHR 0xE5, CHR 0x85, CHR 0x83]"
definition zh_h_type :: string where "zh_h_type = [CHR 0xE7, CHR 0xB1, CHR 0xBB, CHR 0xE5, CHR 0x9E, CHR 0x8B]"
definition zh_h_direction :: string where
  "zh_h_direction =
     [CHR 0xE6, CHR 0x94, CHR 0xB6, CHR 0xE6, CHR 0x94, CHR 0xAF, CHR 0xE7, CHR 0xB1, CHR 0xBB,
      CHR 0xE5, CHR 0x9E, CHR 0x8B]"
definition zh_h_date :: string where "zh_h_date = [CHR 0xE6, CHR 0x97, CHR 0xA5, CHR 0xE6, CHR 0x9C, CHR 0x9F]"
definition zh_h_time :: string where "zh_h_time = [CHR 0xE6, CHR 0x97, CHR 0xB6, CHR 0xE9, CHR 0x97, CHR 0xB4]"
definition zh_h_trade_time :: string where
  "zh_h_trade_time =
     [CHR 0xE4, CHR 0xBA, CHR 0xA4, CHR 0xE6, CHR 0x98, CHR 0x93, CHR 0xE6, CHR 0x97, CHR 0xB6,
      CHR 0xE9, CHR 0x97, CHR 0xB4]"
definition zh_h_date_time :: string where
  "zh_h_date_time =
     [CHR 0xE6, CHR 0x97, CHR 0xA5, CHR 0xE6, CHR 0x9C, CHR 0x9F, CHR 0xE6, CHR 0x97, CHR 0xB6,
      CHR 0xE9, CHR 0x97, CHR 0xB4]"
definition zh_h_amount :: string where "zh_h_amount = [CHR 0xE9, CHR 0x87, CHR 0x91, CHR 0xE9, CHR 0xA2, CHR 0x9D]"
definition zh_h_currency :: string where
  "zh_h_currency =
     [CHR 0xE5, CHR 0xB8, CHR 0x81, CHR 0xE7, CHR 0xA7, CHR 0x8D]"
definition zh_h_account :: string where "zh_h_account = [CHR 0xE8, CHR 0xB4, CHR 0xA6, CHR 0xE6, CHR 0x88, CHR 0xB7]"
definition zh_h_account_number :: string where
  "zh_h_account_number =
     [CHR 0xE8, CHR 0xB4, CHR 0xA6, CHR 0xE5, CHR 0x8F, CHR 0xB7]"
definition zh_h_pay_account :: string where
  "zh_h_pay_account =
     [CHR 0xE6, CHR 0x94, CHR 0xB6, CHR 0xE4, CHR 0xBB, CHR 0x98, CHR 0xE8, CHR 0xB4, CHR 0xA6,
      CHR 0xE6, CHR 0x88, CHR 0xB7]"
definition zh_h_category :: string where
  "zh_h_category =
     [CHR 0xE5, CHR 0x88, CHR 0x86, CHR 0xE7, CHR 0xB1, CHR 0xBB]"
definition zh_h_class :: string where "zh_h_class = [CHR 0xE7, CHR 0xB1, CHR 0xBB, CHR 0xE5, CHR 0x88, CHR 0xAB]"
definition zh_h_book :: string where "zh_h_book = [CHR 0xE8, CHR 0xB4, CHR 0xA6, CHR 0xE6, CHR 0x9C, CHR 0xAC]"
definition zh_h_export_book :: string where
  "zh_h_export_book =
     [CHR 0xE5, CHR 0xAF, CHR 0xBC, CHR 0xE5, CHR 0x87, CHR 0xBA, CHR 0xE8, CHR 0xB4, CHR 0xA6,
      CHR 0xE6, CHR 0x9C, CHR 0xAC]"
definition zh_h_member :: string where "zh_h_member = [CHR 0xE6, CHR 0x88, CHR 0x90, CHR 0xE5, CHR 0x91, CHR 0x98]"
definition zh_h_payer :: string where
  "zh_h_payer =
     [CHR 0xE6, CHR 0x94, CHR 0xB6, CHR 0xE4, CHR 0xBB, CHR 0x98, CHR 0xE6, CHR 0xAC, CHR 0xBE,
      CHR 0xE4, CHR 0xBA, CHR 0xBA]"
definition zh_h_participants :: string where
  "zh_h_participants =
     [CHR 0xE5, CHR 0x8F, CHR 0x82, CHR 0xE4, CHR 0xB8, CHR 0x8E, CHR 0xE4, CHR 0xBA, CHR 0xBA]"
definition zh_h_merchant :: string where
  "zh_h_merchant =
     [CHR 0xE5, CHR 0x95, CHR 0x86, CHR 0xE5, CHR 0xAE, CHR 0xB6]"
definition zh_h_object :: string where "zh_h_object = [CHR 0xE5, CHR 0xAF, CHR 0xB9, CHR 0xE8, CHR 0xB1, CHR 0xA1]"
definition zh_h_attribute :: string where
  "zh_h_attribute =
     [CHR 0xE5, CHR 0xB1, CHR 0x9E, CHR 0xE6, CHR 0x80, CHR 0xA7]"
definition zh_h_note :: string where "zh_h_note = [CHR 0xE5, CHR 0xA4, CHR 0x87, CHR 0xE6, CHR 0xB3, CHR 0xA8]"
definition zh_h_tags :: string where "zh_h_tags = [CHR 0xE6, CHR 0xA0, CHR 0x87, CHR 0xE7, CHR 0xAD, CHR 0xBE]"
definition zh_comma :: string where "zh_comma = [CHR 0xEF, CHR 0xBC, CHR 0x8C]"
definition zh_colon :: string where "zh_colon = [CHR 0xEF, CHR 0xBC, CHR 0x9A]"
definition zh_slash :: string where "zh_slash = [CHR 0xEF, CHR 0xBC, CHR 0x8F]"
definition zh_export_prefix :: string where
  "zh_export_prefix =
     [CHR 0xE5, CHR 0xAF, CHR 0xBC, CHR 0xE5, CHR 0x87, CHR 0xBA, CHR 0xE8, CHR 0xB4, CHR 0xA6,
      CHR 0xE6, CHR 0x9C, CHR 0xAC, CHR 0xEF, CHR 0xBC, CHR 0x9A]"
definition zh_self :: string where "zh_self = [CHR 0xE8, CHR 0x87, CHR 0xAA, CHR 0xE5, CHR 0xB7, CHR 0xB1]"
definition zh_credit_card :: string where
  "zh_credit_card =
     [CHR 0xE4, CHR 0xBF, CHR 0xA1, CHR 0xE7, CHR 0x94, CHR 0xA8, CHR 0xE5, CHR 0x8D, CHR 0xA1]"
definition zh_alipay :: string where
  "zh_alipay =
     [CHR 0xE6, CHR 0x94, CHR 0xAF, CHR 0xE4, CHR 0xBB, CHR 0x98, CHR 0xE5, CHR 0xAE, CHR 0x9D]"
definition zh_wechat :: string where "zh_wechat = [CHR 0xE5, CHR 0xBE, CHR 0xAE, CHR 0xE4, CHR 0xBF, CHR 0xA1]"
definition zh_loans :: string where "zh_loans = [CHR 0xE8, CHR 0xB4, CHR 0xB7, CHR 0xE6, CHR 0xAC, CHR 0xBE]"
definition zh_shares :: string where "zh_shares = [CHR 0xE8, CHR 0x82, CHR 0xA1, CHR 0xE7, CHR 0xA5, CHR 0xA8]"
definition zh_funds :: string where "zh_funds = [CHR 0xE5, CHR 0x9F, CHR 0xBA, CHR 0xE9, CHR 0x87, CHR 0x91]"
definition zh_cash :: string where "zh_cash = [CHR 0xE7, CHR 0x8E, CHR 0xB0, CHR 0xE9, CHR 0x87, CHR 0x91]"

section \<open>strings.FieldsFunc, Contains, ReplaceAll, Join\<close>

text \<open>
  The separators are characters, each the bytes of its UTF-8. None of them begins inside another character,
  so looking for the bytes finds the characters.
\<close>

function split_any :: "string list \<Rightarrow> string \<Rightarrow> string \<Rightarrow> string list" where
  "split_any seps acc [] = [rev acc]"
| "split_any seps acc (c # cs) =
     (case find (\<lambda>sep. sep \<noteq> [] \<and> has_prefix (c # cs) sep) seps of
        Some sep \<Rightarrow> rev acc # split_any seps [] (drop (length sep - 1) cs)
      | None \<Rightarrow> split_any seps (c # acc) cs)"
  by pat_completeness auto
termination
  by (relation "measure (\<lambda>(_, _, s). length s)") auto

definition fields_func :: "string list \<Rightarrow> string \<Rightarrow> string list" where
  "fields_func seps s = filter (\<lambda>f. f \<noteq> []) (split_any seps [] s)"

text \<open>\<open>FieldsFunc\<close>, with every field trimmed and the blank ones left out.\<close>

definition trimmed_fields :: "string list \<Rightarrow> string \<Rightarrow> string list" where
  "trimmed_fields seps s = filter (\<lambda>f. f \<noteq> []) (map trim_space (fields_func seps s))"

fun contains_text :: "string \<Rightarrow> string \<Rightarrow> bool" where
  "contains_text [] sub = (sub = [])"
| "contains_text (c # cs) sub = (has_prefix (c # cs) sub \<or> contains_text cs sub)"

text \<open>\<open>strings.ReplaceAll(s, ",", "")\<close>.\<close>

definition without_commas :: "string \<Rightarrow> string" where
  "without_commas s = filter (\<lambda>c. c \<noteq> CHR '','') s"

text \<open>A list with the trimmed value appended once.\<close>

definition append_unique :: "string list \<Rightarrow> string \<Rightarrow> string list" where
  "append_unique values v =
     (let v = trim_space v in if v = [] \<or> v \<in> set values then values else values @ [v])"

lemma append_unique_distinct: "distinct values \<Longrightarrow> distinct (append_unique values v)"
  by (simp add: append_unique_def Let_def)

lemma append_unique_set: "set (append_unique values v) = set values \<union> (if trim_space v = [] then {} else {trim_space v})"
  by (auto simp: append_unique_def Let_def)

definition unique_values :: "string list \<Rightarrow> string list" where
  "unique_values values = foldl append_unique [] values"

lemma foldl_append_unique:
  "distinct acc \<Longrightarrow> distinct (foldl append_unique acc vs) \<and>
   set (foldl append_unique acc vs) = set acc \<union> {trim_space v | v. v \<in> set vs \<and> trim_space v \<noteq> []}"
proof (induction vs arbitrary: acc)
  case (Cons v vs)
  have "distinct (append_unique acc v)" using Cons.prems by (rule append_unique_distinct)
  from Cons.IH [OF this] show ?case by (auto simp: append_unique_set)
qed simp

lemma unique_values_facts:
  "distinct (unique_values vs)" "set (unique_values vs) = {trim_space v | v. v \<in> set vs \<and> trim_space v \<noteq> []}"
  using foldl_append_unique [of "[]" vs] by (simp_all add: unique_values_def)

end
