(* ===== verification/Import_Parse.thy ===== *)
theory Import_Parse
  imports Complex_Main Import_Store Wacai_Text
begin

text \<open>
  Parsing an exported table of Wacai into preview rows (\<open>imports/service.go\<close>, \<open>imports/wacai_normalize.go\<close>).

  The parameters are the record \<open>import_env\<close>: \<open>strings.ToLower\<close> and \<open>ToUpper\<close> of text outside ASCII, SHA-256,
  \<open>csv.Reader.ReadAll\<close>, the files of a ZIP archive with their XML decoded, \<open>strconv.ParseFloat\<close> and
  \<open>time.ParseInLocation\<close> of a layout and a text.
\<close>

section \<open>Surroundings\<close>

text \<open>A \<open>float64\<close>.\<close>

datatype float64 = Finite rat | PosInf | NegInf | NaN

text \<open>A cell of a worksheet: reference, type, value, and the text and runs of an inline string.\<close>

record xlsx_cell =
  cl_ref :: string
  cl_type :: string
  cl_value :: string
  cl_inline_text :: string
  cl_inline_runs :: "string list"

text \<open>A file of the archive; \<open>None\<close> when it cannot be opened or is not the XML that is asked for.\<close>

record zip_file =
  zf_name :: string
  zf_size :: int
  zf_worksheet :: "xlsx_cell list list option"
  zf_shared_strings :: "(string \<times> string list) list option"

record import_env =
  ie_lower :: "string \<Rightarrow> string"
  ie_upper :: "string \<Rightarrow> string"
  ie_sha :: "string \<Rightarrow> string"
  ie_csv :: "string \<Rightarrow> string list list option"
  ie_zip :: "string \<Rightarrow> zip_file list option"
  ie_float :: "string \<Rightarrow> float64 option"
  ie_times_100 :: "rat \<Rightarrow> float64"
  ie_float_to_int :: "float64 \<Rightarrow> int"
  ie_date :: "string \<Rightarrow> string \<Rightarrow> time option"

definition lower_trim :: "import_env \<Rightarrow> string \<Rightarrow> string" where
  "lower_trim env s = to_lower_with (ie_lower env) (trim_space s)"

definition to_upper_with :: "(string \<Rightarrow> string) \<Rightarrow> string \<Rightarrow> string" where
  "to_upper_with other s = (if is_ascii s then to_upper s else other s)"

section \<open>Types, currencies and accounts\<close>

definition normalize_wacai_type :: "import_env \<Rightarrow> string \<Rightarrow> string" where
  "normalize_wacai_type env raw =
     (let v = lower_trim env raw in
      if v \<in> set [''expense'', zh_expense] then ''expense''
      else if v \<in> set [''income'', zh_income] then ''income''
      else if v \<in> set [''transfer'', zh_transfer] then ''transfer''
      else if v \<in> set [''borrow'', zh_borrow] then ''borrow''
      else if v \<in> set [''lend'', ''loan'', zh_lend, zh_loan] then ''lend''
      else if v \<in> set [''repayment'', zh_repayment] then ''repayment''
      else if v \<in> set [''refund'', zh_refund] then ''refund''
      else if v \<in> set [''reimbursement'', zh_reimbursement] then ''reimbursement''
      else v)"

definition normalize_wacai_currency :: "import_env \<Rightarrow> string \<Rightarrow> string" where
  "normalize_wacai_currency env raw =
     (let v = lower_trim env raw in
      if v = [] then []
      else if v \<in> set [''cny'', ''rmb'', zh_renminbi, zh_chinese_yuan] then ''CNY''
      else if v \<in> set [''usd'', zh_us_dollar, zh_us_dollars] then ''USD''
      else if v \<in> set [''cad'', zh_canadian_dollar, zh_canadian_dollars] then ''CAD''
      else if v \<in> set [''eur'', zh_euro] then ''EUR''
      else to_upper_with (ie_upper env) (trim_space raw))"

definition split_wacai_account_parts :: "string \<Rightarrow> string list" where
  "split_wacai_account_parts raw = trimmed_fields [zh_comma, '','', '';'', ''|''] raw"

text \<open>
  \<open>transferAccountAmountPattern\<close>: a name, a colon, and a number up to the end. The name is as short as
  possible, at least one character, and has no line feed.
\<close>

definition is_amount_text :: "string \<Rightarrow> bool" where
  "is_amount_text t =
     (let u = (if t \<noteq> [] \<and> hd t \<in> {CHR ''+'', CHR ''-''} then tl t else t)
      in (case u of
            [] \<Rightarrow> False
          | d # r \<Rightarrow> is_digit d \<and>
              (case dropWhile (\<lambda>c. is_digit c \<or> c = CHR '','') r of
                 [] \<Rightarrow> True
               | p # f \<Rightarrow> p = CHR ''.'' \<and> f \<noteq> [] \<and> list_all is_digit f)))"

definition after_colon :: "string \<Rightarrow> string option" where
  "after_colon t =
     (if has_prefix t '':'' then Some (drop 1 t)
      else if has_prefix t zh_colon then Some (drop (length zh_colon) t) else None)"

definition skip_re_space :: "string \<Rightarrow> string" where
  "skip_re_space t = dropWhile (\<lambda>c. c \<in> {CHR 0x09, CHR 0x0A, CHR 0x0C, CHR 0x0D, CHR '' ''}) t"

fun match_account_amount :: "string \<Rightarrow> string \<Rightarrow> (string \<times> string) option" where
  "match_account_amount acc [] = None"
| "match_account_amount acc (c # cs) =
     (case (if acc = [] then None else after_colon (c # cs)) of
        Some rest \<Rightarrow>
          if is_amount_text (skip_re_space rest) then Some (rev acc, skip_re_space rest)
          else if c = CHR 0x0A then None else match_account_amount (c # acc) cs
      | None \<Rightarrow> if c = CHR 0x0A then None else match_account_amount (c # acc) cs)"

definition parse_wacai_account_amount :: "string \<Rightarrow> string \<times> string" where
  "parse_wacai_account_amount raw =
     (case match_account_amount [] (trim_space raw) of
        None \<Rightarrow> (trim_space raw, [])
      | Some (name, amount) \<Rightarrow> (trim_space name, trim_space amount))"

text \<open>The loop over the parts, with the source and destination found so far.\<close>

fun account_pair :: "string list \<Rightarrow> string \<times> string \<Rightarrow> string \<times> string" where
  "account_pair [] found = found"
| "account_pair (part # parts) (source, destination) =
     (case parse_wacai_account_amount part of (name, amount) \<Rightarrow>
        account_pair parts
          (if name = [] then (source, destination)
           else if has_prefix amount ''-'' \<and> source = [] then (name, destination)
           else if has_prefix amount ''+'' \<and> destination = [] then (source, name)
           else if source = [] then (name, destination)
           else if destination = [] then (source, name)
           else (source, destination)))"

definition parse_wacai_accounts :: "import_env \<Rightarrow> string \<Rightarrow> string \<Rightarrow> string \<times> string" where
  "parse_wacai_accounts env raw raw_type =
     (let raw = trim_space raw in
      if raw = [] then ([], [])
      else if normalize_wacai_type env raw_type \<noteq> ''transfer'' then (raw, [])
      else (case account_pair (split_wacai_account_parts raw) ([], []) of
              (source, destination) \<Rightarrow> if source = [] \<and> destination = [] then (raw, []) else (source, destination)))"

section \<open>The header\<close>

text \<open>The map of aliases; the fields do not depend on each other, so their order does not matter.\<close>

definition header_aliases :: "(string \<times> string list) list" where
  "header_aliases =
     [(''type'', [''type'', ''transaction type'', ''bill type'', zh_h_type, zh_h_direction]),
      (''occurredAt'', [''date'', ''time'', ''datetime'', ''occurred at'', zh_h_date, zh_h_time, zh_h_trade_time, zh_h_date_time]),
      (''amount'', [''amount'', ''money'', zh_h_amount]),
      (''currency'', [''currency'', zh_h_currency]),
      (''account'', [''account'', zh_h_account, zh_h_account_number, zh_h_pay_account]),
      (''category'', [''category'', zh_h_category, zh_h_class]),
      (''book'', [''book'', zh_h_book, zh_h_export_book]),
      (''member'', [''member'', zh_h_member, zh_h_payer]),
      (''participants'', [''participants'', ''participant'', zh_h_participants]),
      (''merchant'', [''merchant'', ''payee'', zh_h_merchant, zh_h_object]),
      (''attribute'', [''attribute'', ''attributes'', zh_h_attribute]),
      (''note'', [''note'', ''memo'', zh_h_note]),
      (''tags'', [''tags'', ''tag'', zh_h_tags])]"

definition normalize_headers :: "string list \<Rightarrow> string list" where
  "normalize_headers headers = map trim_space headers"

definition column_of :: "import_env \<Rightarrow> string list \<Rightarrow> string list \<Rightarrow> string option" where
  "column_of env headers aliases = find (\<lambda>h. lower_trim env h \<in> set aliases) headers"

definition lookup_text :: "(string \<times> string) list \<Rightarrow> string \<Rightarrow> string" where
  "lookup_text m k = (case map_of m k of None \<Rightarrow> [] | Some v \<Rightarrow> v)"

definition detect_schema :: "import_env \<Rightarrow> string list \<Rightarrow> detected_schema" where
  "detect_schema env headers =
     (let columns = concat (map (\<lambda>(field, aliases).
            case column_of env headers aliases of None \<Rightarrow> [] | Some h \<Rightarrow> [(field, h)]) header_aliases)
      in \<lparr>ds_columns = columns,
          ds_missing = filter (\<lambda>field. lookup_text columns field = []) [''occurredAt'', ''amount'', ''type'']\<rparr>)"

fun detect_header_from :: "import_env \<Rightarrow> nat \<Rightarrow> string list list \<Rightarrow> (nat \<times> detected_schema) option" where
  "detect_header_from env index [] = None"
| "detect_header_from env index (rec # records) =
     (let schema = detect_schema env (normalize_headers rec)
      in if ds_missing schema = [] then Some (index, schema) else detect_header_from env (Suc index) records)"

definition detect_wacai_header :: "import_env \<Rightarrow> string list list \<Rightarrow> (nat \<times> detected_schema) option" where
  "detect_wacai_header env records = detect_header_from env 0 records"

section \<open>One row\<close>

definition is_empty_record :: "string list \<Rightarrow> bool" where
  "is_empty_record rec = list_all (\<lambda>v. trim_space v = []) rec"

definition value_for :: "detected_schema \<Rightarrow> (string \<times> string) list \<Rightarrow> string \<Rightarrow> string" where
  "value_for schema raw field =
     (let header = lookup_text (ds_columns schema) field
      in if header = [] then [] else trim_space (lookup_text raw header))"

definition split_tags :: "string \<Rightarrow> string list" where
  "split_tags raw = unique_values (fields_func ['','', '';'', ''|'', zh_comma] raw)"

text \<open>The cells under their headers; a header that occurs twice keeps its last cell.\<close>

fun raw_cells :: "string list \<Rightarrow> string list \<Rightarrow> (string \<times> string) list \<Rightarrow> (string \<times> string) list" where
  "raw_cells [] cells raw = raw"
| "raw_cells (h # headers) [] raw = raw_cells headers [] (AList.update h [] raw)"
| "raw_cells (h # headers) (c # cells) raw = raw_cells headers cells (AList.update h (trim_space c) raw)"

definition build_preview_row ::
    "import_env \<Rightarrow> int \<Rightarrow> string list \<Rightarrow> string list \<Rightarrow> detected_schema \<Rightarrow> string \<Rightarrow> preview_row" where
  "build_preview_row env row_number headers rec schema metadata_book =
     (let raw = raw_cells headers rec [];
          source_type = value_for schema raw ''type'';
          currency = normalize_wacai_currency env (value_for schema raw ''currency'');
          book_name = value_for schema raw ''book''
      in (case parse_wacai_accounts env (value_for schema raw ''account'') source_type of (account, destination) \<Rightarrow>
          \<lparr>pw_row_number = row_number, pw_raw = raw, pw_type = normalize_wacai_type env source_type,
           pw_source_type = source_type, pw_occurred_at = value_for schema raw ''occurredAt'',
           pw_amount = value_for schema raw ''amount'',
           pw_currency = (if currency = [] then ''CNY'' else currency),
           pw_account = account, pw_destination_account = destination,
           pw_category = value_for schema raw ''category'',
           pw_book = (if book_name = [] then metadata_book else book_name),
           pw_member = value_for schema raw ''member'',
           pw_participants = split_tags (value_for schema raw ''participants''),
           pw_merchant = value_for schema raw ''merchant'', pw_attribute = value_for schema raw ''attribute'',
           pw_note = value_for schema raw ''note'', pw_tags = split_tags (value_for schema raw ''tags''),
           pw_warnings = (if currency = [] then [''currency missing; defaulted to CNY''] else []), pw_errors = []\<rparr>))"

definition date_layouts :: "string list" where
  "date_layouts =
     [''2006-01-02T15:04:05Z07:00'', ''2006-01-02 15:04:05'', ''2006-01-02 15:04'', ''2006-01-02'',
      ''2006/01/02 15:04:05'', ''2006/01/02'']"

definition can_parse_date :: "import_env \<Rightarrow> string \<Rightarrow> bool" where
  "can_parse_date env raw = list_ex (\<lambda>layout. ie_date env layout raw \<noteq> None) date_layouts"

definition row_errors :: "import_env \<Rightarrow> preview_row \<Rightarrow> string list" where
  "row_errors env row =
     (if trim_space (pw_type row) = [] then [''type is required''] else []) @
     (if trim_space (pw_amount row) = [] then [''amount is required'']
      else if ie_float env (without_commas (pw_amount row)) = None then [''amount is invalid''] else []) @
     (if trim_space (pw_occurred_at row) = [] then [''occurredAt is required''] else [])"

definition row_warnings :: "import_env \<Rightarrow> preview_row \<Rightarrow> string list" where
  "row_warnings env row =
     (if trim_space (pw_occurred_at row) \<noteq> [] \<and> \<not> can_parse_date env (pw_occurred_at row)
      then [''occurredAt format needs review''] else []) @
     (if trim_space (pw_account row) = [] then [''account is missing''] else []) @
     (if pw_type row = ''transfer'' \<and> trim_space (pw_destination_account row) = []
      then [''destination account is missing''] else []) @
     (if trim_space (pw_category row) = [] then [''category is missing''] else [])"

definition validate_preview_row :: "import_env \<Rightarrow> preview_row \<Rightarrow> preview_row" where
  "validate_preview_row env row =
     row\<lparr>pw_errors := pw_errors row @ row_errors env row, pw_warnings := pw_warnings row @ row_warnings env row\<rparr>"

section \<open>The detected values\<close>

definition no_values :: detected_values where
  "no_values = \<lparr>dv_books = [], dv_accounts = [], dv_categories = [], dv_currencies = [], dv_members = [],
     dv_merchants = [], dv_tags = []\<rparr>"

definition collect_values :: "preview_row \<Rightarrow> detected_values \<Rightarrow> detected_values" where
  "collect_values row d = d\<lparr>
     dv_books := append_unique (dv_books d) (pw_book row),
     dv_accounts := append_unique (append_unique (dv_accounts d) (pw_account row)) (pw_destination_account row),
     dv_categories := append_unique (dv_categories d) (pw_category row),
     dv_currencies := append_unique (dv_currencies d) (pw_currency row),
     dv_members := foldl append_unique (append_unique (dv_members d) (pw_member row)) (pw_participants row),
     dv_merchants := append_unique (dv_merchants d) (pw_merchant row),
     dv_tags := foldl append_unique (dv_tags d) (pw_tags row)\<rparr>"

section \<open>The table\<close>

type_synonym preview_table = "preview_row list \<times> detected_schema \<times> detected_values \<times> int \<times> int"

text \<open>
  The loop over the records below the header: \<open>index\<close> is the number of the record in the file, counted from
  0, \<open>taken\<close> the number of rows so far, at most \<open>maxPreviewRows\<close>.
\<close>

definition max_preview_rows :: nat where "max_preview_rows = 500"

fun preview_rows ::
    "import_env \<Rightarrow> string list \<Rightarrow> detected_schema \<Rightarrow> string \<Rightarrow> nat \<Rightarrow> nat \<Rightarrow> string list list \<Rightarrow> preview_row list" where
  "preview_rows env headers schema metadata_book index taken [] = []"
| "preview_rows env headers schema metadata_book index taken (rec # records) =
     (if taken \<ge> max_preview_rows then []
      else if is_empty_record rec then preview_rows env headers schema metadata_book (Suc index) taken records
      else validate_preview_row env (build_preview_row env (int index + 1) headers rec schema metadata_book) #
        preview_rows env headers schema metadata_book (Suc index) (Suc taken) records)"

definition parse_wacai_records :: "import_env \<Rightarrow> string list list \<Rightarrow> string \<Rightarrow> import_error + preview_table" where
  "parse_wacai_records env records metadata_book =
     (case detect_wacai_header env records of
        None \<Rightarrow> Inl (ImportInvalidInput ''wacai header row is missing required columns'')
      | Some (header, schema) \<Rightarrow>
          (let rows = preview_rows env (normalize_headers (records ! header)) schema metadata_book (Suc header) 0
                 (drop (Suc header) records)
           in Inr (rows, schema, foldl (\<lambda>d row. collect_values row d) no_values rows,
                sum_list (map (int \<circ> length \<circ> pw_warnings) rows), sum_list (map (int \<circ> length \<circ> pw_errors) rows))))"

definition parse_wacai_csv :: "import_env \<Rightarrow> string \<Rightarrow> import_error + preview_table" where
  "parse_wacai_csv env data =
     (case ie_csv env (trim_prefix data [CHR 0xEF, CHR 0xBB, CHR 0xBF]) of
        None \<Rightarrow> Inl (ImportInvalidInput ''parse csv'')
      | Some records \<Rightarrow>
          if length records < 2 then Inl (ImportInvalidInput ''csv requires header and rows'')
          else parse_wacai_records env records [])"

end
