(* ===== verification/Import_Service.thy ===== *)
theory Import_Service
  imports Import_Parse
begin

text \<open>
  Workbooks (\<open>imports/wacai_xlsx.go\<close>) and the handlers of the import service (\<open>imports/service.go\<close>) over the
  interface of their store. \<open>fresh\<close> is \<open>uuid.NewString()\<close>, \<open>now\<close> is \<open>time.Now().UTC()\<close>.
\<close>

section \<open>Workbooks\<close>

definition max_xlsx_worksheet_bytes :: int where
  "max_xlsx_worksheet_bytes = 32 * 1024 * 1024"

definition find_xlsx_file :: "zip_file list \<Rightarrow> string \<Rightarrow> zip_file option" where
  "find_xlsx_file files name = find (\<lambda>f. zf_name f = name) files"

definition join_xlsx_rich_text :: "string list \<Rightarrow> string" where
  "join_xlsx_rich_text runs = concat runs"

definition xlsx_shared_string_text :: "string \<times> string list \<Rightarrow> string" where
  "xlsx_shared_string_text item = (case item of (t, runs) \<Rightarrow> if t \<noteq> [] then t else join_xlsx_rich_text runs)"

definition read_xlsx_shared_strings :: "zip_file list \<Rightarrow> import_error + string list" where
  "read_xlsx_shared_strings files =
     (case find_xlsx_file files ''xl/sharedStrings.xml'' of
        None \<Rightarrow> Inr []
      | Some f \<Rightarrow>
          if zf_size f > max_xlsx_worksheet_bytes then Inl (ImportInvalidInput ''xlsx shared strings are too large'')
          else (case zf_shared_strings f of
                  None \<Rightarrow> Inl (ImportInvalidInput ''parse xlsx shared strings'')
                | Some items \<Rightarrow> Inr (map (\<lambda>item. trim_space (xlsx_shared_string_text item)) items)))"

definition read_xlsx_worksheet :: "zip_file \<Rightarrow> import_error + xlsx_cell list list" where
  "read_xlsx_worksheet f =
     (case zf_worksheet f of None \<Rightarrow> Inl (ImportInvalidInput ''parse xlsx worksheet'') | Some rows \<Rightarrow> Inr rows)"

text \<open>The letters of a reference as a number to the base 26, in the arithmetic of an \<open>int\<close>.\<close>

definition column_letters :: "import_env \<Rightarrow> string \<Rightarrow> string" where
  "column_letters env ref = takeWhile is_upper (to_upper_with (ie_upper env) (trim_space ref))"

definition letters_index :: "string \<Rightarrow> int" where
  "letters_index letters = foldl (\<lambda>index c. int64 (int64 (index * 26) + (of_char c - 65) + 1)) 0 letters"

definition xlsx_cell_index :: "import_env \<Rightarrow> string \<Rightarrow> int" where
  "xlsx_cell_index env ref =
     (let column = column_letters env ref in if column = [] then 0 else int64 (letters_index column - 1))"

definition xlsx_cell_value :: "import_env \<Rightarrow> string list \<Rightarrow> xlsx_cell \<Rightarrow> string" where
  "xlsx_cell_value env shared cell =
     (if cl_type cell = ''inlineStr'' then
        (if cl_inline_text cell \<noteq> [] then trim_space (cl_inline_text cell)
         else trim_space (join_xlsx_rich_text (cl_inline_runs cell)))
      else if cl_type cell = ''s'' then
        (case atoi (trim_space (cl_value cell)) of
           None \<Rightarrow> []
         | Some index \<Rightarrow> if index < 0 \<or> index \<ge> int (length shared) then [] else shared ! nat index)
      else trim_space (cl_value cell))"

text \<open>The record grows to the index of the cell; assigning at a negative index panics (\<open>None\<close>).\<close>

fun xlsx_record_from_row :: "import_env \<Rightarrow> string list \<Rightarrow> xlsx_cell list \<Rightarrow> string list \<Rightarrow> string list option" where
  "xlsx_record_from_row env shared [] rec = Some rec"
| "xlsx_record_from_row env shared (cell # cells) rec =
     (let index = xlsx_cell_index env (cl_ref cell);
          rec = rec @ replicate (nat (index + 1) - length rec) []
      in if index < 0 then None
         else xlsx_record_from_row env shared cells (rec[nat index := xlsx_cell_value env shared cell]))"

definition merge_wacai_metadata :: "string \<Rightarrow> string list \<Rightarrow> string" where
  "merge_wacai_metadata metadata_book rec =
     (case rec of
        [] \<Rightarrow> metadata_book
      | cell # _ \<Rightarrow>
          (let first = trim_space cell; prefix = zh_export_prefix @ zh_colon
           in if has_prefix first prefix then trim_space (trim_prefix first prefix) else metadata_book))"

fun xlsx_records ::
    "import_env \<Rightarrow> string list \<Rightarrow> xlsx_cell list list \<Rightarrow> string \<Rightarrow> (string list list \<times> string) option" where
  "xlsx_records env shared [] metadata_book = Some ([], metadata_book)"
| "xlsx_records env shared (row # rows) metadata_book =
     (case xlsx_record_from_row env shared row [] of
        None \<Rightarrow> None
      | Some rec \<Rightarrow>
          (case xlsx_records env shared rows (merge_wacai_metadata metadata_book rec) of
             None \<Rightarrow> None | Some (records, m) \<Rightarrow> Some (rec # records, m)))"

definition parse_wacai_xlsx :: "import_env \<Rightarrow> string \<Rightarrow> import_error + string list list \<times> string" where
  "parse_wacai_xlsx env data =
     (case ie_zip env data of
        None \<Rightarrow> Inl (ImportInvalidInput ''open xlsx'')
      | Some files \<Rightarrow>
          rbind (read_xlsx_shared_strings files) (\<lambda>shared.
          (case find_xlsx_file files ''xl/worksheets/sheet1.xml'' of
             None \<Rightarrow> Inl (ImportInvalidInput ''xlsx sheet1 is missing'')
           | Some f \<Rightarrow>
               if zf_size f > max_xlsx_worksheet_bytes then Inl (ImportInvalidInput ''xlsx worksheet is too large'')
               else rbind (read_xlsx_worksheet f) (\<lambda>rows.
                 (case xlsx_records env shared rows [] of
                    None \<Rightarrow> Inl ImportPanic
                  | Some (records, metadata_book) \<Rightarrow>
                      if length records < 2 then Inl (ImportInvalidInput ''xlsx requires header and rows'')
                      else Inr (records, metadata_book))))))"

section \<open>Files\<close>

definition parse_wacai_file :: "import_env \<Rightarrow> string \<Rightarrow> string \<Rightarrow> import_error + preview_table" where
  "parse_wacai_file env data extension =
     (let extension = lower_trim env extension in
      if extension = ''.csv'' then parse_wacai_csv env data
      else if extension = ''.xlsx'' then
        rbind (parse_wacai_xlsx env data) (\<lambda>(records, metadata_book). parse_wacai_records env records metadata_book)
      else Inl (ImportInvalidInput ''unsupported import file extension''))"

text \<open>\<open>filepath.Ext\<close>: from the last dot of the last element of the path.\<close>

definition file_ext :: "string \<Rightarrow> string" where
  "file_ext filename =
     (let name = takeWhile (\<lambda>c. c \<noteq> CHR ''/'') (rev filename)
      in if CHR ''.'' \<in> set name then CHR ''.'' # rev (takeWhile (\<lambda>c. c \<noteq> CHR ''.'') name) else [])"

definition hash_source :: "import_env \<Rightarrow> string \<Rightarrow> string" where
  "hash_source env data = hex_encode (ie_sha env data)"

section \<open>The handlers\<close>

record preview_request =
  pq_user_id :: string
  pq_filename :: string
  pq_content_type :: string
  pq_data :: string

record batch_request =
  bq_user_id :: string
  bq_batch_id :: string

record mark_applied_request =
  mq_user_id :: string
  mq_batch_id :: string
  mq_book_id :: string
  mq_entry_ids :: "string list"
  mq_skipped_rows :: "applied_skipped_row list"

definition max_preview_bytes :: nat where "max_preview_bytes = 5 * 1024 * 1024"

definition new_batch :: "import_env \<Rightarrow> preview_request \<Rightarrow> string \<Rightarrow> time \<Rightarrow> preview_table \<Rightarrow> batch" where
  "new_batch env request fresh now table =
     (case table of (rows, schema, detected, warning_count, error_count) \<Rightarrow>
        \<lparr>ib_id = fresh, ib_user_id = pq_user_id request, ib_source = ''wacai'',
         ib_filename = trim_space (pq_filename request), ib_content_type = trim_space (pq_content_type request),
         ib_source_hash = hash_source env (pq_data request), ib_parser_version = ''wacai-preview-v2'',
         ib_status = BatchStatusPreview, ib_detected_schema = schema, ib_rows = rows, ib_detected = detected,
         ib_error_count = error_count, ib_warning_count = warning_count, ib_applied_book_id = [],
         ib_applied_entry_ids = [], ib_applied_skipped_rows = [], ib_applied_at = None, ib_created_at = now,
         ib_updated_at = now\<rparr>)"

text \<open>\<open>None\<close>: there is no such batch yet; another error than not found is passed on.\<close>

definition known_batch :: "import_error + batch \<Rightarrow> import_error + batch option" where
  "known_batch answer =
     (case answer of Inr b \<Rightarrow> Inr (Some b) | Inl (ImportNotFound _) \<Rightarrow> Inr None | Inl e \<Rightarrow> Inl e)"

definition preview_wacai_file ::
    "(batch \<Rightarrow> ('s, import_error, batch \<times> bool) act) \<Rightarrow> (string \<Rightarrow> string \<Rightarrow> string \<Rightarrow> 's \<Rightarrow> import_error + batch) \<Rightarrow>
     import_env \<Rightarrow> preview_request \<Rightarrow> string \<Rightarrow> time \<Rightarrow> ('s, import_error, batch) act" where
  "preview_wacai_file save_if_absent by_hash env request fresh now =
     (let extension = to_lower_with (ie_lower env) (file_ext (pq_filename request)) in
      abind (aguard (pq_user_id request \<noteq> []) (ImportInvalidInput ''actor user id is required'')) (\<lambda>_.
      abind (aguard (trim_space (pq_filename request) \<noteq> []) (ImportInvalidInput ''filename is required'')) (\<lambda>_.
      abind (aguard (pq_data request \<noteq> []) (ImportInvalidInput ''import file is empty'')) (\<lambda>_.
      abind (aguard (length (pq_data request) \<le> max_preview_bytes) (ImportInvalidInput ''import file is too large'')) (\<lambda>_.
      abind (aguard (extension = ''.csv'' \<or> extension = ''.xlsx'')
        (ImportInvalidInput ''only csv and xlsx preview are supported'')) (\<lambda>_.
      abind (aread (\<lambda>s. known_batch (by_hash (pq_user_id request) ''wacai'' (hash_source env (pq_data request)) s))) (\<lambda>existing.
      (case existing of
         Some b \<Rightarrow> aret b
       | None \<Rightarrow>
           abind (aread (\<lambda>_. parse_wacai_file env (pq_data request) extension)) (\<lambda>table.
           abind (save_if_absent (new_batch env request fresh now table)) (\<lambda>(stored, _).
           aret stored))))))))))"

definition preview_wacai_csv ::
    "(batch \<Rightarrow> ('s, import_error, batch \<times> bool) act) \<Rightarrow> (string \<Rightarrow> string \<Rightarrow> string \<Rightarrow> 's \<Rightarrow> import_error + batch) \<Rightarrow>
     import_env \<Rightarrow> preview_request \<Rightarrow> string \<Rightarrow> time \<Rightarrow> ('s, import_error, batch) act" where
  "preview_wacai_csv save_if_absent by_hash env request fresh now =
     abind (aguard (to_lower_with (ie_lower env) (file_ext (pq_filename request)) = ''.csv'')
       (ImportInvalidInput ''only csv preview is supported'')) (\<lambda>_.
     preview_wacai_file save_if_absent by_hash env request fresh now)"

definition load_batch ::
    "(string \<Rightarrow> string \<Rightarrow> 's \<Rightarrow> import_error + batch) \<Rightarrow> batch_request \<Rightarrow> 's \<Rightarrow> import_error + batch" where
  "load_batch by_id request s =
     (if bq_user_id request = [] then Inl (ImportInvalidInput ''actor user id is required'')
      else if trim_space (bq_batch_id request) = [] then Inl (ImportInvalidInput ''batch id is required'')
      else by_id (bq_user_id request) (trim_space (bq_batch_id request)) s)"

definition normalize_applied_entry_ids :: "string list \<Rightarrow> string list" where
  "normalize_applied_entry_ids entry_ids = unique_values entry_ids"

definition mark_applied ::
    "(batch \<Rightarrow> ('s, import_error, batch) act) \<Rightarrow> (string \<Rightarrow> string \<Rightarrow> 's \<Rightarrow> import_error + batch) \<Rightarrow>
     mark_applied_request \<Rightarrow> time \<Rightarrow> ('s, import_error, batch) act" where
  "mark_applied save by_id request now =
     (let book_id = trim_space (mq_book_id request); entry_ids = normalize_applied_entry_ids (mq_entry_ids request) in
      abind (aguard (mq_user_id request \<noteq> []) (ImportInvalidInput ''actor user id is required'')) (\<lambda>_.
      abind (aguard (trim_space (mq_batch_id request) \<noteq> []) (ImportInvalidInput ''batch id is required'')) (\<lambda>_.
      abind (aguard (book_id \<noteq> []) (ImportInvalidInput ''book id is required'')) (\<lambda>_.
      abind (aguard (entry_ids \<noteq> []) (ImportInvalidInput ''applied entry ids are required'')) (\<lambda>_.
      abind (aread (by_id (mq_user_id request) (trim_space (mq_batch_id request)))) (\<lambda>b.
      if ib_status b = BatchStatusApplied
      then abind (aguard (ib_applied_book_id b = book_id)
             (ImportInvalidInput ''import batch already applied to another book'')) (\<lambda>_. aret b)
      else save (b\<lparr>ib_status := BatchStatusApplied, ib_applied_book_id := book_id, ib_applied_entry_ids := entry_ids,
             ib_applied_skipped_rows := mq_skipped_rows request, ib_applied_at := Some now, ib_updated_at := now\<rparr>)))))))"

end
