(* ===== verification/Looping.thy ===== *)
theory Looping
  imports Triples Pagination
begin

text \<open>
  Operations on a store that contain loops: \<open>None\<close> is a run that does not return. A rule shows at once that
  an operation returns and what it keeps.
\<close>

type_synonym ('s, 'e, 'a) loop_act = "'s \<Rightarrow> (('e + 'a) \<times> 's) option"

definition lift_act :: "('s, 'e, 'a) act \<Rightarrow> ('s, 'e, 'a) loop_act" where
  "lift_act m s = Some (m s)"

definition lift_read :: "('s \<Rightarrow> ('e + 'a) option) \<Rightarrow> ('s, 'e, 'a) loop_act" where
  "lift_read f s = map_option (\<lambda>r. (r, s)) (f s)"

definition lbind :: "('s, 'e, 'a) loop_act \<Rightarrow> ('a \<Rightarrow> ('s, 'e, 'b) loop_act) \<Rightarrow> ('s, 'e, 'b) loop_act" where
  "lbind m f s =
     (case m s of None \<Rightarrow> None | Some (Inl e, t) \<Rightarrow> Some (Inl e, t) | Some (Inr x, t) \<Rightarrow> f x t)"

abbreviation lret :: "'a \<Rightarrow> ('s, 'e, 'a) loop_act" where "lret x \<equiv> lift_act (aret x)"
abbreviation lfail :: "'e \<Rightarrow> ('s, 'e, 'a) loop_act" where "lfail e \<equiv> lift_act (afail e)"
abbreviation lguard :: "bool \<Rightarrow> 'e \<Rightarrow> ('s, 'e, unit) loop_act" where "lguard b e \<equiv> lift_act (aguard b e)"
abbreviation lread :: "('s \<Rightarrow> 'e + 'a) \<Rightarrow> ('s, 'e, 'a) loop_act" where "lread f \<equiv> lift_act (aread f)"

text \<open>A successful run, taken apart.\<close>

lemma lbind_Inr_iff: "lbind m f s = Some (Inr y, u) \<longleftrightarrow> (\<exists>x t. m s = Some (Inr x, t) \<and> f x t = Some (Inr y, u))"
  by (auto simp: lbind_def split: option.splits prod.splits sum.splits)

lemma lift_act_iff [simp]: "lift_act m s = Some (r, t) \<longleftrightarrow> m s = (r, t)"
  by (simp add: lift_act_def)

lemma lift_read_iff [simp]: "lift_read f s = Some (r, t) \<longleftrightarrow> f s = Some r \<and> t = s"
  by (auto simp: lift_read_def)

lemma lbind_lift: "lbind (lift_act m) f s = (case m s of (Inl e, t) \<Rightarrow> Some (Inl e, t) | (Inr x, t) \<Rightarrow> f x t)"
  by (simp add: lbind_def lift_act_def)

lemma lbind_lread_iff: "lbind (lread g) f s = Some (Inr y, u) \<longleftrightarrow> (\<exists>x. g s = Inr x \<and> f x s = Some (Inr y, u))"
  by (auto simp: lbind_Inr_iff)

lemma lbind_lguard_iff: "lbind (lguard b e) f s = Some (Inr y, u) \<longleftrightarrow> b \<and> f () s = Some (Inr y, u)"
  by (auto simp: lbind_Inr_iff)

lemmas loop_peel = lbind_lread_iff lbind_lguard_iff

section \<open>What an operation that returns keeps\<close>

definition returns_keeping :: "('s \<Rightarrow> bool) \<Rightarrow> ('s, 'e, 'a) loop_act \<Rightarrow> bool" where
  "returns_keeping P m \<longleftrightarrow> (\<forall>s. P s \<longrightarrow> (\<exists>r t. m s = Some (r, t) \<and> P t))"

lemma returns_keepingI: "(\<And>s. P s \<Longrightarrow> \<exists>r t. m s = Some (r, t) \<and> P t) \<Longrightarrow> returns_keeping P m"
  by (simp add: returns_keeping_def)

lemma returns_keepingD: "returns_keeping P m \<Longrightarrow> P s \<Longrightarrow> \<exists>r t. m s = Some (r, t) \<and> P t"
  by (simp add: returns_keeping_def)

lemma returns_bind: "returns_keeping P m \<Longrightarrow> (\<And>x. returns_keeping P (f x)) \<Longrightarrow> returns_keeping P (lbind m f)"
  unfolding returns_keeping_def lbind_def by (fastforce split: sum.splits)

lemma returns_lift: "keeps P m \<Longrightarrow> returns_keeping P (lift_act m)"
  by (rule returns_keepingI) (metis keepsD lift_act_iff surj_pair)

lemma returns_read: "(\<And>s. P s \<Longrightarrow> f s \<noteq> None) \<Longrightarrow> returns_keeping P (lift_read f)"
  by (rule returns_keepingI) fastforce

lemma returns_if: "returns_keeping P m \<Longrightarrow> returns_keeping P n \<Longrightarrow> returns_keeping P (if b then m else n)"
  by simp

lemma returns_option:
  "returns_keeping P m \<Longrightarrow> (\<And>y. returns_keeping P (f y)) \<Longrightarrow> returns_keeping P (case x of None \<Rightarrow> m | Some y \<Rightarrow> f y)"
  by (cases x) simp_all

lemma returns_prod: "(\<And>a b. returns_keeping P (f a b)) \<Longrightarrow> returns_keeping P (case x of (a, b) \<Rightarrow> f a b)"
  by (cases x) simp

lemma returns_basic:
  "returns_keeping P (lret x)" "returns_keeping P (lfail e)" "returns_keeping P (lguard b e)" "returns_keeping P (lread f)"
  by (intro returns_lift keeps_basic)+

lemmas returns_rules = returns_bind returns_basic returns_if returns_option returns_prod

end
