(* ===== verification/Import_Commit.thy ===== *)
theory Import_Commit
  imports Import_Service Auth_Service Ledger_Steps Looping
begin

text \<open>
  Applying a staged import to a book (\<open>httpserver/import_routes.go\<close>, \<open>httpserver/import_members.go\<close>): members
  named in the rows are resolved to users and added to the book, missing accounts and categories are
  created, and every row becomes an entry or is skipped with a reason. The route composes the import service,
  the ledger and the users of package \<open>auth\<close>.

  The record \<open>commit_env\<close> holds what the handlers read of their surroundings. A fresh identifier is a
  function of the store at which it is drawn: every draw is followed by the write that uses it, so no two
  draws see the same store.
\<close>

section \<open>Surroundings and answers\<close>

record commit_env =
  xe_import :: import_env
  xe_auth :: auth_env
  xe_users :: auth_store
  xe_fold :: "string \<Rightarrow> string \<Rightarrow> bool"
  xe_parse_uuid :: "string \<Rightarrow> string option"
  xe_rational :: "string \<Rightarrow> rat option"
  xe_fresh :: "memory_store \<Rightarrow> string"
  xe_entry_id :: "memory_store \<Rightarrow> ledger_error + string"
  xe_now :: time

type_synonym 'a commit_act = "(memory_store, ledger_error, 'a) loop_act"

record import_skipped_row =
  sk_row_number :: int
  sk_reason :: string

record import_commit_response =
  ir_batch_id :: string
  ir_book_id :: string
  ir_status :: string
  ir_imported_count :: int
  ir_skipped_count :: int
  ir_entries :: "entry list"
  ir_skipped_rows :: "import_skipped_row list"

section \<open>Members\<close>

definition normalize_wacai_member_name :: "commit_env \<Rightarrow> string \<Rightarrow> string" where
  "normalize_wacai_member_name env name = lower_trim (xe_import env) name"

text \<open>Of two mappings for one name the later one counts, in the order of iteration over the Go map.\<close>

definition normalize_wacai_member_mappings :: "commit_env \<Rightarrow> (string \<times> string) list \<Rightarrow> (string \<times> string) list" where
  "normalize_wacai_member_mappings env mappings =
     foldl (\<lambda>normalized (name, reference).
         let name = normalize_wacai_member_name env name; reference = trim_space reference
         in if name \<noteq> [] \<and> reference \<noteq> [] then AList.update name reference normalized else normalized)
       [] mappings"

definition append_unique_string :: "string list \<Rightarrow> string \<Rightarrow> string list" where
  "append_unique_string values v =
     (let v = trim_space v
      in if v = [] then values else if list_ex (\<lambda>e. trim_space e = v) values then values else values @ [v])"

definition wacai_row_member_sources :: "preview_row \<Rightarrow> string list" where
  "wacai_row_member_sources row =
     foldl append_unique_string (append_unique_string [] (pw_member row)) (pw_participants row)"

definition is_self_wacai_member :: "commit_env \<Rightarrow> string \<Rightarrow> actor \<Rightarrow> string \<Rightarrow> bool" where
  "is_self_wacai_member env name a actor_email =
     (let name = normalize_wacai_member_name env name
      in name \<in> set [[], ''self'', ''me'', ''myself'', zh_self] \<or>
         name = normalize_wacai_member_name env (at_user_id a) \<or> name = normalize_wacai_member_name env actor_email)"

definition resolve_wacai_user_reference :: "commit_env \<Rightarrow> string \<Rightarrow> ledger_error + user" where
  "resolve_wacai_user_reference env reference =
     (let reference = trim_space reference in
      if reference = [] then Inl (ErrInvalidInput ''member mapping value is required'')
      else if contains_text reference ''@''
      then (case resolve_user (xe_auth env) \<lparr>rs_user_id = [], rs_email = reference\<rparr> (xe_users env) of
              Inl _ \<Rightarrow> Inl (ErrOther ''resolve mapped member email'') | Inr u \<Rightarrow> Inr u)
      else (case resolve_user (xe_auth env) \<lparr>rs_user_id = reference, rs_email = []\<rparr> (xe_users env) of
              Inl _ \<Rightarrow> Inl (ErrOther ''resolve mapped member uid'') | Inr u \<Rightarrow> Inr u))"

definition resolve_mapped_wacai_member ::
    "commit_env \<Rightarrow> actor \<Rightarrow> string \<Rightarrow> string \<Rightarrow> (string \<times> string) list \<Rightarrow> (memory_store, ledger_error, string) act" where
  "resolve_mapped_wacai_member env a book_id name mappings =
     (let reference = lookup_text mappings (normalize_wacai_member_name env name) in
      abind (aguard (reference \<noteq> []) (ErrInvalidInput ''wacai member requires a uid or email mapping'')) (\<lambda>_.
      abind (aread (\<lambda>_. resolve_wacai_user_reference env reference)) (\<lambda>u.
      abind (add_book_member \<lparr>am_actor = a, am_book_id = book_id, am_user_id = us_id u, am_role = RoleMember,
               am_display_name = trim_space name\<rparr> (xe_now env)) (\<lambda>_.
      aret (us_id u)))))"

text \<open>The inner loop, over the names in a row: who is resolved so far, and the creator of the row.\<close>

fun resolve_row_members ::
    "commit_env \<Rightarrow> actor \<Rightarrow> string \<Rightarrow> string \<Rightarrow> (string \<times> string) list \<Rightarrow> preview_row \<Rightarrow> string list \<Rightarrow>
     (string \<times> string) list \<Rightarrow> string \<Rightarrow> (memory_store, ledger_error, (string \<times> string) list \<times> string) act" where
  "resolve_row_members env a email book_id mappings row [] resolved creator = aret (resolved, creator)"
| "resolve_row_members env a email book_id mappings row (name # names) resolved creator =
     (let key = normalize_wacai_member_name env name in
      abind (case map_of resolved key of
               Some user_id \<Rightarrow> aret user_id
             | None \<Rightarrow> if is_self_wacai_member env name a email then aret (at_user_id a)
                 else resolve_mapped_wacai_member env a book_id name mappings) (\<lambda>user_id.
      resolve_row_members env a email book_id mappings row names
        (if map_of resolved key = None then AList.update key user_id resolved else resolved)
        (if trim_space (pw_member row) = trim_space name then user_id else creator)))"

fun resolve_member_rows ::
    "commit_env \<Rightarrow> actor \<Rightarrow> string \<Rightarrow> string \<Rightarrow> (string \<times> string) list \<Rightarrow> preview_row list \<Rightarrow>
     (string \<times> string) list \<Rightarrow> (int \<times> string) list \<Rightarrow> (memory_store, ledger_error, (int \<times> string) list) act" where
  "resolve_member_rows env a email book_id mappings [] resolved creators = aret creators"
| "resolve_member_rows env a email book_id mappings (row # rows) resolved creators =
     (if pw_errors row \<noteq> [] then resolve_member_rows env a email book_id mappings rows resolved creators
      else abind (resolve_row_members env a email book_id mappings row (wacai_row_member_sources row) resolved (at_user_id a))
        (\<lambda>(resolved, creator).
         resolve_member_rows env a email book_id mappings rows resolved (AList.update (pw_row_number row) creator creators)))"

definition resolve_wacai_member_mappings ::
    "commit_env \<Rightarrow> actor \<Rightarrow> string \<Rightarrow> string \<Rightarrow> preview_row list \<Rightarrow> (string \<times> string) list \<Rightarrow>
     (memory_store, ledger_error, (int \<times> string) list) act" where
  "resolve_wacai_member_mappings env a email book_id rows mappings =
     resolve_member_rows env a email book_id (normalize_wacai_member_mappings env mappings) rows [] []"

section \<open>Accounts and categories\<close>

definition list_all_import_accounts :: "actor \<Rightarrow> memory_store \<Rightarrow> (ledger_error + account list) option" where
  "list_all_import_accounts a s = collect_pages (\<lambda>page. list_accounts a page 100 s) 1 []"

definition list_all_import_account_groups :: "actor \<Rightarrow> memory_store \<Rightarrow> (ledger_error + account_group list) option" where
  "list_all_import_account_groups a s = collect_pages (\<lambda>page. list_account_groups a page 100 s) 1 []"

definition list_all_import_categories :: "actor \<Rightarrow> string \<Rightarrow> memory_store \<Rightarrow> (ledger_error + category list) option" where
  "list_all_import_categories a book_id s = collect_pages (\<lambda>page. list_categories a book_id page 100 s) 1 []"

definition account_id_by_name_currency :: "account list \<Rightarrow> string \<Rightarrow> string \<Rightarrow> string" where
  "account_id_by_name_currency accounts name currency =
     (case find (\<lambda>x. ac_name x = trim_space name \<and> ac_currency x = upper_trim currency) accounts of
        None \<Rightarrow> [] | Some x \<Rightarrow> ac_id x)"

definition wacai_import_account_group_name :: string where
  "wacai_import_account_group_name = ''Wacai Import''"

definition ensure_wacai_import_account_group ::
    "commit_env \<Rightarrow> actor \<Rightarrow> account_group list \<Rightarrow> (memory_store, ledger_error, string) act" where
  "ensure_wacai_import_account_group env a groups =
     (case find (\<lambda>g. equal_fold (xe_fold env) (trim_space (ag_name g)) wacai_import_account_group_name) groups of
        Some g \<Rightarrow> aret (ag_id g)
      | None \<Rightarrow>
          abind (\<lambda>s. create_account_group \<lparr>cg_actor = a, cg_name = wacai_import_account_group_name,
              cg_sort_order = int (length groups) + 1\<rparr> (xe_fresh env s) (xe_now env) s) (\<lambda>g. aret (ag_id g)))"

definition infer_wacai_account_type :: "commit_env \<Rightarrow> string \<Rightarrow> account_type" where
  "infer_wacai_account_type env name =
     (let normalized = lower_trim (xe_import env) name; has = contains_text normalized in
      if has zh_credit_card \<or> has ''credit'' then AccountTypeCreditCard
      else if has zh_alipay \<or> has zh_wechat \<or> has ''paypal'' then AccountTypePaymentPlatform
      else if has ''loan'' \<or> has zh_loans then AccountTypeLoan
      else if has zh_shares \<or> has zh_funds \<or> has ''invest'' then AccountTypeInvestment
      else if has zh_cash \<or> has ''cash'' then AccountTypeCash
      else AccountTypeSavings)"

definition ensure_wacai_import_account ::
    "commit_env \<Rightarrow> actor \<Rightarrow> string \<Rightarrow> account_group list \<Rightarrow> string \<Rightarrow> account list \<Rightarrow> string \<Rightarrow> string \<Rightarrow>
     (memory_store, ledger_error, string \<times> account list) act" where
  "ensure_wacai_import_account env a book_id groups group_id accounts name currency =
     (let name = trim_space name; currency = upper_trim currency in
      if name = [] then aret (group_id, accounts)
      else if account_id_by_name_currency accounts name currency \<noteq> [] then aret (group_id, accounts)
      else abind (if group_id = [] then ensure_wacai_import_account_group env a groups else aret group_id) (\<lambda>group_id.
        abind (\<lambda>s. create_account
            \<lparr>ca_actor = a, ca_group_id = group_id, ca_name = name, ca_type = infer_wacai_account_type env name,
             ca_currency = currency, ca_shared_book_ids = [book_id], ca_opening_balance = 0\<rparr>
            (xe_fresh env s) (xe_now env) s) (\<lambda>x.
        aret (group_id, accounts @ [x]))))"

definition split_wacai_category_path :: "string \<Rightarrow> string list" where
  "split_wacai_category_path path = trimmed_fields [''/'', [CHR 0x5C], zh_slash] path"

definition category_id_by_parent_name_direction ::
    "category list \<Rightarrow> string \<Rightarrow> string \<Rightarrow> category_direction \<Rightarrow> string" where
  "category_id_by_parent_name_direction categories parent_id name direction =
     (case find (\<lambda>c. ct_parent_id c = trim_space parent_id \<and> ct_name c = trim_space name \<and>
         ct_direction c = direction \<and> \<not> ct_archived c) categories of
        None \<Rightarrow> [] | Some c \<Rightarrow> ct_id c)"

fun category_id_by_parts :: "category list \<Rightarrow> string list \<Rightarrow> category_direction \<Rightarrow> string \<Rightarrow> string" where
  "category_id_by_parts categories [] direction parent_id = parent_id"
| "category_id_by_parts categories (part # parts) direction parent_id =
     (let category_id = category_id_by_parent_name_direction categories parent_id part direction
      in if category_id = [] then [] else category_id_by_parts categories parts direction category_id)"

definition category_id_by_path_direction :: "category list \<Rightarrow> string \<Rightarrow> category_direction \<Rightarrow> string" where
  "category_id_by_path_direction categories path direction =
     category_id_by_parts categories (split_wacai_category_path path) direction []"

text \<open>The loop down a path, with the categories known so far and the parent reached.\<close>

fun ensure_category_parts ::
    "commit_env \<Rightarrow> actor \<Rightarrow> string \<Rightarrow> string \<Rightarrow> category_direction \<Rightarrow> string list \<Rightarrow> category list \<Rightarrow> string \<Rightarrow>
     category list commit_act" where
  "ensure_category_parts env a book_id path direction [] categories parent_id = lret categories"
| "ensure_category_parts env a book_id path direction (part # parts) categories parent_id =
     (let category_id = category_id_by_parent_name_direction categories parent_id part direction in
      if category_id \<noteq> [] then ensure_category_parts env a book_id path direction parts categories category_id
      else lbind (\<lambda>s. create_category
          \<lparr>cc_actor = a, cc_book_id = book_id, cc_parent_id = parent_id, cc_name = part, cc_direction = direction,
           cc_sort_order = int (length categories) + 1,
           cc_raw_source_name = (if parts = [] then trim_space path else part)\<rparr>
          (xe_fresh env s) (xe_now env) s) (\<lambda>c.
        ensure_category_parts env a book_id path direction parts (categories @ [c]) (ct_id c)))"

definition ensure_wacai_import_category ::
    "commit_env \<Rightarrow> actor \<Rightarrow> string \<Rightarrow> category list \<Rightarrow> string \<Rightarrow> category_direction \<Rightarrow> category list commit_act" where
  "ensure_wacai_import_category env a book_id categories path direction =
     ensure_category_parts env a book_id path direction (split_wacai_category_path path) categories []"

definition import_category_direction :: "entry_type \<Rightarrow> category_direction" where
  "import_category_direction t =
     (if t \<in> set [EntryTypeIncome, EntryTypeBorrow, EntryTypeRefund, EntryTypeReimbursement, EntryTypeRepayment]
      then CategoryDirectionIncome else CategoryDirectionExpense)"

definition import_entry_type :: "commit_env \<Rightarrow> string \<Rightarrow> entry_type option" where
  "import_entry_type env raw =
     map_of [(''expense'', EntryTypeExpense), (''income'', EntryTypeIncome), (''transfer'', EntryTypeTransfer),
       (''refund'', EntryTypeRefund), (''reimbursement'', EntryTypeReimbursement), (''borrow'', EntryTypeBorrow),
       (''lend'', EntryTypeLend), (''repayment'', EntryTypeRepayment)] (lower_trim (xe_import env) raw)"

text \<open>The loop over the rows, with the group of the import, the accounts and the categories known so far.\<close>

fun ensure_reference_rows ::
    "commit_env \<Rightarrow> actor \<Rightarrow> string \<Rightarrow> account_group list \<Rightarrow> preview_row list \<Rightarrow> string \<Rightarrow> account list \<Rightarrow> category list \<Rightarrow>
     (account list \<times> category list) commit_act" where
  "ensure_reference_rows env a book_id groups [] group_id accounts categories = lret (accounts, categories)"
| "ensure_reference_rows env a book_id groups (row # rows) group_id accounts categories =
     (case (if pw_errors row \<noteq> [] then None else import_entry_type env (pw_type row)) of
        None \<Rightarrow> ensure_reference_rows env a book_id groups rows group_id accounts categories
      | Some t \<Rightarrow>
          lbind (lift_act (ensure_wacai_import_account env a book_id groups group_id accounts (pw_account row) (pw_currency row)))
            (\<lambda>(group_id, accounts).
          if t = EntryTypeTransfer
          then lbind (lift_act (ensure_wacai_import_account env a book_id groups group_id accounts
                  (pw_destination_account row) (pw_currency row))) (\<lambda>(group_id, accounts).
                ensure_reference_rows env a book_id groups rows group_id accounts categories)
          else lbind (ensure_wacai_import_category env a book_id categories (pw_category row) (import_category_direction t))
                (\<lambda>categories. ensure_reference_rows env a book_id groups rows group_id accounts categories)))"

definition ensure_wacai_import_references ::
    "commit_env \<Rightarrow> actor \<Rightarrow> string \<Rightarrow> preview_row list \<Rightarrow> (account list \<times> category list) commit_act" where
  "ensure_wacai_import_references env a book_id rows =
     lbind (lift_read (list_all_import_accounts a)) (\<lambda>accounts.
     lbind (lift_read (list_all_import_account_groups a)) (\<lambda>groups.
     lbind (lift_read (list_all_import_categories a book_id)) (\<lambda>categories.
     ensure_reference_rows env a book_id groups rows [] accounts categories)))"

section \<open>Rows\<close>

text \<open>\<open>math.Round\<close>, and the conversion of a \<open>float64\<close> to \<open>int64\<close>, which Go leaves open outside the range.\<close>

definition round_half_away :: "rat \<Rightarrow> int" where
  "round_half_away q = (if q < 0 then - \<lfloor>- q + 1 / 2\<rfloor> else \<lfloor>q + 1 / 2\<rfloor>)"

definition float_to_int64 :: "import_env \<Rightarrow> float64 \<Rightarrow> int" where
  "float_to_int64 env v =
     (case v of
        Finite q \<Rightarrow> if in_int64 (round_half_away q) then round_half_away q else ie_float_to_int env v
      | _ \<Rightarrow> ie_float_to_int env v)"

definition times_100 :: "import_env \<Rightarrow> float64 \<Rightarrow> float64" where
  "times_100 env v = (case v of Finite q \<Rightarrow> ie_times_100 env q | _ \<Rightarrow> v)"

text \<open>\<open>value <= 0\<close>; it is false of a value that is not a number.\<close>

definition not_positive :: "float64 \<Rightarrow> bool" where
  "not_positive v = (case v of Finite q \<Rightarrow> q \<le> 0 | NegInf \<Rightarrow> True | PosInf \<Rightarrow> False | NaN \<Rightarrow> False)"

definition import_amount_cents :: "import_env \<Rightarrow> string \<Rightarrow> ledger_error + int" where
  "import_amount_cents env raw =
     (case ie_float env (without_commas (trim_space raw)) of
        None \<Rightarrow> Inl (ErrInvalidInput ''import amount is invalid'')
      | Some v \<Rightarrow>
          if not_positive v then Inl (ErrInvalidInput ''import amount is invalid'')
          else Inr (float_to_int64 env (times_100 env v)))"

definition import_occurred_at :: "import_env \<Rightarrow> string \<Rightarrow> ledger_error + time" where
  "import_occurred_at env raw =
     (case List.map_filter (\<lambda>layout. ie_date env layout (trim_space raw)) date_layouts of
        [] \<Rightarrow> Inl (ErrInvalidInput ''import occurredAt is invalid'')
      | t # _ \<Rightarrow> Inr t)"

definition skip_row :: "preview_row \<Rightarrow> string \<Rightarrow> (memory_store, ledger_error, import_skipped_row + entry) act" where
  "skip_row row reason = aret (Inl \<lparr>sk_row_number = pw_row_number row, sk_reason = reason\<rparr>)"

text \<open>What is known of a row before its amount and date are read: its type, accounts and category.\<close>

definition row_references ::
    "commit_env \<Rightarrow> preview_row \<Rightarrow> account list \<Rightarrow> category list \<Rightarrow> string + entry_type \<times> string \<times> string \<times> string" where
  "row_references env row accounts categories =
     (let account_id = account_id_by_name_currency accounts (pw_account row) (pw_currency row) in
      if pw_errors row \<noteq> [] then Inl (join_with ''; '' (pw_errors row))
      else if account_id = [] then Inl ''account is not mapped''
      else (case import_entry_type env (pw_type row) of
              None \<Rightarrow> Inl ''type is not supported''
            | Some t \<Rightarrow>
                (let destination_id = (if t = EntryTypeTransfer
                       then account_id_by_name_currency accounts (pw_destination_account row) (pw_currency row) else []);
                     has_category = (trim_space (pw_category row) \<noteq> [] \<and> t \<noteq> EntryTypeTransfer);
                     category_id = (if has_category
                       then category_id_by_path_direction categories (pw_category row) (import_category_direction t) else [])
                 in if t = EntryTypeTransfer \<and> destination_id = [] then Inl ''destination account is not mapped''
                    else if has_category \<and> category_id = [] then Inl ''category is not mapped''
                    else Inr (t, account_id, destination_id, category_id))))"

definition commit_wacai_row ::
    "commit_env \<Rightarrow> actor \<Rightarrow> string \<Rightarrow> string \<Rightarrow> preview_row \<Rightarrow> account list \<Rightarrow> category list \<Rightarrow>
     (memory_store, ledger_error, import_skipped_row + entry) act" where
  "commit_wacai_row env a book_id creator row accounts categories =
     (case row_references env row accounts categories of
        Inl reason \<Rightarrow> skip_row row reason
      | Inr (t, account_id, destination_id, category_id) \<Rightarrow>
          abind (aread (\<lambda>_. import_amount_cents (xe_import env) (pw_amount row))) (\<lambda>cents.
          abind (aread (\<lambda>_. import_occurred_at (xe_import env) (pw_occurred_at row))) (\<lambda>occurred_at.
          abind (\<lambda>s. create_entry (xe_parse_uuid env) (xe_rational env)
              \<lparr>ce_actor = a, ce_book_id = book_id, ce_creator_user_id = creator, ce_type = t, ce_account_id = account_id,
               ce_destination_account_id = destination_id, ce_category_id = category_id, ce_amount_cents = cents,
               ce_transaction_currency = pw_currency row, ce_book_reporting_currency = [], ce_exchange_rate = [],
               ce_occurred_at = occurred_at, ce_note = pw_note row, ce_merchant = pw_merchant row, ce_tags = pw_tags row\<rparr>
              (xe_entry_id env s) (xe_now env) s) (\<lambda>e.
          aret (Inr e)))))"

text \<open>The loop over the rows, with the skipped rows and the entries so far; \<open>creators[n]\<close> is empty for an absent row.\<close>

fun commit_rows ::
    "commit_env \<Rightarrow> actor \<Rightarrow> string \<Rightarrow> (int \<times> string) list \<Rightarrow> account list \<Rightarrow> category list \<Rightarrow> preview_row list \<Rightarrow>
     import_skipped_row list \<Rightarrow> entry list \<Rightarrow> (memory_store, ledger_error, import_skipped_row list \<times> entry list) act" where
  "commit_rows env a book_id creators accounts categories [] skipped entries = aret (skipped, entries)"
| "commit_rows env a book_id creators accounts categories (row # rows) skipped entries =
     abind (commit_wacai_row env a book_id (case map_of creators (pw_row_number row) of None \<Rightarrow> [] | Some u \<Rightarrow> u)
         row accounts categories) (\<lambda>outcome.
     (case outcome of
        Inl sk \<Rightarrow> commit_rows env a book_id creators accounts categories rows (skipped @ [sk]) entries
      | Inr e \<Rightarrow> commit_rows env a book_id creators accounts categories rows skipped (entries @ [e])))"

definition commit_wacai_batch ::
    "commit_env \<Rightarrow> actor \<Rightarrow> string \<Rightarrow> string \<Rightarrow> batch \<Rightarrow> (string \<times> string) list \<Rightarrow> import_commit_response commit_act" where
  "commit_wacai_batch env a email book_id b mappings =
     lbind (lift_act (resolve_wacai_member_mappings env a email book_id (ib_rows b) mappings)) (\<lambda>creators.
     lbind (ensure_wacai_import_references env a book_id (ib_rows b)) (\<lambda>(accounts, categories).
     lbind (lift_act (commit_rows env a book_id creators accounts categories (ib_rows b) [] [])) (\<lambda>(skipped, entries).
     lbind (lguard (entries \<noteq> []) (ErrInvalidInput ''no import rows could be committed'')) (\<lambda>_.
     lret \<lparr>ir_batch_id = ib_id b, ir_book_id = book_id, ir_status = ''applied'',
           ir_imported_count = int (length entries), ir_skipped_count = int (length skipped),
           ir_entries = entries, ir_skipped_rows = skipped\<rparr>))))"

section \<open>A batch that was applied before\<close>

text \<open>
  The loop over the pages of the entries; \<open>found\<close> is the map from ids to entries. Both conditions to stop are
  checked after each page.
\<close>

partial_function (option) find_entries ::
    "(int \<Rightarrow> ledger_error + entry_list) \<Rightarrow> string list \<Rightarrow> int \<Rightarrow> (string \<times> entry) list \<Rightarrow>
     (ledger_error + (string \<times> entry) list) option" where
  "find_entries fetch wanted page found =
     (case fetch page of
        Inl e \<Rightarrow> Some (Inl e)
      | Inr result \<Rightarrow>
          (let found = foldl (\<lambda>m e. if en_id e \<in> set wanted then AList.update (en_id e) e m else m) found (el_entries result)
           in if length found = length (remdups wanted) \<or> int64 (page * el_page_size result) \<ge> el_total result
              then Some (Inr found)
              else find_entries fetch wanted (int64 (page + 1)) found))"

declare find_entries.simps [code]

definition import_entries_by_ids ::
    "actor \<Rightarrow> string \<Rightarrow> string list \<Rightarrow> memory_store \<Rightarrow> (ledger_error + entry list) option" where
  "import_entries_by_ids a book_id entry_ids s =
     (if entry_ids = [] then Some (Inr [])
      else map_option (\<lambda>r. rbind r (\<lambda>found. Inr (List.map_filter (map_of found) entry_ids)))
        (find_entries (\<lambda>page. list_entries a book_id page 100 s) entry_ids 1 []))"

definition import_skipped_rows_for_service :: "import_skipped_row list \<Rightarrow> applied_skipped_row list" where
  "import_skipped_rows_for_service rows = map (\<lambda>r. \<lparr>as_row_number = sk_row_number r, as_reason = sk_reason r\<rparr>) rows"

definition import_skipped_rows_from_service :: "applied_skipped_row list \<Rightarrow> import_skipped_row list" where
  "import_skipped_rows_from_service rows = map (\<lambda>r. \<lparr>sk_row_number = as_row_number r, sk_reason = as_reason r\<rparr>) rows"

definition applied_wacai_batch ::
    "actor \<Rightarrow> string \<Rightarrow> batch \<Rightarrow> memory_store \<Rightarrow> (ledger_error + import_commit_response) option" where
  "applied_wacai_batch a book_id b s =
     (if ib_applied_book_id b \<noteq> book_id
      then Some (Inl (ErrInvalidInput ''import batch already applied to another book''))
      else map_option (\<lambda>r. rbind r (\<lambda>entries.
          Inr \<lparr>ir_batch_id = ib_id b, ir_book_id = book_id, ir_status = ''applied'',
               ir_imported_count = int (length (ib_applied_entry_ids b)),
               ir_skipped_count = int (length (ib_applied_skipped_rows b)), ir_entries = entries,
               ir_skipped_rows = import_skipped_rows_from_service (ib_applied_skipped_rows b)\<rparr>))
        (import_entries_by_ids a book_id (ib_applied_entry_ids b) s))"

section \<open>The route\<close>

record import_commit_request =
  iq_source_hash :: string
  iq_member_mappings :: "(string \<times> string) list"

text \<open>What the route answers with: a message with its status, an error of one of the services, or a response.\<close>

datatype apply_error = ApplyMessage nat string | ApplyImport import_error | ApplyLedger ledger_error

type_synonym apply_state = "import_memory \<times> memory_store"

definition on_imports :: "(import_memory, import_error, 'a) act \<Rightarrow> (apply_state, apply_error, 'a) loop_act" where
  "on_imports m s = (case s of (i, l) \<Rightarrow>
     (case m i of (Inl e, j) \<Rightarrow> Some (Inl (ApplyImport e), (j, l)) | (Inr x, j) \<Rightarrow> Some (Inr x, (j, l))))"

definition on_ledger :: "(memory_store, ledger_error, 'a) loop_act \<Rightarrow> (apply_state, apply_error, 'a) loop_act" where
  "on_ledger m s = (case s of (i, l) \<Rightarrow>
     (case m l of None \<Rightarrow> None | Some (Inl e, k) \<Rightarrow> Some (Inl (ApplyLedger e), (i, k))
      | Some (Inr x, k) \<Rightarrow> Some (Inr x, (i, k))))"

text \<open>The result is the status, 200 for a batch that was applied before and 201 for a new one, and the response.\<close>

definition apply_import ::
    "commit_env \<Rightarrow> string \<Rightarrow> string \<Rightarrow> string \<Rightarrow> string \<Rightarrow> import_commit_request \<Rightarrow>
     (apply_state, apply_error, nat \<times> import_commit_response) loop_act" where
  "apply_import env user_id email book_id batch_id request =
     lbind (on_imports (aread (load_batch im_batch \<lparr>bq_user_id = user_id, bq_batch_id = batch_id\<rparr>))) (\<lambda>b.
     lbind (lguard (ib_source b = ''wacai'') (ApplyMessage 400 ''invalid import source'')) (\<lambda>_.
     lbind (lguard (trim_space (iq_source_hash request) \<noteq> [] \<and> trim_space (iq_source_hash request) = ib_source_hash b)
       (ApplyMessage 409 ''import batch source hash mismatch'')) (\<lambda>_.
     lbind (lguard (\<not> ib_error_count b > 0) (ApplyMessage 400 ''import batch has row errors'')) (\<lambda>_.
     if ib_status b = BatchStatusApplied
     then lbind (on_ledger (lift_read (applied_wacai_batch \<lparr>at_user_id = user_id\<rparr> book_id b))) (\<lambda>response.
          lret (200, response))
     else lbind (on_ledger (commit_wacai_batch env \<lparr>at_user_id = user_id\<rparr> email book_id b (iq_member_mappings request)))
            (\<lambda>response.
          lbind (on_imports (mark_applied im_save_batch im_batch
              \<lparr>mq_user_id = user_id, mq_batch_id = ib_id b, mq_book_id = ir_book_id response,
               mq_entry_ids = map en_id (ir_entries response),
               mq_skipped_rows = import_skipped_rows_for_service (ir_skipped_rows response)\<rparr> (xe_now env))) (\<lambda>_.
          lret (201, response)))))))"

end
