(* ===== verification/Import_Facts.thy ===== *)
theory Import_Facts
  imports Import_Commit
begin

text \<open>
  What the handlers of imports do: uploads are stored once, batches are marked once (in the locale of the
  interface to the store), previews are diagnosed row by row, references and rows are committed to the ledger
  by its own handlers.
\<close>

section \<open>The service over its store\<close>

context batch_store
begin

lemma known_found: "good s \<Longrightarrow> stored s i = Some b \<Longrightarrow> batch_key b = batch_hash_key u src h \<Longrightarrow>
    known_batch (by_hash u src h s) = Inr (Some b)"
  by (simp add: known_batch_def by_hash_found)

lemma known_missing:
  assumes "good s" and "\<And>i b. stored s i = Some b \<Longrightarrow> batch_key b \<noteq> batch_hash_key u src h"
  shows "known_batch (by_hash u src h s) = Inr None"
proof -
  obtain m where "by_hash u src h s = Inl (ImportNotFound m)" using by_hash_missing [OF assms(1), of u src h] assms(2) by blast
  then show ?thesis by (simp add: known_batch_def)
qed

lemma new_batch_key: "batch_key (new_batch env request fresh now table) =
    batch_hash_key (pq_user_id request) ''wacai'' (hash_source env (pq_data request))"
  and new_batch_id: "ib_id (new_batch env request fresh now table) = fresh"
  by (simp_all add: new_batch_def batch_key_def split: prod.splits)

text \<open>A preview that succeeds is stored under its key; it is the batch that had the key, or a new one.\<close>

lemma preview_stored:
  assumes good: "good s" and fresh: "stored s fresh = None"
    and run: "preview_wacai_file save_if_absent by_hash env request fresh now s = (Inr b, t)"
  shows "good t \<and> stored t (ib_id b) = Some b \<and>
    batch_key b = batch_hash_key (pq_user_id request) ''wacai'' (hash_source env (pq_data request)) \<and>
    (t = s \<or> ib_id b = fresh \<and> stored t = (stored s)(fresh \<mapsto> b))"
proof -
  let ?k = "batch_hash_key (pq_user_id request) ''wacai'' (hash_source env (pq_data request))"
  obtain existing where existing: "known_batch (by_hash (pq_user_id request) ''wacai'' (hash_source env (pq_data request)) s) = Inr existing"
    and rest: "(case existing of Some b \<Rightarrow> aret b
       | None \<Rightarrow> abind (aread (\<lambda>_. parse_wacai_file env (pq_data request) (to_lower_with (ie_lower env) (file_ext (pq_filename request)))))
           (\<lambda>table. abind (save_if_absent (new_batch env request fresh now table)) (\<lambda>(stored, _). aret stored))) s = (Inr b, t)"
    using run unfolding preview_wacai_file_def Let_def by (auto simp: peel)
  show ?thesis
  proof (cases "\<exists>i old. stored s i = Some old \<and> batch_key old = ?k")
    case True
    then obtain i old where old: "stored s i = Some old" "batch_key old = ?k" by blast
    then have "existing = Some old" using known_found [OF good old] existing by simp
    then show ?thesis using rest old good good_id [OF good old(1)] by simp
  next
    case False
    then have none: "existing = None" using known_missing [OF good, of "pq_user_id request"] existing by fastforce
    obtain table where saved: "abind (save_if_absent (new_batch env request fresh now table)) (\<lambda>(stored, _). aret stored) s = (Inr b, t)"
      using rest by (auto simp: none peel)
    obtain u where "save_if_absent (new_batch env request fresh now table) s = (Inr (new_batch env request fresh now table, True), u)"
      "good u" "stored u = (stored s)(fresh \<mapsto> new_batch env request fresh now table)"
      using absent_new [OF good, of "new_batch env request fresh now table"] fresh False
      by (auto simp: new_batch_id new_batch_key)
    then show ?thesis using saved by (auto simp: abind_def new_batch_id new_batch_key)
  qed
qed

text \<open>The same upload again gives the batch that is there and changes nothing.\<close>

lemma preview_repeat:
  assumes "good s" and "stored s fresh = None"
    and run: "preview_wacai_file save_if_absent by_hash env request fresh now s = (Inr b, t)"
  shows "preview_wacai_file save_if_absent by_hash env request again later t = (Inr b, t)"
proof -
  have "good t" "stored t (ib_id b) = Some b"
    "batch_key b = batch_hash_key (pq_user_id request) ''wacai'' (hash_source env (pq_data request))"
    using preview_stored [OF assms] by auto
  then have found: "known_batch (by_hash (pq_user_id request) ''wacai'' (hash_source env (pq_data request)) t) = Inr (Some b)"
    by (rule known_found)
  have "pq_user_id request \<noteq> []" "trim_space (pq_filename request) \<noteq> []" "pq_data request \<noteq> []"
    "length (pq_data request) \<le> max_preview_bytes"
    "to_lower_with (ie_lower env) (file_ext (pq_filename request)) = ''.csv'' \<or>
     to_lower_with (ie_lower env) (file_ext (pq_filename request)) = ''.xlsx''"
    using run unfolding preview_wacai_file_def Let_def by (simp_all only: peel simp_thms) 
  then show ?thesis by (simp add: preview_wacai_file_def Let_def act_defs found)
qed

lemma load_batch_owner:
  assumes "good s" and "load_batch by_id request s = Inr b"
  shows "ib_user_id b = bq_user_id request \<and> stored s (trim_space (bq_batch_id request)) = Some b"
proof -
  let ?i = "trim_space (bq_batch_id request)" and ?u = "bq_user_id request"
  have run: "by_id ?u ?i s = Inr b" using assms(2) by (auto simp: load_batch_def split: if_splits)
  show ?thesis
  proof (cases "\<exists>old. stored s ?i = Some old \<and> ib_user_id old = ?u")
    case True
    then show ?thesis using by_id_owner [OF assms(1)] run by fastforce
  next
    case False
    then show ?thesis using by_id_missing [OF assms(1), of ?i ?u] run by fastforce
  qed
qed

end

section \<open>Previews\<close>

text \<open>The rows of a preview are the first 500 records below the header that are not blank, checked one by one.\<close>

lemma preview_rows_take:
  "index \<le> length records \<Longrightarrow>
    preview_rows env headers schema m index taken (drop index records) =
    take (max_preview_rows - taken) (map (\<lambda>i. validate_preview_row env
      (build_preview_row env (int i + 1) headers (records ! i) schema m))
      (filter (\<lambda>i. \<not> is_empty_record (records ! i)) [index..<length records]))"
proof (induction "length records - index" arbitrary: index taken)
  case 0
  then show ?case by simp
next
  case (Suc n)
  then have split: "drop index records = records ! index # drop (Suc index) records"
    "[index..<length records] = index # [Suc index..<length records]"
    by (simp_all add: Cons_nth_drop_Suc upt_conv_Cons)
  have rest: "preview_rows env headers schema m (Suc index) k (drop (Suc index) records) =
    take (max_preview_rows - k) (map (\<lambda>i. validate_preview_row env
      (build_preview_row env (int i + 1) headers (records ! i) schema m))
      (filter (\<lambda>i. \<not> is_empty_record (records ! i)) [Suc index..<length records]))" for k
    using Suc.hyps by (intro Suc.hyps(1)) simp_all
  show ?case
  proof (cases "taken < max_preview_rows")
    case True
    then have "max_preview_rows - taken = Suc (max_preview_rows - Suc taken)" by simp
    then show ?thesis using True by (simp add: split rest)
  qed (simp add: split)
qed

lemma header_in_records: "detect_wacai_header env records = Some (header, schema) \<Longrightarrow> header < length records"
proof -
  have "detect_header_from env k records = Some (header, schema) \<Longrightarrow> header < k + length records" for k
    by (induction env k records rule: detect_header_from.induct) (auto simp: Let_def split: if_splits)
  from this [of 0] show "detect_wacai_header env records = Some (header, schema) \<Longrightarrow> header < length records"
    by (simp add: detect_wacai_header_def)
qed

text \<open>A row without errors has a type, a number as its amount, and a date.\<close>

lemma row_without_errors:
  assumes "row = validate_preview_row env (build_preview_row env n headers rec schema m)" and "pw_errors row = []"
  shows "trim_space (pw_type row) \<noteq> [] \<and> ie_float env (without_commas (pw_amount row)) \<noteq> None \<and>
    trim_space (pw_occurred_at row) \<noteq> []"
  using assms by (auto simp: validate_preview_row_def row_errors_def build_preview_row_def Let_def split: prod.splits if_splits)

section \<open>The ledger under an import\<close>

text \<open>
  What every request to the ledger keeps, every part of an import keeps; the parts that contain a listing or
  a category path return while it holds.
\<close>

locale adds_members =
  fixes P :: "memory_store \<Rightarrow> bool"
  assumes add_member_kept: "keeps P (add_book_member amr now)"
begin

lemma resolve_row_members_kept:
  "keeps P (resolve_row_members env a email book_id mappings row names resolved creator)"
  by (induction env a email book_id mappings row names resolved creator rule: resolve_row_members.induct)
    (auto simp: Let_def resolve_mapped_wacai_member_def intro!: keeps_rules add_member_kept)

lemma resolve_members_kept: "keeps P (resolve_wacai_member_mappings env a email book_id rows mappings)"
proof -
  have "keeps P (resolve_member_rows env a email book_id m rows resolved creators)" for m resolved creators
    by (induction env a email book_id m rows resolved creators rule: resolve_member_rows.induct)
      (auto intro!: keeps_rules resolve_row_members_kept keeps_prod)
  then show ?thesis by (simp add: resolve_wacai_member_mappings_def)
qed

end

locale adds_references =
  fixes P :: "memory_store \<Rightarrow> bool"
  assumes create_group_kept: "keeps P (\<lambda>s. create_account_group cgr (fresh s) now s)"
    and create_account_kept: "keeps P (\<lambda>s. create_account car (fresh s) now s)"
    and create_category_returns: "returns_keeping P (\<lambda>s. create_category ccr (fresh s) now s)"
begin

lemma ensure_account_kept:
  "keeps P (ensure_wacai_import_account env a book_id groups group_id accounts name currency)"
  unfolding ensure_wacai_import_account_def ensure_wacai_import_account_group_def Let_def
  by (auto intro!: keeps_rules create_group_kept create_account_kept split: option.split)

lemma ensure_category_returns:
  "returns_keeping P (ensure_category_parts env a book_id path direction parts categories parent_id)"
  by (induction parts arbitrary: categories parent_id)
    (simp_all add: Let_def returns_basic returns_bind [OF create_category_returns])

lemma ensure_rows_return:
  "returns_keeping P (ensure_reference_rows env a book_id groups rows group_id accounts categories)"
proof (induction rows arbitrary: group_id accounts categories)
  case (Cons row rows)
  then show ?case
    by (auto simp: ensure_wacai_import_category_def split: option.split
        intro!: returns_rules ensure_category_returns returns_lift [OF ensure_account_kept])
qed (simp add: returns_basic)

end

text \<open>The requests themselves: the ledger stays reachable, and no reference writes an entry.\<close>

definition from_store :: "commit_env \<Rightarrow> memory_store \<Rightarrow> memory_store \<Rightarrow> bool" where
  "from_store env s0 s \<longleftrightarrow> ledger_ok s \<and> reachable (xe_parse_uuid env) (xe_rational env) s0 s"

definition import_prepared :: "commit_env \<Rightarrow> memory_store \<Rightarrow> memory_store \<Rightarrow> bool" where
  "import_prepared env s0 s \<longleftrightarrow> from_store env s0 s \<and> ms_entries s = ms_entries s0"

definition lists_fit :: "memory_store \<Rightarrow> bool" where
  "lists_fit s \<longleftrightarrow> fits (ms_accounts s) \<and> fits (ms_groups s) \<and> fits (ms_categories s)"

lemma step_kept: "(\<And>s r t. m s = (r, t) \<Longrightarrow> ledger_step (xe_parse_uuid env) (xe_rational env) s t) \<Longrightarrow> keeps (from_store env s0) m"
  by (rule keepsI) (auto simp: from_store_def intro: reachable.step ledger_step_ok)

lemma prepared_kept:
  assumes "keeps (from_store env s0) m" and "\<And>s r t. m s = (r, t) \<Longrightarrow> ms_entries t = ms_entries s"
  shows "keeps (import_prepared env s0) m"
  by (rule keepsI) (auto simp: import_prepared_def assms(2) dest: keepsD [OF assms(1)])

lemma ledger_calls_kept:
  "keeps (from_store env s0) (add_book_member amr now)"
  "keeps (from_store env s0) (\<lambda>s. create_account_group cgr (fresh s) now s)"
  "keeps (from_store env s0) (\<lambda>s. create_account car (fresh s) now s)"
  "keeps (from_store env s0) (\<lambda>s. create_entry (xe_parse_uuid env) (xe_rational env) cer (new_id s) now s)"
  by (rule step_kept; blast intro: ledger_step.intros)+

lemma references_prepared:
  "keeps (import_prepared env s0) (\<lambda>s. create_account_group cgr (fresh s) now s)"
  "keeps (import_prepared env s0) (\<lambda>s. create_account car (fresh s) now s)"
  using ledger_calls_kept(2,3) [of env s0]
  by (auto intro!: prepared_kept dest: part.obeysD [OF handlers_parts(4)] part.obeysD [OF handlers_parts(6)] simp: part_iffs)

lemma member_prepared: "keeps (\<lambda>s. import_prepared env s0 s \<and> lists_fit s) (add_book_member amr now)"
proof (rule keepsI)
  fix s r t assume *: "import_prepared env s0 s \<and> lists_fit s" and run: "add_book_member amr now s = (r, t)"
  then have "books_only s t" using books_kept.obeysD [OF book_handlers_kept(2)] by blast
  moreover have "from_store env s0 t" using * run keepsD [OF ledger_calls_kept(1)] by (auto simp: import_prepared_def)
  ultimately show "import_prepared env s0 t \<and> lists_fit t" using * by (simp add: import_prepared_def lists_fit_def books_only_def)
qed

lemma category_prepared: "returns_keeping (import_prepared env s0) (\<lambda>s. create_category ccr (fresh s) now s)"
proof (rule returns_keepingI)
  fix s assume *: "import_prepared env s0 s"
  then have ok: "store_ok s" "tree_ok s" by (auto simp: import_prepared_def from_store_def dest: ledger_okD)
  then obtain r t where run: "create_category ccr (fresh s) now s = Some (r, t)"
    using category_handlers_return(1) by fastforce
  then have step: "ledger_step (xe_parse_uuid env) (xe_rational env) s t" by (rule ledger_step.create_category)
  then have "from_store env s0 t" using * by (auto simp: import_prepared_def from_store_def intro: reachable.step ledger_step_ok)
  moreover have "ms_entries t = ms_entries s"
  proof (cases r)
    case (Inl e)
    then show ?thesis using run create_category_failure by blast
  next
    case (Inr c)
    then show ?thesis using run by (auto elim!: create_category_success)
  qed
  ultimately show "\<exists>r t. create_category ccr (fresh s) now s = Some (r, t) \<and> import_prepared env s0 t"
    using * run by (simp add: import_prepared_def)
qed

interpretation prepared_members: adds_members "\<lambda>s. import_prepared env s0 s \<and> lists_fit s" for env s0
  by unfold_locales (rule member_prepared)

interpretation prepared: adds_references "import_prepared env s0" for env s0
  by unfold_locales (fact references_prepared category_prepared)+

text \<open>The listings of an import end.\<close>

lemma whole_listing: "fits xs \<Longrightarrow> collect_pages (\<lambda>page. page_or e (paginate xs page 100)) 1 [] \<noteq> None"
  by (rule whole_list.collect_returns) simp_all

lemma fits_filter: "fits xs \<Longrightarrow> fits (filter p xs)"
  using length_filter_le [of p xs] by (simp only: fits_def)

lemma fits_sorted: "fits (sort_func cmp xs) = fits xs"
  by (simp add: fits_def)

lemma failed_listing: "collect_pages (\<lambda>page. Inl e) 1 [] \<noteq> None"
  by (simp add: collect_pages.simps)

lemma import_listings_return:
  assumes "lists_fit s"
  shows "list_all_import_accounts a s \<noteq> None" and "list_all_import_account_groups a s \<noteq> None"
    and "list_all_import_categories a book_id s \<noteq> None"
proof -
  have fits: "fits (filter p (sort_func c1 (ms_accounts s)))" "fits (filter q (sort_func c2 (ms_groups s)))"
    "fits (sort_func c3 (filter r (ms_categories s)))" for p q r c1 c2 c3
    using assms by (simp_all add: lists_fit_def fits_sorted fits_filter)
  show "list_all_import_accounts a s \<noteq> None"
    unfolding list_all_import_accounts_def list_accounts_def st_accounts_def
    by (cases "at_user_id a = []") (simp_all add: whole_listing fits failed_listing del: not_None_eq)
  show "list_all_import_account_groups a s \<noteq> None"
    unfolding list_all_import_account_groups_def list_account_groups_def st_account_groups_def
    by (cases "at_user_id a = []") (simp_all add: whole_listing fits failed_listing del: not_None_eq)
  show "list_all_import_categories a book_id s \<noteq> None"
    unfolding list_all_import_categories_def list_categories_def st_categories_def
    by (cases "at_user_id a = []"; cases "book_id = []"; cases "st_member book_id (at_user_id a) s")
      (simp_all only: if_True if_False sum.case rbind.simps whole_listing fits failed_listing simp_thms)
qed

lemma lbind_lift_read: "f s \<noteq> None \<Longrightarrow> (\<And>x. \<exists>r t. g x s = Some (r, t) \<and> P t) \<Longrightarrow> P s \<Longrightarrow>
    \<exists>r t. lbind (lift_read f) g s = Some (r, t) \<and> P t"
  by (auto simp: lbind_def lift_read_def split: sum.split)

lemma references_return:
  assumes "import_prepared env s0 s" and "lists_fit s"
  shows "\<exists>r t. ensure_wacai_import_references env a book_id rows s = Some (r, t) \<and> import_prepared env s0 t"
  unfolding ensure_wacai_import_references_def
  by (intro lbind_lift_read import_listings_return assms returns_keepingD [OF prepared.ensure_rows_return])

section \<open>The rows\<close>

lemma commit_row_kept:
  "keeps (from_store env s0) (commit_wacai_row env a book_id creator row accounts categories)"
  unfolding commit_wacai_row_def skip_row_def
  by (auto intro!: keeps_rules ledger_calls_kept split: sum.split)

lemma commit_rows_kept:
  "keeps (from_store env s0) (commit_rows env a book_id creators accounts categories rows skipped entries)"
  by (induction env a book_id creators accounts categories rows skipped entries rule: commit_rows.induct)
    (auto intro!: keeps_rules commit_row_kept split: sum.split)

text \<open>What became of a row: a reason to skip it, or an entry that says what the row says.\<close>

definition row_outcome :: "commit_env \<Rightarrow> string \<Rightarrow> preview_row \<Rightarrow> import_skipped_row + entry \<Rightarrow> bool" where
  "row_outcome env book_id row outcome =
     (case outcome of
        Inl sk \<Rightarrow> sk_row_number sk = pw_row_number row
      | Inr e \<Rightarrow> pw_errors row = [] \<and> en_book_id e = book_id \<and> import_entry_type env (pw_type row) = Some (en_type e) \<and>
          import_amount_cents (xe_import env) (pw_amount row) = Inr (en_amount_cents e) \<and>
          import_occurred_at (xe_import env) (pw_occurred_at row) = Inr (en_occurred_at e) \<and>
          en_note e = trim_space (pw_note row) \<and> en_merchant e = trim_space (pw_merchant row) \<and>
          en_tags e = normalize_tags (pw_tags row) \<and> entry_wf e \<and>
          (\<exists>x. xe_parse_uuid env x = Some (en_id e)))"

definition may_write :: "actor \<Rightarrow> string \<Rightarrow> memory_store \<Rightarrow> bool" where
  "may_write a book_id s \<longleftrightarrow> at_user_id a \<noteq> [] \<and> book_id \<noteq> [] \<and> member_at s book_id (at_user_id a) \<noteq> None"

lemma may_write_entries [simp]: "may_write a book_id (s\<lparr>ms_entries := es\<rparr>) = may_write a book_id s"
  by (simp add: may_write_def member_at_def)

fun outcome_skipped :: "(import_skipped_row + entry) list \<Rightarrow> import_skipped_row list" where
  "outcome_skipped [] = []"
| "outcome_skipped (Inl sk # outcomes) = sk # outcome_skipped outcomes"
| "outcome_skipped (Inr e # outcomes) = outcome_skipped outcomes"

fun outcome_entries :: "(import_skipped_row + entry) list \<Rightarrow> entry list" where
  "outcome_entries [] = []"
| "outcome_entries (Inl sk # outcomes) = outcome_entries outcomes"
| "outcome_entries (Inr e # outcomes) = e # outcome_entries outcomes"

lemma outcome_Cons:
  "outcome_skipped (x # xs) = outcome_skipped [x] @ outcome_skipped xs"
  "outcome_entries (x # xs) = outcome_entries [x] @ outcome_entries xs"
  by (cases x; simp)+

lemma outcome_entries_iff: "e \<in> set (outcome_entries outcomes) \<longleftrightarrow> Inr e \<in> set outcomes"
  by (induction outcomes rule: outcome_entries.induct) auto

lemma outcome_counts: "length (outcome_skipped outcomes) + length (outcome_entries outcomes) = length outcomes"
  by (induction outcomes rule: outcome_entries.induct) auto

lemma commit_row_skips:
  "commit_wacai_row env a book_id creator row accounts categories s = (Inr (Inl sk), t) \<Longrightarrow>
    t = s \<and> row_outcome env book_id row (Inl sk)"
  unfolding commit_wacai_row_def skip_row_def row_outcome_def
  by (auto simp: abind_def aread_def split: sum.splits prod.splits)

lemma row_references_type:
  "row_references env row accounts categories = Inr (ty, acc, dest, cat) \<Longrightarrow>
    pw_errors row = [] \<and> import_entry_type env (pw_type row) = Some ty"
  by (auto simp: row_references_def Let_def split: if_splits option.splits)

lemma commit_row_writes:
  assumes "commit_wacai_row env a book_id creator row accounts categories s = (Inr (Inr e), t)"
  shows "t = s\<lparr>ms_entries := ms_entries s @ [e]\<rparr> \<and> row_outcome env book_id row (Inr e) \<and> may_write a book_id s"
proof -
  obtain ty acc dest cat where refs: "row_references env row accounts categories = Inr (ty, acc, dest, cat)"
    using assms by (cases "row_references env row accounts categories") (auto simp: commit_wacai_row_def skip_row_def)
  obtain cents occurred where run: "import_amount_cents (xe_import env) (pw_amount row) = Inr cents"
    "import_occurred_at (xe_import env) (pw_occurred_at row) = Inr occurred"
    "create_entry (xe_parse_uuid env) (xe_rational env)
       \<lparr>ce_actor = a, ce_book_id = book_id, ce_creator_user_id = creator, ce_type = ty, ce_account_id = acc,
        ce_destination_account_id = dest, ce_category_id = cat, ce_amount_cents = cents,
        ce_transaction_currency = pw_currency row, ce_book_reporting_currency = [], ce_exchange_rate = [],
        ce_occurred_at = occurred, ce_note = pw_note row, ce_merchant = pw_merchant row, ce_tags = pw_tags row\<rparr>
       (xe_entry_id env s) (xe_now env) s = (Inr e, t)"
    using assms unfolding commit_wacai_row_def refs by (auto simp: peel abind_def split: prod.splits sum.splits)
  have "entry_wf e" by (rule create_entry_wf [OF run(3)])
  moreover have "t = s\<lparr>ms_entries := ms_entries s @ [e]\<rparr> \<and> en_book_id e = book_id \<and> en_type e = ty \<and>
      en_amount_cents e = cents \<and> en_occurred_at e = occurred \<and> en_note e = trim_space (pw_note row) \<and>
      en_merchant e = trim_space (pw_merchant row) \<and> en_tags e = normalize_tags (pw_tags row) \<and>
      member_at s book_id (at_user_id a) \<noteq> None \<and> (\<exists>x. xe_parse_uuid env x = Some (en_id e))"
    by (rule create_entry_success [OF run(3)])
      (auto simp: normalize_entry_id_def Let_def split: if_splits option.splits)
  moreover have "at_user_id a \<noteq> [] \<and> book_id \<noteq> []" using run(3) by (auto simp: create_entry_def peel)
  ultimately show ?thesis using run(1,2) row_references_type [OF refs] by (simp add: row_outcome_def may_write_def)
qed

text \<open>The entries written so far stay in the ledger, also when a later row fails.\<close>

lemma commit_row_fails:
  assumes "commit_wacai_row env a book_id creator row accounts categories s = (Inl e, t)"
  shows "t = s"
  using assms unfolding commit_wacai_row_def skip_row_def
  by (auto simp: abind_def aread_def aguard_def split: sum.splits prod.splits
      dest: fails_cleanD [OF entry_handlers_clean(1)])

end
