(* ===== verification/Import_Route.thy ===== *)
theory Import_Route
  imports Import_Facts
begin

text \<open>
  The route that applies a batch: what its rows write, that it returns, and what it answers when the batch was
  applied before.
\<close>

section \<open>All rows\<close>

abbreviation rows_done :: "commit_env \<Rightarrow> string \<Rightarrow> preview_row list \<Rightarrow> (import_skipped_row + entry) list \<Rightarrow> bool" where
  "rows_done env book_id rows outcomes \<equiv> list_all2 (row_outcome env book_id) (take (length outcomes) rows) outcomes"

lemma commit_rows_result:
  assumes "commit_rows env a book_id creators accounts categories rows skipped entries s = (r, t)"
  shows "\<exists>outcomes. length outcomes \<le> length rows \<and> rows_done env book_id rows outcomes \<and>
    t = s\<lparr>ms_entries := ms_entries s @ outcome_entries outcomes\<rparr> \<and>
    (outcome_entries outcomes \<noteq> [] \<longrightarrow> may_write a book_id s) \<and>
    (\<forall>sk es. r = Inr (sk, es) \<longrightarrow> length outcomes = length rows \<and>
       sk = skipped @ outcome_skipped outcomes \<and> es = entries @ outcome_entries outcomes)"
  using assms
proof (induction rows arbitrary: skipped entries s)
  case Nil
  then show ?case by (intro exI [of _ "[]"]) auto
next
  case (Cons row rows)
  let ?creator = "case map_of creators (pw_row_number row) of None \<Rightarrow> [] | Some u \<Rightarrow> u"
  obtain q u where row: "commit_wacai_row env a book_id ?creator row accounts categories s = (q, u)"
    by fastforce
  show ?case
  proof (cases q)
    case (Inl e)
    with row have "u = s" by (intro commit_row_fails) simp
    then show ?thesis using Cons.prems row Inl by (intro exI [of _ "[]"]) (auto simp: abind_def)
  next
    case (Inr outcome)
    obtain sk' es' where tail: "commit_rows env a book_id creators accounts categories rows sk' es' u = (r, t)"
      and acc: "sk' = skipped @ outcome_skipped [outcome]" "es' = entries @ outcome_entries [outcome]"
      using Cons.prems row Inr by (cases outcome) (auto simp: abind_def)
    have now: "row_outcome env book_id row outcome" "u = s\<lparr>ms_entries := ms_entries s @ outcome_entries [outcome]\<rparr>"
      "outcome_entries [outcome] \<noteq> [] \<longrightarrow> may_write a book_id s"
      using row Inr commit_row_skips commit_row_writes by (cases outcome; fastforce)+
    obtain outcomes where rest: "length outcomes \<le> length rows" "rows_done env book_id rows outcomes"
      "t = u\<lparr>ms_entries := ms_entries u @ outcome_entries outcomes\<rparr>"
      "outcome_entries outcomes \<noteq> [] \<longrightarrow> may_write a book_id u"
      "\<forall>sk es. r = Inr (sk, es) \<longrightarrow> length outcomes = length rows \<and>
         sk = sk' @ outcome_skipped outcomes \<and> es = es' @ outcome_entries outcomes"
      using Cons.IH [OF tail] by blast
    have "may_write a book_id u \<longleftrightarrow> may_write a book_id s" using now(2) by (simp add: may_write_def member_at_def)
    with rest show ?thesis using now acc by (intro exI [of _ "outcome # outcomes"]) (auto simp: outcome_Cons [of outcome outcomes])
  qed
qed

section \<open>A batch\<close>

lemma lbind_stage:
  assumes "\<exists>r t. m s = Some (r, t) \<and> Q t"
    and "\<And>e t. m s = Some (Inl e, t) \<Longrightarrow> Q t \<Longrightarrow> R (Inl e) t"
    and "\<And>x t. m s = Some (Inr x, t) \<Longrightarrow> Q t \<Longrightarrow> \<exists>r u. f x t = Some (r, u) \<and> R r u"
  shows "\<exists>r u. lbind m f s = Some (r, u) \<and> R r u"
proof -
  obtain r t where run: "m s = Some (r, t)" "Q t" using assms(1) by blast
  show ?thesis
  proof (cases r)
    case (Inl e)
    then show ?thesis using run assms(2) by (simp add: lbind_def)
  next
    case (Inr x)
    with run assms(3) obtain r' u where "f x t = Some (r', u)" "R r' u" by blast
    then show ?thesis using run Inr by (simp add: lbind_def)
  qed
qed

lemma stage_kept: "keeps P m \<Longrightarrow> P s \<Longrightarrow> \<exists>r t. lift_act m s = Some (r, t) \<and> P t"
  by (rule returns_keepingD [OF returns_lift])

text \<open>What a run of the commit leaves: a reachable ledger with the entries of the rows that were done.\<close>

definition commit_result ::
    "commit_env \<Rightarrow> actor \<Rightarrow> string \<Rightarrow> batch \<Rightarrow> memory_store \<Rightarrow> ledger_error + import_commit_response \<Rightarrow> memory_store \<Rightarrow> bool" where
  "commit_result env a book_id b s r t \<longleftrightarrow> from_store env s t \<and>
     (\<exists>outcomes. length outcomes \<le> length (ib_rows b) \<and> rows_done env book_id (ib_rows b) outcomes \<and>
       ms_entries t = ms_entries s @ outcome_entries outcomes \<and>
       (outcome_entries outcomes \<noteq> [] \<longrightarrow> may_write a book_id t) \<and>
       (\<forall>response. r = Inr response \<longrightarrow> length outcomes = length (ib_rows b) \<and>
          ir_batch_id response = ib_id b \<and> ir_book_id response = book_id \<and> ir_status response = ''applied'' \<and>
          ir_entries response = outcome_entries outcomes \<and> ir_skipped_rows response = outcome_skipped outcomes \<and>
          ir_entries response \<noteq> [] \<and> ir_imported_count response = int (length (ir_entries response)) \<and>
          ir_skipped_count response = int (length (ir_skipped_rows response))))"

lemma commit_resultI:
  "from_store env s t \<Longrightarrow> length outcomes \<le> length (ib_rows b) \<Longrightarrow> rows_done env book_id (ib_rows b) outcomes \<Longrightarrow>
    ms_entries t = ms_entries s @ outcome_entries outcomes \<Longrightarrow>
    (outcome_entries outcomes \<noteq> [] \<Longrightarrow> may_write a book_id t) \<Longrightarrow>
    (\<And>response. r = Inr response \<Longrightarrow> length outcomes = length (ib_rows b) \<and>
       ir_batch_id response = ib_id b \<and> ir_book_id response = book_id \<and> ir_status response = ''applied'' \<and>
       ir_entries response = outcome_entries outcomes \<and> ir_skipped_rows response = outcome_skipped outcomes \<and>
       ir_entries response \<noteq> [] \<and> ir_imported_count response = int (length (ir_entries response)) \<and>
       ir_skipped_count response = int (length (ir_skipped_rows response))) \<Longrightarrow>
    commit_result env a book_id b s r t"
  unfolding commit_result_def by blast

lemma commit_resultE:
  assumes "commit_result env a book_id b s (Inr response) t"
  obtains outcomes where "rows_done env book_id (ib_rows b) outcomes" and "ledger_ok t"
    and "ms_entries t = ms_entries s @ outcome_entries outcomes" and "may_write a book_id t"
    and "response = \<lparr>ir_batch_id = ib_id b, ir_book_id = book_id, ir_status = ''applied'',
      ir_imported_count = int (length (outcome_entries outcomes)), ir_skipped_count = int (length (outcome_skipped outcomes)),
      ir_entries = outcome_entries outcomes, ir_skipped_rows = outcome_skipped outcomes\<rparr>"
proof -
  obtain outcomes where *: "rows_done env book_id (ib_rows b) outcomes" "ledger_ok t"
    "ms_entries t = ms_entries s @ outcome_entries outcomes" "outcome_entries outcomes \<noteq> [] \<longrightarrow> may_write a book_id t"
    "ir_batch_id response = ib_id b" "ir_book_id response = book_id" "ir_status response = ''applied''"
    "ir_entries response = outcome_entries outcomes" "ir_skipped_rows response = outcome_skipped outcomes"
    "ir_entries response \<noteq> []" "ir_imported_count response = int (length (ir_entries response))"
    "ir_skipped_count response = int (length (ir_skipped_rows response))"
    using assms unfolding commit_result_def from_store_def by blast
  show ?thesis by (rule that [of outcomes]; cases response) (use * in simp_all)
qed

lemma prepared_result: "import_prepared env s t \<Longrightarrow> commit_result env a book_id b s (Inl e) t"
  unfolding commit_result_def by (intro conjI exI [of _ "[]"]) (simp_all add: import_prepared_def)

lemma commit_batch_result:
  assumes "ledger_ok s" and "lists_fit s"
  shows "\<exists>r t. commit_wacai_batch env a email book_id b mappings s = Some (r, t) \<and> commit_result env a book_id b s r t"
  unfolding commit_wacai_batch_def
proof (rule lbind_stage)
  have "import_prepared env s s \<and> lists_fit s"
    using assms by (simp add: import_prepared_def from_store_def reachable.intros)
  then show "\<exists>r t. lift_act (resolve_wacai_member_mappings env a email book_id (ib_rows b) mappings) s = Some (r, t) \<and>
      (import_prepared env s t \<and> lists_fit t)"
    by (rule stage_kept [OF prepared_members.resolve_members_kept])
next
  fix creators t assume *: "import_prepared env s t \<and> lists_fit t"
  show "\<exists>r u. lbind (ensure_wacai_import_references env a book_id (ib_rows b)) (\<lambda>(accounts, categories).
      lbind (lift_act (commit_rows env a book_id creators accounts categories (ib_rows b) [] [])) (\<lambda>(skipped, entries).
      lbind (lguard (entries \<noteq> []) (ErrInvalidInput ''no import rows could be committed'')) (\<lambda>_.
      lret \<lparr>ir_batch_id = ib_id b, ir_book_id = book_id, ir_status = ''applied'',
           ir_imported_count = int (length entries), ir_skipped_count = int (length skipped),
           ir_entries = entries, ir_skipped_rows = skipped\<rparr>))) t = Some (r, u) \<and> commit_result env a book_id b s r u"
  proof (rule lbind_stage [OF references_return [of env s]])
    fix known :: "account list \<times> category list" and u assume kept: "import_prepared env s u"
    obtain accounts categories where known: "known = (accounts, categories)" by fastforce
    obtain r v where rows: "commit_rows env a book_id creators accounts categories (ib_rows b) [] [] u = (r, v)"
      by fastforce
    have reached: "from_store env s v"
      using keepsD [OF commit_rows_kept _ rows] kept by (simp add: import_prepared_def)
    obtain outcomes where outcomes: "length outcomes \<le> length (ib_rows b)" "rows_done env book_id (ib_rows b) outcomes"
      "v = u\<lparr>ms_entries := ms_entries u @ outcome_entries outcomes\<rparr>"
      "outcome_entries outcomes \<noteq> [] \<longrightarrow> may_write a book_id u"
      "\<forall>sk es. r = Inr (sk, es) \<longrightarrow> length outcomes = length (ib_rows b) \<and>
         sk = [] @ outcome_skipped outcomes \<and> es = [] @ outcome_entries outcomes"
      using commit_rows_result [OF rows] by blast
    then have written: "ms_entries v = ms_entries s @ outcome_entries outcomes"
      "outcome_entries outcomes \<noteq> [] \<Longrightarrow> may_write a book_id v"
      using kept by (simp_all add: import_prepared_def)
    note resultI = commit_resultI [OF reached outcomes(1,2) written]
    have failed: "commit_result env a book_id b s (Inl e) v" for e by (rule resultI) simp_all
    show "\<exists>r w. (case known of (accounts, categories) \<Rightarrow>
        lbind (lift_act (commit_rows env a book_id creators accounts categories (ib_rows b) [] [])) (\<lambda>(skipped, entries).
        lbind (lguard (entries \<noteq> []) (ErrInvalidInput ''no import rows could be committed'')) (\<lambda>_.
        lret \<lparr>ir_batch_id = ib_id b, ir_book_id = book_id, ir_status = ''applied'',
             ir_imported_count = int (length entries), ir_skipped_count = int (length skipped),
             ir_entries = entries, ir_skipped_rows = skipped\<rparr>))) u = Some (r, w) \<and> commit_result env a book_id b s r w"
    proof (cases r)
      case (Inl e)
      then show ?thesis using failed by (simp add: known lbind_lift rows)
    next
      case (Inr p)
      then obtain sk es where p: "r = Inr (sk, es)" by (cases p) simp
      have "commit_result env a book_id b s (Inr \<lparr>ir_batch_id = ib_id b, ir_book_id = book_id, ir_status = ''applied'',
          ir_imported_count = int (length es), ir_skipped_count = int (length sk), ir_entries = es,
          ir_skipped_rows = sk\<rparr>) v" if "es \<noteq> []"
        by (rule resultI) (use that outcomes(5) p in auto)
      then show ?thesis
        using failed by (cases "es = []") (simp_all add: known lbind_lift rows p lift_act_def act_defs)
    qed
  qed (use * in \<open>auto intro: prepared_result\<close>)
qed (auto intro: prepared_result)

section \<open>Finding entries again\<close>

definition book_entries :: "string \<Rightarrow> memory_store \<Rightarrow> entry list" where
  "book_entries book_id s = sort_func cmp_occurred (filter (\<lambda>e. en_book_id e = book_id) (ms_entries s))"

lemma list_entries_page:
  assumes "at_user_id a \<noteq> []" and "book_id \<noteq> []" and "member_at s book_id (at_user_id a) \<noteq> None"
    and fits: "fits (ms_entries s)" and k: "int k * 100 \<le> int (length (book_entries book_id s))"
  shows "list_entries a book_id (int k + 1) 100 s =
    Inr \<lparr>el_entries = take 100 (drop (k * 100) (book_entries book_id s)), el_page = int k + 1, el_page_size = 100,
         el_total = int (length (book_entries book_id s))\<rparr>"
proof -
  let ?all = "book_entries book_id s"
  have "fits ?all" using fits by (simp add: book_entries_def fits_sorted fits_filter)
  then have len: "int (length ?all) < 2 ^ 62" by (simp only: fits_def)
  have wrap: "int64 (int k) = int k" "int64 (int k * 100) = int k * 100" "int64 (int k * 100 + 100) = int k * 100 + 100"
    using len k by (auto intro!: int64_id simp: in_int64_def)
  obtain m where m: "st_member book_id (at_user_id a) s = Inr m" using assms(3) by auto
  have all: "st_entries book_id s = Inr ?all" by (simp add: st_entries_def book_entries_def)
  have norm: "normalize_entry_page (int k + 1) 100 = (int k + 1, 100)" by (simp add: normalize_entry_page_def)
  show ?thesis
  proof (cases "int k * 100 \<ge> int (length ?all)")
    case True
    then have "length ?all \<le> k * 100" by linarith
    then show ?thesis using True
      by (simp add: list_entries_def assms(1,2) m norm all wrap Let_def del: st_member_iff of_nat_mult)
  next
    case False
    then have "take (nat (min (int k * 100 + 100) (int (length ?all)) - int k * 100)) (drop (k * 100) ?all) =
        take 100 (drop (k * 100) ?all)"
      by (cases "int k * 100 + 100 \<le> int (length ?all)") (simp_all add: nat_diff_distrib)
    moreover have "nat (int k * 100) = k * 100" by linarith
    ultimately show ?thesis using False
      by (simp add: list_entries_def assms(1,2) m norm all wrap Let_def go_slice_def del: st_member_iff of_nat_mult)
  qed
qed

definition found_in :: "string list \<Rightarrow> entry list \<Rightarrow> (string \<times> entry) list \<Rightarrow> bool" where
  "found_in wanted es found \<longleftrightarrow> distinct (map fst found) \<and>
     (\<forall>i e. map_of found i = Some e \<longleftrightarrow> i \<in> set wanted \<and> e \<in> set es \<and> en_id e = i)"

lemma found_in_page:
  assumes "distinct (map en_id (es @ page))" and "found_in wanted es found"
  shows "found_in wanted (es @ page) (foldl (\<lambda>m e. if en_id e \<in> set wanted then AList.update (en_id e) e m else m) found page)"
  using assms
proof (induction page arbitrary: es found)
  case (Cons e page)
  have "found_in wanted (es @ [e]) (if en_id e \<in> set wanted then AList.update (en_id e) e found else found)"
    using Cons.prems
    by (auto simp: found_in_def update_conv' distinct_update image_iff simp del: map_of_eq_Some_iff split: if_splits)
  then show ?case using Cons.IH [of "es @ [e]"] Cons.prems(1) by simp
qed simp

text \<open>When as many entries are found as are wanted, the rest of the book has none of them.\<close>

lemma found_in_all:
  assumes "distinct (map en_id (es @ rest))" and found: "found_in wanted es found" and "length found = length (remdups wanted)"
  shows "found_in wanted (es @ rest) found"
proof -
  have keys: "fst ` set found \<subseteq> set wanted" and "distinct (map fst found)"
    using found by (auto simp: found_in_def dest!: map_of_is_SomeI)
  then have "card (fst ` set found) = card (set wanted)"
    using assms(3) by (metis distinct_card length_map length_remdups_card_conv list.set_map)
  then have "fst ` set found = set wanted" using keys by (simp add: card_subset_eq)
  have "\<exists>e. e \<in> set es \<and> en_id e = i" if "i \<in> set wanted" for i
  proof -
    have "i \<in> fst ` set found" using that \<open>fst ` set found = set wanted\<close> by simp
    then obtain e where "map_of found i = Some e" by (metis domD dom_map_of_conv_image_fst)
    then show ?thesis using found by (auto simp: found_in_def)
  qed
  then have "e \<in> set es" if "e \<in> set (es @ rest)" "en_id e \<in> set wanted" for e
    using that assms(1) by (fastforce simp: image_iff)
  then show ?thesis using found by (auto simp: found_in_def)
qed

lemma find_entries_from:
  assumes fetch: "\<And>k. int k * 100 \<le> int (length all) \<Longrightarrow> fetch (int k + 1) =
      Inr \<lparr>el_entries = take 100 (drop (k * 100) all), el_page = int k + 1, el_page_size = 100, el_total = int (length all)\<rparr>"
    and "fits all" and "distinct (map en_id all)"
  shows "int k * 100 \<le> int (length all) \<Longrightarrow> found_in wanted (take (k * 100) all) found \<Longrightarrow>
    \<exists>found'. find_entries fetch wanted (int k + 1) found = Some (Inr found') \<and> found_in wanted all found'"
proof (induction "length all - k * 100" arbitrary: k found rule: less_induct)
  case less
  let ?page = "take 100 (drop (k * 100) all)"
  let ?found = "foldl (\<lambda>m e. if en_id e \<in> set wanted then AList.update (en_id e) e m else m) found ?page"
  have acc: "take (k * 100) all @ ?page = take (Suc k * 100) all"
    by (simp only: take_add [symmetric] mult_Suc add.commute)
  have "distinct (map en_id (take (Suc k * 100) all))" using assms(3) by (metis distinct_take take_map)
  then have found: "found_in wanted (take (Suc k * 100) all) ?found"
    using found_in_page [OF _ less.prems(2), of ?page] by (simp only: acc)
  have "int (length all) < 2 ^ 62" using assms(2) by (simp only: fits_def)
  then have wrap: "int64 ((int k + 1) * 100) = (int k + 1) * 100" "int64 (int k + 1 + 1) = int (Suc k) + 1"
    using less.prems(1) by (auto simp: int64_id in_int64_def)
  have step: "find_entries fetch wanted (int k + 1) found =
      (if length ?found = length (remdups wanted) \<or> (int k + 1) * 100 \<ge> int (length all) then Some (Inr ?found)
       else find_entries fetch wanted (int (Suc k) + 1) ?found)"
    by (subst find_entries.simps)
      (simp only: fetch [OF less.prems(1)] sum.case Let_def entry_list.simps wrap)
  consider "length ?found = length (remdups wanted)" | "(int k + 1) * 100 \<ge> int (length all)"
    | "length ?found \<noteq> length (remdups wanted)" "(int k + 1) * 100 < int (length all)" by linarith
  then show ?case
  proof cases
    case 1
    then show ?thesis
      using step found_in_all [OF _ found, of "drop (Suc k * 100) all"] assms(3) by (simp only: append_take_drop_id) simp
  next
    case 2
    then have "length all \<le> Suc k * 100" by simp
    then show ?thesis using step 2 found by simp
  next
    case 3
    then show ?thesis using less.hyps [OF _ _ found] step by simp
  qed
qed

text \<open>The entries of a book with the given ids, in the order of the ids.\<close>

lemma import_entries_found:
  assumes "at_user_id a \<noteq> []" and "book_id \<noteq> []" and "member_at s book_id (at_user_id a) \<noteq> None"
    and "fits (ms_entries s)" and "distinct (map en_id (ms_entries s))"
    and mine: "set es \<subseteq> set (ms_entries s)" "\<And>e. e \<in> set es \<Longrightarrow> en_book_id e = book_id"
  shows "import_entries_by_ids a book_id (map en_id es) s = Some (Inr es)"
proof -
  let ?all = "book_entries book_id s"
  have "fits ?all" using assms(4) by (simp add: book_entries_def fits_sorted fits_filter)
  moreover have ids: "distinct (map en_id ?all)"
    using assms(5) by (simp add: book_entries_def distinct_map_filter distinct_map_sort_func)
  ultimately obtain found where run: "find_entries (\<lambda>page. list_entries a book_id page 100 s) (map en_id es) 1 [] = Some (Inr found)"
    and found: "found_in (map en_id es) ?all found"
    using find_entries_from [of ?all "\<lambda>page. list_entries a book_id page 100 s" 0 "map en_id es" "[]"] list_entries_page assms(1-4)
    by (auto simp: found_in_def)
  have "map_of found (en_id e) = Some e" if "e \<in> set es" for e
    using that mine found by (auto simp: found_in_def book_entries_def simp del: map_of_eq_Some_iff)
  then have "List.map_filter (map_of found) (map en_id es) = es"
    by (induction es) (auto simp: List.map_filter_simps simp del: map_of_eq_Some_iff)
  then show ?thesis by (auto simp: import_entries_by_ids_def run)
qed

section \<open>The route\<close>

lemma on_imports_iff: "on_imports m (i, l) = Some (Inr x, (j, k)) \<longleftrightarrow> m i = (Inr x, j) \<and> k = l"
  by (auto simp: on_imports_def split: prod.splits sum.splits)

lemma on_ledger_iff: "on_ledger m (i, l) = Some (Inr x, (j, k)) \<longleftrightarrow> m l = Some (Inr x, k) \<and> j = i"
  by (auto simp: on_ledger_def split: option.splits prod.splits sum.splits)

text \<open>A batch applied for the first time, taken apart.\<close>

lemma apply_new:
  assumes "apply_import env user_id email book_id batch_id request (i, l) = Some (Inr (201, response), (j, k))"
  obtains b where "load_batch im_batch \<lparr>bq_user_id = user_id, bq_batch_id = batch_id\<rparr> i = Inr b"
    and "ib_source b = ''wacai''"
    and "trim_space (iq_source_hash request) \<noteq> []" and "trim_space (iq_source_hash request) = ib_source_hash b"
    and "\<not> ib_error_count b > 0" and "ib_status b \<noteq> BatchStatusApplied"
    and "commit_wacai_batch env \<lparr>at_user_id = user_id\<rparr> email book_id b (iq_member_mappings request) l = Some (Inr response, k)"
    and "\<exists>c. mark_applied im_save_batch im_batch
              \<lparr>mq_user_id = user_id, mq_batch_id = ib_id b, mq_book_id = ir_book_id response,
               mq_entry_ids = map en_id (ir_entries response),
               mq_skipped_rows = import_skipped_rows_for_service (ir_skipped_rows response)\<rparr> (xe_now env) i = (Inr c, j)"
proof -
  show ?thesis
    using assms that unfolding apply_import_def
    by (auto simp: lbind_Inr_iff on_imports_iff on_ledger_iff act_defs split: if_splits sum.splits prod.splits)
qed

text \<open>What it leaves behind: the batch, marked with the entries of the response.\<close>

lemma mark_applied_stores:
  assumes ok: "import_ok i" and owner: "map_of (im_batches i) (ib_id b) = Some b" "ib_user_id b = user_id"
    and status: "ib_status b \<noteq> BatchStatusApplied" and id: "trim_space (ib_id b) = ib_id b"
    and run: "mark_applied im_save_batch im_batch
      \<lparr>mq_user_id = user_id, mq_batch_id = ib_id b, mq_book_id = book_id, mq_entry_ids = ids, mq_skipped_rows = rows\<rparr>
      now i = (Inr c, j)"
  shows "c = b\<lparr>ib_status := BatchStatusApplied, ib_applied_book_id := trim_space book_id,
      ib_applied_entry_ids := normalize_applied_entry_ids ids, ib_applied_skipped_rows := rows,
      ib_applied_at := Some now, ib_updated_at := now\<rparr> \<and> import_ok j \<and>
    im_batches j = AList.update (ib_id b) c (im_batches i)"
proof -
  let ?c = "b\<lparr>ib_status := BatchStatusApplied, ib_applied_book_id := trim_space book_id,
      ib_applied_entry_ids := normalize_applied_entry_ids ids, ib_applied_skipped_rows := rows,
      ib_applied_at := Some now, ib_updated_at := now\<rparr>"
  have found: "im_batch user_id (ib_id b) i = Inr b" using owner by (simp add: im_batch_def)
  then have saved: "im_save_batch ?c i = (Inr c, j)"
    using run status id by (simp add: mark_applied_def Let_def act_defs split: if_splits)
  have "import_ok (snd (im_save_batch ?c i))"
    by (rule save_keeps_ok [OF ok]) (use owner in \<open>simp add: batch_key_def\<close>)
  then show ?thesis using saved by (auto simp: im_save_batch_def)
qed

lemma unique_values_id:
  assumes "distinct vs" and "\<And>v. v \<in> set vs \<Longrightarrow> trim_space v = v \<and> v \<noteq> []"
  shows "unique_values vs = vs"
proof -
  have "foldl append_unique acc ws = acc @ ws"
    if "distinct (acc @ ws)" "\<And>v. v \<in> set ws \<Longrightarrow> trim_space v = v \<and> v \<noteq> []" for acc ws
    using that
  proof (induction ws arbitrary: acc)
    case (Cons w ws)
    then have "append_unique acc w = acc @ [w]" by (auto simp: append_unique_def)
    then show ?case using Cons by simp
  qed simp
  then show ?thesis using assms by (simp add: unique_values_def)
qed

lemma skipped_rows_back: "import_skipped_rows_from_service (import_skipped_rows_for_service rows) = rows"
  by (auto simp: import_skipped_rows_from_service_def import_skipped_rows_for_service_def intro!: map_idI)

lemma rows_done_entries:
  assumes "rows_done env book_id rows outcomes" and "e \<in> set (outcome_entries outcomes)"
  shows "en_book_id e = book_id \<and> (\<exists>x. xe_parse_uuid env x = Some (en_id e))"
proof -
  have "Inr e \<in> set outcomes" using assms(2) by (simp add: outcome_entries_iff)
  then obtain n where "n < length outcomes" "outcomes ! n = Inr e" by (auto simp: in_set_conv_nth)
  then show ?thesis using list_all2_nthD2 [OF assms(1)] by (fastforce simp: row_outcome_def)
qed

text \<open>The stores after a batch was applied: the batch is marked, its entries are in the ledger.\<close>

lemma applied_state:
  assumes ok: "import_ok i" "ledger_ok l" "lists_fit l"
    and uuid: "\<And>x y. xe_parse_uuid env x = Some y \<Longrightarrow> trim_space y = y \<and> y \<noteq> []"
    and run: "apply_import env user_id email book_id batch_id request (i, l) = Some (Inr (201, response), (j, k))"
  obtains c where "user_id \<noteq> []" and "trim_space batch_id \<noteq> []" and "map_of (im_batches j) (trim_space batch_id) = Some c"
    and "ib_id c = trim_space batch_id" and "ib_user_id c = user_id" and "ib_source c = ''wacai''" 
    and "trim_space (iq_source_hash request) \<noteq> []" and "trim_space (iq_source_hash request) = ib_source_hash c"
    and "\<not> ib_error_count c > 0" and "ib_status c = BatchStatusApplied" and "ib_applied_book_id c = trim_space book_id"
    and "ib_applied_entry_ids c = map en_id (ir_entries response)"
    and "import_skipped_rows_from_service (ib_applied_skipped_rows c) = ir_skipped_rows response"
    and "commit_result env \<lparr>at_user_id = user_id\<rparr> book_id c l (Inr response) k"
proof -
  obtain b c where b: "load_batch im_batch \<lparr>bq_user_id = user_id, bq_batch_id = batch_id\<rparr> i = Inr b"
    and checks: "ib_source b = ''wacai''" "trim_space (iq_source_hash request) \<noteq> []"
      "trim_space (iq_source_hash request) = ib_source_hash b" "\<not> ib_error_count b > 0" "ib_status b \<noteq> BatchStatusApplied"
    and commit: "commit_wacai_batch env \<lparr>at_user_id = user_id\<rparr> email book_id b (iq_member_mappings request) l = Some (Inr response, k)"
    and mark: "mark_applied im_save_batch im_batch
              \<lparr>mq_user_id = user_id, mq_batch_id = ib_id b, mq_book_id = ir_book_id response,
               mq_entry_ids = map en_id (ir_entries response),
               mq_skipped_rows = import_skipped_rows_for_service (ir_skipped_rows response)\<rparr> (xe_now env) i = (Inr c, j)"
    by (rule apply_new [OF run]) blast
  have given: "user_id \<noteq> []" "trim_space batch_id \<noteq> []" using b by (auto simp: load_batch_def split: if_splits)
  have owner: "map_of (im_batches i) (trim_space batch_id) = Some b" "ib_user_id b = user_id"
    using import_memory.load_batch_owner [OF ok(1) b] by simp_all
  have id: "ib_id b = trim_space batch_id" using import_okD(1) [OF ok(1) owner(1)] .
  have result: "commit_result env \<lparr>at_user_id = user_id\<rparr> book_id b l (Inr response) k"
    using commit_batch_result [OF ok(2,3), of env "\<lparr>at_user_id = user_id\<rparr>" email book_id b "iq_member_mappings request"] commit by auto
  then obtain outcomes where outcomes: "rows_done env book_id (ib_rows b) outcomes"
    "ms_entries k = ms_entries l @ outcome_entries outcomes" "ir_entries response = outcome_entries outcomes"
    "ir_book_id response = book_id" "ledger_ok k"
    by (auto simp: commit_result_def from_store_def)
  have "distinct (map en_id (ms_entries k))" using outcomes(5) by (auto dest: ledger_okD simp: store_ok_def)
  then have new: "distinct (map en_id (ir_entries response))" by (simp add: outcomes(2,3))
  have "trim_space (en_id e) = en_id e \<and> en_id e \<noteq> []" if "e \<in> set (ir_entries response)" for e
    using rows_done_entries [OF outcomes(1), of e] that uuid outcomes(3) by metis
  then have "normalize_applied_entry_ids (map en_id (ir_entries response)) = map en_id (ir_entries response)"
    unfolding normalize_applied_entry_ids_def using new by (intro unique_values_id) auto
  moreover have "map_of (im_batches i) (ib_id b) = Some b" using owner(1) id by simp
  ultimately have "c = b\<lparr>ib_status := BatchStatusApplied, ib_applied_book_id := trim_space book_id,
      ib_applied_entry_ids := map en_id (ir_entries response),
      ib_applied_skipped_rows := import_skipped_rows_for_service (ir_skipped_rows response),
      ib_applied_at := Some (xe_now env), ib_updated_at := xe_now env\<rparr>" "im_batches j = AList.update (ib_id b) c (im_batches i)"
    using mark_applied_stores [OF ok(1) _ owner(2) checks(5) _ mark] id outcomes(4) by simp_all
  then show ?thesis
    using given owner checks id result
    by (intro that [of c]) (simp_all add: update_conv' skipped_rows_back commit_result_def)
qed

text \<open>The answer to a batch that was applied before.\<close>

lemma commit_result_found:
  assumes result: "commit_result env a book_id b s (Inr response) t" and room: "fits (ms_entries t)"
  shows "import_entries_by_ids a book_id (map en_id (ir_entries response)) t = Some (Inr (ir_entries response))"
proof -
  obtain outcomes where outcomes: "rows_done env book_id (ib_rows b) outcomes" "ledger_ok t"
    "ms_entries t = ms_entries s @ outcome_entries outcomes" "may_write a book_id t"
    "ir_entries response = outcome_entries outcomes"
    by (rule commit_resultE [OF result]) simp
  have "distinct (map en_id (ms_entries t))" using outcomes(2) by (auto dest: ledger_okD simp: store_ok_def)
  moreover have "set (ir_entries response) \<subseteq> set (ms_entries t)" by (simp add: outcomes(3,5))
  moreover have "en_book_id e = book_id" if "e \<in> set (ir_entries response)" for e
    using rows_done_entries [OF outcomes(1), of e] that outcomes(5) by simp
  ultimately show ?thesis using outcomes(4) room by (intro import_entries_found) (auto simp: may_write_def)
qed

lemma commit_result_again:
  assumes result: "commit_result env a book_id b s (Inr response) t" and book: "ib_applied_book_id b = book_id"
    and ids: "ib_applied_entry_ids b = map en_id (ir_entries response)"
    and rows: "import_skipped_rows_from_service (ib_applied_skipped_rows b) = ir_skipped_rows response"
    and found: "import_entries_by_ids a book_id (map en_id (ir_entries response)) t = Some (Inr (ir_entries response))"
  shows "applied_wacai_batch a book_id b t = Some (Inr response)"
proof -
  have "length (ib_applied_skipped_rows b) = length (ir_skipped_rows response)"
    using arg_cong [OF rows, of length] by (simp add: import_skipped_rows_from_service_def)
  moreover obtain outcomes where "response = \<lparr>ir_batch_id = ib_id b, ir_book_id = book_id, ir_status = ''applied'',
      ir_imported_count = int (length (outcome_entries outcomes)), ir_skipped_count = int (length (outcome_skipped outcomes)),
      ir_entries = outcome_entries outcomes, ir_skipped_rows = outcome_skipped outcomes\<rparr>"
    by (rule commit_resultE [OF result]) blast
  ultimately show ?thesis using found by (simp add: applied_wacai_batch_def book ids rows)
qed

section \<open>A batch the ledger refuses\<close>

lemma lbind_failed_iff:
  "lbind m f s = Some (Inl e, u) \<longleftrightarrow> m s = Some (Inl e, u) \<or> (\<exists>x t. m s = Some (Inr x, t) \<and> f x t = Some (Inl e, u))"
  by (auto simp: lbind_def split: option.splits prod.splits sum.splits)

lemma ledger_failed:
  "on_imports m (i, l) = Some (Inl (ApplyLedger e), u) \<longleftrightarrow> False"
  "on_ledger n (i, l) = Some (Inl (ApplyLedger e), (j, k)) \<longleftrightarrow> n l = Some (Inl e, k) \<and> j = i"
  "lguard c (ApplyMessage x y) st = Some (Inl (ApplyLedger e), u) \<longleftrightarrow> False"
  by (auto simp: on_imports_def on_ledger_def act_defs lift_act_def split: prod.splits sum.splits option.splits)

lemma on_imports_some: "on_imports m (i, l) = Some (Inr x, u) \<longleftrightarrow> (\<exists>j. m i = (Inr x, j) \<and> u = (j, l))"
  and on_ledger_some: "on_ledger n (i, l) = Some (Inr y, u) \<longleftrightarrow> (\<exists>k. n l = Some (Inr y, k) \<and> u = (i, k))"
  by (auto simp: on_imports_def on_ledger_def split: prod.splits sum.splits option.splits)

lemma apply_failed:
  assumes "ledger_ok l" and "lists_fit l"
    and "apply_import env user_id email book_id batch_id request (i, l) = Some (Inl (ApplyLedger e), (j, k))"
  shows "j = i \<and> ledger_ok k \<and> (\<exists>es. ms_entries k = ms_entries l @ es)"
proof -
  consider (again) b where "lift_read (applied_wacai_batch \<lparr>at_user_id = user_id\<rparr> book_id b) l = Some (Inl e, k)" "j = i"
    | (new) b where "commit_wacai_batch env \<lparr>at_user_id = user_id\<rparr> email book_id b (iq_member_mappings request) l = Some (Inl e, k)" "j = i"
    using assms(3) unfolding apply_import_def
    by (auto simp: lbind_failed_iff ledger_failed on_imports_some on_ledger_some act_defs lift_act_def split: if_splits sum.splits)
  then show ?thesis
  proof cases
    case again
    then show ?thesis using assms(1) by simp
  next
    case new
    then have "commit_result env \<lparr>at_user_id = user_id\<rparr> book_id b l (Inl e) k"
      using commit_batch_result [OF assms(1,2), of env "\<lparr>at_user_id = user_id\<rparr>" email book_id b "iq_member_mappings request"] by auto
    then show ?thesis using new(2) unfolding commit_result_def from_store_def by blast
  qed
qed

end
