(* ===== verification/Import_Properties.thy ===== *)
theory Import_Properties
  imports Import_Route Ledger_Sample Auth_Sample
begin

text \<open>
  The properties of imports, over the theorems of \<open>Import_Facts\<close> and \<open>Import_Route\<close>, with witnesses on a
  small workbook applied to the store of \<open>Ledger_Sample\<close>.
\<close>

section \<open>Surroundings to run in\<close>

definition sample_records :: "string list list" where
  "sample_records = [[''type'', ''amount'', ''date''], [''expense'', ''x'', ''2024-01-02''], ['' ''], [''expense'', ''5'', ''2024-01-02'']]"

definition sample_import_env :: import_env where
  "sample_import_env =
     \<lparr>ie_lower = id, ie_upper = id, ie_sha = (\<lambda>data. take 4 data),
      ie_csv = (\<lambda>_. Some sample_records),
      ie_zip = (\<lambda>_. None),
      ie_float = (\<lambda>s. if s = ''5'' then Some (Finite 5) else if s = ''-5'' then Some (Finite (-5)) else None),
      ie_times_100 = (\<lambda>q. Finite (100 * q)), ie_float_to_int = (\<lambda>_. 0),
      ie_date = (\<lambda>layout s. if s = ''2024-01-02'' then Some 1704153600 else None)\<rparr>"

definition sample_commit_env :: commit_env where
  "sample_commit_env =
     \<lparr>xe_import = sample_import_env, xe_auth = sample_env, xe_users = new_auth_store, xe_fold = (=),
      xe_parse_uuid = (\<lambda>s. if trim_space s = s \<and> s \<noteq> [] then Some s else None), xe_rational = (\<lambda>_. None),
      xe_fresh = (\<lambda>s. ''f''), xe_entry_id = (\<lambda>s. Inr (replicate (length (ms_entries s)) (CHR ''u''))), xe_now = 9\<rparr>"

definition sample_row :: "int \<Rightarrow> string \<Rightarrow> preview_row" where
  "sample_row n amount =
     \<lparr>pw_row_number = n, pw_raw = [], pw_type = ''expense'', pw_source_type = ''expense'', pw_occurred_at = ''2024-01-02'',
      pw_amount = amount, pw_currency = ''USD'', pw_account = ''a'', pw_destination_account = [], pw_category = ''c'',
      pw_book = [], pw_member = [], pw_participants = [], pw_merchant = [], pw_attribute = [], pw_note = ''lunch'',
      pw_tags = [], pw_warnings = [], pw_errors = []\<rparr>"

definition sample_batch :: "preview_row list \<Rightarrow> batch" where
  "sample_batch rows = zero_batch\<lparr>ib_id := ''i'', ib_user_id := ''m'', ib_source := ''wacai'', ib_source_hash := ''h'',
     ib_status := BatchStatusPreview, ib_rows := rows\<rparr>"

definition sample_imports :: "preview_row list \<Rightarrow> import_memory" where
  "sample_imports rows = snd (im_save_batch (sample_batch rows) new_import_memory)"

definition sample_commit_request :: import_commit_request where
  "sample_commit_request = \<lparr>iq_source_hash = ''h'', iq_member_mappings = []\<rparr>"

definition sample_upload :: preview_request where
  "sample_upload = \<lparr>pq_user_id = ''m'', pq_filename = ''wacai.csv'', pq_content_type = [], pq_data = ''type,amount''\<rparr>"

lemma sample_lists_fit: "lists_fit sample_store"
  by (simp add: lists_fit_def fits_def sample_store_def)


definition sample_schema :: detected_schema where
  "sample_schema = detect_schema sample_import_env (hd sample_records)"

definition sample_rows :: "preview_row list" where
  "sample_rows = preview_rows sample_import_env (hd sample_records) sample_schema [] 1 0 (tl sample_records)"

lemma sample_parsed:
  "\<exists>detected warnings. parse_wacai_records sample_import_env sample_records [] =
     Inr (sample_rows, sample_schema, detected, warnings, sum_list (map (int \<circ> length \<circ> pw_errors) sample_rows))"
proof -
  have "normalize_headers (hd sample_records) = hd sample_records" "ds_missing sample_schema = []" by code_simp+
  then have "detect_wacai_header sample_import_env sample_records = Some (0, sample_schema)"
    "normalize_headers (sample_records ! 0) = hd sample_records"
    by (simp_all add: detect_wacai_header_def sample_records_def sample_schema_def Let_def)
  then show ?thesis
    by (simp add: parse_wacai_records_def Let_def sample_rows_def del: One_nat_def) (simp add: sample_records_def)
qed

lemma sample_rows_found: "map pw_row_number sample_rows = [2, 4]" "map (length \<circ> pw_errors) sample_rows = [1, 0]"
  by code_simp+

section \<open>A batch to apply\<close>

abbreviation sample_actor :: actor where "sample_actor \<equiv> \<lparr>at_user_id = ''m''\<rparr>"
abbreviation sample_accounts :: "account list" where "sample_accounts \<equiv> [sample_account ''a'' ''m'' [''b'']]"
abbreviation sample_categories :: "category list" where "sample_categories \<equiv> [sample_category ''c'' [], sample_category ''d'' ''c'']"

definition sample_imported_entry :: entry where
  "sample_imported_entry = sample_entry\<lparr>en_id := ''u'', en_amount_cents := 500, en_occurred_at := 1704153600,
     en_note := ''lunch'', en_created_at := 9, en_updated_at := 9\<rparr>"

definition sample_imported_store :: memory_store where
  "sample_imported_store = sample_store\<lparr>ms_entries := [sample_entry, sample_imported_entry]\<rparr>"

definition sample_response :: import_commit_response where
  "sample_response =
     \<lparr>ir_batch_id = ''i'', ir_book_id = ''b'', ir_status = ''applied'', ir_imported_count = 1, ir_skipped_count = 0,
      ir_entries = [sample_imported_entry], ir_skipped_rows = []\<rparr>"

lemma sample_commit_env_fields:
  "xe_import sample_commit_env = sample_import_env" "xe_now sample_commit_env = 9"
  "xe_rational sample_commit_env = (\<lambda>_. None)" "xe_entry_id sample_commit_env sample_store = Inr ''u''"
  "xe_parse_uuid sample_commit_env = (\<lambda>s. if trim_space s = s \<and> s \<noteq> [] then Some s else None)"
  by (simp_all add: sample_commit_env_def sample_store_def)

lemma sample_lookups:
  "account_id_by_name_currency sample_accounts ''a'' ''USD'' = ''a''"
  "category_id_by_path_direction sample_categories ''c'' CategoryDirectionExpense = ''c''"
  "category_id_by_parent_name_direction sample_categories [] ''c'' CategoryDirectionExpense = ''c''"
  "split_wacai_category_path ''c'' = [''c'']"
  "import_category_direction EntryTypeExpense = CategoryDirectionExpense"
  "import_entry_type sample_commit_env ''expense'' = Some EntryTypeExpense"
  "trim_space ''a'' = ''a''" "trim_space ''c'' = ''c''" "upper_trim ''USD'' = ''USD''"
  "import_amount_cents sample_import_env ''5'' = Inr 500"
  "import_amount_cents sample_import_env ''-5'' = Inl (ErrInvalidInput ''import amount is invalid'')"
  "import_occurred_at sample_import_env ''2024-01-02'' = Inr 1704153600"
  by code_simp+

lemma sample_listings:
  "list_all_import_accounts sample_actor sample_store = Some (Inr sample_accounts)"
  "list_all_import_account_groups sample_actor sample_store = Some (Inr [])"
  "list_all_import_categories sample_actor ''b'' sample_store = Some (Inr sample_categories)"
  by code_simp+

lemma sample_row_members:
  "resolve_row_members sample_commit_env sample_actor [] ''b'' m (sample_row n x) (wacai_row_member_sources (sample_row n x))
     resolved u s = (Inr (resolved, u), s)"
  by (simp add: sample_row_def wacai_row_member_sources_def append_unique_string_def act_defs)

lemma sample_row_references:
  "ensure_reference_rows sample_commit_env sample_actor ''b'' [] (sample_row n x # rows) [] sample_accounts sample_categories s =
   ensure_reference_rows sample_commit_env sample_actor ''b'' [] rows [] sample_accounts sample_categories s"
  by (simp add: sample_row_def sample_lookups ensure_wacai_import_account_def ensure_wacai_import_category_def
      lbind_def act_defs lift_act_def Let_def)

lemma sample_row_known: "row_references sample_commit_env (sample_row n x) sample_accounts sample_categories =
    Inr (EntryTypeExpense, ''a'', [], ''c'')"
  by (simp add: row_references_def sample_row_def sample_lookups)

lemma sample_entry_created:
  "create_entry (\<lambda>s. if trim_space s = s \<and> s \<noteq> [] then Some s else None) (\<lambda>_. None)
     \<lparr>ce_actor = sample_actor, ce_book_id = ''b'', ce_creator_user_id = ''m'', ce_type = EntryTypeExpense,
      ce_account_id = ''a'', ce_destination_account_id = [], ce_category_id = ''c'', ce_amount_cents = 500,
      ce_transaction_currency = ''USD'', ce_book_reporting_currency = [], ce_exchange_rate = [],
      ce_occurred_at = 1704153600, ce_note = ''lunch'', ce_merchant = [], ce_tags = []\<rparr>
     (Inr ''u'') 9 sample_store = (Inr sample_imported_entry, sample_imported_store)"
  by code_simp

lemma sample_row_written:
  "commit_wacai_row sample_commit_env sample_actor ''b'' ''m'' (sample_row n ''5'') sample_accounts sample_categories sample_store =
     (Inr (Inr sample_imported_entry), sample_imported_store)"
  unfolding commit_wacai_row_def sample_row_known
  by (simp add: sample_row_def sample_lookups sample_commit_env_fields sample_entry_created act_defs)

lemma sample_row_refused:
  "commit_wacai_row sample_commit_env sample_actor ''b'' u (sample_row n ''-5'') sample_accounts sample_categories s =
     (Inl (ErrInvalidInput ''import amount is invalid''), s)"
  unfolding commit_wacai_row_def sample_row_known
  by (simp add: sample_row_def sample_lookups sample_commit_env_fields act_defs)

lemmas sample_commit_facts = commit_wacai_batch_def sample_batch_def resolve_wacai_member_mappings_def
  ensure_wacai_import_references_def lbind_def lift_act_def lift_read_def act_defs sample_row_members sample_row_references
  sample_listings sample_row_written sample_row_refused

lemma sample_row_fields: "pw_errors (sample_row n x) = []" "pw_row_number (sample_row n x) = n"
  by (simp_all add: sample_row_def)

lemma sample_commit:
  "commit_wacai_batch sample_commit_env sample_actor [] ''b'' (sample_batch [sample_row 2 ''5'']) [] sample_store =
     Some (Inr sample_response, sample_imported_store)"
  by (simp add: sample_commit_facts sample_row_fields sample_response_def del: ensure_reference_rows.simps(2)
      resolve_row_members.simps)

lemma sample_commit_refused:
  "commit_wacai_batch sample_commit_env sample_actor [] ''b'' (sample_batch [sample_row 2 ''5'', sample_row 3 ''-5'']) [] sample_store =
     Some (Inl (ErrInvalidInput ''import amount is invalid''), sample_imported_store)"
  by (simp add: sample_commit_facts sample_row_fields del: ensure_reference_rows.simps(2) resolve_row_members.simps)

lemma sample_batch_loaded: "load_batch im_batch \<lparr>bq_user_id = ''m'', bq_batch_id = ''i''\<rparr> (sample_imports rows) = Inr (sample_batch rows)"
proof -
  have "trim_space ''i'' = ''i''" by code_simp
  then show ?thesis
    by (simp add: load_batch_def sample_imports_def im_save_batch_def new_import_memory_def im_batch_def sample_batch_def)
qed

lemma sample_checks:
  "ib_source (sample_batch rows) = ''wacai''" "ib_source_hash (sample_batch rows) = ''h''" "ib_error_count (sample_batch rows) = 0"
  "ib_status (sample_batch rows) = BatchStatusPreview" "trim_space (iq_source_hash sample_commit_request) = ''h''"
  "iq_member_mappings sample_commit_request = []"
proof -
  show "trim_space (iq_source_hash sample_commit_request) = ''h''" by code_simp
qed (simp_all add: sample_batch_def zero_batch_def sample_commit_request_def)


section \<open>Uploads\<close>

text \<open>C30. An upload that is accepted is stored in the durable store under its user and content, with unique ids
  and keys; uploading the same bytes again, at any time and under any fresh id, answers with the stored batch and
  changes nothing.\<close>

theorem import_upload_idempotent:
  assumes "import_ok (du_memory s)" and "map_of (im_batches (du_memory s)) fresh = None"
    and "preview_wacai_file (id_save_batch_if_absent None) id_batch_by_hash env request fresh now s = (Inr b, t)"
  shows "import_ok (du_memory t) \<and> map_of (im_batches (du_memory t)) (ib_id b) = Some b \<and>
    batch_key b = batch_hash_key (pq_user_id request) ''wacai'' (hash_source env (pq_data request)) \<and>
    preview_wacai_file (id_save_batch_if_absent None) id_batch_by_hash env request again later t = (Inr b, t)"
  using import_file.preview_stored [OF assms] import_file.preview_repeat [OF assms] by blast

theorem import_upload_idempotent_witness:
  "\<exists>b t. preview_wacai_file (id_save_batch_if_absent None) id_batch_by_hash sample_import_env sample_upload ''i'' 1
      (import_snapshot_store None) = (Inr b, t) \<and> length (ib_rows b) = 2 \<and>
    preview_wacai_file (id_save_batch_if_absent None) id_batch_by_hash sample_import_env sample_upload ''j'' 2 t = (Inr b, t)"
proof -
  have empty: "du_memory (import_snapshot_store None) = new_import_memory"
    by (simp add: import_snapshot_store_def open_durable_def load_batches_def im_from_snapshot_def)
  then have ok: "import_ok (du_memory (import_snapshot_store None))"
    "map_of (im_batches (du_memory (import_snapshot_store None))) ''i'' = None"
    using new_import_memory_ok by (simp_all add: new_import_memory_def)
  have ext: "to_lower_with (ie_lower sample_import_env) (file_ext ''wacai.csv'') = ''.csv''"
    "lower_trim sample_import_env ''.csv'' = ''.csv''" "trim_space ''wacai.csv'' \<noteq> []" by code_simp+
  obtain detected warnings errors where table: "parse_wacai_file sample_import_env ''type,amount'' ''.csv'' =
      Inr (sample_rows, sample_schema, detected, warnings, errors)"
    using sample_parsed
    by (auto simp: parse_wacai_file_def parse_wacai_csv_def ext sample_import_env_def [THEN arg_cong, of ie_csv])
      (auto simp: sample_records_def)
  define b where "b = new_batch sample_import_env sample_upload ''i'' 1 (sample_rows, sample_schema, detected, warnings, errors)"
  have "\<exists>t. preview_wacai_file (id_save_batch_if_absent None) id_batch_by_hash sample_import_env sample_upload ''i'' 1
      (import_snapshot_store None) = (Inr b, t)"
    by (simp add: preview_wacai_file_def sample_upload_def ext table act_defs known_batch_def id_batch_by_hash_def
        durable_read_def empty new_import_memory_def im_batch_by_hash_def max_preview_bytes_def
        id_save_batch_if_absent_def durable_write_def im_save_batch_if_absent_def b_def)
  then obtain t where run: "preview_wacai_file (id_save_batch_if_absent None) id_batch_by_hash sample_import_env sample_upload ''i'' 1
      (import_snapshot_store None) = (Inr b, t)" by blast
  have "length (ib_rows b) = 2" using arg_cong [OF sample_rows_found(1), of length] by (simp add: b_def new_batch_def)
  then show ?thesis using run import_upload_idempotent [OF ok run, of "''j''" 2] by blast
qed

text \<open>The rows of a preview are the first 500 records below the header that are not blank, in their order and
  with the number of their record, each checked on its own; the counts add up what the checks report, and a row
  without errors has a type, a number as its amount and a date. Records after the first 500 leave no trace.\<close>

theorem preview_rows_checked:
  assumes "parse_wacai_records env records book = Inr (rows, schema, detected, warnings, errors)"
  shows "(\<exists>header. detect_wacai_header env records = Some (header, schema) \<and>
      rows = take 500 (map (\<lambda>i. validate_preview_row env
          (build_preview_row env (int i + 1) (normalize_headers (records ! header)) (records ! i) schema book))
        (filter (\<lambda>i. \<not> is_empty_record (records ! i)) [Suc header..<length records]))) \<and>
    errors = sum_list (map (\<lambda>r. int (length (pw_errors r))) rows) \<and>
    warnings = sum_list (map (\<lambda>r. int (length (pw_warnings r))) rows) \<and>
    \<not> (\<exists>row \<in> set rows. pw_errors row = [] \<and> (trim_space (pw_type row) = [] \<or>
      ie_float env (without_commas (pw_amount row)) = None \<or> trim_space (pw_occurred_at row) = []))"
proof -
  obtain header where header: "detect_wacai_header env records = Some (header, schema)"
    and rows: "rows = preview_rows env (normalize_headers (records ! header)) schema book (Suc header) 0
      (drop (Suc header) records)"
    and counts: "errors = sum_list (map (int \<circ> length \<circ> pw_errors) rows)"
      "warnings = sum_list (map (int \<circ> length \<circ> pw_warnings) rows)"
    using assms by (auto simp: parse_wacai_records_def Let_def split: option.splits)
  have checked: "rows = take 500 (map (\<lambda>i. validate_preview_row env
          (build_preview_row env (int i + 1) (normalize_headers (records ! header)) (records ! i) schema book))
        (filter (\<lambda>i. \<not> is_empty_record (records ! i)) [Suc header..<length records]))"
    using preview_rows_take [of "Suc header" records] header_in_records [OF header]
    by (simp add: rows max_preview_rows_def)
  have fine: "\<not> (trim_space (pw_type row) = [] \<or> ie_float env (without_commas (pw_amount row)) = None \<or>
      trim_space (pw_occurred_at row) = [])" if "row \<in> set rows" "pw_errors row = []" for row
  proof -
    have "row \<in> set (map (\<lambda>i. validate_preview_row env
          (build_preview_row env (int i + 1) (normalize_headers (records ! header)) (records ! i) schema book))
        (filter (\<lambda>i. \<not> is_empty_record (records ! i)) [Suc header..<length records]))"
      using that(1) by (subst (asm) checked) (rule in_set_takeD)
    then obtain i where "row = validate_preview_row env
        (build_preview_row env (int i + 1) (normalize_headers (records ! header)) (records ! i) schema book)" by auto
    then show ?thesis using row_without_errors that(2) by blast
  qed
  have counted: "errors = sum_list (map (\<lambda>r. int (length (pw_errors r))) rows)"
    "warnings = sum_list (map (\<lambda>r. int (length (pw_warnings r))) rows)"
    using counts by (simp_all add: comp_def)
  show ?thesis using header checked counted fine by blast
qed

theorem preview_rows_checked_witness:
  "\<exists>rows schema detected warnings errors.
    parse_wacai_records sample_import_env sample_records [] = Inr (rows, schema, detected, warnings, errors) \<and>
    map pw_row_number rows = [2, 4] \<and> errors = 1"
proof -
  obtain detected warnings errors where run: "parse_wacai_records sample_import_env sample_records [] =
      Inr (sample_rows, sample_schema, detected, warnings, errors)" using sample_parsed by blast
  have "errors = sum_list (map int (map (length \<circ> pw_errors) sample_rows))"
    using preview_rows_checked [OF run] by (simp add: comp_def)
  then show ?thesis using run sample_rows_found by (simp del: map_map)
qed

section \<open>Workbooks\<close>

lemma wide_columns:
  "column_letters env ''ZZZZZZ1'' = ''ZZZZZZ''" "column_letters env ''DDDDDDDDDDDDDD1'' = ''DDDDDDDDDDDDDD''"
  "int64 (letters_index ''ZZZZZZ'' - 1) = 321272405" "int64 (letters_index ''DDDDDDDDDDDDDD'' - 1) < 0"
proof -
  have upper: "trim_space ''ZZZZZZ1'' = ''ZZZZZZ1''" "is_ascii ''ZZZZZZ1''" "to_upper ''ZZZZZZ1'' = ''ZZZZZZ1''"
    "trim_space ''DDDDDDDDDDDDDD1'' = ''DDDDDDDDDDDDDD1''" "is_ascii ''DDDDDDDDDDDDDD1''"
    "to_upper ''DDDDDDDDDDDDDD1'' = ''DDDDDDDDDDDDDD1''"
    "takeWhile is_upper ''ZZZZZZ1'' = ''ZZZZZZ''" "takeWhile is_upper ''DDDDDDDDDDDDDD1'' = ''DDDDDDDDDDDDDD''"
    by code_simp+
  show "column_letters env ''ZZZZZZ1'' = ''ZZZZZZ''" "column_letters env ''DDDDDDDDDDDDDD1'' = ''DDDDDDDDDDDDDD''"
    by (simp_all only: column_letters_def to_upper_with_def upper if_True)
  show "int64 (letters_index ''ZZZZZZ'' - 1) = 321272405" "int64 (letters_index ''DDDDDDDDDDDDDD'' - 1) < 0"
    by code_simp+
qed

text \<open>The record of a worksheet row is as long as the largest column of its cells asks for, and reading it
  panics exactly when a column is negative. Columns are not bounded: six letters ask for 321,272,406 cells, and
  fourteen wrap around to a negative number.\<close>

theorem xlsx_record_exact:
  "(xlsx_record_from_row env shared cells rec = None \<longleftrightarrow> list_ex (\<lambda>c. xlsx_cell_index env (cl_ref c) < 0) cells) \<and>
   \<not> (\<exists>r. xlsx_record_from_row env shared cells rec = Some r \<and>
       length r \<noteq> fold (\<lambda>c n. max n (nat (xlsx_cell_index env (cl_ref c) + 1))) cells (length rec)) \<and>
   xlsx_cell_index env ''ZZZZZZ1'' = 321272405 \<and> xlsx_cell_index env ''DDDDDDDDDDDDDD1'' < 0"
proof -
  have "(xlsx_record_from_row env shared cells rec = None \<longleftrightarrow> list_ex (\<lambda>c. xlsx_cell_index env (cl_ref c) < 0) cells) \<and>
   (\<forall>r. xlsx_record_from_row env shared cells rec = Some r \<longrightarrow>
       length r = fold (\<lambda>c n. max n (nat (xlsx_cell_index env (cl_ref c) + 1))) cells (length rec))"
  proof (induction cells arbitrary: rec)
    case (Cons cell cells)
    let ?i = "xlsx_cell_index env (cl_ref cell)"
    let ?rec = "(rec @ replicate (nat (?i + 1) - length rec) [])[nat ?i := xlsx_cell_value env shared cell]"
    have "length ?rec = max (length rec) (nat (?i + 1))" by simp
    note IH = Cons [of ?rec, unfolded this]
    have "xlsx_record_from_row env shared (cell # cells) rec =
        (if ?i < 0 then None else xlsx_record_from_row env shared cells ?rec)" by (simp add: Let_def)
    then show ?case
    proof (cases "?i < 0")
      case False
      then show ?thesis using IH \<open>xlsx_record_from_row env shared (cell # cells) rec = _\<close>
        by (simp only: if_False list_ex_Cons_iff fold_simps simp_thms) blast
    qed (simp add: Let_def)
  qed simp
  moreover have "xlsx_cell_index env ''ZZZZZZ1'' = 321272405" "xlsx_cell_index env ''DDDDDDDDDDDDDD1'' < 0"
    unfolding xlsx_cell_index_def wide_columns by (simp_all add: wide_columns)
  ultimately show ?thesis by blast
qed

section \<open>Applying a batch\<close>

text \<open>C28. Applying a batch to a well-formed ledger returns and leaves a well-formed ledger that requests to the
  service reach. Of the rows, taken in order, those that were done each became one entry, which says what the row
  says and is appended to the ledger, or were skipped; when it succeeds all rows were done, there is at least one
  entry, and the response lists exactly the entries and the skipped rows.\<close>

theorem import_commit_exact:
  assumes "ledger_ok s" and "lists_fit s"
  shows "\<exists>r t outcomes. commit_wacai_batch env a email book_id b mappings s = Some (r, t) \<and>
    ledger_ok t \<and> reachable (xe_parse_uuid env) (xe_rational env) s t \<and>
    length outcomes \<le> length (ib_rows b) \<and>
    list_all2 (row_outcome env book_id) (take (length outcomes) (ib_rows b)) outcomes \<and>
    ms_entries t = ms_entries s @ outcome_entries outcomes \<and>
    \<not> (\<exists>response. r = Inr response \<and> \<not> (length outcomes = length (ib_rows b) \<and>
      ir_entries response = outcome_entries outcomes \<and> ir_skipped_rows response = outcome_skipped outcomes \<and>
      ir_entries response \<noteq> [] \<and> ir_imported_count response = int (length (ir_entries response)) \<and>
      ir_skipped_count response = int (length (ir_skipped_rows response))))"
  using commit_batch_result [OF assms, of env a email book_id b mappings]
  unfolding commit_result_def from_store_def by metis

theorem import_commit_exact_witness:
  "\<exists>r t outcomes. commit_wacai_batch sample_commit_env sample_actor [] ''b'' (sample_batch [sample_row 2 ''5'']) [] sample_store = Some (r, t) \<and>
    outcome_entries outcomes = [sample_imported_entry] \<and> ms_entries t = ms_entries sample_store @ outcome_entries outcomes"
  using import_commit_exact [OF sample_ledger_ok sample_lists_fit, of sample_commit_env sample_actor "[]" "''b''"
      "sample_batch [sample_row 2 ''5'']" "[]"]
  by (auto simp: sample_commit sample_response_def)

text \<open>When the ledger refuses a batch that is being applied, the batch stays as it was, ready to be applied again,
  and the entries written for the rows before the refused one stay in the ledger.\<close>

theorem import_failure_keeps_entries:
  assumes "ledger_ok l" and "lists_fit l"
    and "apply_import env user_id email book_id batch_id request (i, l) = Some (Inl (ApplyLedger e), (j, k))"
  shows "j = i \<and> ledger_ok k \<and> (\<exists>es. ms_entries k = ms_entries l @ es)"
  using apply_failed [OF assms] .

theorem import_failure_keeps_entries_witness:
  "\<exists>e k. apply_import sample_commit_env ''m'' [] ''b'' ''i'' sample_commit_request
      (sample_imports [sample_row 2 ''5'', sample_row 3 ''-5''], sample_store) =
        Some (Inl (ApplyLedger e), (sample_imports [sample_row 2 ''5'', sample_row 3 ''-5''], k)) \<and>
    ledger_ok k \<and> ms_entries k = ms_entries sample_store @ [sample_imported_entry]"
proof -
  let ?i = "sample_imports [sample_row 2 ''5'', sample_row 3 ''-5'']"
  have run: "apply_import sample_commit_env ''m'' [] ''b'' ''i'' sample_commit_request (?i, sample_store) =
      Some (Inl (ApplyLedger (ErrInvalidInput ''import amount is invalid'')), (?i, sample_imported_store))"
    by (simp add: apply_import_def on_imports_def on_ledger_def sample_batch_loaded sample_commit_refused sample_checks
        lbind_def lift_act_def act_defs)
  then show ?thesis
    using import_failure_keeps_entries [OF sample_ledger_ok sample_lists_fit run]
    by (auto simp: sample_imported_store_def sample_store_def)
qed



end
