(* ===== verification/Auth_Durable.thy ===== *)
theory Auth_Durable
  imports Auth_Steps Durable
begin

text \<open>
  The durable store of package \<open>auth\<close> (\<open>auth/store_snapshot.go\<close>, \<open>auth/file_store.go\<close>): the store in memory
  behind a file that is rewritten after each write. \<open>saved\<close> is the answer of the sink to that write. The JSON
  text is abstract; a map of the snapshot is an association list with unique keys.
\<close>

section \<open>Snapshots\<close>

record totp_replay_snapshot =
  tr_user_id :: string
  tr_code_hash :: string
  tr_expires_at :: time

record auth_snapshot =
  sn_users :: "user_record list"
  sn_sessions :: "(string \<times> session) list"
  sn_email_codes :: "email_code_record list"
  sn_pending_totp :: "(string \<times> pending_totp_setup) list"
  sn_totp_replays :: "totp_replay_snapshot list"
  sn_failed_totps :: "(string \<times> int) list"
  sn_login_throttles :: "(string \<times> login_throttle) list"
  sn_failed_logins :: "(string \<times> int) list"
  sn_passkeys :: "passkey_credential list"
  sn_passkey_ceremonies :: "passkey_ceremony list"

definition no_auth_snapshot :: auth_snapshot where
  "no_auth_snapshot =
     \<lparr>sn_users = [], sn_sessions = [], sn_email_codes = [], sn_pending_totp = [], sn_totp_replays = [],
      sn_failed_totps = [], sn_login_throttles = [], sn_failed_logins = [], sn_passkeys = [], sn_passkey_ceremonies = []\<rparr>"

text \<open>The field \<open>FailedLogins\<close> is read for old files and never written.\<close>

definition auth_snapshot_of :: "auth_store \<Rightarrow> auth_snapshot" where
  "auth_snapshot_of s =
     \<lparr>sn_users = map (clone_user_record \<circ> snd) (users_by_id s), sn_sessions = sessions s,
      sn_email_codes = map snd (email_codes s), sn_pending_totp = pending_totp s,
      sn_totp_replays = map (\<lambda>((user_id, code_hash), expires_at).
        \<lparr>tr_user_id = user_id, tr_code_hash = code_hash, tr_expires_at = expires_at\<rparr>) (totp_replays s),
      sn_failed_totps = failed_totps s, sn_login_throttles = login_throttles s, sn_failed_logins = [],
      sn_passkeys = map snd (passkeys_by_id s), sn_passkey_ceremonies = map snd (passkey_ceremonies s)\<rparr>"

definition copy_table :: "('k \<times> 'v) list \<Rightarrow> ('k \<times> 'v) list" where
  "copy_table m = fold (\<lambda>x. AList.update (fst x) (snd x)) m []"

definition rebuild_throttles :: "(string \<times> login_throttle) list \<Rightarrow> (string \<times> int) list \<Rightarrow> (string \<times> login_throttle) list" where
  "rebuild_throttles throttles failed_logins =
     fold (\<lambda>(email, n) m. if map_of m email \<noteq> None then m
         else AList.update email \<lparr>lt_email = email, lt_failed_count = n, lt_locked_until = zero_time, lt_updated_at = zero_time\<rparr> m)
       failed_logins
       (fold (\<lambda>(email, t). AList.update email (if lt_email t = [] then t\<lparr>lt_email := email\<rparr> else t)) throttles [])"

definition auth_store_from_snapshot :: "auth_snapshot \<Rightarrow> auth_store" where
  "auth_store_from_snapshot sn =
     \<lparr>users_by_id = fold (\<lambda>u. AList.update (us_id u) (clone_user_record u)) (sn_users sn) [],
      user_ids_by_email = fold (\<lambda>u. AList.update (us_email u) (us_id u)) (sn_users sn) [],
      sessions = copy_table (sn_sessions sn),
      email_codes = fold (\<lambda>c. AList.update (ec_email c, ec_purpose c) c) (sn_email_codes sn) [],
      pending_totp = copy_table (sn_pending_totp sn),
      totp_replays = fold (\<lambda>r. AList.update (tr_user_id r, tr_code_hash r) (tr_expires_at r)) (sn_totp_replays sn) [],
      failed_totps = copy_table (sn_failed_totps sn),
      login_throttles = rebuild_throttles (sn_login_throttles sn) (sn_failed_logins sn),
      passkeys_by_id = fold (\<lambda>p. AList.update (pk_id p) p) (sn_passkeys sn) [],
      passkey_ids_by_credential_id = fold (\<lambda>p. AList.update (pk_credential_id p) (pk_id p)) (sn_passkeys sn) [],
      passkey_ceremonies = fold (\<lambda>c. AList.update (pc_id c) c) (sn_passkey_ceremonies sn) []\<rparr>"

text \<open>\<open>sink.Load(&snapshot)\<close> leaves the zero value when nothing is stored.\<close>

definition load_auth :: "auth_snapshot \<Rightarrow> auth_snapshot option \<Rightarrow> auth_snapshot" where
  "load_auth fallback file = (case file of None \<Rightarrow> fallback | Some saved \<Rightarrow> saved)"

type_synonym auth_durable = "(auth_store, auth_snapshot) durable"

definition auth_snapshot_store :: "auth_snapshot option \<Rightarrow> auth_durable" where
  "auth_snapshot_store = open_durable load_auth auth_store_from_snapshot no_auth_snapshot"

section \<open>Reading\<close>

definition ad_user_by_email :: "string \<Rightarrow> auth_durable \<Rightarrow> auth_error + user_record" where
  "ad_user_by_email email = durable_read (user_by_email email)"

definition ad_user_by_id :: "string \<Rightarrow> auth_durable \<Rightarrow> auth_error + user_record" where
  "ad_user_by_id user_id = durable_read (user_by_id user_id)"

definition ad_session_by_token_hash :: "string \<Rightarrow> auth_durable \<Rightarrow> auth_error + session" where
  "ad_session_by_token_hash token_hash = durable_read (session_by_token_hash token_hash)"

definition ad_email_code :: "string \<Rightarrow> email_code_purpose \<Rightarrow> auth_durable \<Rightarrow> auth_error + email_code_record" where
  "ad_email_code email purpose = durable_read (email_code email purpose)"

definition ad_find_pending_totp_setup :: "string \<Rightarrow> auth_durable \<Rightarrow> auth_error + pending_totp_setup" where
  "ad_find_pending_totp_setup session_id = durable_read (find_pending_totp_setup session_id)"

definition ad_failed_totp_count :: "string \<Rightarrow> auth_durable \<Rightarrow> int" where
  "ad_failed_totp_count user_id = durable_read (failed_totp_count user_id)"

definition ad_login_throttle_of :: "string \<Rightarrow> auth_durable \<Rightarrow> login_throttle" where
  "ad_login_throttle_of email = durable_read (login_throttle_of email)"

definition ad_passkey_by_id :: "string \<Rightarrow> string \<Rightarrow> auth_durable \<Rightarrow> auth_error + passkey_credential" where
  "ad_passkey_by_id user_id passkey_id = durable_read (passkey_by_id user_id passkey_id)"

definition ad_passkey_by_credential_id :: "string \<Rightarrow> auth_durable \<Rightarrow> auth_error + passkey_credential" where
  "ad_passkey_by_credential_id credential_id = durable_read (passkey_by_credential_id credential_id)"

definition ad_store_list_passkeys :: "string \<Rightarrow> auth_durable \<Rightarrow> passkey_credential list" where
  "ad_store_list_passkeys user_id = durable_read (store_list_passkeys user_id)"

definition ad_find_passkey_ceremony :: "string \<Rightarrow> auth_durable \<Rightarrow> auth_error + passkey_ceremony" where
  "ad_find_passkey_ceremony ceremony_id = durable_read (find_passkey_ceremony ceremony_id)"

text \<open>A marker that has run out is dropped from memory, and nothing is saved.\<close>

definition ad_totp_replay_exists :: "string \<Rightarrow> string \<Rightarrow> time \<Rightarrow> (auth_durable, auth_error, bool) act" where
  "ad_totp_replay_exists user_id code_hash now s =
     (case totp_replay_exists user_id code_hash now (du_memory s) of (r, m) \<Rightarrow> (r, s\<lparr>du_memory := m\<rparr>))"

section \<open>Writing\<close>

definition ad_create_user :: "auth_error option \<Rightarrow> user_record \<Rightarrow> (auth_durable, auth_error, user_record) act" where
  "ad_create_user saved u = durable_write auth_snapshot_of saved (create_user u)"

definition ad_update_user :: "auth_error option \<Rightarrow> user_record \<Rightarrow> (auth_durable, auth_error, user_record) act" where
  "ad_update_user saved u = durable_write auth_snapshot_of saved (update_user u)"

definition ad_store_session :: "auth_error option \<Rightarrow> string \<Rightarrow> session \<Rightarrow> (auth_durable, auth_error, unit) act" where
  "ad_store_session saved token_hash se = durable_write auth_snapshot_of saved (store_session token_hash se)"

definition ad_delete_session :: "auth_error option \<Rightarrow> string \<Rightarrow> (auth_durable, auth_error, unit) act" where
  "ad_delete_session saved token_hash = durable_write auth_snapshot_of saved (delete_session token_hash)"

definition ad_delete_sessions_by_user :: "auth_error option \<Rightarrow> string \<Rightarrow> (auth_durable, auth_error, unit) act" where
  "ad_delete_sessions_by_user saved user_id = durable_write auth_snapshot_of saved (delete_sessions_by_user user_id)"

definition ad_migrate_secrets :: "auth_error option \<Rightarrow> secret_transform \<Rightarrow> (auth_durable, auth_error, unit) act" where
  "ad_migrate_secrets saved f = durable_write auth_snapshot_of saved (migrate_secrets f)"

definition ad_store_email_code :: "auth_error option \<Rightarrow> email_code_record \<Rightarrow> (auth_durable, auth_error, unit) act" where
  "ad_store_email_code saved code = durable_write auth_snapshot_of saved (store_email_code code)"

definition ad_delete_email_code :: "auth_error option \<Rightarrow> string \<Rightarrow> email_code_purpose \<Rightarrow> (auth_durable, auth_error, unit) act" where
  "ad_delete_email_code saved email purpose = durable_write auth_snapshot_of saved (delete_email_code email purpose)"

definition ad_store_pending_totp_setup :: "auth_error option \<Rightarrow> string \<Rightarrow> pending_totp_setup \<Rightarrow> (auth_durable, auth_error, unit) act" where
  "ad_store_pending_totp_setup saved session_id setup = durable_write auth_snapshot_of saved (store_pending_totp_setup session_id setup)"

definition ad_delete_pending_totp_setup :: "auth_error option \<Rightarrow> string \<Rightarrow> (auth_durable, auth_error, unit) act" where
  "ad_delete_pending_totp_setup saved session_id = durable_write auth_snapshot_of saved (delete_pending_totp_setup session_id)"

definition ad_store_totp_replay :: "auth_error option \<Rightarrow> string \<Rightarrow> string \<Rightarrow> time \<Rightarrow> (auth_durable, auth_error, unit) act" where
  "ad_store_totp_replay saved user_id code_hash expires_at = durable_write auth_snapshot_of saved (store_totp_replay user_id code_hash expires_at)"

definition ad_increment_failed_totp :: "auth_error option \<Rightarrow> string \<Rightarrow> (auth_durable, auth_error, int) act" where
  "ad_increment_failed_totp saved user_id = durable_write auth_snapshot_of saved (increment_failed_totp user_id)"

definition ad_reset_failed_totp :: "auth_error option \<Rightarrow> string \<Rightarrow> (auth_durable, auth_error, unit) act" where
  "ad_reset_failed_totp saved user_id = durable_write auth_snapshot_of saved (reset_failed_totp user_id)"

definition ad_store_login_throttle :: "auth_error option \<Rightarrow> login_throttle \<Rightarrow> (auth_durable, auth_error, unit) act" where
  "ad_store_login_throttle saved t = durable_write auth_snapshot_of saved (store_login_throttle t)"

definition ad_reset_login_throttle :: "auth_error option \<Rightarrow> string \<Rightarrow> (auth_durable, auth_error, unit) act" where
  "ad_reset_login_throttle saved email = durable_write auth_snapshot_of saved (reset_login_throttle email)"

definition ad_create_passkey :: "auth_error option \<Rightarrow> passkey_credential \<Rightarrow> (auth_durable, auth_error, passkey_credential) act" where
  "ad_create_passkey saved p = durable_write auth_snapshot_of saved (create_passkey p)"

definition ad_store_update_passkey :: "auth_error option \<Rightarrow> passkey_credential \<Rightarrow> (auth_durable, auth_error, passkey_credential) act" where
  "ad_store_update_passkey saved p = durable_write auth_snapshot_of saved (store_update_passkey p)"

definition ad_store_delete_passkey :: "auth_error option \<Rightarrow> string \<Rightarrow> string \<Rightarrow> (auth_durable, auth_error, unit) act" where
  "ad_store_delete_passkey saved user_id passkey_id = durable_write auth_snapshot_of saved (store_delete_passkey user_id passkey_id)"

definition ad_store_passkey_ceremony :: "auth_error option \<Rightarrow> passkey_ceremony \<Rightarrow> (auth_durable, auth_error, unit) act" where
  "ad_store_passkey_ceremony saved c = durable_write auth_snapshot_of saved (store_passkey_ceremony c)"

definition ad_delete_passkey_ceremony :: "auth_error option \<Rightarrow> string \<Rightarrow> (auth_durable, auth_error, unit) act" where
  "ad_delete_passkey_ceremony saved ceremony_id = durable_write auth_snapshot_of saved (delete_passkey_ceremony ceremony_id)"

section \<open>Tables that a snapshot can hold\<close>

text \<open>What the invariant of the service leaves open of the tables without an index.\<close>

definition tables_ok :: "auth_store \<Rightarrow> bool" where
  "tables_ok s \<longleftrightarrow> distinct (map fst (pending_totp s)) \<and> distinct (map fst (totp_replays s)) \<and>
     distinct (map fst (failed_totps s)) \<and> keys_ok pc_id (passkey_ceremonies s)"

lemma new_tables_ok: "tables_ok new_auth_store"
  by (simp add: tables_ok_def new_auth_store_def)

lemma table_calls_kept:
  "keeps tables_ok (create_user u)" "keeps tables_ok (update_user u)"
  "keeps tables_ok (store_session h se)" "keeps tables_ok (delete_session h)" "keeps tables_ok (delete_sessions_by_user i)"
  "keeps tables_ok (store_email_code c)" "keeps tables_ok (delete_email_code e p)"
  "keeps tables_ok (store_pending_totp_setup h p')" "keeps tables_ok (delete_pending_totp_setup h)"
  "keeps tables_ok (store_totp_replay i h e')" "keeps tables_ok (totp_replay_exists i h e')"
  "keeps tables_ok (increment_failed_totp i)" "keeps tables_ok (reset_failed_totp i)"
  "keeps tables_ok (store_login_throttle t)" "keeps tables_ok (reset_login_throttle e)"
  "keeps tables_ok (create_passkey k)" "keeps tables_ok (store_update_passkey k)" "keeps tables_ok (store_delete_passkey i j)"
  "keeps tables_ok (store_passkey_ceremony y)" "keeps tables_ok (delete_passkey_ceremony h)"
  by (rule keepsI; auto simp: tables_ok_def create_user_def update_user_def store_session_def delete_session_def
      delete_sessions_by_user_def store_email_code_def delete_email_code_def store_pending_totp_setup_def
      delete_pending_totp_setup_def store_totp_replay_def totp_replay_exists_def increment_failed_totp_def
      reset_failed_totp_def store_login_throttle_def reset_login_throttle_def create_passkey_def store_update_passkey_def
      store_delete_passkey_def store_passkey_ceremony_def delete_passkey_ceremony_def Let_def
      distinct_update distinct_delete keys_ok_update keys_ok_delete split: if_splits option.splits)+

lemma table_secrets_kept: "keeps tables_ok (migrate_secrets f)"
proof -
  have kept: "migrate_setups f m = (e, m') \<Longrightarrow> map fst m' = map fst m" for m m' e
    by (induction m arbitrary: e m') (auto split: sum.splits prod.splits if_splits)
  show ?thesis
    by (intro keepsI) (auto simp: tables_ok_def migrate_secrets_def kept split: prod.splits option.splits)
qed

lemma table_verify_kept: "keeps tables_ok (verify_totp_code env cfg now rec code)"
  unfolding verify_totp_code_def Let_def by (intro keeps_rules table_calls_kept)

lemma table_confirm_kept: "keeps tables_ok (confirm_totp env cfg fr now actor se code)"
  unfolding confirm_totp_def by (intro keeps_rules table_calls_kept)

interpretation durable_tables: auth_frame tables_ok env cfg now for env cfg now
  by (unfold_locales; intro table_calls_kept table_secrets_kept table_verify_kept table_confirm_kept)

lemma reachable_tables_ok: "auth_reachable env wa cfg s \<Longrightarrow> tables_ok s"
proof -
  have "auth_path env wa cfg until s t \<Longrightarrow> tables_ok s \<Longrightarrow> tables_ok t" for until s t
    by (induction rule: auth_path.induct) (auto dest: durable_tables.step_frame)
  then show "auth_reachable env wa cfg s \<Longrightarrow> tables_ok s" using new_tables_ok by (auto simp: auth_reachable_def)
qed

section \<open>The contract\<close>

text \<open>Stores that answer alike: the same rows under the same keys.\<close>

definition same_auth :: "auth_store \<Rightarrow> auth_store \<Rightarrow> bool" where
  "same_auth s t \<longleftrightarrow> map_of (users_by_id s) = map_of (users_by_id t) \<and>
     map_of (user_ids_by_email s) = map_of (user_ids_by_email t) \<and> map_of (sessions s) = map_of (sessions t) \<and>
     map_of (email_codes s) = map_of (email_codes t) \<and> map_of (pending_totp s) = map_of (pending_totp t) \<and>
     map_of (totp_replays s) = map_of (totp_replays t) \<and> map_of (failed_totps s) = map_of (failed_totps t) \<and>
     map_of (login_throttles s) = map_of (login_throttles t) \<and> map_of (passkeys_by_id s) = map_of (passkeys_by_id t) \<and>
     map_of (passkey_ids_by_credential_id s) = map_of (passkey_ids_by_credential_id t) \<and>
     map_of (passkey_ceremonies s) = map_of (passkey_ceremonies t)"

lemma rebuilt_throttles: "keys_ok lt_email m \<Longrightarrow> map_of (rebuild_throttles m []) = map_of m"
proof -
  assume ok: "keys_ok lt_email m"
  have same: "(if lt_email t = [] then t\<lparr>lt_email := email\<rparr> else t) = t" if "(email, t) \<in> set m" for email t
    using ok that by (cases t) (auto simp: keys_ok_def list_all_iff)
  have "fold (\<lambda>(email, t). AList.update email (if lt_email t = [] then t\<lparr>lt_email := email\<rparr> else t)) m acc =
      fold (\<lambda>x. AList.update (fst x) (snd x)) m acc" for acc
  proof (rule fold_cong)
    fix x assume x: "x \<in> set m"
    obtain email t where "x = (email, t)" by fastforce
    then show "(case x of (email, t) \<Rightarrow> AList.update email (if lt_email t = [] then t\<lparr>lt_email := email\<rparr> else t)) =
        AList.update (fst x) (snd x)" using x same [of email t] by (simp only: prod.case fst_conv snd_conv)
  qed simp_all
  then show ?thesis using ok copied_table [of m] by (simp add: rebuild_throttles_def keys_ok_def)
qed

lemma rebuilt_replays:
  assumes "distinct (map fst m)"
  shows "map_of (fold (\<lambda>r. AList.update (tr_user_id r, tr_code_hash r) (tr_expires_at r))
    (map (\<lambda>((user_id, code_hash), expires_at).
      \<lparr>tr_user_id = user_id, tr_code_hash = code_hash, tr_expires_at = expires_at\<rparr>) m) []) = map_of m"
proof -
  have "fold (\<lambda>r. AList.update (tr_user_id r, tr_code_hash r) (tr_expires_at r))
    (map (\<lambda>((user_id, code_hash), expires_at).
      \<lparr>tr_user_id = user_id, tr_code_hash = code_hash, tr_expires_at = expires_at\<rparr>) m) acc =
    fold (\<lambda>x. AList.update (fst x) (snd x)) m acc" for acc
    by (induction m arbitrary: acc) auto
  then show ?thesis using copied_table [OF assms] by simp
qed

lemma cloned_rows: "users_ok users ids \<Longrightarrow> map (clone_user_record \<circ> snd) users = map snd users"
  by (auto simp: users_ok_def clone_user_record_def keys_ok_def dest!: bspec intro!: map_cong)

lemma rebuilt_auth:
  assumes ok: "auth_ok s" and tables: "tables_ok s"
  shows "same_auth (auth_store_from_snapshot (auth_snapshot_of s)) s"
proof -
  have users: "users_ok (users_by_id s) (user_ids_by_email s)"
    and passkeys: "passkeys_ok (users_by_id s) (passkeys_by_id s) (passkey_ids_by_credential_id s)"
    and sess: "distinct (map fst (sessions s))" and codes: "keys_ok (\<lambda>c. (ec_email c, ec_purpose c)) (email_codes s)"
    and throttles: "keys_ok lt_email (login_throttles s)"
    using ok by (simp_all add: auth_ok_def sessions_ok_def codes_ok_def)
  have rows: "keys_ok us_id (users_by_id s)" "keys_ok pk_id (passkeys_by_id s)"
    using users passkeys by (simp_all add: users_ok_def passkeys_ok_def)
  have clones: "fold (\<lambda>u. AList.update (us_id u) (clone_user_record u)) (map snd (users_by_id s)) acc =
      fold (\<lambda>u. AList.update (us_id u) u) (map snd (users_by_id s)) acc" for acc
    using cloned_rows [OF users] by (intro fold_cong) (auto simp: map_eq_conv)
  have "map_of (fold (\<lambda>u. AList.update (us_email u) (us_id u)) (map snd (users_by_id s)) []) = map_of (user_ids_by_email s)"
    by (rule rebuilt_index [OF rows(1)]) (use users in \<open>simp add: users_ok_def\<close>)
  moreover have "map_of (fold (\<lambda>p. AList.update (pk_credential_id p) (pk_id p)) (map snd (passkeys_by_id s)) []) =
      map_of (passkey_ids_by_credential_id s)"
    by (rule rebuilt_index [OF rows(2)]) (use passkeys in \<open>simp add: passkeys_ok_def\<close>)
  ultimately show ?thesis
    using rebuilt_rows [OF rows(1)] rebuilt_rows [OF rows(2)] rebuilt_rows [OF codes] rebuilt_throttles [OF throttles]
      tables copied_table [OF sess]
    by (simp add: same_auth_def auth_store_from_snapshot_def auth_snapshot_of_def cloned_rows [OF users] clones
        copy_table_def copied_table tables_ok_def rebuilt_replays rebuilt_rows)
qed

interpretation auth_file: snapshot_store auth_snapshot_of load_auth auth_store_from_snapshot no_auth_snapshot same_auth
  "\<lambda>s. auth_ok s \<and> tables_ok s"
  by unfold_locales (simp_all add: load_auth_def rebuilt_auth)

end
