(* ===== verification/Restart_Properties.thy ===== *)
theory Restart_Properties
  imports Auth_Properties Auth_Durable
begin

text \<open>
  The property of the durable authentication store: what a restart brings back.
\<close>

text \<open>C27. The revocation of all sessions of a user, saved, holds after a restart, and the reopened store answers
  every query like the one before; every other session is still there. When saving fails the call reports it and
  memory has dropped the sessions, but a restart brings back the store of the last save with all of them.\<close>

theorem revocation_survives_restart:
  assumes ok: "auth_ok (du_memory s)" and tables: "tables_ok (du_memory s)"
    and saved: "du_file s = Some (auth_snapshot_of (du_memory s))"
    and run: "ad_delete_sessions_by_user answer user_id s = (r, t)"
  shows "\<not> (\<exists>h se. session_by_token_hash h (du_memory t) = Inr se \<and> se_user_id se = user_id) \<and>
    (case answer of
       None \<Rightarrow> r = Inr () \<and> same_auth (du_memory (auth_snapshot_store (du_file t))) (du_memory t) \<and>
         (\<forall>h. session_by_token_hash h (du_memory (auth_snapshot_store (du_file t))) =
           (case session_by_token_hash h (du_memory s) of
              Inl e \<Rightarrow> Inl e | Inr se \<Rightarrow> if se_user_id se = user_id then Inl (AuthFailed ''session not found'') else Inr se))
     | Some e \<Rightarrow> r = Inl e \<and> same_auth (du_memory (auth_snapshot_store (du_file t))) (du_memory s))"
proof -
  let ?m = "du_memory s" and ?n = "snd (delete_sessions_by_user user_id (du_memory s))"
  have memory: "du_memory t = ?n"
    using run by (auto simp: ad_delete_sessions_by_user_def durable_write_def delete_sessions_by_user_def split: option.splits)
  have distinct: "distinct (map fst (sessions ?m))" using ok by (simp add: auth_ok_def sessions_ok_def)
  have rows: "map_of (sessions ?n) h = (case map_of (sessions ?m) h of None \<Rightarrow> None
      | Some se \<Rightarrow> if se_user_id se = user_id then None else Some se)" for h
  proof -
    have iff: "map_of (sessions ?n) h = Some se \<longleftrightarrow> map_of (sessions ?m) h = Some se \<and> se_user_id se \<noteq> user_id" for se
      using map_of_filter_snd [OF distinct, of "\<lambda>se. se_user_id se \<noteq> user_id"] by (simp add: delete_sessions_by_user_def)
    show ?thesis by (cases "map_of (sessions ?m) h"; cases "map_of (sessions ?n) h") (use iff in auto)
  qed
  have "auth_ok ?n \<and> tables_ok ?n"
    using keeps_snd [OF keeps_sessions(2) [of "\<lambda>_. True", unfolded auth_inv_True] ok] keeps_snd [OF table_calls_kept(5) tables] by blast
  then have good: "auth_ok (du_memory t) \<and> tables_ok (du_memory t)" by (simp add: memory)
  have gone: "\<not> (\<exists>h se. session_by_token_hash h (du_memory t) = Inr se \<and> se_user_id se = user_id)"
    by (auto simp: session_by_token_hash_def memory rows split: option.splits if_splits)
  show ?thesis
  proof (cases answer)
    case None
    then have r: "r = Inr ()"
      using run by (auto simp: ad_delete_sessions_by_user_def durable_write_def delete_sessions_by_user_def)
    have again: "same_auth (du_memory (auth_snapshot_store (du_file t))) (du_memory t)"
      using auth_file.acknowledged_write_survives [OF run [unfolded ad_delete_sessions_by_user_def r] good]
      by (simp add: auth_snapshot_store_def)
    then have "session_by_token_hash h (du_memory (auth_snapshot_store (du_file t))) = session_by_token_hash h ?n" for h
      by (simp add: session_by_token_hash_def same_auth_def memory)
    then show ?thesis
      using None r gone again by (auto simp: session_by_token_hash_def rows split: option.splits)
  next
    case (Some e)
    then have "r = Inl e" "du_file t = du_file s"
      using run by (auto simp: ad_delete_sessions_by_user_def durable_write_def delete_sessions_by_user_def)
    moreover have "same_auth (du_memory (auth_snapshot_store (du_file s))) ?m"
      using rebuilt_auth [OF ok tables] saved by (simp add: auth_snapshot_store_def open_durable_def load_auth_def)
    ultimately show ?thesis using Some gone by simp
  qed
qed

lemma sample_session_user: "\<exists>u. map_of (users_by_id sample_totp_store) ''u1'' = Some u \<and> us_status u = UserStatusActive \<and> us_email u = ''a@b.c''"
  by (simp add: sample_totp_store_def sample_auth_store_def sample_user_def)

theorem revocation_survives_restart_witness:
  "\<exists>t. ad_delete_sessions_by_user None ''u1''
      \<lparr>du_memory = sample_logged_in, du_file = Some (auth_snapshot_of sample_logged_in)\<rparr> = (Inr (), t) \<and>
    session_by_token_hash (hash_session_token sample_env sample_token) sample_logged_in = Inr sample_session \<and>
    session_by_token_hash (hash_session_token sample_env sample_token) (du_memory (auth_snapshot_store (du_file t))) =
      Inl (AuthFailed ''session not found'')"
proof -
  let ?s = "\<lparr>du_memory = sample_logged_in, du_file = Some (auth_snapshot_of sample_logged_in)\<rparr> :: auth_durable"
  let ?h = "hash_session_token sample_env sample_token"
  have ok: "auth_ok (du_memory ?s)" 
    using sample_totp_store_ok sample_session_user
    by (auto simp: auth_ok_def sessions_ok_def sample_logged_in_def sample_session_def)
  have tables: "tables_ok (du_memory ?s)" by (simp add: tables_ok_def sample_logged_in_def sample_totp_store_def sample_auth_store_def new_auth_store_def)
  have before: "session_by_token_hash ?h sample_logged_in = Inr sample_session"
    by (simp add: session_by_token_hash_def sample_logged_in_def)
  have user: "se_user_id sample_session = ''u1''" by (simp add: sample_session_def)
  obtain t where run: "ad_delete_sessions_by_user None ''u1'' ?s = (Inr (), t)"
    by (auto simp: ad_delete_sessions_by_user_def durable_write_def delete_sessions_by_user_def)
  show ?thesis
    using revocation_survives_restart [OF ok tables _ run] run before user by auto
qed

end
