(* ===== verification/Auth_SSO.thy ===== *)
theory Auth_SSO
  imports Auth_Service
begin

text \<open>
  The validator of tokens of the external sign-on (\<open>auth/sso.go\<close>): where its public key comes from, how long
  it is kept, and what a token must say.

  The libraries are the record \<open>sso_env\<close>: the PEM and PKIX decoders, and the JWT parser, a function of its
  options, the key function, the clock and the token. \<open>fetch\<close> is what the network answered to the request for
  metadata; its JSON is decoded by the library.
\<close>

section \<open>Data\<close>

datatype sso_public_key = Ed25519Key string | OtherKey

record sso_claims =
  jc_id :: string
  jc_subject :: string
  jc_expires_at :: "time option"
  jc_username :: string
  jc_display_name :: string
  jc_uid :: string

record jwt_header =
  jh_algorithm :: string
  jh_type :: "string option"

text \<open>\<open>WithExpirationRequired\<close>, \<open>WithIssuedAt\<close>, \<open>WithIssuer\<close>, \<open>WithLeeway\<close>.\<close>

record jwt_options =
  jo_expiration_required :: bool
  jo_issued_at :: bool
  jo_issuer :: string
  jo_leeway :: int

type_synonym jwt_key_function = "jwt_header \<Rightarrow> auth_error + string"

record sso_env =
  xs_fold :: "string \<Rightarrow> string \<Rightarrow> bool"
  xs_pem_decode :: "string \<Rightarrow> string option"
  xs_parse_pkix :: "string \<Rightarrow> sso_public_key option"
  xs_parse_claims :: "jwt_options \<Rightarrow> time \<Rightarrow> jwt_key_function \<Rightarrow> string \<Rightarrow> auth_error + sso_claims \<times> bool"

record sso_metadata =
  md_algorithm :: string
  md_type :: string
  md_issuer :: string
  md_public_key_pem :: string

definition zero_metadata :: sso_metadata where
  "zero_metadata = \<lparr>md_algorithm = [], md_type = [], md_issuer = [], md_public_key_pem = []\<rparr>"

record sso_validator_config =
  vc_cache_ttl :: int
  vc_metadata_url :: string
  vc_public_key_pem :: string

record sso_validator =
  sv_cache_ttl :: int
  sv_metadata_url :: string
  sv_static_metadata :: bool
  sv_metadata :: sso_metadata
  sv_loaded_at :: time

text \<open>The answers of the calls of one request for metadata: making it, sending it (the status), decoding the
  body, closing the body.\<close>

record metadata_answer =
  ma_create :: "auth_error option"
  ma_send :: "auth_error + int"
  ma_decode :: "auth_error + sso_metadata"
  ma_close :: "auth_error option"

section \<open>The public key\<close>

text \<open>\<open>strings.ReplaceAll\<close> of a backslash followed by the letter n by a line feed.\<close>

fun unescape_newlines :: "string \<Rightarrow> string" where
  "unescape_newlines (a # b # s) =
     (if a = CHR 0x5C \<and> b = CHR ''n'' then CHR 0x0A # unescape_newlines s else a # unescape_newlines (b # s))"
| "unescape_newlines s = s"

definition parse_external_sso_public_key :: "sso_env \<Rightarrow> string \<Rightarrow> auth_error + string" where
  "parse_external_sso_public_key env public_key_pem =
     (case xs_pem_decode env (unescape_newlines (trim_space public_key_pem)) of
        None \<Rightarrow> Inl (AuthFailed ''external sso public key pem is invalid'')
      | Some block \<Rightarrow>
          (case xs_parse_pkix env block of
             None \<Rightarrow> Inl (AuthFailed ''parse external sso public key'')
           | Some OtherKey \<Rightarrow> Inl (AuthFailed ''external sso public key is not ed25519'')
           | Some (Ed25519Key key) \<Rightarrow> Inr key))"

definition ed_dsa :: string where "ed_dsa = ''EdDSA''"

definition validate_external_sso_metadata :: "sso_env \<Rightarrow> sso_metadata \<Rightarrow> auth_error + unit" where
  "validate_external_sso_metadata env metadata =
     rbind (rguard (md_algorithm metadata = ed_dsa) (AuthFailed ''external sso metadata algorithm is unsupported'')) (\<lambda>_.
     rbind (rguard (trim_space (md_issuer metadata) \<noteq> []) (AuthFailed ''external sso metadata issuer is required'')) (\<lambda>_.
     rbind (rguard (trim_space (md_public_key_pem metadata) \<noteq> []) (AuthFailed ''external sso metadata public key is required'')) (\<lambda>_.
     rbind (parse_external_sso_public_key env (md_public_key_pem metadata)) (\<lambda>_. Inr ()))))"

section \<open>The validator\<close>

definition static_external_sso_metadata :: "sso_env \<Rightarrow> string \<Rightarrow> auth_error + sso_metadata \<times> bool" where
  "static_external_sso_metadata env public_key_pem =
     (let public_key_pem = trim_space public_key_pem in
      if public_key_pem = [] then Inr (zero_metadata, False)
      else (let metadata = \<lparr>md_algorithm = ed_dsa, md_type = ''JWT'', md_issuer = ''laisky-sso'',
                            md_public_key_pem = public_key_pem\<rparr>
            in rbind (validate_external_sso_metadata env metadata) (\<lambda>_. Inr (metadata, True))))"

definition new_jwt_external_sso_validator :: "sso_env \<Rightarrow> sso_validator_config \<Rightarrow> auth_error + sso_validator" where
  "new_jwt_external_sso_validator env cfg =
     (let metadata_url = trim_space (vc_metadata_url cfg);
          cache_ttl = (if vc_cache_ttl cfg \<le> 0 then hour else vc_cache_ttl cfg)
      in rbind (static_external_sso_metadata env (vc_public_key_pem cfg)) (\<lambda>(metadata, static_metadata).
         if \<not> static_metadata \<and> metadata_url = []
         then Inl (AuthFailed ''external sso public key pem or metadata url is required'')
         else Inr \<lparr>sv_cache_ttl = cache_ttl, sv_metadata_url = metadata_url, sv_static_metadata = static_metadata,
                   sv_metadata = metadata, sv_loaded_at = zero_time\<rparr>))"

definition fetch_metadata :: "sso_env \<Rightarrow> metadata_answer \<Rightarrow> auth_error + sso_metadata" where
  "fetch_metadata env fetch =
     (case ma_create fetch of Some e \<Rightarrow> Inl e | None \<Rightarrow>
      rbind (ma_send fetch) (\<lambda>status.
      if status \<noteq> 200
      then (case ma_close fetch of Some e \<Rightarrow> Inl e
            | None \<Rightarrow> Inl (AuthFailed ''external sso metadata returned status''))
      else (case ma_decode fetch of
          Inl e \<Rightarrow> (case ma_close fetch of Some close_err \<Rightarrow> Inl close_err | None \<Rightarrow> Inl e)
        | Inr metadata \<Rightarrow>
            (case ma_close fetch of Some e \<Rightarrow> Inl e
             | None \<Rightarrow> rbind (validate_external_sso_metadata env metadata) (\<lambda>_. Inr metadata)))))"

text \<open>The cached metadata, while they are fresh. The difference of two instants is a \<open>Duration\<close>, which saturates.\<close>

definition time_sub :: "time \<Rightarrow> time \<Rightarrow> int" where
  "time_sub a b = max (- (2 ^ 63)) (min (2 ^ 63 - 1) (a - b))"

definition cached_metadata :: "time \<Rightarrow> sso_validator \<Rightarrow> sso_metadata option" where
  "cached_metadata now v =
     (if md_public_key_pem (sv_metadata v) \<noteq> [] \<and> time_sub now (sv_loaded_at v) < sv_cache_ttl v
      then Some (sv_metadata v) else None)"

text \<open>The second look at the cache, now with the lock for writing held, and the request.\<close>

definition refill_metadata ::
    "sso_env \<Rightarrow> time \<Rightarrow> metadata_answer \<Rightarrow> (sso_validator, auth_error, sso_metadata) act" where
  "refill_metadata env now fetch v =
     (case cached_metadata now v of
        Some metadata \<Rightarrow> (Inr metadata, v)
      | None \<Rightarrow>
          (case fetch_metadata env fetch of
             Inl e \<Rightarrow> (Inl e, v)
           | Inr metadata \<Rightarrow> (Inr metadata, v\<lparr>sv_metadata := metadata, sv_loaded_at := now\<rparr>)))"

definition current_metadata ::
    "sso_env \<Rightarrow> time \<Rightarrow> metadata_answer \<Rightarrow> (sso_validator, auth_error, sso_metadata) act" where
  "current_metadata env now fetch v =
     (if sv_static_metadata v then (Inr (sv_metadata v), v)
      else (case cached_metadata now v of
          Some metadata \<Rightarrow> (Inr metadata, v)
        | None \<Rightarrow> refill_metadata env now fetch v))"

text \<open>The key function that the parser calls with the header of the token.\<close>

definition sso_key_function :: "sso_env \<Rightarrow> sso_metadata \<Rightarrow> string \<Rightarrow> jwt_key_function" where
  "sso_key_function env metadata public_key header =
     (if jh_algorithm header \<noteq> md_algorithm metadata then Inl (AuthFailed ''external sso token algorithm is unsupported'')
      else if md_type metadata \<noteq> [] \<and>
        (case jh_type header of None \<Rightarrow> True | Some token_type \<Rightarrow> \<not> equal_fold (xs_fold env) token_type (md_type metadata))
      then Inl (AuthFailed ''external sso token type is unsupported'')
      else Inr public_key)"

definition identity_from_external_sso_claims :: "sso_claims \<Rightarrow> auth_error + external_sso_identity" where
  "identity_from_external_sso_claims claims =
     (if jc_expires_at claims = None then Inl (AuthFailed ''external sso token is missing exp'')
      else if trim_space (jc_id claims) = [] then Inl (AuthFailed ''external sso token is missing jti'')
      else (let subject = trim_space (jc_subject claims); uid = trim_space (jc_uid claims);
                username = trim_space (jc_username claims)
            in if subject = [] \<or> uid = [] then Inl (AuthFailed ''external sso token identity is incomplete'')
               else if subject \<noteq> uid then Inl (AuthFailed ''external sso token sub and uid disagree'')
               else if username = [] then Inl (AuthFailed ''external sso token username is required'')
               else Inr \<lparr>si_subject = subject, si_username = username,
                         si_display_name = trim_space (jc_display_name claims)\<rparr>))"

definition sso_options :: "sso_metadata \<Rightarrow> jwt_options" where
  "sso_options metadata =
     \<lparr>jo_expiration_required = True, jo_issued_at = True, jo_issuer = md_issuer metadata, jo_leeway = minute\<rparr>"

definition validate_external_sso_token ::
    "sso_env \<Rightarrow> time \<Rightarrow> metadata_answer \<Rightarrow> string \<Rightarrow> (sso_validator, auth_error, external_sso_identity) act" where
  "validate_external_sso_token env now fetch token =
     (let token = trim_space token in
      abind (aguard (token \<noteq> []) (AuthFailed ''external sso token is required'')) (\<lambda>_.
      abind (current_metadata env now fetch) (\<lambda>metadata.
      abind (aread (\<lambda>_. parse_external_sso_public_key env (md_public_key_pem metadata))) (\<lambda>public_key.
      abind (aread (\<lambda>_. xs_parse_claims env (sso_options metadata) now (sso_key_function env metadata public_key) token))
        (\<lambda>(claims, valid).
      abind (aguard valid (AuthFailed ''external sso token is invalid'')) (\<lambda>_.
      aread (\<lambda>_. identity_from_external_sso_claims claims)))))))"

section \<open>What the validator relies on\<close>

text \<open>
  The contract of the JWT parser, as its documentation has it, over a relation \<open>signed key header claims token\<close>,
  the token carries the header and the claims and its signature verifies under the key: a token is valid only
  if the key function gave a key for its header under which it is signed, its issuer is the wanted one,
  it has an expiry if that is required, and the expiry, if any, is not longer past than the leeway.
\<close>

definition jwt_contract ::
    "sso_env \<Rightarrow> (string \<Rightarrow> jwt_header \<Rightarrow> sso_claims \<Rightarrow> string \<Rightarrow> bool) \<Rightarrow> (string \<Rightarrow> string) \<Rightarrow> bool" where
  "jwt_contract env signed issuer \<longleftrightarrow>
     (\<forall>opts now keyfunc token claims. xs_parse_claims env opts now keyfunc token = Inr (claims, True) \<longrightarrow>
        (\<exists>header key. keyfunc header = Inr key \<and> signed key header claims token) \<and>
        (jo_issuer opts \<noteq> [] \<longrightarrow> issuer token = jo_issuer opts) \<and>
        (jo_expiration_required opts \<longrightarrow> jc_expires_at claims \<noteq> None) \<and>
        (\<forall>e. jc_expires_at claims = Some e \<longrightarrow> now < e + jo_leeway opts))"

text \<open>Metadata with a key were checked, whether they come from the settings or from the network.\<close>

definition validator_ok :: "sso_env \<Rightarrow> sso_validator \<Rightarrow> bool" where
  "validator_ok env v \<longleftrightarrow>
     (md_public_key_pem (sv_metadata v) \<noteq> [] \<longrightarrow> validate_external_sso_metadata env (sv_metadata v) = Inr ()) \<and>
     (sv_static_metadata v \<longrightarrow> md_public_key_pem (sv_metadata v) \<noteq> [])"

lemma validated_iff: "validate_external_sso_metadata env m = Inr () \<longleftrightarrow>
    md_algorithm m = ed_dsa \<and> trim_space (md_issuer m) \<noteq> [] \<and> trim_space (md_public_key_pem m) \<noteq> [] \<and>
    (\<exists>key. parse_external_sso_public_key env (md_public_key_pem m) = Inr key)"
  by (auto simp: validate_external_sso_metadata_def rbind_Inr_iff)

lemma new_validator_ok: "new_jwt_external_sso_validator env cfg = Inr v \<Longrightarrow> validator_ok env v"
  by (auto simp: new_jwt_external_sso_validator_def static_external_sso_metadata_def validator_ok_def zero_metadata_def
      rbind_Inr_iff Let_def split: if_splits)

lemma fetched_validated: "fetch_metadata env fetch = Inr m \<Longrightarrow>
    validate_external_sso_metadata env m = Inr () \<and> ma_send fetch = Inr 200 \<and> ma_decode fetch = Inr m"
  by (auto simp: fetch_metadata_def rbind_Inr_iff split: option.splits if_splits sum.splits)

lemma refill_keeps: "keeps (validator_ok env) (refill_metadata env now fetch)"
proof (rule keepsI)
  fix v r w assume ok: "validator_ok env v" and run: "refill_metadata env now fetch v = (r, w)"
  show "validator_ok env w"
  proof (cases "w = v")
    case False
    then obtain m where "fetch_metadata env fetch = Inr m" "w = v\<lparr>sv_metadata := m, sv_loaded_at := now\<rparr>"
      using run by (auto simp: refill_metadata_def split: option.splits sum.splits)
    then show ?thesis using fetched_validated [of env fetch m] by (auto simp: validator_ok_def validated_iff)
  qed (use ok in simp)
qed

lemma current_metadata_keeps: "keeps (validator_ok env) (current_metadata env now fetch)"
  by (rule keepsI) (auto simp: current_metadata_def split: if_splits option.splits intro: keepsD [OF refill_keeps])

lemma validate_token_keeps: "keeps (validator_ok env) (validate_external_sso_token env now fetch token)"
  unfolding validate_external_sso_token_def Let_def
  by (intro keeps_rules keeps_prod current_metadata_keeps)

text \<open>The metadata in use are the configured ones, or ones fetched less than the lifetime of the cache ago.\<close>

definition trusted_metadata :: "sso_env \<Rightarrow> time \<Rightarrow> metadata_answer \<Rightarrow> sso_validator \<Rightarrow> sso_metadata \<Rightarrow> bool" where
  "trusted_metadata env now fetch v m \<longleftrightarrow>
     (if sv_static_metadata v then m = sv_metadata v
      else m = sv_metadata v \<and> time_sub now (sv_loaded_at v) < sv_cache_ttl v \<or>
        ma_send fetch = Inr 200 \<and> ma_decode fetch = Inr m)"

lemma current_metadata_trusted:
  assumes ok: "validator_ok env v" and run: "current_metadata env now fetch v = (Inr m, w)"
  shows "trusted_metadata env now fetch v m \<and> validate_external_sso_metadata env m = Inr ()"
proof (cases "sv_static_metadata v")
  case True
  then show ?thesis using ok run by (auto simp: current_metadata_def validator_ok_def trusted_metadata_def)
next
  case False
  show ?thesis
  proof (cases "cached_metadata now v")
    case None
    then have "fetch_metadata env fetch = Inr m"
      using run False by (auto simp: current_metadata_def refill_metadata_def split: sum.splits)
    then show ?thesis using fetched_validated False by (auto simp: trusted_metadata_def)
  next
    case (Some m')
    then show ?thesis using ok run False
      by (auto simp: current_metadata_def cached_metadata_def trusted_metadata_def validator_ok_def split: if_splits)
  qed
qed

text \<open>A token that passes.\<close>

lemma validated_token:
  assumes ok: "validator_ok env v" and contract: "jwt_contract env signed issuer"
    and run: "validate_external_sso_token env now fetch token v = (Inr identity, w)"
  shows "\<exists>m key header claims e. trusted_metadata env now fetch v m \<and>
    parse_external_sso_public_key env (md_public_key_pem m) = Inr key \<and> md_algorithm m = ed_dsa \<and>
    jh_algorithm header = ed_dsa \<and> signed key header claims (trim_space token) \<and> issuer (trim_space token) = md_issuer m \<and>
    jc_expires_at claims = Some e \<and> now < e + minute \<and> trim_space (jc_id claims) \<noteq> [] \<and>
    trim_space (jc_subject claims) = si_subject identity \<and> trim_space (jc_uid claims) = si_subject identity \<and>
    trim_space (jc_username claims) = si_username identity \<and> si_subject identity \<noteq> [] \<and> si_username identity \<noteq> []"
proof -
  obtain m key claims where m: "current_metadata env now fetch v = (Inr m, w)"
    and key: "parse_external_sso_public_key env (md_public_key_pem m) = Inr key"
    and parsed: "xs_parse_claims env (sso_options m) now (sso_key_function env m key) (trim_space token) = Inr (claims, True)"
    and identity: "identity_from_external_sso_claims claims = Inr identity"
    using run unfolding validate_external_sso_token_def Let_def
    by (auto simp: abind_Inr_iff split: prod.splits if_splits)
  obtain header key' where signed: "sso_key_function env m key header = Inr key'" "signed key' header claims (trim_space token)"
    and issuer: "md_issuer m \<noteq> [] \<Longrightarrow> issuer (trim_space token) = md_issuer m"
    and expires: "\<And>e. jc_expires_at claims = Some e \<Longrightarrow> now < e + minute"
    using contract parsed unfolding jwt_contract_def by (fastforce simp: sso_options_def)
  note trusted = current_metadata_trusted [OF ok m]
  have "md_issuer m \<noteq> []" using trusted by (auto simp: validated_iff)
  note issued = issuer [OF this]
  have "key' = key" "jh_algorithm header = md_algorithm m" using signed(1) by (auto simp: sso_key_function_def split: if_splits)
  moreover obtain e where "jc_expires_at claims = Some e" "trim_space (jc_id claims) \<noteq> []"
    "trim_space (jc_subject claims) = si_subject identity" "trim_space (jc_uid claims) = si_subject identity"
    "trim_space (jc_username claims) = si_username identity" "si_subject identity \<noteq> []" "si_username identity \<noteq> []"
    using identity by (auto simp: identity_from_external_sso_claims_def Let_def split: if_splits)
  ultimately have "trusted_metadata env now fetch v m \<and> parse_external_sso_public_key env (md_public_key_pem m) = Inr key \<and>
      md_algorithm m = ed_dsa \<and> jh_algorithm header = ed_dsa \<and> signed key header claims (trim_space token) \<and>
      issuer (trim_space token) = md_issuer m \<and> jc_expires_at claims = Some e \<and> now < e + minute \<and> trim_space (jc_id claims) \<noteq> [] \<and>
      trim_space (jc_subject claims) = si_subject identity \<and> trim_space (jc_uid claims) = si_subject identity \<and>
      trim_space (jc_username claims) = si_username identity \<and> si_subject identity \<noteq> [] \<and> si_username identity \<noteq> []"
    using trusted key signed(2) issued expires by (auto simp: validated_iff)
  then show ?thesis by blast
qed

end
