(* ===== verification/Http_Base.thy ===== *)
theory Http_Base
  imports Auth_SSO Auth_Passkeys Audit_Log Rate_Limiter Ledger_Summary Ledger_Entries Ledger_Seed
begin

text \<open>
  What the routes of \<open>httpserver\<close> share: the state of the server, a request and its answer, the error answers
  (\<open>httpserver/api_error.go\<close>), the session of a request (\<open>httpserver/auth_middleware.go\<close>), the limiter, the
  decoding of bodies and queries, cookies, and the audit events (\<open>httpserver/routes.go\<close>, \<open>auth_routes.go\<close>).

  A route is an operation on the server whose errors are answers: \<open>respondAPIMessage\<close> followed by \<open>return\<close>.
  Log lines are left out. JSON decoding is the library's: a body is what its decoder answered.
\<close>

section \<open>The server\<close>

record http_server =
  hs_auth :: auth_store
  hs_ledger :: memory_store
  hs_audit :: "audit_memory option"
  hs_limiter :: "auth_rate_limiter option"
  hs_validator :: "sso_validator option"

record http_config =
  hc_cookie_name :: string
  hc_cookie_secure :: bool
  hc_admin_emails :: "string list"
  hc_sso_callback_url :: string
  hc_sso_enabled :: bool
  hc_sso_login_url :: string
  hc_sso_state_cookie_name :: string
  hc_sso_state_ttl :: int
  hc_sso_success_redirect_url :: string

text \<open>The parts of an URL that the routes read, and its printing with one query value set.\<close>

record parsed_url =
  pu_scheme :: string
  pu_host :: string
  pu_with_query :: "string \<Rightarrow> string \<Rightarrow> string"

record http_env =
  he_auth :: auth_env
  he_auth_config :: auth_config
  he_webauthn :: webauthn_env
  he_sso :: sso_env
  he_config :: http_config
  he_digest :: digest
  he_parse_uuid :: "string \<Rightarrow> string option"
  he_rational :: "string \<Rightarrow> rat option"
  he_parse_rfc3339 :: "string \<Rightarrow> time option"
  he_parse_date :: "string \<Rightarrow> time option"
  he_letter :: "string \<Rightarrow> bool"
  he_parse_url :: "string \<Rightarrow> parsed_url option"
  he_split_host_port :: "string \<Rightarrow> string option"
  he_loopback_ip :: "string \<Rightarrow> bool option"

text \<open>
  A request, its surroundings and what chance gives to it: one reading of the clock, fresh values. \<open>rq_sent\<close> is
  the answer of the email sender, \<open>rq_generated\<close> that of the TOTP library, \<open>rq_fetch\<close> that of the network.
\<close>

record request_context =
  rq_client_ip :: string
  rq_host :: string
  rq_tls :: bool
  rq_forwarded_proto :: string
  rq_request_id :: string
  rq_cookies :: "(string \<times> string) list"
  rq_query :: "(string \<times> string) list"
  rq_session :: "session option"
  rq_now :: time
  rq_fresh :: fresh_values
  rq_event_id :: string
  rq_new_id :: string
  rq_entry_id :: "ledger_error + string"
  rq_category_id :: "string \<Rightarrow> string"
  rq_sent :: "auth_error option"
  rq_generated :: "auth_error + string \<times> string"
  rq_fetch :: metadata_answer

section \<open>Answers\<close>

record cookie =
  ck_name :: string
  ck_value :: string
  ck_path :: string
  ck_max_age :: int
  ck_secure :: bool
  ck_http_only :: bool
  ck_same_site :: string
  ck_expires :: time

datatype payload =
    NoBody
  | ApiError (error_code: string) (error_message: string) (error_request_id: string)
  | StatusOk
  | StatusSent time
  | UserBody user
  | LoginBody user session
  | TotpRequiredBody
  | SessionBody auth_actor session
  | TotpStatusBody bool
  | TotpSetupBody totp_setup
  | CeremonyBody string string
  | PasskeyBody passkey_list_item
  | PasskeyPageBody "passkey_list_item page"
  | AuditBody list_result
  | RedirectTo string
  | BookBody book_list_item
  | BookPageBody "book_list_item page"
  | MemberBody book_member
  | MemberPageBody "book_member page"
  | GroupBody account_group
  | GroupPageBody "account_group page"
  | AccountBody account
  | AccountPageBody "account page"
  | CategoryBody category
  | CategoryPageBody "category page"
  | EntryBody entry
  | EntryListBody entry_list
  | SummaryBody summary
  | RatesBody "exchange_rate list"

record reply =
  rp_status :: int
  rp_body :: payload
  rp_cookies :: "cookie list"
  rp_retry_after :: "int option"

type_synonym 'a route = "(http_server, reply, 'a) act"

definition json_reply :: "int \<Rightarrow> payload \<Rightarrow> reply" where
  "json_reply status body = \<lparr>rp_status = status, rp_body = body, rp_cookies = [], rp_retry_after = None\<rparr>"

text \<open>\<open>gin.Recovery\<close> answers a handler that panics.\<close>

definition recovered :: reply where "recovered = json_reply 500 NoBody"

section \<open>Error codes\<close>

text \<open>
  The runes of the lower-cased message in order: a letter or digit is kept, a run of others becomes one
  underscore. \<open>letter\<close> classifies the encodings of the runes outside ASCII.
\<close>

definition code_rune :: "(string \<Rightarrow> bool) \<Rightarrow> string \<Rightarrow> bool" where
  "code_rune letter r = (case r of
       [] \<Rightarrow> False
     | a # _ \<Rightarrow> if (of_char a :: nat) < 128 then is_lower a \<or> is_upper a \<or> is_digit a else length r > 1 \<and> letter r)"

function code_from :: "(string \<Rightarrow> bool) \<Rightarrow> bool \<Rightarrow> string \<Rightarrow> string" where
  "code_from letter underscore s =
     (if s = [] then []
      else (let n = rune_width s; r = take n s in
        if code_rune letter r then r @ code_from letter False (drop n s)
        else if \<not> underscore then CHR ''_'' # code_from letter True (drop n s)
        else code_from letter True (drop n s)))"
  by pat_completeness auto
termination
proof (relation "measure (\<lambda>(_, _, s). length s)", goal_cases)
  case 1
  then show ?case by simp
qed (auto simp: neq_Nil_conv rune_width_pos)

declare code_from.simps [simp del]

text \<open>\<open>strings.Trim(code, "_")\<close>.\<close>

definition trim_underscores :: "string \<Rightarrow> string" where
  "trim_underscores s =
     rev (dropWhile (\<lambda>c. c = CHR ''_'') (rev (dropWhile (\<lambda>c. c = CHR ''_'') s)))"

definition api_error_code :: "(string \<Rightarrow> string) \<Rightarrow> (string \<Rightarrow> bool) \<Rightarrow> string \<Rightarrow> string" where
  "api_error_code lower letter message =
     (let code = trim_underscores (code_from letter False (to_lower_with lower message))
      in if code = [] then ''internal_server_error'' else code)"

definition message_reply :: "http_env \<Rightarrow> request_context \<Rightarrow> int \<Rightarrow> string \<Rightarrow> reply" where
  "message_reply env rq status message =
     json_reply status (ApiError (api_error_code (ax_lower (he_auth env)) (he_letter env) message) message (rq_request_id rq))"

definition respond_message :: "http_env \<Rightarrow> request_context \<Rightarrow> int \<Rightarrow> string \<Rightarrow> 'a route" where
  "respond_message env rq status message = afail (message_reply env rq status message)"

section \<open>Calling the services\<close>

definition on_auth :: "'a auth_act \<Rightarrow> (http_server, auth_error, 'a) act" where
  "on_auth m s = (case m (hs_auth s) of (r, t) \<Rightarrow> (r, s\<lparr>hs_auth := t\<rparr>))"

definition on_ledger :: "(memory_store, ledger_error, 'a) act \<Rightarrow> (http_server, ledger_error, 'a) act" where
  "on_ledger m s = (case m (hs_ledger s) of (r, t) \<Rightarrow> (r, s\<lparr>hs_ledger := t\<rparr>))"

text \<open>A call whose error the route answers: \<open>if err != nil\<close>.\<close>

definition or_else :: "('s, 'e, 'a) act \<Rightarrow> ('e \<Rightarrow> ('s, 'f, 'a) act) \<Rightarrow> ('s, 'f, 'a) act" where
  "or_else m handler s = (case m s of (Inl e, t) \<Rightarrow> handler e t | (Inr x, t) \<Rightarrow> (Inr x, t))"

definition or_message :: "http_env \<Rightarrow> request_context \<Rightarrow> int \<Rightarrow> string \<Rightarrow> (http_server, 'e, 'a) act \<Rightarrow> 'a route" where
  "or_message env rq status message m = or_else m (\<lambda>_. respond_message env rq status message)"

section \<open>Audit events\<close>

definition record_audit_event :: "http_env \<Rightarrow> request_context \<Rightarrow> record_request \<Rightarrow> unit route" where
  "record_audit_event env rq request s =
     (case hs_audit s of
        None \<Rightarrow> (Inr (), s)
      | Some events \<Rightarrow>
          (Inr (), s\<lparr>hs_audit := Some (snd (audit_record (he_digest env) au_save_event au_tail request
             (rq_event_id rq) (rq_now rq) events))\<rparr>))"

text \<open>An event of an actor about a target.\<close>

definition event_of :: "auth_actor \<Rightarrow> string \<Rightarrow> string \<Rightarrow> string \<Rightarrow> (string \<times> string) list \<Rightarrow> record_request" where
  "event_of a action target_type target_id metadata =
     \<lparr>rr_actor_id = aa_user_id a, rr_actor_email = aa_email a, rr_action = action, rr_target_type = target_type,
      rr_target_id = target_id, rr_metadata = metadata\<rparr>"

definition anonymous :: auth_actor where
  "anonymous = \<lparr>aa_user_id = [], aa_email = [], aa_status = UserStatusActive\<rparr>"

section \<open>Sessions of requests\<close>

text \<open>\<open>AttachSession\<close>: the session cookie, when it names a session that counts, gives the request its session.\<close>

definition attach_session :: "http_env \<Rightarrow> request_context \<Rightarrow> http_server \<Rightarrow> request_context" where
  "attach_session env rq s =
     (case map_of (rq_cookies rq) (hc_cookie_name (he_config env)) of
        None \<Rightarrow> rq\<lparr>rq_session := None\<rparr>
      | Some token \<Rightarrow>
          if token = [] then rq\<lparr>rq_session := None\<rparr>
          else (case session_from_token (he_auth env) (rq_now rq) token (hs_auth s) of
                  Inl _ \<Rightarrow> rq\<lparr>rq_session := None\<rparr>
                | Inr se \<Rightarrow> rq\<lparr>rq_session := Some se\<rparr>))"

text \<open>\<open>RequireSession\<close> and \<open>authIdentityFromContext\<close>, which both answer 401 without a session.\<close>

definition require_session :: "http_env \<Rightarrow> request_context \<Rightarrow> (auth_actor \<times> session) route" where
  "require_session env rq =
     (case rq_session rq of
        None \<Rightarrow> respond_message env rq 401 ''authentication required''
      | Some se \<Rightarrow> aret (session_actor se, se))"

section \<open>The limiter\<close>

definition sha_hex :: "http_env \<Rightarrow> string \<Rightarrow> string" where
  "sha_hex env = (\<lambda>x. hex_encode (ax_sha (he_auth env) x))"

definition require_auth_rate_limit :: "http_env \<Rightarrow> request_context \<Rightarrow> string \<Rightarrow> string \<Rightarrow> unit route" where
  "require_auth_rate_limit env rq name subject s =
     (case allow (ax_lower (he_auth env)) (sha_hex env) name (rq_client_ip rq) subject (rq_now rq) (hs_limiter s) of
        (ok, limiter) \<Rightarrow>
          (if ok then Inr () else Inl (message_reply env rq 429 ''rate limit exceeded''), s\<lparr>hs_limiter := limiter\<rparr>))"

section \<open>Bodies and queries\<close>

text \<open>What the decoder answers to the first value, and to the attempt to read another one.\<close>

datatype body_error = BodyTooLarge | BodyEnd | BodyMalformed

record 'a json_body =
  jb_first :: "body_error + 'a"
  jb_second :: "body_error option"

definition decode_strict_json :: "http_env \<Rightarrow> request_context \<Rightarrow> 'a json_body \<Rightarrow> 'a route" where
  "decode_strict_json env rq body =
     (case jb_first body of
        Inl e \<Rightarrow> if e = BodyTooLarge then respond_message env rq 413 ''request body too large''
                 else respond_message env rq 400 ''invalid request body''
      | Inr x \<Rightarrow>
          if jb_second body \<noteq> Some BodyEnd
          then (if jb_second body = Some BodyTooLarge then respond_message env rq 413 ''request body too large''
                else respond_message env rq 400 ''invalid request body'')
          else aret x)"

text \<open>\<open>c.Query\<close>: the first value of the key, the empty string without one.\<close>

definition query_value :: "request_context \<Rightarrow> string \<Rightarrow> string" where
  "query_value rq key = (case map_of (rq_query rq) key of None \<Rightarrow> [] | Some v \<Rightarrow> v)"

definition query_keys_in :: "request_context \<Rightarrow> string list \<Rightarrow> bool" where
  "query_keys_in rq keys = list_all (\<lambda>(key, _). key \<in> set keys) (rq_query rq)"

text \<open>\<open>parseEntryPagination\<close>, and \<open>parseAuditPagination\<close> which has the same body: an absent value is 0.\<close>

definition parse_pagination :: "http_env \<Rightarrow> request_context \<Rightarrow> (int \<times> int) route" where
  "parse_pagination env rq =
     (if \<not> query_keys_in rq [''page'', ''page_size''] then respond_message env rq 400 ''invalid query filter''
      else (let raw_page = query_value rq ''page''; raw_page_size = query_value rq ''page_size'' in
        abind (if raw_page = [] then aret 0
               else (case atoi raw_page of
                   None \<Rightarrow> respond_message env rq 400 ''invalid page''
                 | Some page \<Rightarrow> if page < 1 then respond_message env rq 400 ''invalid page'' else aret page)) (\<lambda>page.
        abind (if raw_page_size = [] then aret 0
               else (case atoi raw_page_size of
                   None \<Rightarrow> respond_message env rq 400 ''invalid page_size''
                 | Some page_size \<Rightarrow>
                     if page_size < 1 \<or> page_size > 100 then respond_message env rq 400 ''invalid page_size''
                     else aret page_size)) (\<lambda>page_size.
        aret (page, page_size)))))"

section \<open>Cookies\<close>

record cookie_settings =
  cs_name :: string
  cs_path :: string
  cs_max_age :: int
  cs_secure :: bool
  cs_http_only :: bool
  cs_same_site :: string

text \<open>Whole seconds of a duration; \<open>int\<close> cuts off towards zero.\<close>

definition whole_seconds :: "int \<Rightarrow> int" where
  "whole_seconds d = (if d < 0 then - ((- d) div second) else d div second)"

definition new_cookie_settings :: "string \<Rightarrow> bool \<Rightarrow> time \<Rightarrow> time \<Rightarrow> cookie_settings" where
  "new_cookie_settings name secure expires_at now =
     (let max_age = whole_seconds (time_sub expires_at now);
          max_age = (if max_age < 0 then 0 else max_age)
      in \<lparr>cs_name = name, cs_path = ''/'', cs_max_age = max_age, cs_secure = secure, cs_http_only = True,
          cs_same_site = ''Lax''\<rparr>)"

definition session_cookie :: "http_env \<Rightarrow> request_context \<Rightarrow> string \<Rightarrow> time \<Rightarrow> cookie" where
  "session_cookie env rq token expires_at =
     (let settings = new_cookie_settings (hc_cookie_name (he_config env)) (hc_cookie_secure (he_config env))
            expires_at (rq_now rq)
      in \<lparr>ck_name = cs_name settings, ck_value = token, ck_path = cs_path settings, ck_max_age = cs_max_age settings,
          ck_secure = cs_secure settings, ck_http_only = cs_http_only settings, ck_same_site = ''Lax'',
          ck_expires = expires_at\<rparr>)"

text \<open>\<open>time.Unix(0, 0)\<close>: 1 January 1970.\<close>

definition unix_epoch :: time where "unix_epoch = 719162 * day"

definition clear_session_cookie :: "http_env \<Rightarrow> cookie" where
  "clear_session_cookie env =
     \<lparr>ck_name = hc_cookie_name (he_config env), ck_value = [], ck_path = ''/'', ck_max_age = -1,
      ck_secure = hc_cookie_secure (he_config env), ck_http_only = True, ck_same_site = ''Lax'', ck_expires = unix_epoch\<rparr>"

section \<open>Errors of the ledger\<close>

definition ledger_error_reply :: "http_env \<Rightarrow> request_context \<Rightarrow> ledger_error \<Rightarrow> reply" where
  "ledger_error_reply env rq e =
     (case e of
        ErrInvalidInput _ \<Rightarrow> message_reply env rq 400 ''invalid ledger input''
      | ErrAccessDenied _ \<Rightarrow> message_reply env rq 403 ''ledger access denied''
      | ErrNotFound _ \<Rightarrow> message_reply env rq 404 ''ledger resource not found''
      | ErrOther _ \<Rightarrow> message_reply env rq 500 ''ledger request failed''
      | Panic _ \<Rightarrow> recovered)"

definition or_ledger_error :: "http_env \<Rightarrow> request_context \<Rightarrow> (memory_store, ledger_error, 'a) act \<Rightarrow> 'a route" where
  "or_ledger_error env rq m = or_else (on_ledger m) (\<lambda>e. afail (ledger_error_reply env rq e))"

end
