(* ===== verification/Auth_Routes.thy ===== *)
theory Auth_Routes
  imports Http_Base
begin

text \<open>
  The routes over the authentication and the audit service: \<open>httpserver/auth_routes.go\<close>, \<open>passkey_routes.go\<close>,
  \<open>auth_sso_routes.go\<close>, \<open>user_routes.go\<close> and \<open>audit_routes.go\<close>. Each decodes its request, passes the limiter where the
  source asks for it, calls one handler, records an audit event and answers.
\<close>

section \<open>Bodies\<close>

record auth_request =
  aq_email :: string
  aq_password :: string
  aq_totp_code :: string
  aq_turnstile_token :: string

record email_code_confirm_request =
  eq_email :: string
  eq_code :: string

record password_reset_confirm_request =
  pq_email :: string
  pq_code :: string
  pq_new_password :: string

record passkey_register_finish_request =
  kq_flow_id :: string
  kq_label :: string
  kq_credential :: string

record passkey_login_finish_request =
  lq_flow_id :: string
  lq_credential :: string

section \<open>Failed logins\<close>

definition auth_failure_metadata :: "http_env \<Rightarrow> string \<Rightarrow> string \<Rightarrow> (string \<times> string) list" where
  "auth_failure_metadata env method subject =
     (let subject_hash = subject_hash (sha_hex env) subject in
      (''method'', trim_space method) # (if subject_hash \<noteq> [] then [(''subjectHash'', subject_hash)] else []))"

definition retry_after_seconds :: "int \<Rightarrow> int" where
  "retry_after_seconds d =
     (if d \<le> 0 then 1
      else (let seconds = d div second; seconds = (if d mod second \<noteq> 0 then seconds + 1 else seconds)
            in if seconds < 1 then 1 else seconds))"

text \<open>The zero value of \<open>Session\<close>, in results that carry none; nothing reads its status.\<close>

definition zero_session :: session where
  "zero_session = \<lparr>se_id = [], se_user_id = [], se_user_email = [], se_status = UserStatusPendingVerification,
     se_expires_at = zero_time, se_created_at = zero_time\<rparr>"

definition result_session :: "auth_result \<Rightarrow> session" where
  "result_session res = (case ar_session res of None \<Rightarrow> zero_session | Some se \<Rightarrow> se)"

definition user_event :: "user \<Rightarrow> string \<Rightarrow> (string \<times> string) list \<Rightarrow> record_request" where
  "user_event u action metadata =
     event_of \<lparr>aa_user_id = us_id u, aa_email = us_email u, aa_status = us_status u\<rparr> action ''user'' (us_id u) metadata"

text \<open>The end of a login: the cookie, the event, the answer.\<close>

definition finish_login :: "http_env \<Rightarrow> request_context \<Rightarrow> auth_result \<Rightarrow> string \<Rightarrow> string \<Rightarrow> reply route" where
  "finish_login env rq res action method =
     abind (record_audit_event env rq (user_event (ar_user res) action [(''method'', method)])) (\<lambda>_.
     aret ((json_reply 200 (LoginBody (ar_user res) (result_session res)))
       \<lparr>rp_cookies := [session_cookie env rq (ar_session_token res) (se_expires_at (result_session res))]\<rparr>))"

section \<open>Registration, login, logout\<close>

definition register_route :: "http_env \<Rightarrow> request_context \<Rightarrow> auth_request json_body \<Rightarrow> reply route" where
  "register_route env rq body =
     abind (decode_strict_json env rq body) (\<lambda>request.
     abind (require_auth_rate_limit env rq ''auth.register'' (aq_email request)) (\<lambda>_.
     abind (or_message env rq 400 ''registration failed'' (on_auth (register (he_auth env) (he_auth_config env) (rq_fresh rq) (rq_now rq)
       \<lparr>rg_email = aq_email request, rg_password = aq_password request, rg_turnstile_token = aq_turnstile_token request,
        rg_remote_ip = rq_client_ip rq\<rparr>))) (\<lambda>u.
     abind (record_audit_event env rq (user_event u ''auth.register'' [(''method'', ''password'')])) (\<lambda>_.
     aret (json_reply 201 (UserBody u))))))"

definition login_failure :: "http_env \<Rightarrow> request_context \<Rightarrow> string \<Rightarrow> auth_error \<Rightarrow> 'a route" where
  "login_failure env rq email e =
     (case e of
        LoginLocked retry \<Rightarrow>
          (let seconds = retry_after_seconds retry in
           abind (record_audit_event env rq (event_of anonymous ''auth.login_locked'' ''user'' []
             (auth_failure_metadata env ''password'' email @ [(''retry_after'', print_nat (nat seconds))]))) (\<lambda>_.
           afail ((message_reply env rq 429 ''login temporarily locked'')\<lparr>rp_retry_after := Some seconds\<rparr>)))
      | _ \<Rightarrow>
          abind (record_audit_event env rq (event_of anonymous ''auth.login_failed'' ''user'' []
            (auth_failure_metadata env ''password'' email))) (\<lambda>_.
          respond_message env rq 401 ''invalid email or password''))"

definition login_route :: "http_env \<Rightarrow> request_context \<Rightarrow> auth_request json_body \<Rightarrow> reply route" where
  "login_route env rq body =
     abind (decode_strict_json env rq body) (\<lambda>request.
     abind (require_auth_rate_limit env rq ''auth.login'' (aq_email request)) (\<lambda>_.
     abind (or_else (on_auth (login (he_auth env) (he_auth_config env) (rq_fresh rq) (rq_now rq)
         \<lparr>lg_email = aq_email request, lg_password = aq_password request, lg_totp_code = aq_totp_code request,
          lg_turnstile_token = aq_turnstile_token request, lg_remote_ip = rq_client_ip rq\<rparr>))
       (login_failure env rq (aq_email request))) (\<lambda>res.
     if ar_totp_required res
     then abind (record_audit_event env rq (user_event (ar_user res) ''auth.login_totp_challenge'' [(''method'', ''password'')])) (\<lambda>_.
       aret (json_reply 200 TotpRequiredBody))
     else finish_login env rq res ''auth.login'' ''password'')))"

definition logout_route :: "http_env \<Rightarrow> request_context \<Rightarrow> reply route" where
  "logout_route env rq =
     abind (case map_of (rq_cookies rq) (hc_cookie_name (he_config env)) of
         None \<Rightarrow> aret ()
       | Some token \<Rightarrow> or_message env rq 500 ''logout failed'' (on_auth (logout (he_auth env) token))) (\<lambda>_.
     abind (case rq_session rq of
         None \<Rightarrow> aret ()
       | Some se \<Rightarrow> record_audit_event env rq (event_of (session_actor se) ''auth.logout'' ''user'' (se_user_id se) [])) (\<lambda>_.
     aret ((json_reply 200 StatusOk)\<lparr>rp_cookies := [clear_session_cookie env]\<rparr>)))"

definition logout_all_route :: "http_env \<Rightarrow> request_context \<Rightarrow> reply route" where
  "logout_all_route env rq =
     abind (require_session env rq) (\<lambda>(actor, _).
     abind (or_message env rq 500 ''logout failed'' (on_auth (logout_all (aa_user_id actor)))) (\<lambda>_.
     abind (record_audit_event env rq (event_of actor ''auth.logout_all'' ''user'' (aa_user_id actor) [])) (\<lambda>_.
     aret ((json_reply 200 StatusOk)\<lparr>rp_cookies := [clear_session_cookie env]\<rparr>))))"

definition session_route :: "http_env \<Rightarrow> request_context \<Rightarrow> reply route" where
  "session_route env rq =
     abind (require_session env rq) (\<lambda>(actor, se). aret (json_reply 200 (SessionBody actor se)))"

section \<open>Codes by email\<close>

definition request_code_route ::
    "http_env \<Rightarrow> request_context \<Rightarrow> string \<Rightarrow> string \<Rightarrow> string \<Rightarrow> email_code_delivery auth_act \<Rightarrow> string \<Rightarrow> reply route" where
  "request_code_route env rq name failure action handler email =
     abind (require_auth_rate_limit env rq name email) (\<lambda>_.
     abind (or_message env rq 400 failure (on_auth handler)) (\<lambda>delivery.
     abind (case ed_user delivery of
         None \<Rightarrow> aret ()
       | Some u \<Rightarrow> record_audit_event env rq (user_event u action [])) (\<lambda>_.
     aret (json_reply 202 (StatusSent (ed_expires_at delivery))))))"

definition request_verification_route :: "http_env \<Rightarrow> request_context \<Rightarrow> reply route" where
  "request_verification_route env rq =
     (let email = query_value rq ''email'' in
      request_code_route env rq ''auth.email_verification_request'' ''email verification request failed''
        ''auth.email_verification_requested''
        (request_email_verification (he_auth env) (he_auth_config env) (rq_fresh rq) (rq_now rq) (rq_sent rq) email) email)"

definition request_reset_route :: "http_env \<Rightarrow> request_context \<Rightarrow> string json_body \<Rightarrow> reply route" where
  "request_reset_route env rq body =
     abind (decode_strict_json env rq body) (\<lambda>email.
       request_code_route env rq ''auth.password_reset_request'' ''password reset request failed''
         ''auth.password_reset_requested''
         (request_password_reset (he_auth env) (he_auth_config env) (rq_fresh rq) (rq_now rq) (rq_sent rq) email) email)"

definition confirm_verification_route :: "http_env \<Rightarrow> request_context \<Rightarrow> email_code_confirm_request json_body \<Rightarrow> reply route" where
  "confirm_verification_route env rq body =
     abind (decode_strict_json env rq body) (\<lambda>request.
     abind (require_auth_rate_limit env rq ''auth.email_verification_confirm'' (eq_email request)) (\<lambda>_.
     abind (or_message env rq 400 ''email verification failed''
       (on_auth (confirm_email_verification (he_auth env) (rq_now rq) (eq_email request) (eq_code request)))) (\<lambda>u.
     abind (record_audit_event env rq (user_event u ''auth.email_verified'' [])) (\<lambda>_.
     aret (json_reply 200 (UserBody u))))))"

definition confirm_reset_route :: "http_env \<Rightarrow> request_context \<Rightarrow> password_reset_confirm_request json_body \<Rightarrow> reply route" where
  "confirm_reset_route env rq body =
     abind (decode_strict_json env rq body) (\<lambda>request.
     abind (require_auth_rate_limit env rq ''auth.password_reset_confirm'' (pq_email request)) (\<lambda>_.
     abind (or_message env rq 400 ''password reset failed''
       (on_auth (confirm_password_reset (he_auth env) (rq_fresh rq) (rq_now rq) (pq_email request) (pq_code request)
          (pq_new_password request)))) (\<lambda>u.
     abind (record_audit_event env rq (user_event u ''auth.password_reset_confirmed'' [])) (\<lambda>_.
     aret (json_reply 200 (UserBody u))))))"

section \<open>TOTP\<close>

definition actor_event :: "auth_actor \<Rightarrow> string \<Rightarrow> record_request" where
  "actor_event actor action = event_of actor action ''user'' (aa_user_id actor) []"

definition totp_status_route :: "http_env \<Rightarrow> request_context \<Rightarrow> reply route" where
  "totp_status_route env rq =
     abind (require_session env rq) (\<lambda>(actor, _).
     abind (or_message env rq 400 ''totp status failed'' (on_auth (aread (totp_status (he_auth_config env) actor)))) (\<lambda>enabled.
     aret (json_reply 200 (TotpStatusBody enabled))))"

definition totp_setup_route :: "http_env \<Rightarrow> request_context \<Rightarrow> reply route" where
  "totp_setup_route env rq =
     abind (require_session env rq) (\<lambda>(actor, se).
     abind (or_message env rq 400 ''totp setup failed''
       (on_auth (setup_totp (he_auth env) (he_auth_config env) (rq_fresh rq) (rq_now rq) (rq_generated rq) actor se))) (\<lambda>setup.
     abind (record_audit_event env rq (actor_event actor ''auth.totp_setup_requested'')) (\<lambda>_.
     aret (json_reply 201 (TotpSetupBody setup)))))"

definition totp_confirm_route :: "http_env \<Rightarrow> request_context \<Rightarrow> string json_body \<Rightarrow> reply route" where
  "totp_confirm_route env rq body =
     abind (require_session env rq) (\<lambda>(actor, se).
     abind (decode_strict_json env rq body) (\<lambda>code.
     abind (or_message env rq 400 ''totp confirm failed''
       (on_auth (confirm_totp (he_auth env) (he_auth_config env) (rq_fresh rq) (rq_now rq) actor se code))) (\<lambda>enabled.
     abind (record_audit_event env rq (actor_event actor ''auth.totp_enabled'')) (\<lambda>_.
     aret (json_reply 200 (TotpStatusBody enabled))))))"

definition totp_disable_route :: "http_env \<Rightarrow> request_context \<Rightarrow> string json_body \<Rightarrow> reply route" where
  "totp_disable_route env rq body =
     abind (require_session env rq) (\<lambda>(actor, _).
     abind (decode_strict_json env rq body) (\<lambda>code.
     abind (or_message env rq 400 ''totp disable failed''
       (on_auth (disable_totp (he_auth env) (he_auth_config env) (rq_now rq) actor code))) (\<lambda>enabled.
     abind (record_audit_event env rq (actor_event actor ''auth.totp_disabled'')) (\<lambda>_.
     aret (json_reply 200 (TotpStatusBody enabled))))))"

section \<open>Passkeys\<close>

definition passkey_login_begin_route :: "http_env \<Rightarrow> request_context \<Rightarrow> reply route" where
  "passkey_login_begin_route env rq =
     abind (require_auth_rate_limit env rq ''auth.passkey_login_begin'' []) (\<lambda>_.
     abind (or_message env rq 400 ''passkey login start failed''
       (on_auth (begin_passkey_login (he_webauthn env) (he_auth_config env) (rq_fresh rq) (rq_now rq)))) (\<lambda>(flow_id, options).
     aret (json_reply 201 (CeremonyBody flow_id options))))"

definition passkey_login_finish_route :: "http_env \<Rightarrow> request_context \<Rightarrow> passkey_login_finish_request json_body \<Rightarrow> reply route" where
  "passkey_login_finish_route env rq body =
     abind (decode_strict_json env rq body) (\<lambda>request.
     abind (require_auth_rate_limit env rq ''auth.passkey_login_finish'' (lq_flow_id request)) (\<lambda>_.
     abind (or_else (on_auth (finish_passkey_login (he_auth env) (he_webauthn env) (he_auth_config env) (rq_fresh rq)
         (rq_now rq) (lq_flow_id request) (lq_credential request)))
       (\<lambda>_. abind (record_audit_event env rq (event_of anonymous ''auth.login_failed'' ''user'' [] [(''method'', ''passkey'')])) (\<lambda>_.
          respond_message env rq 401 ''passkey login failed''))) (\<lambda>res.
     finish_login env rq res ''auth.passkey_login'' ''passkey'')))"

text \<open>A panic of the listing is answered by \<open>gin.Recovery\<close>.\<close>

definition passkey_list_route :: "http_env \<Rightarrow> request_context \<Rightarrow> reply route" where
  "passkey_list_route env rq =
     abind (require_session env rq) (\<lambda>(actor, _).
     abind (parse_pagination env rq) (\<lambda>(page, page_size).
     abind (or_else (on_auth (aread (list_passkeys (he_webauthn env) (he_auth_config env) actor page page_size)))
       (\<lambda>e. if e = AuthPanic then afail recovered else respond_message env rq 400 ''passkey list failed'')) (\<lambda>items.
     aret (json_reply 200 (PasskeyPageBody items)))))"

definition passkey_register_begin_route :: "http_env \<Rightarrow> request_context \<Rightarrow> reply route" where
  "passkey_register_begin_route env rq =
     abind (require_session env rq) (\<lambda>(actor, _).
     abind (or_message env rq 400 ''passkey registration start failed''
       (on_auth (begin_passkey_registration (he_webauthn env) (he_auth_config env) (rq_fresh rq) (rq_now rq) actor)))
       (\<lambda>(flow_id, options).
     abind (record_audit_event env rq (actor_event actor ''auth.passkey_registration_started'')) (\<lambda>_.
     aret (json_reply 201 (CeremonyBody flow_id options)))))"

definition passkey_register_finish_route ::
    "http_env \<Rightarrow> request_context \<Rightarrow> passkey_register_finish_request json_body \<Rightarrow> reply route" where
  "passkey_register_finish_route env rq body =
     abind (require_session env rq) (\<lambda>(actor, _).
     abind (decode_strict_json env rq body) (\<lambda>request.
     abind (or_message env rq 400 ''passkey registration failed''
       (on_auth (finish_passkey_registration (he_webauthn env) (he_auth_config env) (rq_new_id rq) (rq_now rq) actor
          (kq_flow_id request) (kq_label request) (kq_credential request)))) (\<lambda>item.
     abind (record_audit_event env rq (event_of actor ''auth.passkey_registered'' ''passkey'' (pi_id item) [])) (\<lambda>_.
     aret (json_reply 201 (PasskeyBody item))))))"

definition passkey_update_route :: "http_env \<Rightarrow> request_context \<Rightarrow> string \<Rightarrow> string json_body \<Rightarrow> reply route" where
  "passkey_update_route env rq passkey_id body =
     abind (require_session env rq) (\<lambda>(actor, _).
     abind (decode_strict_json env rq body) (\<lambda>label.
     abind (or_message env rq 400 ''passkey update failed''
       (on_auth (update_passkey (he_webauthn env) (he_auth_config env) (rq_now rq) actor passkey_id label))) (\<lambda>item.
     abind (record_audit_event env rq (event_of actor ''auth.passkey_renamed'' ''passkey'' (pi_id item) [])) (\<lambda>_.
     aret (json_reply 200 (PasskeyBody item))))))"

definition passkey_delete_route :: "http_env \<Rightarrow> request_context \<Rightarrow> string \<Rightarrow> reply route" where
  "passkey_delete_route env rq passkey_id =
     abind (require_session env rq) (\<lambda>(actor, _).
     abind (or_message env rq 400 ''passkey delete failed''
       (on_auth (delete_passkey (he_webauthn env) (he_auth_config env) actor passkey_id))) (\<lambda>_.
     abind (record_audit_event env rq (event_of actor ''auth.passkey_deleted'' ''passkey'' passkey_id [])) (\<lambda>_.
     aret (json_reply 200 StatusOk))))"

section \<open>Profiles\<close>

definition profile_route :: "http_env \<Rightarrow> request_context \<Rightarrow> reply route" where
  "profile_route env rq =
     abind (require_session env rq) (\<lambda>(actor, _).
     abind (or_message env rq 404 ''user profile not found'' (on_auth (aread (user_profile actor)))) (\<lambda>u.
     aret (json_reply 200 (UserBody u))))"

definition update_profile_route :: "http_env \<Rightarrow> request_context \<Rightarrow> string option json_body \<Rightarrow> reply route" where
  "update_profile_route env rq body =
     abind (require_session env rq) (\<lambda>(actor, _).
     abind (decode_strict_json env rq body) (\<lambda>base_currency.
     abind (or_message env rq 400 ''user profile update failed''
       (on_auth (update_user_profile (rq_now rq) \<lparr>pr_actor = actor, pr_base_currency = base_currency\<rparr>))) (\<lambda>u.
     abind (record_audit_event env rq (event_of actor ''user.profile_updated'' ''user'' (aa_user_id actor)
       [(''baseCurrency'', us_base_currency u)])) (\<lambda>_.
     aret (json_reply 200 (UserBody u))))))"

section \<open>The audit log\<close>

text \<open>The lists of the audit service only read; a slice out of range panics, as a missing service does.\<close>

definition audit_answer :: "http_env \<Rightarrow> request_context \<Rightarrow> (audit_error + list_result) option \<Rightarrow> reply route" where
  "audit_answer env rq answer =
     (case answer of
        None \<Rightarrow> afail recovered
      | Some (Inl _) \<Rightarrow> respond_message env rq 400 ''audit list failed''
      | Some (Inr result) \<Rightarrow> aret (json_reply 200 (AuditBody result)))"

definition audit_route :: "http_env \<Rightarrow> request_context \<Rightarrow> reply route" where
  "audit_route env rq =
     abind (require_session env rq) (\<lambda>(actor, _).
     abind (parse_pagination env rq) (\<lambda>(page, page_size).
     (\<lambda>s. audit_answer env rq (Option.bind (hs_audit s) (audit_list au_events_by_actor
        \<lparr>lr_actor_id = aa_user_id actor, lr_page = page, lr_page_size = page_size\<rparr>)) s)))"

definition admin_email_allowed :: "http_env \<Rightarrow> string \<Rightarrow> bool" where
  "admin_email_allowed env actor_email =
     (let lower = to_lower_with (ax_lower (he_auth env)); actor_email = lower (trim_space actor_email) in
      actor_email \<noteq> [] \<and>
      list_ex (\<lambda>allowed. actor_email = lower (trim_space allowed)) (hc_admin_emails (he_config env)))"

definition admin_audit_route :: "http_env \<Rightarrow> request_context \<Rightarrow> reply route" where
  "admin_audit_route env rq =
     abind (require_session env rq) (\<lambda>(actor, _).
     if \<not> admin_email_allowed env (aa_email actor) then respond_message env rq 403 ''admin access denied''
     else abind (parse_pagination env rq) (\<lambda>(page, page_size).
     (\<lambda>s. audit_answer env rq (Option.bind (hs_audit s) (audit_list_all au_all_events
        \<lparr>lr_actor_id = [], lr_page = page, lr_page_size = page_size\<rparr>)) s)))"

end
