(* ===== verification/SSO_Routes.thy ===== *)
theory SSO_Routes
  imports Auth_Routes
begin

text \<open>
  External sign-on over HTTP (\<open>httpserver/auth_sso_routes.go\<close>): the start, which sends the browser to the provider
  with a fresh state and keeps the hash of the state in a cookie, and the callback, which takes the state and
  the token back.
\<close>

section \<open>URLs\<close>

definition is_loopback_request_host :: "http_env \<Rightarrow> string \<Rightarrow> bool" where
  "is_loopback_request_host env host =
     (let host = trim_space host in
      if host = [] then False
      else (let host = (case he_split_host_port env host of Some parsed \<Rightarrow> parsed | None \<Rightarrow> host);
                bracket = (\<lambda>c. c = CHR ''['' \<or> c = CHR '']'');
                host = rev (dropWhile bracket (rev (dropWhile bracket host)))
            in if equal_fold (ax_fold (he_auth env)) host ''localhost'' then True
               else (case he_loopback_ip env host of Some loopback \<Rightarrow> loopback | None \<Rightarrow> False)))"

definition request_origin :: "request_context \<Rightarrow> string" where
  "request_origin rq =
     (let scheme = (if rq_tls rq then ''https'' else ''http'');
          forwarded = trim_space (rq_forwarded_proto rq);
          scheme = (if forwarded = ''http'' \<or> forwarded = ''https'' then forwarded else scheme)
      in scheme @ ''://'' @ rq_host rq)"

definition supported_scheme :: "parsed_url \<Rightarrow> bool" where
  "supported_scheme u \<longleftrightarrow> pu_scheme u = ''http'' \<or> pu_scheme u = ''https''"

definition build_sso_callback_url :: "http_env \<Rightarrow> request_context \<Rightarrow> string \<Rightarrow> string + string" where
  "build_sso_callback_url env rq state =
     (let configured = trim_space (hc_sso_callback_url (he_config env)) in
      rbind (if configured = []
             then (if \<not> is_loopback_request_host env (rq_host rq)
                   then Inl ''external sso callback url must be configured for non-loopback hosts''
                   else Inr (request_origin rq @ ''/api/auth/sso/callback''))
             else Inr configured) (\<lambda>raw.
        (case he_parse_url env raw of
           None \<Rightarrow> Inl ''parse external sso callback url''
         | Some u \<Rightarrow>
             if \<not> supported_scheme u then Inl ''external sso callback url protocol is unsupported''
             else if pu_host u = [] then Inl ''external sso callback url host is required''
             else Inr (pu_with_query u ''state'' state))))"

definition build_sso_login_redirect_url :: "http_env \<Rightarrow> string \<Rightarrow> string \<Rightarrow> string + string" where
  "build_sso_login_redirect_url env raw_login_url callback_url =
     (case he_parse_url env (trim_space raw_login_url) of
        None \<Rightarrow> Inl ''parse external sso login url''
      | Some u \<Rightarrow>
          if \<not> supported_scheme u then Inl ''external sso login url protocol is unsupported''
          else if pu_host u = [] then Inl ''external sso login url host is required''
          else Inr (pu_with_query u ''redirect_to'' callback_url))"

definition external_sso_success_redirect :: "http_env \<Rightarrow> string" where
  "external_sso_success_redirect env =
     (let target = trim_space (hc_sso_success_redirect_url (he_config env)) in if target = [] then ''/'' else target)"

section \<open>The state cookie\<close>

definition external_sso_state_cookie_name :: "http_env \<Rightarrow> string" where
  "external_sso_state_cookie_name env =
     (let name = trim_space (hc_sso_state_cookie_name (he_config env)) in
      if name = [] then ''accounting_sso_state'' else name)"

definition set_sso_state_cookie :: "http_env \<Rightarrow> request_context \<Rightarrow> string \<Rightarrow> cookie" where
  "set_sso_state_cookie env rq state =
     (let ttl = (if hc_sso_state_ttl (he_config env) \<le> 0 then 5 * minute else hc_sso_state_ttl (he_config env))
      in \<lparr>ck_name = external_sso_state_cookie_name env, ck_value = hash_session_token (he_auth env) state,
          ck_path = ''/api/auth/sso'', ck_max_age = whole_seconds ttl, ck_secure = hc_cookie_secure (he_config env),
          ck_http_only = True, ck_same_site = ''Lax'', ck_expires = rq_now rq + ttl\<rparr>)"

definition clear_sso_state_cookie :: "http_env \<Rightarrow> cookie" where
  "clear_sso_state_cookie env =
     \<lparr>ck_name = external_sso_state_cookie_name env, ck_value = [], ck_path = ''/api/auth/sso'', ck_max_age = -1,
      ck_secure = hc_cookie_secure (he_config env), ck_http_only = True, ck_same_site = ''Lax'', ck_expires = unix_epoch\<rparr>"

section \<open>The start\<close>

definition sso_start_route :: "http_env \<Rightarrow> request_context \<Rightarrow> reply route" where
  "sso_start_route env rq =
     (if \<not> hc_sso_enabled (he_config env) then respond_message env rq 404 ''external sso login is disabled''
      else
        abind (require_auth_rate_limit env rq ''auth.sso.start'' (rq_client_ip rq)) (\<lambda>_.
        abind (or_message env rq 500 ''external sso start failed'' (aread (\<lambda>_. new_session_token (rq_fresh rq)))) (\<lambda>state.
        abind (or_message env rq 400 ''external sso start failed'' (aread (\<lambda>_. build_sso_callback_url env rq state))) (\<lambda>callback_url.
        abind (or_message env rq 400 ''external sso start failed''
          (aread (\<lambda>_. build_sso_login_redirect_url env (hc_sso_login_url (he_config env)) callback_url))) (\<lambda>redirect_url.
        aret ((json_reply 302 (RedirectTo redirect_url))\<lparr>rp_cookies := [set_sso_state_cookie env rq state]\<rparr>))))))"

section \<open>The callback\<close>

text \<open>A callback is a POST with a form or a GET with a query; a missing key reads as the empty string.\<close>

record sso_callback =
  sc_post :: bool
  sc_form :: "(string \<times> string) list"

definition form_value :: "sso_callback \<Rightarrow> string \<Rightarrow> string" where
  "form_value cb key = (case map_of (sc_form cb) key of None \<Rightarrow> [] | Some v \<Rightarrow> v)"

definition external_sso_callback_state :: "request_context \<Rightarrow> sso_callback \<Rightarrow> string" where
  "external_sso_callback_state rq cb =
     (if sc_post cb \<and> trim_space (form_value cb ''state'') \<noteq> [] then trim_space (form_value cb ''state'')
      else trim_space (query_value rq ''state''))"

text \<open>For a GET the source also overwrites the token in the query of the request, for the access log.\<close>

definition external_sso_callback_token :: "request_context \<Rightarrow> sso_callback \<Rightarrow> string" where
  "external_sso_callback_token rq cb =
     (if sc_post cb then trim_space (form_value cb ''sso_token'') else trim_space (query_value rq ''sso_token''))"

definition verify_sso_state :: "http_env \<Rightarrow> request_context \<Rightarrow> sso_callback \<Rightarrow> bool" where
  "verify_sso_state env rq cb =
     (let state = external_sso_callback_state rq cb in
      if state = [] then False
      else (case map_of (rq_cookies rq) (external_sso_state_cookie_name env) of
              None \<Rightarrow> False
            | Some v \<Rightarrow> if v = [] then False else hash_session_token (he_auth env) state = v))"

text \<open>\<open>LoginWithExternalSSO\<close> with the validator of the server behind it.\<close>

definition external_sso_login :: "http_env \<Rightarrow> request_context \<Rightarrow> string \<Rightarrow> (http_server, auth_error, auth_result) act" where
  "external_sso_login env rq token s =
     (let login = (\<lambda>validator. on_auth (login_with_external_sso (he_auth env) (he_auth_config env) (rq_fresh rq) (rq_now rq) validator))
      in case hs_validator s of
           None \<Rightarrow> login None s
         | Some v \<Rightarrow>
             if \<not> cf_external_sso_enabled (he_auth_config env) then login None s
             else (case validate_external_sso_token (he_sso env) (rq_now rq) (rq_fetch rq) token v of
                     (answer, w) \<Rightarrow> login (Some answer) (s\<lparr>hs_validator := Some w\<rparr>)))"

definition with_cookie :: "cookie \<Rightarrow> reply \<Rightarrow> reply" where
  "with_cookie ck reply = reply\<lparr>rp_cookies := ck # rp_cookies reply\<rparr>"

definition refuse_callback :: "http_env \<Rightarrow> request_context \<Rightarrow> int \<Rightarrow> 'a route" where
  "refuse_callback env rq status =
     afail (with_cookie (clear_sso_state_cookie env) (message_reply env rq status ''external sso callback failed''))"

definition sso_callback_route :: "http_env \<Rightarrow> request_context \<Rightarrow> sso_callback \<Rightarrow> reply route" where
  "sso_callback_route env rq cb =
     (let token = external_sso_callback_token rq cb;
          cleared = with_cookie (clear_sso_state_cookie env)
      in if \<not> hc_sso_enabled (he_config env) then respond_message env rq 404 ''external sso login is disabled''
         else if \<not> verify_sso_state env rq cb then refuse_callback env rq 400
         else if token = [] then refuse_callback env rq 400
         else
           abind (or_else (external_sso_login env rq token)
             (\<lambda>_. abind (record_audit_event env rq (event_of anonymous ''auth.login_failed'' ''user'' []
                [(''method'', ''external_sso'')])) (\<lambda>_. refuse_callback env rq 401))) (\<lambda>res.
           abind (record_audit_event env rq (user_event (ar_user res) ''auth.login'' [(''method'', ''external_sso'')])) (\<lambda>_.
           aret (cleared ((json_reply 302 (RedirectTo (external_sso_success_redirect env)))
             \<lparr>rp_cookies := [session_cookie env rq (ar_session_token res) (se_expires_at (result_session res))]\<rparr>)))))"

end
