(* ===== verification/Ledger_Routes.thy ===== *)
theory Ledger_Routes
  imports Http_Base Looping
begin

text \<open>
  The routes over the ledger: \<open>httpserver/book_routes.go\<close>, \<open>account_category_routes.go\<close> and the entries, summaries and
  rates of \<open>routes.go\<close>. The actor of every handler is the user of the session of the request.

  A category whose parents form a cycle makes the handler of categories loop; that is \<open>None\<close> in a
  \<open>loop_route\<close>.
\<close>

section \<open>Named strings\<close>

text \<open>The conversions \<open>ledger.Role(s)\<close> and so on, and back for the audit events.\<close>

definition named :: "(string \<times> 'a) list \<Rightarrow> (string \<Rightarrow> 'a) \<Rightarrow> string \<Rightarrow> 'a" where
  "named table other s = (case map_of table s of None \<Rightarrow> other s | Some x \<Rightarrow> x)"

definition role_of_string :: "string \<Rightarrow> role" where
  "role_of_string = named [(''owner'', RoleOwner), (''administrator'', RoleAdministrator), (''member'', RoleMember),
     (''viewer'', RoleViewer)] RoleOther"

definition entry_type_of_string :: "string \<Rightarrow> entry_type" where
  "entry_type_of_string = named [(''expense'', EntryTypeExpense), (''income'', EntryTypeIncome),
     (''transfer'', EntryTypeTransfer), (''refund'', EntryTypeRefund), (''reimbursement'', EntryTypeReimbursement),
     (''borrow'', EntryTypeBorrow), (''lend'', EntryTypeLend), (''repayment'', EntryTypeRepayment)] EntryTypeOther"

definition direction_of_string :: "string \<Rightarrow> category_direction" where
  "direction_of_string = named [(''expense'', CategoryDirectionExpense), (''income'', CategoryDirectionIncome)]
     CategoryDirectionOther"

definition account_type_of_string :: "string \<Rightarrow> account_type" where
  "account_type_of_string = named [(''cash'', AccountTypeCash), (''savings'', AccountTypeSavings),
     (''credit_card'', AccountTypeCreditCard), (''loan'', AccountTypeLoan), (''investment'', AccountTypeInvestment),
     (''payment_platform'', AccountTypePaymentPlatform)] AccountTypeOther"

definition role_text :: "role \<Rightarrow> string" where
  "role_text r = (case r of RoleOwner \<Rightarrow> ''owner'' | RoleAdministrator \<Rightarrow> ''administrator'' | RoleMember \<Rightarrow> ''member''
     | RoleViewer \<Rightarrow> ''viewer'' | RoleOther s \<Rightarrow> s)"

definition entry_type_text :: "entry_type \<Rightarrow> string" where
  "entry_type_text t = (case t of EntryTypeExpense \<Rightarrow> ''expense'' | EntryTypeIncome \<Rightarrow> ''income''
     | EntryTypeTransfer \<Rightarrow> ''transfer'' | EntryTypeRefund \<Rightarrow> ''refund'' | EntryTypeReimbursement \<Rightarrow> ''reimbursement''
     | EntryTypeBorrow \<Rightarrow> ''borrow'' | EntryTypeLend \<Rightarrow> ''lend'' | EntryTypeRepayment \<Rightarrow> ''repayment'' | EntryTypeOther s \<Rightarrow> s)"

definition direction_text :: "category_direction \<Rightarrow> string" where
  "direction_text d = (case d of CategoryDirectionExpense \<Rightarrow> ''expense'' | CategoryDirectionIncome \<Rightarrow> ''income''
     | CategoryDirectionOther s \<Rightarrow> s)"

definition account_type_text :: "account_type \<Rightarrow> string" where
  "account_type_text t = (case t of AccountTypeCash \<Rightarrow> ''cash'' | AccountTypeSavings \<Rightarrow> ''savings''
     | AccountTypeCreditCard \<Rightarrow> ''credit_card'' | AccountTypeLoan \<Rightarrow> ''loan'' | AccountTypeInvestment \<Rightarrow> ''investment''
     | AccountTypePaymentPlatform \<Rightarrow> ''payment_platform'' | AccountTypeOther s \<Rightarrow> s)"

section \<open>Bodies\<close>

record book_create_request =
  wb_name :: string
  wb_reporting_currency :: string

record book_update_request =
  vb_name :: "string option"
  vb_reporting_currency :: "string option"

record book_member_create_request =
  wm_user_id :: string
  wm_role :: string
  wm_display_name :: string

record account_create_request =
  wa_group_id :: string
  wa_name :: string
  wa_type :: string
  wa_currency :: string
  wa_shared_book_ids :: "string list"
  wa_opening_balance_cents :: int

record account_group_create_request =
  wg_name :: string
  wg_sort_order :: int

record account_group_update_request =
  vg_name :: "string option"
  vg_sort_order :: "int option"

record category_create_request =
  wc_parent_id :: string
  wc_name :: string
  wc_direction :: string
  wc_sort_order :: int
  wc_raw_source_name :: string

record category_update_request =
  vc_parent_id :: "string option"
  vc_name :: "string option"
  vc_direction :: "string option"
  vc_sort_order :: "int option"
  vc_archived :: "bool option"
  vc_raw_source_name :: "string option"

record entry_create_request =
  wn_type :: string
  wn_account_id :: string
  wn_destination_account_id :: string
  wn_category_id :: string
  wn_amount_cents :: int
  wn_transaction_currency :: string
  wn_book_reporting_currency :: string
  wn_exchange_rate :: string
  wn_occurred_at :: string
  wn_note :: string
  wn_merchant :: string
  wn_tags :: "string list"

record entry_update_request =
  vn_type :: "string option"
  vn_account_id :: "string option"
  vn_destination_account_id :: "string option"
  vn_category_id :: "string option"
  vn_amount_cents :: "int option"
  vn_transaction_currency :: "string option"
  vn_exchange_rate :: "string option"
  vn_occurred_at :: "string option"
  vn_note :: "string option"
  vn_merchant :: "string option"
  vn_tags :: "string list option"

section \<open>Shared steps\<close>

definition ledger_actor :: "auth_actor \<Rightarrow> actor" where
  "ledger_actor a = \<lparr>at_user_id = aa_user_id a\<rparr>"

text \<open>The event and the answer at the end of a write.\<close>

definition audited :: "http_env \<Rightarrow> request_context \<Rightarrow> record_request \<Rightarrow> int \<Rightarrow> payload \<Rightarrow> reply route" where
  "audited env rq e status body = abind (record_audit_event env rq e) (\<lambda>_. aret (json_reply status body))"

text \<open>A listing: the page from the query, the handler, the answer.\<close>

definition listing_route ::
    "http_env \<Rightarrow> request_context \<Rightarrow> (actor \<Rightarrow> int \<Rightarrow> int \<Rightarrow> memory_store \<Rightarrow> ledger_error + 'a) \<Rightarrow> ('a \<Rightarrow> payload) \<Rightarrow> reply route" where
  "listing_route env rq handler body =
     abind (require_session env rq) (\<lambda>(a, _).
     abind (parse_pagination env rq) (\<lambda>(page, page_size).
     abind (or_ledger_error env rq (aread (handler (ledger_actor a) page page_size))) (\<lambda>x.
     aret (json_reply 200 (body x)))))"

type_synonym 'a loop_route = "(http_server, reply, 'a) loop_act"

definition or_loop_error :: "http_env \<Rightarrow> request_context \<Rightarrow> (memory_store, ledger_error, 'a) loop_act \<Rightarrow> 'a loop_route" where
  "or_loop_error env rq m s =
     (case m (hs_ledger s) of
        None \<Rightarrow> None
      | Some (Inl e, t) \<Rightarrow> Some (Inl (ledger_error_reply env rq e), s\<lparr>hs_ledger := t\<rparr>)
      | Some (Inr x, t) \<Rightarrow> Some (Inr x, s\<lparr>hs_ledger := t\<rparr>))"

section \<open>Books and members\<close>

definition books_route :: "http_env \<Rightarrow> request_context \<Rightarrow> reply route" where
  "books_route env rq = listing_route env rq list_books BookPageBody"

definition create_book_route :: "http_env \<Rightarrow> request_context \<Rightarrow> book_create_request json_body \<Rightarrow> reply route" where
  "create_book_route env rq body =
     abind (require_session env rq) (\<lambda>(a, _).
     abind (decode_strict_json env rq body) (\<lambda>request.
     abind (or_ledger_error env rq (create_book
         \<lparr>cb_actor = ledger_actor a, cb_name = wb_name request, cb_reporting_currency = wb_reporting_currency request\<rparr>
         (rq_new_id rq) (rq_now rq) (default_book_categories (rq_new_id rq) (rq_now rq) (rq_category_id rq)))) (\<lambda>b.
     audited env rq (event_of a ''book.created'' ''book'' (bl_id b) [(''reporting_currency'', bl_reporting_currency b)])
       201 (BookBody b))))"

definition book_route :: "http_env \<Rightarrow> request_context \<Rightarrow> string \<Rightarrow> reply route" where
  "book_route env rq book_id =
     abind (require_session env rq) (\<lambda>(a, _).
     abind (or_ledger_error env rq (aread (get_book (ledger_actor a) book_id))) (\<lambda>b.
     aret (json_reply 200 (BookBody b))))"

definition update_book_route :: "http_env \<Rightarrow> request_context \<Rightarrow> string \<Rightarrow> book_update_request json_body \<Rightarrow> reply route" where
  "update_book_route env rq book_id body =
     abind (require_session env rq) (\<lambda>(a, _).
     abind (decode_strict_json env rq body) (\<lambda>request.
     abind (or_ledger_error env rq (update_book
         \<lparr>ub_actor = ledger_actor a, ub_book_id = book_id, ub_name = vb_name request,
          ub_reporting_currency = vb_reporting_currency request\<rparr> (rq_now rq))) (\<lambda>b.
     audited env rq (event_of a ''book.updated'' ''book'' (bl_id b) [(''reporting_currency'', bl_reporting_currency b)])
       200 (BookBody b))))"

definition members_route :: "http_env \<Rightarrow> request_context \<Rightarrow> string \<Rightarrow> reply route" where
  "members_route env rq book_id = listing_route env rq (\<lambda>a. list_book_members a book_id) MemberPageBody"

definition member_event :: "auth_actor \<Rightarrow> string \<Rightarrow> book_member \<Rightarrow> record_request" where
  "member_event a action m =
     event_of a action ''book_member'' (bm_book_id m @ '':'' @ bm_user_id m)
       [(''book_id'', bm_book_id m), (''member_user_id'', bm_user_id m), (''role'', role_text (bm_role m))]"

definition add_member_route :: "http_env \<Rightarrow> request_context \<Rightarrow> string \<Rightarrow> book_member_create_request json_body \<Rightarrow> reply route" where
  "add_member_route env rq book_id body =
     abind (require_session env rq) (\<lambda>(a, _).
     abind (decode_strict_json env rq body) (\<lambda>request.
     abind (or_ledger_error env rq (add_book_member
         \<lparr>am_actor = ledger_actor a, am_book_id = book_id, am_user_id = wm_user_id request,
          am_role = role_of_string (wm_role request), am_display_name = wm_display_name request\<rparr> (rq_now rq))) (\<lambda>m.
     audited env rq (member_event a ''book_member.added'' m) 201 (MemberBody m))))"

definition update_role_route :: "http_env \<Rightarrow> request_context \<Rightarrow> string \<Rightarrow> string \<Rightarrow> string json_body \<Rightarrow> reply route" where
  "update_role_route env rq book_id user_id body =
     abind (require_session env rq) (\<lambda>(a, _).
     abind (decode_strict_json env rq body) (\<lambda>r.
     abind (or_ledger_error env rq (update_book_member_role
         \<lparr>um_actor = ledger_actor a, um_book_id = book_id, um_user_id = user_id, um_role = role_of_string r\<rparr> (rq_now rq))) (\<lambda>m.
     audited env rq (member_event a ''book_member.role_updated'' m) 200 (MemberBody m))))"

definition remove_member_route :: "http_env \<Rightarrow> request_context \<Rightarrow> string \<Rightarrow> string \<Rightarrow> reply route" where
  "remove_member_route env rq book_id user_id =
     abind (require_session env rq) (\<lambda>(a, _).
     abind (or_ledger_error env rq (remove_book_member
         \<lparr>rm_actor = ledger_actor a, rm_book_id = book_id, rm_user_id = user_id\<rparr> (rq_now rq))) (\<lambda>_.
     audited env rq (event_of a ''book_member.removed'' ''book_member'' (book_id @ '':'' @ user_id)
       [(''book_id'', book_id), (''member_user_id'', user_id)]) 204 NoBody))"

section \<open>Accounts and categories\<close>

definition groups_route :: "http_env \<Rightarrow> request_context \<Rightarrow> reply route" where
  "groups_route env rq = listing_route env rq list_account_groups GroupPageBody"

definition create_group_route :: "http_env \<Rightarrow> request_context \<Rightarrow> account_group_create_request json_body \<Rightarrow> reply route" where
  "create_group_route env rq body =
     abind (require_session env rq) (\<lambda>(a, _).
     abind (decode_strict_json env rq body) (\<lambda>request.
     abind (or_ledger_error env rq (create_account_group
         \<lparr>cg_actor = ledger_actor a, cg_name = wg_name request, cg_sort_order = wg_sort_order request\<rparr>
         (rq_new_id rq) (rq_now rq))) (\<lambda>g.
     audited env rq (event_of a ''account_group.created'' ''account_group'' (ag_id g) []) 201 (GroupBody g))))"

definition update_group_route :: "http_env \<Rightarrow> request_context \<Rightarrow> string \<Rightarrow> account_group_update_request json_body \<Rightarrow> reply route" where
  "update_group_route env rq group_id body =
     abind (require_session env rq) (\<lambda>(a, _).
     abind (decode_strict_json env rq body) (\<lambda>request.
     abind (or_ledger_error env rq (update_account_group
         \<lparr>ug_actor = ledger_actor a, ug_group_id = group_id, ug_name = vg_name request,
          ug_sort_order = vg_sort_order request\<rparr> (rq_now rq))) (\<lambda>g.
     audited env rq (event_of a ''account_group.updated'' ''account_group'' (ag_id g) []) 200 (GroupBody g))))"

definition accounts_route :: "http_env \<Rightarrow> request_context \<Rightarrow> reply route" where
  "accounts_route env rq = listing_route env rq list_accounts AccountPageBody"

definition create_account_route :: "http_env \<Rightarrow> request_context \<Rightarrow> account_create_request json_body \<Rightarrow> reply route" where
  "create_account_route env rq body =
     abind (require_session env rq) (\<lambda>(a, _).
     abind (decode_strict_json env rq body) (\<lambda>request.
     abind (or_ledger_error env rq (create_account
         \<lparr>ca_actor = ledger_actor a, ca_group_id = wa_group_id request, ca_name = wa_name request,
          ca_type = account_type_of_string (wa_type request), ca_currency = wa_currency request,
          ca_shared_book_ids = wa_shared_book_ids request, ca_opening_balance = wa_opening_balance_cents request\<rparr>
         (rq_new_id rq) (rq_now rq))) (\<lambda>x.
     audited env rq (event_of a ''account.created'' ''account'' (ac_id x)
       [(''currency'', ac_currency x), (''type'', account_type_text (ac_type x))]) 201 (AccountBody x))))"

definition unshare_account_route :: "http_env \<Rightarrow> request_context \<Rightarrow> string \<Rightarrow> string \<Rightarrow> reply route" where
  "unshare_account_route env rq account_id book_id =
     abind (require_session env rq) (\<lambda>(a, _).
     abind (or_ledger_error env rq (unshare_account
         \<lparr>ua_actor = ledger_actor a, ua_account_id = account_id, ua_book_id = book_id\<rparr> (rq_now rq))) (\<lambda>x.
     audited env rq (event_of a ''account.unshared'' ''account'' (ac_id x) [(''book_id'', book_id)]) 200 (AccountBody x)))"

definition categories_route :: "http_env \<Rightarrow> request_context \<Rightarrow> string \<Rightarrow> reply route" where
  "categories_route env rq book_id = listing_route env rq (\<lambda>a. list_categories a book_id) CategoryPageBody"

definition category_event :: "auth_actor \<Rightarrow> string \<Rightarrow> category \<Rightarrow> record_request" where
  "category_event a action c =
     event_of a action ''category'' (ct_id c) [(''book_id'', ct_book_id c), (''direction'', direction_text (ct_direction c))]"

definition create_category_route :: "http_env \<Rightarrow> request_context \<Rightarrow> string \<Rightarrow> category_create_request json_body \<Rightarrow> reply loop_route" where
  "create_category_route env rq book_id body =
     lbind (lift_act (require_session env rq)) (\<lambda>(a, _).
     lbind (lift_act (decode_strict_json env rq body)) (\<lambda>request.
     lbind (or_loop_error env rq (create_category
         \<lparr>cc_actor = ledger_actor a, cc_book_id = book_id, cc_parent_id = wc_parent_id request, cc_name = wc_name request,
          cc_direction = direction_of_string (wc_direction request), cc_sort_order = wc_sort_order request,
          cc_raw_source_name = wc_raw_source_name request\<rparr> (rq_new_id rq) (rq_now rq))) (\<lambda>c.
     lift_act (audited env rq (category_event a ''category.created'' c) 201 (CategoryBody c)))))"

definition update_category_route ::
    "http_env \<Rightarrow> request_context \<Rightarrow> string \<Rightarrow> string \<Rightarrow> category_update_request json_body \<Rightarrow> reply loop_route" where
  "update_category_route env rq book_id category_id body =
     lbind (lift_act (require_session env rq)) (\<lambda>(a, _).
     lbind (lift_act (decode_strict_json env rq body)) (\<lambda>request.
     lbind (or_loop_error env rq (update_category
         \<lparr>uc_actor = ledger_actor a, uc_book_id = book_id, uc_category_id = category_id,
          uc_parent_id = vc_parent_id request, uc_name = vc_name request,
          uc_direction = map_option direction_of_string (vc_direction request), uc_sort_order = vc_sort_order request,
          uc_archived = vc_archived request, uc_raw_source_name = vc_raw_source_name request\<rparr> (rq_now rq))) (\<lambda>c.
     lift_act (audited env rq (category_event a ''category.updated'' c) 200 (CategoryBody c)))))"

section \<open>Entries\<close>

definition parse_occurred_at :: "http_env \<Rightarrow> request_context \<Rightarrow> string \<Rightarrow> time route" where
  "parse_occurred_at env rq raw =
     (if raw = [] then respond_message env rq 400 ''invalid occurredAt''
      else (case he_parse_rfc3339 env raw of
              None \<Rightarrow> respond_message env rq 400 ''invalid occurredAt'' | Some t \<Rightarrow> aret t))"

definition parse_optional_occurred_at :: "http_env \<Rightarrow> request_context \<Rightarrow> string option \<Rightarrow> time option route" where
  "parse_optional_occurred_at env rq raw =
     (case raw of None \<Rightarrow> aret None | Some raw \<Rightarrow> abind (parse_occurred_at env rq raw) (\<lambda>t. aret (Some t)))"

definition entries_route :: "http_env \<Rightarrow> request_context \<Rightarrow> string \<Rightarrow> reply route" where
  "entries_route env rq book_id = listing_route env rq (\<lambda>a. list_entries a book_id) EntryListBody"

definition entry_event :: "auth_actor \<Rightarrow> string \<Rightarrow> entry \<Rightarrow> record_request" where
  "entry_event a action e =
     event_of a action ''entry'' (en_id e) [(''book_id'', en_book_id e), (''type'', entry_type_text (en_type e))]"

definition create_entry_route :: "http_env \<Rightarrow> request_context \<Rightarrow> string \<Rightarrow> entry_create_request json_body \<Rightarrow> reply route" where
  "create_entry_route env rq book_id body =
     abind (require_session env rq) (\<lambda>(a, _).
     abind (decode_strict_json env rq body) (\<lambda>request.
     abind (parse_occurred_at env rq (wn_occurred_at request)) (\<lambda>occurred_at.
     abind (or_ledger_error env rq (create_entry (he_parse_uuid env) (he_rational env)
         \<lparr>ce_actor = ledger_actor a, ce_book_id = book_id, ce_creator_user_id = [],
          ce_type = entry_type_of_string (wn_type request), ce_account_id = wn_account_id request,
          ce_destination_account_id = wn_destination_account_id request, ce_category_id = wn_category_id request,
          ce_amount_cents = wn_amount_cents request, ce_transaction_currency = wn_transaction_currency request,
          ce_book_reporting_currency = wn_book_reporting_currency request, ce_exchange_rate = wn_exchange_rate request,
          ce_occurred_at = occurred_at, ce_note = wn_note request, ce_merchant = wn_merchant request,
          ce_tags = wn_tags request\<rparr> (rq_entry_id rq) (rq_now rq))) (\<lambda>e.
     audited env rq (entry_event a ''entry.created'' e) 201 (EntryBody e)))))"

definition update_entry_route ::
    "http_env \<Rightarrow> request_context \<Rightarrow> string \<Rightarrow> string \<Rightarrow> entry_update_request json_body \<Rightarrow> reply route" where
  "update_entry_route env rq book_id entry_id body =
     abind (require_session env rq) (\<lambda>(a, _).
     abind (decode_strict_json env rq body) (\<lambda>request.
     abind (parse_optional_occurred_at env rq (vn_occurred_at request)) (\<lambda>occurred_at.
     abind (or_ledger_error env rq (update_entry (he_rational env)
         \<lparr>ue_actor = ledger_actor a, ue_book_id = book_id, ue_entry_id = entry_id,
          ue_type = map_option entry_type_of_string (vn_type request), ue_account_id = vn_account_id request,
          ue_destination_account_id = vn_destination_account_id request, ue_category_id = vn_category_id request,
          ue_amount_cents = vn_amount_cents request, ue_transaction_currency = vn_transaction_currency request,
          ue_exchange_rate = vn_exchange_rate request, ue_occurred_at = occurred_at, ue_note = vn_note request,
          ue_merchant = vn_merchant request, ue_tags = vn_tags request\<rparr> (rq_now rq))) (\<lambda>e.
     audited env rq (entry_event a ''entry.updated'' e) 200 (EntryBody e)))))"

definition delete_entry_route :: "http_env \<Rightarrow> request_context \<Rightarrow> string \<Rightarrow> string \<Rightarrow> reply route" where
  "delete_entry_route env rq book_id entry_id =
     abind (require_session env rq) (\<lambda>(a, _).
     abind (or_ledger_error env rq (delete_entry (ledger_actor a) book_id entry_id)) (\<lambda>_.
     audited env rq (event_of a ''entry.deleted'' ''entry'' entry_id [(''book_id'', book_id)]) 200 StatusOk))"

section \<open>Summaries and rates\<close>

definition parse_summary_date :: "http_env \<Rightarrow> request_context \<Rightarrow> string \<Rightarrow> string \<Rightarrow> time route" where
  "parse_summary_date env rq key failure =
     (let raw = query_value rq key in
      if raw = [] then aret zero_time
      else (case he_parse_date env raw of None \<Rightarrow> respond_message env rq 400 failure | Some t \<Rightarrow> aret t))"

definition parse_ledger_summary_filter :: "http_env \<Rightarrow> request_context \<Rightarrow> (time \<times> time) route" where
  "parse_ledger_summary_filter env rq =
     (if \<not> query_keys_in rq [''start_date'', ''end_date''] then respond_message env rq 400 ''invalid query filter''
      else
        abind (parse_summary_date env rq ''start_date'' ''invalid start_date'') (\<lambda>start.
        abind (parse_summary_date env rq ''end_date'' ''invalid end_date'') (\<lambda>stop.
        aret (start, stop))))"

definition book_summary_route :: "http_env \<Rightarrow> request_context \<Rightarrow> string \<Rightarrow> reply route" where
  "book_summary_route env rq book_id =
     abind (require_session env rq) (\<lambda>(a, _).
     abind (parse_ledger_summary_filter env rq) (\<lambda>(start, stop).
     abind (or_else (on_ledger (aread (book_summary (he_rational env) (rq_now rq)
         \<lparr>sq_actor = ledger_actor a, sq_book_id = book_id, sq_start_date = start, sq_end_date = stop\<rparr>)))
       (\<lambda>e. case e of
              ErrAccessDenied _ \<Rightarrow> respond_message env rq 403 ''book access denied''
            | Panic _ \<Rightarrow> afail recovered
            | _ \<Rightarrow> respond_message env rq 404 ''book summary not found'')) (\<lambda>sm.
     aret (json_reply 200 (SummaryBody sm)))))"

text \<open>The summary of the demo book, which needs no session.\<close>

definition public_summary_route :: "http_env \<Rightarrow> request_context \<Rightarrow> reply route" where
  "public_summary_route env rq s =
     (Inr (json_reply 200 (SummaryBody (default_summary (he_rational env) (rq_now rq) (hs_ledger s)))), s)"

definition rates_route :: "http_env \<Rightarrow> request_context \<Rightarrow> reply route" where
  "rates_route env rq =
     abind (require_session env rq) (\<lambda>(a, _).
     abind (or_message env rq 500 ''exchange rates unavailable'' (on_ledger (aread (exchange_rates (rq_now rq))))) (\<lambda>rates.
     aret (json_reply 200 (RatesBody rates))))"

end
