(* ===== verification/Http_Server.thy ===== *)
theory Http_Server
  imports SSO_Routes Ledger_Routes Audit_Chain Ledger_Steps Auth_Steps
begin

text \<open>
  The server as one state machine: a call of the API, its route (the registrations in \<open>httpserver/routes.go\<close>),
  and what serving a request does to the state. Whatever the requests, the parts of the server move by the steps of
  their own transition systems, so that their invariants hold for the server; and every request is answered.
\<close>

section \<open>Calls\<close>

datatype auth_call =
    Register "auth_request json_body"
  | Login "auth_request json_body"
  | Logout
  | LogoutAll
  | GetSession
  | RequestVerification
  | ConfirmVerification "email_code_confirm_request json_body"
  | RequestReset "string json_body"
  | ConfirmReset "password_reset_confirm_request json_body"
  | TotpStatus
  | TotpSetup
  | TotpConfirm "string json_body"
  | TotpDisable "string json_body"
  | SsoStart
  | SsoCallback sso_callback

datatype account_call =
    PasskeyLoginBegin
  | PasskeyLoginFinish "passkey_login_finish_request json_body"
  | PasskeyList
  | PasskeyRegisterBegin
  | PasskeyRegisterFinish "passkey_register_finish_request json_body"
  | PasskeyUpdate string "string json_body"
  | PasskeyDelete string
  | GetProfile
  | UpdateProfile "string option json_body"
  | GetAudit
  | GetAdminAudit

datatype book_call =
    ListBooks
  | CreateBook "book_create_request json_body"
  | GetBook string
  | UpdateBook string "book_update_request json_body"
  | ListMembers string
  | AddMember string "book_member_create_request json_body"
  | UpdateRole string string "string json_body"
  | RemoveMember string string
  | ListEntries string
  | CreateEntry string "entry_create_request json_body"
  | UpdateEntry string string "entry_update_request json_body"
  | DeleteEntry string string
  | BookSummary string

datatype ledger_call =
    ListGroups
  | CreateGroup "account_group_create_request json_body"
  | UpdateGroup string "account_group_update_request json_body"
  | ListAccounts
  | CreateAccount "account_create_request json_body"
  | UnshareAccount string string
  | ListCategories string
  | CreateCategory string "category_create_request json_body"
  | UpdateCategory string string "category_update_request json_body"
  | PublicSummary
  | ExchangeRates

datatype api_call = AuthCall auth_call | AccountCall account_call | BookCall book_call | LedgerCall ledger_call

fun auth_call_route :: "http_env \<Rightarrow> request_context \<Rightarrow> auth_call \<Rightarrow> reply route" where
  "auth_call_route env rq (Register body) = register_route env rq body"
| "auth_call_route env rq (Login body) = login_route env rq body"
| "auth_call_route env rq Logout = logout_route env rq"
| "auth_call_route env rq LogoutAll = logout_all_route env rq"
| "auth_call_route env rq GetSession = session_route env rq"
| "auth_call_route env rq RequestVerification = request_verification_route env rq"
| "auth_call_route env rq (ConfirmVerification body) = confirm_verification_route env rq body"
| "auth_call_route env rq (RequestReset body) = request_reset_route env rq body"
| "auth_call_route env rq (ConfirmReset body) = confirm_reset_route env rq body"
| "auth_call_route env rq TotpStatus = totp_status_route env rq"
| "auth_call_route env rq TotpSetup = totp_setup_route env rq"
| "auth_call_route env rq (TotpConfirm body) = totp_confirm_route env rq body"
| "auth_call_route env rq (TotpDisable body) = totp_disable_route env rq body"
| "auth_call_route env rq SsoStart = sso_start_route env rq"
| "auth_call_route env rq (SsoCallback cb) = sso_callback_route env rq cb"

fun account_call_route :: "http_env \<Rightarrow> request_context \<Rightarrow> account_call \<Rightarrow> reply route" where
  "account_call_route env rq PasskeyLoginBegin = passkey_login_begin_route env rq"
| "account_call_route env rq (PasskeyLoginFinish body) = passkey_login_finish_route env rq body"
| "account_call_route env rq PasskeyList = passkey_list_route env rq"
| "account_call_route env rq PasskeyRegisterBegin = passkey_register_begin_route env rq"
| "account_call_route env rq (PasskeyRegisterFinish body) = passkey_register_finish_route env rq body"
| "account_call_route env rq (PasskeyUpdate i body) = passkey_update_route env rq i body"
| "account_call_route env rq (PasskeyDelete i) = passkey_delete_route env rq i"
| "account_call_route env rq GetProfile = profile_route env rq"
| "account_call_route env rq (UpdateProfile body) = update_profile_route env rq body"
| "account_call_route env rq GetAudit = audit_route env rq"
| "account_call_route env rq GetAdminAudit = admin_audit_route env rq"

fun book_call_route :: "http_env \<Rightarrow> request_context \<Rightarrow> book_call \<Rightarrow> reply route" where
  "book_call_route env rq ListBooks = books_route env rq"
| "book_call_route env rq (CreateBook body) = create_book_route env rq body"
| "book_call_route env rq (GetBook b) = book_route env rq b"
| "book_call_route env rq (UpdateBook b body) = update_book_route env rq b body"
| "book_call_route env rq (ListMembers b) = members_route env rq b"
| "book_call_route env rq (AddMember b body) = add_member_route env rq b body"
| "book_call_route env rq (UpdateRole b u body) = update_role_route env rq b u body"
| "book_call_route env rq (RemoveMember b u) = remove_member_route env rq b u"
| "book_call_route env rq (ListEntries b) = entries_route env rq b"
| "book_call_route env rq (CreateEntry b body) = create_entry_route env rq b body"
| "book_call_route env rq (UpdateEntry b e body) = update_entry_route env rq b e body"
| "book_call_route env rq (DeleteEntry b e) = delete_entry_route env rq b e"
| "book_call_route env rq (BookSummary b) = book_summary_route env rq b"

fun ledger_call_route :: "http_env \<Rightarrow> request_context \<Rightarrow> ledger_call \<Rightarrow> reply loop_route" where
  "ledger_call_route env rq ListGroups = lift_act (groups_route env rq)"
| "ledger_call_route env rq (CreateGroup body) = lift_act (create_group_route env rq body)"
| "ledger_call_route env rq (UpdateGroup g body) = lift_act (update_group_route env rq g body)"
| "ledger_call_route env rq ListAccounts = lift_act (accounts_route env rq)"
| "ledger_call_route env rq (CreateAccount body) = lift_act (create_account_route env rq body)"
| "ledger_call_route env rq (UnshareAccount a b) = lift_act (unshare_account_route env rq a b)"
| "ledger_call_route env rq (ListCategories b) = lift_act (categories_route env rq b)"
| "ledger_call_route env rq (CreateCategory b body) = create_category_route env rq b body"
| "ledger_call_route env rq (UpdateCategory b c body) = update_category_route env rq b c body"
| "ledger_call_route env rq PublicSummary = lift_act (public_summary_route env rq)"
| "ledger_call_route env rq ExchangeRates = lift_act (rates_route env rq)"

fun call_route :: "http_env \<Rightarrow> request_context \<Rightarrow> api_call \<Rightarrow> reply loop_route" where
  "call_route env rq (AuthCall c) = lift_act (auth_call_route env rq c)"
| "call_route env rq (AccountCall c) = lift_act (account_call_route env rq c)"
| "call_route env rq (BookCall c) = lift_act (book_call_route env rq c)"
| "call_route env rq (LedgerCall c) = ledger_call_route env rq c"

text \<open>\<open>AttachSession\<close> runs before every route of the API.\<close>

definition serve :: "http_env \<Rightarrow> request_context \<Rightarrow> api_call \<Rightarrow> http_server \<Rightarrow> (reply \<times> http_server) option" where
  "serve env rq call s =
     (case call_route env (attach_session env rq s) call s of
        None \<Rightarrow> None
      | Some (Inl reply, t) \<Rightarrow> Some (reply, t)
      | Some (Inr reply, t) \<Rightarrow> Some (reply, t))"

text \<open>The calls registered behind \<open>RequireSession\<close>.\<close>

fun needs_session :: "api_call \<Rightarrow> bool" where
  "needs_session (AuthCall c) =
     (case c of LogoutAll \<Rightarrow> True | GetSession \<Rightarrow> True | TotpStatus \<Rightarrow> True | TotpSetup \<Rightarrow> True
      | TotpConfirm _ \<Rightarrow> True | TotpDisable _ \<Rightarrow> True | _ \<Rightarrow> False)"
| "needs_session (AccountCall c) =
     (case c of PasskeyLoginBegin \<Rightarrow> False | PasskeyLoginFinish _ \<Rightarrow> False | _ \<Rightarrow> True)"
| "needs_session (BookCall c) = True"
| "needs_session (LedgerCall c) = (case c of PublicSummary \<Rightarrow> False | _ \<Rightarrow> True)"

end
