(* ===== verification/Http_Steps.thy ===== *)
theory Http_Steps
  imports Http_Server
begin

text \<open>
  What serving a request does to the parts of the server: the authentication store moves by the steps of its
  transition system, the ledger by those of its own, the audit log only grows and its chain stays whole, the metadata
  of the external sign-on stay checked. And every request is answered.
\<close>

section \<open>How the server moves\<close>

definition audit_ok :: "digest \<Rightarrow> http_server \<Rightarrow> bool" where
  "audit_ok digest s \<longleftrightarrow>
     (case hs_audit s of None \<Rightarrow> True | Some events \<Rightarrow> int (length events) < 2 ^ 63 - 1 \<longrightarrow> chained digest 1 [] events)"

definition sso_ok :: "sso_env \<Rightarrow> http_server \<Rightarrow> bool" where
  "sso_ok env s \<longleftrightarrow> (case hs_validator s of None \<Rightarrow> True | Some v \<Rightarrow> validator_ok env v)"

definition log_extends :: "audit_memory option \<Rightarrow> audit_memory option \<Rightarrow> bool" where
  "log_extends old new \<longleftrightarrow> (\<exists>events. new = map_option (\<lambda>l. l @ events) old)"

definition advances :: "http_env \<Rightarrow> time \<Rightarrow> http_server \<Rightarrow> http_server \<Rightarrow> bool" where
  "advances env until s t \<longleftrightarrow>
     auth_path (he_auth env) (he_webauthn env) (he_auth_config env) until (hs_auth s) (hs_auth t) \<and>
     reachable (he_parse_uuid env) (he_rational env) (hs_ledger s) (hs_ledger t) \<and>
     log_extends (hs_audit s) (hs_audit t) \<and> (audit_ok (he_digest env) s \<longrightarrow> audit_ok (he_digest env) t) \<and>
     (sso_ok (he_sso env) s \<longrightarrow> sso_ok (he_sso env) t)"

lemma log_extends_refl: "log_extends l l"
  unfolding log_extends_def by (rule exI [of _ "[]"]) (cases l; simp)

lemma log_extends_trans: "log_extends a b \<Longrightarrow> log_extends b c \<Longrightarrow> log_extends a c"
  by (cases a) (auto simp: log_extends_def)

lemma advances_refl: "advances env until s s"
  by (simp add: advances_def log_extends_refl auth_path.path_refl reachable.start)

lemma auth_path_trans:
  "auth_path env wa cfg until t u \<Longrightarrow> auth_path env wa cfg until s t \<Longrightarrow> auth_path env wa cfg until s u"
  by (induction rule: auth_path.induct) (auto intro: auth_path.path_step)

lemma reachable_trans: "reachable parse other t u \<Longrightarrow> reachable parse other s t \<Longrightarrow> reachable parse other s u"
  by (induction rule: reachable.induct) (auto intro: reachable.step)

lemma advances_trans: "advances env until s t \<Longrightarrow> advances env until t u \<Longrightarrow> advances env until s u"
  unfolding advances_def by (blast intro: auth_path_trans reachable_trans log_extends_trans)

text \<open>A request at an instant before the end of the path, with identifiers like those of the UUID library.\<close>

definition request_ok :: "time \<Rightarrow> request_context \<Rightarrow> bool" where
  "request_ok until rq \<longleftrightarrow> rq_now rq < until \<and> (\<forall>k. trim_space (rq_category_id rq k) = rq_category_id rq k)"

section \<open>Each step of a route\<close>

definition advancing :: "http_env \<Rightarrow> time \<Rightarrow> (http_server, 'e, 'a) act \<Rightarrow> bool" where
  "advancing env until m \<longleftrightarrow> (\<forall>s. advances env until s (snd (m s)))"

lemma advancingI: "(\<And>s r t. m s = (r, t) \<Longrightarrow> advances env until s t) \<Longrightarrow> advancing env until m"
  unfolding advancing_def by (metis prod.collapse)

lemma advancingD: "advancing env until m \<Longrightarrow> m s = (r, t) \<Longrightarrow> advances env until s t"
  unfolding advancing_def by (metis snd_conv)

lemma advancing_bind:
  "advancing env until m \<Longrightarrow> (\<And>x. advancing env until (f x)) \<Longrightarrow> advancing env until (abind m f)"
proof (rule advancingI)
  fix s r u assume m: "advancing env until m" and f: "\<And>x. advancing env until (f x)" and run: "abind m f s = (r, u)"
  obtain q t where q: "m s = (q, t)" by (cases "m s")
  note first = advancingD [OF m q]
  show "advances env until s u"
  proof (cases q)
    case (Inl e)
    then show ?thesis using run q first by (simp add: abind_def)
  next
    case (Inr x)
    then have "f x t = (r, u)" using run q by (simp add: abind_def)
    then show ?thesis using advances_trans [OF first advancingD [OF f]] by blast
  qed
qed

lemma advancing_still: "(\<And>s. snd (m s) = s) \<Longrightarrow> advancing env until m"
  by (simp add: advancing_def advances_refl)

lemma advancing_basic:
  "advancing env until (aret x)" "advancing env until (afail e)" "advancing env until (aread f)"
  "advancing env until (aguard b e)" "advancing env until (respond_message e' rq status message)"
  by (rule advancing_still; simp add: aret_def afail_def aread_def aguard_def respond_message_def)+

lemma advancing_if: "advancing env until m \<Longrightarrow> advancing env until n \<Longrightarrow> advancing env until (if b then m else n)"
  by simp

lemma advancing_option:
  "advancing env until m \<Longrightarrow> (\<And>y. advancing env until (f y)) \<Longrightarrow>
   advancing env until (case x of None \<Rightarrow> m | Some y \<Rightarrow> f y)"
  by (cases x) simp_all

lemma advancing_sum:
  "(\<And>y. advancing env until (f y)) \<Longrightarrow> (\<And>y. advancing env until (g y)) \<Longrightarrow>
   advancing env until (case x of Inl y \<Rightarrow> f y | Inr y \<Rightarrow> g y)"
  by (cases x) simp_all

lemma advancing_prod: "(\<And>a b. advancing env until (f a b)) \<Longrightarrow> advancing env until (case x of (a, b) \<Rightarrow> f a b)"
  by (cases x) simp

lemma advancing_or_else:
  "advancing env until m \<Longrightarrow> (\<And>e. advancing env until (h e)) \<Longrightarrow> advancing env until (or_else m h)"
proof (rule advancingI)
  fix s r u assume m: "advancing env until m" and h: "\<And>e. advancing env until (h e)" and run: "or_else m h s = (r, u)"
  obtain q t where q: "m s = (q, t)" by (cases "m s")
  note first = advancingD [OF m q]
  show "advances env until s u"
  proof (cases q)
    case (Inl e)
    then have "h e t = (r, u)" using run q by (simp add: or_else_def)
    then show ?thesis using advances_trans [OF first advancingD [OF h]] by blast
  next
    case (Inr x)
    then show ?thesis using run q first by (simp add: or_else_def)
  qed
qed

lemma advancing_or_message: "advancing env until m \<Longrightarrow> advancing env until (or_message e rq status message m)"
  unfolding or_message_def by (intro advancing_or_else advancing_basic)

lemma advancing_auth_read: "advancing env until (on_auth (aread f))"
  by (rule advancing_still) (simp add: on_auth_def aread_def)

lemma advancing_on_auth:
  assumes "request_ok until rq"
    and step: "\<And>a. auth_step (he_auth env) (he_webauthn env) (he_auth_config env) (rq_now rq) a (snd (m a))"
  shows "advancing env until (on_auth m)"
proof (rule advancingI)
  fix s r t assume run: "on_auth m s = (r, t)"
  then have t: "t = s\<lparr>hs_auth := snd (m (hs_auth s))\<rparr>" by (auto simp: on_auth_def split: prod.splits)
  have "auth_path (he_auth env) (he_webauthn env) (he_auth_config env) until (hs_auth s) (snd (m (hs_auth s)))"
    using assms(1) by (intro auth_path.path_step [OF auth_path.path_refl step]) (simp add: request_ok_def)
  then show "advances env until s t"
    by (simp add: advances_def t log_extends_refl reachable.start audit_ok_def sso_ok_def)
qed

lemma ledger_advances:
  assumes "reachable (he_parse_uuid env) (he_rational env) (hs_ledger s) l"
  shows "advances env until s (s\<lparr>hs_ledger := l\<rparr>)"
  using assms by (simp add: advances_def log_extends_refl auth_path.path_refl audit_ok_def sso_ok_def)

lemma advancing_on_ledger:
  assumes step: "\<And>l r l'. m l = (r, l') \<Longrightarrow> ledger_step (he_parse_uuid env) (he_rational env) l l'"
  shows "advancing env until (or_ledger_error e rq m)"
  unfolding or_ledger_error_def
proof (rule advancing_or_else [OF advancingI advancing_basic(2)])
  fix s r t assume "on_ledger m s = (r, t)"
  then obtain l where "m (hs_ledger s) = (r, l)" "t = s\<lparr>hs_ledger := l\<rparr>" by (auto simp: on_ledger_def split: prod.splits)
  then show "advances env until s t" using ledger_advances reachable.step [OF reachable.start step] by blast
qed

lemma advancing_ledger_read:
  "advancing env until (on_ledger (aread f))" "advancing env until (or_ledger_error e rq (aread f))"
proof -
  show "advancing env until (on_ledger (aread f))" by (rule advancing_still) (simp add: on_ledger_def aread_def)
  then show "advancing env until (or_ledger_error e rq (aread f))"
    unfolding or_ledger_error_def by (intro advancing_or_else advancing_basic)
qed

lemma advancing_record: "advancing env until (record_audit_event env rq request)"
proof (rule advancingI)
  fix s r t assume run: "record_audit_event env rq request s = (r, t)"
  show "advances env until s t"
  proof (cases "hs_audit s")
    case None
    then show ?thesis using run by (simp add: record_audit_event_def advances_refl)
  next
    case (Some events)
    obtain q new where new: "audit_record (he_digest env) au_save_event au_tail request (rq_event_id rq) (rq_now rq) events = (q, new)"
      by fastforce
    then have t: "t = s\<lparr>hs_audit := Some new\<rparr>" using run Some by (auto simp: record_audit_event_def)
    have grown: "\<exists>more. new = events @ more"
    proof (cases q)
      case (Inl e)
      then show ?thesis using memory_log.record_refused new by (metis append_Nil2)
    next
      case (Inr e)
      then show ?thesis using memory_log.record_appends(1) [OF new [unfolded Inr]] by blast
    qed
    then have len: "length events \<le> length new" by auto
    have "chained (he_digest env) 1 [] new"
      if "int (length events) < 2 ^ 63 - 1 \<longrightarrow> chained (he_digest env) 1 [] events" "int (length new) < 2 ^ 63 - 1"
      using memory_log.record_keeps_chain [OF _ _ new] that len by simp
    then show ?thesis
      using grown Some by (auto simp: advances_def t auth_path.path_refl reachable.start log_extends_def audit_ok_def sso_ok_def)
  qed
qed

lemma advancing_limiter: "advancing env until (require_auth_rate_limit e rq name subject)"
  by (rule advancingI) (auto simp: require_auth_rate_limit_def advances_def auth_path.path_refl reachable.start
      log_extends_refl audit_ok_def sso_ok_def split: prod.splits)

lemma advancing_session: "advancing env until (require_session e rq)"
  unfolding require_session_def by (intro advancing_option advancing_basic)

lemma advancing_decode: "advancing env until (decode_strict_json e rq body)"
  unfolding decode_strict_json_def by (intro advancing_sum advancing_if advancing_basic)

lemma advancing_pagination: "advancing env until (parse_pagination e rq)"
  unfolding parse_pagination_def Let_def
  by (intro advancing_if advancing_bind advancing_option advancing_basic)

lemmas advancing_rules =
  advancing_basic advancing_bind advancing_if advancing_option advancing_prod advancing_or_else advancing_or_message
  advancing_auth_read advancing_ledger_read advancing_record advancing_limiter advancing_session advancing_decode advancing_pagination

section \<open>Each route\<close>

lemma finish_login_advances: "advancing env until (finish_login env rq res action method)"
  unfolding finish_login_def by (intro advancing_rules)

lemma login_failure_advances: "advancing env until (login_failure env rq email e)"
  unfolding login_failure_def Let_def by (cases e) (simp_all, (intro advancing_rules)+)

lemma auth_routes_advance:
  assumes ok: "request_ok until rq"
  shows "advancing env until (register_route env rq b1)"
    "advancing env until (login_route env rq b2)"
    "advancing env until (logout_route env rq)"
    "advancing env until (logout_all_route env rq)"
    "advancing env until (session_route env rq)"
    "advancing env until (request_verification_route env rq)"
    "advancing env until (request_reset_route env rq b3)"
    "advancing env until (confirm_verification_route env rq b4)"
    "advancing env until (confirm_reset_route env rq b5)"
  unfolding register_route_def login_route_def logout_route_def logout_all_route_def session_route_def
    request_verification_route_def request_reset_route_def request_code_route_def confirm_verification_route_def
    confirm_reset_route_def Let_def
  by (intro advancing_rules advancing_on_auth [OF ok] auth_step.intros finish_login_advances login_failure_advances)+

lemma totp_routes_advance:
  assumes ok: "request_ok until rq"
  shows "advancing env until (totp_status_route env rq)"
    "advancing env until (totp_setup_route env rq)"
    "advancing env until (totp_confirm_route env rq b1)"
    "advancing env until (totp_disable_route env rq b2)"
  unfolding totp_status_route_def totp_setup_route_def totp_confirm_route_def totp_disable_route_def
  by (intro advancing_rules advancing_on_auth [OF ok] auth_step.intros)+

lemma account_routes_advance:
  assumes ok: "request_ok until rq"
  shows "advancing env until (passkey_login_begin_route env rq)"
    "advancing env until (passkey_login_finish_route env rq b1)"
    "advancing env until (passkey_list_route env rq)"
    "advancing env until (passkey_register_begin_route env rq)"
    "advancing env until (passkey_register_finish_route env rq b2)"
    "advancing env until (passkey_update_route env rq i b3)"
    "advancing env until (passkey_delete_route env rq i)"
    "advancing env until (profile_route env rq)"
    "advancing env until (update_profile_route env rq b4)"
  unfolding passkey_login_begin_route_def passkey_login_finish_route_def passkey_list_route_def
    passkey_register_begin_route_def passkey_register_finish_route_def passkey_update_route_def
    passkey_delete_route_def profile_route_def update_profile_route_def
  by (intro advancing_rules advancing_on_auth [OF ok] auth_step.intros finish_login_advances)+

lemma audit_answer_advances: "advancing env until (\<lambda>s. audit_answer e rq (f s) s)"
  by (rule advancing_still)
    (simp add: audit_answer_def respond_message_def afail_def aret_def split: option.splits sum.splits)

lemma audit_routes_advance:
  "advancing env until (audit_route env rq)" "advancing env until (admin_audit_route env rq)"
  unfolding audit_route_def admin_audit_route_def by (intro advancing_rules audit_answer_advances)+

lemma validator_advances:
  assumes "hs_validator s = Some v" and "validate_external_sso_token (he_sso env) now fetch token v = (r, w)"
  shows "advances env until s (s\<lparr>hs_validator := Some w\<rparr>)"
  using keepsD [OF validate_token_keeps _ assms(2)] assms(1)
  by (auto simp: advances_def auth_path.path_refl reachable.start log_extends_refl audit_ok_def sso_ok_def)

lemma sso_routes_advance:
  assumes ok: "request_ok until rq"
  shows "advancing env until (sso_start_route env rq)" "advancing env until (sso_callback_route env rq cb)"
proof -
  show "advancing env until (sso_start_route env rq)" unfolding sso_start_route_def by (intro advancing_rules)
  have inner: "advancing env until (on_auth (login_with_external_sso (he_auth env) (he_auth_config env) (rq_fresh rq) (rq_now rq) answer))"
    for answer by (intro advancing_on_auth [OF ok] auth_step.intros)
  have login: "advancing env until (external_sso_login env rq token)" for token
  proof (rule advancingI)
    fix s r t assume run: "external_sso_login env rq token s = (r, t)"
    show "advances env until s t"
    proof (cases "hs_validator s = None \<or> \<not> cf_external_sso_enabled (he_auth_config env)")
      case True
      then have "on_auth (login_with_external_sso (he_auth env) (he_auth_config env) (rq_fresh rq) (rq_now rq) None) s = (r, t)"
        using run by (auto simp: external_sso_login_def split: option.splits)
      then show ?thesis by (rule advancingD [OF inner])
    next
      case False
      then obtain v answer w where v: "hs_validator s = Some v"
        and answer: "validate_external_sso_token (he_sso env) (rq_now rq) (rq_fetch rq) token v = (answer, w)"
        by (cases "validate_external_sso_token (he_sso env) (rq_now rq) (rq_fetch rq) token (the (hs_validator s))") auto
      then have "on_auth (login_with_external_sso (he_auth env) (he_auth_config env) (rq_fresh rq) (rq_now rq) (Some answer))
          (s\<lparr>hs_validator := Some w\<rparr>) = (r, t)"
        using run False by (simp add: external_sso_login_def)
      then show ?thesis using advances_trans [OF validator_advances [OF v answer] advancingD [OF inner]] by blast
    qed
  qed
  show "advancing env until (sso_callback_route env rq cb)"
    unfolding sso_callback_route_def Let_def refuse_callback_def by (intro advancing_rules login)
qed

lemma listing_advances: "advancing env until (listing_route env rq handler body)"
  unfolding listing_route_def by (intro advancing_rules)

lemma audited_advances: "advancing env until (audited env rq e status body)"
  unfolding audited_def by (intro advancing_rules)

lemma occurred_at_advances:
  "advancing env until (parse_occurred_at e rq raw)" "advancing env until (parse_optional_occurred_at e rq raw')"
  unfolding parse_optional_occurred_at_def parse_occurred_at_def by (intro advancing_rules)+

lemma summary_route_advances:
  "advancing env until (book_summary_route env rq b)" "advancing env until (public_summary_route env rq)"
  "advancing env until (rates_route env rq)"
proof -
  have "advancing env until (case e of ErrAccessDenied _ \<Rightarrow> respond_message env rq 403 m | Panic _ \<Rightarrow> afail recovered
      | _ \<Rightarrow> respond_message env rq 404 m')" for e m m'
    by (cases e) (simp_all add: advancing_basic)
  then show "advancing env until (book_summary_route env rq b)"
    unfolding book_summary_route_def parse_ledger_summary_filter_def parse_summary_date_def Let_def
    by (intro advancing_rules)
  show "advancing env until (public_summary_route env rq)"
    by (rule advancing_still) (simp add: public_summary_route_def)
  show "advancing env until (rates_route env rq)" unfolding rates_route_def by (intro advancing_rules)
qed

lemma ledger_writes_advance:
  "advancing env until (or_ledger_error e rq (update_book q1 now))"
  "advancing env until (or_ledger_error e rq (add_book_member q2 now))"
  "advancing env until (or_ledger_error e rq (update_book_member_role q3 now))"
  "advancing env until (or_ledger_error e rq (remove_book_member q4 now))"
  "advancing env until (or_ledger_error e rq (create_account_group q5 fresh now))"
  "advancing env until (or_ledger_error e rq (update_account_group q6 now))"
  "advancing env until (or_ledger_error e rq (create_account q7 fresh now))"
  "advancing env until (or_ledger_error e rq (unshare_account q8 now))"
  "advancing env until (or_ledger_error e rq (create_entry (he_parse_uuid env) (he_rational env) q9 new_id now))"
  "advancing env until (or_ledger_error e rq (update_entry (he_rational env) q10 now))"
  "advancing env until (or_ledger_error e rq (delete_entry a b i))"
  by (rule advancing_on_ledger, erule ledger_step.intros)+

lemma create_book_advances:
  "request_ok until rq \<Longrightarrow>
   advancing env until (or_ledger_error e rq (create_book q fresh now (default_book_categories fresh now (rq_category_id rq))))"
  by (rule advancing_on_ledger, rule ledger_step.create_book) (simp_all add: request_ok_def)

lemma book_routes_advance:
  assumes ok: "request_ok until rq"
  shows "advancing env until (book_call_route env rq c)"
  by (cases c)
    (simp_all only: book_call_route.simps books_route_def create_book_route_def book_route_def update_book_route_def
       members_route_def add_member_route_def update_role_route_def remove_member_route_def entries_route_def
       create_entry_route_def update_entry_route_def delete_entry_route_def,
     (intro advancing_rules create_book_advances [OF ok] ledger_writes_advance audited_advances listing_advances
        occurred_at_advances summary_route_advances)+)

text \<open>The calls that contain a loop: they return when the ledger is well formed.\<close>

definition serves :: "http_env \<Rightarrow> time \<Rightarrow> (http_server, 'e, 'a) loop_act \<Rightarrow> bool" where
  "serves env until m \<longleftrightarrow> (\<forall>s. ledger_ok (hs_ledger s) \<longrightarrow> (\<exists>r t. m s = Some (r, t) \<and> advances env until s t))"

lemma advances_ledger_ok: "advances env until s t \<Longrightarrow> ledger_ok (hs_ledger s) \<Longrightarrow> ledger_ok (hs_ledger t)"
  using reachable_ok by (auto simp: advances_def)

lemma serves_lift: "advancing env until m \<Longrightarrow> serves env until (lift_act m)"
  unfolding serves_def lift_act_def advancing_def by (metis prod.collapse)

lemma serves_bind:
  assumes m: "serves env until m" and f: "\<And>x. serves env until (f x)"
  shows "serves env until (lbind m f)"
  unfolding serves_def
proof (intro allI impI)
  fix s :: http_server assume ok: "ledger_ok (hs_ledger s)"
  obtain q t where q: "m s = Some (q, t)" and first: "advances env until s t" using m ok unfolding serves_def by blast
  show "\<exists>r u. lbind m f s = Some (r, u) \<and> advances env until s u"
  proof (cases q)
    case (Inl e)
    then show ?thesis using q first by (simp add: lbind_def)
  next
    case (Inr x)
    obtain r u where "f x t = Some (r, u)" "advances env until t u"
      using f [of x] advances_ledger_ok [OF first ok] unfolding serves_def by blast
    then show ?thesis using q Inr advances_trans [OF first] by (auto simp: lbind_def)
  qed
qed

lemma serves_prod: "(\<And>a b. serves env until (f a b)) \<Longrightarrow> serves env until (case x of (a, b) \<Rightarrow> f a b)"
  by (cases x) simp

lemma serves_loop:
  assumes returns: "\<And>l. ledger_ok l \<Longrightarrow> m l \<noteq> None"
    and step: "\<And>l r l'. m l = Some (r, l') \<Longrightarrow> ledger_step (he_parse_uuid env) (he_rational env) l l'"
  shows "serves env until (or_loop_error e rq m)"
  unfolding serves_def
proof (intro allI impI)
  fix s :: http_server assume "ledger_ok (hs_ledger s)"
  then obtain r l where run: "m (hs_ledger s) = Some (r, l)" using returns by (metis not_None_eq prod.collapse)
  have "advances env until s (s\<lparr>hs_ledger := l\<rparr>)"
    by (rule ledger_advances [OF reachable.step [OF reachable.start step [OF run]]])
  then show "\<exists>r t. or_loop_error e rq m s = Some (r, t) \<and> advances env until s t"
    using run by (cases r) (auto simp: or_loop_error_def)
qed

lemma category_calls_serve:
  "serves env until (or_loop_error e rq (create_category q fresh now))"
  "serves env until (or_loop_error e rq (update_category q' now))"
proof -
  have returns: "create_category q fresh now l \<noteq> None" "update_category q' now l \<noteq> None" if "ledger_ok l" for l
    using category_handlers_return [OF ledger_okD(1,3) [OF that]] by blast+
  show "serves env until (or_loop_error e rq (create_category q fresh now))"
    by (rule serves_loop [OF returns(1)]) (auto intro: ledger_step.create_category)
  show "serves env until (or_loop_error e rq (update_category q' now))"
    by (rule serves_loop [OF returns(2)]) (auto intro: ledger_step.update_category)
qed

lemma ledger_routes_serve:
  assumes ok: "request_ok until rq"
  shows "serves env until (ledger_call_route env rq c)"
  by (cases c)
    (simp_all only: ledger_call_route.simps groups_route_def create_group_route_def update_group_route_def accounts_route_def
       create_account_route_def unshare_account_route_def categories_route_def create_category_route_def
       update_category_route_def,
     (intro serves_lift serves_bind serves_prod category_calls_serve advancing_rules ledger_writes_advance audited_advances
        listing_advances summary_route_advances)+)

lemma auth_calls_advance: "request_ok until rq \<Longrightarrow> advancing env until (auth_call_route env rq c)"
  by (cases c) (simp_all add: auth_routes_advance totp_routes_advance sso_routes_advance)

lemma account_calls_advance: "request_ok until rq \<Longrightarrow> advancing env until (account_call_route env rq c)"
  by (cases c) (simp_all add: account_routes_advance audit_routes_advance)

lemma attach_session_ok: "request_ok until rq \<Longrightarrow> request_ok until (attach_session env rq s)"
  by (simp add: attach_session_def request_ok_def split: option.splits sum.splits)

text \<open>A served request.\<close>

lemma request_served:
  assumes ok: "request_ok until rq" and ledger: "ledger_ok (hs_ledger (s :: http_server))"
  shows "\<exists>reply t. serve env rq call s = Some (reply, t) \<and> advances env until s t"
proof -
  let ?rq = "attach_session env rq s"
  note ok' = attach_session_ok [OF ok, of env s]
  have "serves env until (call_route env ?rq call)"
    by (cases call)
      (simp_all add: serves_lift auth_calls_advance [OF ok'] account_calls_advance [OF ok'] book_routes_advance [OF ok']
        ledger_routes_serve [OF ok'])
  then obtain r t where "call_route env ?rq call s = Some (r, t)" "advances env until s t"
    using ledger unfolding serves_def by blast
  then show ?thesis by (cases r) (auto simp: serve_def)
qed

section \<open>Runs of the server\<close>

inductive server_path :: "http_env \<Rightarrow> time \<Rightarrow> http_server \<Rightarrow> http_server \<Rightarrow> bool" for env until s where
  server_start: "server_path env until s s"
| server_step: "server_path env until s t \<Longrightarrow> serve env rq call t = Some (reply, u) \<Longrightarrow> request_ok until rq \<Longrightarrow>
    server_path env until s u"

lemma server_path_advances:
  "server_path env until s t \<Longrightarrow> ledger_ok (hs_ledger s) \<Longrightarrow> advances env until s t"
proof (induction rule: server_path.induct)
  case server_start
  show ?case by (rule advances_refl)
next
  case (server_step t rq call reply u)
  then have first: "advances env until s t" by simp
  have "\<exists>reply' u'. serve env rq call t = Some (reply', u') \<and> advances env until t u'"
    by (rule request_served [OF server_step.hyps(3) advances_ledger_ok [OF first server_step.prems]])
  then show ?case using server_step.hyps(2) advances_trans [OF first] by auto
qed

text \<open>The invariant of the server, the sum of those of its parts.\<close>

definition server_ok :: "http_env \<Rightarrow> http_server \<Rightarrow> bool" where
  "server_ok env s \<longleftrightarrow> auth_ok (hs_auth s) \<and> ledger_ok (hs_ledger s) \<and> audit_ok (he_digest env) s \<and> sso_ok (he_sso env) s"

lemma advances_server_ok: "advances env until s t \<Longrightarrow> server_ok env s \<Longrightarrow> server_ok env t"
  using advances_ledger_ok [of env until s t] auth_path_ok [of "he_auth env" "he_webauthn env" "he_auth_config env" until]
  by (auto simp: server_ok_def advances_def)

end
