(* ===== verification/Http_Facts.thy ===== *)
theory Http_Facts
  imports Http_Steps Auth_Login
begin

text \<open>
  Facts about single routes: which answers they can give, which of them set the session cookie, and what a run
  that ends in a login did to the sessions.
\<close>

section \<open>The answers of a route\<close>

definition refusals :: "(reply \<Rightarrow> bool) \<Rightarrow> (http_server, reply, 'a) act \<Rightarrow> bool" where
  "refusals Q m \<longleftrightarrow> (\<forall>s e t. m s = (Inl e, t) \<longrightarrow> Q e)"

definition answers :: "(reply \<Rightarrow> bool) \<Rightarrow> reply route \<Rightarrow> bool" where
  "answers Q m \<longleftrightarrow> refusals Q m \<and> (\<forall>s x t. m s = (Inr x, t) \<longrightarrow> Q x)"

lemma refusals_bind: "refusals Q m \<Longrightarrow> (\<And>x. refusals Q (f x)) \<Longrightarrow> refusals Q (abind m f)"
  unfolding refusals_def by (metis abind_Inl_iff)

lemma answers_bind: "refusals Q m \<Longrightarrow> (\<And>x. answers Q (f x)) \<Longrightarrow> answers Q (abind m f)"
  unfolding answers_def using refusals_bind [of Q m f] by (auto simp: abind_Inr_iff)

lemma refusals_basic: "refusals Q (aret x)" "Q e \<Longrightarrow> refusals Q (afail e)"
  by (auto simp: refusals_def)

lemma answers_basic: "Q x \<Longrightarrow> answers Q (aret x)" "Q e \<Longrightarrow> answers Q (afail e)"
  by (auto simp: answers_def refusals_def)

lemma refusals_message: "Q (message_reply e rq status message) \<Longrightarrow> refusals Q (respond_message e rq status message)"
  "Q (message_reply e rq status message) \<Longrightarrow> answers Q (respond_message e rq status message)"
  by (auto simp: respond_message_def refusals_basic answers_basic)

lemma refusals_if: "refusals Q m \<Longrightarrow> refusals Q n \<Longrightarrow> refusals Q (if b then m else n)"
  "answers Q m' \<Longrightarrow> answers Q n' \<Longrightarrow> answers Q (if b then m' else n')"
  by simp_all

lemma refusals_cases:
  "refusals Q m \<Longrightarrow> (\<And>y. refusals Q (f y)) \<Longrightarrow> refusals Q (case x of None \<Rightarrow> m | Some y \<Rightarrow> f y)"
  "(\<And>y. refusals Q (g y)) \<Longrightarrow> (\<And>y. refusals Q (h y)) \<Longrightarrow> refusals Q (case z of Inl y \<Rightarrow> g y | Inr y \<Rightarrow> h y)"
  "(\<And>a b. answers Q (k a b)) \<Longrightarrow> answers Q (case p of (a, b) \<Rightarrow> k a b)"
  "(\<And>a b. refusals Q (l a b)) \<Longrightarrow> refusals Q (case p of (a, b) \<Rightarrow> l a b)"
  subgoal by (cases x) simp_all
  subgoal by (cases z) simp_all
  subgoal by (cases p) simp
  subgoal by (cases p) simp
  done

lemma refusals_or_else: "(\<And>e. refusals Q (h e)) \<Longrightarrow> refusals Q (or_else m h)"
  by (auto simp: refusals_def or_else_def split: prod.splits sum.splits)

lemma refusals_record: "refusals Q (record_audit_event e rq request)"
  by (auto simp: refusals_def record_audit_event_def split: option.splits)

section \<open>Cookies\<close>

text \<open>An answer that sets no session: its cookies are empty or have another name.\<close>

definition no_session_set :: "http_env \<Rightarrow> reply \<Rightarrow> bool" where
  "no_session_set env reply \<longleftrightarrow> (\<forall>ck \<in> set (rp_cookies reply). ck_value ck = [] \<or> ck_name ck \<noteq> hc_cookie_name (he_config env))"

lemma plain_no_session [simp]:
  "no_session_set env (json_reply status body)" "no_session_set env (message_reply e rq status message)"
  "no_session_set env recovered" "no_session_set env (ledger_error_reply e rq le)"
  by (auto simp: no_session_set_def json_reply_def message_reply_def recovered_def ledger_error_reply_def split: ledger_error.splits)

lemma cleared_no_session [simp]:
  "no_session_set env ((json_reply status body)\<lparr>rp_cookies := [clear_session_cookie env]\<rparr>)"
  "no_session_set env (with_cookie (clear_sso_state_cookie env) (message_reply e rq status message))"
  by (simp_all add: no_session_set_def clear_session_cookie_def json_reply_def message_reply_def with_cookie_def
      clear_sso_state_cookie_def)

lemma retry_no_session [simp]: "no_session_set env (r\<lparr>rp_retry_after := x\<rparr>) = no_session_set env r"
  by (simp add: no_session_set_def)

lemma step_refusals:
  "refusals (no_session_set env) (require_session e rq)"
  "refusals (no_session_set env) (require_auth_rate_limit e rq name subject)"
  "refusals (no_session_set env) (decode_strict_json e rq body)"
  "refusals (no_session_set env) (parse_pagination e rq)"
  "refusals (no_session_set env) (or_message e rq status message m)"
  "refusals (no_session_set env) (or_ledger_error e rq m')"
proof -
  show "refusals (no_session_set env) (require_session e rq)"
    unfolding require_session_def by (intro refusals_cases refusals_message refusals_basic) simp
  show "refusals (no_session_set env) (require_auth_rate_limit e rq name subject)"
    by (auto simp: refusals_def require_auth_rate_limit_def split: prod.splits if_splits)
  show "refusals (no_session_set env) (decode_strict_json e rq body)"
    unfolding decode_strict_json_def by (intro refusals_cases refusals_if refusals_message refusals_basic) simp_all
  show "refusals (no_session_set env) (parse_pagination e rq)"
    unfolding parse_pagination_def Let_def
    by (intro refusals_cases refusals_if refusals_bind refusals_message refusals_basic) simp_all
  show "refusals (no_session_set env) (or_message e rq status message m)"
    unfolding or_message_def by (intro refusals_or_else refusals_message) simp
  show "refusals (no_session_set env) (or_ledger_error e rq m')"
    unfolding or_ledger_error_def by (intro refusals_or_else refusals_basic) simp
qed

lemmas answer_rules = answers_bind answers_basic refusals_bind refusals_message refusals_if refusals_cases refusals_record
  step_refusals refusals_basic

lemma auth_answers_plain:
  "answers (no_session_set env) (register_route env rq b1)"
  "answers (no_session_set env) (logout_route env rq)"
  "answers (no_session_set env) (logout_all_route env rq)"
  "answers (no_session_set env) (session_route env rq)"
  "answers (no_session_set env) (request_verification_route env rq)"
  "answers (no_session_set env) (request_reset_route env rq b3)"
  "answers (no_session_set env) (confirm_verification_route env rq b4)"
  "answers (no_session_set env) (confirm_reset_route env rq b5)"
  "answers (no_session_set env) (totp_status_route env rq)"
  "answers (no_session_set env) (totp_setup_route env rq)"
  "answers (no_session_set env) (totp_confirm_route env rq b6)"
  "answers (no_session_set env) (totp_disable_route env rq b7)"
  unfolding register_route_def logout_route_def logout_all_route_def session_route_def
    request_verification_route_def request_reset_route_def request_code_route_def confirm_verification_route_def
    confirm_reset_route_def totp_status_route_def totp_setup_route_def totp_confirm_route_def totp_disable_route_def Let_def
  by (intro answer_rules; simp)+

lemma audit_answer_plain: "answers (no_session_set env) (\<lambda>s. audit_answer e rq (f s) s)"
  by (auto simp: answers_def refusals_def audit_answer_def respond_message_def split: option.splits sum.splits)

lemma account_answers_plain:
  "answers (no_session_set env) (passkey_login_begin_route env rq)"
  "answers (no_session_set env) (passkey_list_route env rq)"
  "answers (no_session_set env) (passkey_register_begin_route env rq)"
  "answers (no_session_set env) (passkey_register_finish_route env rq b2)"
  "answers (no_session_set env) (passkey_update_route env rq i b3)"
  "answers (no_session_set env) (passkey_delete_route env rq i)"
  "answers (no_session_set env) (profile_route env rq)"
  "answers (no_session_set env) (update_profile_route env rq b4)"
  "answers (no_session_set env) (audit_route env rq)"
  "answers (no_session_set env) (admin_audit_route env rq)"
  unfolding passkey_login_begin_route_def passkey_list_route_def
    passkey_register_begin_route_def passkey_register_finish_route_def passkey_update_route_def
    passkey_delete_route_def profile_route_def update_profile_route_def audit_route_def admin_audit_route_def
  by (intro answer_rules refusals_or_else audit_answer_plain; simp)+

lemma listing_plain: "answers (no_session_set env) (listing_route e rq handler body)"
  unfolding listing_route_def by (intro answer_rules) simp

lemma audited_plain: "answers (no_session_set env) (audited e rq ev status body)"
  unfolding audited_def by (intro answer_rules) simp

lemma occurred_at_plain:
  "refusals (no_session_set env) (parse_occurred_at e rq raw)" "refusals (no_session_set env) (parse_optional_occurred_at e rq raw')"
  unfolding parse_optional_occurred_at_def parse_occurred_at_def by (intro answer_rules; simp)+

lemma summary_plain: "answers (no_session_set env) (book_summary_route e rq b)"
proof -
  have "refusals (no_session_set env) (case err of ErrAccessDenied _ \<Rightarrow> respond_message e rq 403 m | Panic _ \<Rightarrow> afail recovered
      | _ \<Rightarrow> respond_message e rq 404 m')" for err m m'
    by (cases err) (simp_all add: refusals_message refusals_basic)
  then show ?thesis
    unfolding book_summary_route_def parse_ledger_summary_filter_def parse_summary_date_def Let_def
    by (intro answer_rules refusals_or_else) simp_all
qed

lemma book_answers_plain: "answers (no_session_set env) (book_call_route env rq c)"
  by (cases c)
    (simp_all only: book_call_route.simps books_route_def create_book_route_def book_route_def update_book_route_def
       members_route_def add_member_route_def update_role_route_def remove_member_route_def entries_route_def
       create_entry_route_def update_entry_route_def delete_entry_route_def,
     (intro answer_rules audited_plain listing_plain occurred_at_plain summary_plain; simp?)+)

text \<open>The same for the calls with loops.\<close>

definition loop_refusals :: "(reply \<Rightarrow> bool) \<Rightarrow> (http_server, reply, 'a) loop_act \<Rightarrow> bool" where
  "loop_refusals Q m \<longleftrightarrow> (\<forall>s e t. m s = Some (Inl e, t) \<longrightarrow> Q e)"

definition loop_answers :: "(reply \<Rightarrow> bool) \<Rightarrow> reply loop_route \<Rightarrow> bool" where
  "loop_answers Q m \<longleftrightarrow> loop_refusals Q m \<and> (\<forall>s x t. m s = Some (Inr x, t) \<longrightarrow> Q x)"

lemma loop_lift: "refusals Q m \<Longrightarrow> loop_refusals Q (lift_act m)" "answers Q m' \<Longrightarrow> loop_answers Q (lift_act m')"
  by (auto simp: loop_refusals_def loop_answers_def refusals_def answers_def)

lemma loop_bind: "loop_refusals Q m \<Longrightarrow> (\<And>x. loop_answers Q (f x)) \<Longrightarrow> loop_answers Q (lbind m f)"
  unfolding loop_answers_def loop_refusals_def by (auto simp: lbind_def split: option.splits prod.splits sum.splits)

lemma loop_prod: "(\<And>a b. loop_answers Q (f a b)) \<Longrightarrow> loop_answers Q (case x of (a, b) \<Rightarrow> f a b)"
  by (cases x) simp

lemma loop_error_plain: "loop_refusals (no_session_set env) (or_loop_error e rq m)"
  by (auto simp: loop_refusals_def or_loop_error_def split: option.splits prod.splits sum.splits)

lemma public_summary_plain: "answers (no_session_set env) (public_summary_route e rq)"
  by (auto simp: answers_def refusals_def public_summary_route_def)

lemma ledger_answers_plain: "loop_answers (no_session_set env) (ledger_call_route env rq c)"
  by (cases c)
    (simp_all only: ledger_call_route.simps groups_route_def create_group_route_def update_group_route_def accounts_route_def
       create_account_route_def unshare_account_route_def categories_route_def create_category_route_def
       update_category_route_def rates_route_def,
     (intro loop_lift loop_bind loop_prod loop_error_plain answer_rules audited_plain listing_plain public_summary_plain; simp?)+)

section \<open>Logins\<close>

text \<open>A login made a session that its token finds.\<close>

definition session_made :: "http_env \<Rightarrow> request_context \<Rightarrow> auth_result \<Rightarrow> auth_store \<Rightarrow> bool" where
  "session_made env rq res a \<longleftrightarrow>
     (\<exists>se. ar_session res = Some se \<and> se_created_at se = rq_now rq \<and>
       se_expires_at se = rq_now rq + cf_session_ttl (he_auth_config env) \<and> se_user_id se = us_id (ar_user res) \<and>
       map_of (sessions a) (hash_session_token (he_auth env) (ar_session_token res)) = Some se)"

lemma created_session_made:
  "create_session (he_auth env) (he_auth_config env) (rq_fresh rq) (rq_now rq) u s = (Inr res, t) \<Longrightarrow>
   sessions t' = sessions t \<Longrightarrow> session_made env rq res t'"
  by (auto simp: create_session_Inr_iff session_made_def update_conv' user.defs)

lemma login_made_session:
  assumes "login (he_auth env) (he_auth_config env) (rq_fresh rq) (rq_now rq) request s = (Inr res, t)" and "\<not> ar_totp_required res"
  shows "session_made env rq res t"
  using assms(1)
proof (rule login_success)
  fix email u
  assume "us_totp_enabled u \<and> cf_totp_enabled (he_auth_config env) \<and> trim_space (lg_totp_code request) = [] \<and>
        res = \<lparr>ar_user = user.truncate u, ar_session = None, ar_session_token = [], ar_totp_required = True\<rparr> \<and>
        t = snd (reset_login_throttle email s) \<or>
      (\<exists>s1 v s2 s3. (if us_totp_enabled u \<and> cf_totp_enabled (he_auth_config env)
            then verify_totp_code (he_auth env) (he_auth_config env) (rq_now rq) u (lg_totp_code request) s = (Inr (), s1) else s1 = s) \<and>
        (v = u \<and> s2 = s1 \<or> (\<exists>h. update_user (u\<lparr>ur_password_hash := h, us_updated_at := rq_now rq\<rparr>) s1 = (Inr v, s2))) \<and>
        create_session (he_auth env) (he_auth_config env) (rq_fresh rq) (rq_now rq) v s2 = (Inr res, s3) \<and>
        t = snd (reset_login_throttle email s3))"
  then obtain v s2 s3 where made: "create_session (he_auth env) (he_auth_config env) (rq_fresh rq) (rq_now rq) v s2 = (Inr res, s3)"
    and t: "t = snd (reset_login_throttle email s3)"
    using assms(2) by auto
  show ?thesis by (rule created_session_made [OF made]) (simp add: t reset_login_throttle_def)
qed

lemma passkey_made_session:
  assumes "finish_passkey_login (he_auth env) wa (he_auth_config env) (rq_fresh rq) (rq_now rq) flow_id json s = (Inr res, t)"
  shows "session_made env rq res t"
  by (rule passkey_login_success [OF assms], rule created_session_made, assumption)
    (simp add: delete_passkey_ceremony_def reset_login_throttle_def)

lemma sso_made_session:
  assumes "login_with_external_sso (he_auth env) (he_auth_config env) (rq_fresh rq) (rq_now rq) validator s = (Inr res, t)"
  shows "session_made env rq res t"
proof -
  have external: "session_made env rq res t"
    if "create_external_sso_session (he_auth env) (he_auth_config env) (rq_fresh rq) (rq_now rq) u i s = (Inr res, t)" for u i
    using that by (auto simp: create_external_sso_session_def peel Let_def abind_Inr_iff [of "update_user _"]
        intro: created_session_made split: if_splits)
  show ?thesis
    using assms by (cases rule: sso_success) (auto intro: external created_session_made)
qed

text \<open>The session cookie of an answer and the session behind it.\<close>

definition logged_in :: "http_env \<Rightarrow> request_context \<Rightarrow> reply \<Rightarrow> auth_store \<Rightarrow> bool" where
  "logged_in env rq reply a \<longleftrightarrow>
     (\<forall>ck \<in> set (rp_cookies reply). ck_value ck \<noteq> [] \<longrightarrow> ck_name ck = hc_cookie_name (he_config env) \<longrightarrow>
        (\<exists>res. ck = session_cookie env rq (ar_session_token res) (se_expires_at (result_session res)) \<and> session_made env rq res a))"

lemma no_session_logged_in: "no_session_set env reply \<Longrightarrow> logged_in env rq reply a"
  by (auto simp: no_session_set_def logged_in_def)

lemma finish_login_run:
  assumes "finish_login env rq res action method s = (r, t)"
  shows "hs_auth t = hs_auth s \<and> (\<exists>reply. r = Inr reply \<and> rp_status reply = 200 \<and>
    rp_cookies reply = [session_cookie env rq (ar_session_token res) (se_expires_at (result_session res))])"
  using assms by (auto simp: finish_login_def abind_def record_audit_event_def json_reply_def split: option.splits)

lemma finish_login_logged_in:
  assumes "session_made env rq res (hs_auth s)" and "finish_login env rq res action method s = (Inr reply, t)"
  shows "logged_in env rq reply (hs_auth t)"
  using finish_login_run [OF assms(2)] assms(1) by (auto simp: logged_in_def)

lemma on_auth_iff: "on_auth m s = (r, t) \<longleftrightarrow> (\<exists>a. m (hs_auth s) = (r, a) \<and> t = s\<lparr>hs_auth := a\<rparr>)"
  by (auto simp: on_auth_def split: prod.splits)

lemma or_else_Inr_iff: "or_else m h s = (Inr x, t) \<longleftrightarrow> m s = (Inr x, t) \<or> (\<exists>e u. m s = (Inl e, u) \<and> h e u = (Inr x, t))"
  by (auto simp: or_else_def split: prod.splits sum.splits)

lemma refused_never_ok:
  "login_failure env rq email e s \<noteq> (Inr x, t)"
  "abind (record_audit_event env rq request) (\<lambda>_. respond_message env rq status message) s \<noteq> (Inr x, t)"
  "abind (record_audit_event env rq request) (\<lambda>_. refuse_callback env rq status) s \<noteq> (Inr x, t)"
  "respond_message env rq status message s \<noteq> (Inr x, t)"
  "refuse_callback env rq status s \<noteq> (Inr x, t)"
  by (cases e; auto simp: login_failure_def abind_Inr_iff respond_message_def Let_def)
    (auto simp: abind_Inr_iff respond_message_def refuse_callback_def)

lemma finish_login_refusals: "refusals Q (finish_login env rq res action method)"
  by (auto simp: refusals_def dest: finish_login_run)

lemma login_refusals: "refusals (no_session_set env) (login_route env rq body)"
proof -
  have failure: "refusals (no_session_set env) (login_failure env rq email e)" for email e
    unfolding login_failure_def Let_def
    by (cases e) (simp_all, (intro answer_rules; simp)+)
  show ?thesis
    unfolding login_route_def by (intro answer_rules refusals_or_else failure finish_login_refusals)
qed

lemma login_logged_in:
  assumes "login_route env rq body s = (Inr reply, t)"
  shows "logged_in env rq reply (hs_auth t)"
proof -
  obtain u res a and request :: auth_request where run: "login (he_auth env) (he_auth_config env) (rq_fresh rq) (rq_now rq)
        \<lparr>lg_email = aq_email request, lg_password = aq_password request, lg_totp_code = aq_totp_code request,
         lg_turnstile_token = aq_turnstile_token request, lg_remote_ip = rq_client_ip rq\<rparr> (hs_auth u) = (Inr res, a)"
    and rest: "(if ar_totp_required res
        then abind (record_audit_event env rq (user_event (ar_user res) ''auth.login_totp_challenge'' [(''method'', ''password'')])) (\<lambda>_.
          aret (json_reply 200 TotpRequiredBody))
        else finish_login env rq res ''auth.login'' ''password'') (u\<lparr>hs_auth := a\<rparr>) = (Inr reply, t)"
    using assms unfolding login_route_def
    by (simp only: abind_Inr_iff or_else_Inr_iff refused_never_ok on_auth_iff simp_thms ex_simps)
      blast
  show ?thesis
  proof (cases "ar_totp_required res")
    case True
    then show ?thesis using rest by (auto simp: abind_Inr_iff intro!: no_session_logged_in)
  next
    case False
    then show ?thesis
      using rest finish_login_logged_in [of env rq res "u\<lparr>hs_auth := a\<rparr>"] login_made_session [OF run] by simp
  qed
qed

lemma passkey_login_refusals: "refusals (no_session_set env) (passkey_login_finish_route env rq body)"
  unfolding passkey_login_finish_route_def
  by (intro answer_rules refusals_or_else finish_login_refusals) simp

lemma passkey_login_logged_in:
  assumes "passkey_login_finish_route env rq body s = (Inr reply, t)"
  shows "logged_in env rq reply (hs_auth t)"
  using assms
  by (auto simp: passkey_login_finish_route_def abind_Inr_iff or_else_Inr_iff refused_never_ok on_auth_iff
      intro!: finish_login_logged_in passkey_made_session)

section \<open>External sign-on\<close>

lemma sso_start_plain:
  assumes "external_sso_state_cookie_name env \<noteq> hc_cookie_name (he_config env)"
  shows "answers (no_session_set env) (sso_start_route env rq)"
proof -
  have "no_session_set env ((json_reply 302 (RedirectTo url))\<lparr>rp_cookies := [set_sso_state_cookie env rq state]\<rparr>)" for url state
    using assms by (simp add: no_session_set_def set_sso_state_cookie_def Let_def)
  then show ?thesis unfolding sso_start_route_def by (intro answer_rules; simp?)
qed

text \<open>A callback that ends in a session.\<close>

lemma external_sso_login_run:
  assumes "external_sso_login env rq token s = (Inr res, t)"
  obtains v answer w a where "hs_validator s = Some v" and "cf_external_sso_enabled (he_auth_config env)"
    and "validate_external_sso_token (he_sso env) (rq_now rq) (rq_fetch rq) token v = (answer, w)"
    and "login_with_external_sso (he_auth env) (he_auth_config env) (rq_fresh rq) (rq_now rq) (Some answer) (hs_auth s) = (Inr res, a)"
    and "t = s\<lparr>hs_validator := Some w, hs_auth := a\<rparr>"
proof (cases "hs_validator s")
  case None
  then show ?thesis
    using assms by (auto simp: external_sso_login_def on_auth_iff login_with_external_sso_def peel)
next
  case (Some v)
  then show ?thesis
    using assms by (cases "validate_external_sso_token (he_sso env) (rq_now rq) (rq_fetch rq) token v")
      (auto simp: external_sso_login_def on_auth_iff login_with_external_sso_def [where validator = None] peel
        intro: that split: if_splits)
qed

lemma sso_callback_refusals: "refusals (no_session_set env) (sso_callback_route env rq cb)"
  unfolding sso_callback_route_def Let_def refuse_callback_def
  by (intro answer_rules refusals_or_else; simp)

lemma sso_callback_success:
  assumes "sso_callback_route env rq cb s = (Inr reply, t)"
  obtains res u where "hc_sso_enabled (he_config env)" and "verify_sso_state env rq cb"
    and "external_sso_login env rq (external_sso_callback_token rq cb) s = (Inr res, u)" and "hs_auth t = hs_auth u"
    and "rp_cookies reply = [clear_sso_state_cookie env,
      session_cookie env rq (ar_session_token res) (se_expires_at (result_session res))]"
    and "rp_body reply = RedirectTo (external_sso_success_redirect env)"
proof -
  obtain res u where "hc_sso_enabled (he_config env)" "verify_sso_state env rq cb"
    "external_sso_login env rq (external_sso_callback_token rq cb) s = (Inr res, u)"
    "abind (record_audit_event env rq (user_event (ar_user res) ''auth.login'' [(''method'', ''external_sso'')])) (\<lambda>_.
       aret (with_cookie (clear_sso_state_cookie env) ((json_reply 302 (RedirectTo (external_sso_success_redirect env)))
         \<lparr>rp_cookies := [session_cookie env rq (ar_session_token res) (se_expires_at (result_session res))]\<rparr>))) u = (Inr reply, t)"
    using assms
    by (auto simp: sso_callback_route_def Let_def abind_Inr_iff [of "or_else _ _"] or_else_Inr_iff refused_never_ok split: if_splits)
  then show thesis
    by (intro that [of res u]) (auto simp: abind_def record_audit_event_def with_cookie_def json_reply_def split: option.splits)
qed

lemma sso_callback_run:
  assumes "hc_sso_enabled (he_config env)" and "verify_sso_state env rq cb" and "external_sso_callback_token rq cb \<noteq> []"
    and "external_sso_login env rq (external_sso_callback_token rq cb) s = (Inr res, u)"
  shows "\<exists>reply t. sso_callback_route env rq cb s = (Inr reply, t) \<and>
    rp_cookies reply = [clear_sso_state_cookie env, session_cookie env rq (ar_session_token res) (se_expires_at (result_session res))]"
  using assms
  by (cases "hs_audit u")
    (simp_all add: sso_callback_route_def Let_def abind_def or_else_def record_audit_event_def with_cookie_def json_reply_def)

lemma sso_callback_logged_in:
  assumes "sso_callback_route env rq cb s = (Inr reply, t)"
  shows "logged_in env rq reply (hs_auth t)"
proof -
  obtain res u where run: "external_sso_login env rq (external_sso_callback_token rq cb) s = (Inr res, u)" "hs_auth t = hs_auth u"
    and cookies: "rp_cookies reply = [clear_sso_state_cookie env,
      session_cookie env rq (ar_session_token res) (se_expires_at (result_session res))]"
    by (rule sso_callback_success [OF assms])
  have "session_made env rq res (hs_auth u)"
    by (rule external_sso_login_run [OF run(1)]) (simp add: sso_made_session)
  then show ?thesis using cookies run(2) by (auto simp: logged_in_def clear_sso_state_cookie_def)
qed

section \<open>What an answer to a request can carry\<close>

definition login_call :: "api_call \<Rightarrow> bool" where
  "login_call c \<longleftrightarrow> (\<exists>body. c = AuthCall (Login body)) \<or> (\<exists>body. c = AccountCall (PasskeyLoginFinish body)) \<or>
     (\<exists>cb. c = AuthCall (SsoCallback cb))"

lemma refusalsD: "refusals Q m \<Longrightarrow> m s = (Inl e, t) \<Longrightarrow> Q e"
  by (auto simp: refusals_def)

lemma loop_answersD: "loop_answers Q m \<Longrightarrow> m s = Some (r, t) \<Longrightarrow> Q (case r of Inl x \<Rightarrow> x | Inr x \<Rightarrow> x)"
  unfolding loop_answers_def loop_refusals_def by (cases r; simp; blast)

lemma other_calls_plain:
  assumes names: "external_sso_state_cookie_name env \<noteq> hc_cookie_name (he_config env)" and other: "\<not> login_call c"
  shows "loop_answers (no_session_set env) (call_route env rq c)"
proof (cases c)
  case (AuthCall a)
  then show ?thesis using other
    by (cases a) (auto simp: login_call_def auth_answers_plain sso_start_plain [OF names] intro!: loop_lift)
next
  case (AccountCall a)
  then show ?thesis using other by (cases a) (auto simp: login_call_def account_answers_plain intro!: loop_lift)
next
  case (BookCall a)
  then show ?thesis by (auto simp: book_answers_plain intro!: loop_lift)
next
  case (LedgerCall a)
  then show ?thesis by (simp add: ledger_answers_plain)
qed

lemma login_calls_logged_in:
  assumes "login_call c" and "call_route env rq c s = Some (r, t)"
  shows "logged_in env rq (case r of Inl x \<Rightarrow> x | Inr x \<Rightarrow> x) (hs_auth t)"
proof (cases r)
  case (Inl e)
  have "no_session_set env e"
    using assms Inl
    by (auto simp: login_call_def intro: refusalsD [OF login_refusals] refusalsD [OF passkey_login_refusals]
        refusalsD [OF sso_callback_refusals])
  then show ?thesis using Inl by (simp add: no_session_logged_in)
next
  case (Inr reply)
  then show ?thesis
    using assms
    by (auto simp: login_call_def intro: login_logged_in passkey_login_logged_in sso_callback_logged_in)
qed

end
