(* ===== verification/Http_Sample.thy ===== *)
theory Http_Sample
  imports Http_Facts Auth_Sample Ledger_Sample
begin

text \<open>Concrete surroundings, a request and a server for the witnesses of the HTTP properties.\<close>

definition sample_jwt_header :: jwt_header where "sample_jwt_header = \<lparr>jh_algorithm = ''EdDSA'', jh_type = Some ''JWT''\<rparr>"

definition sample_claims :: sso_claims where
  "sample_claims = \<lparr>jc_id = ''j'', jc_subject = ''x1'', jc_expires_at = Some 1000, jc_username = ''a@b.c'',
     jc_display_name = [], jc_uid = ''x1''\<rparr>"

text \<open>One token is signed, with the key \<open>k\<close>.\<close>

definition sample_signed :: "string \<Rightarrow> jwt_header \<Rightarrow> sso_claims \<Rightarrow> string \<Rightarrow> bool" where
  "sample_signed key header claims token \<longleftrightarrow>
     key = ''k'' \<and> header = sample_jwt_header \<and> claims = sample_claims \<and> token = ''t''"

definition sample_parse_claims :: "jwt_options \<Rightarrow> time \<Rightarrow> jwt_key_function \<Rightarrow> string \<Rightarrow> auth_error + sso_claims \<times> bool" where
  "sample_parse_claims opts now keyfunc token =
     (if token = ''t'' \<and> jo_issuer opts = ''laisky-sso'' \<and> now < 1000 + jo_leeway opts \<and> keyfunc sample_jwt_header = Inr ''k''
      then Inr (sample_claims, True) else Inl (AuthFailed ''token is invalid''))"

definition sample_sso_env :: sso_env where
  "sample_sso_env = \<lparr>xs_fold = (=), xs_pem_decode = Some, xs_parse_pkix = (\<lambda>b. Some (Ed25519Key b)),
     xs_parse_claims = sample_parse_claims\<rparr>"

lemma sample_contract: "jwt_contract sample_sso_env sample_signed (\<lambda>_. ''laisky-sso'')"
  by (auto simp: jwt_contract_def sample_sso_env_def sample_parse_claims_def sample_signed_def sample_claims_def split: if_splits)

definition sample_metadata :: sso_metadata where
  "sample_metadata = \<lparr>md_algorithm = ''EdDSA'', md_type = ''JWT'', md_issuer = ''laisky-sso'', md_public_key_pem = ''k''\<rparr>"

definition sample_validator :: sso_validator where
  "sample_validator = \<lparr>sv_cache_ttl = hour, sv_metadata_url = [], sv_static_metadata = True, sv_metadata = sample_metadata,
     sv_loaded_at = 0\<rparr>"

lemma sample_validator_new:
  "new_jwt_external_sso_validator sample_sso_env \<lparr>vc_cache_ttl = 0, vc_metadata_url = [], vc_public_key_pem = ''k''\<rparr> =
   Inr sample_validator"
  by code_simp

definition sample_webauthn :: webauthn_env where
  "sample_webauthn = \<lparr>we_new = None, we_begin_registration = (\<lambda>_. Inl ErrInvalidCredentials),
     we_finish_registration = (\<lambda>_ _ _. Inl ErrInvalidCredentials), we_begin_login = Inl ErrInvalidCredentials,
     we_parse_login = (\<lambda>_. Inl ErrInvalidCredentials), we_validate_login = (\<lambda>_ _ _. Inl ErrInvalidCredentials)\<rparr>"

definition sample_http_config :: http_config where
  "sample_http_config = \<lparr>hc_cookie_name = ''session'', hc_cookie_secure = True, hc_admin_emails = ['' A@B.c ''],
     hc_sso_callback_url = [], hc_sso_enabled = True, hc_sso_login_url = ''https://sso'', hc_sso_state_cookie_name = [],
     hc_sso_state_ttl = 0, hc_sso_success_redirect_url = []\<rparr>"

definition sample_http_env :: http_env where
  "sample_http_env = \<lparr>he_auth = sample_env, he_auth_config = sample_config, he_webauthn = sample_webauthn,
     he_sso = sample_sso_env, he_config = sample_http_config, he_digest = (\<lambda>p. hp_prev_hash p @ hp_id p),
     he_parse_uuid = Some, he_rational = (\<lambda>_. None), he_parse_rfc3339 = (\<lambda>_. None), he_parse_date = (\<lambda>_. None),
     he_letter = (\<lambda>_. True),
     he_parse_url = (\<lambda>u. Some \<lparr>pu_scheme = ''https'', pu_host = ''sso'', pu_with_query = (\<lambda>k v. u @ ''?'' @ k @ ''='' @ v)\<rparr>),
     he_split_host_port = (\<lambda>_. None), he_loopback_ip = (\<lambda>_. None)\<rparr>"

definition sample_http_request :: request_context where
  "sample_http_request = \<lparr>rq_client_ip = ''1.2.3.4'', rq_host = ''localhost'', rq_tls = False, rq_forwarded_proto = [],
     rq_request_id = ''r1'', rq_cookies = [], rq_query = [], rq_session = None, rq_now = 100, rq_fresh = sample_fresh,
     rq_event_id = ''e1'', rq_new_id = ''n1'', rq_entry_id = Inr ''n2'', rq_category_id = (\<lambda>_. []), rq_sent = None,
     rq_generated = Inl ErrInvalidCredentials,
     rq_fetch = \<lparr>ma_create = None, ma_send = Inr 503, ma_decode = Inl ErrInvalidCredentials, ma_close = None\<rparr>\<rparr>"

definition sample_server :: http_server where
  "sample_server = \<lparr>hs_auth = sample_auth_store, hs_ledger = sample_store, hs_audit = Some [], hs_limiter = None,
     hs_validator = Some sample_validator\<rparr>"

lemma sample_server_ok: "server_ok sample_http_env sample_server"
proof -
  have "validator_ok sample_sso_env sample_validator" by (rule new_validator_ok [OF sample_validator_new])
  then show ?thesis
    using sample_auth_store_ok sample_ledger_ok
    by (simp add: server_ok_def sample_server_def audit_ok_def sso_ok_def sample_http_env_def)
qed

lemma sample_env_fields [simp]:
  "he_auth sample_http_env = sample_env" "he_auth_config sample_http_env = sample_config"
  "he_config sample_http_env = sample_http_config" "he_sso sample_http_env = sample_sso_env"
  "hc_cookie_name sample_http_config = ''session''" "hc_sso_enabled sample_http_config"
  by (simp_all add: sample_http_env_def sample_http_config_def)

section \<open>A callback of the external sign-on\<close>

text \<open>The browser comes back with the state \<open>x\<close> and the token \<open>t\<close>; the address of the token has a user.\<close>

definition sample_return :: request_context where
  "sample_return = sample_http_request\<lparr>rq_cookies := [(''accounting_sso_state'', hash_session_token sample_env ''x'')]\<rparr>"

definition sample_callback :: sso_callback where
  "sample_callback = \<lparr>sc_post = True, sc_form = [(''state'', ''x''), (''sso_token'', ''t'')]\<rparr>"

lemma sample_callback_values:
  "external_sso_callback_state rq sample_callback = ''x''" "external_sso_callback_token rq sample_callback = ''t''"
proof -
  have "trim_space ''x'' = ''x''" "trim_space ''t'' = ''t''" by code_simp+
  then show "external_sso_callback_state rq sample_callback = ''x''" "external_sso_callback_token rq sample_callback = ''t''"
    by (simp_all add: external_sso_callback_state_def external_sso_callback_token_def form_value_def sample_callback_def)
qed

lemma sample_callback_accepted:
  "\<exists>reply t ck. serve sample_http_env sample_return (AuthCall (SsoCallback sample_callback)) sample_server = Some (reply, t) \<and>
    ck \<in> set (rp_cookies reply) \<and> ck_value ck \<noteq> [] \<and> ck_name ck = ''session''"
proof -
  let ?identity = "\<lparr>si_subject = ''x1'', si_username = ''a@b.c'', si_display_name = []\<rparr>"
  have attached: "attach_session sample_http_env sample_return sample_server = sample_return"
    by (simp add: attach_session_def sample_return_def sample_http_request_def)
  have state: "verify_sso_state sample_http_env sample_return sample_callback"
  proof -
    have "external_sso_state_cookie_name sample_http_env = ''accounting_sso_state''" by code_simp
    moreover have "hash_session_token sample_env ''x'' \<noteq> []" by code_simp
    ultimately show ?thesis by (simp add: verify_sso_state_def sample_callback_values sample_return_def)
  qed
  have answer: "validate_external_sso_token sample_sso_env 100 fetch ''t'' sample_validator = (Inr ?identity, sample_validator)" for fetch
    by code_simp
  have enabled: "cf_external_sso_enabled sample_config" by (simp add: sample_config_def)
  have id: "normalize_external_sso_user_id sample_env ''x1'' = Inr ''x1''" by code_simp
  have missing: "\<exists>e. user_by_id ''x1'' sample_auth_store = Inl e" by (simp add: user_by_id_def sample_auth_store_def new_auth_store_def)
  obtain w s' where updated: "update_user (sample_user\<lparr>ur_external_sso_subject := ''x1'', us_updated_at := 100\<rparr>) sample_auth_store = (Inr w, s')"
    by (simp add: update_user_def sample_auth_store_def new_auth_store_def)
  have fresh: "\<exists>t. new_session_token sample_fresh = Inr t \<and> t \<noteq> []"
    by (simp add: new_session_token_def drawn_def sample_fresh_def) code_simp
  then obtain res t where made: "create_session sample_env sample_config sample_fresh 100 w s' = (Inr res, t)" "ar_session_token res \<noteq> []"
    by (auto simp: create_session_Inr_iff)
  have run: "login_with_external_sso sample_env sample_config sample_fresh 100 (Some (Inr ?identity)) sample_auth_store = (Inr res, t)"
    using missing by (auto simp: login_with_external_sso_def act_defs id sample_email aif_found_def sample_found
        create_external_sso_session_def updated made enabled)
  have "external_sso_login sample_http_env sample_return ''t'' sample_server = (Inr res, sample_server\<lparr>hs_auth := t\<rparr>)"
    by (simp add: external_sso_login_def on_auth_def sample_server_def answer sample_return_def sample_http_request_def run enabled)
  moreover have "external_sso_callback_token sample_return sample_callback \<noteq> []" by (simp add: sample_callback_values)
  ultimately obtain reply u where "sso_callback_route sample_http_env sample_return sample_callback sample_server = (Inr reply, u)"
    and cookies: "rp_cookies reply = [clear_sso_state_cookie sample_http_env,
      session_cookie sample_http_env sample_return (ar_session_token res) (se_expires_at (result_session res))]"
    using sso_callback_run [of sample_http_env sample_return sample_callback sample_server] state
    by (auto simp: sample_callback_values)
  then have "serve sample_http_env sample_return (AuthCall (SsoCallback sample_callback)) sample_server = Some (reply, u)"
    by (simp add: serve_def attached lift_act_def)
  moreover have "ck_value ck = ar_session_token res \<and> ck_name ck = ''session''"
    if "ck = session_cookie sample_http_env sample_return (ar_session_token res) (se_expires_at (result_session res))" for ck
    by (simp add: that session_cookie_def new_cookie_settings_def Let_def)
  ultimately show ?thesis using made(2) cookies by (metis list.set_intros)
qed

text \<open>The start of it.\<close>

lemma sample_started:
  "\<exists>reply t url. serve sample_http_env sample_http_request (AuthCall SsoStart) sample_server = Some (reply, t) \<and>
    rp_body reply = RedirectTo url"
proof -
  have attached: "attach_session sample_http_env sample_http_request sample_server = sample_http_request"
    by (simp add: attach_session_def sample_http_request_def)
  obtain state where state: "new_session_token (rq_fresh sample_http_request) = Inr state"
    by (simp add: new_session_token_def drawn_def sample_http_request_def sample_fresh_def)
  have callback: "\<exists>url. build_sso_callback_url sample_http_env sample_http_request state = Inr url"
  proof -
    have "is_loopback_request_host sample_http_env (rq_host sample_http_request)" by code_simp
    moreover have "trim_space (hc_sso_callback_url sample_http_config) = []" by code_simp
    ultimately show ?thesis
      by (simp add: build_sso_callback_url_def Let_def rbind_def) (simp add: sample_http_env_def supported_scheme_def)
  qed
  have redirect: "\<exists>url. build_sso_login_redirect_url sample_http_env login_url callback_url = Inr url" for login_url callback_url
    by (simp add: build_sso_login_redirect_url_def sample_http_env_def supported_scheme_def)
  obtain callback_url url where "build_sso_callback_url sample_http_env sample_http_request state = Inr callback_url"
    "build_sso_login_redirect_url sample_http_env (hc_sso_login_url sample_http_config) callback_url = Inr url"
    using callback redirect by blast
  moreover have "require_auth_rate_limit sample_http_env sample_http_request name subject sample_server = (Inr (), sample_server)"
    for name subject by (simp add: require_auth_rate_limit_def allow_def sample_server_def)
  ultimately have "sso_start_route sample_http_env sample_http_request sample_server =
      (Inr ((json_reply 302 (RedirectTo url))\<lparr>rp_cookies := [set_sso_state_cookie sample_http_env sample_http_request state]\<rparr>),
       sample_server)"
    by (simp add: sso_start_route_def abind_def or_message_def or_else_def state aread_def aret_def)
  then show ?thesis by (simp add: serve_def attached lift_act_def json_reply_def)
qed

section \<open>Reading the audit log\<close>

definition sample_reader :: session where
  "sample_reader = \<lparr>se_id = ''s'', se_user_id = ''u1'', se_user_email = ''a@b.c'', se_status = UserStatusActive,
     se_expires_at = 1000, se_created_at = 50\<rparr>"

definition sample_event :: "string \<Rightarrow> event" where
  "sample_event actor = \<lparr>ev_id = [], ev_seq = 1, ev_prev_hash = [], ev_hash = [], ev_actor_id = actor, ev_actor_email = [],
     ev_action = ''auth.login'', ev_target_type = [], ev_target_id = [], ev_metadata = [], ev_created_at = 60\<rparr>"

definition sample_audit_server :: http_server where
  "sample_audit_server = sample_server\<lparr>hs_auth := sample_auth_store\<lparr>sessions := [(hash_session_token sample_env ''k'', sample_reader)]\<rparr>,
     hs_audit := Some [sample_event ''u1'', sample_event ''u2'']\<rparr>"

definition sample_reading :: request_context where
  "sample_reading = sample_http_request\<lparr>rq_cookies := [(''session'', ''k'')]\<rparr>"

lemma sample_reading_session:
  "rq_session (attach_session sample_http_env sample_reading sample_audit_server) = Some sample_reader"
  by (simp add: attach_session_def sample_reading_def sample_audit_server_def session_from_token_def session_by_token_hash_def
      sample_reader_def sample_http_request_def)

lemma no_pagination: "rq_query rq = [] \<Longrightarrow> parse_pagination env rq = aret (0, 0)"
  by (intro ext) (simp add: parse_pagination_def query_keys_in_def query_value_def abind_def aret_def)

lemma sample_audit_read:
  "\<exists>reply t result. serve sample_http_env sample_reading (AccountCall GetAudit) sample_audit_server = Some (reply, t) \<and>
    rp_body reply = AuditBody result \<and> lt_items result \<noteq> []"
proof -
  let ?rq = "attach_session sample_http_env sample_reading sample_audit_server"
  have rq: "?rq = sample_reading\<lparr>rq_session := Some sample_reader\<rparr>"
    using sample_reading_session by (simp add: attach_session_def split: option.splits sum.splits)
  have pages: "parse_pagination sample_http_env ?rq = aret (0, 0)"
    by (rule no_pagination, simp only: rq) (simp add: sample_reading_def sample_http_request_def)
  have "trim_space ''u1'' \<noteq> []" by code_simp
  moreover have "list_page \<lparr>lr_actor_id = ''u1'', lr_page = 0, lr_page_size = 0\<rparr>
      (au_events_by_actor ''u1'' [sample_event ''u1'', sample_event ''u2'']) =
      Some (Inr \<lparr>lt_items = [sample_event ''u1''], lt_page = 1, lt_page_size = 50, lt_total = 1\<rparr>)"
    by code_simp
  ultimately have "audit_list au_events_by_actor \<lparr>lr_actor_id = ''u1'', lr_page = 0, lr_page_size = 0\<rparr>
      [sample_event ''u1'', sample_event ''u2''] =
      Some (Inr \<lparr>lt_items = [sample_event ''u1''], lt_page = 1, lt_page_size = 50, lt_total = 1\<rparr>)"
    by (simp add: audit_list_def)
  moreover have "hs_audit sample_audit_server = Some [sample_event ''u1'', sample_event ''u2'']" "se_user_id sample_reader = ''u1''"
    by (simp_all add: sample_audit_server_def sample_reader_def)
  ultimately show ?thesis
    by (simp add: serve_def lift_act_def audit_route_def require_session_def abind_def pages sample_reading_session
        session_actor_def aret_def audit_answer_def json_reply_def)
qed

end
