(* ===== verification/Error_Codes.thy ===== *)
theory Error_Codes
  imports Http_Base
begin

text \<open>
  The codes of error answers: facts about \<open>api_error_code\<close>. A code consists of \<open>code_char\<close>s, no two
  underscores stand side by side and none at an end.
\<close>

definition code_char :: "char \<Rightarrow> bool" where
  "code_char c \<longleftrightarrow> is_lower c \<or> is_digit c \<or> c = CHR ''_''"

abbreviation not_double :: "char \<Rightarrow> char \<Rightarrow> bool" where
  "not_double a b \<equiv> \<not> (a = CHR ''_'' \<and> b = CHR ''_'')"

lemma rune_width_ascii: "(of_char a :: nat) < 128 \<Longrightarrow> rune_width (a # s) = 1"
  by (simp add: rune_width_def Let_def)

lemma code_from_Nil: "code_from letter u [] = []"
  by (subst code_from.simps) simp

lemma code_from_Cons: "(of_char a :: nat) < 128 \<Longrightarrow> code_from letter u (a # s) =
    (if is_lower a \<or> is_upper a \<or> is_digit a then a # code_from letter False s
     else if \<not> u then CHR ''_'' # code_from letter True s else code_from letter True s)"
  by (subst code_from.simps) (simp add: rune_width_ascii code_rune_def Let_def)

lemma lower_byte_ascii:
  "(of_char c :: nat) < 128 \<Longrightarrow> (of_char (lower_byte c) :: nat) < 128" "\<not> is_upper (lower_byte c)"
  by (auto simp: lower_byte_def is_upper_def Let_def)

lemma to_lower_ascii: "is_ascii s \<Longrightarrow> is_ascii (to_lower s) \<and> list_all (\<lambda>c. \<not> is_upper c) (to_lower s)"
  by (induction s rule: to_lower.induct) (auto simp: is_ascii_def lower_byte_ascii)

lemma underscore_kind [simp]: "\<not> is_lower (CHR ''_'')" "\<not> is_upper (CHR ''_'')" "\<not> is_digit (CHR ''_'')"
  by (simp_all add: is_lower_def is_upper_def is_digit_def)

lemma code_from_ascii:
  "is_ascii s \<Longrightarrow> list_all (\<lambda>c. \<not> is_upper c) s \<Longrightarrow>
   list_all code_char (code_from letter u s) \<and> successively not_double (code_from letter u s) \<and>
   (u \<longrightarrow> take 1 (code_from letter u s) \<noteq> [CHR ''_''])"
proof (induction s arbitrary: u)
  case (Cons a s)
  have "is_ascii s" "list_all (\<lambda>c. \<not> is_upper c) s" using Cons.prems by (simp_all add: is_ascii_def)
  note IH = Cons.IH [OF this]
  have a: "(of_char a :: nat) < 128" "\<not> is_upper a" using Cons.prems by (simp_all add: is_ascii_def)
  show ?case
  proof (cases "is_lower a \<or> is_upper a \<or> is_digit a")
    case True
    then have "a \<noteq> CHR ''_''" "code_char a" using a(2) by (auto simp: code_char_def)
    then show ?thesis using IH [of False] True by (simp add: code_from_Cons [OF a(1)] successively_Cons)
  next
    case False
    moreover have "code_char (CHR ''_'')" by (simp add: code_char_def)
    moreover have "successively not_double (CHR ''_'' # r) \<longleftrightarrow> successively not_double r" if "take 1 r \<noteq> [CHR ''_'']" for r
      using that by (cases r) (simp_all add: successively_Cons)
    ultimately show ?thesis using IH [of True] by (simp add: code_from_Cons [OF a(1)])
  qed
qed (simp add: code_from_Nil)

lemma successively_dropWhile: "successively P s \<Longrightarrow> successively P (dropWhile Q s)"
  using successively_append_iff [of P "takeWhile Q s" "dropWhile Q s"] by simp

lemma trim_underscores_ends:
  "trim_underscores s \<noteq> [] \<Longrightarrow> hd (trim_underscores s) \<noteq> CHR ''_'' \<and> last (trim_underscores s) \<noteq> CHR ''_''"
proof -
  let ?f = "dropWhile (\<lambda>c. c = CHR ''_'')"
  assume nonempty: "trim_underscores s \<noteq> []"
  obtain p where p: "?f s = trim_underscores s @ p"
    using takeWhile_dropWhile_id [of "\<lambda>c. c = CHR ''_''" "rev (?f s)"]
    unfolding trim_underscores_def by (metis rev_append rev_rev_ident)
  then have "hd (trim_underscores s) = hd (?f s)" "?f s \<noteq> []" using nonempty p by (simp_all only: hd_append2 append_is_Nil_conv simp_thms)
  moreover have "?f s \<noteq> [] \<Longrightarrow> hd (?f s) \<noteq> CHR ''_''" by (rule hd_dropWhile)
  moreover have "last (trim_underscores s) = hd (?f (rev (?f s)))" using nonempty by (simp add: trim_underscores_def last_rev)
  moreover have "hd (?f (rev (?f s))) \<noteq> CHR ''_''"
    using hd_dropWhile [of "\<lambda>c. c = CHR ''_''" "rev (?f s)"] nonempty by (simp add: trim_underscores_def)
  ultimately show ?thesis by simp
qed

lemma trim_underscores_keeps:
  assumes "list_all code_char s" and "successively not_double s"
  shows "list_all code_char (trim_underscores s)" "successively not_double (trim_underscores s)"
proof -
  have sub: "set (trim_underscores s) \<subseteq> set s" by (auto simp: trim_underscores_def dest!: set_dropWhileD)
  then show "list_all code_char (trim_underscores s)" using assms(1) by (auto simp: list_all_iff)
  have swap: "(\<lambda>x y. not_double y x) = not_double" by (intro ext) auto
  show "successively not_double (trim_underscores s)"
    using assms(2) unfolding trim_underscores_def
    by (simp only: successively_rev swap) (intro successively_dropWhile, simp only: successively_rev swap, rule successively_dropWhile)
qed

end
