(* ===== verification/Http_Properties.thy ===== *)
theory Http_Properties
  imports Http_Sample Error_Codes
begin


lemma attach_session_shape: "\<exists>x. attach_session env rq u = rq\<lparr>rq_session := x\<rparr>"
proof -
  have "attach_session env rq u = rq\<lparr>rq_session := rq_session (attach_session env rq u)\<rparr>"
    by (simp add: attach_session_def split: option.splits sum.splits)
  then show ?thesis by blast
qed

lemma attached_fields:
  "rq_now (attach_session env rq u) = rq_now rq" "rq_fresh (attach_session env rq u) = rq_fresh rq"
  "rq_fetch (attach_session env rq u) = rq_fetch rq" "rq_sent (attach_session env rq u) = rq_sent rq"
  "rq_client_ip (attach_session env rq u) = rq_client_ip rq" "rq_cookies (attach_session env rq u) = rq_cookies rq"
  "query_value (attach_session env rq u) k = query_value rq k"
  "external_sso_callback_state (attach_session env rq u) cb = external_sso_callback_state rq cb"
  "external_sso_callback_token (attach_session env rq u) cb = external_sso_callback_token rq cb"
  by (simp_all add: attach_session_def query_value_def external_sso_callback_state_def external_sso_callback_token_def
      split: option.splits sum.splits)









text \<open>C13. Only the three logins, by password, passkey and external sign-on, set the session cookie; the cookie is then
  hidden from scripts, secure as configured, and expires with a session that was just made and that its value finds.\<close>

theorem session_cookie_from_login:
  assumes names: "external_sso_state_cookie_name env \<noteq> hc_cookie_name (he_config env)"
    and ttl: "0 < cf_session_ttl (he_auth_config env)"
    and run: "serve env rq call s = Some (reply, t)" and ck: "ck \<in> set (rp_cookies reply)" "ck_value ck \<noteq> []"
      "ck_name ck = hc_cookie_name (he_config env)"
  shows "login_call call \<and> ck_http_only ck \<and> ck_same_site ck = ''Lax'' \<and> ck_secure ck = hc_cookie_secure (he_config env) \<and>
    (\<exists>se. session_from_token (he_auth env) (rq_now rq) (ck_value ck) (hs_auth t) = Inr se \<and> se_created_at se = rq_now rq \<and>
      ck_expires ck = se_expires_at se \<and> se_expires_at se = rq_now rq + cf_session_ttl (he_auth_config env))"
proof -
  let ?rq = "attach_session env rq s"
  have now: "rq_now ?rq = rq_now rq" by (simp add: attach_session_def split: option.splits sum.splits)
  obtain r where r: "call_route env ?rq call s = Some (r, t)" "reply = (case r of Inl x \<Rightarrow> x | Inr x \<Rightarrow> x)"
    using run by (auto simp: serve_def split: option.splits prod.splits sum.splits)
  have login: "login_call call"
  proof (rule ccontr)
    assume "\<not> login_call call"
    then have "no_session_set env reply" using loop_answersD [OF other_calls_plain [OF names] r(1)] r(2) by simp
    then show False using ck by (auto simp: no_session_set_def)
  qed
  then have "logged_in env ?rq reply (hs_auth t)" using login_calls_logged_in [OF _ r(1)] r(2) by simp
  then obtain res where c: "ck = session_cookie env ?rq (ar_session_token res) (se_expires_at (result_session res))"
    and made: "session_made env ?rq res (hs_auth t)"
    using ck by (auto simp: logged_in_def)
  then obtain se where se: "ar_session res = Some se" "se_created_at se = rq_now rq"
    "se_expires_at se = rq_now rq + cf_session_ttl (he_auth_config env)"
    "map_of (sessions (hs_auth t)) (hash_session_token (he_auth env) (ar_session_token res)) = Some se"
    by (auto simp: session_made_def now)
  have v: "ck_value ck = ar_session_token res" "ck_expires ck = se_expires_at se"
    by (simp_all add: c session_cookie_def Let_def result_session_def se(1))
  have "session_from_token (he_auth env) (rq_now rq) (ck_value ck) (hs_auth t) = Inr se"
    using ck(2) ttl by (simp add: session_from_token_def session_by_token_hash_def v(1) se)
  then show ?thesis using login se v
    by (auto simp: c session_cookie_def new_cookie_settings_def Let_def)
qed

theorem session_cookie_from_login_witness:
  "\<exists>reply t ck se. serve sample_http_env sample_return (AuthCall (SsoCallback sample_callback)) sample_server = Some (reply, t) \<and>
    ck \<in> set (rp_cookies reply) \<and> ck_http_only ck \<and>
    session_from_token sample_env 100 (ck_value ck) (hs_auth t) = Inr se \<and> se_expires_at se = 1100"
proof -
  have names: "external_sso_state_cookie_name sample_http_env \<noteq> hc_cookie_name (he_config sample_http_env)"
    by simp code_simp
  have ttl: "cf_session_ttl sample_config = 1000" by (simp add: sample_config_def)
  have now: "rq_now sample_return = 100" by (simp add: sample_return_def sample_http_request_def)
  obtain reply t ck where run: "serve sample_http_env sample_return (AuthCall (SsoCallback sample_callback)) sample_server = Some (reply, t)"
    and ck: "ck \<in> set (rp_cookies reply)" "ck_value ck \<noteq> []" "ck_name ck = hc_cookie_name (he_config sample_http_env)"
    using sample_callback_accepted by auto
  then show ?thesis using session_cookie_from_login [OF names _ run ck] by (auto simp: ttl now)
qed








text \<open>The start of an external sign-on sends the browser to the provider and sets one cookie, the hash of a fresh
  state; a later callback with that cookie passes the check of the state if and only if its state has this hash,
  so the one with the state does; without a configured callback URL only hosts of the loopback are served.\<close>

theorem sso_start_binds_state:
  assumes run: "serve env rq (AuthCall SsoStart) s = Some (reply, t)" and redirect: "rp_body reply = RedirectTo url"
    and digest: "\<And>x. ax_sha (he_auth env) x \<noteq> []" and random: "fv_token (rq_fresh rq) \<noteq> Some []"
    and carried: "map_of (rq_cookies rq') (external_sso_state_cookie_name env) = Some (ck_value (hd (rp_cookies reply)))"
  shows "\<exists>state callback_url. new_session_token (rq_fresh rq) = Inr state \<and> state \<noteq> [] \<and>
    build_sso_callback_url env rq state = Inr callback_url \<and>
    build_sso_login_redirect_url env (hc_sso_login_url (he_config env)) callback_url = Inr url \<and>
    rp_cookies reply = [set_sso_state_cookie env rq state] \<and> (\<exists>l. t = s\<lparr>hs_limiter := l\<rparr>) \<and>
    (trim_space (hc_sso_callback_url (he_config env)) = [] \<longrightarrow> is_loopback_request_host env (rq_host rq)) \<and>
    (verify_sso_state env rq' cb \<longleftrightarrow> external_sso_callback_state rq' cb \<noteq> [] \<and>
      hash_session_token (he_auth env) (external_sso_callback_state rq' cb) = hash_session_token (he_auth env) state)"
proof -
  let ?rq = "attach_session env rq s"
  have same: "build_sso_callback_url env ?rq state = build_sso_callback_url env rq state"
    "set_sso_state_cookie env ?rq state = set_sso_state_cookie env rq state" for state
  proof -
    obtain x where x: "?rq = rq\<lparr>rq_session := x\<rparr>" using attach_session_shape by blast
    have "request_origin (rq\<lparr>rq_session := x\<rparr>) = request_origin rq" by (simp add: request_origin_def)
    then show "build_sso_callback_url env ?rq state = build_sso_callback_url env rq state"
      "set_sso_state_cookie env ?rq state = set_sso_state_cookie env rq state"
      by (simp_all add: x build_sso_callback_url_def set_sso_state_cookie_def Let_def cong: if_cong)
  qed
  obtain r where r: "sso_start_route env ?rq s = (r, t)" "reply = (case r of Inl x \<Rightarrow> x | Inr x \<Rightarrow> x)"
    using run by (auto simp: serve_def lift_act_def split: prod.splits sum.splits)
  have "refusals (\<lambda>reply. rp_body reply \<noteq> RedirectTo url) (sso_start_route env ?rq)"
    unfolding sso_start_route_def or_message_def
    by (intro refusals_bind refusals_if refusals_or_else refusals_message refusals_basic)
      (auto simp: refusals_def require_auth_rate_limit_def message_reply_def json_reply_def split: prod.splits if_splits)
  then have "r = Inr reply" using r redirect by (cases r) (auto dest: refusalsD)
  then obtain state callback_url l where state: "new_session_token (rq_fresh rq) = Inr state"
    and urls: "build_sso_callback_url env rq state = Inr callback_url"
      "build_sso_login_redirect_url env (hc_sso_login_url (he_config env)) callback_url = Inr url"
    and cookies: "rp_cookies reply = [set_sso_state_cookie env rq state]" and t: "t = s\<lparr>hs_limiter := l\<rparr>"
    using r(1) redirect
    by (auto simp: sso_start_route_def abind_Inr_iff or_message_def or_else_Inr_iff respond_message_def same attached_fields
        require_auth_rate_limit_def json_reply_def split: prod.splits if_splits)
  have "state \<noteq> []" by (rule session_token_nonempty [OF state random])
  moreover have "trim_space (hc_sso_callback_url (he_config env)) = [] \<longrightarrow> is_loopback_request_host env (rq_host rq)"
    using urls(1) by (auto simp: build_sso_callback_url_def Let_def split: if_splits)
  moreover have "hash_session_token (he_auth env) x \<noteq> []" for x
    using digest [of x] by (cases "ax_sha (he_auth env) x") (simp_all add: hash_session_token_def hex_encode_def)
  then have "verify_sso_state env rq' cb \<longleftrightarrow> external_sso_callback_state rq' cb \<noteq> [] \<and>
      hash_session_token (he_auth env) (external_sso_callback_state rq' cb) = hash_session_token (he_auth env) state"
    using carried by (simp add: verify_sso_state_def cookies set_sso_state_cookie_def Let_def)
  ultimately show ?thesis using state urls cookies t by blast
qed

theorem sso_start_binds_state_witness:
  "\<exists>reply t state. serve sample_http_env sample_http_request (AuthCall SsoStart) sample_server = Some (reply, t) \<and> state \<noteq> [] \<and>
    rp_cookies reply = [set_sso_state_cookie sample_http_env sample_http_request state] \<and> hs_auth t = sample_auth_store"
proof -
  let ?rq = "attach_session sample_http_env sample_http_request sample_server"
  have digest: "ax_sha (he_auth sample_http_env) x \<noteq> []" for x by (simp add: sample_env_def)
  have random: "fv_token (rq_fresh sample_http_request) \<noteq> Some []"
    by (simp add: sample_http_request_def sample_fresh_def)
  obtain reply t url where run: "serve sample_http_env sample_http_request (AuthCall SsoStart) sample_server = Some (reply, t)"
    "rp_body reply = RedirectTo url"
    using sample_started by blast
  let ?returned = "sample_http_request\<lparr>rq_cookies := [(external_sso_state_cookie_name sample_http_env, ck_value (hd (rp_cookies reply)))]\<rparr>"
  have carried: "map_of (rq_cookies ?returned) (external_sso_state_cookie_name sample_http_env) = Some (ck_value (hd (rp_cookies reply)))"
    by simp
  show ?thesis
    using sso_start_binds_state [OF run digest random carried, of sample_callback] run(1) by (auto simp: sample_server_def)
qed

text \<open>The code of an error answer with an ASCII message is never empty, consists of lower-case letters, digits and
  single underscores, and neither starts nor ends with an underscore.\<close>

theorem api_error_code_shape:
  assumes "is_ascii message"
  shows "api_error_code lower letter message \<noteq> [] \<and> list_all code_char (api_error_code lower letter message) \<and>
    hd (api_error_code lower letter message) \<noteq> CHR ''_'' \<and> last (api_error_code lower letter message) \<noteq> CHR ''_'' \<and>
    successively not_double (api_error_code lower letter message)"
proof -
  let ?code = "code_from letter False (to_lower_with lower message)"
  have code: "list_all code_char ?code" "successively not_double ?code"
    using code_from_ascii to_lower_ascii [OF assms] assms by (simp_all add: to_lower_with_def)
  have fallback: "list_all code_char ''internal_server_error''" "successively not_double ''internal_server_error''"
    by (simp_all add: code_char_def is_lower_def)
  show ?thesis
    using trim_underscores_keeps [OF code] trim_underscores_ends [of ?code] fallback
    by (cases "trim_underscores ?code = []") (simp_all add: api_error_code_def Let_def)
qed

theorem api_error_code_shape_witness:
  "api_error_code id (\<lambda>_. False) ''--Rate limit: 2 exceeded!'' = ''rate_limit_2_exceeded'' \<and>
   successively not_double (api_error_code id (\<lambda>_. False) ''--Rate limit: 2 exceeded!'')"
proof
  show "api_error_code id (\<lambda>_. False) ''--Rate limit: 2 exceeded!'' = ''rate_limit_2_exceeded''" by code_simp
  have "is_ascii ''--Rate limit: 2 exceeded!''" by code_simp
  then show "successively not_double (api_error_code id (\<lambda>_. False) ''--Rate limit: 2 exceeded!'')"
    by (simp only: api_error_code_shape)
qed

lemma list_page_items: "list_page request (Inr events) = Some (Inr result) \<Longrightarrow> set (lt_items result) \<subseteq> set events"
  by (auto simp: list_page_def paginate_events_def go_slice_def Let_def split: if_splits
      dest!: in_set_takeD in_set_dropD)

lemma audit_route_refusals:
  "refusals (\<lambda>e. rp_body e \<noteq> AuditBody result) (audit_route env rq)"
  "refusals (\<lambda>e. rp_body e \<noteq> AuditBody result) (admin_audit_route env rq)"
proof -
  have plain: "rp_body (message_reply env rq status m) \<noteq> AuditBody result" "rp_body recovered \<noteq> AuditBody result" for status m
    by (simp_all add: message_reply_def json_reply_def recovered_def)
  have answer: "refusals (\<lambda>e. rp_body e \<noteq> AuditBody result) (\<lambda>s. audit_answer env rq (f s) s)" for f
    using plain by (auto simp: refusals_def audit_answer_def respond_message_def split: option.splits sum.splits)
  have session: "refusals (\<lambda>e. rp_body e \<noteq> AuditBody result) (require_session env rq)"
    unfolding require_session_def by (intro refusals_cases refusals_message refusals_basic plain)
  have pages: "refusals (\<lambda>e. rp_body e \<noteq> AuditBody result) (parse_pagination env rq)"
    unfolding parse_pagination_def Let_def by (intro refusals_cases refusals_if refusals_bind refusals_message refusals_basic plain)
  show "refusals (\<lambda>e. rp_body e \<noteq> AuditBody result) (audit_route env rq)"
    "refusals (\<lambda>e. rp_body e \<noteq> AuditBody result) (admin_audit_route env rq)"
    unfolding audit_route_def admin_audit_route_def
    by (intro refusals_bind session refusals_cases pages answer refusals_if refusals_message plain)+
qed

lemma require_session_Inr:
  "require_session env rq s = (Inr x, t) \<longleftrightarrow> (\<exists>se. rq_session rq = Some se \<and> x = (session_actor se, se) \<and> t = s)"
  by (auto simp: require_session_def respond_message_def split: option.splits)

lemma parse_pagination_still: "parse_pagination env rq s = (Inr p, t) \<Longrightarrow> t = s"
  by (auto simp: parse_pagination_def Let_def abind_Inr_iff respond_message_def split: if_splits option.splits)

lemma audit_answer_Inr: "audit_answer env rq answer s = (Inr reply, t) \<longleftrightarrow>
    (\<exists>result. answer = Some (Inr result) \<and> reply = json_reply 200 (AuditBody result) \<and> t = s)"
  by (auto simp: audit_answer_def respond_message_def split: option.splits sum.splits)

text \<open>C32. A list of audit events goes only to a request with a session; the ordinary list holds only events of the user
  of the session, the list of all events goes only to the addresses of administrators; reading changes nothing.\<close>

theorem audit_views_separate:
  assumes run: "serve env rq (AccountCall call) s = Some (reply, t)" and call: "call = GetAudit \<or> call = GetAdminAudit"
    and body: "rp_body reply = AuditBody result"
  shows "t = s \<and> (\<exists>se events. rq_session (attach_session env rq s) = Some se \<and> hs_audit s = Some events \<and>
    set (lt_items result) \<subseteq> set events \<and>
    (if call = GetAudit then list_all (\<lambda>e. ev_actor_id e = se_user_id se) (lt_items result)
     else admin_email_allowed env (se_user_email se)))"
proof -
  let ?rq = "attach_session env rq s"
  obtain r where r: "account_call_route env ?rq call s = (r, t)" "reply = (case r of Inl x \<Rightarrow> x | Inr x \<Rightarrow> x)"
    using run by (auto simp: serve_def lift_act_def split: prod.splits sum.splits)
  have "refusals (\<lambda>e. rp_body e \<noteq> AuditBody result) (account_call_route env ?rq call)"
    using call by (auto simp: audit_route_refusals)
  then have Inr: "r = Inr reply" using r body by (cases r) (auto dest: refusalsD)
  show ?thesis
  proof (cases "call = GetAudit")
    case True
    then obtain se p where se: "rq_session ?rq = Some se" and answer: "audit_answer env ?rq (Option.bind (hs_audit s) (audit_list au_events_by_actor
        \<lparr>lr_actor_id = se_user_id se, lr_page = fst p, lr_page_size = snd p\<rparr>)) s = (Inr reply, t)"
      using r(1) Inr
      by (auto simp: audit_route_def abind_Inr_iff require_session_Inr session_actor_def dest!: parse_pagination_still)
    then show ?thesis
      using True body by (auto simp: audit_answer_Inr audit_list_def au_events_by_actor_def list_all_iff bind_eq_Some_conv json_reply_def
          dest!: list_page_items split: if_splits)
  next
    case False
    then obtain se p where se: "rq_session ?rq = Some se" "admin_email_allowed env (se_user_email se)"
      and answer: "audit_answer env ?rq (Option.bind (hs_audit s) (audit_list_all au_all_events
        \<lparr>lr_actor_id = [], lr_page = fst p, lr_page_size = snd p\<rparr>)) s = (Inr reply, t)"
      using r(1) Inr call
      by (auto simp: admin_audit_route_def abind_Inr_iff require_session_Inr session_actor_def respond_message_def
          dest!: parse_pagination_still split: if_splits)
    then show ?thesis
      using False body by (auto simp: audit_answer_Inr audit_list_all_def au_all_events_def bind_eq_Some_conv json_reply_def
          dest!: list_page_items)
  qed
qed

theorem audit_views_separate_witness:
  "\<exists>reply result. serve sample_http_env sample_reading (AccountCall GetAudit) sample_audit_server = Some (reply, sample_audit_server) \<and>
    rp_body reply = AuditBody result \<and> lt_items result \<noteq> [] \<and> list_all (\<lambda>e. ev_actor_id e = ''u1'') (lt_items result)"
proof -
  obtain reply t result where run: "serve sample_http_env sample_reading (AccountCall GetAudit) sample_audit_server = Some (reply, t)"
    "rp_body reply = AuditBody result" "lt_items result \<noteq> []"
    using sample_audit_read by blast
  then show ?thesis
    using audit_views_separate [OF run(1) disjI1 [OF refl] run(2)] sample_reading_session
    by (auto simp: sample_reader_def)
qed

end
