(* ===== verification/Record_Store.thy ===== *)
theory Record_Store
  imports Triples Encodings
begin

text \<open>
  The store of records behind the SQL stores of all packages (\<open>persistence/sql_store.go\<close>): one table with the
  primary key (namespace, record key), a unique index on (namespace, secondary key) where the secondary key is
  not empty, and a JSON document per row. The database is outside the repository; modelled is what the SQL
  statements of the source say about the table.

  Every statement can fail: \<open>db_outcomes\<close> says what happens to the next ones. A statement that \<open>Fails\<close> does
  nothing; one whose \<open>AnswerLost\<close> is carried out but reported as failed, as a time-out or a broken connection
  does. An empty list stands for a database without faults. No statement orders its rows, so \<open>db_scan\<close>
  is the order in which the database happens to give rows back.
\<close>

section \<open>Data\<close>

record 'd table_row =
  tr_namespace :: string
  tr_key :: string
  tr_parent :: string
  tr_owner :: string
  tr_secondary :: string
  tr_data :: 'd

datatype sql_error = SqlNoRows | SqlFailed string | SqlUndecodable

datatype outcome = Works | Fails | AnswerLost

record 'd database =
  db_rows :: "'d table_row list"
  db_outcomes :: "outcome list"
  db_in_tx :: bool
  db_scan :: "'d table_row list \<Rightarrow> 'd table_row list"

type_synonym ('d, 'a) sql_act = "('d database, sql_error, 'a) act"

text \<open>A reversible key of several parts.\<close>

definition join_key :: "string list \<Rightarrow> string" where
  "join_key parts = join_with ''.'' (map (encode_to_string url_alphabet) parts)"

section \<open>Statements\<close>

definition next_outcome :: "'d database \<Rightarrow> outcome \<times> 'd database" where
  "next_outcome db = (case db_outcomes db of [] \<Rightarrow> (Works, db) | x # xs \<Rightarrow> (x, db\<lparr>db_outcomes := xs\<rparr>))"

definition statement :: "('d table_row list \<Rightarrow> (sql_error + 'a) \<times> 'd table_row list) \<Rightarrow> ('d, 'a) sql_act" where
  "statement f db =
     (case next_outcome db of (out, db) \<Rightarrow>
        (case out of
           Works \<Rightarrow> (case f (db_rows db) of (r, rows) \<Rightarrow> (r, db\<lparr>db_rows := rows\<rparr>))
         | Fails \<Rightarrow> (Inl (SqlFailed ''statement failed''), db)
         | AnswerLost \<Rightarrow> (Inl (SqlFailed ''answer lost''), db\<lparr>db_rows := snd (f (db_rows db))\<rparr>)))"

definition row_at :: "string \<Rightarrow> string \<Rightarrow> 'd table_row \<Rightarrow> bool" where
  "row_at namespace key r \<longleftrightarrow> tr_namespace r = namespace \<and> tr_key r = key"

definition same_row :: "'d table_row \<Rightarrow> 'd table_row \<Rightarrow> bool" where
  "same_row x r \<longleftrightarrow> row_at (tr_namespace r) (tr_key r) x"

definition same_secondary :: "'d table_row \<Rightarrow> 'd table_row \<Rightarrow> bool" where
  "same_secondary x r \<longleftrightarrow> tr_secondary r \<noteq> [] \<and> tr_namespace x = tr_namespace r \<and> tr_secondary x = tr_secondary r"

definition unique_violation :: "sql_error" where "unique_violation = SqlFailed ''unique constraint violated''"

text \<open>The row put in the place of the one with its key; another row may hold its secondary key.\<close>

definition replace_row :: "'d table_row \<Rightarrow> 'd table_row list \<Rightarrow> (sql_error + unit) \<times> 'd table_row list" where
  "replace_row r rows =
     (if list_ex (\<lambda>x. \<not> same_row x r \<and> same_secondary x r) rows then (Inl unique_violation, rows)
      else (Inr (), map (\<lambda>x. if same_row x r then r else x) rows))"

definition append_row :: "'d table_row \<Rightarrow> 'd table_row list \<Rightarrow> (sql_error + unit) \<times> 'd table_row list" where
  "append_row r rows =
     (if list_ex (\<lambda>x. same_row x r \<or> same_secondary x r) rows then (Inl unique_violation, rows) else (Inr (), rows @ [r]))"

section \<open>The operations\<close>

definition rs_count :: "string \<Rightarrow> ('d, int) sql_act" where
  "rs_count namespace = statement (\<lambda>rows. (Inr (int (length (filter (\<lambda>r. tr_namespace r = namespace) rows))), rows))"

definition rs_insert :: "'d table_row \<Rightarrow> ('d, unit) sql_act" where
  "rs_insert r = statement (append_row r)"

definition rs_upsert :: "'d table_row \<Rightarrow> ('d, unit) sql_act" where
  "rs_upsert r = statement (\<lambda>rows. if list_ex (\<lambda>x. same_row x r) rows then replace_row r rows else append_row r rows)"

definition rs_update :: "'d table_row \<Rightarrow> ('d, unit) sql_act" where
  "rs_update r = statement (\<lambda>rows. if list_ex (\<lambda>x. same_row x r) rows then replace_row r rows else (Inl SqlNoRows, rows))"

definition rs_delete :: "string \<Rightarrow> string \<Rightarrow> ('d, unit) sql_act" where
  "rs_delete namespace key = statement (\<lambda>rows. (Inr (), filter (\<lambda>r. \<not> row_at namespace key r) rows))"

definition rs_delete_by_owner :: "string \<Rightarrow> string \<Rightarrow> ('d, unit) sql_act" where
  "rs_delete_by_owner namespace owner =
     statement (\<lambda>rows. (Inr (), filter (\<lambda>r. \<not> (tr_namespace r = namespace \<and> tr_owner r = owner)) rows))"

text \<open>\<open>scanJSON\<close>: the document of the row, if there is one.\<close>

definition scan_json :: "('d \<Rightarrow> 'a option) \<Rightarrow> 'd table_row option \<Rightarrow> sql_error + 'a" where
  "scan_json decode row =
     (case row of None \<Rightarrow> Inl SqlNoRows
      | Some r \<Rightarrow> (case decode (tr_data r) of None \<Rightarrow> Inl SqlUndecodable | Some x \<Rightarrow> Inr x))"

definition rs_get :: "('d \<Rightarrow> 'a option) \<Rightarrow> string \<Rightarrow> string \<Rightarrow> ('d, 'a) sql_act" where
  "rs_get decode namespace key = statement (\<lambda>rows. (scan_json decode (find (row_at namespace key) rows), rows))"

definition rs_get_by_secondary :: "('d \<Rightarrow> 'a option) \<Rightarrow> string \<Rightarrow> string \<Rightarrow> ('d, 'a) sql_act" where
  "rs_get_by_secondary decode namespace secondary db =
     statement (\<lambda>rows. (scan_json decode
       (find (\<lambda>r. tr_namespace r = namespace \<and> tr_secondary r = secondary) (db_scan db rows)), rows)) db"

definition rs_list :: "('d \<Rightarrow> 'a option) \<Rightarrow> string \<Rightarrow> string option \<Rightarrow> string option \<Rightarrow> ('d, 'a list) sql_act" where
  "rs_list decode namespace parent owner db =
     statement (\<lambda>rows. (case those (map (\<lambda>r. decode (tr_data r)) (filter (\<lambda>r. tr_namespace r = namespace \<and>
           (case parent of None \<Rightarrow> True | Some p \<Rightarrow> tr_parent r = p) \<and> (case owner of None \<Rightarrow> True | Some u \<Rightarrow> tr_owner r = u))
           (db_scan db rows))) of
         None \<Rightarrow> Inl SqlUndecodable | Some xs \<Rightarrow> Inr xs, rows)) db"

definition rs_list_records :: "string \<Rightarrow> ('d, 'd table_row list) sql_act" where
  "rs_list_records namespace db =
     statement (\<lambda>rows. (Inr (filter (\<lambda>r. tr_namespace r = namespace) (db_scan db rows)), rows)) db"

text \<open>
  \<open>WithTx\<close>: an error of the body rolls its writes back. When the answer to the commit is lost, the writes
  stay and the caller gets an error.
\<close>

definition with_tx :: "(sql_error \<Rightarrow> 'e) \<Rightarrow> ('d database, 'e, 'a) act \<Rightarrow> ('d database, 'e, 'a) act" where
  "with_tx wrap body db =
     (if db_in_tx db then (Inl (wrap (SqlFailed ''nested record transactions are not supported'')), db)
      else (case next_outcome db of (opened, db1) \<Rightarrow>
        if opened \<noteq> Works then (Inl (wrap (SqlFailed ''begin transaction'')), db1)
        else (case body (db1\<lparr>db_in_tx := True\<rparr>) of
            (Inl e, db2) \<Rightarrow> (Inl e, db2\<lparr>db_rows := db_rows db, db_in_tx := False\<rparr>)
          | (Inr x, db2) \<Rightarrow>
              (case next_outcome db2 of (committed, db3) \<Rightarrow>
                 (if committed = Works then Inr x else Inl (wrap (SqlFailed ''commit transaction'')),
                  db3\<lparr>db_in_tx := False, db_rows := if committed = Fails then db_rows db else db_rows db3\<rparr>)))))"

text \<open>A lookup for which a missing row is no error, as callers that ask for \<open>sql.ErrNoRows\<close> make it.\<close>

definition rs_find :: "('d \<Rightarrow> 'a option) \<Rightarrow> string \<Rightarrow> string \<Rightarrow> ('d, 'a option) sql_act" where
  "rs_find decode namespace key db =
     (case rs_get decode namespace key db of
        (Inl e, t) \<Rightarrow> if e = SqlNoRows then (Inr None, t) else (Inl e, t)
      | (Inr x, t) \<Rightarrow> (Inr (Some x), t))"

text \<open>An absent counter is zero; \<open>encode\<close> and \<open>decode\<close> are those of a JSON number.\<close>

definition rs_counter :: "('d \<Rightarrow> int option) \<Rightarrow> string \<Rightarrow> string \<Rightarrow> ('d, int) sql_act" where
  "rs_counter decode namespace key =
     abind (rs_find decode namespace key) (\<lambda>found. aret (case found of None \<Rightarrow> 0 | Some n \<Rightarrow> n))"

definition rs_increment_counter :: "('d \<Rightarrow> int option) \<Rightarrow> (int \<Rightarrow> 'd) \<Rightarrow> string \<Rightarrow> string \<Rightarrow> ('d, int) sql_act" where
  "rs_increment_counter decode encode namespace key =
     with_tx id
       (abind (rs_counter decode namespace key) (\<lambda>current.
        (let following = int64 (current + 1) in
         abind (rs_upsert \<lparr>tr_namespace = namespace, tr_key = key, tr_parent = [], tr_owner = [], tr_secondary = [],
                           tr_data = encode following\<rparr>) (\<lambda>_.
         aret following))))"

section \<open>Keys\<close>

lemma join_key_inject:
  assumes "join_key xs = join_key ys" and "xs \<noteq> []" and "ys \<noteq> []"
  shows "xs = ys"
proof -
  have plain: "list_all (\<lambda>s. CHR ''.'' \<notin> set s) (map (encode_to_string url_alphabet) zs)" for zs
  proof -
    have "CHR ''.'' \<notin> set url_alphabet" by (simp add: url_alphabet_def)
    then have "CHR ''.'' \<notin> set (encode_to_string url_alphabet z)" for z using url.encode_chars [of z] by blast
    then show ?thesis by (simp add: list_all_iff)
  qed
  have parts: "split_at (CHR ''.'') (join_key zs) = map (encode_to_string url_alphabet) zs" if "zs \<noteq> []" for zs
    unfolding join_key_def by (rule split_join [OF _ plain]) (simp add: that)
  have "map (encode_to_string url_alphabet) xs = map (encode_to_string url_alphabet) ys"
    unfolding parts [OF assms(2), symmetric] parts [OF assms(3), symmetric] assms(1) ..
  moreover have "inj (encode_to_string url_alphabet)"
    using url.decode_encode by (intro injI) (metis option.inject)
  ultimately show ?thesis by (simp add: inj_map_eq_map)
qed

section \<open>Constraints\<close>

text \<open>The primary key and the unique index.\<close>

definition rows_unique :: "'d table_row list \<Rightarrow> bool" where
  "rows_unique rows \<longleftrightarrow> distinct (map (\<lambda>r. (tr_namespace r, tr_key r)) rows) \<and>
     distinct (map (\<lambda>r. (tr_namespace r, tr_secondary r)) (filter (\<lambda>r. tr_secondary r \<noteq> []) rows))"

lemma same_row_iff: "same_row x r \<longleftrightarrow> (tr_namespace x, tr_key x) = (tr_namespace r, tr_key r)"
  by (auto simp: same_row_def row_at_def)

lemma append_row_unique: "rows_unique rows \<Longrightarrow> rows_unique (snd (append_row r rows))"
  by (auto simp: append_row_def rows_unique_def list_ex_iff same_row_iff same_secondary_def)

lemma unique_filter: "rows_unique rows \<Longrightarrow> rows_unique (filter P rows)"
  by (auto simp: rows_unique_def distinct_map inj_on_def)

lemma map_replace_keys: "map (\<lambda>r. (tr_namespace r, tr_key r)) (map (\<lambda>x. if same_row x r then r else x) rows) =
    map (\<lambda>r. (tr_namespace r, tr_key r)) rows"
  by (simp add: same_row_iff)

lemma replaced_secondaries:
  assumes keys: "distinct (map (\<lambda>r. (tr_namespace r, tr_key r)) rows)"
    and secondaries: "distinct (map (\<lambda>r. (tr_namespace r, tr_secondary r)) (filter (\<lambda>r. tr_secondary r \<noteq> []) rows))"
    and free: "\<forall>x \<in> set rows. same_secondary x r \<longrightarrow> same_row x r"
  shows "distinct (map (\<lambda>r. (tr_namespace r, tr_secondary r))
    (filter (\<lambda>r. tr_secondary r \<noteq> []) (map (\<lambda>x. if same_row x r then r else x) rows)))"
  using assms
proof (induction rows)
  case (Cons y rows)
  let ?f = "\<lambda>x. if same_row x r then r else x"
  have IH: "distinct (map (\<lambda>r. (tr_namespace r, tr_secondary r)) (filter (\<lambda>r. tr_secondary r \<noteq> []) (map ?f rows)))"
    by (rule Cons.IH) (use Cons.prems in \<open>simp_all split: if_splits\<close>)
  have new: "(tr_namespace (?f y), tr_secondary (?f y)) \<noteq> (tr_namespace (?f x), tr_secondary (?f x))"
    if x: "x \<in> set rows" "tr_secondary (?f y) \<noteq> []" for x
  proof -
    have "\<not> (same_row x r \<and> same_row y r)" using Cons.prems(1) x(1) by (auto simp: same_row_iff image_iff)
    moreover have "\<not> same_secondary x r \<or> same_row x r" "\<not> same_secondary y r \<or> same_row y r" using Cons.prems(3) x(1) by auto
    moreover have "tr_secondary y \<noteq> [] \<Longrightarrow> (tr_namespace y, tr_secondary y) \<noteq> (tr_namespace x, tr_secondary x)"
      using Cons.prems(2) x(1) by (auto simp: image_iff)
    ultimately show ?thesis using x(2) by (cases "same_row x r"; cases "same_row y r") (auto simp: same_secondary_def)
  qed
  show ?case
  proof (cases "tr_secondary (?f y) = []")
    case False
    then have "(tr_namespace (?f y), tr_secondary (?f y)) \<notin>
        (\<lambda>r. (tr_namespace r, tr_secondary r)) ` set (filter (\<lambda>r. tr_secondary r \<noteq> []) (map ?f rows))"
      using new by fastforce
    then show ?thesis using IH False by simp
  qed (use IH in simp)
qed simp

lemma replace_row_unique: "rows_unique rows \<Longrightarrow> rows_unique (snd (replace_row r rows))"
  using replaced_secondaries [of rows r]
  by (auto simp: replace_row_def rows_unique_def map_replace_keys list_ex_iff simp del: filter_map map_map)

lemma statement_keeps: "(\<And>rows. P rows \<Longrightarrow> P (snd (f rows))) \<Longrightarrow> keeps (\<lambda>db. P (db_rows db)) (statement f)"
  by (rule keepsI)
    (auto simp: statement_def next_outcome_def prod.case_eq_if split: outcome.splits list.splits)

lemma scan_keeps: "keeps (\<lambda>db. P (db_rows db)) (\<lambda>db. statement (\<lambda>rows. (f db rows, rows)) db)"
  by (rule keepsI) (auto simp: statement_def next_outcome_def split: outcome.splits list.splits)

lemma with_tx_keeps:
  assumes "keeps (\<lambda>db. P (db_rows db)) body"
  shows "keeps (\<lambda>db. P (db_rows db)) (with_tx wrap body)"
proof (rule keepsI)
  fix db r t assume ok: "P (db_rows db)" and run: "with_tx wrap body db = (r, t)"
  obtain opened db1 where opened: "next_outcome db = (opened, db1)" by fastforce
  obtain q db2 where body: "body (db1\<lparr>db_in_tx := True\<rparr>) = (q, db2)" by fastforce
  obtain committed db3 where committed: "next_outcome db2 = (committed, db3)" by fastforce
  have "P (db_rows (db1\<lparr>db_in_tx := True\<rparr>))" using ok opened by (auto simp: next_outcome_def split: list.splits)
  then have "P (db_rows db2)" by (rule keepsD [OF assms _ body])
  then have "P (db_rows db3)" using committed by (auto simp: next_outcome_def split: list.splits)
  moreover have "db_rows db1 = db_rows db" using opened by (auto simp: next_outcome_def split: list.splits)
  ultimately show "P (db_rows t)"
    using run ok opened body committed by (cases q) (auto simp: with_tx_def split: if_splits)
qed

lemma record_operations_keep:
  "keeps (\<lambda>db. rows_unique (db_rows db)) (rs_count ns)"
  "keeps (\<lambda>db. rows_unique (db_rows db)) (rs_insert r)"
  "keeps (\<lambda>db. rows_unique (db_rows db)) (rs_upsert r)"
  "keeps (\<lambda>db. rows_unique (db_rows db)) (rs_update r)"
  "keeps (\<lambda>db. rows_unique (db_rows db)) (rs_delete ns key)"
  "keeps (\<lambda>db. rows_unique (db_rows db)) (rs_delete_by_owner ns owner)"
  "keeps (\<lambda>db. rows_unique (db_rows db)) (rs_get decode ns key)"
  "keeps (\<lambda>db. rows_unique (db_rows db)) (rs_get_by_secondary decode ns secondary)"
  "keeps (\<lambda>db. rows_unique (db_rows db)) (rs_list decode ns parent_key owner_key)"
  "keeps (\<lambda>db. rows_unique (db_rows db)) (rs_list_records ns)"
  unfolding rs_count_def rs_insert_def rs_upsert_def rs_update_def rs_delete_def rs_delete_by_owner_def rs_get_def
    rs_get_by_secondary_def rs_list_def rs_list_records_def
  by (rule scan_keeps | (rule statement_keeps, simp add: append_row_unique replace_row_unique unique_filter))+

end
