(* ===== verification/Record_Faults.thy ===== *)
theory Record_Faults
  imports Record_Store
begin

text \<open>
  What faults can do to operations on the store of records, the rules that carry it over to the methods of the
  SQL stores, and the counters.
\<close>

section \<open>Faults\<close>

text \<open>
  A run in which everything works, and what every run has to do with it: one that succeeds did the same, and one
  that is reported as failed has changed nothing or everything.
\<close>

definition calm :: "'d database \<Rightarrow> 'd database" where "calm db = db\<lparr>db_outcomes := []\<rparr>"

definition true_success :: "('d database, 'e, 'a) act \<Rightarrow> bool" where
  "true_success m \<longleftrightarrow> (\<forall>db x t. m db = (Inr x, t) \<longrightarrow> m (calm db) = (Inr x, calm t))"

definition reads_only :: "('d database, 'e, 'a) act \<Rightarrow> bool" where
  "reads_only m \<longleftrightarrow> true_success m \<and> (\<forall>db r t. m db = (r, t) \<longrightarrow> calm t = calm db)"

definition all_or_nothing :: "('d database, 'e, 'a) act \<Rightarrow> bool" where
  "all_or_nothing m \<longleftrightarrow> true_success m \<and>
     (\<forall>db e t. m db = (Inl e, t) \<longrightarrow> db_rows t = db_rows db \<or> db_rows t = db_rows (snd (m (calm db))))"

lemma calm_simps [simp]:
  "db_rows (calm db) = db_rows db" "db_scan (calm db) = db_scan db" "db_in_tx (calm db) = db_in_tx db"
  "calm (calm db) = calm db" "calm (db\<lparr>db_rows := rows\<rparr>) = (calm db)\<lparr>db_rows := rows\<rparr>"
  "calm (db\<lparr>db_in_tx := b\<rparr>) = (calm db)\<lparr>db_in_tx := b\<rparr>" "calm (db\<lparr>db_outcomes := xs\<rparr>) = calm db"
  by (simp_all add: calm_def)

lemma calm_same: "(calm db)\<lparr>db_rows := db_rows db\<rparr> = calm db"
  by (simp add: calm_def)

lemma calm_eqD: "calm t = calm db \<Longrightarrow> db_rows t = db_rows db"
  by (metis calm_simps(1))

lemma next_outcome_calm: "next_outcome db = (out, t) \<Longrightarrow> calm t = calm db" "next_outcome (calm db) = (Works, calm db)"
  by (auto simp: next_outcome_def calm_def split: list.splits)

lemma statement_calm: "statement f (calm db) = (case f (db_rows db) of (r, rows) \<Rightarrow> (r, (calm db)\<lparr>db_rows := rows\<rparr>))"
  by (simp add: statement_def next_outcome_calm)

lemma statement_run:
  assumes "statement f db = (r, t)"
  shows "calm t = (calm db)\<lparr>db_rows := db_rows t\<rparr>"
    and "is_ok r \<Longrightarrow> f (db_rows db) = (r, db_rows t)"
    and "\<not> is_ok r \<Longrightarrow> db_rows t = db_rows db \<or> db_rows t = snd (f (db_rows db))"
proof -
  obtain out db1 where out: "next_outcome db = (out, db1)" by fastforce
  have rows: "db_rows db1 = db_rows db" "calm db1 = calm db"
    using next_outcome_calm(1) [OF out] by (auto dest: calm_eqD)
  show "calm t = (calm db)\<lparr>db_rows := db_rows t\<rparr>" "is_ok r \<Longrightarrow> f (db_rows db) = (r, db_rows t)"
    "\<not> is_ok r \<Longrightarrow> db_rows t = db_rows db \<or> db_rows t = snd (f (db_rows db))"
    using assms rows by (auto simp: statement_def out split: outcome.splits prod.splits)
qed

lemma statement_atomic: "all_or_nothing (statement f)"
  unfolding all_or_nothing_def true_success_def
proof (intro conjI allI impI)
  fix db x t assume run: "statement f db = (Inr x, t)"
  then show "statement f (calm db) = (Inr x, calm t)"
    using statement_run [OF run] by (simp add: statement_calm)
next
  fix db e t assume run: "statement f db = (Inl e, t)"
  then show "db_rows t = db_rows db \<or> db_rows t = db_rows (snd (statement f (calm db)))"
    using statement_run(3) [OF run] by (auto simp: statement_calm split: prod.splits)
qed

lemma statement_reads:
  assumes "\<And>rows. snd (f rows) = rows"
  shows "reads_only (statement f)"
  unfolding reads_only_def
proof (intro conjI allI impI)
  show "true_success (statement f)" using statement_atomic [of f] by (simp add: all_or_nothing_def)
  fix db r t assume run: "statement f db = (r, t)"
  have "db_rows t = db_rows db"
    using statement_run(2,3) [OF run] assms [of "db_rows db"] by (cases "is_ok r") auto
  then show "calm t = calm db" using statement_run(1) [OF run] by (simp add: calm_def)
qed

text \<open>The rules: some reads, then one statement or one transaction.\<close>

lemma reads_onlyD:
  "reads_only m \<Longrightarrow> m db = (r, t) \<Longrightarrow> calm t = calm db"
  "reads_only m \<Longrightarrow> m db = (Inr x, t) \<Longrightarrow> m (calm db) = (Inr x, calm db)"
  by (auto simp: reads_only_def true_success_def)

lemma true_success_basic: "true_success (aret x)" "true_success (afail e)" "true_success (aguard b e)"
  by (auto simp: true_success_def)

lemma true_success_bind: "true_success m \<Longrightarrow> (\<And>x. true_success (f x)) \<Longrightarrow> true_success (abind m f)"
  unfolding true_success_def abind_Inr_iff by metis

lemma reads_basic: "reads_only (aret x)" "reads_only (afail e)" "reads_only (aguard b e)"
  by (auto simp: reads_only_def true_success_basic)

lemma reads_bind: "reads_only m \<Longrightarrow> (\<And>x. reads_only (f x)) \<Longrightarrow> reads_only (abind m f)"
  unfolding reads_only_def by (intro conjI true_success_bind) (auto simp: abind_def split: prod.splits sum.splits)

lemma reads_atomic: "reads_only m \<Longrightarrow> all_or_nothing m"
  by (auto simp: all_or_nothing_def reads_only_def dest!: spec calm_eqD)

lemma atomic_bind:
  assumes m: "reads_only m" and f: "\<And>x. all_or_nothing (f x)"
  shows "all_or_nothing (abind m f)"
  unfolding all_or_nothing_def
proof (intro conjI allI impI)
  show "true_success (abind m f)"
    using m f by (intro true_success_bind) (simp_all add: reads_only_def all_or_nothing_def)
  fix db e t assume "abind m f db = (Inl e, t)"
  then consider (read) "m db = (Inl e, t)" | (step) x u where "m db = (Inr x, u)" "f x u = (Inl e, t)"
    by (auto simp: abind_Inl_iff)
  then show "db_rows t = db_rows db \<or> db_rows t = db_rows (snd (abind m f (calm db)))"
  proof cases
    case read
    then show ?thesis using reads_onlyD(1) [OF m read] by (auto dest: calm_eqD)
  next
    case step
    have "calm u = calm db" by (rule reads_onlyD(1) [OF m step(1)])
    moreover have "m (calm db) = (Inr x, calm db)" by (rule reads_onlyD(2) [OF m step(1)])
    moreover have "db_rows t = db_rows u \<or> db_rows t = db_rows (snd (f x (calm u)))"
      using f [of x] step(2) unfolding all_or_nothing_def by blast
    ultimately show ?thesis using calm_eqD [of u db] by (simp add: abind_def)
  qed
qed

lemma atomic_then:
  assumes "all_or_nothing m"
  shows "all_or_nothing (abind m (\<lambda>x. aret (g x)))"
  unfolding all_or_nothing_def
proof (intro conjI allI impI)
  show "true_success (abind m (\<lambda>x. aret (g x)))"
    using assms by (intro true_success_bind true_success_basic) (simp add: all_or_nothing_def)
  fix db e t assume "abind m (\<lambda>x. aret (g x)) db = (Inl e, t)"
  then have "m db = (Inl e, t)" by (auto simp: abind_Inl_iff)
  then have "db_rows t = db_rows db \<or> db_rows t = db_rows (snd (m (calm db)))"
    using assms unfolding all_or_nothing_def by blast
  moreover have "snd (abind m (\<lambda>x. aret (g x)) (calm db)) = snd (m (calm db))"
    by (simp add: abind_def aret_def split: prod.splits sum.splits)
  ultimately show "db_rows t = db_rows db \<or> db_rows t = db_rows (snd (abind m (\<lambda>x. aret (g x)) (calm db)))"
    by simp
qed

lemma atomic_if: "all_or_nothing m \<Longrightarrow> all_or_nothing n \<Longrightarrow> all_or_nothing (if b then m else n)"
  by simp

lemma true_success_tx:
  assumes "true_success body"
  shows "true_success (with_tx wrap body)"
  unfolding true_success_def
proof (intro allI impI)
  fix db x t assume run: "with_tx wrap body db = (Inr x, t)"
  obtain opened db1 where opened: "next_outcome db = (opened, db1)" by fastforce
  obtain q db2 where body: "body (db1\<lparr>db_in_tx := True\<rparr>) = (q, db2)" by fastforce
  obtain committed db3 where committed: "next_outcome db2 = (committed, db3)" by fastforce
  have q: "q = Inr x" "committed = Works" "t = db3\<lparr>db_in_tx := False\<rparr>" "\<not> db_in_tx db" "opened = Works"
    using run by (auto simp: with_tx_def opened body committed split: if_splits sum.splits)
  have "body ((calm db)\<lparr>db_in_tx := True\<rparr>) = (Inr x, calm db2)"
    using assms body q(1) next_outcome_calm(1) [OF opened] unfolding true_success_def
    by (metis calm_simps(6))
  then show "with_tx wrap body (calm db) = (Inr x, calm t)"
    using q(2-4) next_outcome_calm(1) [OF committed] by (simp add: with_tx_def next_outcome_calm)
qed

lemma with_tx_atomic:
  assumes "true_success body"
  shows "all_or_nothing (with_tx wrap body)"
  unfolding all_or_nothing_def
proof (intro conjI allI impI)
  show "true_success (with_tx wrap body)" by (rule true_success_tx [OF assms])
  fix db e t assume run: "with_tx wrap body db = (Inl e, t)"
  obtain opened db1 where opened: "next_outcome db = (opened, db1)" by fastforce
  obtain q db2 where body: "body (db1\<lparr>db_in_tx := True\<rparr>) = (q, db2)" by fastforce
  obtain committed db3 where committed: "next_outcome db2 = (committed, db3)" by fastforce
  have rows1: "db_rows db1 = db_rows db" using next_outcome_calm(1) [OF opened] by (rule calm_eqD)
  show "db_rows t = db_rows db \<or> db_rows t = db_rows (snd (with_tx wrap body (calm db)))"
  proof (cases "db_rows t = db_rows db")
    case False
    then obtain x where x: "q = Inr x" "committed = AnswerLost" "t = db3\<lparr>db_in_tx := False\<rparr>" "\<not> db_in_tx db"
      using run rows1 by (cases committed) (auto simp: with_tx_def opened body committed split: if_splits sum.splits)
    have "body ((calm db)\<lparr>db_in_tx := True\<rparr>) = (Inr x, calm db2)"
      using assms body x(1) next_outcome_calm(1) [OF opened] unfolding true_success_def
      by (metis calm_simps(6))
    then show ?thesis
      using x next_outcome_calm(1) [OF committed, THEN calm_eqD] by (simp add: with_tx_def next_outcome_calm)
  qed simp
qed

lemma with_tx_calm:
  "\<not> db_in_tx db \<Longrightarrow> body (calm (db\<lparr>db_in_tx := True\<rparr>)) = (Inr x, calm u) \<Longrightarrow>
   with_tx w body (calm db) = (Inr x, (calm u)\<lparr>db_in_tx := False\<rparr>)"
  "body (calm (db\<lparr>db_in_tx := True\<rparr>)) = (Inl e, u) \<Longrightarrow>
   \<exists>e v. with_tx w body (calm db) = (Inl e, v) \<and> db_rows v = db_rows db"
  by (auto simp: with_tx_def next_outcome_calm)

text \<open>A call whose error is given another form.\<close>

definition or_sql :: "(sql_error \<Rightarrow> 'e) \<Rightarrow> ('d, 'a) sql_act \<Rightarrow> ('d database, 'e, 'a) act" where
  "or_sql wrap m db = (case m db of (Inl e, t) \<Rightarrow> (Inl (wrap e), t) | (Inr x, t) \<Rightarrow> (Inr x, t))"

lemma or_sql_Inr_iff: "or_sql wrap m db = (Inr x, t) \<longleftrightarrow> m db = (Inr x, t)"
  by (auto simp: or_sql_def split: prod.splits sum.splits)

lemma or_sql_Inl_iff: "or_sql wrap m db = (Inl e, t) \<longleftrightarrow> (\<exists>e'. m db = (Inl e', t) \<and> e = wrap e')"
  by (auto simp: or_sql_def split: prod.splits sum.splits)

lemma or_sql_snd: "snd (or_sql wrap m db) = snd (m db)"
  by (auto simp: or_sql_def split: prod.splits sum.splits)

lemma or_sql_rules:
  "true_success m \<Longrightarrow> true_success (or_sql wrap m)" "reads_only m \<Longrightarrow> reads_only (or_sql wrap m)"
  "all_or_nothing m \<Longrightarrow> all_or_nothing (or_sql wrap m)"
proof -
  show success: "true_success m \<Longrightarrow> true_success (or_sql wrap m)"
    by (simp add: true_success_def or_sql_Inr_iff)
  show "reads_only m \<Longrightarrow> reads_only (or_sql wrap m)"
  proof -
    assume m: "reads_only m"
    then have "true_success (or_sql wrap m)" using success by (simp add: reads_only_def)
    moreover have "calm t = calm db" if "or_sql wrap m db = (r, t)" for db r t
      using m that or_sql_snd [of wrap m db] unfolding reads_only_def by (metis prod.collapse snd_conv)
    ultimately show ?thesis by (simp add: reads_only_def)
  qed
  show "all_or_nothing m \<Longrightarrow> all_or_nothing (or_sql wrap m)"
    unfolding all_or_nothing_def using success by (auto simp: or_sql_Inl_iff or_sql_snd)
qed

lemma scan_reads: "reads_only (\<lambda>db. statement (\<lambda>rows. (f (db_scan db) rows, rows)) db)"
  unfolding reads_only_def true_success_def
proof (intro conjI allI impI)
  fix db x t assume "statement (\<lambda>rows. (f (db_scan db) rows, rows)) db = (Inr x, t)"
  then show "statement (\<lambda>rows. (f (db_scan (calm db)) rows, rows)) (calm db) = (Inr x, calm t)"
    using statement_reads [of "\<lambda>rows. (f (db_scan db) rows, rows)"] by (simp add: reads_only_def true_success_def)
next
  fix db r t assume "statement (\<lambda>rows. (f (db_scan db) rows, rows)) db = (r, t)"
  then show "calm t = calm db"
    using statement_reads [of "\<lambda>rows. (f (db_scan db) rows, rows)"] by (simp add: reads_only_def)
qed

lemma record_reads:
  "reads_only (rs_count ns)" "reads_only (rs_get decode ns key)" "reads_only (rs_get_by_secondary decode ns secondary)"
  "reads_only (rs_list decode ns parent_key owner_key)" "reads_only (rs_list_records ns)"
  unfolding rs_count_def rs_get_def rs_get_by_secondary_def rs_list_def rs_list_records_def
  by (rule scan_reads | (rule statement_reads, simp))+

lemma find_reads: "reads_only (rs_find decode ns key)"
proof -
  have get: "reads_only (rs_get decode ns key)" by (rule record_reads)
  show ?thesis
    unfolding reads_only_def true_success_def
  proof (intro conjI allI impI)
    fix db x t assume run: "rs_find decode ns key db = (Inr x, t)"
    obtain r u where r: "rs_get decode ns key db = (r, u)" by fastforce
    have "rs_get decode ns key (calm db) = (r, calm u)" if "r = Inl SqlNoRows"
    proof -
      have "db_rows u = db_rows db" "calm u = calm db" using reads_onlyD(1) [OF get r] by (auto dest: calm_eqD)
      moreover have "scan_json decode (find (row_at ns key) (db_rows db)) = Inl SqlNoRows"
        using r that by (auto simp: rs_get_def statement_def next_outcome_def split: list.splits outcome.splits)
      ultimately show ?thesis by (simp add: rs_get_def statement_calm that)
    qed
    moreover have "rs_get decode ns key (calm db) = (r, calm u)" if "r = Inr n" for n
      using get r that by (simp add: reads_only_def true_success_def)
    ultimately show "rs_find decode ns key (calm db) = (Inr x, calm t)"
      using run r by (cases r) (auto simp: rs_find_def split: if_splits)
  next
    fix db r t assume "rs_find decode ns key db = (r, t)"
    then show "calm t = calm db"
      using reads_onlyD(1) [OF get] by (auto simp: rs_find_def split: prod.splits sum.splits if_splits)
  qed
qed

lemma counter_reads: "reads_only (rs_counter decode ns key)"
  unfolding rs_counter_def by (intro reads_bind find_reads reads_basic)

lemma record_writes:
  "all_or_nothing (rs_insert r)" "all_or_nothing (rs_upsert r)" "all_or_nothing (rs_update r)"
  "all_or_nothing (rs_delete ns key)" "all_or_nothing (rs_delete_by_owner ns owner)"
  unfolding rs_insert_def rs_upsert_def rs_update_def rs_delete_def rs_delete_by_owner_def
  by (rule statement_atomic)+

lemma atomic_success: "all_or_nothing m \<Longrightarrow> true_success m" "reads_only m \<Longrightarrow> true_success m"
  by (simp_all add: all_or_nothing_def reads_only_def)

lemmas success_rules = true_success_bind true_success_basic atomic_success(1) [OF record_writes(1)]
  atomic_success(1) [OF record_writes(2)] atomic_success(1) [OF record_writes(4)] atomic_success(2) [OF record_reads(4)]
  or_sql_rules(1)

lemmas atomic_rules = atomic_bind atomic_then atomic_if or_sql_rules(2,3) record_reads record_writes reads_basic
  reads_atomic [OF reads_basic(1)] reads_atomic [OF reads_basic(2)]

lemma increment_atomic: "all_or_nothing (rs_increment_counter decode encode ns key)"
  unfolding rs_increment_counter_def Let_def
  by (intro with_tx_atomic success_rules atomic_success(2) [OF counter_reads])

section \<open>Counters\<close>

text \<open>
  \<open>BeginTx\<close> with no options asks for the default isolation, in PostgreSQL READ COMMITTED: a statement sees the rows
  that are committed when it starts. So two transactions that increment the same counter may both read
  before either writes.
\<close>

definition counter_row :: "(int \<Rightarrow> 'd) \<Rightarrow> string \<Rightarrow> string \<Rightarrow> int \<Rightarrow> 'd table_row" where
  "counter_row encode ns key n = \<lparr>tr_namespace = ns, tr_key = key, tr_parent = [], tr_owner = [], tr_secondary = [],
     tr_data = encode n\<rparr>"

definition overlapping_increments :: "('d \<Rightarrow> int option) \<Rightarrow> (int \<Rightarrow> 'd) \<Rightarrow> string \<Rightarrow> string \<Rightarrow> ('d, int \<times> int) sql_act" where
  "overlapping_increments decode encode ns key =
     abind (rs_counter decode ns key) (\<lambda>first.
     abind (rs_counter decode ns key) (\<lambda>other.
     abind (rs_upsert (counter_row encode ns key (int64 (first + 1)))) (\<lambda>_.
     abind (rs_upsert (counter_row encode ns key (int64 (other + 1)))) (\<lambda>_.
     aret (int64 (first + 1), int64 (other + 1))))))"

text \<open>What a counter reads as, and what putting its row in place does.\<close>

definition count_of :: "('d \<Rightarrow> int option) \<Rightarrow> string \<Rightarrow> string \<Rightarrow> 'd table_row list \<Rightarrow> int option" where
  "count_of decode ns key rows =
     (case find (row_at ns key) rows of None \<Rightarrow> Some 0 | Some r \<Rightarrow> decode (tr_data r))"

lemma counter_calm: "count_of decode ns key (db_rows db) = Some n \<Longrightarrow> rs_counter decode ns key (calm db) = (Inr n, calm db)"
  by (auto simp: count_of_def rs_counter_def rs_find_def abind_def aret_def rs_get_def statement_calm scan_json_def split: option.splits)

definition put_row :: "'d table_row \<Rightarrow> 'd table_row list \<Rightarrow> 'd table_row list" where
  "put_row r rows = (if list_ex (\<lambda>x. same_row x r) rows then map (\<lambda>x. if same_row x r then r else x) rows else rows @ [r])"

lemma upsert_calm:
  assumes "tr_secondary r = []"
  shows "rs_upsert r (calm db) = (Inr (), (calm db)\<lparr>db_rows := put_row r (db_rows db)\<rparr>)"
proof -
  have "\<not> same_secondary x r" for x using assms by (simp add: same_secondary_def)
  then show ?thesis
    by (auto simp: rs_upsert_def statement_calm replace_row_def append_row_def put_row_def list_ex_iff)
qed

lemma find_replaced:
  "P r \<Longrightarrow> find P (map (\<lambda>x. if P x then r else x) xs) = (if list_ex P xs then Some r else find P xs)"
  "\<not> P r \<Longrightarrow> (\<And>x. Q x \<Longrightarrow> \<not> P x) \<Longrightarrow> find P (map (\<lambda>x. if Q x then r else x) xs) = find P xs"
  by (induction xs) auto

lemma find_put_row:
  "find (row_at ns key) (put_row r rows) = (if row_at ns key r then Some r else find (row_at ns key) rows)"
proof (cases "row_at ns key r")
  case True
  then have P: "row_at ns key = (\<lambda>x. same_row x r)" by (auto simp: same_row_def row_at_def fun_eq_iff)
  have "same_row r r" by (simp add: same_row_def row_at_def)
  then show ?thesis
    unfolding P put_row_def by (simp add: find_replaced(1) [of "\<lambda>x. same_row x r"])
      (auto simp: find_append list_ex_iff find_None_iff find_Some_iff split: option.splits)
next
  case False
  have "same_row x r \<Longrightarrow> \<not> row_at ns key x" for x using False by (auto simp: same_row_def row_at_def)
  then show ?thesis
    using False find_replaced(2) [of "row_at ns key" r "\<lambda>x. same_row x r" rows]
    by (auto simp: put_row_def find_append split: option.splits)
qed

lemma count_of_put: "decode (encode n) = Some n \<Longrightarrow> count_of decode ns key (put_row (counter_row encode ns key n) rows) = Some n"
  by (simp add: count_of_def find_put_row counter_row_def row_at_def)

end
