(* ===== verification/Ledger_SQL.thy ===== *)
theory Ledger_SQL
  imports Record_Faults Ledger_Store
begin

text \<open>
  The ledger's store in SQL rows (\<open>ledger/sql_store.go\<close>), which the server uses with PostgreSQL. A row holds one
  value of the ledger; its parent is the book, its owner the user. The JSON document is the value it encodes.
\<close>

section \<open>Rows\<close>

datatype ledger_value =
    BookValue book
  | MemberValue book_member
  | EntryValue entry
  | CategoryValue category
  | GroupValue account_group
  | AccountValue account
  | RateValue exchange_rate

definition as_book :: "ledger_value \<Rightarrow> book option" where "as_book v = (case v of BookValue x \<Rightarrow> Some x | _ \<Rightarrow> None)"
definition as_member :: "ledger_value \<Rightarrow> book_member option" where "as_member v = (case v of MemberValue x \<Rightarrow> Some x | _ \<Rightarrow> None)"
definition as_entry :: "ledger_value \<Rightarrow> entry option" where "as_entry v = (case v of EntryValue x \<Rightarrow> Some x | _ \<Rightarrow> None)"
definition as_category :: "ledger_value \<Rightarrow> category option" where "as_category v = (case v of CategoryValue x \<Rightarrow> Some x | _ \<Rightarrow> None)"
definition as_group :: "ledger_value \<Rightarrow> account_group option" where "as_group v = (case v of GroupValue x \<Rightarrow> Some x | _ \<Rightarrow> None)"
definition as_account :: "ledger_value \<Rightarrow> account option" where "as_account v = (case v of AccountValue x \<Rightarrow> Some x | _ \<Rightarrow> None)"
definition as_rate :: "ledger_value \<Rightarrow> exchange_rate option" where "as_rate v = (case v of RateValue x \<Rightarrow> Some x | _ \<Rightarrow> None)"

type_synonym ledger_row = "ledger_value table_row"
type_synonym 'a ledger_sql = "(ledger_value database, ledger_error, 'a) act"

definition books_ns :: string where "books_ns = ''ledger.books''"
definition members_ns :: string where "members_ns = ''ledger.members''"
definition entries_ns :: string where "entries_ns = ''ledger.entries''"
definition categories_ns :: string where "categories_ns = ''ledger.categories''"
definition groups_ns :: string where "groups_ns = ''ledger.account_groups''"
definition accounts_ns :: string where "accounts_ns = ''ledger.accounts''"
definition rates_ns :: string where "rates_ns = ''ledger.exchange_rates''"

lemmas ledger_ns = books_ns_def members_ns_def entries_ns_def categories_ns_def groups_ns_def accounts_ns_def rates_ns_def

definition must_record :: "string \<Rightarrow> string \<Rightarrow> string \<Rightarrow> string \<Rightarrow> 'd \<Rightarrow> 'd table_row" where
  "must_record namespace key parent_key owner_key v =
     \<lparr>tr_namespace = namespace, tr_key = key, tr_parent = parent_key, tr_owner = owner_key, tr_secondary = [], tr_data = v\<rparr>"

definition sql_member_key :: "string \<Rightarrow> string \<Rightarrow> string" where
  "sql_member_key book_id user_id = join_key [book_id, user_id]"

definition book_record :: "book \<Rightarrow> ledger_row" where
  "book_record b = must_record books_ns (bk_id b) [] (bk_owner_user_id b) (BookValue b)"

definition member_record :: "book_member \<Rightarrow> ledger_row" where
  "member_record m = must_record members_ns (sql_member_key (bm_book_id m) (bm_user_id m)) (bm_book_id m) (bm_user_id m) (MemberValue m)"

definition entry_record :: "entry \<Rightarrow> ledger_row" where
  "entry_record e = must_record entries_ns (en_id e) (en_book_id e) (en_creator_user_id e) (EntryValue e)"

definition category_record :: "category \<Rightarrow> ledger_row" where
  "category_record c = must_record categories_ns (ct_id c) (ct_book_id c) [] (CategoryValue c)"

definition group_record :: "account_group \<Rightarrow> ledger_row" where
  "group_record g = must_record groups_ns (ag_id g) [] (ag_user_id g) (GroupValue g)"

definition account_record :: "account \<Rightarrow> ledger_row" where
  "account_record a = must_record accounts_ns (ac_id a) [] (ac_user_id a) (AccountValue a)"

definition rate_record :: "exchange_rate \<Rightarrow> ledger_row" where
  "rate_record r = must_record rates_ns (er_currency r) [] [] (RateValue r)"

text \<open>The error for a missing row; every other one is passed on under a message.\<close>

definition no_rows :: "ledger_error \<Rightarrow> string \<Rightarrow> sql_error \<Rightarrow> ledger_error" where
  "no_rows missing message e = (if e = SqlNoRows then missing else ErrOther message)"

section \<open>Books and members\<close>

definition sql_book :: "string \<Rightarrow> book ledger_sql" where
  "sql_book book_id = or_sql (no_rows (ErrNotFound ''book not found'') ''load book'') (rs_get as_book books_ns book_id)"

definition sql_books :: "book list ledger_sql" where
  "sql_books =
     abind (or_sql (\<lambda>_. ErrOther ''list books'') (rs_list as_book books_ns None None)) (\<lambda>books.
     aret (sort_func (\<lambda>l r. cmp_string (bk_id l) (bk_id r)) books))"

definition sql_book_memberships :: "string \<Rightarrow> book_member list ledger_sql" where
  "sql_book_memberships user_id =
     abind (or_sql (\<lambda>_. ErrOther ''list book memberships'') (rs_list as_member members_ns None (Some user_id))) (\<lambda>members.
     aret (sort_func (\<lambda>l r. cmp_string (bm_book_id l) (bm_book_id r)) members))"

definition sql_book_members :: "string \<Rightarrow> book_member list ledger_sql" where
  "sql_book_members book_id =
     abind (or_sql (\<lambda>_. ErrOther ''list book members'') (rs_list as_member members_ns (Some book_id) None)) (\<lambda>members.
     abind (aguard (members \<noteq> []) (ErrOther ''book has no members'')) (\<lambda>_.
     aret (sort_func (\<lambda>l r. cmp_string (bm_user_id l) (bm_user_id r)) members)))"

fun insert_default_categories :: "string \<Rightarrow> category list \<Rightarrow> unit ledger_sql" where
  "insert_default_categories book_id [] = aret ()"
| "insert_default_categories book_id (c # cs) =
     (if ct_book_id c \<noteq> book_id then afail (ErrOther ''default category book id differs'')
      else abind (or_sql (\<lambda>_. ErrOther ''insert default category'') (rs_insert (category_record c))) (\<lambda>_.
           insert_default_categories book_id cs))"

definition sql_create_book :: "book \<Rightarrow> book_member \<Rightarrow> category list \<Rightarrow> (book \<times> book_member) ledger_sql" where
  "sql_create_book b owner categories =
     (if bk_id b \<noteq> bm_book_id owner then afail (ErrOther ''book id and owner membership book id differ'')
      else abind (with_tx (\<lambda>_. ErrOther ''create book transaction'')
        (abind (or_sql (\<lambda>_. ErrOther ''insert book'') (rs_insert (book_record b))) (\<lambda>_.
         abind (or_sql (\<lambda>_. ErrOther ''insert record'') (rs_insert (member_record owner))) (\<lambda>_.
         insert_default_categories (bk_id b) categories)))) (\<lambda>_.
      aret (b, owner)))"

definition sql_update_book :: "book \<Rightarrow> book ledger_sql" where
  "sql_update_book b =
     abind (or_sql (no_rows (ErrNotFound ''book not found'') ''update book'') (rs_update (book_record b))) (\<lambda>_. aret b)"

definition sql_create_book_member :: "book_member \<Rightarrow> book_member ledger_sql" where
  "sql_create_book_member m =
     abind (sql_book (bm_book_id m)) (\<lambda>_.
     abind (or_sql (\<lambda>_. ErrOther ''insert book member'') (rs_insert (member_record m))) (\<lambda>_. aret m))"

definition sql_update_book_member :: "book_member \<Rightarrow> book_member ledger_sql" where
  "sql_update_book_member m =
     abind (or_sql (no_rows (ErrNotFound ''user is not a member of book'') ''update book member'')
       (rs_update (member_record m))) (\<lambda>_. aret m)"

definition sql_member :: "string \<Rightarrow> string \<Rightarrow> book_member ledger_sql" where
  "sql_member book_id user_id =
     or_sql (no_rows (ErrOther ''user is not a member of book'') ''load book member'')
       (rs_get as_member members_ns (sql_member_key book_id user_id))"

definition sql_delete_book_member :: "string \<Rightarrow> string \<Rightarrow> unit ledger_sql" where
  "sql_delete_book_member book_id user_id =
     abind (sql_member book_id user_id) (\<lambda>_.
     or_sql (\<lambda>_. ErrOther ''delete record'') (rs_delete members_ns (sql_member_key book_id user_id)))"

section \<open>Entries\<close>

definition sql_entry :: "string \<Rightarrow> string \<Rightarrow> entry ledger_sql" where
  "sql_entry book_id entry_id =
     abind (or_sql (no_rows (ErrNotFound ''entry not found'') ''load entry'') (rs_get as_entry entries_ns entry_id)) (\<lambda>e.
     abind (aguard (en_book_id e = book_id) (ErrNotFound ''entry not found'')) (\<lambda>_. aret e))"

definition sql_entries :: "string \<Rightarrow> entry list ledger_sql" where
  "sql_entries book_id =
     abind (or_sql (\<lambda>_. ErrOther ''list entries'') (rs_list as_entry entries_ns (Some book_id) None)) (\<lambda>entries.
     aret (sort_func cmp_occurred entries))"

definition sql_create_entry :: "(string \<Rightarrow> string option) \<Rightarrow> entry \<Rightarrow> entry ledger_sql" where
  "sql_create_entry parse e =
     (case normalize_entry_id parse (en_id e) of
        Inl err \<Rightarrow> afail err
      | Inr entry_id \<Rightarrow>
          let e = e\<lparr>en_id := entry_id\<rparr> in
          abind (or_sql (\<lambda>_. ErrOther ''insert entry'') (rs_insert (entry_record e))) (\<lambda>_. aret e))"

definition sql_update_entry :: "entry \<Rightarrow> entry ledger_sql" where
  "sql_update_entry e =
     abind (or_sql (no_rows (ErrNotFound ''entry not found'') ''update entry'') (rs_update (entry_record e))) (\<lambda>_. aret e)"

definition sql_delete_entry :: "string \<Rightarrow> string \<Rightarrow> unit ledger_sql" where
  "sql_delete_entry book_id entry_id =
     abind (sql_entry book_id entry_id) (\<lambda>_.
     or_sql (\<lambda>_. ErrOther ''delete record'') (rs_delete entries_ns entry_id))"

section \<open>Categories, groups, accounts\<close>

definition sql_categories :: "string \<Rightarrow> category list ledger_sql" where
  "sql_categories book_id =
     abind (or_sql (\<lambda>_. ErrOther ''list categories'') (rs_list as_category categories_ns (Some book_id) None)) (\<lambda>categories.
     aret (sort_func (cmp_listing ct_sort_order ct_id) categories))"

definition sql_create_category :: "category \<Rightarrow> category ledger_sql" where
  "sql_create_category c =
     abind (or_sql (\<lambda>_. ErrOther ''insert category'') (rs_insert (category_record c))) (\<lambda>_. aret c)"

definition sql_update_category :: "category \<Rightarrow> category ledger_sql" where
  "sql_update_category c =
     abind (or_sql (no_rows (ErrNotFound ''category not found'') ''update category'') (rs_update (category_record c))) (\<lambda>_. aret c)"

definition sql_account_groups :: "account_group list ledger_sql" where
  "sql_account_groups =
     abind (or_sql (\<lambda>_. ErrOther ''list account groups'') (rs_list as_group groups_ns None None)) (\<lambda>groups.
     aret (sort_func (cmp_listing ag_sort_order ag_id) groups))"

definition sql_create_account_group :: "account_group \<Rightarrow> account_group ledger_sql" where
  "sql_create_account_group g =
     abind (or_sql (\<lambda>_. ErrOther ''insert account group'') (rs_insert (group_record g))) (\<lambda>_. aret g)"

definition sql_update_account_group :: "account_group \<Rightarrow> account_group ledger_sql" where
  "sql_update_account_group g =
     abind (or_sql (no_rows (ErrNotFound ''account group not found'') ''update account group'') (rs_update (group_record g))) (\<lambda>_. aret g)"

definition sql_accounts :: "account list ledger_sql" where
  "sql_accounts =
     abind (or_sql (\<lambda>_. ErrOther ''list accounts'') (rs_list as_account accounts_ns None None)) (\<lambda>accounts.
     aret (sort_func (\<lambda>l r. cmp_string (ac_id l) (ac_id r)) accounts))"

definition sql_create_account :: "account \<Rightarrow> account ledger_sql" where
  "sql_create_account a =
     abind (or_sql (\<lambda>_. ErrOther ''insert account'') (rs_insert (account_record a))) (\<lambda>_. aret a)"

definition sql_update_account :: "account \<Rightarrow> account ledger_sql" where
  "sql_update_account a =
     abind (or_sql (no_rows (ErrNotFound ''account not found'') ''update account'') (rs_update (account_record a))) (\<lambda>_. aret a)"

section \<open>Rates\<close>

definition sql_exchange_rates :: "exchange_rate list ledger_sql" where
  "sql_exchange_rates =
     abind (or_sql (\<lambda>_. ErrOther ''list exchange rates'') (rs_list as_rate rates_ns None None)) (\<lambda>rates.
     aret (clone_exchange_rates rates))"

fun delete_rates :: "exchange_rate list \<Rightarrow> unit ledger_sql" where
  "delete_rates [] = aret ()"
| "delete_rates (r # rs) =
     abind (or_sql (\<lambda>_. ErrOther ''delete record'') (rs_delete rates_ns (er_currency r))) (\<lambda>_. delete_rates rs)"

fun insert_records :: "'d table_row list \<Rightarrow> ('d database, ledger_error, unit) act" where
  "insert_records [] = aret ()"
| "insert_records (r # rs) = abind (or_sql (\<lambda>_. ErrOther ''insert record'') (rs_insert r)) (\<lambda>_. insert_records rs)"

definition sql_replace_exchange_rates :: "exchange_rate list \<Rightarrow> unit ledger_sql" where
  "sql_replace_exchange_rates rates =
     with_tx (\<lambda>_. ErrOther ''replace rates transaction'')
       (abind (or_sql (\<lambda>_. ErrOther ''list existing exchange rates'') (rs_list as_rate rates_ns None None)) (\<lambda>existing.
        abind (delete_rates existing) (\<lambda>_.
        insert_records (map rate_record (clone_exchange_rates rates)))))"

section \<open>The first start\<close>

definition seed_records :: "seed_data \<Rightarrow> ledger_row list" where
  "seed_records data =
     map book_record (sd_books data) @ map member_record (sd_members data) @ map entry_record (sd_entries data) @
     map category_record (sd_categories data) @ map group_record (sd_groups data) @ map account_record (sd_accounts data) @
     map rate_record (sd_rates data)"

definition sql_seed :: "seed_data \<Rightarrow> unit ledger_sql" where
  "sql_seed data = with_tx (\<lambda>_. ErrOther ''seed transaction'') (insert_records (seed_records data))"

definition new_ledger_sql_store :: "seed_data \<Rightarrow> unit ledger_sql" where
  "new_ledger_sql_store fallback =
     abind (or_sql (\<lambda>_. ErrOther ''count ledger books'') (rs_count books_ns)) (\<lambda>n.
     if n = 0 then sql_seed fallback else aret ())"

section \<open>Faults\<close>

lemma insert_records_success: "true_success (insert_records rs)"
  by (induction rs) (auto intro!: success_rules)

lemma default_categories_success: "true_success (insert_default_categories book_id cs)"
  by (induction cs) (auto intro!: success_rules)

lemma delete_rates_success: "true_success (delete_rates rs)"
  by (induction rs) (auto intro!: success_rules)

lemma ledger_sql_atomic:
  "all_or_nothing (sql_create_book b owner cs)" "all_or_nothing (sql_update_book b)"
  "all_or_nothing (sql_create_book_member m)" "all_or_nothing (sql_update_book_member m)"
  "all_or_nothing (sql_delete_book_member book_id user_id)"
  "all_or_nothing (sql_create_entry parse e)" "all_or_nothing (sql_update_entry e)"
  "all_or_nothing (sql_delete_entry book_id entry_id)"
  "all_or_nothing (sql_create_category c)" "all_or_nothing (sql_update_category c)"
  "all_or_nothing (sql_create_account_group g)" "all_or_nothing (sql_update_account_group g)"
  "all_or_nothing (sql_create_account a)" "all_or_nothing (sql_update_account a)"
  "all_or_nothing (sql_replace_exchange_rates rates)" "all_or_nothing (sql_seed data)"
  "all_or_nothing (new_ledger_sql_store data)"
proof -
  have book: "reads_only (sql_book i)" for i unfolding sql_book_def by (intro atomic_rules)
  have member: "reads_only (sql_member i j)" for i j unfolding sql_member_def by (intro atomic_rules)
  have entry: "reads_only (sql_entry i j)" for i j unfolding sql_entry_def by (intro atomic_rules reads_bind)
  show "all_or_nothing (sql_create_book b owner cs)"
    unfolding sql_create_book_def
    by (intro atomic_rules with_tx_atomic success_rules default_categories_success)
  show "all_or_nothing (sql_update_book b)" "all_or_nothing (sql_update_book_member m)" "all_or_nothing (sql_update_entry e)"
    "all_or_nothing (sql_create_category c)" "all_or_nothing (sql_update_category c)" "all_or_nothing (sql_create_account_group g)"
    "all_or_nothing (sql_update_account_group g)" "all_or_nothing (sql_create_account a)" "all_or_nothing (sql_update_account a)"
    unfolding sql_update_book_def sql_update_book_member_def sql_update_entry_def sql_create_category_def sql_update_category_def
      sql_create_account_group_def sql_update_account_group_def sql_create_account_def sql_update_account_def
    by (rule atomic_then, intro atomic_rules)+
  show "all_or_nothing (sql_create_book_member m)"
    unfolding sql_create_book_member_def by (rule atomic_bind [OF book], rule atomic_then, intro atomic_rules)
  show "all_or_nothing (sql_delete_book_member book_id user_id)"
    unfolding sql_delete_book_member_def by (rule atomic_bind [OF member], intro atomic_rules)
  show "all_or_nothing (sql_create_entry parse e)"
    unfolding sql_create_entry_def Let_def
    by (cases "normalize_entry_id parse (en_id e)") (simp_all, (rule atomic_then)?, (intro atomic_rules)+)
  show "all_or_nothing (sql_delete_entry book_id entry_id)"
    unfolding sql_delete_entry_def by (rule atomic_bind [OF entry], intro atomic_rules)
  show "all_or_nothing (sql_replace_exchange_rates rates)"
    unfolding sql_replace_exchange_rates_def
    by (intro with_tx_atomic success_rules delete_rates_success insert_records_success)
  show seed: "all_or_nothing (sql_seed data)" for data
    unfolding sql_seed_def by (intro with_tx_atomic insert_records_success)
  show "all_or_nothing (new_ledger_sql_store data)"
    unfolding new_ledger_sql_store_def by (intro atomic_rules seed)
qed

end
