(* ===== verification/Record_Tables.thy ===== *)
theory Record_Tables
  imports Record_Faults
begin

text \<open>
  A namespace of the record table as a set of values: what the operations of the record store do to the set when
  no statement fails. A locale states what a package's rows promise; the SQL stores interpret it.
\<close>

section \<open>Rows and values\<close>

definition table_holds :: "string \<Rightarrow> ('a \<Rightarrow> 'd table_row) \<Rightarrow> 'd table_row list \<Rightarrow> 'a set \<Rightarrow> bool" where
  "table_holds ns pack rows X \<longleftrightarrow> {r \<in> set rows. tr_namespace r = ns} = pack ` X"

lemma unique_keysD:
  assumes "rows_unique rows" and "r \<in> set rows" and "q \<in> set rows"
    and "tr_namespace r = tr_namespace q" and "tr_key r = tr_key q"
  shows "r = q"
proof -
  have "inj_on (\<lambda>r. (tr_namespace r, tr_key r)) (set rows)" using assms(1) by (simp add: rows_unique_def distinct_map)
  then show ?thesis using assms(2-) by (simp add: inj_on_def)
qed

lemma put_row_set:
  "set (put_row r rows) = insert r {x \<in> set rows. \<not> same_row x r}"
  by (auto simp: put_row_def list_ex_iff)

lemma put_row_unique:
  assumes "tr_secondary r = []" and "rows_unique rows"
  shows "rows_unique (put_row r rows)"
proof (cases "list_ex (\<lambda>x. same_row x r) rows")
  case True
  then have "put_row r rows = snd (replace_row r rows)"
    using assms(1) by (simp add: put_row_def replace_row_def same_secondary_def list_ex_iff)
  then show ?thesis using replace_row_unique [OF assms(2), of r] by simp
next
  case False
  then have "put_row r rows = snd (append_row r rows)"
    using assms(1) by (auto simp: put_row_def append_row_def same_secondary_def list_ex_iff)
  then show ?thesis using append_row_unique [OF assms(2), of r] by simp
qed

text \<open>What is written in one namespace is not seen in another.\<close>

lemma other_tables:
  assumes "table_holds ns pack rows X"
  shows "tr_namespace r \<noteq> ns \<Longrightarrow> table_holds ns pack (put_row r rows) X"
    and "ns' \<noteq> ns \<Longrightarrow> table_holds ns pack (filter (\<lambda>r. \<not> row_at ns' k r) rows) X"
proof -
  have "{x \<in> set (put_row r rows). tr_namespace x = ns} = {x \<in> set rows. tr_namespace x = ns}" if "tr_namespace r \<noteq> ns"
    using that by (auto simp: put_row_set same_row_def row_at_def)
  then show "tr_namespace r \<noteq> ns \<Longrightarrow> table_holds ns pack (put_row r rows) X" using assms by (simp add: table_holds_def)
  have "{x \<in> set (filter (\<lambda>r. \<not> row_at ns' k r) rows). tr_namespace x = ns} = {x \<in> set rows. tr_namespace x = ns}" if "ns' \<noteq> ns"
    using that by (auto simp: row_at_def)
  then show "ns' \<noteq> ns \<Longrightarrow> table_holds ns pack (filter (\<lambda>r. \<not> row_at ns' k r) rows) X" using assms by (simp add: table_holds_def)
qed

section \<open>The contract\<close>

locale row_table =
  fixes ns :: string
    and pack :: "'a \<Rightarrow> 'd table_row"
    and unpack :: "'d \<Rightarrow> 'a option"
  assumes pack_namespace: "tr_namespace (pack x) = ns"
    and pack_plain: "tr_secondary (pack x) = []"
    and unpack_pack: "unpack (tr_data (pack x)) = Some x"
begin

lemma same_pack: "same_row r (pack x) \<longleftrightarrow> tr_namespace r = ns \<and> tr_key r = tr_key (pack x)"
  by (simp add: same_row_def row_at_def pack_namespace)

lemma in_rows: "table_holds ns pack rows X \<Longrightarrow> r \<in> set rows \<Longrightarrow> tr_namespace r = ns \<Longrightarrow> \<exists>x \<in> X. r = pack x"
  by (auto simp: table_holds_def)

lemma in_table: "table_holds ns pack rows X \<Longrightarrow> x \<in> X \<Longrightarrow> pack x \<in> set rows"
  by (auto simp: table_holds_def)

lemma pack_inj: "pack x = pack y \<longleftrightarrow> x = y"
  by (metis unpack_pack option.inject)

lemma keys_inj:
  assumes "table_holds ns pack rows X" and "rows_unique rows" and "x \<in> X" and "y \<in> X"
    and "tr_key (pack x) = tr_key (pack y)"
  shows "x = y"
  using unique_keysD [OF assms(2) in_table [OF assms(1,3)] in_table [OF assms(1,4)]] assms(5)
  by (simp add: pack_namespace pack_inj)

lemma find_row:
  assumes "table_holds ns pack rows X" and "rows_unique rows"
  shows "x \<in> X \<Longrightarrow> find (row_at ns (tr_key (pack x))) rows = Some (pack x)"
    and "k \<notin> (tr_key \<circ> pack) ` X \<Longrightarrow> find (row_at ns k) rows = None"
proof -
  show "find (row_at ns k) rows = None" if "k \<notin> (tr_key \<circ> pack) ` X"
    using that in_rows [OF assms(1)] by (fastforce simp: find_None_iff row_at_def)
  assume x: "x \<in> X"
  let ?P = "row_at ns (tr_key (pack x))"
  have "?P (pack x)" by (simp add: row_at_def pack_namespace)
  then have "find ?P rows \<noteq> None" using in_table [OF assms(1) x] by (auto simp: find_None_iff)
  then obtain r where r: "find ?P rows = Some r" by blast
  then have "r \<in> set rows" "?P r" by (auto simp: find_Some_iff)
  then have "r = pack x"
    using unique_keysD [OF assms(2) _ in_table [OF assms(1) x], of r] by (simp add: row_at_def pack_namespace)
  then show "find ?P rows = Some (pack x)" using r by simp
qed

lemma row_exists:
  assumes "table_holds ns pack rows X"
  shows "list_ex (\<lambda>r. same_row r (pack x)) rows \<longleftrightarrow> tr_key (pack x) \<in> (tr_key \<circ> pack) ` X"
proof
  assume "list_ex (\<lambda>r. same_row r (pack x)) rows"
  then obtain r where "r \<in> set rows" "tr_namespace r = ns" "tr_key r = tr_key (pack x)"
    by (auto simp: list_ex_iff same_pack)
  moreover obtain y where "y \<in> X" "r = pack y" using in_rows [OF assms calculation(1,2)] by blast
  ultimately show "tr_key (pack x) \<in> (tr_key \<circ> pack) ` X" by (metis comp_apply image_eqI)
next
  assume "tr_key (pack x) \<in> (tr_key \<circ> pack) ` X"
  then obtain y where "y \<in> X" "tr_key (pack y) = tr_key (pack x)" by auto
  then show "list_ex (\<lambda>r. same_row r (pack x)) rows"
    using in_table [OF assms, of y] by (auto simp: list_ex_iff same_pack pack_namespace intro!: bexI [of _ "pack y"])
qed

text \<open>The operations on the set.\<close>

lemma insert_run:
  assumes "table_holds ns pack (db_rows db) X"
  shows "rs_insert (pack x) (calm db) =
    (if tr_key (pack x) \<in> (tr_key \<circ> pack) ` X then (Inl unique_violation, calm db)
     else (Inr (), (calm db)\<lparr>db_rows := put_row (pack x) (db_rows db)\<rparr>))"
  unfolding row_exists [OF assms, of x, symmetric]
  by (auto simp: rs_insert_def statement_calm append_row_def put_row_def same_secondary_def pack_plain calm_same)

lemma update_run:
  assumes "table_holds ns pack (db_rows db) X"
  shows "rs_update (pack x) (calm db) =
    (if tr_key (pack x) \<in> (tr_key \<circ> pack) ` X then (Inr (), (calm db)\<lparr>db_rows := put_row (pack x) (db_rows db)\<rparr>)
     else (Inl SqlNoRows, calm db))"
  unfolding row_exists [OF assms, of x, symmetric]
  by (cases "list_ex (\<lambda>r. same_row r (pack x)) (db_rows db)")
    (simp_all add: rs_update_def statement_calm replace_row_def put_row_def same_secondary_def pack_plain calm_same
      list_ex_iff)

lemma key_in: "y \<in> X \<Longrightarrow> tr_key (pack y) = tr_key (pack x) \<Longrightarrow> tr_key (pack x) \<in> (tr_key \<circ> pack) ` X"
  by (metis comp_apply image_eqI)

lemma key_free: "\<forall>y \<in> X. tr_key (pack y) \<noteq> tr_key (pack x) \<Longrightarrow> tr_key (pack x) \<notin> (tr_key \<circ> pack) ` X"
  by fastforce

lemma insert_cases:
  assumes "table_holds ns pack (db_rows db) X"
  shows "\<forall>y \<in> X. tr_key (pack y) \<noteq> tr_key (pack x) \<Longrightarrow>
      rs_insert (pack x) (calm db) = (Inr (), (calm db)\<lparr>db_rows := put_row (pack x) (db_rows db)\<rparr>)"
    and "y \<in> X \<Longrightarrow> tr_key (pack y) = tr_key (pack x) \<Longrightarrow> rs_insert (pack x) (calm db) = (Inl unique_violation, calm db)"
  using insert_run [OF assms, of x] key_in [of y X x] key_free [of X x] by simp_all

lemma update_cases:
  assumes "table_holds ns pack (db_rows db) X"
  shows "y \<in> X \<Longrightarrow> tr_key (pack y) = tr_key (pack x) \<Longrightarrow>
      rs_update (pack x) (calm db) = (Inr (), (calm db)\<lparr>db_rows := put_row (pack x) (db_rows db)\<rparr>)"
    and "\<forall>y \<in> X. tr_key (pack y) \<noteq> tr_key (pack x) \<Longrightarrow> rs_update (pack x) (calm db) = (Inl SqlNoRows, calm db)"
  using update_run [OF assms, of x] key_in [of y X x] key_free [of X x] by simp_all

lemma put_holds:
  assumes "table_holds ns pack rows X"
  shows "table_holds ns pack (put_row (pack x) rows) (insert x {y \<in> X. tr_key (pack y) \<noteq> tr_key (pack x)})"
proof -
  have "{r \<in> set (put_row (pack x) rows). tr_namespace r = ns} =
      insert (pack x) {r \<in> {r \<in> set rows. tr_namespace r = ns}. tr_key r \<noteq> tr_key (pack x)}"
    by (auto simp: put_row_set same_pack pack_namespace)
  also have "\<dots> = insert (pack x) {r \<in> pack ` X. tr_key r \<noteq> tr_key (pack x)}"
    using assms by (simp add: table_holds_def)
  finally show ?thesis unfolding table_holds_def by auto
qed

lemma put_new_holds:
  assumes "table_holds ns pack rows X" and "tr_key (pack x) \<notin> (tr_key \<circ> pack) ` X"
  shows "table_holds ns pack (put_row (pack x) rows) (insert x X)"
proof -
  have "{y \<in> X. tr_key (pack y) \<noteq> tr_key (pack x)} = X" using assms(2) by (auto simp: image_iff)
  then show ?thesis using put_holds [OF assms(1), of x] by simp
qed

lemma delete_run:
  "rs_delete ns k (calm db) = (Inr (), (calm db)\<lparr>db_rows := filter (\<lambda>r. \<not> row_at ns k r) (db_rows db)\<rparr>)"
  by (simp add: rs_delete_def statement_calm)

lemma delete_holds:
  assumes "table_holds ns pack rows X"
  shows "table_holds ns pack (filter (\<lambda>r. \<not> row_at ns k r) rows) {y \<in> X. tr_key (pack y) \<noteq> k}"
proof -
  have "{r \<in> set (filter (\<lambda>r. \<not> row_at ns k r) rows). tr_namespace r = ns} = {r \<in> {r \<in> set rows. tr_namespace r = ns}. tr_key r \<noteq> k}"
    by (auto simp: row_at_def)
  also have "\<dots> = {r \<in> pack ` X. tr_key r \<noteq> k}" using assms by (simp add: table_holds_def)
  finally show ?thesis unfolding table_holds_def by auto
qed

lemma get_run:
  assumes "table_holds ns pack (db_rows db) X" and "rows_unique (db_rows db)"
  shows "x \<in> X \<Longrightarrow> rs_get unpack ns (tr_key (pack x)) (calm db) = (Inr x, calm db)"
    and "k \<notin> (tr_key \<circ> pack) ` X \<Longrightarrow> rs_get unpack ns k (calm db) = (Inl SqlNoRows, calm db)"
  using find_row [OF assms] by (auto simp: rs_get_def statement_calm scan_json_def unpack_pack calm_same)

lemma those_unpack:
  "list_all (\<lambda>r. \<exists>x. r = pack x) rows \<Longrightarrow>
   \<exists>xs. those (map (\<lambda>r. unpack (tr_data r)) rows) = Some xs \<and> map pack xs = rows"
  by (induction rows) (auto simp: unpack_pack)

lemma list_run:
  assumes "table_holds ns pack (db_rows db) X" and "rows_unique (db_rows db)"
    and "mset (db_scan db (db_rows db)) = mset (db_rows db)"
  shows "\<exists>xs. rs_list unpack ns p u (calm db) = (Inr xs, calm db) \<and> distinct xs \<and>
    set xs = {x \<in> X. (case p of None \<Rightarrow> True | Some i \<Rightarrow> tr_parent (pack x) = i) \<and>
      (case u of None \<Rightarrow> True | Some i \<Rightarrow> tr_owner (pack x) = i)}"
proof -
  let ?P = "\<lambda>r. (case p of None \<Rightarrow> True | Some i \<Rightarrow> tr_parent r = i) \<and> (case u of None \<Rightarrow> True | Some i \<Rightarrow> tr_owner r = i)"
  let ?rows = "filter (\<lambda>r. tr_namespace r = ns \<and> ?P r) (db_scan db (db_rows db))"
  have scan: "set (db_scan db (db_rows db)) = set (db_rows db)" by (rule mset_eq_setD [OF assms(3)])
  have "list_all (\<lambda>r. \<exists>x. r = pack x) ?rows" using in_rows [OF assms(1)] scan by (fastforce simp: list_all_iff)
  then obtain xs where xs: "those (map (\<lambda>r. unpack (tr_data r)) ?rows) = Some xs" "map pack xs = ?rows"
    using those_unpack by blast
  have "distinct (map (\<lambda>r. (tr_namespace r, tr_key r)) (db_rows db))" using assms(2) by (simp add: rows_unique_def)
  then have "distinct (db_rows db)" by (simp add: distinct_map)
  then have "distinct ?rows" using mset_eq_imp_distinct_iff [OF assms(3)] by simp
  then have "distinct xs" unfolding xs(2) [symmetric] by (simp add: distinct_map)
  moreover have "set xs = {x \<in> X. ?P (pack x)}"
  proof -
    have rows: "{r \<in> set (db_rows db). tr_namespace r = ns} = pack ` X" using assms(1) by (simp add: table_holds_def)
    have "pack ` set xs = {r \<in> {r \<in> set (db_rows db). tr_namespace r = ns}. ?P r}"
      using arg_cong [OF xs(2), of set] scan by auto
    also have "\<dots> = pack ` {x \<in> X. ?P (pack x)}" unfolding rows by auto
    finally have "x \<in> set xs \<longleftrightarrow> x \<in> X \<and> ?P (pack x)" for x
      using pack_inj by (auto simp: set_eq_iff image_iff dest: spec [of _ "pack x"])
    then show ?thesis by blast
  qed
  moreover have "rs_list unpack ns p u (calm db) = (Inr xs, calm db)"
    using xs(1) by (simp add: rs_list_def statement_calm calm_same)
  ultimately show ?thesis by blast
qed

end

end
