(* ===== verification/Ledger_Refinement.thy ===== *)
theory Ledger_Refinement
  imports Ledger_SQL Record_Tables
begin

text \<open>
  The SQL store of the ledger against the store in memory: when the rows hold the data of a store in memory and no
  statement fails, every write gives the same result as there and leaves rows that hold the new data, and every read
  finds the same values.
\<close>

section \<open>The seven tables\<close>

lemmas ledger_records = book_record_def member_record_def entry_record_def category_record_def group_record_def
  account_record_def rate_record_def must_record_def

interpretation book_rows: row_table books_ns book_record as_book
  by unfold_locales (simp_all add: ledger_records as_book_def)

interpretation member_rows: row_table members_ns member_record as_member
  by unfold_locales (simp_all add: ledger_records as_member_def)

interpretation entry_rows: row_table entries_ns entry_record as_entry
  by unfold_locales (simp_all add: ledger_records as_entry_def)

interpretation category_rows: row_table categories_ns category_record as_category
  by unfold_locales (simp_all add: ledger_records as_category_def)

interpretation group_rows: row_table groups_ns group_record as_group
  by unfold_locales (simp_all add: ledger_records as_group_def)

interpretation account_rows: row_table accounts_ns account_record as_account
  by unfold_locales (simp_all add: ledger_records as_account_def)

interpretation rate_rows: row_table rates_ns rate_record as_rate
  by unfold_locales (simp_all add: ledger_records as_rate_def)

lemma ledger_keys [simp]:
  "tr_key (book_record b) = bk_id b" "tr_key (member_record m) = sql_member_key (bm_book_id m) (bm_user_id m)"
  "tr_key (entry_record e) = en_id e" "tr_key (category_record c) = ct_id c" "tr_key (group_record g) = ag_id g"
  "tr_key (account_record a) = ac_id a" "tr_key (rate_record r) = er_currency r"
  by (simp_all add: ledger_records)

lemma ledger_indexes [simp]:
  "tr_parent (member_record m) = bm_book_id m" "tr_owner (member_record m) = bm_user_id m"
  "tr_parent (entry_record e) = en_book_id e" "tr_parent (category_record c) = ct_book_id c"
  by (simp_all add: ledger_records)

lemma ledger_namespaces [simp]:
  "tr_namespace (book_record b) = books_ns" "tr_namespace (member_record m) = members_ns"
  "tr_namespace (entry_record e) = entries_ns" "tr_namespace (category_record c) = categories_ns"
  "tr_namespace (group_record g) = groups_ns" "tr_namespace (account_record a) = accounts_ns"
  "tr_namespace (rate_record r) = rates_ns"
  by (simp_all add: ledger_records)

lemma ledger_plain [simp]:
  "tr_secondary (book_record b) = []" "tr_secondary (member_record m) = []" "tr_secondary (entry_record e) = []"
  "tr_secondary (category_record c) = []" "tr_secondary (group_record g) = []" "tr_secondary (account_record a) = []"
  "tr_secondary (rate_record r) = []"
  by (simp_all add: ledger_records)

lemma sql_member_key_inject [simp]: "sql_member_key b u = sql_member_key c v \<longleftrightarrow> b = c \<and> u = v"
  using join_key_inject [of "[b, u]" "[c, v]"] by (auto simp: sql_member_key_def)

section \<open>The relation\<close>

definition books_of :: "memory_store \<Rightarrow> book set" where "books_of s = set (map snd (ms_books s))"

definition members_of :: "memory_store \<Rightarrow> book_member set" where
  "members_of s = set (concat (map (\<lambda>(_, inner). map snd inner) (ms_members s)))"

definition represents :: "ledger_row list \<Rightarrow> memory_store \<Rightarrow> bool" where
  "represents rows s \<longleftrightarrow> rows_unique rows \<and> store_ok s \<and> distinct (map er_currency (ms_rates s)) \<and>
     table_holds books_ns book_record rows (books_of s) \<and> table_holds members_ns member_record rows (members_of s) \<and>
     table_holds entries_ns entry_record rows (set (ms_entries s)) \<and>
     table_holds categories_ns category_record rows (set (ms_categories s)) \<and>
     table_holds groups_ns group_record rows (set (ms_groups s)) \<and>
     table_holds accounts_ns account_record rows (set (ms_accounts s)) \<and>
     table_holds rates_ns rate_record rows (set (ms_rates s))"

definition agrees :: "(memory_store, ledger_error, 'a) act \<Rightarrow> 'a ledger_sql \<Rightarrow> ledger_value database \<Rightarrow> memory_store \<Rightarrow> bool" where
  "agrees memory sql db s \<longleftrightarrow>
     (case memory s of (r, s') \<Rightarrow> case sql (calm db) of (q, t) \<Rightarrow>
        (if is_ok r then q = r else \<not> is_ok q) \<and> represents (db_rows t) s')"

lemma representsD:
  assumes "represents rows s"
  shows "rows_unique rows" "store_ok s" "table_holds books_ns book_record rows (books_of s)"
    "table_holds members_ns member_record rows (members_of s)" "table_holds entries_ns entry_record rows (set (ms_entries s))"
    "table_holds categories_ns category_record rows (set (ms_categories s))"
    "table_holds groups_ns group_record rows (set (ms_groups s))"
    "table_holds accounts_ns account_record rows (set (ms_accounts s))"
    "table_holds rates_ns rate_record rows (set (ms_rates s))"
  using assms by (simp_all add: represents_def)

lemma books_of_iff:
  assumes "store_ok s"
  shows "b \<in> books_of s \<longleftrightarrow> book_at s (bk_id b) = Some b"
proof -
  have ok: "keys_ok bk_id (ms_books s)" using assms by (simp add: store_ok_def)
  show ?thesis
    using keys_ok_values [OF ok, of b] by (auto simp: books_of_def book_at_def dest!: map_of_SomeD intro: rev_image_eqI)
qed

lemma members_of_iff: "store_ok s \<Longrightarrow> m \<in> members_of s \<longleftrightarrow> member_at s (bm_book_id m) (bm_user_id m) = Some m"
  using flat_members(1) [of "ms_members s" m] by (simp add: members_of_def member_at_inner store_ok_def)

lemma book_key_iff: "store_ok s \<Longrightarrow> k \<in> bk_id ` books_of s \<longleftrightarrow> book_at s k \<noteq> None"
  using books_of_iff [of s] book_at_ok [of s k] by (auto simp: image_iff)

lemma member_key_iff:
  "store_ok s \<Longrightarrow> sql_member_key b u \<in> (tr_key \<circ> member_record) ` members_of s \<longleftrightarrow> member_at s b u \<noteq> None"
  using members_of_iff [of s] member_at_ok [of s b u] by (auto simp: image_iff)

lemmas other_namespace = other_tables(1) [where ns = books_ns] other_tables(1) [where ns = members_ns]
  other_tables(1) [where ns = entries_ns] other_tables(1) [where ns = categories_ns] other_tables(1) [where ns = groups_ns]
  other_tables(1) [where ns = accounts_ns] other_tables(1) [where ns = rates_ns]

lemma put_represents:
  assumes rep: "represents rows s"
  shows "store_ok t \<Longrightarrow> t = s\<lparr>ms_entries := es\<rparr> \<Longrightarrow> set es = insert e {y \<in> set (ms_entries s). en_id y \<noteq> en_id e} \<Longrightarrow>
      represents (put_row (entry_record e) rows) t"
    and "store_ok t \<Longrightarrow> t = s\<lparr>ms_categories := cs\<rparr> \<Longrightarrow> set cs = insert c {y \<in> set (ms_categories s). ct_id y \<noteq> ct_id c} \<Longrightarrow>
      represents (put_row (category_record c) rows) t"
    and "store_ok t \<Longrightarrow> t = s\<lparr>ms_groups := gs\<rparr> \<Longrightarrow> set gs = insert g {y \<in> set (ms_groups s). ag_id y \<noteq> ag_id g} \<Longrightarrow>
      represents (put_row (group_record g) rows) t"
    and "store_ok t \<Longrightarrow> t = s\<lparr>ms_accounts := acs\<rparr> \<Longrightarrow> set acs = insert a {y \<in> set (ms_accounts s). ac_id y \<noteq> ac_id a} \<Longrightarrow>
      represents (put_row (account_record a) rows) t"
    and "store_ok t \<Longrightarrow> t = s\<lparr>ms_books := bs\<rparr> \<Longrightarrow> books_of t = insert b {y \<in> books_of s. bk_id y \<noteq> bk_id b} \<Longrightarrow>
      represents (put_row (book_record b) rows) t"
    and "store_ok t \<Longrightarrow> t = s\<lparr>ms_members := ms\<rparr> \<Longrightarrow> members_of t =
      insert m {y \<in> members_of s. \<not> (bm_book_id y = bm_book_id m \<and> bm_user_id y = bm_user_id m)} \<Longrightarrow>
      represents (put_row (member_record m) rows) t"
  using rep entry_rows.put_holds [OF representsD(5) [OF rep], of e] category_rows.put_holds [OF representsD(6) [OF rep], of c]
    group_rows.put_holds [OF representsD(7) [OF rep], of g] account_rows.put_holds [OF representsD(8) [OF rep], of a]
    book_rows.put_holds [OF representsD(3) [OF rep], of b] member_rows.put_holds [OF representsD(4) [OF rep], of m]
  by (simp_all add: represents_def put_row_unique other_tables ledger_ns books_of_def members_of_def del: set_concat)

lemma delete_represents:
  assumes rep: "represents rows s"
  shows "store_ok t \<Longrightarrow> t = s\<lparr>ms_entries := es\<rparr> \<Longrightarrow> set es = {y \<in> set (ms_entries s). en_id y \<noteq> i} \<Longrightarrow>
      represents (filter (\<lambda>r. \<not> row_at entries_ns i r) rows) t"
    and "store_ok t \<Longrightarrow> t = s\<lparr>ms_members := ms\<rparr> \<Longrightarrow> members_of t = {y \<in> members_of s. \<not> (bm_book_id y = b \<and> bm_user_id y = u)} \<Longrightarrow>
      represents (filter (\<lambda>r. \<not> row_at members_ns (sql_member_key b u) r) rows) t"
  using rep entry_rows.delete_holds [OF representsD(5) [OF rep], of i]
    member_rows.delete_holds [OF representsD(4) [OF rep], of "sql_member_key b u"]
  by (simp_all add: represents_def unique_filter other_tables ledger_ns books_of_def members_of_def del: set_concat)

section \<open>Writes of one row\<close>

lemma agreesI:
  assumes "represents (db_rows db) s" and "fails_clean memory"
    and "\<And>x t. memory s = (Inr x, t) \<Longrightarrow> \<exists>u. sql (calm db) = (Inr x, u) \<and> represents (db_rows u) t"
    and "\<And>e t. memory s = (Inl e, t) \<Longrightarrow> \<exists>e u. sql (calm db) = (Inl e, u) \<and> db_rows u = db_rows db"
  shows "agrees memory sql db s"
proof -
  obtain r t where run: "memory s = (r, t)" by fastforce
  show ?thesis
  proof (cases r)
    case (Inl e)
    then have "t = s" using assms(2) run by (auto dest: fails_cleanD)
    then show ?thesis using assms(1) assms(4) [of e t] run Inl by (auto simp: agrees_def)
  next
    case (Inr x)
    then show ?thesis using assms(3) [of x t] run by (auto simp: agrees_def)
  qed
qed

lemma or_sql_abind [simp]:
  "m db = (Inr x, t) \<Longrightarrow> abind (or_sql w m) f db = f x t"
  "m db = (Inl e, t) \<Longrightarrow> abind (or_sql w m) f db = (Inl (w e), t)"
  "m db = (Inr x, t) \<Longrightarrow> or_sql w m db = (Inr x, t)"
  "m db = (Inl e, t) \<Longrightarrow> or_sql w m db = (Inl (w e), t)"
  by (simp_all add: abind_def or_sql_def)

lemma sql_entry_run:
  "rs_get as_entry entries_ns i db = (Inr x, t) \<Longrightarrow>
   abind (sql_entry b i) f db = (if en_book_id x = b then f x t else (Inl (ErrNotFound ''entry not found''), t))"
  "rs_get as_entry entries_ns i db = (Inl e, t) \<Longrightarrow>
   abind (sql_entry b i) f db = (Inl (no_rows (ErrNotFound ''entry not found'') ''load entry'' e), t)"
  by (auto simp: sql_entry_def abind_def or_sql_def aguard_def aret_def)

lemma create_entry_agrees:
  assumes rep: "represents (db_rows db) s"
  shows "agrees (st_create_entry parse e) (sql_create_entry parse e) db s"
proof -
  have ok: "store_ok s" and d: "distinct (map en_id (ms_entries s))" and rows: "rows_unique (db_rows db)"
    and holds: "table_holds entries_ns entry_record (db_rows db) (set (ms_entries s))"
    using rep by (simp_all add: represents_def store_ok_def)
  show ?thesis
  proof (rule agreesI [OF rep store_fails_clean(6)])
    fix x t assume run: "st_create_entry parse e s = (Inr x, t)"
    then obtain i where i: "normalize_entry_id parse (en_id e) = Inr i" "x = e\<lparr>en_id := i\<rparr>"
      "\<forall>y \<in> set (ms_entries s). en_id y \<noteq> i" "t = s\<lparr>ms_entries := ms_entries s @ [x]\<rparr>"
      by (auto simp: st_create_entry_def Let_def list_ex_iff split: sum.splits if_splits)
    moreover from i have "represents (put_row (entry_record x) (db_rows db)) t"
      by (intro put_represents(1) [OF rep create_entry_keeps [OF ok run] i(4)]) (auto simp: image_iff)
    ultimately show "\<exists>u. sql_create_entry parse e (calm db) = (Inr x, u) \<and> represents (db_rows u) t"
      using entry_rows.insert_cases(1) [OF holds, of x] by (simp add: sql_create_entry_def Let_def aret_def)
  next
    fix err t assume "st_create_entry parse e s = (Inl err, t)"
    then consider (bad) "normalize_entry_id parse (en_id e) = Inl err"
      | (used) i y where "normalize_entry_id parse (en_id e) = Inr i" "y \<in> set (ms_entries s)" "en_id y = i"
      by (auto simp: st_create_entry_def Let_def list_ex_iff split: sum.splits if_splits)
    then show "\<exists>err u. sql_create_entry parse e (calm db) = (Inl err, u) \<and> db_rows u = db_rows db"
    proof cases
      case used
      then show ?thesis
        using entry_rows.insert_cases(2) [OF holds used(2), of "e\<lparr>en_id := i\<rparr>"] by (simp add: sql_create_entry_def Let_def)
    qed (simp add: sql_create_entry_def afail_def)
  qed
qed

lemma update_entry_agrees:
  assumes rep: "represents (db_rows db) s" and scope: "\<forall>x \<in> set (ms_entries s). en_id x = en_id e \<longrightarrow> en_book_id x = en_book_id e"
  shows "agrees (st_update_entry e) (sql_update_entry e) db s"
proof -
  have ok: "store_ok s" and d: "distinct (map en_id (ms_entries s))" and rows: "rows_unique (db_rows db)"
    and holds: "table_holds entries_ns entry_record (db_rows db) (set (ms_entries s))"
    using rep by (simp_all add: represents_def store_ok_def)
  show ?thesis
  proof (rule agreesI [OF rep store_fails_clean(7)])
    fix x t assume run: "st_update_entry e s = (Inr x, t)"
    obtain y where y: "y \<in> set (ms_entries s)" "en_id y = en_id e" and x: "x = e"
      and t: "ms_entries t = map (\<lambda>y. if en_id y = en_id e then e else y) (ms_entries s)"
      using entry_table.update_rows [OF d run] by blast
    have "represents (put_row (entry_record e) (db_rows db)) t"
      by (rule put_represents(1) [OF rep update_entry_keeps [OF ok run]])
        (use run y t in \<open>auto simp: st_update_entry_def split: option.splits\<close>)
    then show "\<exists>u. sql_update_entry e (calm db) = (Inr x, u) \<and> represents (db_rows u) t"
      using entry_rows.update_cases(1) [OF holds y(1), of e] y(2) x by (simp add: sql_update_entry_def aret_def)
  next
    fix err t assume "st_update_entry e s = (Inl err, t)"
    then have "\<not> is_ok (fst (st_update_entry e s))" by simp
    then have "\<forall>y \<in> set (ms_entries s). en_id y \<noteq> en_id e" using scope entry_table.update_ok_iff [OF d, of e] by auto
    then show "\<exists>err u. sql_update_entry e (calm db) = (Inl err, u) \<and> db_rows u = db_rows db"
      using entry_rows.update_cases(2) [OF holds, of e] by (simp add: sql_update_entry_def)
  qed
qed

lemma delete_entry_agrees:
  assumes rep: "represents (db_rows db) s"
  shows "agrees (st_delete_entry b i) (sql_delete_entry b i) db s"
proof -
  have ok: "store_ok s" and d: "distinct (map en_id (ms_entries s))" and rows: "rows_unique (db_rows db)"
    and holds: "table_holds entries_ns entry_record (db_rows db) (set (ms_entries s))"
    using rep by (simp_all add: represents_def store_ok_def)
  show ?thesis
  proof (rule agreesI [OF rep store_fails_clean(8)])
    fix x t assume run: "st_delete_entry b i s = (Inr x, t)"
    then obtain n where n: "index_func (\<lambda>x. en_book_id x = b \<and> en_id x = i) (ms_entries s) = Some n"
      and t: "t = s\<lparr>ms_entries := delete_at n (ms_entries s)\<rparr>"
      by (auto simp: st_delete_entry_def split: option.splits)
    let ?e = "ms_entries s ! n"
    have e: "?e \<in> set (ms_entries s)" "en_id ?e = i" "en_book_id ?e = b"
      using index_func_Some [OF n] by auto
    have "represents (filter (\<lambda>r. \<not> row_at entries_ns i r) (db_rows db)) t"
      by (rule delete_represents(1) [OF rep delete_entry_keeps [OF ok run] t])
        (use delete_at_filter [OF n d] e(2) in auto)
    then show "\<exists>u. sql_delete_entry b i (calm db) = (Inr x, u) \<and> represents (db_rows u) t"
      using entry_rows.get_run(1) [OF holds rows e(1)] e entry_rows.delete_run [of i db]
      by (simp add: sql_delete_entry_def sql_entry_run)
  next
    fix err t assume "st_delete_entry b i s = (Inl err, t)"
    then have none: "\<forall>x \<in> set (ms_entries s). \<not> (en_book_id x = b \<and> en_id x = i)"
      by (auto simp: st_delete_entry_def index_func_None_iff split: option.splits)
    show "\<exists>err u. sql_delete_entry b i (calm db) = (Inl err, u) \<and> db_rows u = db_rows db"
    proof (cases "i \<in> (tr_key \<circ> entry_record) ` set (ms_entries s)")
      case False
      then show ?thesis
        using entry_rows.get_run(2) [OF holds rows False] by (simp add: sql_delete_entry_def sql_entry_run)
    next
      case True
      then obtain x where "x \<in> set (ms_entries s)" "en_id x = i" "en_book_id x \<noteq> b" using none by auto
      then show ?thesis
        using entry_rows.get_run(1) [OF holds rows, of x] by (simp add: sql_delete_entry_def sql_entry_run)
    qed
  qed
qed

section \<open>Categories, groups and accounts\<close>

text \<open>
  A list table of the memory store beside its rows: both contracts, and that putting the row of a value represents the
  table with the value in it.
\<close>

locale refined_table = keyed_table key scope "\<lambda>_. True" rows create update + row_table ns pack unpack
  for key :: "'a \<Rightarrow> string" and scope :: "'a \<Rightarrow> 'b" and rows :: "memory_store \<Rightarrow> 'a list"
    and create update :: "'a \<Rightarrow> (memory_store, ledger_error, 'a) act"
    and ns :: string and pack :: "'a \<Rightarrow> ledger_row" and unpack :: "ledger_value \<Rightarrow> 'a option" +
  assumes pack_key: "tr_key (pack x) = key x"
    and clean: "fails_clean (create x)" "fails_clean (update x)"
    and table: "represents rs s \<Longrightarrow> distinct (map key (rows s)) \<and> table_holds ns pack rs (set (rows s))"
    and put: "represents rs s \<Longrightarrow> create x s = (Inr x, t) \<or> update x s = (Inr x, t) \<Longrightarrow>
      set (rows t) = insert x {y \<in> set (rows s). key y \<noteq> key x} \<Longrightarrow> represents (put_row (pack x) rs) t"
begin

lemma create_agrees:
  assumes rep: "represents (db_rows db) s"
  shows "agrees (create x) (abind (or_sql w (rs_insert (pack x))) (\<lambda>_. aret x)) db s"
proof (rule agreesI [OF rep clean(1)])
  have holds: "table_holds ns pack (db_rows db) (set (rows s))" using table [OF rep] by simp
  fix y t assume run: "create x s = (Inr y, t)"
  then have y: "y = x" "key x \<notin> key ` set (rows s)" "rows t = rows s @ [x]" using create_rows [OF TrueI run] by simp_all
  then have "represents (put_row (pack x) (db_rows db)) t" using run by (intro put [OF rep]) (auto simp: image_iff)
  moreover have "\<forall>z \<in> set (rows s). key z \<noteq> key x" using y(2) by (metis image_eqI)
  ultimately show "\<exists>u. abind (or_sql w (rs_insert (pack x))) (\<lambda>_. aret x) (calm db) = (Inr y, u) \<and> represents (db_rows u) t"
    using insert_cases(1) [OF holds, of x] y(1) by (simp add: pack_key aret_def)
next
  have holds: "table_holds ns pack (db_rows db) (set (rows s))" using table [OF rep] by simp
  fix e t assume "create x s = (Inl e, t)"
  then have "\<not> is_ok (fst (create x s))" by simp
  then obtain y where "y \<in> set (rows s)" "key y = key x" using create_ok_iff [OF TrueI, of x s] by auto
  then show "\<exists>e u. abind (or_sql w (rs_insert (pack x))) (\<lambda>_. aret x) (calm db) = (Inl e, u) \<and> db_rows u = db_rows db"
    using insert_cases(2) [OF holds, of y x] by (simp add: pack_key)
qed

lemma update_agrees:
  assumes rep: "represents (db_rows db) s" and scope: "\<forall>y \<in> set (rows s). key y = key x \<longrightarrow> scope y = scope x"
  shows "agrees (update x) (abind (or_sql w (rs_update (pack x))) (\<lambda>_. aret x)) db s"
proof (rule agreesI [OF rep clean(2)])
  have holds: "table_holds ns pack (db_rows db) (set (rows s))" and d: "distinct (map key (rows s))"
    using table [OF rep] by simp_all
  fix z t assume run: "update x s = (Inr z, t)"
  then obtain y where y: "z = x" "y \<in> set (rows s)" "key y = key x"
    "rows t = map (\<lambda>y. if key y = key x then x else y) (rows s)" using update_rows [OF d run] by blast
  then have "represents (put_row (pack x) (db_rows db)) t" using run by (intro put [OF rep]) auto
  then show "\<exists>u. abind (or_sql w (rs_update (pack x))) (\<lambda>_. aret x) (calm db) = (Inr z, u) \<and> represents (db_rows u) t"
    using update_cases(1) [OF holds y(2), of x] y by (simp add: pack_key aret_def)
next
  have holds: "table_holds ns pack (db_rows db) (set (rows s))" and d: "distinct (map key (rows s))"
    using table [OF rep] by simp_all
  fix e t assume "update x s = (Inl e, t)"
  then have "\<not> is_ok (fst (update x s))" by simp
  then have "\<forall>y \<in> set (rows s). key y \<noteq> key x" using scope update_ok_iff [OF d, of x] by auto
  then show "\<exists>e u. abind (or_sql w (rs_update (pack x))) (\<lambda>_. aret x) (calm db) = (Inl e, u) \<and> db_rows u = db_rows db"
    using update_cases(2) [OF holds, of x] by (simp add: pack_key)
qed

end

interpretation refined_categories: refined_table ct_id ct_book_id ms_categories st_create_category st_update_category
  categories_ns category_record as_category
proof unfold_locales
  fix rs s x t
  assume rep: "represents rs s" and run: "st_create_category x s = (Inr x, t) \<or> st_update_category x s = (Inr x, t)"
    and cs: "set (ms_categories t) = insert x {y \<in> set (ms_categories s). ct_id y \<noteq> ct_id x}"
  have ok: "store_ok t" using run category_writes_keep [OF representsD(2) [OF rep]] by blast
  show "represents (put_row (category_record x) rs) t"
    by (rule put_represents(2) [OF rep ok _ cs])
      (use run in \<open>auto simp: st_create_category_def st_update_category_def split: if_splits option.splits\<close>)
qed (auto simp: store_fails_clean representsD(6) represents_def store_ok_def)

interpretation refined_groups: refined_table ag_id "\<lambda>_. ()" ms_groups st_create_account_group st_update_account_group
  groups_ns group_record as_group
proof unfold_locales
  fix rs s x t
  assume rep: "represents rs s" and run: "st_create_account_group x s = (Inr x, t) \<or> st_update_account_group x s = (Inr x, t)"
    and gs: "set (ms_groups t) = insert x {y \<in> set (ms_groups s). ag_id y \<noteq> ag_id x}"
  have ok: "store_ok t" using run group_writes_keep [OF representsD(2) [OF rep]] by blast
  show "represents (put_row (group_record x) rs) t"
    by (rule put_represents(3) [OF rep ok _ gs])
      (use run in \<open>auto simp: st_create_account_group_def st_update_account_group_def split: if_splits option.splits\<close>)
qed (auto simp: store_fails_clean represents_def store_ok_def)

interpretation refined_accounts: refined_table ac_id "\<lambda>_. ()" ms_accounts st_create_account st_update_account
  accounts_ns account_record as_account
proof unfold_locales
  fix rs s x t
  assume rep: "represents rs s" and run: "st_create_account x s = (Inr x, t) \<or> st_update_account x s = (Inr x, t)"
    and acs: "set (ms_accounts t) = insert x {y \<in> set (ms_accounts s). ac_id y \<noteq> ac_id x}"
  have ok: "store_ok t" using run account_writes_keep [OF representsD(2) [OF rep]] by blast
  show "represents (put_row (account_record x) rs) t"
    by (rule put_represents(4) [OF rep ok _ acs])
      (use run in \<open>auto simp: st_create_account_def st_update_account_def split: if_splits option.splits\<close>)
qed (auto simp: store_fails_clean represents_def store_ok_def)

section \<open>Books and members\<close>

lemma sql_lookups:
  assumes rep: "represents (db_rows db) s"
  shows "sql_book i (calm db) =
      (case book_at s i of None \<Rightarrow> Inl (ErrNotFound ''book not found'') | Some b \<Rightarrow> Inr b, calm db)"
    and "sql_member i u (calm db) =
      (case member_at s i u of None \<Rightarrow> Inl (ErrOther ''user is not a member of book'') | Some m \<Rightarrow> Inr m, calm db)"
proof -
  note facts = representsD [OF rep]
  show "sql_book i (calm db) =
      (case book_at s i of None \<Rightarrow> Inl (ErrNotFound ''book not found'') | Some b \<Rightarrow> Inr b, calm db)"
  proof (cases "book_at s i")
    case None
    then have "i \<notin> (tr_key \<circ> book_record) ` books_of s" using book_key_iff [OF facts(2), of i] by (simp add: comp_def)
    then show ?thesis using book_rows.get_run(2) [OF facts(3,1)] None by (simp add: sql_book_def no_rows_def)
  next
    case (Some b)
    then have "b \<in> books_of s" "bk_id b = i" using books_of_iff [OF facts(2)] book_at_ok [OF facts(2) Some] by simp_all
    then show ?thesis using book_rows.get_run(1) [OF facts(3,1), of b] Some by (simp add: sql_book_def)
  qed
  show "sql_member i u (calm db) =
      (case member_at s i u of None \<Rightarrow> Inl (ErrOther ''user is not a member of book'') | Some m \<Rightarrow> Inr m, calm db)"
  proof (cases "member_at s i u")
    case None
    then have "sql_member_key i u \<notin> (tr_key \<circ> member_record) ` members_of s" using member_key_iff [OF facts(2)] by simp
    then show ?thesis using member_rows.get_run(2) [OF facts(4,1)] None by (simp add: sql_member_def no_rows_def)
  next
    case (Some m)
    then have "m \<in> members_of s" "bm_book_id m = i" "bm_user_id m = u"
      using members_of_iff [OF facts(2)] member_at_ok [OF facts(2) Some] by simp_all
    then show ?thesis using member_rows.get_run(1) [OF facts(4,1), of m] Some by (simp add: sql_member_def)
  qed
qed

lemma put_book:
  assumes "represents rows s" and "st_update_book b s = (Inr r, t)"
  shows "represents (put_row (book_record b) rows) t"
proof -
  note ok = representsD(2) [OF assms(1)] and upd = update_book_effect [OF assms(2)]
  have t: "store_ok t" by (rule update_book_keeps [OF ok assms(2)])
  have "books_of t = insert b {y \<in> books_of s. bk_id y \<noteq> bk_id b}"
    using books_of_iff [OF ok] books_of_iff [OF t] upd(3) by (auto split: if_splits)
  then show ?thesis by (rule put_represents(5) [OF assms(1) t upd(4)])
qed

lemma put_member:
  assumes "represents rows s" and "store_ok t" and "t = s\<lparr>ms_members := ms_members t\<rparr>"
    and "member_at t = (\<lambda>c u. if c = bm_book_id m \<and> u = bm_user_id m then Some m else member_at s c u)"
  shows "represents (put_row (member_record m) rows) t"
proof -
  have "members_of t = insert m {y \<in> members_of s. \<not> (bm_book_id y = bm_book_id m \<and> bm_user_id y = bm_user_id m)}"
    using members_of_iff [OF representsD(2) [OF assms(1)]] members_of_iff [OF assms(2)] assms(4)
    by (auto split: if_splits)
  then show ?thesis by (rule put_represents(6) [OF assms(1-3)])
qed

lemma no_member_row:
  assumes "store_ok s" and "member_at s (bm_book_id m) (bm_user_id m) = None"
  shows "\<forall>y \<in> members_of s. tr_key (member_record y) \<noteq> tr_key (member_record m)"
  using assms(2) members_of_iff [OF assms(1)] by auto

lemma update_book_agrees:
  assumes rep: "represents (db_rows db) s"
  shows "agrees (st_update_book b) (sql_update_book b) db s"
proof -
  note facts = representsD [OF rep]
  show ?thesis
  proof (rule agreesI [OF rep store_fails_clean(5)])
    fix x t assume run: "st_update_book b s = (Inr x, t)"
    obtain y where "book_at s (bk_id b) = Some y" using update_book_effect(2) [OF run] by blast
    then have "y \<in> books_of s" "bk_id y = bk_id b" using books_of_iff [OF facts(2)] book_at_ok [OF facts(2)] by simp_all
    then show "\<exists>u. sql_update_book b (calm db) = (Inr x, u) \<and> represents (db_rows u) t"
      using book_rows.update_cases(1) [OF facts(3), of y b] put_book [OF rep run] update_book_effect(1) [OF run]
      by (simp add: sql_update_book_def aret_def)
  next
    fix e t assume "st_update_book b s = (Inl e, t)"
    then have "book_at s (bk_id b) = None" by (simp add: st_update_book_def book_at_def split: if_splits)
    then have "\<forall>y \<in> books_of s. bk_id y \<noteq> bk_id b" using books_of_iff [OF facts(2)] by auto
    then show "\<exists>e u. sql_update_book b (calm db) = (Inl e, u) \<and> db_rows u = db_rows db"
      using book_rows.update_cases(2) [OF facts(3), of b] by (simp add: sql_update_book_def)
  qed
qed

lemma create_book_member_agrees:
  assumes rep: "represents (db_rows db) s"
  shows "agrees (st_create_book_member m) (sql_create_book_member m) db s"
proof -
  note facts = representsD [OF rep]
  note member_in = members_of_iff [OF facts(2)] and no_member = no_member_row [OF facts(2)]
  show ?thesis
  proof (rule agreesI [OF rep store_fails_clean(2)])
    fix x t assume run: "st_create_book_member m s = (Inr x, t)"
    note eff = create_book_member_effect [OF run]
    have "represents (put_row (member_record m) (db_rows db)) t"
      by (rule put_member [OF rep create_book_member_keeps [OF facts(2) run] eff(5,4)])
    then show "\<exists>u. sql_create_book_member m (calm db) = (Inr x, u) \<and> represents (db_rows u) t"
      using eff(1,2) member_rows.insert_cases(1) [OF facts(4) no_member [OF eff(3)]]
      by (auto simp: sql_create_book_member_def abind_def [of "sql_book j" for j] sql_lookups(1) [OF rep] aret_def)
  next
    fix e t assume "st_create_book_member m s = (Inl e, t)"
    then consider (book) "book_at s (bm_book_id m) = None"
      | (used) y b where "book_at s (bm_book_id m) = Some b" "member_at s (bm_book_id m) (bm_user_id m) = Some y"
      by (auto simp: st_create_book_member_def book_at_def member_at_def Let_def split: if_splits option.splits)
    then show "\<exists>e u. sql_create_book_member m (calm db) = (Inl e, u) \<and> db_rows u = db_rows db"
    proof cases
      case book
      then show ?thesis
        by (simp add: sql_create_book_member_def abind_def [of "sql_book j" for j] sql_lookups(1) [OF rep])
    next
      case used
      then have "y \<in> members_of s" "tr_key (member_record y) = tr_key (member_record m)"
        using member_in member_at_ok [OF facts(2) used(2)] by simp_all
      then show ?thesis
        using used(1) member_rows.insert_cases(2) [OF facts(4), of y m]
        by (simp add: sql_create_book_member_def abind_def [of "sql_book j" for j] sql_lookups(1) [OF rep])
    qed
  qed
qed

lemma update_book_member_agrees:
  assumes rep: "represents (db_rows db) s" and book: "book_at s (bm_book_id m) \<noteq> None"
  shows "agrees (st_update_book_member m) (sql_update_book_member m) db s"
proof -
  note facts = representsD [OF rep]
  note member_in = members_of_iff [OF facts(2)] and no_member = no_member_row [OF facts(2)]
  show ?thesis
  proof (rule agreesI [OF rep store_fails_clean(3)])
    fix x t assume run: "st_update_book_member m s = (Inr x, t)"
    note eff = update_book_member_effect [OF run]
    obtain y where y: "member_at s (bm_book_id m) (bm_user_id m) = Some y" using eff(2) by blast
    then have "y \<in> members_of s" "tr_key (member_record y) = tr_key (member_record m)"
      using member_in member_at_ok [OF facts(2) y] by simp_all
    moreover have "represents (put_row (member_record m) (db_rows db)) t"
      by (rule put_member [OF rep update_book_member_keeps [OF facts(2) run] eff(4,3)])
    ultimately show "\<exists>u. sql_update_book_member m (calm db) = (Inr x, u) \<and> represents (db_rows u) t"
      using eff(1) member_rows.update_cases(1) [OF facts(4), of y m] by (simp add: sql_update_book_member_def aret_def)
  next
    fix e t assume "st_update_book_member m s = (Inl e, t)"
    then have "member_at s (bm_book_id m) (bm_user_id m) = None"
      using book by (auto simp: st_update_book_member_def book_at_def member_at_def split: if_splits option.splits)
    then show "\<exists>e u. sql_update_book_member m (calm db) = (Inl e, u) \<and> db_rows u = db_rows db"
      using member_rows.update_cases(2) [OF facts(4) no_member] by (simp add: sql_update_book_member_def)
  qed
qed

lemma delete_book_member_agrees:
  assumes rep: "represents (db_rows db) s"
  shows "agrees (st_delete_book_member i u) (sql_delete_book_member i u) db s"
proof -
  note facts = representsD [OF rep]
  note member_in = members_of_iff [OF facts(2)] and no_member = no_member_row [OF facts(2)]
  show ?thesis
  proof (rule agreesI [OF rep store_fails_clean(4)])
    fix x t assume run: "st_delete_book_member i u s = (Inr x, t)"
    note eff = delete_book_member_effect [OF run]
    have t: "store_ok t" by (rule delete_book_member_keeps [OF facts(2) run])
    have "members_of t = {y \<in> members_of s. \<not> (bm_book_id y = i \<and> bm_user_id y = u)}"
      using member_in members_of_iff [OF t] eff(2) by (auto split: if_splits)
    then have "represents (filter (\<lambda>r. \<not> row_at members_ns (sql_member_key i u) r) (db_rows db)) t"
      by (rule delete_represents(2) [OF rep t eff(3)])
    then show "\<exists>v. sql_delete_book_member i u (calm db) = (Inr x, v) \<and> represents (db_rows v) t"
      using eff(1) member_rows.delete_run [of "sql_member_key i u" db]
      by (auto simp: sql_delete_book_member_def abind_def [of "sql_member j k" for j k] sql_lookups(2) [OF rep])
  next
    fix e t assume "st_delete_book_member i u s = (Inl e, t)"
    then have "member_at s i u = None"
      by (auto simp: st_delete_book_member_def member_at_def split: if_splits option.splits)
    then show "\<exists>e v. sql_delete_book_member i u (calm db) = (Inl e, v) \<and> db_rows v = db_rows db"
      by (simp add: sql_delete_book_member_def abind_def sql_lookups(2) [OF rep])
  qed
qed

section \<open>Transactions\<close>

abbreviation put_all :: "'d table_row list \<Rightarrow> 'd table_row list \<Rightarrow> 'd table_row list" where
  "put_all rs rows \<equiv> fold put_row rs rows"

lemma put_all_others:
  "\<forall>r \<in> set rs. tr_namespace r \<noteq> ns \<Longrightarrow> table_holds ns pack rows X \<Longrightarrow> table_holds ns pack (put_all rs rows) X"
  by (induction rs arbitrary: rows) (simp_all add: other_tables(1))

lemma put_all_unique:
  "\<forall>r \<in> set rs. tr_secondary r = [] \<Longrightarrow> rows_unique rows \<Longrightarrow> rows_unique (put_all rs rows)"
  by (induction rs arbitrary: rows) (simp_all add: put_row_unique)

context row_table begin

definition fresh :: "'a list \<Rightarrow> 'a set \<Rightarrow> bool" where
  "fresh xs X \<longleftrightarrow> distinct (map (tr_key \<circ> pack) xs) \<and> (\<forall>x \<in> set xs. \<forall>y \<in> X. tr_key (pack y) \<noteq> tr_key (pack x))"

lemma fresh_Cons: "fresh (x # xs) X \<Longrightarrow> (\<forall>y \<in> X. tr_key (pack y) \<noteq> tr_key (pack x)) \<and> fresh xs (insert x X)"
  by (auto simp: fresh_def)

lemma put_all_holds:
  "fresh xs X \<Longrightarrow> table_holds ns pack rows X \<Longrightarrow> table_holds ns pack (put_all (map pack xs) rows) (X \<union> set xs)"
proof (induction xs arbitrary: rows X)
  case (Cons x xs)
  have "table_holds ns pack (put_row (pack x) rows) (insert x X)"
    using fresh_Cons [OF Cons.prems(1)] by (intro put_new_holds [OF Cons.prems(2)]) fastforce
  then show ?case using Cons.IH [of "insert x X"] fresh_Cons [OF Cons.prems(1)] by simp
qed simp

end

lemma put_calm: "(calm db)\<lparr>db_rows := rows\<rparr> = calm (db\<lparr>db_rows := rows\<rparr>)"
  by simp

lemma insert_rates_run:
  "rate_rows.fresh rs X \<Longrightarrow> table_holds rates_ns rate_record (db_rows db) X \<Longrightarrow>
   insert_records (map rate_record rs) (calm db) = (Inr (), calm (db\<lparr>db_rows := put_all (map rate_record rs) (db_rows db)\<rparr>))"
proof (induction rs arbitrary: db X)
  case (Cons r rs)
  have free: "\<forall>y \<in> X. tr_key (rate_record y) \<noteq> tr_key (rate_record r)" and rest: "rate_rows.fresh rs (insert r X)"
    using rate_rows.fresh_Cons [OF Cons.prems(1)] by simp_all
  have "table_holds rates_ns rate_record (put_row (rate_record r) (db_rows db)) (insert r X)"
    using free by (intro rate_rows.put_new_holds [OF Cons.prems(2)]) fastforce
  then show ?case
    using Cons.IH [OF rest, of "db\<lparr>db_rows := put_row (rate_record r) (db_rows db)\<rparr>"]
      rate_rows.insert_cases(1) [OF Cons.prems(2) free] by simp
qed (simp add: aret_def calm_same)

lemma insert_categories_run:
  assumes "table_holds categories_ns category_record (db_rows db) X"
    and "\<forall>i. i \<in> ct_id ` X \<longleftrightarrow> i \<in> set seen \<or> i \<in> ct_id ` set existing"
  shows "case check_default_categories b existing seen cs of
      Inl _ \<Rightarrow> \<exists>e u. insert_default_categories b cs (calm db) = (Inl e, u)
    | Inr _ \<Rightarrow> category_rows.fresh cs X \<and>
        insert_default_categories b cs (calm db) = (Inr (), calm (db\<lparr>db_rows := put_all (map category_record cs) (db_rows db)\<rparr>))"
  using assms
proof (induction cs arbitrary: db X seen)
  case (Cons c cs)
  have seen: "(\<exists>y \<in> X. ct_id y = ct_id c) \<longleftrightarrow> ct_id c \<in> set seen \<or> list_ex (\<lambda>e. ct_id e = ct_id c) existing"
    using Cons.prems(2) [rule_format, of "ct_id c"] by (auto simp: list_ex_iff image_iff eq_commute)
  consider (book) "ct_book_id c \<noteq> b" | (used) y where "ct_book_id c = b" "y \<in> X" "ct_id y = ct_id c"
    | (new) "ct_book_id c = b" "\<forall>y \<in> X. ct_id y \<noteq> ct_id c" by blast
  then show ?case
  proof cases
    case book
    then show ?thesis by (simp add: afail_def)
  next
    case used
    then have "check_default_categories b existing seen (c # cs) = Inl (ErrOther ''default category id duplicated'') \<or>
        check_default_categories b existing seen (c # cs) = Inl (ErrOther ''category id already exists'')"
      using seen by auto
    then show ?thesis
      using used category_rows.insert_cases(2) [OF Cons.prems(1) used(2), of c] by auto
  next
    case new
    let ?db = "db\<lparr>db_rows := put_row (category_record c) (db_rows db)\<rparr>"
    have run: "rs_insert (category_record c) (calm db) = (Inr (), calm ?db)"
      using category_rows.insert_cases(1) [OF Cons.prems(1), of c] new(2) by simp
    have step: "check_default_categories b existing seen (c # cs) = check_default_categories b existing (ct_id c # seen) cs"
      "insert_default_categories b (c # cs) (calm db) = insert_default_categories b cs (calm ?db)"
      using seen new run by auto
    have "table_holds categories_ns category_record (db_rows ?db) (insert c X)"
      using new(2) category_rows.put_new_holds [OF Cons.prems(1), of c] by (simp add: image_iff) metis
    then have IH: "case check_default_categories b existing (ct_id c # seen) cs of
        Inl _ \<Rightarrow> \<exists>e u. insert_default_categories b cs (calm ?db) = (Inl e, u)
      | Inr _ \<Rightarrow> category_rows.fresh cs (insert c X) \<and> insert_default_categories b cs (calm ?db) =
          (Inr (), calm (?db\<lparr>db_rows := put_all (map category_record cs) (db_rows ?db)\<rparr>))"
      using Cons.prems(2) by (intro Cons.IH) auto
    have "category_rows.fresh cs (insert c X) \<Longrightarrow> category_rows.fresh (c # cs) X"
      using new(2) by (auto simp: category_rows.fresh_def)
    then show ?thesis using IH unfolding step by (auto split: sum.splits)
  qed
qed (simp add: aret_def calm_same category_rows.fresh_def)

lemma abind_unfold: "abind m f db = (case m db of (Inl e, t) \<Rightarrow> (Inl e, t) | (Inr x, t) \<Rightarrow> f x t)"
  by (simp add: abind_def)

lemma create_book_rows:
  assumes rep: "represents rows s" and run: "st_create_book b owner cs s = (Inr r, t)"
    and fresh: "category_rows.fresh cs (set (ms_categories s))"
  shows "represents (put_all (map category_record cs) (put_row (member_record owner) (put_row (book_record b) rows))) t"
proof -
  note facts = representsD [OF rep] and eff = create_book_effect [OF run]
  have t: "store_ok t" by (rule create_book_keeps [OF facts(2) run])
  have books: "books_of t = insert b {y \<in> books_of s. bk_id y \<noteq> bk_id b}"
    using books_of_iff [OF facts(2)] books_of_iff [OF t] eff(4) by (auto split: if_splits)
  have members: "members_of t = insert owner {y \<in> members_of s. tr_key (member_record y) \<noteq> tr_key (member_record owner)}"
    using members_of_iff [OF facts(2)] members_of_iff [OF t] eff(3,6) by (auto split: if_splits)
  have spaces: "\<forall>r \<in> set (map category_record cs). tr_namespace r = categories_ns \<and> tr_secondary r = []" by simp
  let ?rows = "put_row (member_record owner) (put_row (book_record b) rows)"
  have "table_holds books_ns book_record ?rows (books_of t)"
    using book_rows.put_holds [OF facts(3), of b] by (simp add: books other_tables ledger_ns)
  moreover have "table_holds members_ns member_record ?rows (members_of t)"
    unfolding members by (rule member_rows.put_holds, rule other_tables(1) [OF facts(4)]) (simp add: ledger_ns)
  moreover have "table_holds categories_ns category_record (put_all (map category_record cs) ?rows) (set (ms_categories t))"
    using category_rows.put_all_holds [OF fresh, of ?rows] facts(6) by (simp add: other_tables ledger_ns eff(7))
  ultimately show ?thesis
    using rep t unfolding represents_def
    by (simp add: put_all_unique put_row_unique put_all_others other_tables ledger_ns eff(8-11))
qed

lemma create_book_agrees:
  assumes rep: "represents (db_rows db) s" and tx: "\<not> db_in_tx db"
  shows "agrees (st_create_book b owner cs) (sql_create_book b owner cs) db s"
proof (rule agreesI [OF rep store_fails_clean(1)])
  note facts = representsD [OF rep]
  let ?tx = "db\<lparr>db_in_tx := True\<rparr>"
  let ?body = "abind (or_sql (\<lambda>_. ErrOther ''insert book'') (rs_insert (book_record b))) (\<lambda>_.
    abind (or_sql (\<lambda>_. ErrOther ''insert record'') (rs_insert (member_record owner))) (\<lambda>_. insert_default_categories (bk_id b) cs))"
  let ?one = "?tx\<lparr>db_rows := put_row (book_record b) (db_rows db)\<rparr>"
  let ?two = "?one\<lparr>db_rows := put_row (member_record owner) (db_rows ?one)\<rparr>"
  have holds: "table_holds books_ns book_record (db_rows ?tx) (books_of s)"
    "table_holds members_ns member_record (db_rows ?one) (members_of s)"
    "table_holds categories_ns category_record (db_rows ?two) (set (ms_categories s))"
    using facts by (simp_all add: other_tables ledger_ns)
  have book: "book_at s (bk_id b) = None \<Longrightarrow> rs_insert (book_record b) (calm ?tx) = (Inr (), calm ?one)"
    "book_at s (bk_id b) \<noteq> None \<Longrightarrow> \<exists>e u. rs_insert (book_record b) (calm ?tx) = (Inl e, u)"
    using book_rows.insert_run [OF holds(1), of b] book_key_iff [OF facts(2), of "bk_id b"] by (auto simp: comp_def)
  have member: "member_at s (bm_book_id owner) (bm_user_id owner) = None \<Longrightarrow> rs_insert (member_record owner) (calm ?one) = (Inr (), calm ?two)"
    "member_at s (bm_book_id owner) (bm_user_id owner) \<noteq> None \<Longrightarrow> \<exists>e u. rs_insert (member_record owner) (calm ?one) = (Inl e, u)"
    using member_rows.insert_run [OF holds(2), of owner] member_key_iff [OF facts(2)] by auto
  note categories = insert_categories_run [OF holds(3), of "[]" "ms_categories s" "bk_id b" cs]
  have sql: "sql_create_book b owner cs (calm db) = (if bk_id b \<noteq> bm_book_id owner
    then (Inl (ErrOther ''book id and owner membership book id differ''), calm db)
    else abind (with_tx (\<lambda>_. ErrOther ''create book transaction'') ?body) (\<lambda>_. aret (b, owner)) (calm db))"
    by (simp add: sql_create_book_def afail_def)
  show "\<exists>u. sql_create_book b owner cs (calm db) = (Inr x, u) \<and> represents (db_rows u) t"
    if run: "st_create_book b owner cs s = (Inr x, t)" for x t
  proof -
    note eff = create_book_effect [OF run]
    have "is_ok (check_default_categories (bk_id b) (ms_categories s) [] cs)"
      using run by (auto simp: st_create_book_def Let_def split: if_splits sum.splits)
    then have cs: "category_rows.fresh cs (set (ms_categories s))"
      "insert_default_categories (bk_id b) cs (calm ?two) =
        (Inr (), calm (?two\<lparr>db_rows := put_all (map category_record cs) (db_rows ?two)\<rparr>))"
      using categories by (auto simp: is_ok_def split: sum.splits)
    let ?final = "?two\<lparr>db_rows := put_all (map category_record cs) (db_rows ?two)\<rparr>"
    have "?body (calm ?tx) = (Inr (), calm ?final)"
      using book(1) [OF eff(2)] member(1) eff(3,5) cs(2) by simp
    then have "with_tx (\<lambda>_. ErrOther ''create book transaction'') ?body (calm db) = (Inr (), (calm ?final)\<lparr>db_in_tx := False\<rparr>)"
      by (rule with_tx_calm(1) [where body = ?body and u = ?final, OF tx])
    then show ?thesis
      using create_book_rows [OF rep run cs(1)] eff(1,3) by (simp add: sql abind_unfold [of "with_tx w m" for w m] aret_def)
  qed
  show "\<exists>e u. sql_create_book b owner cs (calm db) = (Inl e, u) \<and> db_rows u = db_rows db"
    if run: "st_create_book b owner cs s = (Inl err, t)" for err t
  proof (cases "bk_id b = bm_book_id owner")
    case True
    have "\<exists>e u. ?body (calm ?tx) = (Inl e, u)"
    proof (cases "book_at s (bk_id b) = None \<and> member_at s (bk_id b) (bm_user_id owner) = None")
      case False
      then show ?thesis using book member True by (cases "book_at s (bk_id b)") fastforce+
    next
      case free: True
      then have "\<not> is_ok (check_default_categories (bk_id b) (ms_categories s) [] cs)"
        using run True by (auto simp: st_create_book_def book_at_def member_at_def Let_def is_ok_def split: if_splits sum.splits option.splits)
      then show ?thesis using categories book(1) member(1) free True by (auto simp: is_ok_def split: sum.splits)
    qed
    then obtain e u where "?body (calm ?tx) = (Inl e, u)" by blast
    from with_tx_calm(2) [where body = ?body and w = "\<lambda>_. ErrOther ''create book transaction''", OF this] show ?thesis
      using True by (auto simp: sql abind_unfold [of "with_tx w m" for w m])
  qed (simp add: sql)
qed

section \<open>Rates\<close>

lemma delete_rates_run:
  "delete_rates rs (calm db) = (Inr (), calm (db\<lparr>db_rows := filter (\<lambda>r. \<not> (\<exists>x \<in> set rs. row_at rates_ns (er_currency x) r)) (db_rows db)\<rparr>))"
proof (induction rs arbitrary: db)
  case (Cons r rs)
  let ?db = "db\<lparr>db_rows := filter (\<lambda>q. \<not> row_at rates_ns (er_currency r) q) (db_rows db)\<rparr>"
  have "rs_delete rates_ns (er_currency r) (calm db) = (Inr (), calm ?db)"
    using rate_rows.delete_run [of "er_currency r" db] by simp
  then show ?case using Cons.IH [of ?db] by (simp add: conj_commute)
qed (simp add: aret_def calm_same)

lemma filter_others:
  assumes "table_holds ns pack rows X" and "\<And>r. r \<in> set rows \<Longrightarrow> tr_namespace r = ns \<Longrightarrow> P r"
  shows "table_holds ns pack (filter P rows) X"
proof -
  have "{r \<in> set (filter P rows). tr_namespace r = ns} = {r \<in> set rows. tr_namespace r = ns}" using assms(2) by auto
  then show ?thesis using assms(1) by (simp add: table_holds_def)
qed

lemma replace_rates_agrees:
  assumes rep: "represents (db_rows db) s" and tx: "\<not> db_in_tx db"
    and scan: "\<forall>rows. mset (db_scan db rows) = mset rows" and rates: "distinct (map er_currency rates)"
  shows "agrees (st_replace_exchange_rates rates) (sql_replace_exchange_rates rates) db s"
proof (rule agreesI [OF rep store_fails_clean(15)])
  note facts = representsD [OF rep]
  let ?tx = "db\<lparr>db_in_tx := True\<rparr>"
  let ?new = "map rate_record (clone_exchange_rates rates)"
  let ?body = "abind (or_sql (\<lambda>_. ErrOther ''list existing exchange rates'') (rs_list as_rate rates_ns None None)) (\<lambda>existing.
    abind (delete_rates existing) (\<lambda>_. insert_records ?new))"
  have "\<exists>xs. rs_list as_rate rates_ns None None (calm ?tx) = (Inr xs, calm ?tx) \<and> distinct xs \<and>
      set xs = {x \<in> set (ms_rates s). (case None of None \<Rightarrow> True | Some i \<Rightarrow> tr_parent (rate_record x) = i) \<and>
        (case None of None \<Rightarrow> True | Some i \<Rightarrow> tr_owner (rate_record x) = i)}"
    using facts(1,9) scan by (intro rate_rows.list_run) simp_all
  then obtain old where old: "rs_list as_rate rates_ns None None (calm ?tx) = (Inr old, calm ?tx)" "set old = set (ms_rates s)"
    by auto
  let ?P = "\<lambda>r. \<not> (\<exists>x \<in> set old. row_at rates_ns (er_currency x) r)"
  let ?rest = "?tx\<lparr>db_rows := filter ?P (db_rows db)\<rparr>"
  have del: "delete_rates old (calm ?tx) = (Inr (), calm ?rest)" using delete_rates_run [of old ?tx] by simp
  have empty: "table_holds rates_ns rate_record (db_rows ?rest) {}"
  proof -
    have "?P r \<Longrightarrow> r \<in> set (db_rows db) \<Longrightarrow> tr_namespace r \<noteq> rates_ns" for r
      using rate_rows.in_rows [OF facts(9), of r] old(2) by (fastforce simp: row_at_def)
    then show ?thesis by (auto simp: table_holds_def)
  qed
  have others: "table_holds ns pack (db_rows ?rest) X"
    if "table_holds ns pack (db_rows db) X" "ns \<noteq> rates_ns" for ns :: string and pack :: "'a \<Rightarrow> ledger_row" and X
    using that by (auto intro!: filter_others simp: row_at_def)
  have fresh: "rate_rows.fresh (clone_exchange_rates rates) {}"
    using rates by (simp add: rate_rows.fresh_def clone_exchange_rates_def comp_def)
  let ?final = "?rest\<lparr>db_rows := put_all ?new (db_rows ?rest)\<rparr>"
  have "?body (calm ?tx) = (Inr (), calm ?final)"
    using old(1) del insert_rates_run [OF fresh empty] by (simp add: abind_def [of "delete_rates old"])
  then have run: "sql_replace_exchange_rates rates (calm db) = (Inr (), (calm ?final)\<lparr>db_in_tx := False\<rparr>)"
    unfolding sql_replace_exchange_rates_def by (rule with_tx_calm(1) [where body = ?body and u = ?final, OF tx])
  show "\<exists>u. sql_replace_exchange_rates rates (calm db) = (Inr x, u) \<and> represents (db_rows u) t"
    if memory: "st_replace_exchange_rates rates s = (Inr x, t)" for x t
  proof -
    have t: "t = s\<lparr>ms_rates := clone_exchange_rates rates\<rparr>" "store_ok t"
      using memory replace_rates_keeps [OF facts(2) memory] by (simp_all add: st_replace_exchange_rates_def)
    have "table_holds rates_ns rate_record (put_all ?new (db_rows ?rest)) (set (clone_exchange_rates rates))"
      using rate_rows.put_all_holds [OF fresh empty] by simp
    moreover have "rows_unique (put_all ?new (db_rows ?rest))" using facts(1) by (simp add: put_all_unique unique_filter)
    ultimately have "represents (put_all ?new (db_rows ?rest)) t"
      using t(2) rates others [OF facts(3)] others [OF facts(4)] others [OF facts(5)] others [OF facts(6)]
        others [OF facts(7)] others [OF facts(8)]
      by (simp add: represents_def t(1) books_of_def members_of_def put_all_others ledger_ns clone_exchange_rates_def del: set_concat)
    then show ?thesis using run by simp
  qed
  show "\<exists>e u. sql_replace_exchange_rates rates (calm db) = (Inl e, u) \<and> db_rows u = db_rows db"
    if "st_replace_exchange_rates rates s = (Inl err, t)" for err t
    using that by (simp add: st_replace_exchange_rates_def)
qed

section \<open>Reads\<close>

text \<open>The same values, in an order that may differ where the sort key does not decide it; or both fail.\<close>

definition same_values :: "'e + 'a list \<Rightarrow> 'f + 'a list \<Rightarrow> bool" where
  "same_values r q = (case (r, q) of (Inr xs, Inr ys) \<Rightarrow> mset xs = mset ys | (Inl _, Inl _) \<Rightarrow> True | _ \<Rightarrow> False)"

definition same_value :: "'e + 'a \<Rightarrow> 'f + 'a \<Rightarrow> bool" where
  "same_value r q = (case (r, q) of (Inr x, Inr y) \<Rightarrow> x = y | (Inl _, Inl _) \<Rightarrow> True | _ \<Rightarrow> False)"

text \<open>What a listing by \<open>rs_list\<close> sorted afterwards gives.\<close>

lemma listing_run:
  assumes "\<exists>ys. rs_list dec ns p u (calm db) = (Inr ys, calm db) \<and> distinct ys \<and> set ys = Y"
    and "distinct xs" and "set xs = Y"
  shows "same_values (Inr (sort_func cmp xs))
    (fst (abind (or_sql w (rs_list dec ns p u)) (\<lambda>ys. aret (sort_func cmp' ys)) (calm db)))"
proof -
  obtain ys where ys: "rs_list dec ns p u (calm db) = (Inr ys, calm db)" "distinct ys" "set ys = Y" using assms(1) by blast
  have "mset xs = mset ys" using set_eq_iff_mset_eq_distinct [OF assms(2) ys(2)] assms(3) ys(3) by simp
  then show ?thesis by (simp add: same_values_def aret_def ys(1))
qed

lemma distinct_mapD: "distinct (map f xs) \<Longrightarrow> distinct xs"
  by (simp add: distinct_map)

lemma find_in_scope:
  "distinct (map key xs) \<Longrightarrow> x \<in> set xs \<Longrightarrow> find (\<lambda>y. P y \<and> key y = key x) xs = (if P x then Some x else None)"
proof (induction xs)
  case (Cons y xs)
  show ?case
  proof (cases "y = x")
    case True
    moreover have "find (\<lambda>y. P y \<and> key y = key x) xs = None"
      using Cons.prems(1) True by (auto simp: find_None_iff image_iff)
    ultimately show ?thesis by simp
  next
    case False
    then have "key y \<noteq> key x" using Cons.prems by (auto simp: image_iff)
    then show ?thesis using Cons False by simp
  qed
qed simp

lemma memory_lists:
  assumes "store_ok s"
  shows "distinct (map snd (ms_books s))" and "set (map snd (ms_books s)) = books_of s"
    and "distinct (List.map_filter (\<lambda>(_, inner). map_of inner u) (ms_members s))"
    and "set (List.map_filter (\<lambda>(_, inner). map_of inner u) (ms_members s)) = {m \<in> members_of s. bm_user_id m = u}"
proof -
  have books: "keys_ok bk_id (ms_books s)" and members: "members_ok (ms_members s)" using assms by (simp_all add: store_ok_def)
  show "distinct (map snd (ms_books s))" using keys_ok_map_snd [OF books] by (rule distinct_mapD)
  show "set (map snd (ms_books s)) = books_of s" by (simp add: books_of_def)
  have d: "distinct (map fst (ms_members s))" using members by (simp add: members_ok_def)
  show mem: "set (List.map_filter (\<lambda>(_, inner). map_of inner u) (ms_members s)) = {m \<in> members_of s. bm_user_id m = u}"
  proof -
    have "m \<in> set (List.map_filter (\<lambda>(_, inner). map_of inner u) (ms_members s)) \<longleftrightarrow> (\<exists>b. member_at s b u = Some m)" for m
    proof -
      have "m \<in> set (List.map_filter (\<lambda>(_, inner). map_of inner u) (ms_members s)) \<longleftrightarrow>
          (\<exists>b inner. (b, inner) \<in> set (ms_members s) \<and> map_of inner u = Some m)"
        by (force simp: map_filter_def image_iff)
      also have "\<dots> \<longleftrightarrow> (\<exists>b inner. map_of (ms_members s) b = Some inner \<and> map_of inner u = Some m)"
        using map_of_eq_Some_iff [OF d] by simp
      also have "\<dots> \<longleftrightarrow> (\<exists>b. member_at s b u = Some m)" by (auto simp: member_at_def split: bind_splits)
      finally show ?thesis .
    qed
    then show ?thesis using members_of_iff [OF assms] member_at_ok [OF assms] by blast
  qed
  have "distinct (map bm_book_id (List.map_filter (\<lambda>(_, inner). map_of inner u) ms))" if "members_ok ms" for ms
    using that
  proof (induction ms)
    case (Cons p ms)
    obtain b inner where p: "p = (b, inner)" by fastforce
    have rest: "members_ok ms" "b \<notin> fst ` set ms" and here: "\<forall>m. map_of inner u = Some m \<longrightarrow> bm_book_id m = b"
      using Cons.prems by (auto simp: members_ok_def p list_all_iff dest!: map_of_SomeD)
    have "bm_book_id m \<noteq> b" if "m \<in> set (List.map_filter (\<lambda>(_, inner). map_of inner u) ms)" for m
    proof -
      from that obtain c i where "(c, i) \<in> set ms" "map_of i u = Some m" by (force simp: map_filter_def)
      moreover from this have "bm_book_id m = c"
        using rest(1) by (auto simp: members_ok_def list_all_iff dest!: map_of_SomeD)
      ultimately show ?thesis using rest(2) by (auto simp: rev_image_eqI)
    qed
    then show ?case using Cons.IH [OF rest(1)] here
      by (auto simp: p map_filter_simps split: option.splits)
  qed (simp add: map_filter_simps)
  then show "distinct (List.map_filter (\<lambda>(_, inner). map_of inner u) (ms_members s))"
    using members by (blast intro: distinct_mapD)
qed

lemma sql_listings:
  assumes rep: "represents (db_rows db) s" and scan: "\<forall>rows. mset (db_scan db rows) = mset rows"
  shows "same_values (st_books s) (fst (sql_books (calm db)))"
    and "same_values (st_book_memberships u s) (fst (sql_book_memberships u (calm db)))"
    and "same_values (st_entries i s) (fst (sql_entries i (calm db)))"
    and "same_values (st_categories i s) (fst (sql_categories i (calm db)))"
    and "same_values (st_account_groups s) (fst (sql_account_groups (calm db)))"
    and "same_values (st_accounts s) (fst (sql_accounts (calm db)))"
    and "same_values (st_exchange_rates s) (fst (sql_exchange_rates (calm db)))"
proof -
  note facts = representsD [OF rep]
  have scan: "mset (db_scan db (db_rows db)) = mset (db_rows db)" using scan by simp
  note d = store_ok_distinct [OF facts(2), THEN distinct_mapD]
  show "same_values (st_books s) (fst (sql_books (calm db)))"
    unfolding st_books_def sql_books_def
    by (rule listing_run [OF book_rows.list_run [OF facts(3,1) scan] memory_lists(1) [OF facts(2)]])
      (use memory_lists(2) [OF facts(2)] in simp)
  show "same_values (st_book_memberships u s) (fst (sql_book_memberships u (calm db)))"
    unfolding st_book_memberships_def sql_book_memberships_def
    by (rule listing_run [OF member_rows.list_run [OF facts(4,1) scan] memory_lists(3) [OF facts(2)]])
      (simp add: memory_lists(4) [OF facts(2)])
  show "same_values (st_entries i s) (fst (sql_entries i (calm db)))"
    unfolding st_entries_def sql_entries_def
    by (rule listing_run [OF entry_rows.list_run [OF facts(5,1) scan]]) (simp_all add: d(1))
  show "same_values (st_categories i s) (fst (sql_categories i (calm db)))"
    unfolding st_categories_def sql_categories_def
    by (rule listing_run [OF category_rows.list_run [OF facts(6,1) scan]]) (simp_all add: d(2))
  show "same_values (st_account_groups s) (fst (sql_account_groups (calm db)))"
    unfolding st_account_groups_def sql_account_groups_def
    by (rule listing_run [OF group_rows.list_run [OF facts(7,1) scan]]) (simp_all add: d(3))
  show "same_values (st_accounts s) (fst (sql_accounts (calm db)))"
    unfolding st_accounts_def sql_accounts_def
    by (rule listing_run [OF account_rows.list_run [OF facts(8,1) scan]]) (simp_all add: d(4))
  show "same_values (st_exchange_rates s) (fst (sql_exchange_rates (calm db)))"
    unfolding st_exchange_rates_def sql_exchange_rates_def clone_exchange_rates_def
    by (rule listing_run [OF rate_rows.list_run [OF facts(9,1) scan]])
      (use rep in \<open>auto simp: represents_def dest: distinct_mapD\<close>)
qed

lemma memory_members:
  assumes "store_ok s" and "st_book_members i s = Inr xs"
  shows "distinct xs" and "set xs = {m \<in> members_of s. bm_book_id m = i}"
proof -
  note look = book_members_lookup [OF assms]
  show "distinct xs" by (rule distinct_mapD [OF look(1)])
  show "set xs = {m \<in> members_of s. bm_book_id m = i}"
  proof (rule set_eqI)
    fix m
    have "m \<in> set xs \<longleftrightarrow> member_at s i (bm_user_id m) = Some m" by (rule look(3))
    also have "\<dots> \<longleftrightarrow> bm_book_id m = i \<and> member_at s (bm_book_id m) (bm_user_id m) = Some m"
      using member_at_ok(1) [OF assms(1), of i "bm_user_id m" m] by blast
    finally show "m \<in> set xs \<longleftrightarrow> m \<in> {m \<in> members_of s. bm_book_id m = i}"
      using members_of_iff [OF assms(1), of m] by blast
  qed
qed

lemma sql_members_listing:
  assumes rep: "represents (db_rows db) s" and "\<forall>rows. mset (db_scan db rows) = mset rows"
  shows "same_values (if st_book_members i s = Inr [] then Inl (ErrOther ''book has no members'') else st_book_members i s)
    (fst (sql_book_members i (calm db)))"
proof -
  note facts = representsD [OF rep]
  obtain ys where ys: "rs_list as_member members_ns (Some i) None (calm db) = (Inr ys, calm db)" "distinct ys"
    "set ys = {m \<in> members_of s. bm_book_id m = i}"
    using member_rows.list_run [OF facts(4,1), of "Some i" None] assms(2) by auto
  have sql: "fst (sql_book_members i (calm db)) = (if ys = [] then Inl (ErrOther ''book has no members'')
      else Inr (sort_func (\<lambda>l r. cmp_string (bm_user_id l) (bm_user_id r)) ys))"
    by (simp add: sql_book_members_def ys(1)) (simp add: abind_def aguard_def aret_def)
  show ?thesis
  proof (cases "st_book_members i s")
    case (Inl e)
    then have "{m \<in> members_of s. bm_book_id m = i} = {}"
      using book_members_exist [of s i] members_of_iff [OF facts(2)] by fastforce
    then have "ys = []" using ys(3) by (metis set_empty)
    then show ?thesis using Inl by (simp add: sql same_values_def)
  next
    case (Inr xs)
    note xs = memory_members [OF facts(2) Inr]
    have "mset xs = mset ys" using set_eq_iff_mset_eq_distinct [OF xs(1) ys(2)] xs(2) ys(3) by simp
    then show ?thesis using Inr by (auto simp: sql same_values_def)
  qed
qed

lemma sql_single_reads:
  assumes rep: "represents (db_rows db) s"
  shows "same_value (st_book i s) (fst (sql_book i (calm db)))"
    and "same_value (st_member i u s) (fst (sql_member i u (calm db)))"
    and "same_value (st_entry i e s) (fst (sql_entry i e (calm db)))"
proof -
  note facts = representsD [OF rep]
  show "same_value (st_book i s) (fst (sql_book i (calm db)))"
    using sql_lookups(1) [OF rep] by (simp add: same_value_def st_book_def book_at_def split: option.splits)
  show "same_value (st_member i u s) (fst (sql_member i u (calm db)))"
    using sql_lookups(2) [OF rep] by (auto simp: same_value_def st_member_def member_at_def split: option.splits)
  have d: "distinct (map en_id (ms_entries s))" by (rule store_ok_distinct(1) [OF facts(2)])
  have sql: "sql_entry i e (calm db) = abind (sql_entry i e) aret (calm db)"
    by (simp add: abind_def aret_def split: prod.splits sum.splits)
  show "same_value (st_entry i e s) (fst (sql_entry i e (calm db)))"
  proof (cases "\<exists>x \<in> set (ms_entries s). en_id x = e")
    case False
    then have "e \<notin> (tr_key \<circ> entry_record) ` set (ms_entries s)" by auto
    moreover have "find (\<lambda>x. en_book_id x = i \<and> en_id x = e) (ms_entries s) = None" using False by (auto simp: find_None_iff)
    ultimately show ?thesis
      unfolding sql using entry_rows.get_run(2) [OF facts(5,1)] by (simp add: sql_entry_run same_value_def st_entry_def)
  next
    case True
    then obtain x where x: "x \<in> set (ms_entries s)" "en_id x = e" by blast
    have "find (\<lambda>y. en_book_id y = i \<and> en_id y = e) (ms_entries s) = (if en_book_id x = i then Some x else None)"
      using find_in_scope [OF d x(1), of "\<lambda>y. en_book_id y = i"] x(2) by simp
    then show ?thesis
      unfolding sql using entry_rows.get_run(1) [OF facts(5,1) x(1)] x(2)
      by (simp add: sql_entry_run same_value_def st_entry_def aret_def)
  qed
qed

end
