(* ===== verification/Auth_SQL.thy ===== *)
theory Auth_SQL
  imports Record_Faults Auth_Store
begin

text \<open>
  The store of package \<open>auth\<close> in SQL rows (\<open>auth/sql_store.go\<close>), which the server uses with PostgreSQL. Users have
  their address, passkeys their credential id as secondary key; sessions, setups, used codes and passkeys have
  their user as owner. The JSON document is the value it encodes; that encoding can panic is left out.
\<close>

section \<open>Rows\<close>

record totp_replay =
  tp_user_id :: string
  tp_code_hash :: string
  tp_expires_at :: time

datatype auth_value =
    UserValue user_record
  | SessionValue session
  | CodeValue email_code_record
  | SetupValue pending_totp_setup
  | ReplayValue totp_replay
  | CountValue int
  | ThrottleValue login_throttle
  | PasskeyValue passkey_credential
  | CeremonyValue passkey_ceremony

definition as_user :: "auth_value \<Rightarrow> user_record option" where "as_user v = (case v of UserValue x \<Rightarrow> Some x | _ \<Rightarrow> None)"
definition as_session :: "auth_value \<Rightarrow> session option" where "as_session v = (case v of SessionValue x \<Rightarrow> Some x | _ \<Rightarrow> None)"
definition as_code :: "auth_value \<Rightarrow> email_code_record option" where "as_code v = (case v of CodeValue x \<Rightarrow> Some x | _ \<Rightarrow> None)"
definition as_setup :: "auth_value \<Rightarrow> pending_totp_setup option" where "as_setup v = (case v of SetupValue x \<Rightarrow> Some x | _ \<Rightarrow> None)"
definition as_replay :: "auth_value \<Rightarrow> totp_replay option" where "as_replay v = (case v of ReplayValue x \<Rightarrow> Some x | _ \<Rightarrow> None)"
definition as_number :: "auth_value \<Rightarrow> int option" where "as_number v = (case v of CountValue x \<Rightarrow> Some x | _ \<Rightarrow> None)"
definition as_throttle :: "auth_value \<Rightarrow> login_throttle option" where "as_throttle v = (case v of ThrottleValue x \<Rightarrow> Some x | _ \<Rightarrow> None)"
definition as_passkey :: "auth_value \<Rightarrow> passkey_credential option" where "as_passkey v = (case v of PasskeyValue x \<Rightarrow> Some x | _ \<Rightarrow> None)"
definition as_ceremony :: "auth_value \<Rightarrow> passkey_ceremony option" where "as_ceremony v = (case v of CeremonyValue x \<Rightarrow> Some x | _ \<Rightarrow> None)"

type_synonym auth_row = "auth_value table_row"
type_synonym 'a auth_sql = "(auth_value database, auth_error, 'a) act"

definition users_ns :: string where "users_ns = ''auth.users''"
definition sessions_ns :: string where "sessions_ns = ''auth.sessions''"
definition email_codes_ns :: string where "email_codes_ns = ''auth.email_codes''"
definition pending_totp_ns :: string where "pending_totp_ns = ''auth.pending_totp''"
definition totp_replays_ns :: string where "totp_replays_ns = ''auth.totp_replays''"
definition failed_totps_ns :: string where "failed_totps_ns = ''auth.failed_totps''"
definition failed_logins_ns :: string where "failed_logins_ns = ''auth.failed_logins''"
definition passkeys_ns :: string where "passkeys_ns = ''auth.passkeys''"
definition passkey_ceremonies_ns :: string where "passkey_ceremonies_ns = ''auth.passkey_ceremonies''"

definition auth_record :: "string \<Rightarrow> string \<Rightarrow> string \<Rightarrow> string \<Rightarrow> 'd \<Rightarrow> 'd table_row" where
  "auth_record namespace key owner_key secondary_key v =
     \<lparr>tr_namespace = namespace, tr_key = key, tr_parent = [], tr_owner = owner_key, tr_secondary = secondary_key, tr_data = v\<rparr>"

definition email_code_record_key :: "string \<Rightarrow> email_code_purpose \<Rightarrow> string" where
  "email_code_record_key email purpose = join_key [email, purpose_string purpose]"

definition replay_key :: "string \<Rightarrow> string \<Rightarrow> string" where
  "replay_key user_id code_hash = join_key [user_id, code_hash]"

definition credential_key :: "string \<Rightarrow> string" where
  "credential_key credential_id = encode_to_string url_alphabet credential_id"

definition user_row :: "user_record \<Rightarrow> auth_row" where
  "user_row u = auth_record users_ns (us_id u) [] (us_email u) (UserValue u)"

definition passkey_record :: "passkey_credential \<Rightarrow> auth_row" where
  "passkey_record p = auth_record passkeys_ns (pk_id p) (pk_user_id p) (credential_key (pk_credential_id p)) (PasskeyValue p)"

text \<open>Every error of this store is one without a sentinel.\<close>

definition failed :: "string \<Rightarrow> sql_error \<Rightarrow> auth_error" where
  "failed message e = AuthFailed message"

definition missing :: "string \<Rightarrow> string \<Rightarrow> sql_error \<Rightarrow> auth_error" where
  "missing absent message e = AuthFailed (if e = SqlNoRows then absent else message)"

section \<open>Users and sessions\<close>

definition sql_create_user :: "user_record \<Rightarrow> user_record auth_sql" where
  "sql_create_user u =
     (let u = clone_user_record u in
      abind (or_sql (failed ''insert user'') (rs_insert (user_row u))) (\<lambda>_. aret (clone_user_record u)))"

definition sql_user_by_email :: "string \<Rightarrow> user_record auth_sql" where
  "sql_user_by_email email =
     abind (or_sql (missing ''user not found'' ''load user by email'') (rs_get_by_secondary as_user users_ns email)) (\<lambda>u.
     aret (clone_user_record u))"

definition sql_user_by_id :: "string \<Rightarrow> user_record auth_sql" where
  "sql_user_by_id user_id =
     abind (or_sql (missing ''user not found'' ''load user by id'') (rs_get as_user users_ns user_id)) (\<lambda>u.
     aret (clone_user_record u))"

definition sql_update_user :: "user_record \<Rightarrow> user_record auth_sql" where
  "sql_update_user u =
     abind (sql_user_by_id (us_id u)) (\<lambda>existing.
     if us_email existing \<noteq> us_email u then afail (AuthFailed ''user email cannot change'')
     else let u = clone_user_record u in
       abind (or_sql (failed ''update user'') (rs_update (user_row u))) (\<lambda>_. aret (clone_user_record u)))"

definition sql_store_session :: "string \<Rightarrow> session \<Rightarrow> unit auth_sql" where
  "sql_store_session token_hash se =
     or_sql (failed ''upsert record'') (rs_upsert (auth_record sessions_ns token_hash (se_user_id se) [] (SessionValue se)))"

definition sql_session_by_token_hash :: "string \<Rightarrow> session auth_sql" where
  "sql_session_by_token_hash token_hash =
     or_sql (missing ''session not found'' ''load session'') (rs_get as_session sessions_ns token_hash)"

definition sql_delete_session :: "string \<Rightarrow> unit auth_sql" where
  "sql_delete_session token_hash = or_sql (failed ''delete record'') (rs_delete sessions_ns token_hash)"

definition sql_delete_sessions_by_user :: "string \<Rightarrow> unit auth_sql" where
  "sql_delete_sessions_by_user user_id = or_sql (failed ''delete records by owner'') (rs_delete_by_owner sessions_ns user_id)"

section \<open>TOTP secrets\<close>

text \<open>Users and setups are rewritten one statement at a time, not in a transaction.\<close>

definition or_failed :: "string \<Rightarrow> 'a auth_sql \<Rightarrow> 'a auth_sql" where
  "or_failed message m db = (case m db of (Inl _, t) \<Rightarrow> (Inl (AuthFailed message), t) | (Inr x, t) \<Rightarrow> (Inr x, t))"

fun sql_migrate_users :: "secret_transform \<Rightarrow> user_record list \<Rightarrow> unit auth_sql" where
  "sql_migrate_users encrypt [] = aret ()"
| "sql_migrate_users encrypt (u # us) =
     (if trim_space (ur_totp_secret u) = [] then sql_migrate_users encrypt us
      else (case encrypt (us_id u) (ur_totp_secret u) of
          Inl err \<Rightarrow> afail err
        | Inr secret \<Rightarrow>
            if secret = ur_totp_secret u then sql_migrate_users encrypt us
            else abind (or_failed ''update migrated totp user'' (sql_update_user (u\<lparr>ur_totp_secret := secret\<rparr>))) (\<lambda>_.
              sql_migrate_users encrypt us)))"

fun sql_migrate_setups :: "secret_transform \<Rightarrow> auth_row list \<Rightarrow> unit auth_sql" where
  "sql_migrate_setups encrypt [] = aret ()"
| "sql_migrate_setups encrypt (r # rs) =
     (case as_setup (tr_data r) of
        None \<Rightarrow> afail (AuthFailed ''decode pending totp setup'')
      | Some setup \<Rightarrow>
          if trim_space (pt_secret setup) = [] then sql_migrate_setups encrypt rs
          else (case encrypt (pt_user_id setup) (pt_secret setup) of
              Inl err \<Rightarrow> afail err
            | Inr secret \<Rightarrow>
                if secret = pt_secret setup then sql_migrate_setups encrypt rs
                else abind (or_sql (failed ''update migrated pending totp setup'')
                    (rs_upsert (r\<lparr>tr_data := SetupValue (setup\<lparr>pt_secret := secret\<rparr>)\<rparr>))) (\<lambda>_.
                  sql_migrate_setups encrypt rs)))"

definition sql_migrate_secrets :: "secret_transform \<Rightarrow> unit auth_sql" where
  "sql_migrate_secrets encrypt =
     abind (or_sql (failed ''list users for totp migration'') (rs_list as_user users_ns None None)) (\<lambda>users.
     abind (sql_migrate_users encrypt users) (\<lambda>_.
     abind (or_sql (failed ''list pending totp records for migration'') (rs_list_records pending_totp_ns)) (\<lambda>records.
     sql_migrate_setups encrypt records)))"

section \<open>Codes, setups and failures\<close>

definition sql_store_email_code :: "email_code_record \<Rightarrow> unit auth_sql" where
  "sql_store_email_code c = or_sql (failed ''upsert record'')
     (rs_upsert (auth_record email_codes_ns (email_code_record_key (ec_email c) (ec_purpose c)) [] [] (CodeValue c)))"

definition sql_email_code :: "string \<Rightarrow> email_code_purpose \<Rightarrow> email_code_record auth_sql" where
  "sql_email_code email purpose = or_sql (missing ''email code not found'' ''load email code'')
     (rs_get as_code email_codes_ns (email_code_record_key email purpose))"

definition sql_delete_email_code :: "string \<Rightarrow> email_code_purpose \<Rightarrow> unit auth_sql" where
  "sql_delete_email_code email purpose =
     or_sql (failed ''delete record'') (rs_delete email_codes_ns (email_code_record_key email purpose))"

definition sql_store_pending_totp_setup :: "string \<Rightarrow> pending_totp_setup \<Rightarrow> unit auth_sql" where
  "sql_store_pending_totp_setup session_id setup = or_sql (failed ''upsert record'')
     (rs_upsert (auth_record pending_totp_ns session_id (pt_user_id setup) [] (SetupValue setup)))"

definition sql_pending_totp_setup :: "string \<Rightarrow> pending_totp_setup auth_sql" where
  "sql_pending_totp_setup session_id =
     or_sql (missing ''pending totp setup not found'' ''load pending totp setup'') (rs_get as_setup pending_totp_ns session_id)"

definition sql_delete_pending_totp_setup :: "string \<Rightarrow> unit auth_sql" where
  "sql_delete_pending_totp_setup session_id = or_sql (failed ''delete record'') (rs_delete pending_totp_ns session_id)"

definition sql_store_totp_replay :: "string \<Rightarrow> string \<Rightarrow> time \<Rightarrow> unit auth_sql" where
  "sql_store_totp_replay user_id code_hash expires_at = or_sql (failed ''upsert record'')
     (rs_upsert (auth_record totp_replays_ns (replay_key user_id code_hash) user_id []
       (ReplayValue \<lparr>tp_user_id = user_id, tp_code_hash = code_hash, tp_expires_at = expires_at\<rparr>)))"

definition sql_totp_replay_exists :: "string \<Rightarrow> string \<Rightarrow> time \<Rightarrow> bool auth_sql" where
  "sql_totp_replay_exists user_id code_hash now =
     abind (or_sql (failed ''load totp replay'') (rs_find as_replay totp_replays_ns (replay_key user_id code_hash))) (\<lambda>found.
     case found of
       None \<Rightarrow> aret False
     | Some replay \<Rightarrow>
         if \<not> tp_expires_at replay > now
         then abind (or_sql (failed ''delete record'') (rs_delete totp_replays_ns (replay_key user_id code_hash))) (\<lambda>_. aret False)
         else aret True)"

definition sql_increment_failed_totp :: "string \<Rightarrow> int auth_sql" where
  "sql_increment_failed_totp user_id =
     or_sql (failed ''increment counter'') (rs_increment_counter as_number CountValue failed_totps_ns user_id)"

definition sql_reset_failed_totp :: "string \<Rightarrow> unit auth_sql" where
  "sql_reset_failed_totp user_id = or_sql (failed ''delete record'') (rs_delete failed_totps_ns user_id)"

definition sql_failed_totp_count :: "string \<Rightarrow> int auth_sql" where
  "sql_failed_totp_count user_id = or_sql (failed ''load counter'') (rs_counter as_number failed_totps_ns user_id)"

text \<open>A row of an older version holds a number only; any error of the first query leads to the second.\<close>

definition sql_login_throttle :: "string \<Rightarrow> login_throttle auth_sql" where
  "sql_login_throttle email db =
     (case rs_get as_throttle failed_logins_ns email db of
        (Inr t, db) \<Rightarrow> (Inr t, db)
      | (Inl e, db) \<Rightarrow>
          if e = SqlNoRows
          then (Inr \<lparr>lt_email = [], lt_failed_count = 0, lt_locked_until = zero_time, lt_updated_at = zero_time\<rparr>, db)
          else (case rs_get as_number failed_logins_ns email db of
              (Inr n, db) \<Rightarrow>
                (Inr \<lparr>lt_email = email, lt_failed_count = n, lt_locked_until = zero_time, lt_updated_at = zero_time\<rparr>, db)
            | (Inl _, db) \<Rightarrow> (Inl (AuthFailed ''load login throttle''), db)))"

definition sql_store_login_throttle :: "login_throttle \<Rightarrow> unit auth_sql" where
  "sql_store_login_throttle t =
     (if trim_space (lt_email t) = [] then afail (AuthFailed ''login throttle email is required'')
      else or_sql (failed ''upsert record'') (rs_upsert (auth_record failed_logins_ns (lt_email t) [] [] (ThrottleValue t))))"

definition sql_reset_login_throttle :: "string \<Rightarrow> unit auth_sql" where
  "sql_reset_login_throttle email = or_sql (failed ''delete record'') (rs_delete failed_logins_ns email)"

section \<open>Passkeys\<close>

definition sql_passkey_by_id :: "string \<Rightarrow> string \<Rightarrow> passkey_credential auth_sql" where
  "sql_passkey_by_id user_id passkey_id =
     abind (or_sql (missing ''passkey not found'' ''load passkey'') (rs_get as_passkey passkeys_ns passkey_id)) (\<lambda>p.
     abind (aguard (pk_user_id p = user_id) (AuthFailed ''passkey not found'')) (\<lambda>_. aret p))"

definition sql_create_passkey :: "passkey_credential \<Rightarrow> passkey_credential auth_sql" where
  "sql_create_passkey p = abind (or_sql (failed ''insert passkey'') (rs_insert (passkey_record p))) (\<lambda>_. aret p)"

definition sql_update_passkey :: "passkey_credential \<Rightarrow> passkey_credential auth_sql" where
  "sql_update_passkey p =
     abind (sql_passkey_by_id (pk_user_id p) (pk_id p)) (\<lambda>existing.
     if pk_user_id existing \<noteq> pk_user_id p then afail (AuthFailed ''passkey owner cannot change'')
     else if pk_credential_id existing \<noteq> pk_credential_id p then afail (AuthFailed ''passkey credential id cannot change'')
     else abind (or_sql (failed ''update passkey'') (rs_update (passkey_record p))) (\<lambda>_. aret p))"

definition sql_delete_passkey :: "string \<Rightarrow> string \<Rightarrow> unit auth_sql" where
  "sql_delete_passkey user_id passkey_id =
     abind (sql_passkey_by_id user_id passkey_id) (\<lambda>_. or_sql (failed ''delete record'') (rs_delete passkeys_ns passkey_id))"

definition sql_passkey_by_credential_id :: "string \<Rightarrow> passkey_credential auth_sql" where
  "sql_passkey_by_credential_id credential_id =
     or_sql (missing ''passkey not found'' ''load passkey by credential'')
       (rs_get_by_secondary as_passkey passkeys_ns (credential_key credential_id))"

definition sql_list_passkeys :: "string \<Rightarrow> passkey_credential list auth_sql" where
  "sql_list_passkeys user_id =
     abind (or_sql (failed ''list passkeys'') (rs_list as_passkey passkeys_ns None (Some user_id))) (\<lambda>passkeys.
     aret (sort_func (\<lambda>l r. cmp_string (pk_id l) (pk_id r)) passkeys))"

definition sql_store_passkey_ceremony :: "passkey_ceremony \<Rightarrow> unit auth_sql" where
  "sql_store_passkey_ceremony c = or_sql (failed ''upsert record'')
     (rs_upsert (auth_record passkey_ceremonies_ns (pc_id c) (pc_user_id c) [] (CeremonyValue c)))"

definition sql_passkey_ceremony :: "string \<Rightarrow> passkey_ceremony auth_sql" where
  "sql_passkey_ceremony ceremony_id =
     or_sql (missing ''passkey ceremony not found'' ''load passkey ceremony'') (rs_get as_ceremony passkey_ceremonies_ns ceremony_id)"

definition sql_delete_passkey_ceremony :: "string \<Rightarrow> unit auth_sql" where
  "sql_delete_passkey_ceremony ceremony_id = or_sql (failed ''delete record'') (rs_delete passkey_ceremonies_ns ceremony_id)"

section \<open>Faults\<close>

lemma auth_sql_atomic:
  "all_or_nothing (sql_create_user u)" "all_or_nothing (sql_update_user u)" "all_or_nothing (sql_store_session h se)"
  "all_or_nothing (sql_delete_session h)" "all_or_nothing (sql_delete_sessions_by_user i)"
  "all_or_nothing (sql_store_email_code c)" "all_or_nothing (sql_delete_email_code email purpose)"
  "all_or_nothing (sql_store_pending_totp_setup i setup)" "all_or_nothing (sql_delete_pending_totp_setup i)"
  "all_or_nothing (sql_store_totp_replay i h expires)" "all_or_nothing (sql_totp_replay_exists i h now)"
  "all_or_nothing (sql_increment_failed_totp i)" "all_or_nothing (sql_reset_failed_totp i)"
  "all_or_nothing (sql_store_login_throttle t)" "all_or_nothing (sql_reset_login_throttle email)"
  "all_or_nothing (sql_create_passkey p)" "all_or_nothing (sql_update_passkey p)" "all_or_nothing (sql_delete_passkey i j)"
  "all_or_nothing (sql_store_passkey_ceremony ce)" "all_or_nothing (sql_delete_passkey_ceremony i)"
proof -
  have user: "reads_only (sql_user_by_id i)" for i unfolding sql_user_by_id_def by (intro atomic_rules reads_bind)
  have passkey: "reads_only (sql_passkey_by_id i j)" for i j unfolding sql_passkey_by_id_def by (intro atomic_rules reads_bind)
  show "all_or_nothing (sql_create_user u)" "all_or_nothing (sql_create_passkey p)"
    unfolding sql_create_user_def sql_create_passkey_def Let_def by (rule atomic_then, intro atomic_rules)+
  show "all_or_nothing (sql_update_user u)"
    unfolding sql_update_user_def Let_def
    by (rule atomic_bind [OF user], rule atomic_if, intro atomic_rules, rule atomic_then, intro atomic_rules)
  show "all_or_nothing (sql_update_passkey p)"
    unfolding sql_update_passkey_def
    by (rule atomic_bind [OF passkey], rule atomic_if, intro atomic_rules, rule atomic_if, intro atomic_rules, rule atomic_then,
        intro atomic_rules)
  show "all_or_nothing (sql_delete_passkey i j)"
    unfolding sql_delete_passkey_def by (rule atomic_bind [OF passkey], intro atomic_rules)
  show "all_or_nothing (sql_totp_replay_exists i h now)"
    unfolding sql_totp_replay_exists_def
    by (rule atomic_bind, intro or_sql_rules find_reads)
      (auto split: option.split intro!: atomic_rules atomic_then or_sql_rules(3) record_writes)
  show "all_or_nothing (sql_increment_failed_totp i)"
    unfolding sql_increment_failed_totp_def by (intro or_sql_rules increment_atomic)
  show "all_or_nothing (sql_store_login_throttle t)"
    unfolding sql_store_login_throttle_def by (rule atomic_if, (intro atomic_rules)+)
qed (unfold sql_store_session_def sql_delete_session_def sql_delete_sessions_by_user_def sql_store_email_code_def
    sql_delete_email_code_def sql_store_pending_totp_setup_def sql_delete_pending_totp_setup_def sql_store_totp_replay_def
    sql_reset_failed_totp_def sql_reset_login_throttle_def sql_store_passkey_ceremony_def sql_delete_passkey_ceremony_def;
    intro or_sql_rules record_writes)+

section \<open>Wrong TOTP codes\<close>

text \<open>One increment without faults, and two in turn or overlapping.\<close>

lemma increment_run:
  assumes "count_of as_number failed_totps_ns user_id (db_rows db) = Some n" and "\<not> db_in_tx db" and "in_int64 (n + 1)"
  shows "sql_increment_failed_totp user_id (calm db) = (Inr (n + 1), calm (db\<lparr>db_in_tx := False,
    db_rows := put_row (counter_row CountValue failed_totps_ns user_id (n + 1)) (db_rows db)\<rparr>))"
proof -
  let ?tx = "db\<lparr>db_in_tx := True\<rparr>"
  let ?row = "counter_row CountValue failed_totps_ns user_id (n + 1)"
  let ?new = "?tx\<lparr>db_rows := put_row ?row (db_rows db)\<rparr>"
  let ?body = "abind (rs_counter as_number failed_totps_ns user_id) (\<lambda>current.
    (let following = int64 (current + 1) in
     abind (rs_upsert \<lparr>tr_namespace = failed_totps_ns, tr_key = user_id, tr_parent = [], tr_owner = [], tr_secondary = [],
       tr_data = CountValue following\<rparr>) (\<lambda>_. aret following)))"
  have "rs_counter as_number failed_totps_ns user_id (calm ?tx) = (Inr n, calm ?tx)" by (rule counter_calm) (simp add: assms(1))
  moreover have "rs_upsert ?row (calm ?tx) = (Inr (), calm ?new)" using upsert_calm [of ?row ?tx] by (simp add: counter_row_def)
  moreover have "int64 (n + 1) = n + 1" by (rule int64_id [OF assms(3)])
  ultimately have "?body (calm ?tx) = (Inr (n + 1), calm ?new)"
    by (simp only: abind_def Let_def aret_def counter_row_def prod.case sum.case)
  then have "with_tx id ?body (calm db) = (Inr (n + 1), (calm ?new)\<lparr>db_in_tx := False\<rparr>)"
    by (rule with_tx_calm(1) [where body = ?body and u = ?new, OF assms(2)])
  then show ?thesis by (simp add: sql_increment_failed_totp_def rs_increment_counter_def or_sql_def)
qed

lemma as_number_count: "as_number (CountValue n) = Some n"
  by (simp add: as_number_def)

lemma failures_in_turn:
  assumes "count_of as_number failed_totps_ns user_id (db_rows db) = Some n" and "0 \<le> n" and "n < 2 ^ 62" and "\<not> db_in_tx db"
  shows "\<exists>t. abind (sql_increment_failed_totp user_id) (\<lambda>a. abind (sql_increment_failed_totp user_id) (\<lambda>b. aret (a, b))) (calm db) =
    (Inr (n + 1, n + 2), t) \<and> count_of as_number failed_totps_ns user_id (db_rows t) = Some (n + 2)"
proof -
  let ?row = "counter_row CountValue failed_totps_ns user_id"
  let ?one = "db\<lparr>db_in_tx := False, db_rows := put_row (?row (n + 1)) (db_rows db)\<rparr>"
  have small: "in_int64 (n + 1)" "in_int64 (n + 1 + 1)" using assms(2,3) by (simp_all add: in_int64_def)
  have first: "sql_increment_failed_totp user_id (calm db) = (Inr (n + 1), calm ?one)"
    by (rule increment_run [OF assms(1,4) small(1)])
  have "count_of as_number failed_totps_ns user_id (db_rows ?one) = Some (n + 1)" by (simp add: count_of_put as_number_count)
  from increment_run [OF this _ small(2)] show ?thesis
    by (simp add: abind_def aret_def first count_of_put as_number_count)
qed

lemma failures_overlapping:
  assumes "count_of as_number failed_totps_ns user_id (db_rows db) = Some n" and "0 \<le> n" and "n < 2 ^ 62"
  shows "\<exists>t. overlapping_increments as_number CountValue failed_totps_ns user_id (calm db) =
    (Inr (n + 1, n + 1), t) \<and> count_of as_number failed_totps_ns user_id (db_rows t) = Some (n + 1)"
proof -
  have small: "int64 (n + 1) = n + 1" using assms(2,3) by (intro int64_id) (simp add: in_int64_def)
  let ?row = "counter_row CountValue failed_totps_ns user_id (n + 1)"
  have put: "rs_upsert ?row (calm d) = (Inr (), calm (d\<lparr>db_rows := put_row ?row (db_rows d)\<rparr>))" for d
    using upsert_calm [of ?row d] by (simp add: counter_row_def)
  have "rs_counter as_number failed_totps_ns user_id (calm db) = (Inr n, calm db)" by (rule counter_calm [OF assms(1)])
  then show ?thesis
    by (simp only: overlapping_increments_def abind_def aret_def small put prod.case sum.case)
      (simp add: count_of_put as_number_count)
qed

end
