(* ===== verification/Audit_SQL.thy ===== *)
theory Audit_SQL
  imports Record_Tables Audit_Chain
begin

text \<open>
  The audit log in SQL rows (\<open>audit/sql_store.go\<close>). Its namespace holds events only, which are the documents. The
  tail is the event with the highest sequence number, wherever it stands.
\<close>

section \<open>The store\<close>

type_synonym 'a audit_sql = "(event database, audit_error, 'a) act"

definition audit_events_ns :: string where "audit_events_ns = ''audit.events''"

definition event_record :: "event \<Rightarrow> event table_row" where
  "event_record e =
     \<lparr>tr_namespace = audit_events_ns, tr_key = ev_id e, tr_parent = [], tr_owner = ev_actor_id e, tr_secondary = [], tr_data = e\<rparr>"

definition sql_save_event :: "event \<Rightarrow> event audit_sql" where
  "sql_save_event e =
     abind (or_sql (\<lambda>_. AuditOther ''insert audit event'') (rs_insert (event_record e))) (\<lambda>_. aret e)"

definition cmp_newest :: "event \<Rightarrow> event \<Rightarrow> int" where
  "cmp_newest left right =
     (if ev_seq left > ev_seq right then -1 else if ev_seq left < ev_seq right then 1
      else sgn (ev_created_at right - ev_created_at left))"

definition newest_first :: "event list \<Rightarrow> event list" where
  "newest_first events = sort_func cmp_newest events"

definition sql_events_by_actor :: "string \<Rightarrow> event list audit_sql" where
  "sql_events_by_actor actor_id =
     (if actor_id = [] then afail (AuditInvalidInput ''actor id is required'')
      else abind (or_sql (\<lambda>_. AuditOther ''list audit events'') (rs_list Some audit_events_ns None (Some actor_id))) (\<lambda>events.
           aret (newest_first events)))"

definition sql_all_events :: "event list audit_sql" where
  "sql_all_events =
     abind (or_sql (\<lambda>_. AuditOther ''list all audit events'') (rs_list Some audit_events_ns None None)) (\<lambda>events.
     aret (newest_first events))"

definition sql_tail :: "event audit_sql" where
  "sql_tail =
     abind sql_all_events (\<lambda>events.
     case events of [] \<Rightarrow> afail (AuditNotFound ''audit event not found'') | e # _ \<Rightarrow> aret e)"

text \<open>\<open>Record\<close> of the service over this store, whose \<open>Tail\<close> can fail.\<close>

definition sql_audit_record :: "digest \<Rightarrow> record_request \<Rightarrow> string \<Rightarrow> time \<Rightarrow> event audit_sql" where
  "sql_audit_record digest request fresh now =
     abind (aguard (rr_action request \<noteq> []) (AuditInvalidInput ''action is required'')) (\<lambda>_.
     abind (aguard (trim_space (rr_target_type request) \<noteq> []) (AuditInvalidInput ''target type is required'')) (\<lambda>_.
     \<lambda>db. case sql_tail db of (tail, db) \<Rightarrow>
       (case fill_chain digest tail (new_event request fresh now) of
          Inl e \<Rightarrow> (Inl e, db) | Inr e \<Rightarrow> sql_save_event e db)))"

section \<open>The log of the rows\<close>

interpretation event_rows: row_table audit_events_ns event_record Some
  by unfold_locales (simp_all add: event_record_def)

definition logged_events :: "event database \<Rightarrow> event list" where
  "logged_events db = map tr_data (filter (\<lambda>r. tr_namespace r = audit_events_ns) (db_rows db))"

text \<open>The rows hold a chain of at most \<open>n\<close> events; the database gives rows back in some order.\<close>

definition log_chained :: "digest \<Rightarrow> nat \<Rightarrow> event database \<Rightarrow> bool" where
  "log_chained digest n db \<longleftrightarrow> rows_unique (db_rows db) \<and> (\<forall>rows. mset (db_scan db rows) = mset rows) \<and>
     (\<exists>es. table_holds audit_events_ns event_record (db_rows db) (set es) \<and> chained digest 1 [] es \<and> length es \<le> n)"

lemma log_chainedI:
  "rows_unique (db_rows db) \<Longrightarrow> \<forall>rows. mset (db_scan db rows) = mset rows \<Longrightarrow>
   table_holds audit_events_ns event_record (db_rows db) (set es) \<Longrightarrow> chained digest 1 [] es \<Longrightarrow> length es \<le> n \<Longrightarrow>
   log_chained digest n db"
  by (auto simp: log_chained_def)

lemma newest_first_head:
  assumes "chained digest 1 [] es" and "distinct ys" and "set ys = set es"
  shows "newest_first ys = rev es"
proof -
  have seqs: "sorted (map ev_seq es)" "distinct (map ev_seq es)" by (rule chained_sorted [OF assms(1)])+
  have "distinct es" using seqs(2) by (simp add: distinct_map)
  then have perm: "mset ys = mset es" using assms(2,3) set_eq_iff_mset_eq_distinct by blast
  have dseq: "distinct (map ev_seq ys)" using perm seqs(2) by (metis mset_eq_imp_distinct_iff mset_map)
  have "sort_func cmp_newest ys = sort_key (\<lambda>e. - ev_seq e) ys"
    by (rule sort_func_key_on) (use dseq in \<open>auto simp: cmp_newest_def distinct_map inj_on_def sgn_if\<close>)
  also have "\<dots> = rev es"
    by (rule sort_key_inj_key_eq)
      (use perm seqs dseq in \<open>auto simp: distinct_map inj_on_def rev_map sorted_wrt_rev sorted_wrt_map sorted_map\<close>)
  finally show ?thesis by (simp add: newest_first_def)
qed

lemma all_events_reads: "reads_only sql_all_events"
  unfolding sql_all_events_def by (intro reads_bind or_sql_rules record_reads reads_basic)

lemma all_events_chain:
  assumes "table_holds audit_events_ns event_record (db_rows db) (set es)" and "chained digest 1 [] es"
    and "rows_unique (db_rows db)" and "mset (db_scan db (db_rows db)) = mset (db_rows db)"
    and "sql_all_events db = (Inr ys, t)"
  shows "ys = rev es"
proof -
  obtain zs where zs: "rs_list Some audit_events_ns None None (calm db) = (Inr zs, calm db)" "distinct zs" "set zs = set es"
    using event_rows.list_run [OF assms(1,3,4), of None None] by auto
  have "sql_all_events (calm db) = (Inr ys, calm db)" by (rule reads_onlyD(2) [OF all_events_reads assms(5)])
  moreover have "sql_all_events (calm db) = (Inr (newest_first zs), calm db)"
    using zs(1) by (simp add: sql_all_events_def abind_def or_sql_def aret_def)
  ultimately show ?thesis using newest_first_head [OF assms(2) zs(2,3)] by simp
qed

text \<open>What a save does under any fault: nothing, or it puts the row of an event with a new id.\<close>

lemma save_rows:
  assumes "table_holds audit_events_ns event_record (db_rows db) X" and "sql_save_event e db = (r, t)"
  shows "db_scan t = db_scan db" and "db_rows t = db_rows db \<or>
    db_rows t = put_row (event_record e) (db_rows db) \<and> tr_key (event_record e) \<notin> (tr_key \<circ> event_record) ` X"
proof -
  obtain q where q: "rs_insert (event_record e) db = (q, t)"
    using assms(2) by (auto simp: sql_save_event_def abind_def or_sql_def aret_def split: prod.splits sum.splits)
  then have run: "statement (append_row (event_record e)) db = (q, t)" by (simp add: rs_insert_def)
  show "db_scan t = db_scan db" using arg_cong [OF statement_run(1) [OF run], of db_scan] by simp
  have "db_rows t = db_rows db \<or> db_rows t = snd (append_row (event_record e) (db_rows db))"
    using statement_run(2,3) [OF run] by (cases "is_ok q") auto
  moreover have "rs_insert (event_record e) (calm db) = (case append_row (event_record e) (db_rows db) of
      (r, rows) \<Rightarrow> (r, (calm db)\<lparr>db_rows := rows\<rparr>))" by (simp add: rs_insert_def statement_calm)
  ultimately show "db_rows t = db_rows db \<or>
      db_rows t = put_row (event_record e) (db_rows db) \<and> tr_key (event_record e) \<notin> (tr_key \<circ> event_record) ` X"
    using event_rows.insert_run [OF assms(1), of e]
    by (cases "append_row (event_record e) (db_rows db)") (auto split: if_splits dest: arg_cong [where f = db_rows])
qed

lemma record_keeps_log:
  assumes ok: "log_chained digest n db" and small: "int n < 2 ^ 63 - 1"
    and run: "sql_audit_record digest request fresh now db = (r, t)"
  shows "log_chained digest (Suc n) t"
proof -
  obtain es where rows: "rows_unique (db_rows db)" and scan: "\<forall>rows. mset (db_scan db rows) = mset rows"
    and holds: "table_holds audit_events_ns event_record (db_rows db) (set es)"
    and chain: "chained digest 1 [] es" and len: "length es \<le> n"
    using ok by (auto simp: log_chained_def)
  obtain q u where all: "sql_all_events db = (q, u)" by fastforce
  have u: "db_rows u = db_rows db" "db_scan u = db_scan db"
    using reads_onlyD(1) [OF all_events_reads all] by (metis calm_simps(1), metis calm_simps(2))
  consider (same) "db_rows t = db_rows db" "db_scan t = db_scan db"
    | (saved) tail e where "sql_tail db = (tail, u)" "fill_chain digest tail (new_event request fresh now) = Inr e"
        "sql_save_event e u = (r, t)"
    using run u by (auto simp: sql_audit_record_def sql_tail_def abind_def aguard_def all afail_def aret_def
        split: if_splits prod.splits sum.splits list.splits)
  then show ?thesis
  proof cases
    case same
    then show ?thesis using rows scan holds chain len by (intro log_chainedI [of _ es]) simp_all
  next
    case saved
    have save: "db_rows t = db_rows db \<or> db_rows t = put_row (event_record e) (db_rows db) \<and>
        tr_key (event_record e) \<notin> (tr_key \<circ> event_record) ` set es" and t: "db_scan t = db_scan db"
      using save_rows [of u "set es" e r t] holds saved(3) u by simp_all
    have next_event: "chained digest 1 [] (es @ [e])"
    proof (cases q)
      case (Inl x)
      then have "sql_tail db = (Inl x, u)" by (simp add: sql_tail_def abind_def all)
      moreover have "x = AuditOther ''list all audit events''"
        using all Inl by (auto simp: sql_all_events_def abind_def or_sql_def aret_def split: prod.splits sum.splits)
      ultimately show ?thesis using saved(1,2) by (simp add: fill_chain_def)
    next
      case (Inr ys)
      then have ys: "ys = rev es" using all_events_chain [OF holds chain rows] scan all by simp
      have "ev_seq e = 1 + int (length es) \<and> ev_prev_hash e = end_hash [] es \<and> ev_hash e = event_hash digest e"
      proof (cases "es = []")
        case True
        then have "tail = Inl (AuditNotFound ''audit event not found'')"
          using saved(1) by (simp add: sql_tail_def abind_def all Inr ys afail_def)
        then show ?thesis
          using saved(2) True by (auto simp: fill_chain_def Let_def end_hash_def new_event_def event_hash_def event_payload_def)
      next
        case False
        then have "tail = Inr (last es)"
          using saved(1) by (cases "rev es") (auto simp: sql_tail_def abind_def all Inr ys aret_def rev_eq_Cons_iff)
        moreover obtain k where k: "length es = Suc k" using False by (cases es) simp_all
        moreover have "ev_seq (last es) = int (length es)"
          using chained_seqs [OF chain, of k] False by (simp add: last_conv_nth k)
        ultimately show ?thesis
          using saved(2) False len small
          by (auto simp: fill_chain_def Let_def end_hash_def new_event_def event_hash_def event_payload_def int64_id in_int64_def)
      qed
      then show ?thesis using chain by (simp add: chained_append)
    qed
    from save show ?thesis
    proof
      assume "db_rows t = db_rows db"
      then show ?thesis using rows scan holds chain len t by (intro log_chainedI [of _ es]) simp_all
    next
      assume new: "db_rows t = put_row (event_record e) (db_rows db) \<and> tr_key (event_record e) \<notin> (tr_key \<circ> event_record) ` set es"
      then have "table_holds audit_events_ns event_record (db_rows t) (set (es @ [e]))"
        using event_rows.put_new_holds [OF holds, of e] by simp
      moreover have "rows_unique (db_rows t)" using new rows by (simp add: put_row_unique event_record_def)
      ultimately show ?thesis using next_event scan len t by (intro log_chainedI [of _ "es @ [e]"]) simp_all
    qed
  qed
qed

text \<open>A run of recordings, and what it leaves.\<close>

fun sql_record_all :: "digest \<Rightarrow> (record_request \<times> string \<times> time) list \<Rightarrow> event database \<Rightarrow> event database" where
  "sql_record_all digest [] db = db"
| "sql_record_all digest ((request, fresh, now) # rest) db =
     sql_record_all digest rest (snd (sql_audit_record digest request fresh now db))"

lemma sql_record_all_fold:
  "sql_record_all digest rs db = fold (\<lambda>(request, fresh, now) db. snd (sql_audit_record digest request fresh now db)) rs db"
  by (induction digest rs db rule: sql_record_all.induct) simp_all

lemma record_all_keeps_log:
  "log_chained digest n db \<Longrightarrow> int (n + length rs) < 2 ^ 63 - 1 \<Longrightarrow>
   log_chained digest (n + length rs) (sql_record_all digest rs db)"
proof (induction digest rs db arbitrary: n rule: sql_record_all.induct)
  case (2 digest request fresh now rest db)
  obtain r t where run: "sql_audit_record digest request fresh now db = (r, t)" by fastforce
  have "log_chained digest (Suc n) t" by (rule record_keeps_log [OF "2.prems"(1) _ run]) (use "2.prems"(2) in simp)
  then show ?case using "2.IH" [of "Suc n"] "2.prems"(2) run by simp
qed simp

lemma log_chained_verifies:
  assumes "log_chained digest n db"
  shows "verify_chain digest (logged_events db) = Inr ()"
    and "\<exists>es. sql_all_events (calm db) = (Inr es, calm db) \<and> verify_chain digest es = Inr () \<and> mset es = mset (logged_events db)"
proof -
  obtain es where rows: "rows_unique (db_rows db)" and scan: "mset (db_scan db (db_rows db)) = mset (db_rows db)"
    and holds: "table_holds audit_events_ns event_record (db_rows db) (set es)" and chain: "chained digest 1 [] es"
    using assms by (auto simp: log_chained_def)
  have "distinct es" using chained_sorted(2) [OF chain] by (simp add: distinct_map)
  moreover have events: "set (logged_events db) = set es"
  proof -
    have "set (logged_events db) = tr_data ` {r \<in> set (db_rows db). tr_namespace r = audit_events_ns}"
      by (simp add: logged_events_def)
    also have "\<dots> = set es" using holds by (simp add: table_holds_def image_image event_record_def)
    finally show ?thesis .
  qed
  moreover have "distinct (logged_events db)"
  proof -
    have "distinct (filter (\<lambda>r. tr_namespace r = audit_events_ns) (db_rows db))"
      using rows by (auto simp: rows_unique_def distinct_map intro: distinct_filter)
    moreover have "inj_on tr_data (set (filter (\<lambda>r. tr_namespace r = audit_events_ns) (db_rows db)))"
    proof (rule inj_onI)
      fix x y assume xy: "x \<in> set (filter (\<lambda>r. tr_namespace r = audit_events_ns) (db_rows db))"
        "y \<in> set (filter (\<lambda>r. tr_namespace r = audit_events_ns) (db_rows db))" "tr_data x = tr_data y"
      then obtain e f where "x = event_record e" "y = event_record f"
        using event_rows.in_rows [OF holds, of x] event_rows.in_rows [OF holds, of y] by auto
      then show "x = y" using xy(3) by (simp add: event_record_def)
    qed
    ultimately show ?thesis by (simp add: logged_events_def distinct_map)
  qed
  ultimately have perm: "mset (logged_events db) = mset es" using set_eq_iff_mset_eq_distinct by blast
  then show "verify_chain digest (logged_events db) = Inr ()" by (rule verify_chain_perm [OF chain])
  obtain r t where all: "sql_all_events (calm db) = (r, t)" by fastforce
  have "is_ok r"
    using event_rows.list_run [OF holds rows scan, of None None] all
    by (auto simp: sql_all_events_def abind_def or_sql_def aret_def)
  then obtain ys where ys: "sql_all_events (calm db) = (Inr ys, t)" using all by (auto simp: is_ok_iff)
  then have "ys = rev es" using all_events_chain [of "calm db" es digest ys t] holds chain rows scan by simp
  moreover have "t = calm db" using reads_onlyD(2) [OF all_events_reads ys] ys by simp
  moreover have "verify_chain digest (rev es) = Inr ()" by (rule verify_chain_perm [OF chain]) simp
  ultimately show "\<exists>es. sql_all_events (calm db) = (Inr es, calm db) \<and> verify_chain digest es = Inr () \<and>
      mset es = mset (logged_events db)"
    using ys perm by simp
qed

end
