(* ===== verification/Import_SQL.thy ===== *)
theory Import_SQL
  imports Record_Faults Import_Store
begin

text \<open>
  Import batches in SQL rows (\<open>imports/sql_store.go\<close>). The namespace holds batches only, which are the documents;
  the secondary key is made of user, source and hash, so the database itself keeps a batch from being stored
  twice.
\<close>

section \<open>The store\<close>

type_synonym 'a import_sql = "(batch database, import_error, 'a) act"

definition import_batches_ns :: string where "import_batches_ns = ''imports.batches''"

definition batch_lookup_key :: "string \<Rightarrow> string \<Rightarrow> string \<Rightarrow> string" where
  "batch_lookup_key user_id source source_hash = join_key [user_id, source, source_hash]"

definition batch_record :: "batch \<Rightarrow> batch table_row" where
  "batch_record b =
     \<lparr>tr_namespace = import_batches_ns, tr_key = ib_id b, tr_parent = [], tr_owner = ib_user_id b,
      tr_secondary = batch_lookup_key (ib_user_id b) (ib_source b) (ib_source_hash b), tr_data = b\<rparr>"

definition sql_save_batch :: "batch \<Rightarrow> batch import_sql" where
  "sql_save_batch b =
     abind (or_sql (\<lambda>_. ImportOther ''save import batch'') (rs_upsert (batch_record b))) (\<lambda>_. aret b)"

text \<open>When the insertion fails, another request may have stored the batch in the meantime; it is looked up again.\<close>

definition sql_save_batch_if_absent :: "batch \<Rightarrow> (batch \<times> bool) import_sql" where
  "sql_save_batch_if_absent b db =
     (let key = batch_lookup_key (ib_user_id b) (ib_source b) (ib_source_hash b) in
      case rs_get_by_secondary Some import_batches_ns key db of
        (Inr existing, db) \<Rightarrow> (Inr (existing, False), db)
      | (Inl e, db) \<Rightarrow>
          if e \<noteq> SqlNoRows then (Inl (ImportOther ''load import batch by hash''), db)
          else (case rs_insert (batch_record b) db of
              (Inr _, db) \<Rightarrow> (Inr (b, True), db)
            | (Inl _, db) \<Rightarrow>
                (case rs_get_by_secondary Some import_batches_ns key db of
                   (Inr existing, db) \<Rightarrow> (Inr (existing, False), db)
                 | (Inl _, db) \<Rightarrow> (Inl (ImportOther ''insert import batch''), db))))"

definition sql_batch :: "string \<Rightarrow> string \<Rightarrow> batch import_sql" where
  "sql_batch user_id batch_id =
     abind (or_sql (\<lambda>e. if e = SqlNoRows then ImportNotFound ''import batch not found'' else ImportOther ''load import batch'')
       (rs_get Some import_batches_ns batch_id)) (\<lambda>b.
     abind (aguard (ib_user_id b = user_id) (ImportNotFound ''import batch not found'')) (\<lambda>_. aret b))"

definition sql_batch_by_hash :: "string \<Rightarrow> string \<Rightarrow> string \<Rightarrow> batch import_sql" where
  "sql_batch_by_hash user_id source source_hash =
     or_sql (\<lambda>e. if e = SqlNoRows then ImportNotFound ''import batch not found'' else ImportOther ''load import batch by hash'')
       (rs_get_by_secondary Some import_batches_ns (batch_lookup_key user_id source source_hash))"

section \<open>One batch per upload\<close>

lemma batch_record_simps [simp]:
  "tr_namespace (batch_record b) = import_batches_ns" "tr_data (batch_record b) = b" "tr_key (batch_record b) = ib_id b"
  "tr_secondary (batch_record b) = batch_lookup_key (ib_user_id b) (ib_source b) (ib_source_hash b)"
  by (simp_all add: batch_record_def)

lemma lookup_key_not_empty: "batch_lookup_key u src h \<noteq> []"
  by (simp add: batch_lookup_key_def join_key_def)

lemma lookup_key_inject: "batch_lookup_key u src h = batch_lookup_key v src' h' \<longleftrightarrow> u = v \<and> src = src' \<and> h = h'"
  using join_key_inject [of "[u, src, h]" "[v, src', h']"] by (auto simp: batch_lookup_key_def)

definition batch_rows_ok :: "batch database \<Rightarrow> bool" where
  "batch_rows_ok db \<longleftrightarrow> rows_unique (db_rows db) \<and> (\<forall>rows. mset (db_scan db rows) = mset rows) \<and>
     list_all (\<lambda>r. tr_namespace r = import_batches_ns \<longrightarrow> r = batch_record (tr_data r)) (db_rows db)"

lemma unique_secondaryD:
  assumes "rows_unique rows" and "r \<in> set rows" and "q \<in> set rows"
    and "tr_namespace r = tr_namespace q" and "tr_secondary r = tr_secondary q" and "tr_secondary r \<noteq> []"
  shows "r = q"
proof -
  have "inj_on (\<lambda>r. (tr_namespace r, tr_secondary r)) {r \<in> set rows. tr_secondary r \<noteq> []}"
    using assms(1) by (simp add: rows_unique_def distinct_map)
  then show ?thesis using assms(2-) by (simp add: inj_on_def)
qed

definition found_batch :: "string \<Rightarrow> batch database \<Rightarrow> batch table_row option" where
  "found_batch key db = find (\<lambda>r. tr_namespace r = import_batches_ns \<and> tr_secondary r = key) (db_scan db (db_rows db))"

lemma found_batchD:
  assumes "batch_rows_ok db" and "found_batch key db = Some r"
  shows "r \<in> set (db_rows db)" and "r = batch_record (tr_data r)" and "tr_secondary r = key"
proof -
  have "set (db_scan db (db_rows db)) = set (db_rows db)" using assms(1) mset_eq_setD by (auto simp: batch_rows_ok_def)
  then show r: "r \<in> set (db_rows db)" using assms(2) by (auto simp: found_batch_def find_Some_iff)
  have "tr_namespace r = import_batches_ns" and "tr_secondary r = key"
    using assms(2) by (auto simp: found_batch_def find_Some_iff)
  then show "r = batch_record (tr_data r)" "tr_secondary r = key"
    using assms(1) r by (auto simp: batch_rows_ok_def list_all_iff)
qed

lemma found_batch_stored:
  assumes "batch_rows_ok db" and "batch_record x \<in> set (db_rows db)"
  shows "found_batch (batch_lookup_key (ib_user_id x) (ib_source x) (ib_source_hash x)) db = Some (batch_record x)"
proof -
  let ?key = "batch_lookup_key (ib_user_id x) (ib_source x) (ib_source_hash x)"
  have "set (db_scan db (db_rows db)) = set (db_rows db)" using assms(1) mset_eq_setD by (auto simp: batch_rows_ok_def)
  then have "found_batch ?key db \<noteq> None" using assms(2) by (auto simp: found_batch_def find_None_iff intro!: exI [of _ "batch_record x"])
  then obtain r where r: "found_batch ?key db = Some r" by blast
  note facts = found_batchD [OF assms(1) r]
  have "r = batch_record x"
    using unique_secondaryD [of "db_rows db" r "batch_record x"] assms facts lookup_key_not_empty
    by (metis batch_record_simps(1,4) batch_rows_ok_def)
  then show ?thesis using r by simp
qed

lemma lookup_run:
  assumes "rs_get_by_secondary Some import_batches_ns key db = (r, t)"
  shows "db_rows t = db_rows db" and "db_scan t = db_scan db" and "r = Inr x \<Longrightarrow> \<exists>q. found_batch key db = Some q \<and> tr_data q = x"
proof -
  have "calm t = calm db" by (rule reads_onlyD(1) [OF record_reads(3) assms])
  then show "db_rows t = db_rows db" "db_scan t = db_scan db" by (metis calm_simps(1), metis calm_simps(2))
  assume "r = Inr x"
  then have "rs_get_by_secondary Some import_batches_ns key (calm db) = (Inr x, calm db)"
    using reads_onlyD(2) [OF record_reads(3), of Some import_batches_ns key db x t] assms by simp
  then show "\<exists>q. found_batch key db = Some q \<and> tr_data q = x"
    by (auto simp: rs_get_by_secondary_def statement_calm scan_json_def found_batch_def split: option.splits)
qed

lemma insert_batch_run:
  assumes ok: "batch_rows_ok db" and run: "rs_insert (batch_record b) db = (r, t)"
  shows "batch_rows_ok t" and "r = Inr u \<Longrightarrow> batch_record b \<in> set (db_rows t)"
proof -
  have s: "statement (append_row (batch_record b)) db = (r, t)" using run by (simp add: rs_insert_def)
  have "db_scan t = db_scan db" using arg_cong [OF statement_run(1) [OF s], of db_scan] by simp
  moreover have "rows_unique (db_rows t)"
    using keepsD [OF record_operations_keep(2) _ run] ok by (simp add: batch_rows_ok_def)
  moreover have rows: "db_rows t = db_rows db \<or> db_rows t = snd (append_row (batch_record b) (db_rows db))"
    using statement_run(2,3) [OF s] by (cases "is_ok r") auto
  ultimately show "batch_rows_ok t" using ok by (auto simp: batch_rows_ok_def append_row_def)
  show "batch_record b \<in> set (db_rows t)" if "r = Inr u"
    using statement_run(2) [OF s] that by (auto simp: append_row_def split: if_splits dest!: sym [of "db_rows db @ _"])
qed

text \<open>The answer is the batch that is stored under the key of the upload, whatever fails.\<close>

lemma save_if_absent_stored:
  assumes ok: "batch_rows_ok db" and run: "sql_save_batch_if_absent b db = (r, t)"
  shows "batch_rows_ok t" and "r = Inr (x, created) \<Longrightarrow>
    batch_record x \<in> set (db_rows t) \<and> ib_user_id x = ib_user_id b \<and> ib_source x = ib_source b \<and> ib_source_hash x = ib_source_hash b"
proof -
  let ?key = "batch_lookup_key (ib_user_id b) (ib_source b) (ib_source_hash b)"
  have looked: "batch_rows_ok u \<and> (q = Inr y \<longrightarrow> batch_record y \<in> set (db_rows u) \<and>
      ib_user_id y = ib_user_id b \<and> ib_source y = ib_source b \<and> ib_source_hash y = ib_source_hash b)"
    if ok: "batch_rows_ok d" and lookup: "rs_get_by_secondary Some import_batches_ns ?key d = (q, u)" for d q u y
  proof (intro conjI impI)
    show "batch_rows_ok u" using ok lookup_run(1,2) [OF lookup] by (simp add: batch_rows_ok_def)
    assume "q = Inr y"
    then obtain row where row: "found_batch ?key d = Some row" "tr_data row = y" using lookup_run(3) [OF lookup] by blast
    note facts = found_batchD [OF ok row(1)]
    show "batch_record y \<in> set (db_rows u)" using facts(1,2) row(2) lookup_run(1) [OF lookup] by simp
    have "tr_secondary (batch_record y) = ?key" using facts(2,3) row(2) by metis
    then show "ib_user_id y = ib_user_id b" "ib_source y = ib_source b" "ib_source_hash y = ib_source_hash b"
      by (simp_all add: lookup_key_inject)
  qed
  obtain q1 u1 where first: "rs_get_by_secondary Some import_batches_ns ?key db = (q1, u1)" by fastforce
  obtain q2 u2 where insertion: "rs_insert (batch_record b) u1 = (q2, u2)" by fastforce
  obtain q3 u3 where again: "rs_get_by_secondary Some import_batches_ns ?key u2 = (q3, u3)" by fastforce
  have ok1: "batch_rows_ok u1" using looked [OF ok first] by blast
  have ok2: "batch_rows_ok u2" by (rule insert_batch_run(1) [OF ok1 insertion])
  have ok3: "batch_rows_ok u3" using looked [OF ok2 again] by blast
  show "batch_rows_ok t"
    using run ok1 ok2 ok3 by (auto simp: sql_save_batch_if_absent_def first insertion again split: sum.splits if_splits)
  show "batch_record x \<in> set (db_rows t) \<and> ib_user_id x = ib_user_id b \<and> ib_source x = ib_source b \<and> ib_source_hash x = ib_source_hash b"
    if "r = Inr (x, created)"
    using run that looked [OF ok first, of x] looked [OF ok2 again, of x] insert_batch_run(2) [OF ok1 insertion]
    by (auto simp: sql_save_batch_if_absent_def first insertion again split: sum.splits if_splits)
qed

lemma save_batch_atomic: "all_or_nothing (sql_save_batch b)"
  unfolding sql_save_batch_def by (rule atomic_then, intro atomic_rules)

lemma stored_found:
  assumes "batch_rows_ok t" and "batch_record x \<in> set (db_rows t)"
  shows "sql_batch_by_hash (ib_user_id x) (ib_source x) (ib_source_hash x) (calm t) = (Inr x, calm t)"
  using found_batch_stored [OF assms]
  by (simp add: sql_batch_by_hash_def or_sql_def rs_get_by_secondary_def statement_calm scan_json_def found_batch_def calm_same)

lemma distinct_single: "distinct xs \<Longrightarrow> set xs = {x} \<Longrightarrow> xs = [x]"
  by (cases xs; cases "tl xs") auto

lemma stored_only:
  assumes "batch_rows_ok t" and "batch_record x \<in> set (db_rows t)"
  shows "filter (\<lambda>r. tr_namespace r = import_batches_ns \<and>
    tr_secondary r = batch_lookup_key (ib_user_id x) (ib_source x) (ib_source_hash x)) (db_rows t) = [batch_record x]"
proof -
  let ?P = "\<lambda>r. tr_namespace r = import_batches_ns \<and>
    tr_secondary r = batch_lookup_key (ib_user_id x) (ib_source x) (ib_source_hash x)"
  have "r = batch_record x" if "r \<in> set (filter ?P (db_rows t))" for r
    using that assms unique_secondaryD [of "db_rows t" r "batch_record x"] lookup_key_not_empty by (simp add: batch_rows_ok_def)
  moreover have "batch_record x \<in> set (filter ?P (db_rows t))" using assms(2) by simp
  ultimately have "set (filter ?P (db_rows t)) = {batch_record x}" by blast
  moreover have "distinct (filter ?P (db_rows t))"
    using assms(1) by (auto simp: batch_rows_ok_def rows_unique_def distinct_map intro: distinct_filter)
  ultimately show ?thesis by (rule distinct_single [rotated])
qed

end
