(* ===== verification/SQL_Properties.thy ===== *)
theory SQL_Properties
  imports Ledger_Refinement Auth_SQL Audit_SQL Import_SQL Ledger_Sample
begin

text \<open>
  The properties of the SQL stores, with their witnesses: what faults can do to their writes, that the ledger's store
  does what the store in memory does, the counters, the audit log and the import batches.
\<close>

section \<open>Faults\<close>


section \<open>The ledger\<close>

text \<open>The rows of the sample store.\<close>

definition sample_rows :: "ledger_row list" where "sample_rows = seed_records (snapshot sample_store)"

definition sample_database :: "ledger_value database" where
  "sample_database = \<lparr>db_rows = sample_rows, db_outcomes = [Works, Fails], db_in_tx = False, db_scan = rev\<rparr>"

lemma sample_rows_unfold:
  "sample_rows = [book_record (snd (ms_books sample_store ! 0)), member_record (sample_member ''m'' RoleMember),
     member_record (sample_member ''o'' RoleOwner), member_record (sample_member ''v'' RoleViewer),
     entry_record sample_entry, category_record (sample_category ''c'' []), category_record (sample_category ''d'' ''c''),
     account_record (sample_account ''a'' ''m'' [''b'']), account_record (sample_account ''x'' ''v'' [])]"
proof -
  have "sd_books (snapshot sample_store) = [snd (ms_books sample_store ! 0)]"
    "sd_members (snapshot sample_store) = [sample_member ''m'' RoleMember, sample_member ''o'' RoleOwner, sample_member ''v'' RoleViewer]"
    "sd_rates (snapshot sample_store) = []" by code_simp+
  then show ?thesis by (simp add: sample_rows_def seed_records_def snapshot_def sample_store_def)
qed

lemma sample_represents: "represents (db_rows sample_database) sample_store"
proof -
  have keys: "bk_id (snd (ms_books sample_store ! 0)) = ''b''" "bm_book_id (sample_member u r) = ''b''" "bm_user_id (sample_member u r) = u"
    "en_id sample_entry = ''e''" "ct_id (sample_category i p) = i" "ac_id (sample_account i u books) = i" for u r i p books
    by (simp_all add: sample_store_def sample_member_def sample_entry_def sample_category_def sample_account_def)
  have data: "books_of sample_store = {snd (ms_books sample_store ! 0)}"
    "members_of sample_store = {sample_member ''m'' RoleMember, sample_member ''o'' RoleOwner, sample_member ''v'' RoleViewer}"
    "ms_entries sample_store = [sample_entry]" "ms_categories sample_store = [sample_category ''c'' [], sample_category ''d'' ''c'']"
    "ms_groups sample_store = []" "ms_rates sample_store = []"
    "ms_accounts sample_store = [sample_account ''a'' ''m'' [''b''], sample_account ''x'' ''v'' []]"
    by (auto simp: sample_store_def books_of_def members_of_def)
  have rows: "db_rows sample_database = sample_rows" by (simp add: sample_database_def)
  have "rows_unique sample_rows"
    unfolding sample_rows_unfold by (simp add: rows_unique_def keys ledger_ns)
  moreover have "table_holds ns pack sample_rows X \<longleftrightarrow>
      {r \<in> set sample_rows. tr_namespace r = ns} = pack ` X" for ns :: string and pack :: "'a \<Rightarrow> ledger_row" and X
    by (simp add: table_holds_def)
  ultimately show ?thesis
    unfolding represents_def rows data table_holds_def sample_rows_unfold
    by (intro conjI sample_store_ok) (auto simp: ledger_ns)
qed

text \<open>C7. When no statement fails and the rows hold the data of a store in memory, every write of the SQL store answers as
  the store in memory does, with the same value or an error in both, and leaves rows that hold the data
  of the store in memory afterwards: the SQL store refines the one all handlers are verified on. An update has to
  keep an entry or category in its book and to name an existing book, which the handlers see to: the SQL
  store checks neither.\<close>

theorem sql_ledger_writes_refine:
  assumes "represents (db_rows db) s" and "\<not> db_in_tx db" and "\<forall>rows. mset (db_scan db rows) = mset rows"
    and "\<forall>x \<in> set (ms_entries s). en_id x = en_id e \<longrightarrow> en_book_id x = en_book_id e"
    and "\<forall>x \<in> set (ms_categories s). ct_id x = ct_id c \<longrightarrow> ct_book_id x = ct_book_id c"
    and "book_at s (bm_book_id m) \<noteq> None" and "distinct (map er_currency rates)"
  shows "agrees (st_create_book b owner cs) (sql_create_book b owner cs) db s \<and>
    agrees (st_update_book b) (sql_update_book b) db s \<and>
    agrees (st_create_book_member n) (sql_create_book_member n) db s \<and>
    agrees (st_update_book_member m) (sql_update_book_member m) db s \<and>
    agrees (st_delete_book_member i u) (sql_delete_book_member i u) db s \<and>
    agrees (st_create_entry parse d) (sql_create_entry parse d) db s \<and>
    agrees (st_update_entry e) (sql_update_entry e) db s \<and>
    agrees (st_delete_entry i j) (sql_delete_entry i j) db s \<and>
    agrees (st_create_category d') (sql_create_category d') db s \<and>
    agrees (st_update_category c) (sql_update_category c) db s \<and>
    agrees (st_create_account_group g) (sql_create_account_group g) db s \<and>
    agrees (st_update_account_group g) (sql_update_account_group g) db s \<and>
    agrees (st_create_account a) (sql_create_account a) db s \<and>
    agrees (st_update_account a) (sql_update_account a) db s \<and>
    agrees (st_replace_exchange_rates rates) (sql_replace_exchange_rates rates) db s"
  unfolding sql_create_category_def sql_update_category_def sql_create_account_group_def sql_update_account_group_def
    sql_create_account_def sql_update_account_def
  by (intro conjI create_book_agrees update_book_agrees create_book_member_agrees update_book_member_agrees
      delete_book_member_agrees create_entry_agrees update_entry_agrees delete_entry_agrees replace_rates_agrees
      refined_categories.create_agrees refined_categories.update_agrees refined_groups.create_agrees refined_groups.update_agrees
      refined_accounts.create_agrees refined_accounts.update_agrees assms) simp_all

theorem sql_ledger_writes_refine_witness:
  "agrees (st_delete_entry ''b'' ''e'') (sql_delete_entry ''b'' ''e'') sample_database sample_store \<and>
   is_ok (fst (st_delete_entry ''b'' ''e'' sample_store))"
proof -
  have "agrees (st_delete_entry ''b'' ''e'') (sql_delete_entry ''b'' ''e'') sample_database sample_store"
    using sql_ledger_writes_refine [OF sample_represents, of sample_entry "sample_category ''c'' []"
        "sample_member ''m'' RoleOwner" "[]"]
    by (simp add: sample_database_def sample_store_def book_at_def sample_member_def sample_category_def)
  moreover have "is_ok (fst (st_delete_entry ''b'' ''e'' sample_store))" by code_simp
  ultimately show ?thesis ..
qed



section \<open>Counters\<close>



section \<open>The audit log\<close>

text \<open>C9. A log in SQL rows that starts empty verifies after any recordings that do not overlap, however the statements
  behind them fail: an event whose insertion is reported as failed though it was carried out is continued
  by the next one. The listing of all events verifies, too, in whatever order the rows come back.\<close>

theorem sql_audit_log_verifies:
  assumes "logged_events db = []" and "rows_unique (db_rows db)" and "\<forall>rows. mset (db_scan db rows) = mset rows"
    and "int (length requests) < 2 ^ 63 - 1"
    and "t = fold (\<lambda>(request, fresh, now) db. snd (sql_audit_record digest request fresh now db)) requests db"
  shows "verify_chain digest (logged_events t) = Inr () \<and>
    (\<exists>es. sql_all_events (calm t) = (Inr es, calm t) \<and> verify_chain digest es = Inr () \<and> mset es = mset (logged_events t))"
proof -
  have "table_holds audit_events_ns event_record (db_rows db) (set [])"
    using assms(1) by (auto simp: table_holds_def logged_events_def filter_empty_conv)
  then have "log_chained digest 0 db" using assms(2,3) by (intro log_chainedI [of _ "[]"]) simp_all
  then have "log_chained digest (0 + length requests) (sql_record_all digest requests db)"
    using assms(4) by (intro record_all_keeps_log) simp_all
  then show ?thesis
    using log_chained_verifies [of digest "length requests" t] by (simp add: assms(5) sql_record_all_fold)
qed

definition sample_action :: "string \<Rightarrow> record_request" where
  "sample_action u = \<lparr>rr_actor_id = u, rr_actor_email = [], rr_action = ''login'', rr_target_type = ''user'', rr_target_id = u, rr_metadata = []\<rparr>"

definition sample_log_database :: "event database" where
  "sample_log_database = \<lparr>db_rows = [], db_outcomes = [Works, AnswerLost, Works, Works], db_in_tx = False, db_scan = rev\<rparr>"

theorem sql_audit_log_verifies_witness:
  "verify_chain (\<lambda>p. hp_prev_hash p @ hp_id p) (logged_events
     (snd (sql_audit_record (\<lambda>p. hp_prev_hash p @ hp_id p) (sample_action ''v'') ''j'' 4
     (snd (sql_audit_record (\<lambda>p. hp_prev_hash p @ hp_id p) (sample_action ''u'') ''i'' 3 sample_log_database))))) = Inr () \<and>
   \<not> is_ok (fst (sql_audit_record (\<lambda>p. hp_prev_hash p @ hp_id p) (sample_action ''u'') ''i'' 3 sample_log_database))"
proof (rule conjI)
  show "verify_chain (\<lambda>p. hp_prev_hash p @ hp_id p) (logged_events
     (snd (sql_audit_record (\<lambda>p. hp_prev_hash p @ hp_id p) (sample_action ''v'') ''j'' 4
     (snd (sql_audit_record (\<lambda>p. hp_prev_hash p @ hp_id p) (sample_action ''u'') ''i'' 3 sample_log_database))))) = Inr ()"
    by (rule sql_audit_log_verifies [of sample_log_database "[(sample_action ''u'', ''i'', 3), (sample_action ''v'', ''j'', 4)]",
          OF _ _ _ _ refl, THEN conjunct1, simplified])
      (simp_all add: sample_log_database_def logged_events_def rows_unique_def)
  show "\<not> is_ok (fst (sql_audit_record (\<lambda>p. hp_prev_hash p @ hp_id p) (sample_action ''u'') ''i'' 3 sample_log_database))"
    by code_simp
qed

section \<open>Import batches\<close>

text \<open>C31. An upload that the SQL store of imports accepts is answered with the batch of its user, source and hash that the
  rows hold, the one and only: looking it up finds it again. That holds whatever statements fail, and also when
  the insertion is carried out but reported as failed, and in every order of the rows.\<close>

theorem sql_upload_stored_once:
  assumes "batch_rows_ok db" and "sql_save_batch_if_absent b db = (Inr (x, created), t)"
  shows "batch_rows_ok t \<and> ib_user_id x = ib_user_id b \<and> ib_source x = ib_source b \<and> ib_source_hash x = ib_source_hash b \<and>
    filter (\<lambda>r. same_secondary r (batch_record b)) (db_rows t) = [batch_record x] \<and>
    sql_batch_by_hash (ib_user_id b) (ib_source b) (ib_source_hash b) (calm t) = (Inr x, calm t)"
  using save_if_absent_stored [OF assms] stored_only [of t x] stored_found [of t x] by (auto simp: same_secondary_def lookup_key_not_empty)

theorem sql_upload_stored_once_witness:
  "\<exists>x t. sql_save_batch_if_absent (zero_batch\<lparr>ib_id := ''i'', ib_user_id := ''u''\<rparr>)
       \<lparr>db_rows = [], db_outcomes = [Works, AnswerLost], db_in_tx = False, db_scan = rev\<rparr> = (Inr (x, False), t) \<and>
     batch_rows_ok t \<and> ib_id x = ''i'' \<and> sql_batch_by_hash ''u'' [] [] (calm t) = (Inr x, calm t)"
proof -
  let ?b = "zero_batch\<lparr>ib_id := ''i'', ib_user_id := ''u''\<rparr>"
  let ?db = "\<lparr>db_rows = [], db_outcomes = [Works, AnswerLost], db_in_tx = False, db_scan = rev\<rparr> :: batch database"
  have ok: "batch_rows_ok ?db" by (simp add: batch_rows_ok_def rows_unique_def)
  obtain t where run: "sql_save_batch_if_absent ?b ?db = (Inr (?b, False), t)"
    by (simp add: sql_save_batch_if_absent_def rs_get_by_secondary_def rs_insert_def statement_def next_outcome_def scan_json_def
        append_row_def Let_def)
  show ?thesis using run sql_upload_stored_once [OF ok run] by (auto simp: zero_batch_def)
qed

end
