(* ===== verification/Spec2Isabelle.thy ===== *)
theory Spec2Isabelle
  imports Ledger_Properties Amount_Properties Tree_Properties Storage_Properties Secret_Properties Auth_Properties
    Import_Properties Restart_Properties Http_Properties SQL_Properties
begin

text \<open>
  A model of the Go backend of Accounting, a server for the shared books of a household
  (\<open>src/backend/internal\<close>), and the theorems that make its core correct. Paths below are relative to
  that directory.

  \<^bold>\<open>The program.\<close> The package \<open>ledger\<close> holds books with members and roles, personal accounts shared with
  books, category trees and entries, and answers summaries converted between currencies. The package
  \<open>auth\<close> registers users, logs them in with password, second factor, passkey or external sign-on, and
  keeps their sessions. The package \<open>imports\<close> reads exports of the app Wacai into batches of checked rows, which a
  route applies to a book of the ledger. The package \<open>audit\<close> records what was done in a hash chain. Each keeps its data in a
  memory store, which a file store saves as a JSON snapshot after every write (\<open>persistence\<close>), or in SQL.
  The package \<open>httpserver\<close> puts routes on them: it authenticates a request by its session, calls one handler
  of \<open>ledger\<close>, \<open>auth\<close> or \<open>imports\<close>, and records an event of \<open>audit\<close>; attempts to log in pass a rate limiter first.

  \<^bold>\<open>How code is modelled.\<close> A struct is a record, an enumeration a datatype; a Go string is a list of bytes, a
  map an association list, an \<open>int\<close> an integer on which the wrap-around \<open>int64\<close> is written out where values
  can leave the range. A function that returns an error is a sum, a method that changes its store an
  \<open>act\<close>, which returns the state with the error too, because Go undoes nothing (\<open>Effects\<close>). The methods of a
  store hold its lock throughout, so each is one atomic step; a handler composes steps in the order of the
  source. The clock, random values and fresh identifiers are arguments. What the code takes from outside the
  repository is an argument as well, with its documented behaviour as hypotheses of the theorems that need it:
  SHA-256, Argon2id, PBKDF2, AES-GCM, the mail-address, UUID, TOTP and WebAuthn libraries, JSON, CSV,
  zip and XML decoding, the parsing of decimal fractions and dates, the file system, case folding outside ASCII.

  \<^bold>\<open>The theories and the code.\<close>

  \<^item> \<open>Prelude\<close>, \<open>Effects\<close>, \<open>Triples\<close>: the parts of Go's standard library that the source calls (\<open>strings\<close>,
    \<open>slices\<close>, \<open>time\<close>, 64-bit integers), results and operations on state, and Hoare triples for them.
    \<open>Encodings\<close>: base64, hex and decimal text.
  \<^item> \<open>Money\<close> (\<open>ledger/money.go\<close>), \<open>Rates\<close> (\<open>ledger/rates.go\<close>), \<open>Pagination\<close> (\<open>ledger/pagination.go\<close> and the
    listing loops of \<open>httpserver/import_routes.go\<close>). \<open>Looping\<close>: operations on state that contain loops.
  \<^item> \<open>Ledger_Model\<close> (\<open>ledger/model.go\<close>), \<open>Ledger_Store\<close> (\<open>ledger/store.go\<close>), \<open>Ledger_Books\<close>
    (\<open>ledger/books.go\<close>), \<open>Ledger_Accounts\<close> and \<open>Ledger_Categories\<close> (\<open>ledger/accounts_categories.go\<close>),
    \<open>Ledger_Entries\<close> (\<open>ledger/entries.go\<close>), \<open>Ledger_Summary\<close> (\<open>ledger/service.go\<close>), \<open>Ledger_Seed\<close>
    (\<open>ledger/seed.go\<close>). \<open>Ledger_Frames\<close> says what each handler leaves alone; \<open>Ledger_Steps\<close> makes the service a
    transition system and proves its invariant; \<open>Ledger_Sample\<close> is the store of the witnesses.
  \<^item> \<open>Durable\<close> (\<open>persistence/jsonfile.go\<close>, \<open>persistence/snapshot.go\<close>), \<open>Ledger_Durable\<close>
    (\<open>ledger/file_store.go\<close>), \<open>Audit_Log\<close> and \<open>Audit_Chain\<close> (package \<open>audit\<close>).
  \<^item> \<open>Password\<close> (\<open>auth/password.go\<close>), \<open>Keyring\<close> (\<open>crypto/keyring/keyring.go\<close>), \<open>Rate_Limiter\<close>
    (\<open>httpserver/auth_rate_limiter.go\<close>).
  \<^item> \<open>Auth_Model\<close> (\<open>auth/model.go\<close>), \<open>Auth_Store\<close> (\<open>auth/store.go\<close>), \<open>Auth_Service\<close> (\<open>auth/service.go\<close>,
    \<open>session.go\<close>, \<open>ids.go\<close>), \<open>Auth_Codes\<close> (\<open>auth/email_codes.go\<close>, \<open>totp.go\<close>), \<open>Auth_Passkeys\<close>
    (\<open>auth/passkeys.go\<close>), \<open>Auth_Durable\<close> (\<open>auth/store_snapshot.go\<close>, \<open>auth/file_store.go\<close>). \<open>Auth_Invariant\<close> proves that every handler keeps the invariant of the store,
    \<open>Auth_Steps\<close> makes the service a transition system, \<open>Auth_Login\<close> takes the handlers apart,
    \<open>Auth_Sample\<close> holds the surroundings of the witnesses.
  \<^item> \<open>Wacai_Text\<close> (the Chinese texts of the source as bytes, and its splitting of lists), \<open>Import_Store\<close>
    (\<open>imports/model.go\<close>, \<open>store.go\<close>, \<open>file_store.go\<close>), \<open>Import_Parse\<close> (\<open>imports/wacai_normalize.go\<close> and the parsing
    in \<open>imports/service.go\<close>), \<open>Import_Service\<close> (\<open>imports/wacai_xlsx.go\<close> and the handlers of \<open>imports/service.go\<close>),
    \<open>Import_Commit\<close> (\<open>httpserver/import_routes.go\<close>, \<open>import_members.go\<close>). \<open>Import_Facts\<close> and \<open>Import_Route\<close> say what
    uploads store, what the rows of a batch write and what the route answers.

  \<^item> \<open>Auth_SSO\<close> (\<open>auth/sso.go\<close>, the validator of external tokens), \<open>Http_Base\<close> (what all routes share:
    \<open>httpserver/api_error.go\<close>, \<open>auth_middleware.go\<close> and the helpers of \<open>routes.go\<close>), \<open>Auth_Routes\<close>
    (\<open>httpserver/auth_routes.go\<close>, \<open>passkey_routes.go\<close>, \<open>user_routes.go\<close>, \<open>audit_routes.go\<close>), \<open>SSO_Routes\<close>
    (\<open>httpserver/auth_sso_routes.go\<close>), \<open>Ledger_Routes\<close> (\<open>httpserver/book_routes.go\<close>, \<open>account_category_routes.go\<close> and
    the entries, summaries and rates of \<open>routes.go\<close>), \<open>Http_Server\<close> (the registration of the routes). Its state
    \<open>http_server\<close> holds the stores of authentication, ledger and audit, the limiter and the validator; a request
    carries the clock, fresh values and the answers of libraries. \<open>Http_Steps\<close> makes the server a transition
    system, \<open>Http_Facts\<close> says which cookies a route can set, \<open>Error_Codes\<close> what the codes of errors look like,
    \<open>Http_Sample\<close> holds the surroundings of the witnesses.

  \<^item> \<open>Record_Store\<close> (\<open>persistence/sql_store.go\<close>): the one table of JSON rows behind all SQL stores, its constraints, and
    what each statement does to it. The database gives rows back in any order (\<open>db_scan\<close>); every statement, and the
    start and the commit of a transaction, works, fails, or is carried out while its answer is lost
    (\<open>db_outcomes\<close>). A value that the database cannot hold is a failing statement. \<open>Record_Faults\<close>: what faults can
    do, the rules that carry it through the stores, and counters; \<open>Record_Tables\<close>: a namespace of the table as a
    set of values. \<open>Ledger_SQL\<close> (\<open>ledger/sql_store.go\<close>), \<open>Auth_SQL\<close> (\<open>auth/sql_store.go\<close>), \<open>Audit_SQL\<close>
    (\<open>audit/sql_store.go\<close>), \<open>Import_SQL\<close> (\<open>imports/sql_store.go\<close>): the stores the server uses with PostgreSQL and
    SQLite. \<open>Ledger_Refinement\<close> compares the ledger's with the store in memory.

  The theories named \<open>..._Properties\<close> hold the properties and their witnesses.

  \<^bold>\<open>Interfaces.\<close> The locale \<open>keyed_table\<close> is what the tables of the ledger's store share, \<open>paged_listing\<close> what
  the reading of a listing page by page needs, \<open>snapshot_store\<close> the contract between a store in memory and
  its file, \<open>audit_store\<close> and \<open>batch_store\<close> the interfaces of the audit and the import service to their stores, \<open>adds_members\<close> and
  \<open>adds_references\<close> what an import asks of the ledger, \<open>base64_alphabet\<close> the two base64
  alphabets, \<open>row_table\<close> what the rows of a package promise to the record store and \<open>refined_table\<close> a table of
  the memory store beside its rows, \<open>write_relation\<close> and \<open>auth_frame\<close> what carries a fact about the calls of a store to all handlers.
  Each is interpreted on the definitions of the model that provide it.

  \<^bold>\<open>What the theorems show.\<close>

  \<^item> The ledger keeps its invariant in every reachable state: every book has exactly one primary owner who is
    a member, indexes agree, category trees are forests, entries refer to visible accounts and to categories of
    their book. Handlers do exactly what they promise and refuse everyone without the role.
  \<^item> Conversions round half away from zero and wrap around outside 64 bits, summaries add up exactly the entries
    of their range, rate tables never give a rate that is not positive.
  \<^item> The walk up a category tree ends; a store rebuilt from a snapshot answers like the one it was taken from.
  \<^item> Saving a file is atomic under faults and stops; acknowledged writes survive a restart; the audit chain
    verifies and shows tampering.
  \<^item> Password hashes and ciphertexts read back; the limiter bounds the attempts of a window.
  \<^item> The authentication store keeps its invariant; a session needs the credentials; wrong passwords lock an
    address for growing times; email codes cannot be searched, TOTP codes not replayed; passkey ceremonies
    are used once; external sign-on binds users to their subject. A saved revocation of sessions survives a restart.
  \<^item> An upload is stored once; a preview holds the first 500 rows, checked. Applying a batch returns, keeps the
    invariant of the ledger and writes what the rows say; asked again it repeats its answer and writes nothing;
    refused midway it leaves the entries written before. Columns of worksheets are not bounded.
  \<^item> The HTTP server answers every request, whatever came before, and moves its parts by their own steps only, so
    their invariants hold at every moment and the audit log only grows. Without a session every route behind
    it answers 401 and changes nothing; only logins set session cookies; requests for codes do not tell who has
    an account; a callback of the external sign-on needs the state of its start and a token that the trusted
    metadata vouch for; lists of audit events go to their owner and to administrators.

  \<^item> The SQL stores: a write changes all or nothing under every fault; without faults the ledger's store answers
    every read and write as the one in memory, so what is shown of the handlers carries over; the audit log verifies
    after recordings whose statements fail; an upload is stored once. Increments of a counter that overlap
    are lost, and with them wrong TOTP codes.

  \<^bold>\<open>Termination, bounds and fuel.\<close> The walk up the parents of a category is a \<open>partial_function (option)\<close>; that it
  returns on every reachable store is a theorem, and so is that the loop that reads a listing page by page, a second
  \<open>partial_function\<close>, returns the whole listing. The third, the search of an applied batch for its entries, is shown to
  end and to find them. Every other loop is structural recursion; there is no fuel. Lists are assumed shorter than
  2^62 (\<open>fits\<close>), as every list in memory is.

  \<^bold>\<open>Not modelled.\<close> Opening the database and its schema but for the constraints, and the relational repositories
  (\<open>ledger/sql_repository.go\<close>, \<open>auth/sql_repository.go\<close>), which only their tests use. Of \<open>httpserver\<close> the multipart upload of
  imports and the JSON of their routes, telemetry, health and runtime configuration, which only print their
  settings, the files of the web client and the wiring of the server. The download of exchange rates, the
  sending of emails and the Turnstile client, which are parameters; configuration, storage drivers, logging; the
  command line client and the web client. JWTs are checked by a library: its contract is \<open>jwt_contract\<close>.
  Requests that overlap inside a handler are modelled only where a theorem is about them
  (recordings of events and increments of a counter); the others are of requests that do not overlap.
\<close>

end
